(* ===== verification/Prelude.thy ===== *)
theory Prelude
  imports Main "HOL-Library.Sublist"
begin

text \<open>
  What the components share: the error type of the Python program and the combinators that run a
  sequence of assertions or of fallible steps; the string operations of the source (Python
  \<open>str\<close> values are kept as UTF-8 byte strings, so that a literal of the source is a list of
  ASCII characters with the named multi-byte constants below); lemmas on sums over lists.
\<close>

section \<open>Errors and fallible steps\<close>

datatype error =
    AssertionError string     \<comment> \<open>an \<open>assert\<close> of the source, with its tag\<close>
  | ValueError string
  | KeyError string
  | IndexError string
  | TypeError string
  | AttributeError string
  | FileNotFoundError string
  | OSError string          \<comment> \<open>a path that is a folder, or goes through a file\<close>
  | ZeroDivisionError string
  | ArithmeticError string  \<comment> \<open>a signal of \<open>decimal\<close>: \<open>InvalidOperation\<close> or \<open>Overflow\<close>\<close>
  | SystemExit string

definition ebind :: "error + 'a \<Rightarrow> ('a \<Rightarrow> error + 'b) \<Rightarrow> error + 'b" where
  "ebind r f = (case r of Inl e \<Rightarrow> Inl e | Inr x \<Rightarrow> f x)"

definition assert_that :: "bool \<Rightarrow> string \<Rightarrow> error + unit" where
  "assert_that c msg = (if c then Inr () else Inl (AssertionError msg))"

text \<open>A block of assertions in source order: the first that fails is the error.\<close>

fun asserts :: "(bool \<times> string) list \<Rightarrow> error + unit" where
  "asserts [] = Inr ()"
| "asserts ((c, msg) # cs) = (if c then asserts cs else Inl (AssertionError msg))"

text \<open>A \<open>for\<close> loop whose body may raise: over a state (\<open>efold\<close>), for effect only (\<open>efor\<close>), or
  building a list (\<open>emap\<close>).\<close>

fun efold :: "('s \<Rightarrow> 'a \<Rightarrow> error + 's) \<Rightarrow> 's \<Rightarrow> 'a list \<Rightarrow> error + 's" where
  "efold f s [] = Inr s"
| "efold f s (x # xs) = ebind (f s x) (\<lambda>s'. efold f s' xs)"

fun efor :: "('a \<Rightarrow> error + unit) \<Rightarrow> 'a list \<Rightarrow> error + unit" where
  "efor f [] = Inr ()"
| "efor f (x # xs) = ebind (f x) (\<lambda>_. efor f xs)"

fun emap :: "('a \<Rightarrow> error + 'b) \<Rightarrow> 'a list \<Rightarrow> error + 'b list" where
  "emap f [] = Inr []"
| "emap f (x # xs) = ebind (f x) (\<lambda>y. ebind (emap f xs) (\<lambda>ys. Inr (y # ys)))"

definition is_ok :: "error + 'a \<Rightarrow> bool" where
  "is_ok r = (case r of Inl _ \<Rightarrow> False | Inr _ \<Rightarrow> True)"

named_theorems err_simps \<open>rewriting of fallible steps\<close>

lemma ebind_simps [simp, err_simps]:
  "ebind (Inl e) f = Inl e" "ebind (Inr x) f = f x"
  by (simp_all add: ebind_def)

lemma ebind_Inr [err_simps]: "ebind r f = Inr y \<longleftrightarrow> (\<exists>x. r = Inr x \<and> f x = Inr y)"
  by (cases r) auto

lemma is_ok_simps [simp]: "\<not> is_ok (Inl e)" "is_ok (Inr x)"
  by (simp_all add: is_ok_def)

lemma is_ok_iff: "is_ok r \<longleftrightarrow> (\<exists>x. r = Inr x)"
  by (cases r) auto

lemma assert_that_Inr [simp, err_simps]: "assert_that c m = Inr u \<longleftrightarrow> c"
  by (simp add: assert_that_def)

lemma asserts_Inr [simp, err_simps]: "asserts cs = Inr u \<longleftrightarrow> list_all fst cs"
  by (induction cs rule: asserts.induct) (auto split: if_splits)

lemma list_all_concat [simp]: "list_all P (concat xss) \<longleftrightarrow> list_all (list_all P) xss"
  by (induction xss) auto

lemma list_all_map [simp]: "list_all P (map f xs) \<longleftrightarrow> list_all (\<lambda>x. P (f x)) xs"
  by (simp add: list.pred_map o_def)

lemma asserts_is_ok [simp]: "is_ok (asserts cs) \<longleftrightarrow> list_all fst cs"
  by (simp add: is_ok_iff)

lemma asserts_append:
  "asserts (xs @ ys) = ebind (asserts xs) (\<lambda>_. asserts ys)"
  by (induction xs) auto

lemma efor_Inr [err_simps]: "efor f xs = Inr u \<longleftrightarrow> (\<forall>x \<in> set xs. f x = Inr ())"
  by (induction xs) (auto simp: ebind_Inr)

lemma efold_append: "efold f s (xs @ ys) = ebind (efold f s xs) (\<lambda>s'. efold f s' ys)"
proof (induction xs arbitrary: s)
  case (Cons x xs)
  then show ?case by (cases "f s x") auto
qed simp

lemma emap_Inr_iff: "emap f xs = Inr ys \<longleftrightarrow> list_all2 (\<lambda>x y. f x = Inr y) xs ys"
  by (induction xs arbitrary: ys) (auto simp: ebind_Inr list_all2_Cons1)

lemma emap_ok: "is_ok (emap f xs) \<longleftrightarrow> (\<forall>x \<in> set xs. is_ok (f x))"
  by (induction xs) (auto simp: is_ok_iff ebind_Inr)

text \<open>An invariant of a loop that may raise.\<close>

lemma efold_invariant:
  assumes "efold f s xs = Inr t" "P s"
    and "\<And>s x s'. P s \<Longrightarrow> x \<in> set xs \<Longrightarrow> f s x = Inr s' \<Longrightarrow> P s'"
  shows "P t"
  using assms
proof (induction xs arbitrary: s)
  case (Cons x xs)
  from Cons.prems(1) obtain s' where step: "f s x = Inr s'" and rest: "efold f s' xs = Inr t"
    by (auto simp: ebind_Inr)
  show ?case
  proof (rule Cons.IH [OF rest])
    show "P s'" by (rule Cons.prems(3) [OF Cons.prems(2) _ step]) simp
  qed (use Cons.prems(3) in auto)
qed simp

section \<open>Sums over lists\<close>

lemma sum_list_map_if_eq:
  fixes f :: "'a \<Rightarrow> int"
  assumes "distinct (map key xs)" "x \<in> set xs"
  shows "sum_list (map (\<lambda>y. if key y = key x then g y else f y) xs) = sum_list (map f xs) + g x - f x"
  using assms
proof (induction xs)
  case (Cons a xs)
  show ?case
  proof (cases "x = a")
    case True
    have "key x \<notin> key ` set xs" using Cons.prems True by simp
    then have "(\<Sum>y\<leftarrow>xs. if key y = key x then g y else f y) = sum_list (map f xs)"
      by (intro arg_cong [where f = sum_list] map_cong) (auto simp: rev_image_eqI)
    with True show ?thesis by simp
  next
    case False
    with Cons.prems have "x \<in> set xs" "key a \<noteq> key x" by auto
    with Cons show ?thesis by simp
  qed
qed simp

lemma sum_list_swap:
  fixes f :: "'a \<Rightarrow> 'b \<Rightarrow> 'c::comm_monoid_add"
  shows "(\<Sum>x\<leftarrow>xs. \<Sum>y\<leftarrow>ys. f x y) = (\<Sum>y\<leftarrow>ys. \<Sum>x\<leftarrow>xs. f x y)"
  by (induction xs) (simp_all add: sum_list_addf)

lemma sum_list_filter_if:
  "sum_list (map f (filter P xs)) = (\<Sum>x\<leftarrow>xs. if P x then f x else (0::'a::comm_monoid_add))"
  by (induction xs) auto

lemma sum_list_compr [simp]:
  "sum_list (concat (map (\<lambda>x. if P x then [f x] else []) xs)) = (\<Sum>x\<leftarrow>xs. if P x then f x else (0::'a::comm_monoid_add))"
  by (induction xs) auto

lemma sum_list_zero_map: "(\<And>x. x \<in> set xs \<Longrightarrow> f x = 0) \<Longrightarrow> (\<Sum>x\<leftarrow>xs. f x) = (0::'a::comm_monoid_add)"
  by (induction xs) auto

lemma sum_list_uminus: "(\<Sum>x\<leftarrow>xs. - f x) = - (\<Sum>x\<leftarrow>xs. f x :: 'a::ab_group_add)"
  by (induction xs) auto

lemma sum_list_pos_neg:
  "(\<Sum>x\<leftarrow>xs. f x) = (\<Sum>x\<leftarrow>xs. if f x > 0 then f x else 0) - (\<Sum>x\<leftarrow>xs. if f x < 0 then - f x else (0::int))"
  by (induction xs) auto

text \<open>The sum of one key's amounts over a list with distinct keys.\<close>

lemma sum_list_indicator:
  assumes "distinct ks" "k \<in> set ks"
  shows "(\<Sum>n\<leftarrow>ks. if k = n then a else (0::'a::comm_monoid_add)) = a"
  using assms
proof (induction ks)
  case (Cons m ks)
  have "(\<Sum>n\<leftarrow>ks. if k = n then a else 0) = 0" if "k \<notin> set ks"
    using that by (induction ks) auto
  with Cons show ?case by auto
qed simp

section \<open>Printing and reading back\<close>

text \<open>
  The contract between a printer and the reader that must recover its value: what \<open>build.py\<close> prints
  in a cell, \<open>check_md.py\<close> reads.
\<close>

locale codec =
  fixes enc :: "'a \<Rightarrow> string" and dec :: "string \<Rightarrow> error + 'a" and valid :: "'a \<Rightarrow> bool"
  assumes dec_enc: "valid x \<Longrightarrow> dec (enc x) = Inr x"
begin

lemma enc_inj: "valid x \<Longrightarrow> valid y \<Longrightarrow> enc x = enc y \<longleftrightarrow> x = y"
  by (metis dec_enc sum.inject(2))

lemma enc_inj_on: "inj_on enc {x. valid x}"
  by (auto simp: inj_on_def enc_inj)

lemma emap_dec_enc: "list_all valid xs \<Longrightarrow> emap dec (map enc xs) = Inr xs"
  by (induction xs) (auto simp: dec_enc)

end

section \<open>Strings\<close>

text \<open>The UTF-8 bytes of the characters beyond ASCII that the source's literals hold.\<close>

abbreviation u_rupee :: string where "u_rupee \<equiv> [CHR 0xE2, CHR 0x82, CHR 0xB9]"
abbreviation u_emdash :: string where "u_emdash \<equiv> [CHR 0xE2, CHR 0x80, CHR 0x94]"
abbreviation u_endash :: string where "u_endash \<equiv> [CHR 0xE2, CHR 0x80, CHR 0x93]"
abbreviation u_minus :: string where "u_minus \<equiv> [CHR 0xE2, CHR 0x88, CHR 0x92]"
abbreviation u_middot :: string where "u_middot \<equiv> [CHR 0xC2, CHR 0xB7]"
abbreviation u_times :: string where "u_times \<equiv> [CHR 0xC3, CHR 0x97]"
abbreviation u_hellip :: string where "u_hellip \<equiv> [CHR 0xE2, CHR 0x80, CHR 0xA6]"
abbreviation u_sigma :: string where "u_sigma \<equiv> [CHR 0xCE, CHR 0xA3]"
abbreviation u_half :: string where "u_half \<equiv> [CHR 0xC2, CHR 0xBD]"

abbreviation nl :: char where "nl \<equiv> CHR 0x0A"

definition starts_with :: "string \<Rightarrow> string \<Rightarrow> bool" where
  "starts_with p s = (take (length p) s = p)"

definition ends_with :: "string \<Rightarrow> string \<Rightarrow> bool" where
  "ends_with p s = (length p \<le> length s \<and> drop (length s - length p) s = p)"

lemma starts_with_Nil [simp]: "starts_with [] s"
  by (simp add: starts_with_def)

lemma starts_with_Cons [simp]:
  "\<not> starts_with (c # p) []" "starts_with (c # p) (d # s) \<longleftrightarrow> c = d \<and> starts_with p s"
  by (auto simp: starts_with_def)

lemma starts_with_hd: "starts_with (c # p) s \<Longrightarrow> c \<in> set s"
  by (cases s) auto

lemma starts_with_prefix: "starts_with p s \<longleftrightarrow> (\<exists>t. s = p @ t)"
  by (auto simp: starts_with_def) (metis append_take_drop_id)

lemma starts_with_append [simp]: "starts_with p (p @ t)"
  by (simp add: starts_with_def)

lemma starts_with_set: "starts_with p s \<Longrightarrow> set p \<subseteq> set s"
  by (auto simp: starts_with_prefix)

text \<open>\<open>s.replace(pat, rep)\<close> (the pattern is never empty in the source).\<close>

function str_replace :: "string \<Rightarrow> string \<Rightarrow> string \<Rightarrow> string" where
  "str_replace pat rep s =
     (case s of [] \<Rightarrow> []
      | c # cs \<Rightarrow>
          if pat \<noteq> [] \<and> starts_with pat s then rep @ str_replace pat rep (drop (length pat) s)
          else c # str_replace pat rep cs)"
  by pat_completeness auto
termination
  by (relation "measure (\<lambda>(pat, rep, s). length s)") auto

declare str_replace.simps [simp del]

lemma str_replace_Nil [simp]: "str_replace pat rep [] = []"
  by (subst str_replace.simps) simp

lemma str_replace_absent:
  assumes "c \<in> set pat" "c \<notin> set s"
  shows "str_replace pat rep s = s"
  using assms(2)
proof (induction s)
  case (Cons x xs)
  have "\<not> starts_with pat (x # xs)"
    using Cons.prems assms(1) starts_with_set by blast
  with Cons show ?case by (subst str_replace.simps) auto
qed simp

text \<open>\<open>sep.join(parts)\<close> and \<open>s.split(sep)\<close> for a one-character separator.\<close>

fun join_str :: "string \<Rightarrow> string list \<Rightarrow> string" where
  "join_str sep [] = []"
| "join_str sep [x] = x"
| "join_str sep (x # y # ys) = x @ sep @ join_str sep (y # ys)"

fun split_on :: "char \<Rightarrow> string \<Rightarrow> string list" where
  "split_on c [] = [[]]"
| "split_on c (x # xs) =
     (if x = c then [] # split_on c xs
      else (case split_on c xs of [] \<Rightarrow> [[x]] | p # ps \<Rightarrow> (x # p) # ps))"

lemma split_on_not_Nil [simp]: "split_on c s \<noteq> []"
  by (induction s) (auto split: list.splits)

lemma split_on_absent: "c \<notin> set s \<Longrightarrow> split_on c s = [s]"
  by (induction s) auto

lemma split_on_append:
  "c \<notin> set s \<Longrightarrow> split_on c (s @ c # t) = s # split_on c t"
  by (induction s) auto

lemma split_on_join:
  assumes "ps \<noteq> []" "\<forall>p \<in> set ps. c \<notin> set p"
  shows "split_on c (join_str [c] ps) = ps"
  using assms
proof (induction "[c]" ps rule: join_str.induct)
  case (3 x y ys)
  then show ?case by (simp add: split_on_append)
qed (simp_all add: split_on_absent)

lemma set_join_str: "set (join_str sep ps) \<subseteq> set sep \<union> \<Union> (set ` set ps)"
  by (induction sep ps rule: join_str.induct) auto

text \<open>\<open>s.strip()\<close>: the ASCII whitespace characters at both ends.\<close>

definition is_space :: "char \<Rightarrow> bool" where
  "is_space c = (c \<in> {CHR '' '', CHR 0x09, CHR 0x0A, CHR 0x0B, CHR 0x0C, CHR 0x0D,
                      CHR 0x1C, CHR 0x1D, CHR 0x1E, CHR 0x1F})"

definition lstrip :: "string \<Rightarrow> string" where
  "lstrip s = dropWhile is_space s"

definition rstrip :: "string \<Rightarrow> string" where
  "rstrip s = rev (dropWhile is_space (rev s))"

definition strip :: "string \<Rightarrow> string" where
  "strip s = rstrip (lstrip s)"

text \<open>\<open>s.split()\<close>: the maximal runs of characters that are not spaces.\<close>

function words :: "string \<Rightarrow> string list" where
  "words s =
     (case lstrip s of [] \<Rightarrow> []
      | c # cs \<Rightarrow> takeWhile (\<lambda>x. \<not> is_space x) (c # cs) # words (dropWhile (\<lambda>x. \<not> is_space x) (c # cs)))"
  by pat_completeness auto
termination
proof (relation "measure length")
  fix s c cs
  assume *: "lstrip s = c # cs"
  then have "\<not> is_space c" by (metis hd_dropWhile list.sel(1) lstrip_def list.distinct(1))
  moreover have "length (c # cs) \<le> length s" by (metis * length_dropWhile_le lstrip_def)
  moreover have "length (dropWhile (\<lambda>x. \<not> is_space x) cs) \<le> length cs" by (rule length_dropWhile_le)
  ultimately show "(dropWhile (\<lambda>x. \<not> is_space x) (c # cs), s) \<in> measure length" by simp
qed simp

declare words.simps [simp del]

text \<open>\<open>s.lower()\<close> and \<open>s.upper()\<close> on ASCII letters.\<close>

definition lower_char :: "char \<Rightarrow> char" where
  "lower_char c = (let n = of_char c :: nat in if 65 \<le> n \<and> n \<le> 90 then char_of (n + 32) else c)"

definition str_lower :: "string \<Rightarrow> string" where
  "str_lower s = map lower_char s"

definition upper_char :: "char \<Rightarrow> char" where
  "upper_char c = (let n = of_char c :: nat in if 97 \<le> n \<and> n \<le> 122 then char_of (n - 32) else c)"

definition str_upper :: "string \<Rightarrow> string" where
  "str_upper s = map upper_char s"

lemma words_Nil [simp]: "words [] = []"
  by (subst words.simps) (simp add: lstrip_def)

lemma words_space: "is_space c \<Longrightarrow> words (c # s) = words s"
  by (subst (1 2) words.simps) (simp add: lstrip_def)

lemma takeWhile_no_space: "list_all (\<lambda>x. \<not> is_space x) w \<Longrightarrow> (s = [] \<or> is_space (hd s)) \<Longrightarrow>
  takeWhile (\<lambda>x. \<not> is_space x) (w @ s) = w \<and> dropWhile (\<lambda>x. \<not> is_space x) (w @ s) = s"
  by (induction w) (cases s; auto)+

lemma words_word:
  assumes "w \<noteq> []" "list_all (\<lambda>x. \<not> is_space x) w" "s = [] \<or> is_space (hd s)"
  shows "words (w @ s) = w # words s"
proof -
  have "lstrip (w @ s) = w @ s" using assms by (cases w) (auto simp: lstrip_def)
  moreover obtain c cs where "w @ s = c # cs" using assms(1) by (cases w) auto
  ultimately show ?thesis using takeWhile_no_space [OF assms(2,3)] by (subst words.simps) auto
qed

lemma lstrip_id: "\<forall>c \<in> set s. \<not> is_space c \<Longrightarrow> lstrip s = s"
  unfolding lstrip_def by (cases s) auto

lemma rstrip_id: "\<forall>c \<in> set s. \<not> is_space c \<Longrightarrow> rstrip s = s"
  using lstrip_id [of "rev s"] by (simp add: rstrip_def lstrip_def)

lemma strip_id_ends:
  assumes "s \<noteq> []" "\<not> is_space (hd s)" "\<not> is_space (last s)"
  shows "strip s = s"
proof -
  have "lstrip s = s" using assms by (cases s) (auto simp: lstrip_def)
  moreover have "rstrip s = s"
  proof -
    have "rev s \<noteq> []" "\<not> is_space (hd (rev s))" using assms by (auto simp: hd_rev)
    then show ?thesis by (cases "rev s") (auto simp: rstrip_def)
  qed
  ultimately show ?thesis by (simp add: strip_def)
qed

lemma strip_id: "\<forall>c \<in> set s. \<not> is_space c \<Longrightarrow> strip s = s"
  by (simp add: strip_def lstrip_id rstrip_id)

end
