(* ===== verification/Money.thy ===== *)
theory Money
  imports Prelude
begin

text \<open>
  Money: integer paise (\<open>build.py\<close>: \<open>R\<close>, \<open>fmt\<close>, \<open>half_up\<close>, \<open>bold\<close>, \<open>side_of\<close>, \<open>amt_side\<close>) and the
  independent reader of printed amounts (\<open>check_md.py\<close>: \<open>clean\<close>, \<open>paise\<close>, \<open>signed\<close>, \<open>fmt_in\<close>).
  Python's unbounded integers are \<open>int\<close>.  The reader inverts the printer on every amount.
\<close>

section \<open>Decimal digits\<close>

definition digit_char :: "int \<Rightarrow> char" where
  "digit_char d = ''0123456789'' ! nat (d mod 10)"

definition digit_val :: "char \<Rightarrow> int option" where
  "digit_val = map_of (zip ''0123456789'' [0, 1, 2, 3, 4, 5, 6, 7, 8, 9])"

definition is_digit :: "char \<Rightarrow> bool" where
  "is_digit c = (digit_val c \<noteq> None)"

text \<open>\<open>str(n)\<close> of a non-negative integer, and of any integer.\<close>

function str_nat :: "int \<Rightarrow> string" where
  "str_nat n = (if n < 10 then [digit_char n] else str_nat (n div 10) @ [digit_char (n mod 10)])"
  by pat_completeness auto
termination
  by (relation "measure nat") (auto simp: nat_less_iff)

declare str_nat.simps [simp del]

definition str_int :: "int \<Rightarrow> string" where
  "str_int n = (if n < 0 then ''-'' @ str_nat (- n) else str_nat n)"

text \<open>\<open>int(s)\<close> of a string of digits.\<close>

definition int_of_digits :: "string \<Rightarrow> int" where
  "int_of_digits s = foldl (\<lambda>v c. v * 10 + (case digit_val c of Some d \<Rightarrow> d | None \<Rightarrow> 0)) 0 s"

text \<open>\<open>"%02d" % n\<close> and \<open>"%03d" % n\<close>: zero padding to a width.\<close>

definition pad0 :: "nat \<Rightarrow> int \<Rightarrow> string" where
  "pad0 w n = (let s = str_nat n in replicate (w - length s) (CHR ''0'') @ s)"

section \<open>build.py: paise and their printed form\<close>

text \<open>\<open>R(rupees, paise=0)\<close>.\<close>

definition R :: "int \<Rightarrow> int" where
  "R rupees = rupees * 100 + 0"

definition R2 :: "int \<Rightarrow> int \<Rightarrow> int" where
  "R2 rupees paise = rupees * 100 + paise"

text \<open>The \<open>while len(head) > 2\<close> loop of \<open>fmt\<close>: pairs of digits from the right.\<close>

function group_head :: "string \<Rightarrow> string list \<Rightarrow> string list" where
  "group_head head parts =
     (if length head > 2
      then group_head (take (length head - 2) head) (drop (length head - 2) head # parts)
      else head # parts)"
  by pat_completeness auto
termination
  by (relation "measure (\<lambda>(head, parts). length head)") auto

declare group_head.simps [simp del]

definition indian_group :: "string \<Rightarrow> string" where
  "indian_group s =
     (if length s > 3
      then join_str '','' (group_head (take (length s - 3) s) []) @ '','' @ drop (length s - 3) s
      else s)"

definition fmt_opt :: "bool \<Rightarrow> bool \<Rightarrow> int \<Rightarrow> string" where
  "fmt_opt dash show_zero p =
     (if p = 0 then (if show_zero then ''0'' else if dash then u_emdash else ''0'')
      else
        let neg = p < 0;
            q = (if neg then - p else p);
            r = q div 100; ps = q mod 100;
            s = indian_group (str_nat r);
            s = (if ps \<noteq> 0 then s @ ''.'' @ pad0 2 ps else s)
        in (if neg then u_minus else '''') @ s)"

abbreviation fmt :: "int \<Rightarrow> string" where
  "fmt \<equiv> fmt_opt True False"

abbreviation fmt0 :: "int \<Rightarrow> string" where   \<comment> \<open>\<open>fmt(p, show_zero=True)\<close>\<close>
  "fmt0 \<equiv> fmt_opt True True"

text \<open>\<open>half_up(numer, denom)\<close>: the assertion is an error.\<close>

definition half_up :: "int \<Rightarrow> int \<Rightarrow> error + int" where
  "half_up numer denom =
     ebind (assert_that (numer \<ge> 0 \<and> denom > 0) ''half_up'')
       (\<lambda>_. Inr ((2 * numer + denom) div (2 * denom)))"

definition bold :: "string \<Rightarrow> string" where
  "bold s = ''**'' @ s @ ''**''"

definition side_of :: "int \<Rightarrow> string" where
  "side_of bal = (if bal > 0 then ''Dr'' else if bal < 0 then ''Cr'' else u_emdash)"

definition amt_side :: "int \<Rightarrow> string" where
  "amt_side bal = fmt0 \<bar>bal\<bar> @ (if bal \<noteq> 0 then '' '' @ side_of bal else '''')"

section \<open>check_md.py: reading printed amounts\<close>

text \<open>\<open>re.sub(open + ".*?" + close, "", s)\<close>: the shortest span, which a newline interrupts.\<close>

function find_after :: "string \<Rightarrow> string \<Rightarrow> string option" where
  "find_after close s =
     (if starts_with close s then Some (drop (length close) s)
      else case s of [] \<Rightarrow> None | c # cs \<Rightarrow> if c = nl then None else find_after close cs)"
  by pat_completeness auto
termination
  by (relation "measure (\<lambda>(close, s). length s)") auto

declare find_after.simps [simp del]

lemma find_after_length: "find_after close s = Some t \<Longrightarrow> length t \<le> length s"
proof (induction close s rule: find_after.induct)
  case (1 close s)
  show ?case
  proof (cases "starts_with close s")
    case True
    with "1.prems" show ?thesis by (auto simp: find_after.simps [of close s])
  next
    case False
    with "1.prems" obtain c cs where "s = c # cs" "c \<noteq> nl" "find_after close cs = Some t"
      by (auto simp: find_after.simps [of close s] split: list.splits if_splits)
    with "1.IH" [OF False] show ?thesis by fastforce
  qed
qed

function remove_span :: "string \<Rightarrow> string \<Rightarrow> string \<Rightarrow> string" where
  "remove_span opn close s =
     (case s of [] \<Rightarrow> []
      | c # cs \<Rightarrow>
          if opn \<noteq> [] \<and> starts_with opn s
          then (case find_after close (drop (length opn) s) of
                  Some t \<Rightarrow> remove_span opn close t
                | None \<Rightarrow> c # remove_span opn close cs)
          else c # remove_span opn close cs)"
  by pat_completeness auto
termination
proof (relation "measure (\<lambda>(opn, close, s). length s)")
  fix opn close s c cs and t :: string
  assume s: "s = c # cs" and opn: "opn \<noteq> [] \<and> starts_with opn s"
    and t: "find_after close (drop (length opn) s) = Some t"
  from find_after_length [OF t] opn s
  show "((opn, close, t), opn, close, s) \<in> measure (\<lambda>(opn, close, s). length s)"
    by (cases opn) auto
qed auto

declare remove_span.simps [simp del]

definition clean :: "string \<Rightarrow> string" where
  "clean cell =
     strip (str_replace ''**'' '''' (remove_span ''<em>'' ''</em>''
       (remove_span ''<br><em>'' ''</em>'' cell)))"

text \<open>\<open>s.lstrip("--")\<close>.\<close>

function lstrip_minus :: "string \<Rightarrow> string" where
  "lstrip_minus s =
     (if starts_with u_minus s then lstrip_minus (drop 3 s)
      else if starts_with ''-'' s then lstrip_minus (drop 1 s)
      else s)"
  by pat_completeness auto
termination
  by (relation "measure length") (auto simp: starts_with_prefix)

declare lstrip_minus.simps [simp del]

text \<open>The regular expression \<open>AMOUNT\<close>: \<open>^(\d{1,3}(?:,\d{2,3})*|\d+)(?:\.(\d{2}))?$\<close>. The groups are
  the text before the point and the two digits after it.\<close>

definition amount_int_part :: "string \<Rightarrow> bool" where
  "amount_int_part s =
     (case split_on (CHR '','') s of
        [] \<Rightarrow> False
      | p # ps \<Rightarrow>
          (list_all is_digit p \<and> 1 \<le> length p \<and> length p \<le> 3
             \<and> list_all (\<lambda>q. list_all is_digit q \<and> 2 \<le> length q \<and> length q \<le> 3) ps)
          \<or> (ps = [] \<and> p \<noteq> [] \<and> list_all is_digit p))"

definition amount_match :: "string \<Rightarrow> (string \<times> string option) option" where
  "amount_match s =
     (case split_on (CHR ''.'') s of
        [i] \<Rightarrow> (if amount_int_part i then Some (i, None) else None)
      | [i, f] \<Rightarrow>
          (if amount_int_part i \<and> length f = 2 \<and> list_all is_digit f then Some (i, Some f) else None)
      | _ \<Rightarrow> None)"

definition paise :: "string \<Rightarrow> error + int" where
  "paise cell =
     (let s = clean cell;
          s = (if starts_with ''='' s then lstrip (drop 1 s) else s);
          s = strip (str_replace u_rupee '''' s)
      in if s = u_emdash \<or> s = '''' \<or> s = ''-'' then Inr 0
         else
           let neg = (starts_with u_minus s \<or> starts_with ''-'' s);
               s = lstrip_minus s
           in (case amount_match s of
                 None \<Rightarrow> Inl (ValueError ''bad amount'')
               | Some (i, f) \<Rightarrow>
                   let v = int_of_digits (str_replace '','' '''' i) * 100
                           + (case f of Some d \<Rightarrow> int_of_digits d | None \<Rightarrow> 0)
                   in Inr (if neg then - v else v)))"

text \<open>\<open>signed(cell)\<close>: \<open>^(.*?)(?:\s+(Dr|Cr))?$\<close> - the lazy group leaves every space before the side
  to the \<open>\s+\<close>.\<close>

definition split_side :: "string \<Rightarrow> string \<times> string option" where
  "split_side s =
     (let body = take (length s - 2) s; sd = drop (length s - 2) s
      in if (sd = ''Dr'' \<or> sd = ''Cr'') \<and> body \<noteq> [] \<and> is_space (last body)
         then (rstrip body, Some sd) else (s, None))"

definition signed :: "string \<Rightarrow> error + int" where
  "signed cell =
     (case split_side (clean cell) of
        (g1, g2) \<Rightarrow> ebind (paise g1) (\<lambda>v. Inr (if g2 = Some ''Cr'' then - v else v)))"

definition side :: "int \<Rightarrow> string" where   \<comment> \<open>\<open>check_md.side\<close>\<close>
  "side bal = (if bal > 0 then ''Dr'' else if bal < 0 then ''Cr'' else u_emdash)"


section \<open>The reader inverts the printer\<close>

lemma not_is_digit [simp]:
  "\<not> is_digit (CHR '','')" "\<not> is_digit (CHR ''.'')" "\<not> is_digit (CHR ''-'')" "\<not> is_digit (CHR ''='')"
  "\<not> is_digit (CHR ''<'')" "\<not> is_digit (CHR ''*'')" "\<not> is_digit (CHR 0xE2)" "\<not> is_digit (CHR 0x82)"
  "\<not> is_digit (CHR ''r'')" "\<not> is_digit (CHR '' '')"
  by (simp_all add: is_digit_def digit_val_def)

lemma digit_not_space: "is_digit c \<Longrightarrow> \<not> is_space c"
  by (auto simp: is_digit_def digit_val_def is_space_def split: if_splits)

lemma digits_not_in: "list_all is_digit s \<Longrightarrow> \<not> is_digit c \<Longrightarrow> c \<notin> set s"
  by (auto simp: list_all_iff)

lemma digit_val_digit_char: "0 \<le> d \<Longrightarrow> d < 10 \<Longrightarrow> digit_val (digit_char d) = Some d"
proof -
  assume "0 \<le> d" "d < 10"
  then have "d = 0 \<or> d = 1 \<or> d = 2 \<or> d = 3 \<or> d = 4 \<or> d = 5 \<or> d = 6 \<or> d = 7 \<or> d = 8 \<or> d = 9"
    by arith
  then show ?thesis by (elim disjE) (simp_all add: digit_char_def digit_val_def)
qed

lemma is_digit_digit_char: "0 \<le> d \<Longrightarrow> d < 10 \<Longrightarrow> is_digit (digit_char d)"
  by (simp add: is_digit_def digit_val_digit_char)

lemma int_of_digits_snoc:
  "int_of_digits (s @ [c]) = int_of_digits s * 10 + (case digit_val c of Some d \<Rightarrow> d | None \<Rightarrow> 0)"
  by (simp add: int_of_digits_def)

lemma int_of_digits_Nil [simp]: "int_of_digits [] = 0"
  by (simp add: int_of_digits_def)

lemma str_nat_small: "n < 10 \<Longrightarrow> str_nat n = [digit_char n]"
  by (subst str_nat.simps) simp

lemma str_nat_big: "10 \<le> n \<Longrightarrow> str_nat n = str_nat (n div 10) @ [digit_char (n mod 10)]"
  by (subst str_nat.simps) simp

lemma int_of_digits_str_nat: "0 \<le> n \<Longrightarrow> int_of_digits (str_nat n) = n"
proof (induction n rule: str_nat.induct)
  case (1 n)
  show ?case
  proof (cases "n < 10")
    case True
    with "1.prems" show ?thesis
      using int_of_digits_snoc [of "[]" "digit_char n"] by (simp add: str_nat_small digit_val_digit_char)
  next
    case False
    with "1.prems" "1.IH" show ?thesis
      by (simp add: str_nat_big int_of_digits_snoc digit_val_digit_char)
  qed
qed

lemma str_nat_digits: "0 \<le> n \<Longrightarrow> list_all is_digit (str_nat n)"
proof (induction n rule: str_nat.induct)
  case (1 n)
  show ?case
  proof (cases "n < 10")
    case True
    with "1.prems" show ?thesis by (simp add: str_nat_small is_digit_digit_char)
  next
    case False
    with "1.prems" "1.IH" show ?thesis by (simp add: str_nat_big is_digit_digit_char)
  qed
qed

lemma str_nat_not_Nil [simp]: "str_nat n \<noteq> []"
  by (subst str_nat.simps) simp

lemma str_replace_char: "str_replace [c] [] s = filter (\<lambda>x. x \<noteq> c) s"
proof (induction s)
  case (Cons x xs)
  then show ?case by (subst str_replace.simps) (auto simp: starts_with_def)
qed simp

lemma filter_join: "\<forall>p \<in> set ps. c \<notin> set p \<Longrightarrow> filter (\<lambda>x. x \<noteq> c) (join_str [c] ps) = concat ps"
proof (induction "[c]" ps rule: join_str.induct)
  case (2 x)
  then show ?case by (auto simp: filter_id_conv)
next
  case (3 x y ys)
  then have "filter (\<lambda>z. z \<noteq> c) x = x" by (auto simp: filter_id_conv)
  with 3 show ?case by simp
qed simp

lemma join_snoc: "ps \<noteq> [] \<Longrightarrow> join_str sep ps @ sep @ x = join_str sep (ps @ [x])"
proof (induction sep ps rule: join_str.induct)
  case (3 sep a b bs)
  then show ?case by simp
qed simp_all

lemma group_head_small: "length h \<le> 2 \<Longrightarrow> group_head h ps = h # ps"
  by (subst group_head.simps) simp

lemma group_head_big:
  "2 < length h \<Longrightarrow> group_head h ps = group_head (take (length h - 2) h) (drop (length h - 2) h # ps)"
  by (subst group_head.simps) simp

lemma group_head_shape:
  assumes "h \<noteq> []"
  shows "\<exists>f rest. group_head h ps = f # rest @ ps \<and> f \<noteq> [] \<and> length f \<le> 2
           \<and> list_all (\<lambda>q. length q = 2) rest \<and> h = f @ concat rest"
  using assms
proof (induction h ps rule: group_head.induct)
  case (1 h ps)
  show ?case
  proof (cases "2 < length h")
    case False
    with "1.prems" show ?thesis
      by (intro exI [of _ h] exI [of _ "[]"]) (simp add: group_head_small)
  next
    case True
    let ?h = "take (length h - 2) h" and ?t = "drop (length h - 2) h"
    from True have "?h \<noteq> []" by auto
    with True "1.IH" [OF True] obtain f rest where
      f: "group_head ?h (?t # ps) = f # rest @ ?t # ps" "f \<noteq> []" "length f \<le> 2"
         "list_all (\<lambda>q. length q = 2) rest" "?h = f @ concat rest"
      by blast
    show ?thesis
    proof (intro exI conjI)
      show "group_head h ps = f # (rest @ [?t]) @ ps" using True f(1) by (simp add: group_head_big)
      show "list_all (\<lambda>q. length q = 2) (rest @ [?t])" using f(4) True by simp
      show "h = f @ concat (rest @ [?t])"
        using f(5) append_take_drop_id [of "length h - 2" h] by simp
    qed (use f in auto)
  qed
qed

text \<open>The printed integer part: grouped, and the commas taken out it is the plain digits again.\<close>

lemma indian_group_parts:
  assumes "s \<noteq> []" "list_all is_digit s"
  obtains ps where "indian_group s = join_str '','' ps" "ps \<noteq> []" "concat ps = s"
    "list_all is_digit (hd ps)" "hd ps \<noteq> []"
    "(length (hd ps) \<le> 3 \<and> list_all (\<lambda>q. list_all is_digit q \<and> 2 \<le> length q \<and> length q \<le> 3) (tl ps))"
proof (cases "length s > 3")
  case False
  with assms show ?thesis by (intro that [of "[s]"]) (auto simp: indian_group_def)
next
  case True
  let ?h = "take (length s - 3) s" and ?t = "drop (length s - 3) s"
  from True have "?h \<noteq> []" by auto
  from group_head_shape [OF this, of "[]"] obtain f rest where
    f: "group_head ?h [] = f # rest" "f \<noteq> []" "length f \<le> 2"
       "list_all (\<lambda>q. length q = 2) rest" "?h = f @ concat rest"
    by auto
  have s: "s = f @ concat rest @ ?t" using f(5) append_take_drop_id [of "length s - 3" s] by simp
  have digits: "\<forall>x \<in> set s. is_digit x" using assms(2) by (simp add: list_all_iff)
  have sub: "set f \<subseteq> set s" "set ?t \<subseteq> set s" "\<forall>q \<in> set rest. set q \<subseteq> set s"
    by (subst s, auto)+
  have rest_digits: "\<forall>q \<in> set rest. list_all is_digit q" and t_digits: "list_all is_digit ?t"
    using sub(2,3) digits unfolding list_all_iff by (meson subsetD)+
  show ?thesis
  proof (rule that [of "f # rest @ [?t]"])
    show "indian_group s = join_str '','' (f # rest @ [?t])"
      using True f(1) join_snoc [of "f # rest" "'',''" ?t] by (simp add: indian_group_def)
    show "concat (f # rest @ [?t]) = s" using s by simp
    show "list_all is_digit (hd (f # rest @ [?t]))" using sub(1) digits by (auto simp: list_all_iff)
    show "length (hd (f # rest @ [?t])) \<le> 3
        \<and> list_all (\<lambda>q. list_all is_digit q \<and> 2 \<le> length q \<and> length q \<le> 3) (tl (f # rest @ [?t]))"
      using f(3,4) rest_digits t_digits True by (auto simp: list_all_iff)
  qed (use f in auto)
qed

text \<open>The characters of a printed amount: none of them is a space or a markdown character.\<close>

definition amount_chars :: "char set" where
  "amount_chars = {c. is_digit c} \<union> set ('',.'' @ u_minus @ u_emdash)"

lemma digits_amount_chars: "list_all is_digit s \<Longrightarrow> set s \<subseteq> amount_chars"
  by (auto simp: list_all_iff amount_chars_def)

lemma amount_chars_no_space: "c \<in> amount_chars \<Longrightarrow> \<not> is_space c"
  unfolding amount_chars_def by (auto dest: digit_not_space) (simp_all add: is_space_def)

lemma remove_span_absent: "c \<in> set opn \<Longrightarrow> c \<notin> set s \<Longrightarrow> remove_span opn close s = s"
proof (induction s)
  case Nil
  show ?case by (subst remove_span.simps) simp
next
  case (Cons x xs)
  then have "\<not> starts_with opn (x # xs)" using starts_with_set by blast
  with Cons show ?case by (subst remove_span.simps) auto
qed

lemma clean_plain:
  assumes "CHR ''<'' \<notin> set s" "CHR ''*'' \<notin> set s"
  shows "clean s = strip s"
proof -
  have "remove_span ''<br><em>'' ''</em>'' s = s" "remove_span ''<em>'' ''</em>'' s = s"
    using assms(1) by (auto intro: remove_span_absent [of "CHR ''<''"])
  moreover have "str_replace ''**'' '''' s = s"
    using assms(2) by (auto intro: str_replace_absent)
  ultimately show ?thesis by (simp add: clean_def)
qed

lemma clean_amount: "set s \<subseteq> amount_chars \<Longrightarrow> clean s = s"
proof -
  assume s: "set s \<subseteq> amount_chars"
  then have "CHR ''<'' \<notin> set s" "CHR ''*'' \<notin> set s" by (auto simp: amount_chars_def)
  then have "clean s = strip s" by (rule clean_plain)
  also have "strip s = s" using s by (intro strip_id) (auto dest: amount_chars_no_space)
  finally show ?thesis .
qed

lemma amount_int_part_group: "s \<noteq> [] \<Longrightarrow> list_all is_digit s \<Longrightarrow> amount_int_part (indian_group s)
    \<and> str_replace '','' '''' (indian_group s) = s \<and> set (indian_group s) \<subseteq> set s \<union> {CHR '',''}"
proof -
  assume s: "s \<noteq> []" "list_all is_digit s"
  then obtain ps where ps: "indian_group s = join_str '','' ps" "ps \<noteq> []" "concat ps = s"
    "list_all is_digit (hd ps)" "hd ps \<noteq> []"
    "length (hd ps) \<le> 3 \<and> list_all (\<lambda>q. list_all is_digit q \<and> 2 \<le> length q \<and> length q \<le> 3) (tl ps)"
    by (rule indian_group_parts)
  have "CHR '','' \<notin> set s" using s(2) by (simp add: digits_not_in)
  then have no: "\<forall>p \<in> set ps. CHR '','' \<notin> set p" using ps(3) by auto
  obtain p qs where pq: "ps = p # qs" using ps(2) by (cases ps) auto
  have "split_on CHR '','' (indian_group s) = p # qs"
    using split_on_join [OF ps(2) no] ps(1) pq by simp
  then have "amount_int_part (indian_group s)"
    using ps(4,5,6) pq by (auto simp: amount_int_part_def Suc_le_eq)
  moreover have "str_replace '','' '''' (indian_group s) = s"
    using filter_join [OF no] ps(1,3) by (simp add: str_replace_char)
  moreover have "set (indian_group s) \<subseteq> set s \<union> {CHR '',''}"
    using set_join_str [of "'',''" ps] ps(1,3) by auto
  ultimately show ?thesis by blast
qed

lemma pad0_two:
  assumes "0 \<le> n" "n < 100"
  shows "length (pad0 2 n) = 2 \<and> list_all is_digit (pad0 2 n) \<and> int_of_digits (pad0 2 n) = n"
proof (cases "n < 10")
  case True
  with assms have "pad0 2 n = [CHR ''0'', digit_char n]"
    by (simp add: pad0_def str_nat_small numeral_2_eq_2)
  with True assms show ?thesis
    using digit_val_digit_char [of n] by (simp add: int_of_digits_def is_digit_def digit_val_def)
next
  case False
  have "str_nat n = str_nat (n div 10) @ [digit_char (n mod 10)]" using False by (simp add: str_nat_big)
  moreover have "str_nat (n div 10) = [digit_char (n div 10)]"
    using assms by (intro str_nat_small) auto
  ultimately have s: "str_nat n = [digit_char (n div 10), digit_char (n mod 10)]" by simp
  then have "length (str_nat n) = 2" by simp
  moreover from this have "pad0 2 n = str_nat n" by (simp add: pad0_def)
  ultimately show ?thesis
    using assms by (simp add: str_nat_digits int_of_digits_str_nat)
qed

lemma lstrip_minus_digit: "s \<noteq> [] \<Longrightarrow> is_digit (hd s) \<Longrightarrow> lstrip_minus s = s"
  by (subst lstrip_minus.simps) (cases s; auto)

lemma lstrip_minus_minus: "lstrip_minus (u_minus @ s) = lstrip_minus s"
  by (subst lstrip_minus.simps) simp

text \<open>The digits with their commas, and the paise after the point.\<close>

definition plain_amount :: "int \<Rightarrow> string" where
  "plain_amount q =
     (let s = indian_group (str_nat (q div 100))
      in if q mod 100 \<noteq> 0 then s @ ''.'' @ pad0 2 (q mod 100) else s)"

lemma fmt_opt_nonzero:
  "p \<noteq> 0 \<Longrightarrow> fmt_opt dash show_zero p = (if p < 0 then u_minus @ plain_amount (- p) else plain_amount p)"
  by (simp add: fmt_opt_def plain_amount_def Let_def)

lemma plain_amount_match:
  assumes "0 < q"
  shows "\<exists>i f. amount_match (plain_amount q) = Some (i, f)
           \<and> int_of_digits (str_replace '','' '''' i) * 100
             + (case f of Some d \<Rightarrow> int_of_digits d | None \<Rightarrow> 0) = q"
proof -
  let ?d = "str_nat (q div 100)"
  have d: "?d \<noteq> []" "list_all is_digit ?d" using assms by (auto intro: str_nat_digits)
  note g = amount_int_part_group [OF d]
  have v: "int_of_digits ?d = q div 100" using assms by (simp add: int_of_digits_str_nat)
  have nodot: "CHR ''.'' \<notin> set (indian_group ?d)"
    using g digits_not_in [OF d(2), of "CHR ''.''"] by auto
  note split = split_on_append [OF nodot]
  show ?thesis
  proof (cases "q mod 100 = 0")
    case True
    then have eq: "q div 100 * 100 = q" using div_mult_mod_eq [of q 100] by linarith
    have "plain_amount q = indian_group ?d" using True by (simp add: plain_amount_def Let_def)
    then have "amount_match (plain_amount q) = Some (indian_group ?d, None)"
      using g split_on_absent [OF nodot] by (simp add: amount_match_def)
    moreover have "int_of_digits (str_replace '','' '''' (indian_group ?d)) * 100 + 0 = q"
      using g v eq by (metis add.right_neutral)
    ultimately show ?thesis by (metis option.simps(4))
  next
    case False
    let ?f = "pad0 2 (q mod 100)"
    have f: "length ?f = 2" "list_all is_digit ?f" "int_of_digits ?f = q mod 100"
      using pad0_two [of "q mod 100"] by auto
    have "CHR ''.'' \<notin> set ?f" using f(2) by (simp add: digits_not_in)
    then have "split_on CHR ''.'' (plain_amount q) = [indian_group ?d, ?f]"
      using False split [of ?f] by (simp add: plain_amount_def Let_def split_on_absent)
    then have "amount_match (plain_amount q) = Some (indian_group ?d, Some ?f)"
      using g f by (simp add: amount_match_def)
    moreover have "int_of_digits (str_replace '','' '''' (indian_group ?d)) * 100 + int_of_digits ?f = q"
      using g v f(3) div_mult_mod_eq [of q 100] by metis
    ultimately show ?thesis by (metis option.simps(5))
  qed
qed

lemma plain_amount_chars:
  assumes "0 < q"
  shows "set (plain_amount q) \<subseteq> {c. is_digit c} \<union> set '',.'' \<and> plain_amount q \<noteq> [] \<and> is_digit (hd (plain_amount q))"
proof -
  let ?d = "str_nat (q div 100)"
  have d: "?d \<noteq> []" "list_all is_digit ?d" using assms by (auto intro: str_nat_digits)
  note g = amount_int_part_group [OF d]
  have ds: "set s \<subseteq> {c. is_digit c}" if "list_all is_digit s" for s
    using that by (auto simp: list_all_iff)
  have "set (indian_group ?d) \<subseteq> {c. is_digit c} \<union> set '',.''" using g ds [OF d(2)] by auto
  moreover have "set (pad0 2 (q mod 100)) \<subseteq> {c. is_digit c} \<union> set '',.''"
    using pad0_two [of "q mod 100"] ds [of "pad0 2 (q mod 100)"] by auto
  moreover obtain ps where ps: "indian_group ?d = join_str '','' ps" "ps \<noteq> []"
    "list_all is_digit (hd ps)" "hd ps \<noteq> []"
    using indian_group_parts [OF d] by metis
  moreover have "indian_group ?d \<noteq> [] \<and> is_digit (hd (indian_group ?d))"
  proof -
    obtain c cs rest where "ps = (c # cs) # rest" using ps by (cases ps; cases "hd ps") auto
    with ps show ?thesis by (cases rest) auto
  qed
  ultimately show ?thesis by (auto simp: plain_amount_def Let_def)
qed

lemma plain_amount_sub: "0 < q \<Longrightarrow> set (plain_amount q) \<subseteq> amount_chars"
proof -
  assume "0 < q"
  from plain_amount_chars [OF this] have "set (plain_amount q) \<subseteq> {c. is_digit c} \<union> set '',.''"
    by (rule conjunct1)
  also have "... \<subseteq> amount_chars" unfolding amount_chars_def by auto
  finally show ?thesis .
qed

lemma u_minus_sub: "set u_minus \<subseteq> amount_chars"
  unfolding amount_chars_def by auto

lemma str_replace_rupee: "set s \<subseteq> amount_chars \<Longrightarrow> str_replace u_rupee '''' s = s"
  by (rule str_replace_absent [of "CHR 0x82"]) (auto simp: amount_chars_def)

lemma paise_of_amount:
  assumes "set s \<subseteq> amount_chars"
  shows "paise s =
     (if s = u_emdash \<or> s = '''' \<or> s = ''-'' then Inr 0
      else case amount_match (lstrip_minus s) of
             None \<Rightarrow> Inl (ValueError ''bad amount'')
           | Some (i, f) \<Rightarrow>
               let v = int_of_digits (str_replace '','' '''' i) * 100
                       + (case f of Some d \<Rightarrow> int_of_digits d | None \<Rightarrow> 0)
               in Inr (if starts_with u_minus s \<or> starts_with ''-'' s then - v else v))"
proof -
  have "CHR ''='' \<notin> set s" using assms by (auto simp: amount_chars_def)
  then have "\<not> starts_with ''='' s" by (auto dest: starts_with_hd)
  moreover have "strip s = s" using assms by (intro strip_id) (auto dest: amount_chars_no_space)
  ultimately show ?thesis
    using assms by (simp add: paise_def clean_amount str_replace_rupee Let_def)
qed

lemma paise_plain:
  assumes "0 < q"
  shows "paise (plain_amount q) = Inr q \<and> paise (u_minus @ plain_amount q) = Inr (- q)"
proof -
  note c = plain_amount_chars [OF assms]
  obtain i f where m: "amount_match (plain_amount q) = Some (i, f)"
    and v: "int_of_digits (str_replace '','' '''' i) * 100 + (case f of Some d \<Rightarrow> int_of_digits d | None \<Rightarrow> 0) = q"
    using plain_amount_match [OF assms] by blast
  have sub: "set (plain_amount q) \<subseteq> amount_chars" "set (u_minus @ plain_amount q) \<subseteq> amount_chars"
    using plain_amount_sub [OF assms] u_minus_sub unfolding set_append by blast+
  have lm: "lstrip_minus (plain_amount q) = plain_amount q"
    using c by (auto intro: lstrip_minus_digit)
  obtain x xs where x: "plain_amount q = x # xs" using c by (cases "plain_amount q") auto
  have hd: "is_digit x" using c x by simp
  then have ne: "x \<noteq> CHR ''-''" "x \<noteq> CHR 0xE2" by auto
  have lm': "lstrip_minus (u_minus @ plain_amount q) = plain_amount q"
    using lm by (simp only: lstrip_minus_minus)
  have "paise (plain_amount q) = Inr q"
    using ne m v x unfolding paise_of_amount [OF sub(1)] lm by auto
  moreover have "paise (u_minus @ plain_amount q) = Inr (- q)"
    using ne m v x unfolding paise_of_amount [OF sub(2)] lm' by auto
  ultimately show ?thesis ..
qed

lemma paise_fmt_opt: "paise (fmt_opt dash show_zero p) = Inr p"
proof (cases "p = 0")
  case True
  have "paise ''0'' = Inr 0" "paise u_emdash = Inr 0" by code_simp+
  with True show ?thesis by (simp add: fmt_opt_def)
next
  case False
  with paise_plain [of p] paise_plain [of "- p"] show ?thesis by (auto simp: fmt_opt_nonzero)
qed

interpretation amount: codec "fmt_opt dash show_zero" paise "\<lambda>_. True" for dash show_zero
  by unfold_locales (rule paise_fmt_opt)

section \<open>Balances with their side\<close>

lemma split_side_Dr_Cr:
  assumes "sd = ''Dr'' \<or> sd = ''Cr''" "s \<noteq> []" "\<forall>c \<in> set s. \<not> is_space c"
  shows "split_side (s @ '' '' @ sd) = (s, Some sd)"
proof -
  have len: "length sd = 2" using assms(1) by auto
  have "rstrip (s @ '' '') = s"
    using rstrip_id [OF assms(3)] by (simp add: rstrip_def is_space_def)
  then show ?thesis using assms(1,2) len
    by (simp add: split_side_def Let_def is_space_def)
qed

lemma fmt_opt_chars: "set (fmt_opt dash show_zero p) \<subseteq> amount_chars"
proof (cases "p = 0")
  case True
  have "is_digit (CHR ''0'')" by (simp add: is_digit_def digit_val_def)
  with True show ?thesis by (auto simp: fmt_opt_def amount_chars_def)
next
  case False
  show ?thesis
  proof (cases "p < 0")
    case True
    then have "set (u_minus @ plain_amount (- p)) \<subseteq> amount_chars"
      using plain_amount_sub [of "- p"] u_minus_sub unfolding set_append by simp
    with True show ?thesis by (simp only: fmt_opt_nonzero [OF False] if_True)
  next
    case nonneg: False
    with False plain_amount_sub [of p] show ?thesis by (simp only: fmt_opt_nonzero [OF False] if_False)
  qed
qed

lemma fmt_opt_not_Nil [simp]: "fmt_opt dash show_zero p \<noteq> []"
proof (cases "p = 0")
  case True
  then show ?thesis by (simp add: fmt_opt_def)
next
  case False
  with plain_amount_chars [of p] show ?thesis
    unfolding fmt_opt_nonzero [OF False] by (cases "p < 0") simp_all
qed

lemma split_side_plain: "list_all is_digit s \<Longrightarrow> split_side s = (s, None)"
proof -
  assume "list_all is_digit s"
  then have "CHR ''r'' \<notin> set s" by (simp add: digits_not_in)
  then have "CHR ''r'' \<notin> set (drop (length s - 2) s)" by (meson in_set_dropD)
  then show ?thesis by (auto simp: split_side_def Let_def)
qed

lemma signed_amt_side_eq: "signed (amt_side bal) = Inr bal"
proof (cases "bal = 0")
  case True
  have "clean ''0'' = ''0''" "paise ''0'' = Inr 0" by code_simp+
  moreover have "split_side ''0'' = (''0'', None)" by code_simp
  ultimately show ?thesis using True by (simp add: signed_def amt_side_def fmt_opt_def)
next
  case False
  let ?a = "fmt0 \<bar>bal\<bar>" and ?s = "side_of bal"
  have side: "?s = ''Dr'' \<or> ?s = ''Cr''" using False by (simp add: side_of_def)
  have chars: "set ?a \<subseteq> amount_chars" by (rule fmt_opt_chars)
  then have nosp: "\<forall>c \<in> set ?a. \<not> is_space c" by (auto dest: amount_chars_no_space)
  have "CHR ''<'' \<notin> set ?a" "CHR ''*'' \<notin> set ?a" using chars by (auto simp: amount_chars_def)
  then have "CHR ''<'' \<notin> set (?a @ '' '' @ ?s)" "CHR ''*'' \<notin> set (?a @ '' '' @ ?s)"
    using side by auto
  then have "clean (?a @ '' '' @ ?s) = strip (?a @ '' '' @ ?s)" by (rule clean_plain)
  also have "... = ?a @ '' '' @ ?s"
  proof (rule strip_id_ends)
    show "\<not> is_space (hd (?a @ '' '' @ ?s))" using nosp by (cases ?a) auto
    show "\<not> is_space (last (?a @ '' '' @ ?s))" using side by (auto simp: is_space_def)
  qed simp
  finally have "clean (amt_side bal) = ?a @ '' '' @ ?s" using False by (simp add: amt_side_def)
  then have "signed (amt_side bal) = ebind (paise ?a) (\<lambda>v. Inr (if Some ?s = Some ''Cr'' then - v else v))"
    using split_side_Dr_Cr [OF side _ nosp] by (simp add: signed_def)
  also have "... = Inr bal" using False by (simp add: paise_fmt_opt side_of_def)
  finally show ?thesis .
qed

interpretation balance: codec amt_side signed "\<lambda>_. True"
  by unfold_locales (rule signed_amt_side_eq)

text \<open>C38. What \<open>build.py\<close> prints for an amount, in any of its styles for nil, \<open>check_md.py\<close>
  reads back as the same number of paise; so two amounts print alike only when they are equal (nil
  and nil): no two different balances look the same on the page.\<close>

theorem fmt_roundtrip:
  "paise (fmt_opt dash show_zero p) = Inr p \<and>
   (fmt_opt dash show_zero p = fmt_opt dash show_zero q \<longleftrightarrow> p = q)"
  using amount.dec_enc amount.enc_inj by simp

text \<open>A balance printed with its side (\<open>amt_side\<close>: the amount, then Dr or Cr) is
  read back by \<open>signed\<close> with its sign, and a column of balances as the list of their values.\<close>

theorem amt_side_roundtrip:
  "signed (amt_side bal) = Inr bal \<and> emap signed (map amt_side bals) = Inr bals"
  using balance.dec_enc balance.emap_dec_enc [of bals] by (simp add: list_all_iff)

text \<open>C40. \<open>half_up\<close> is defined exactly for a non-negative numerator and a positive
  denominator, and gives the nearest integer, a half upwards: the result is off by at most half, and
  by exactly half only from below.\<close>

theorem half_up_nearest:
  "case half_up numer denom of
     Inl e \<Rightarrow> numer < 0 \<or> denom \<le> 0
   | Inr r \<Rightarrow> 0 \<le> numer \<and> 0 < denom \<and> 0 \<le> r \<and>
       2 * denom * r - denom \<le> 2 * numer \<and> 2 * numer < 2 * denom * r + denom"
proof (cases "numer \<ge> 0 \<and> denom > 0")
  case True
  let ?r = "(2 * numer + denom) div (2 * denom)"
  have "2 * denom * ?r + (2 * numer + denom) mod (2 * denom) = 2 * numer + denom"
    by (rule mult_div_mod_eq)
  moreover have "0 \<le> (2 * numer + denom) mod (2 * denom)" "(2 * numer + denom) mod (2 * denom) < 2 * denom"
    using True by simp_all
  ultimately have "2 * denom * ?r - denom \<le> 2 * numer \<and> 2 * numer < 2 * denom * ?r + denom"
    by linarith
  moreover have "0 \<le> ?r" using True by (simp add: pos_imp_zdiv_nonneg_iff)
  ultimately show ?thesis using True by (simp add: half_up_def assert_that_def)
qed (auto simp: half_up_def assert_that_def)

end
