(* ===== verification/Calendar.thy ===== *)
theory Calendar
  imports Money
begin

text \<open>
  The dates of \<open>build.py\<close> (\<open>D\<close>, \<open>branch_open\<close>, \<open>next_branch_day\<close>, \<open>fdate\<close>, \<open>month_name\<close>,
  \<open>month_end\<close>, \<open>fy_months\<close>, the constants of the financial year) and \<open>check_md.pdate\<close>, which reads
  a printed date.  A \<open>datetime.date\<close> is its year, month and day; Python only builds valid ones.
\<close>

datatype date = Date (year: int) (month: int) (day: int)

text \<open>Python compares dates by year, then month, then day.\<close>

instantiation date :: linorder
begin

definition less_eq_date :: "date \<Rightarrow> date \<Rightarrow> bool" where
  "less_eq_date a b =
     (year a < year b \<or> (year a = year b \<and> (month a < month b \<or> (month a = month b \<and> day a \<le> day b))))"

definition less_date :: "date \<Rightarrow> date \<Rightarrow> bool" where
  "less_date a b =
     (year a < year b \<or> (year a = year b \<and> (month a < month b \<or> (month a = month b \<and> day a < day b))))"

instance
  by standard (auto simp: less_eq_date_def less_date_def date.expand)

end

definition leap :: "int \<Rightarrow> bool" where
  "leap y = (y mod 4 = 0 \<and> (y mod 100 \<noteq> 0 \<or> y mod 400 = 0))"

definition days_in_month :: "int \<Rightarrow> int \<Rightarrow> int" where
  "days_in_month y m =
     (if m = 2 then (if leap y then 29 else 28)
      else if m = 4 \<or> m = 6 \<or> m = 9 \<or> m = 11 then 30 else 31)"

definition valid_date :: "date \<Rightarrow> bool" where
  "valid_date d = (1 \<le> year d \<and> 1 \<le> month d \<and> month d \<le> 12
     \<and> 1 \<le> day d \<and> day d \<le> days_in_month (year d) (month d))"

definition D :: "int \<Rightarrow> int \<Rightarrow> int \<Rightarrow> date" where
  "D y m d = Date y m d"

text \<open>Adding and taking away one day (\<open>dt.timedelta(days=1)\<close>), and several.\<close>

definition next_day :: "date \<Rightarrow> date" where
  "next_day d =
     (if day d < days_in_month (year d) (month d) then Date (year d) (month d) (day d + 1)
      else if month d < 12 then Date (year d) (month d + 1) 1
      else Date (year d + 1) 1 1)"

definition prev_day :: "date \<Rightarrow> date" where
  "prev_day d =
     (if day d > 1 then Date (year d) (month d) (day d - 1)
      else if month d > 1 then Date (year d) (month d - 1) (days_in_month (year d) (month d - 1))
      else Date (year d - 1) 12 31)"

definition add_days :: "date \<Rightarrow> nat \<Rightarrow> date" where
  "add_days d n = (next_day ^^ n) d"

text \<open>\<open>date.toordinal()\<close> and \<open>date.weekday()\<close> (Monday is 0).\<close>

definition days_before_month :: "int \<Rightarrow> int \<Rightarrow> int" where
  "days_before_month y m =
     (if m \<le> 1 then 0 else if m = 2 then 31 else
        (if m = 3 then 59 else if m = 4 then 90 else if m = 5 then 120 else if m = 6 then 151
         else if m = 7 then 181 else if m = 8 then 212 else if m = 9 then 243 else if m = 10 then 273
         else if m = 11 then 304 else 334) + (if leap y then 1 else 0))"

definition toordinal :: "date \<Rightarrow> int" where
  "toordinal d =
     (let p = year d - 1
      in p * 365 + p div 4 - p div 100 + p div 400) + days_before_month (year d) (month d) + day d"

definition weekday :: "date \<Rightarrow> int" where
  "weekday d = (toordinal d + 6) mod 7"

text \<open>\<open>(a - b).days\<close>.\<close>

definition days_between :: "date \<Rightarrow> date \<Rightarrow> int" where
  "days_between a b = toordinal a - toordinal b"

section \<open>build.py\<close>

definition FY_START :: date where "FY_START = Date 2025 4 1"
definition FY_END :: date where "FY_END = Date 2026 3 31"
definition MID_YEAR :: date where "MID_YEAR = Date 2025 9 30"
definition STATEMENT_MONTH :: "int \<times> int" where "STATEMENT_MONTH = (2025, 10)"

definition BANK_HOLIDAYS :: "date list" where
  "BANK_HOLIDAYS = [D 2025 8 15, D 2025 10 2, D 2026 1 26]"

definition branch_open :: "date \<Rightarrow> bool" where
  "branch_open d =
     (weekday d \<noteq> 6 \<and> \<not> (weekday d = 5 \<and> ((day d - 1) div 7 = 1 \<or> (day d - 1) div 7 = 3))
      \<and> \<not> d \<in> set BANK_HOLIDAYS)"

definition month_abbr :: "int \<Rightarrow> string" where
  "month_abbr m =
     (if m = 1 then ''Jan'' else if m = 2 then ''Feb'' else if m = 3 then ''Mar''
      else if m = 4 then ''Apr'' else if m = 5 then ''May'' else if m = 6 then ''Jun''
      else if m = 7 then ''Jul'' else if m = 8 then ''Aug'' else if m = 9 then ''Sep''
      else if m = 10 then ''Oct'' else if m = 11 then ''Nov'' else ''Dec'')"

definition month_full :: "int \<Rightarrow> string" where
  "month_full m =
     (if m = 1 then ''January'' else if m = 2 then ''February'' else if m = 3 then ''March''
      else if m = 4 then ''April'' else if m = 5 then ''May'' else if m = 6 then ''June''
      else if m = 7 then ''July'' else if m = 8 then ''August'' else if m = 9 then ''September''
      else if m = 10 then ''October'' else if m = 11 then ''November'' else ''December'')"

definition fdate :: "date \<Rightarrow> string" where
  "fdate d = pad0 2 (day d) @ '' '' @ month_abbr (month d) @ '' '' @ str_nat (year d)"

definition month_name :: "int \<Rightarrow> int \<Rightarrow> string" where
  "month_name y m = month_full m @ '' '' @ str_nat y"

definition month_end :: "int \<Rightarrow> int \<Rightarrow> date" where
  "month_end y m = (if m = 12 then Date y 12 31 else prev_day (Date y (m + 1) 1))"

text \<open>The twelve months of the year: the loop of \<open>fy_months\<close>, \<open>k\<close> rounds from \<open>(y, m)\<close>.\<close>

fun fy_months_loop :: "nat \<Rightarrow> int \<Rightarrow> int \<Rightarrow> (int \<times> int) list" where
  "fy_months_loop 0 y m = []"
| "fy_months_loop (Suc k) y m =
     (y, m) # (if m + 1 = 13 then fy_months_loop k (y + 1) 1 else fy_months_loop k y (m + 1))"

definition fy_months :: "(int \<times> int) list" where
  "fy_months = fy_months_loop 12 2025 4"

section \<open>check_md.py\<close>

definition parse_day :: "string \<Rightarrow> int option" where
  "parse_day s =
     (if list_all is_digit s \<and> (length s = 1 \<or> length s = 2)
         \<and> 1 \<le> int_of_digits s \<and> int_of_digits s \<le> 31
      then Some (int_of_digits s) else None)"

definition parse_month :: "string \<Rightarrow> int option" where
  "parse_month s = find (\<lambda>m. str_lower (month_abbr m) = str_lower s) [1,2,3,4,5,6,7,8,9,10,11,12]"

definition parse_year :: "string \<Rightarrow> int option" where
  "parse_year s = (if list_all is_digit s \<and> length s = 4 then Some (int_of_digits s) else None)"

text \<open>\<open>strptime(clean(s), "%d %b %Y").date()\<close>.\<close>

definition pdate :: "string \<Rightarrow> error + date" where
  "pdate s =
     (case words (clean s) of
        [a, b, c] \<Rightarrow>
          (case (parse_day a, parse_month b, parse_year c) of
             (Some d, Some m, Some y) \<Rightarrow>
               (if valid_date (Date y m d) then Inr (Date y m d)
                else Inl (ValueError ''day is out of range for month''))
           | _ \<Rightarrow> Inl (ValueError ''time data does not match format''))
      | _ \<Rightarrow> Inl (ValueError ''time data does not match format''))"

section \<open>The calendar is sound\<close>

lemma months_cases:
  assumes "1 \<le> (m::int)" "m \<le> 12"
  shows "m = 1 \<or> m = 2 \<or> m = 3 \<or> m = 4 \<or> m = 5 \<or> m = 6 \<or> m = 7 \<or> m = 8 \<or> m = 9 \<or> m = 10 \<or> m = 11 \<or> m = 12"
  using assms by arith

lemma days_in_month_bounds: "28 \<le> days_in_month y m \<and> days_in_month y m \<le> 31"
  by (simp add: days_in_month_def)

lemma valid_next_day: "valid_date d \<Longrightarrow> valid_date (next_day d)"
  using days_in_month_bounds
  by (auto simp: valid_date_def next_day_def) (smt (verit) days_in_month_bounds)+

lemma days_before_month_Suc:
  assumes "1 \<le> m" "m < 12"
  shows "days_before_month y (m + 1) = days_before_month y m + days_in_month y m"
proof -
  from assms have "1 \<le> m" "m \<le> 12" by simp_all
  from months_cases [OF this] assms(2) show ?thesis
    by (elim disjE) (simp_all add: days_before_month_def days_in_month_def)
qed

lemma leap_counts:
  fixes y a b c a' b' c' :: int
  assumes "a = a' + (if p then 1 else 0)" "b = b' + (if q then 1 else 0)" "c = c' + (if r then 1 else 0)"
    and "r \<Longrightarrow> q" "q \<Longrightarrow> p"
  shows "y * 365 + a - b + c = (y - 1) * 365 + a' - b' + c' + 365 + (if p \<and> (\<not> q \<or> r) then 1 else 0)"
  using assms by auto

lemma leap_year_step:
  "(y::int) * 365 + y div 4 - y div 100 + y div 400
     = (y - 1) * 365 + (y - 1) div 4 - (y - 1) div 100 + (y - 1) div 400 + 365 + (if leap y then 1 else 0)"
proof -
  have step: "y div k = (y - 1) div k + (if y mod k = 0 then 1 else 0)" if "k > 1" for k :: int
  proof -
    have "y = k * (y div k) + y mod k" "0 \<le> y mod k" "y mod k < k" using that by simp_all
    then show ?thesis
    proof (cases "y mod k = 0")
      case True
      then have "y - 1 = k * (y div k - 1) + (k - 1)" by (simp add: algebra_simps) (metis mod_0_imp_dvd dvd_mult_div_cancel)
      then have "(y - 1) div k = y div k - 1"
        using that by (intro int_div_pos_eq [of _ _ _ "k - 1"]) auto
      with True show ?thesis by simp
    next
      case False
      have "y - 1 = k * (y div k) + (y mod k - 1)" by simp
      then have "(y - 1) div k = y div k"
        using that False \<open>0 \<le> y mod k\<close> \<open>y mod k < k\<close>
        by (intro int_div_pos_eq [of _ _ _ "y mod k - 1"]) linarith+
      with False show ?thesis by simp
    qed
  qed
  have d: "y mod 400 = 0 \<Longrightarrow> y mod 100 = 0" "y mod 100 = 0 \<Longrightarrow> y mod 4 = 0"
    using dvd_trans [of 100 400 y] dvd_trans [of 4 100 y] by (simp_all add: mod_eq_0_iff_dvd)
  show ?thesis unfolding leap_def
  proof (rule leap_counts)
    show "y div 4 = (y - 1) div 4 + (if y mod 4 = 0 then 1 else 0)" by (rule step) simp
    show "y div 100 = (y - 1) div 100 + (if y mod 100 = 0 then 1 else 0)" by (rule step) simp
    show "y div 400 = (y - 1) div 400 + (if y mod 400 = 0 then 1 else 0)" by (rule step) simp
  qed (fact d)+
qed

lemma toordinal_next_day:
  assumes "valid_date d"
  shows "toordinal (next_day d) = toordinal d + 1"
proof -
  have m: "1 \<le> month d" "month d \<le> 12" "day d \<le> days_in_month (year d) (month d)"
    using assms by (auto simp: valid_date_def)
  consider "day d < days_in_month (year d) (month d)"
    | "day d = days_in_month (year d) (month d)" "month d < 12"
    | "day d = days_in_month (year d) (month d)" "month d = 12"
    using m by linarith
  then show ?thesis
  proof cases
    case 1
    then show ?thesis by (simp add: next_day_def toordinal_def)
  next
    case 2
    then show ?thesis using days_before_month_Suc [of "month d" "year d"] m
      by (simp add: next_day_def toordinal_def)
  next
    case 3
    have "days_before_month (year d) 12 = 334 + (if leap (year d) then 1 else 0)"
      by (simp add: days_before_month_def)
    moreover have "days_before_month (year d + 1) 1 = 0" by (simp add: days_before_month_def)
    moreover have "days_in_month (year d) 12 = 31" by (simp add: days_in_month_def)
    ultimately show ?thesis using 3 leap_year_step [of "year d"]
      by (simp add: next_day_def toordinal_def Let_def)
  qed
qed

lemma prev_next_day: "valid_date d \<Longrightarrow> prev_day (next_day d) = d"
  by (cases d) (auto simp: prev_day_def next_day_def valid_date_def days_in_month_def split: if_splits)

lemma less_next_day: "valid_date d \<Longrightarrow> d < next_day d"
  by (auto simp: less_date_def next_day_def)

text \<open>No date stands between a day and the next: comparing dates is comparing days.\<close>

lemma next_day_le:
  assumes "valid_date d" "valid_date e" "d < e"
  shows "next_day d \<le> e"
proof -
  have "day e \<le> days_in_month (year e) (month e)" "month e \<le> 12" "1 \<le> day e" "1 \<le> month e"
    using assms(2) by (auto simp: valid_date_def)
  moreover have "day d \<le> days_in_month (year d) (month d)" "month d \<le> 12"
    using assms(1) by (auto simp: valid_date_def)
  ultimately show ?thesis using assms(3)
    by (auto simp: less_eq_date_def less_date_def next_day_def)
qed

text \<open>The loop of \<open>next_branch_day\<close>. Outside the listed holidays a closed day is a Saturday or a
  Sunday, so the loop ends at the latest on the Monday after the last listed holiday.\<close>

definition last_holiday :: int where
  "last_holiday = toordinal (Date 2026 1 27)"

definition branch_measure :: "date \<Rightarrow> nat" where
  "branch_measure d =
     (if toordinal d < last_holiday then nat (last_holiday - toordinal d) + 10
      else nat ((7 - weekday d) mod 7))"

lemma last_holiday_ordinal: "h \<in> set BANK_HOLIDAYS \<Longrightarrow> toordinal h < last_holiday"
  unfolding BANK_HOLIDAYS_def last_holiday_def D_def by (elim set_ConsD [elim_format] disjE) (auto; code_simp)+

lemma branch_measure_decreases:
  assumes "valid_date d" "\<not> branch_open d"
  shows "branch_measure (next_day d) < branch_measure d"
proof -
  let ?n = "toordinal d"
  have nxt: "toordinal (next_day d) = ?n + 1" by (rule toordinal_next_day [OF assms(1)])
  show ?thesis
  proof (cases "?n < last_holiday")
    case True
    have "nat ((7 - weekday (next_day d)) mod 7) < 7" by simp
    with True nxt show ?thesis by (auto simp: branch_measure_def)
  next
    case False
    with last_holiday_ordinal have "d \<notin> set BANK_HOLIDAYS" by blast
    with assms(2) have "weekday d = 6 \<or> weekday d = 5" by (auto simp: branch_open_def)
    then have "(7 - weekday (next_day d)) mod 7 < (7 - weekday d) mod 7"
      unfolding weekday_def nxt by presburger
    with False nxt show ?thesis by (auto simp: branch_measure_def)
  qed
qed

function next_branch_day :: "date \<Rightarrow> date" where
  "next_branch_day d =
     (if valid_date d \<and> \<not> branch_open d then next_branch_day (next_day d) else d)"
  by pat_completeness auto
termination
  by (relation "measure branch_measure") (auto intro: branch_measure_decreases)

declare next_branch_day.simps [simp del]

section \<open>Order, weekdays and printed dates\<close>

text \<open>Comparing two dates is comparing their day numbers.\<close>

lemma toordinal_less:
  assumes "valid_date a" "valid_date b" "a < b"
  shows "toordinal a < toordinal b"
proof -
  have months: "days_before_month y m + days_in_month y m \<le> days_before_month y n"
    if "1 \<le> m" "m < n" "n \<le> 12" for y m n
  proof -
    have "days_before_month y (m + 1) \<le> days_before_month y (m + 1 + int k)" if "m + 1 + int k \<le> 12" for k
      using that
    proof (induction k)
      case (Suc k)
      then show ?case
        using days_before_month_Suc [of "m + 1 + int k" y] days_in_month_bounds [of y "m + 1 + int k"] \<open>1 \<le> m\<close>
        by (simp add: algebra_simps)
    qed simp
    from this [of "nat (n - m - 1)"] that days_before_month_Suc [of m y] show ?thesis by simp
  qed
  have year_len: "days_before_month y m + e \<le> 365 + (if leap y then 1 else 0)"
    if "1 \<le> m" "m \<le> 12" "e \<le> days_in_month y m" for y m e
    using months_cases [OF that(1,2)] that(3)
    by (elim disjE) (simp_all add: days_before_month_def days_in_month_def split: if_splits)
  let ?j = "\<lambda>y. (y - 1) * 365 + (y - 1) div 4 - (y - 1) div 100 + (y - 1) div 400 :: int"
  have years: "?j y + 365 + (if leap y then 1 else 0) \<le> ?j z" if "y < z" for y z
  proof -
    have "?j (y + 1) \<le> ?j (y + 1 + int k)" for k
    proof (induction k)
      case (Suc k)
      have "?j (y + 1 + int k) \<le> ?j (y + 1 + int (Suc k))"
        using leap_year_step [of "y + 1 + int k"] by (simp add: algebra_simps)
      with Suc show ?case by linarith
    qed simp
    from this [of "nat (z - y - 1)"] that leap_year_step [of y] show ?thesis by simp
  qed
  have nonneg: "0 \<le> days_before_month y m" for y m
    by (simp add: days_before_month_def)
  have a: "1 \<le> month a" "month a \<le> 12" "1 \<le> day a" "day a \<le> days_in_month (year a) (month a)"
    and b: "1 \<le> month b" "month b \<le> 12" "1 \<le> day b"
    using assms(1,2) by (auto simp: valid_date_def)
  consider "year a < year b" | "year a = year b" "month a < month b"
    | "year a = year b" "month a = month b" "day a < day b"
    using assms(3) by (auto simp: less_date_def)
  then show ?thesis
  proof cases
    case 1
    with years [OF 1] year_len [OF a(1,2,4)] nonneg [of "year b" "month b"] b(3)
    show ?thesis unfolding toordinal_def Let_def by linarith
  next
    case 2
    with months [of "month a" "month b" "year b"] a b show ?thesis by (simp add: toordinal_def)
  next
    case 3
    then show ?thesis by (simp add: toordinal_def)
  qed
qed

lemma toordinal_less_iff:
  "valid_date a \<Longrightarrow> valid_date b \<Longrightarrow> a < b \<longleftrightarrow> toordinal a < toordinal b"
  using toordinal_less [of a b] toordinal_less [of b a] by (cases a b rule: linorder_cases) auto

lemma toordinal_le_iff:
  "valid_date a \<Longrightarrow> valid_date b \<Longrightarrow> a \<le> b \<longleftrightarrow> toordinal a \<le> toordinal b"
  using toordinal_less_iff [of b a] by (simp add: linorder_not_less [symmetric])

lemma next_branch_day_eq:
  "next_branch_day d = (if valid_date d \<and> \<not> branch_open d then next_branch_day (next_day d) else d)"
  by (rule next_branch_day.simps)

text \<open>From a valid date \<open>next_branch_day\<close> ends, on the first day not before
  it on which a branch is open: the day it gives is valid and open, and every day from the given one up
  to it is closed.\<close>

theorem next_branch_day_first:
  assumes "valid_date d"
  shows "valid_date (next_branch_day d) \<and> branch_open (next_branch_day d) \<and> d \<le> next_branch_day d
    \<and> (\<forall>e. valid_date e \<longrightarrow> d \<le> e \<longrightarrow> e < next_branch_day d \<longrightarrow> \<not> branch_open e)"
  using assms
proof (induction d rule: next_branch_day.induct)
  case (1 d)
  show ?case
  proof (cases "branch_open d")
    case True
    then show ?thesis using "1.prems" by (auto simp: next_branch_day_eq [of d])
  next
    case False
    let ?n = "next_branch_day (next_day d)"
    have eq: "next_branch_day d = ?n" using False "1.prems" by (simp add: next_branch_day_eq [of d])
    have IH: "valid_date ?n" "branch_open ?n" "next_day d \<le> ?n"
      "\<forall>e. valid_date e \<longrightarrow> next_day d \<le> e \<longrightarrow> e < ?n \<longrightarrow> \<not> branch_open e"
      using "1.IH" "1.prems" False valid_next_day by auto
    have "\<not> branch_open e" if "valid_date e" "d \<le> e" "e < ?n" for e
    proof (cases "e = d")
      case False
      with that(2) have "d < e" by simp
      with next_day_le [OF "1.prems" that(1)] IH(4) that show ?thesis by blast
    qed (use \<open>\<not> branch_open d\<close> in simp)
    moreover have "d \<le> ?n" using less_next_day [OF "1.prems"] IH(3) by order
    ultimately show ?thesis using IH eq by simp
  qed
qed

theorem next_branch_day_first_witness:
  "valid_date (D 2025 8 9) \<and> branch_open (next_branch_day (D 2025 8 9)) \<and> \<not> branch_open (D 2025 8 9)"
proof -
  have v: "valid_date (D 2025 8 9)" by code_simp
  moreover have "\<not> branch_open (D 2025 8 9)" by code_simp
  ultimately show ?thesis using next_branch_day_first [OF v] by blast
qed

lemma month_abbr_parts:
  assumes "1 \<le> m" "m \<le> 12"
  shows "parse_month (month_abbr m) = Some m \<and> month_abbr m \<noteq> [] \<and>
     list_all (\<lambda>c. \<not> is_space c) (month_abbr m) \<and> CHR ''<'' \<notin> set (month_abbr m) \<and> CHR ''*'' \<notin> set (month_abbr m)"
  using months_cases [OF assms] by (elim disjE) (hypsubst, code_simp)+

lemma str_nat_year:
  assumes "1000 \<le> y" "y \<le> 9999"
  shows "length (str_nat y) = 4"
proof -
  have "str_nat y = str_nat (y div 10) @ [digit_char (y mod 10)]"
    using assms by (simp add: str_nat_big)
  moreover have "str_nat (y div 10) = str_nat (y div 10 div 10) @ [digit_char (y div 10 mod 10)]"
    using assms by (intro str_nat_big) auto
  moreover have "str_nat (y div 10 div 10) = str_nat (y div 10 div 10 div 10) @ [digit_char (y div 10 div 10 mod 10)]"
    using assms by (intro str_nat_big) auto
  moreover have "str_nat (y div 10 div 10 div 10) = [digit_char (y div 10 div 10 div 10)]"
    using assms by (intro str_nat_small) auto
  ultimately show ?thesis by simp
qed

lemma pdate_fdate:
  assumes "valid_date d" "1000 \<le> year d" "year d \<le> 9999"
  shows "pdate (fdate d) = Inr d"
proof -
  let ?dd = "pad0 2 (day d)" and ?mm = "month_abbr (month d)" and ?yy = "str_nat (year d)"
  have m: "1 \<le> month d" "month d \<le> 12" and dy: "1 \<le> day d" "day d \<le> 31"
    using assms(1) days_in_month_bounds [of "year d" "month d"] by (auto simp: valid_date_def)
  have dd: "length ?dd = 2" "list_all is_digit ?dd" "int_of_digits ?dd = day d"
    using pad0_two [of "day d"] dy by auto
  have yy: "length ?yy = 4" "list_all is_digit ?yy" "int_of_digits ?yy = year d"
    using assms str_nat_year by (auto simp: str_nat_digits int_of_digits_str_nat)
  note mm = month_abbr_parts [OF m]
  have nosp: "list_all (\<lambda>c. \<not> is_space c) ?dd" "list_all (\<lambda>c. \<not> is_space c) ?yy"
    using dd(2) yy(2) digit_not_space by (auto simp: list_all_iff)
  have ne: "?dd \<noteq> []" using dd(1) by auto
  have "CHR ''<'' \<notin> set (fdate d)" "CHR ''*'' \<notin> set (fdate d)"
    using mm digits_not_in [OF dd(2)] digits_not_in [OF yy(2)] by (auto simp: fdate_def)
  then have "clean (fdate d) = strip (fdate d)" by (rule clean_plain)
  also have "... = fdate d"
  proof (rule strip_id_ends)
    show "\<not> is_space (hd (fdate d))" using nosp(1) ne by (cases ?dd) (auto simp: fdate_def)
    show "\<not> is_space (last (fdate d))"
      using nosp(2) by (auto simp: fdate_def list_all_iff)
  qed (simp add: fdate_def)
  finally have "words (clean (fdate d)) = words (?dd @ '' '' @ ?mm @ '' '' @ ?yy)" by (simp add: fdate_def)
  also have "... = [?dd, ?mm, ?yy]"
    using words_word [OF ne nosp(1), of "'' '' @ ?mm @ '' '' @ ?yy"] mm
      words_word [of ?mm "'' '' @ ?yy"] words_word [of ?yy "[]"] nosp(2)
    by (simp add: is_space_def words_space)
  finally show ?thesis
    using dd yy mm dy assms(1) by (simp add: pdate_def parse_day_def parse_year_def)
qed

interpretation printed_date: codec fdate pdate "\<lambda>d. valid_date d \<and> 1000 \<le> year d \<and> year d \<le> 9999"
  by unfold_locales (simp add: pdate_fdate)

text \<open>A date as the books print it (\<open>dd Mon yyyy\<close>) is read back by \<open>check_md.py\<close> as
  the same date, for every valid date of a four-digit year; so two such dates print alike only when
  they are the same day.\<close>

theorem fdate_roundtrip:
  assumes "valid_date d" "1000 \<le> year d" "year d \<le> 9999"
    and "valid_date e" "1000 \<le> year e" "year e \<le> 9999"
  shows "pdate (fdate d) = Inr d \<and> (fdate d = fdate e \<longleftrightarrow> d = e)"
  using printed_date.dec_enc [of d] printed_date.enc_inj [of d e] assms by simp

theorem fdate_roundtrip_witness:
  "pdate (fdate FY_END) = Inr FY_END \<and> fdate FY_END \<noteq> fdate FY_START"
proof -
  have "valid_date FY_END" "1000 \<le> year FY_END" "year FY_END \<le> 9999"
    "valid_date FY_START" "1000 \<le> year FY_START" "year FY_START \<le> 9999" "FY_END \<noteq> FY_START"
    by (code_simp)+
  then show ?thesis using fdate_roundtrip [of FY_END FY_START] by blast
qed

text \<open>The last day of a month, and the months of the year.\<close>

lemma month_end_eq:
  "1 \<le> m \<Longrightarrow> m \<le> 12 \<Longrightarrow> month_end y m = Date y m (days_in_month y m)"
  by (auto simp: month_end_def prev_day_def days_in_month_def)

lemma fy_months_eq:
  "fy_months = [(2025,4),(2025,5),(2025,6),(2025,7),(2025,8),(2025,9),(2025,10),(2025,11),(2025,12),
     (2026,1),(2026,2),(2026,3)]"
  by code_simp

lemma year_month_iff:
  assumes "valid_date d"
  shows "(FY_START \<le> d \<and> d \<le> FY_END) \<longleftrightarrow> (year d, month d) \<in> set fy_months"
proof -
  have m: "1 \<le> month d" "month d \<le> 12" "1 \<le> day d" "day d \<le> days_in_month (year d) (month d)"
    using assms by (auto simp: valid_date_def)
  show ?thesis using months_cases [OF m(1,2)] m(3,4)
    by (elim disjE) (auto simp: fy_months_eq less_eq_date_def FY_START_def FY_END_def days_in_month_def)
qed

lemma month_bounds:
  "valid_date d \<Longrightarrow> Date (year d) (month d) 1 \<le> d \<and> d \<le> month_end (year d) (month d)"
  by (auto simp: valid_date_def month_end_eq less_eq_date_def)

text \<open>The twelve months of \<open>fy_months\<close> are distinct and cover the financial year:
  a valid date lies in the year exactly when its year and month are one of them, and it then stands
  between the first day and the \<open>month_end\<close> of its month.\<close>

theorem fy_months_cover:
  "distinct fy_months \<and> length fy_months = 12 \<and>
   (\<forall>d. valid_date d \<longrightarrow>
      ((FY_START \<le> d \<and> d \<le> FY_END) \<longleftrightarrow> (year d, month d) \<in> set fy_months) \<and>
      Date (year d) (month d) 1 \<le> d \<and> d \<le> month_end (year d) (month d))"
  using year_month_iff month_bounds by (simp add: fy_months_eq)

theorem fy_months_cover_witness:
  "valid_date (D 2026 2 28) \<and> (2026, 2) \<in> set fy_months \<and> D 2026 2 28 \<le> month_end 2026 2"
proof -
  have "valid_date (D 2026 2 28)" "FY_START \<le> D 2026 2 28 \<and> D 2026 2 28 \<le> FY_END"
    "year (D 2026 2 28) = 2026" "month (D 2026 2 28) = 2"
    by code_simp+
  then show ?thesis using fy_months_cover by metis
qed

end
