(* ===== verification/Markdown.thy ===== *)
theory Markdown
  imports Calendar
begin

text \<open>
  The Markdown tables \<open>build.py\<close> prints (\<open>table\<close>, \<open>side_cell\<close>, the ledger lines) and \<open>check_md.py\<close>
  reads back (\<open>cells\<close>, \<open>read_tables\<close>, \<open>block\<close>, \<open>split_cell\<close>): every table printed is read back cell for
  cell.  A Markdown file is the list of its lines.
\<close>

section \<open>Strings\<close>

text \<open>\<open>s.split(sep)\<close> for a separator of several characters, from the left, without overlaps.\<close>

function split_sub_aux :: "string \<Rightarrow> string \<Rightarrow> string \<Rightarrow> string list" where
  "split_sub_aux sep acc s =
     (case s of [] \<Rightarrow> [rev acc]
      | c # cs \<Rightarrow> if sep \<noteq> [] \<and> starts_with sep s then rev acc # split_sub_aux sep [] (drop (length sep) s)
                 else split_sub_aux sep (c # acc) cs)"
  by pat_completeness auto
termination
  by (relation "measure (\<lambda>(sep, acc, s). length s)") auto

declare split_sub_aux.simps [simp del]

definition split_sub :: "string \<Rightarrow> string \<Rightarrow> string list" where
  "split_sub sep s = split_sub_aux sep [] s"

text \<open>\<open>sub in s\<close>.\<close>

fun contains_sub :: "string \<Rightarrow> string \<Rightarrow> bool" where
  "contains_sub p [] = (p = [])"
| "contains_sub p (c # cs) = (starts_with p (c # cs) \<or> contains_sub p cs)"

lemma contains_sub_iff: "contains_sub p s \<longleftrightarrow> (\<exists>u v. s = u @ p @ v)"
proof (induction s)
  case (Cons c s)
  have "(\<exists>u v. c # s = u @ p @ v) \<longleftrightarrow> (\<exists>v. c # s = p @ v) \<or> (\<exists>u v. s = u @ p @ v)"
  proof
    assume "\<exists>u v. c # s = u @ p @ v"
    then obtain u v where "c # s = u @ p @ v" by blast
    then show "(\<exists>v. c # s = p @ v) \<or> (\<exists>u v. s = u @ p @ v)" by (cases u) auto
  next
    assume "(\<exists>v. c # s = p @ v) \<or> (\<exists>u v. s = u @ p @ v)"
    then show "\<exists>u v. c # s = u @ p @ v"
    proof (elim disjE exE)
      fix v assume "c # s = p @ v"
      then show ?thesis by (intro exI [of _ "[]"] exI [of _ v]) simp
    next
      fix u v assume "s = u @ p @ v"
      then show ?thesis by (intro exI [of _ "c # u"] exI [of _ v]) simp
    qed
  qed
  with Cons show ?case by (simp add: starts_with_prefix)
qed auto

section \<open>build.py: printing\<close>

datatype align = AL | AR | AC

fun align_sep :: "align \<Rightarrow> string" where
  "align_sep AL = '':---''"
| "align_sep AR = ''---:''"
| "align_sep AC = '':---:''"

definition table_row :: "string list \<Rightarrow> string" where
  "table_row r = ''| '' @ join_str '' | '' r @ '' |''"

definition table :: "string list \<Rightarrow> align list \<Rightarrow> string list list \<Rightarrow> string list" where
  "table headers aligns rs =
     [table_row headers, ''|'' @ join_str ''|'' (map align_sep aligns) @ ''|''] @ map table_row rs"

definition BASIS_LINE :: string where
  "BASIS_LINE = ''Kept on money paid and received, and what people owe; no year-end adjustments.''"

definition MADE_ON :: string where
  "MADE_ON = ''02 Apr 2026, 10:00''"

text \<open>The standing notes, which \<open>check_md.py\<close> spells out again in the same words.\<close>

definition COST_LINE :: string where
  "COST_LINE = ''Things owned are shown at what they cost; no depreciation is charged.''"

definition STAKE_LINE :: string where
  "STAKE_LINE = ''The business is shown at the money put into it, not at its worth.''"

definition STAKES_LINE :: string where
  "STAKES_LINE = ''The businesses are shown at the money put into them, not at their worth.''"

definition STOCK_LINE :: string where
  "STOCK_LINE = ''No stock is counted. Everything bought for sale is treated as sold or used in the year it was bought.''"

definition head_line :: "string \<Rightarrow> string \<Rightarrow> string" where
  "head_line name period = (''*'' @ name @ '' '' @ u_middot @ '' '' @ period @ '' '' @ u_middot @ '' '' @ BASIS_LINE @ '' '' @ u_middot @ '' Year closed '' @
       u_middot @ '' Made on '' @ MADE_ON @ ''*'')"

definition br :: string where
  "br = ''<br>''"

definition name_amount :: "string \<times> int \<Rightarrow> string" where
  "name_amount na = ((fst na) @ '' '' @ u_rupee @ (fmt (snd na)))"

text \<open>The account alone when it is the only one on its side, else each account with its amount.\<close>

definition side_cell :: "(string \<times> int) list \<Rightarrow> string" where
  "side_cell ls = (case ls of [l] \<Rightarrow> fst l | _ \<Rightarrow> join_str br (map name_amount ls))"

text \<open>The cell of a note under the particulars.\<close>

definition with_note :: "string \<Rightarrow> string \<Rightarrow> string" where
  "with_note text nt = (text @ ''<br><em>'' @ nt @ ''</em>'')"

section \<open>check_md.py: reading\<close>

definition cells :: "string \<Rightarrow> error + string list" where
  "cells line =
     (let inner = strip line
      in ebind (assert_that (starts_with ''|'' inner \<and> ends_with ''|'' inner) line)
           (\<lambda>_. Inr (map strip (split_sub '' | '' (butlast (tl inner))))))"

text \<open>The separator line of a table: \<open>^\|[-:| ]+\|$\<close> on the stripped line.\<close>

definition sep_line :: "string \<Rightarrow> bool" where
  "sep_line line =
     (let s = strip line
      in 3 \<le> length s \<and> hd s = CHR ''|'' \<and> last s = CHR ''|''
         \<and> list_all (\<lambda>c. c \<in> set ''-:| '') (butlast (tl s)))"

definition is_row :: "string \<Rightarrow> bool" where
  "is_row line = starts_with ''|'' line"

text \<open>The tables of \<open>lines[start:end]\<close>, each with the place of its header.\<close>

function read_tables_aux :: "nat \<Rightarrow> string list \<Rightarrow> error + (nat \<times> string list list) list" where
  "read_tables_aux i ls =
     (case ls of [] \<Rightarrow> Inr []
      | l # rest \<Rightarrow>
          if is_row l \<and> rest \<noteq> [] \<and> sep_line (hd rest)
          then ebind (cells l) (\<lambda>h.
               let body = takeWhile is_row (tl rest); after = dropWhile is_row (tl rest)
               in ebind (emap cells body) (\<lambda>rs.
                  ebind (read_tables_aux (i + 2 + length body) after) (\<lambda>ts. Inr ((i, h # rs) # ts))))
          else read_tables_aux (Suc i) rest)"
  by pat_completeness auto
termination
proof (relation "measure (\<lambda>(i, ls). length ls)")
  fix i ls l rest h x xa
  assume *: "ls = l # rest" and "is_row l \<and> rest \<noteq> [] \<and> sep_line (hd rest)"
    and "xa = dropWhile is_row (tl rest)"
  then show "((i + 2 + length x, xa), i, ls) \<in> measure (\<lambda>(i, ls). length ls)"
    using length_dropWhile_le [of is_row "tl rest"] by (simp add: le_imp_less_Suc le_trans)
qed auto

declare read_tables_aux.simps [simp del]

definition read_tables :: "string list \<Rightarrow> nat \<Rightarrow> nat \<Rightarrow> error + (nat \<times> string list list) list" where
  "read_tables ls s e = read_tables_aux s (drop s (take e ls))"

text \<open>\<open>block(lines, i)\<close>: from a heading to the next heading.\<close>

definition block :: "string list \<Rightarrow> nat \<Rightarrow> nat" where
  "block ls i = Suc i + length (takeWhile (\<lambda>l. \<not> starts_with ''#'' l) (drop (Suc i) ls))"

text \<open>\<open>find(lines, pattern)\<close> with the pattern as a predicate on the line.\<close>

fun find_line :: "(string \<Rightarrow> bool) \<Rightarrow> string list \<Rightarrow> nat option" where
  "find_line P [] = None"
| "find_line P (l # ls) = (if P l then Some 0 else map_option Suc (find_line P ls))"

section \<open>Reading back what was printed\<close>

definition cell_ok :: "string \<Rightarrow> bool" where
  "cell_ok c = (CHR ''|'' \<notin> set c \<and> strip c = c)"

definition row_ok :: "string list \<Rightarrow> bool" where
  "row_ok r = (r \<noteq> [] \<and> list_all cell_ok r)"

lemma split_sub_step:
  "CHR ''|'' \<notin> set s \<Longrightarrow> split_sub_aux '' | '' acc (s @ '' | '' @ t) = (rev acc @ s) # split_sub_aux '' | '' [] t"
proof (induction s arbitrary: acc)
  case Nil
  show ?case by (subst split_sub_aux.simps) simp
next
  case (Cons c s)
  have "\<not> starts_with '' | '' (c # s @ '' | '' @ t)"
    using Cons.prems by (cases s) auto
  with Cons show ?case by (subst split_sub_aux.simps) simp
qed

lemma split_sub_none: "CHR ''|'' \<notin> set s \<Longrightarrow> split_sub_aux '' | '' acc s = [rev acc @ s]"
proof (induction s arbitrary: acc)
  case Nil
  show ?case by (subst split_sub_aux.simps) simp
next
  case (Cons c s)
  have "\<not> starts_with '' | '' (c # s)" using Cons.prems starts_with_set [of "'' | ''" "c # s"] by auto
  with Cons show ?case by (subst split_sub_aux.simps) simp
qed

lemma strip_Nil [simp]: "strip [] = []"
  by (simp add: strip_def lstrip_def rstrip_def)

lemma strip_space_front: "strip (CHR '' '' # s) = strip s"
  by (simp add: strip_def lstrip_def is_space_def)

lemma rstrip_space_end: "rstrip (s @ '' '') = rstrip s"
  by (simp add: rstrip_def is_space_def)

lemma strip_space_end: "strip (s @ '' '') = strip s"
proof (cases "\<forall>c\<in>set s. is_space c")
  case True
  then have "lstrip (s @ '' '') = []" "lstrip s = []"
    by (simp_all add: lstrip_def is_space_def)
  then show ?thesis by (simp add: strip_def)
next
  case False
  then have "lstrip (s @ '' '') = lstrip s @ '' ''"
    unfolding lstrip_def by (auto intro: dropWhile_append1)
  then show ?thesis by (simp add: strip_def rstrip_space_end)
qed

lemma split_sub_cells:
  "r \<noteq> [] \<Longrightarrow> list_all cell_ok r \<Longrightarrow> strip (rev acc) = [] \<Longrightarrow> CHR ''|'' \<notin> set acc \<Longrightarrow>
   map strip (split_sub_aux '' | '' acc (join_str '' | '' r @ '' '')) = strip (rev acc @ hd r) # tl r"
proof (induction "'' | ''" r arbitrary: acc rule: join_str.induct)
  case (2 x)
  then show ?case
    using split_sub_none [of "x @ '' ''" acc] strip_space_end [of "rev acc @ x"] by (simp add: cell_ok_def)
next
  case (3 x y ys)
  have "map strip (split_sub_aux '' | '' [] (join_str '' | '' (y # ys) @ '' '')) = strip ([] @ y) # ys"
    using 3(1) [of "[]"] 3(3) by (simp add: cell_ok_def)
  moreover have "split_sub_aux '' | '' acc (join_str '' | '' (x # y # ys) @ '' '')
      = (rev acc @ x) # split_sub_aux '' | '' [] (join_str '' | '' (y # ys) @ '' '')"
    using 3 split_sub_step [of x acc "join_str '' | '' (y # ys) @ '' ''"] by (simp add: cell_ok_def)
  ultimately show ?case using 3 by (simp add: cell_ok_def)
qed simp

lemma strip_table_row: "strip (table_row r) = table_row r"
  by (intro strip_id_ends) (simp_all add: table_row_def is_space_def)

lemma cells_table_row:
  assumes "row_ok r"
  shows "cells (table_row r) = Inr r"
proof -
  have inner: "butlast (tl (table_row r)) = '' '' @ join_str '' | '' r @ '' ''"
    by (simp add: table_row_def butlast_append)
  have "ends_with ''|'' (table_row r)"
    by (simp add: ends_with_def table_row_def)
  moreover have "starts_with ''|'' (table_row r)" by (simp add: table_row_def)
  moreover have "map strip (split_sub '' | '' (butlast (tl (table_row r)))) = r"
  proof -
    have "split_sub '' | '' ('' '' @ join_str '' | '' r @ '' '') = split_sub_aux '' | '' '' '' (join_str '' | '' r @ '' '')"
    proof -
      have "\<not> starts_with '' | '' ('' '' @ join_str '' | '' r @ '' '')"
        using assms by (cases r; cases "tl r"; cases "hd r") (auto simp: row_ok_def cell_ok_def)
      then show ?thesis unfolding split_sub_def by (subst split_sub_aux.simps) simp
    qed
    then show ?thesis
      unfolding inner using assms split_sub_cells [of r "'' ''"] strip_space_front [of "hd r"]
      by (cases r) (simp_all add: row_ok_def cell_ok_def strip_space_front)
  qed
  ultimately show ?thesis by (simp add: cells_def strip_table_row Let_def assert_that_def)
qed

lemma is_row_table_row [simp]: "is_row (table_row r)"
  by (simp add: is_row_def table_row_def)

lemma sep_line_table:
  assumes "as \<noteq> []"
  shows "sep_line (''|'' @ join_str ''|'' (map align_sep as) @ ''|'')"
proof -
  let ?j = "join_str ''|'' (map align_sep as)"
  have a: "set (align_sep a) \<subseteq> set ''-:|''" "align_sep a \<noteq> []" for a by (cases a; auto)+
  have j: "set ?j \<subseteq> set ''-:|''"
    using set_join_str [of "''|''" "map align_sep as"] a(1) by fastforce
  have j': "?j \<noteq> []" using a(2) assms by (cases as rule: remdups_adj.cases) auto
  have "strip (''|'' @ ?j @ ''|'') = ''|'' @ ?j @ ''|''"
    by (intro strip_id_ends) (simp_all add: is_space_def)
  moreover have "list_all (\<lambda>c. c \<in> set ''-:| '') ?j" using j by (auto simp: list_all_iff)
  moreover have "3 \<le> length (''|'' @ ?j @ ''|'')" using j' by (cases ?j) auto
  ultimately show ?thesis by (simp add: sep_line_def Let_def butlast_append)
qed

lemma read_tables_skip: "\<not> is_row l \<Longrightarrow> read_tables_aux i (l # ls) = read_tables_aux (Suc i) ls"
  by (subst read_tables_aux.simps) simp

lemma read_tables_skips:
  "list_all (\<lambda>l. \<not> is_row l) pre \<Longrightarrow> read_tables_aux i (pre @ ls) = read_tables_aux (i + length pre) ls"
  by (induction pre arbitrary: i) (simp_all add: read_tables_skip)

lemma emap_cells: "list_all row_ok rs \<Longrightarrow> emap cells (map table_row rs) = Inr rs"
  by (induction rs) (simp_all add: cells_table_row)

lemma read_tables_table:
  assumes "row_ok hs" "list_all row_ok rs" "as \<noteq> []" "ls = [] \<or> \<not> is_row (hd ls)"
  shows "read_tables_aux i (table hs as rs @ ls)
       = ebind (read_tables_aux (i + 2 + length rs) ls) (\<lambda>ts. Inr ((i, hs # rs) # ts))"
proof -
  have "takeWhile is_row (map table_row rs @ ls) = map table_row rs"
    and "dropWhile is_row (map table_row rs @ ls) = ls"
    using assms(4) by (induction rs) (cases ls; auto)+
  then show ?thesis
    using assms sep_line_table [of as] emap_cells [of rs]
    by (subst read_tables_aux.simps) (simp add: table_def cells_table_row)
qed

text \<open>A document: tables, each after lines that belong to no table.\<close>

type_synonym segment = "string list \<times> string list \<times> align list \<times> string list list"

fun document :: "segment list \<Rightarrow> string list \<Rightarrow> string list" where
  "document [] post = post"
| "document ((pre, hs, as, rs) # segs) post = pre @ table hs as rs @ document segs post"

fun document_tables :: "nat \<Rightarrow> segment list \<Rightarrow> (nat \<times> string list list) list" where
  "document_tables i [] = []"
| "document_tables i ((pre, hs, as, rs) # segs) =
     (i + length pre, hs # rs) # document_tables (i + length pre + 2 + length rs) segs"

definition segment_ok :: "segment \<Rightarrow> bool" where
  "segment_ok s = (case s of (pre, hs, as, rs) \<Rightarrow>
     pre \<noteq> [] \<and> list_all (\<lambda>l. \<not> is_row l) pre \<and> row_ok hs \<and> as \<noteq> [] \<and> list_all row_ok rs)"

lemma document_hd:
  "list_all segment_ok segs \<Longrightarrow> list_all (\<lambda>l. \<not> is_row l) post \<Longrightarrow>
   document segs post = [] \<or> \<not> is_row (hd (document segs post))"
  by (induction segs post rule: document.induct) (auto simp: segment_ok_def list_all_iff)

lemma read_document_aux:
  assumes "list_all segment_ok segs" "list_all (\<lambda>l. \<not> is_row l) post"
  shows "read_tables_aux i (document segs post) = Inr (document_tables i segs)"
  using assms
proof (induction i segs rule: document_tables.induct)
  case (1 i)
  then have "read_tables_aux i (post @ []) = read_tables_aux (i + length post) []"
    by (intro read_tables_skips) simp
  then show ?case by (simp add: read_tables_aux.simps)
next
  case (2 i pre hs as rs segs)
  then have seg: "segment_ok (pre, hs, as, rs)" and rest: "list_all segment_ok segs" by simp_all
  note read_tables_table [of hs rs as "document segs post" "i + length pre"]
  with seg 2(1) [OF rest 2(3)] document_hd [OF rest 2(3)] show ?case
    by (simp add: segment_ok_def read_tables_skips)
qed

text \<open>C30. What \<open>build.py\<close> prints, \<open>check_md.py\<close> reads: in any document made of printed tables, each after at least one
  line that starts no table row, \<open>read_tables\<close> finds exactly those tables, in order, at their places,
  cell for cell, provided that no cell holds a bar or has a space at an end.\<close>

theorem printed_tables_read_back:
  assumes "list_all segment_ok segs" "list_all (\<lambda>l. \<not> is_row l) post"
  shows "read_tables (document segs post) 0 (length (document segs post)) = Inr (document_tables 0 segs)"
  using read_document_aux [OF assms, of 0] by (simp add: read_tables_def)

theorem printed_tables_read_back_witness:
  "read_tables (document [([''#### Shop'', []], [''Account'', ''Rs''], [AL, AR], [[''Cash'', ''1,200''], [''Total'', []]]),
                          ([[]], [''Who''], [AC], [])] [[], ''end'']) 0 11
   = Inr [(2, [[''Account'', ''Rs''], [''Cash'', ''1,200''], [''Total'', []]]), (7, [[''Who'']])]"
proof -
  let ?segs = "[([''#### Shop'', []], [''Account'', ''Rs''], [AL, AR], [[''Cash'', ''1,200''], [''Total'', []]]),
                          ([[]], [''Who''], [AC], [])]"
  have "list_all segment_ok ?segs"
    by (simp add: segment_ok_def row_ok_def cell_ok_def is_row_def strip_id_ends is_space_def)
  moreover have "list_all (\<lambda>l. \<not> is_row l) [[], ''end'']" by (simp add: is_row_def)
  ultimately have "read_tables (document ?segs [[], ''end'']) 0 (length (document ?segs [[], ''end''])) = Inr (document_tables 0 ?segs)"
    by (rule printed_tables_read_back)
  then show ?thesis by (simp add: table_def eval_nat_numeral)
qed

end
