(* ===== verification/Accounts.thy ===== *)
theory Accounts
  imports Calendar
begin

text \<open>
  The data model of \<open>build.py\<close>: the kinds of account (\<open>KIND\<close>), the voucher types, \<open>Account\<close>,
  \<open>Voucher\<close>, \<open>Book\<close> and the operations that build a book before it is finalised.  A Python
  dictionary that is only ever filled in order (\<open>Book.accounts\<close>, whose keys are the account names
  and whose insertion order is \<open>Book.order\<close>) is the list of its values; the fields that
  \<open>Book.post\<close> adds to an account or a voucher are record extensions, so a posted book has its own
  type.
\<close>

section \<open>Kinds of account\<close>

datatype kind =
    Cash | Gollak | Bank | Wallet | Card | CC | Party | Link | Stake | Advance | Loanto | Retention
  | Fixed | Deppaid | Invest | Loan | Deposit | Fund | Capital | Drawings | Shareout | Partner
  | Pcapital | Pcurrent | Income | Expense

record kind_info =
  std_type :: string
  trad :: string
  natural :: string
  kind_cols :: "string \<times> string"
  type_word :: string

fun KIND :: "kind \<Rightarrow> kind_info" where
  "KIND Cash = \<lparr>std_type = ''Asset'', trad = ''Real'', natural = ''Dr'', kind_cols = (''Money in (Dr)'', ''Money out (Cr)''), type_word = ''Cash''\<rparr>"
| "KIND Gollak = \<lparr>std_type = ''Asset'', trad = ''Real'', natural = ''Dr'', kind_cols = (''Counted in (Dr)'', ''Emptied (Cr)''), type_word = ''Gollak''\<rparr>"
| "KIND Bank = \<lparr>std_type = ''Asset'', trad = ''Personal'', natural = ''Dr'', kind_cols = (''Money in (Dr)'', ''Money out (Cr)''), type_word = ''Bank''\<rparr>"
| "KIND Wallet = \<lparr>std_type = ''Asset'', trad = ''Personal'', natural = ''Dr'', kind_cols = (''Money in (Dr)'', ''Money out (Cr)''), type_word = ''Wallet''\<rparr>"
| "KIND Card = \<lparr>std_type = ''Liability (by balance)'', trad = ''Personal'', natural = ''Cr'', kind_cols = (''Paid in (Dr)'', ''Spent on the card (Cr)''), type_word = ''Credit card''\<rparr>"
| "KIND CC = \<lparr>std_type = ''Liability (by balance)'', trad = ''Personal'', natural = ''Cr'', kind_cols = (''Paid in (Dr)'', ''Drawn / charged (Cr)''), type_word = ''KCC loan''\<rparr>"
| "KIND Party = \<lparr>std_type = ''Asset / Liability (by balance)'', trad = ''Personal'', natural = ''by sign'', kind_cols = (''You will get (Dr)'', ''You will give (Cr)''), type_word = ''Person / shop''\<rparr>"
| "KIND Link = \<lparr>std_type = ''Asset / Liability (by balance)'', trad = ''Personal'', natural = ''by sign'', kind_cols = (''Given (Dr)'', ''Received (Cr)''), type_word = ''Other book''\<rparr>"
| "KIND Stake = \<lparr>std_type = ''Asset'', trad = ''Personal'', natural = ''Dr'', kind_cols = (''Put in (Dr)'', ''Taken out (Cr)''), type_word = ''Money in a business''\<rparr>"
| "KIND Advance = \<lparr>std_type = ''Asset'', trad = ''Personal'', natural = ''Dr'', kind_cols = (''Given as advance (Dr)'', ''Settled / returned (Cr)''), type_word = ''Advance''\<rparr>"
| "KIND Loanto = \<lparr>std_type = ''Asset'', trad = ''Personal'', natural = ''Dr'', kind_cols = (''Lent (Dr)'', ''Paid back / written off (Cr)''), type_word = ''Loan given''\<rparr>"
| "KIND Retention = \<lparr>std_type = ''Asset'', trad = ''Personal'', natural = ''Dr'', kind_cols = (''Held back (Dr)'', ''Released (Cr)''), type_word = ''Retention held''\<rparr>"
| "KIND Fixed = \<lparr>std_type = ''Asset'', trad = ''Real'', natural = ''Dr'', kind_cols = (''Bought / received (Dr)'', ''Sold / gone (Cr)''), type_word = ''Thing owned''\<rparr>"
| "KIND Deppaid = \<lparr>std_type = ''Asset'', trad = ''Personal'', natural = ''Dr'', kind_cols = (''Paid (Dr)'', ''Got back / set off (Cr)''), type_word = ''Deposit paid''\<rparr>"
| "KIND Invest = \<lparr>std_type = ''Asset'', trad = ''Personal'', natural = ''Dr'', kind_cols = (''Kept aside / interest added (Dr)'', ''Taken back (Cr)''), type_word = ''Deposit''\<rparr>"
| "KIND Loan = \<lparr>std_type = ''Liability'', trad = ''Personal'', natural = ''Cr'', kind_cols = (''Paid back (Dr)'', ''Taken (Cr)''), type_word = ''Loan''\<rparr>"
| "KIND Deposit = \<lparr>std_type = ''Liability'', trad = ''Personal'', natural = ''Cr'', kind_cols = (''Returned / set off (Dr)'', ''Received (Cr)''), type_word = ''Deposit held''\<rparr>"
| "KIND Fund = \<lparr>std_type = ''Capital (fund for a purpose)'', trad = ''Personal'', natural = ''Cr'', kind_cols = (''Spent from it (Dr)'', ''Added to it (Cr)''), type_word = ''Fund''\<rparr>"
| "KIND Capital = \<lparr>std_type = ''Capital'', trad = ''Personal'', natural = ''Cr'', kind_cols = (''Taken out (Dr)'', ''Put in / added (Cr)''), type_word = ''Own money''\<rparr>"
| "KIND Drawings = \<lparr>std_type = ''Capital (contra)'', trad = ''Personal'', natural = ''Dr'', kind_cols = (''Taken out (Dr)'', ''Put back / closed to own money (Cr)''), type_word = ''Drawings''\<rparr>"
| "KIND Shareout = \<lparr>std_type = ''Capital (contra)'', trad = ''Personal'', natural = ''Dr'', kind_cols = (''Shared out (Dr)'', ''Put back / closed to own money (Cr)''), type_word = ''Share-out''\<rparr>"
| "KIND Partner = \<lparr>std_type = ''Capital'', trad = ''Personal'', natural = ''Cr'', kind_cols = (''Taken out (Dr)'', ''Put in / added (Cr)''), type_word = ''Partner''\<rparr>"
| "KIND Pcapital = \<lparr>std_type = ''Capital'', trad = ''Personal'', natural = ''Cr'', kind_cols = (''Taken out (Dr)'', ''Put in / added (Cr)''), type_word = ''Partner's capital''\<rparr>"
| "KIND Pcurrent = \<lparr>std_type = ''Capital'', trad = ''Personal'', natural = ''by sign'', kind_cols = (''Taken out (Dr)'', ''Put in / added (Cr)''), type_word = ''Partner's current''\<rparr>"
| "KIND Income = \<lparr>std_type = ''Income'', trad = ''Nominal'', natural = ''Cr'', kind_cols = (''Taken off / closed (Dr)'', ''Income (Cr)''), type_word = ''Income''\<rparr>"
| "KIND Expense = \<lparr>std_type = ''Expense'', trad = ''Nominal'', natural = ''Dr'', kind_cols = (''Spent (Dr)'', ''Got back / closed (Cr)''), type_word = ''Expense''\<rparr>"

definition MONEY_KINDS :: "kind list" where
  "MONEY_KINDS = [Cash, Gollak, Bank, Wallet, Card, CC]"

definition NONNEG_MONEY :: "kind list" where
  "NONNEG_MONEY = [Cash, Gollak, Bank, Wallet]"

definition EQUITY_KINDS :: "kind list" where
  "EQUITY_KINDS = [Capital, Drawings, Shareout, Partner, Pcapital, Pcurrent]"

definition HAVE_KINDS :: "kind list" where
  "HAVE_KINDS = [Cash, Gollak, Bank, Wallet, Card, CC, Advance, Fixed, Invest, Stake, Deppaid, Loanto, Retention]"

definition CONTRA_KINDS :: "kind list" where
  "CONTRA_KINDS = [Cash, Gollak, Bank, CC]"

definition is_bs :: "kind \<Rightarrow> bool" where
  "is_bs k = (k \<noteq> Income \<and> k \<noteq> Expense)"

definition is_money :: "kind \<Rightarrow> bool" where
  "is_money k = (k \<in> set MONEY_KINDS)"

definition is_equity :: "kind \<Rightarrow> bool" where
  "is_equity k = (k \<in> set EQUITY_KINDS)"

section \<open>Voucher types\<close>

text \<open>The keys of \<open>PLAIN_VTYPE\<close>; any other string a caller may pass is \<open>OtherVtype\<close>.\<close>

datatype vtype =
    Receipt | Payment | Contra | CreditGiven | CreditTaken | AdvanceSettled | PaidByPartner
  | Correction | PaidByFamily | Settled | Journal | FundPayment | InterestAdded | WrittenOff
  | SetOff | Forfeited | RetentionReleased | FromFund | OtherVtype string

definition VTYPES :: "vtype list" where
  "VTYPES = [Receipt, Payment, Contra, CreditGiven, CreditTaken, AdvanceSettled, PaidByPartner,
     Correction, PaidByFamily, Settled, Journal, FundPayment, InterestAdded, WrittenOff,
     SetOff, Forfeited, RetentionReleased, FromFund]"

fun vtype_str :: "vtype \<Rightarrow> string" where
  "vtype_str Receipt = ''Receipt''"
| "vtype_str Payment = ''Payment''"
| "vtype_str Contra = ''Contra''"
| "vtype_str CreditGiven = ''Journal (credit given)''"
| "vtype_str CreditTaken = ''Journal (credit taken)''"
| "vtype_str AdvanceSettled = ''Journal (advance settled)''"
| "vtype_str PaidByPartner = ''Journal (paid by partner)''"
| "vtype_str Correction = ''Journal (correction)''"
| "vtype_str PaidByFamily = ''Journal (paid by family)''"
| "vtype_str Settled = ''Journal (settled)''"
| "vtype_str Journal = ''Journal''"
| "vtype_str FundPayment = ''Payment (from a fund)''"
| "vtype_str InterestAdded = ''Journal (interest added)''"
| "vtype_str WrittenOff = ''Journal (written off)''"
| "vtype_str SetOff = ''Journal (set off)''"
| "vtype_str Forfeited = ''Journal (deposit forfeited)''"
| "vtype_str RetentionReleased = ''Journal (retention released)''"
| "vtype_str FromFund = ''Journal (from a fund)''"
| "vtype_str (OtherVtype s) = s"

fun PLAIN_VTYPE :: "vtype \<Rightarrow> string" where
  "PLAIN_VTYPE Receipt = ''Money in''"
| "PLAIN_VTYPE Payment = ''Money out''"
| "PLAIN_VTYPE Contra = ''Transfer''"
| "PLAIN_VTYPE CreditGiven = ''Gave on credit''"
| "PLAIN_VTYPE CreditTaken = ''Took on credit''"
| "PLAIN_VTYPE AdvanceSettled = ''Advance settled''"
| "PLAIN_VTYPE PaidByPartner = ''Paid by a partner''"
| "PLAIN_VTYPE Correction = ''Correction''"
| "PLAIN_VTYPE PaidByFamily = ''Paid by the joint family''"
| "PLAIN_VTYPE Settled = ''Settled at year end''"
| "PLAIN_VTYPE Journal = ''Fix / Adjust''"
| "PLAIN_VTYPE FundPayment = ''Paid from a fund''"
| "PLAIN_VTYPE InterestAdded = ''Interest added to a deposit''"
| "PLAIN_VTYPE WrittenOff = ''Written off''"
| "PLAIN_VTYPE SetOff = ''Deposit set off''"
| "PLAIN_VTYPE Forfeited = ''Deposit forfeited''"
| "PLAIN_VTYPE RetentionReleased = ''Retention released''"
| "PLAIN_VTYPE FromFund = ''Moved from a fund''"
| "PLAIN_VTYPE (OtherVtype s) = s"

section \<open>Accounts, vouchers, books\<close>

record account =
  aname :: string
  kind :: kind
  label :: string
  opening_bal :: int                      \<comment> \<open>signed paise, positive is Dr\<close>
  group :: string
  cols :: "string \<times> string"

text \<open>\<open>Account(name, kind, label, opening=0)\<close>, with the group and the columns of its kind; and with a
  group of its own.\<close>

definition Account :: "string \<Rightarrow> kind \<Rightarrow> string \<Rightarrow> int \<Rightarrow> account" where
  "Account nm k lb op =
     \<lparr>aname = nm, kind = k, label = lb, opening_bal = op,
      group = type_word (KIND k), cols = kind_cols (KIND k)\<rparr>"

definition AccountG :: "string \<Rightarrow> kind \<Rightarrow> string \<Rightarrow> int \<Rightarrow> string \<Rightarrow> account" where
  "AccountG nm k lb op g = (Account nm k lb op)\<lparr>group := (if g \<noteq> '''' then g else group (Account nm k lb op))\<rparr>"

record voucher =
  vdate :: date
  vtype :: vtype
  narration :: string
  vlines :: "(string \<times> int) list"     \<comment> \<open>account name, signed paise\<close>
  stmt :: "string option"             \<comment> \<open>bank-statement wording\<close>
  vseq :: nat
  vref :: "nat option"                \<comment> \<open>\<open>seq\<close> of an earlier voucher of the book named in the note\<close>

record posted_voucher = voucher +
  vid :: string

record ledger_row =
  rdate :: date
  rvid :: string
  rvch :: posted_voucher
  part :: string
  dr :: int
  cr :: int
  rbal :: int

record ledger_account = account +
  rows :: "ledger_row list"
  bal :: int
  closing :: int

definition amount :: "('a) voucher_scheme \<Rightarrow> int" where
  "amount v = sum_list [a. (_, a) \<leftarrow> vlines v, a > 0]"

definition dr_lines :: "('a) voucher_scheme \<Rightarrow> (string \<times> int) list" where
  "dr_lines v = [(n, a). (n, a) \<leftarrow> vlines v, a > 0]"

definition cr_lines :: "('a) voucher_scheme \<Rightarrow> (string \<times> int) list" where
  "cr_lines v = [(n, - a). (n, a) \<leftarrow> vlines v, a < 0]"

datatype style = Business | Property | Household | Npo

record partner =
  pname :: string
  pcapital :: "string option"
  pcurrent :: string
  share :: int
  ioc_bp :: int

record ('a, 'v) gbook =
  bname :: string
  kindword :: string
  prefix :: string
  style :: style
  accounts :: "'a list"
  vouchers :: "'v list"
  about :: string
  custom :: "(string \<times> date \<times> date \<times> string) option"
  bank_extract :: "(string \<times> (int \<times> int)) option"
  partners :: "partner list"
  own_word :: string
  pl_title :: string
  assets_note :: string
  journal_word :: string
  construction :: "(string \<times> string) option"
  chart_note :: string
  put_word :: string
  taken_word :: string
  put_note :: string
  taken_note :: string
  min_count :: int                    \<comment> \<open>\<open>counts.get("min", 40)\<close>\<close>
  max_count :: int                    \<comment> \<open>\<open>counts.get("max", 60)\<close>\<close>
  stock_line :: bool
  pl_note :: string

type_synonym book = "(account, voucher) gbook"
type_synonym posted_book = "(ledger_account, posted_voucher) gbook"

fun pl_title_of :: "style \<Rightarrow> string" where
  "pl_title_of Business = ''Profit & Loss Account''"
| "pl_title_of Property = ''Profit & Loss Account''"
| "pl_title_of Household = ''Income & Expenses''"
| "pl_title_of Npo = ''Income & Expenditure Account''"

definition Book :: "string \<Rightarrow> string \<Rightarrow> string \<Rightarrow> style \<Rightarrow> book" where
  "Book nm kw pre st =
     \<lparr>bname = nm, kindword = kw, prefix = pre, style = st, accounts = [], vouchers = [], about = '''',
      custom = None, bank_extract = None, partners = [], own_word = ''Own money'',
      pl_title = pl_title_of st, assets_note = '''',
      journal_word = ''an adjustment where no money moved'', construction = None, chart_note = '''',
      put_word = ''Put in'', taken_word = ''Taken out'', put_note = '''', taken_note = '''',
      min_count = 40, max_count = 60, stock_line = False, pl_note = ''''\<rparr>"

definition order :: "(('a) account_scheme, 'v) gbook \<Rightarrow> string list" where
  "order b = map aname (accounts b)"

definition find_account :: "(('a) account_scheme, 'v) gbook \<Rightarrow> string \<Rightarrow> ('a) account_scheme option" where
  "find_account b n = find (\<lambda>a. aname a = n) (accounts b)"

definition kind_of :: "(('a) account_scheme, 'v) gbook \<Rightarrow> string \<Rightarrow> kind option" where
  "kind_of b n = map_option kind (find_account b n)"

definition known :: "(('a) account_scheme, 'v) gbook \<Rightarrow> string \<Rightarrow> bool" where
  "known b n = (find_account b n \<noteq> None)"

definition name_is :: "(('a) account_scheme, 'v) gbook \<Rightarrow> kind list \<Rightarrow> string \<Rightarrow> bool" where
  "name_is b ks n = (case kind_of b n of None \<Rightarrow> False | Some k \<Rightarrow> k \<in> set ks)"

section \<open>Building a book\<close>

definition add :: "book \<Rightarrow> account \<Rightarrow> error + book" where
  "add b a =
     (if known b (aname a) then Inl (AssertionError (aname a))
      else Inr (b\<lparr>accounts := accounts b @ [a]\<rparr>))"

definition set_opening :: "string \<Rightarrow> int \<Rightarrow> account list \<Rightarrow> account list" where
  "set_opening n x as = map (\<lambda>a. if aname a = n then a\<lparr>opening_bal := x\<rparr> else a) as"

text \<open>The own-money opening is the balancing figure of every other opening.\<close>

definition balance_opening_into :: "book \<Rightarrow> string \<Rightarrow> error + book" where
  "balance_opening_into b nm =
     (let total = sum_list [opening_bal a. a \<leftarrow> accounts b, aname a \<noteq> nm]
      in if known b nm then Inr (b\<lparr>accounts := set_opening nm (- total) (accounts b)\<rparr>)
         else Inl (KeyError nm))"

text \<open>An entry as the builders write it, before the book gives it its \<open>seq\<close>.\<close>

record entry =
  edate :: date
  etype :: vtype
  enarr :: string
  elines :: "(string \<times> int) list"
  estmt :: "string option"
  eref :: "nat option"

definition ventry :: "date \<Rightarrow> vtype \<Rightarrow> string \<Rightarrow> (string \<times> int) list \<Rightarrow> string option \<Rightarrow> entry" where
  "ventry d t narr ls st = \<lparr>edate = d, etype = t, enarr = narr, elines = ls, estmt = st, eref = None\<rparr>"

definition pay :: "date \<Rightarrow> string \<Rightarrow> string \<Rightarrow> int \<Rightarrow> string \<Rightarrow> string option \<Rightarrow> entry" where
  "pay d drn money amt narr st = ventry d Payment narr [(drn, amt), (money, - amt)] st"

definition rcv :: "date \<Rightarrow> string \<Rightarrow> string \<Rightarrow> int \<Rightarrow> string \<Rightarrow> string option \<Rightarrow> entry" where
  "rcv d money crn amt narr st = ventry d Receipt narr [(money, amt), (crn, - amt)] st"

definition move :: "date \<Rightarrow> string \<Rightarrow> string \<Rightarrow> int \<Rightarrow> string \<Rightarrow> string option \<Rightarrow> entry" where
  "move d to frm amt narr st = ventry d Contra narr [(to, amt), (frm, - amt)] st"

definition gave :: "date \<Rightarrow> string \<Rightarrow> string \<Rightarrow> int \<Rightarrow> string \<Rightarrow> entry" where
  "gave d party inc amt narr = ventry d CreditGiven narr [(party, amt), (inc, - amt)] None"

definition took :: "date \<Rightarrow> string \<Rightarrow> string \<Rightarrow> int \<Rightarrow> string \<Rightarrow> entry" where
  "took d exp party amt narr = ventry d CreditTaken narr [(exp, amt), (party, - amt)] None"

definition fix_entry :: "date \<Rightarrow> string \<Rightarrow> string \<Rightarrow> int \<Rightarrow> string \<Rightarrow> vtype \<Rightarrow> nat option \<Rightarrow> entry" where
  "fix_entry d drn crn amt narr t ref = (ventry d t narr [(drn, amt), (crn, - amt)] None)\<lparr>eref := ref\<rparr>"

text \<open>\<open>Book.v\<close>: a date outside the year is refused; the voucher is numbered by the place it takes.\<close>

definition book_v :: "book \<Rightarrow> entry \<Rightarrow> error + book" where
  "book_v b e =
     (if FY_START \<le> edate e \<and> edate e \<le> FY_END
      then Inr (b\<lparr>vouchers := vouchers b @
             [\<lparr>vdate = edate e, vtype = etype e, narration = enarr e, vlines = elines e,
               stmt = estmt e, vseq = length (vouchers b), vref = eref e\<rparr>]\<rparr>)
      else Inl (AssertionError (enarr e)))"

definition add_accounts :: "book \<Rightarrow> account list \<Rightarrow> error + book" where
  "add_accounts b as = efold add b as"

definition add_entries :: "book \<Rightarrow> entry list \<Rightarrow> error + book" where
  "add_entries b es = efold book_v b es"

text \<open>The formal voucher type the technical companion prints (\<open>formal_vtype\<close>).\<close>

definition formal_vtype :: "(('a) account_scheme, 'v) gbook \<Rightarrow> ('w) voucher_scheme \<Rightarrow> vtype" where
  "formal_vtype b v =
     (if vtype v \<noteq> Contra \<or> list_all (\<lambda>(n, _). name_is b CONTRA_KINDS n) (vlines v) then vtype v
      else if list_ex (\<lambda>(n, a). name_is b CONTRA_KINDS n \<and> a < 0) (vlines v) then Payment
      else if list_ex (\<lambda>(n, a). name_is b CONTRA_KINDS n \<and> a > 0) (vlines v) then Receipt
      else Journal)"

section \<open>A book under construction is well formed\<close>

text \<open>The names of the accounts are distinct, the vouchers are numbered by their place and lie in the
  year, and a correction names an earlier entry or none.\<close>

definition book_wf :: "book \<Rightarrow> bool" where
  "book_wf b =
     (distinct (order b) \<and> map vseq (vouchers b) = [0..<length (vouchers b)]
      \<and> list_all (\<lambda>v. FY_START \<le> vdate v \<and> vdate v \<le> FY_END) (vouchers b))"

lemma find_account_Some: "find_account b n = Some a \<Longrightarrow> a \<in> set (accounts b) \<and> aname a = n"
  by (auto simp: find_account_def find_Some_iff)

lemma known_iff: "known b n \<longleftrightarrow> n \<in> set (order b)"
  by (auto simp: known_def find_account_def order_def find_None_iff)

lemma find_account_eq:
  assumes "distinct (order b)" "a \<in> set (accounts b)"
  shows "find_account b (aname a) = Some a"
proof -
  obtain c where c: "find_account b (aname a) = Some c"
    using assms known_iff [of b "aname a"] by (auto simp: known_def order_def)
  from find_account_Some [OF c] assms have "c = a"
    by (auto simp: order_def distinct_map dest: inj_onD)
  with c show ?thesis by simp
qed

lemma Book_wf: "book_wf (Book nm kw pre st)"
  by (simp add: book_wf_def Book_def order_def)

lemma add_wf: "book_wf b \<Longrightarrow> add b a = Inr b' \<Longrightarrow> book_wf b'"
  by (auto simp: book_wf_def add_def order_def known_iff split: if_splits)

lemma set_opening_names [simp]: "map aname (set_opening n x as) = map aname as"
  by (simp add: set_opening_def)

lemma balance_opening_into_wf: "book_wf b \<Longrightarrow> balance_opening_into b n = Inr b' \<Longrightarrow> book_wf b'"
  by (auto simp: book_wf_def balance_opening_into_def order_def Let_def split: if_splits)

lemma book_v_wf: "book_wf b \<Longrightarrow> book_v b e = Inr b' \<Longrightarrow> book_wf b'"
  by (auto simp: book_wf_def book_v_def order_def split: if_splits)

text \<open>After \<open>balance_opening_into\<close> the openings of the book sum to nil.\<close>

lemma balance_opening_into_sum:
  assumes "book_wf b" "balance_opening_into b n = Inr b'"
  shows "(\<Sum>a\<leftarrow>accounts b'. opening_bal a) = 0"
proof -
  let ?f = "\<lambda>a. if aname a = n then 0 else opening_bal a"
  let ?t = "sum_list [opening_bal a. a \<leftarrow> accounts b, aname a \<noteq> n]"
  have t: "?t = (\<Sum>a\<leftarrow>accounts b. ?f a)"
    by (auto intro!: arg_cong [where f = sum_list] map_cong)
  from assms(2) obtain a where a: "a \<in> set (accounts b)" "aname a = n"
    and b': "accounts b' = set_opening n (- ?t) (accounts b)"
    by (auto simp: balance_opening_into_def known_def Let_def dest: find_account_Some split: if_splits)
  have "(\<Sum>x\<leftarrow>accounts b'. opening_bal x) = (\<Sum>x\<leftarrow>accounts b. if aname x = aname a then - ?t else ?f x)"
    unfolding b' set_opening_def using a(2)
    by (simp add: o_def if_distrib [of opening_bal] cong: if_cong)
  also have "... = (\<Sum>x\<leftarrow>accounts b. ?f x) + (- ?t) - ?f a"
    using assms(1) a(1) by (intro sum_list_map_if_eq [where g = "\<lambda>_. - ?t"]) (auto simp: book_wf_def order_def)
  also have "... = 0" using t a(2) by simp
  finally show ?thesis .
qed

end
