(* ===== verification/Posting.thy ===== *)
theory Posting
  imports Accounts "HOL-Library.Product_Lexorder"
begin

text \<open>
  \<open>Book.finalize\<close> and what it calls: sorting and numbering the vouchers, filling a correction's
  note, \<open>validate_vouchers\<close>, \<open>post\<close> and \<open>validate_balances\<close>; then the queries on a posted book.
  The double-entry laws are stated once, in the locale \<open>double_entry\<close>, and interpreted on the
  posted book.
\<close>

section \<open>finalize, step by step\<close>

text \<open>Sorting by date and \<open>seq\<close>, and numbering from 1.\<close>

definition sort_vouchers :: "voucher list \<Rightarrow> voucher list" where
  "sort_vouchers vs = sort_key (\<lambda>v. (vdate v, vseq v)) vs"

fun number_vouchers :: "string \<Rightarrow> int \<Rightarrow> voucher list \<Rightarrow> posted_voucher list" where
  "number_vouchers pre i [] = []"
| "number_vouchers pre i (v # vs) =
     voucher.extend v \<lparr>vid = pre @ ''-'' @ pad0 3 i\<rparr> # number_vouchers pre (i + 1) vs"

text \<open>The note of an entry that names an earlier one: \<open>{ref}\<close> becomes its number and date.\<close>

definition fill_ref :: "posted_voucher list \<Rightarrow> posted_voucher \<Rightarrow> error + posted_voucher" where
  "fill_ref vs v =
     (case vref v of None \<Rightarrow> Inr v
      | Some k \<Rightarrow>
          (case find (\<lambda>w. vseq w = k) vs of
             None \<Rightarrow> Inl (KeyError ''ref'')
           | Some w \<Rightarrow> Inr (v\<lparr>narration :=
               str_replace ''{ref}'' (vid w @ '' of '' @ fdate (vdate w)) (narration v)\<rparr>)))"

text \<open>The assertions of \<open>validate_vouchers\<close> on one voucher, in source order; \<open>b\<close> gives the accounts.\<close>

definition shape_asserts :: "(('b) account_scheme, 'w) gbook \<Rightarrow> ('a) voucher_scheme \<Rightarrow> (bool \<times> string) list" where
  "shape_asserts b v =
     (let ls = vlines v;
          drs = filter (\<lambda>(n, a). a > 0) ls;
          crs = filter (\<lambda>(n, a). a < 0) ls;
          money = filter (\<lambda>(n, a). name_is b MONEY_KINDS n) ls
      in if vtype v = Contra then
           [(length (filter (\<lambda>(n, a). name_is b (Invest # MONEY_KINDS) n) ls) = length ls
               \<and> length ls = 2 \<and> money \<noteq> [], ''a transfer joins two own money/deposit accounts'')]
         else if vtype v = FundPayment then
           (let fd = filter (\<lambda>(n, a). name_is b [Fund] n) drs;
                ic = filter (\<lambda>(n, a). name_is b [Income] n) crs
            in [(length fd = 1 \<and> length ic = 1 \<and> money \<noteq> [] \<and> length ls = 4, ''fund spending shape''),
                (list_all (\<lambda>(n, a). name_is b [Fund, Expense, Fixed] n) drs
                   \<and> list_all (\<lambda>(n, a). name_is b (Income # MONEY_KINDS) n) crs, ''fund spending kinds''),
                (map snd fd = map (\<lambda>(n, a). - a) ic
                   \<and> map snd fd = [sum_list (map (\<lambda>(n, a). - a) (filter (\<lambda>(n, a). name_is b MONEY_KINDS n) crs))],
                 ''fund transfer equals the spending'')])
         else if vtype v = Receipt then
           [(money \<noteq> [], ''money in/out without a money account''),
            (list_all (\<lambda>(n, a). name_is b MONEY_KINDS n) drs, ''money in lands in money'')]
         else if vtype v = Payment then
           [(money \<noteq> [], ''money in/out without a money account''),
            (list_all (\<lambda>(n, a). name_is b ([Advance, Loan] @ MONEY_KINDS) n) crs, ''money out leaves money''),
            (list_all (\<lambda>(n, a). \<not> name_is b MONEY_KINDS n) drs, ''money out debits no money'')]
         else [(money = [], ''a no-money entry must not touch cash/bank'')])"

definition gollak_asserts :: "(('b) account_scheme, 'w) gbook \<Rightarrow> ('a) voucher_scheme \<Rightarrow> (bool \<times> string) list" where
  "gollak_asserts b v =
     map (\<lambda>(n, a).
        if a < 0
        then (vtype v = Contra \<and> list_all (\<lambda>(m, x). name_is b [Cash, Bank] m) (filter (\<lambda>(m, x). x > 0) (vlines v)),
              ''gollak emptied only into cash or bank'')
        else (vtype v = Receipt \<and> list_all (\<lambda>(m, x). name_is b [Income] m) (filter (\<lambda>(m, x). x < 0) (vlines v)),
              ''gollak filled only by a count''))
       (filter (\<lambda>(n, a). name_is b [Gollak] n) (vlines v))"

definition validate_voucher :: "(('b) account_scheme, 'w) gbook \<Rightarrow> ('a) voucher_scheme \<Rightarrow> error + unit" where
  "validate_voucher b v =
     asserts ([(2 \<le> length (vlines v), ''fewer than two lines''),
               (sum_list (map snd (vlines v)) = 0, ''double entry broken''),
               (distinct (map fst (vlines v)), ''account repeated in one entry'')]
              @ concat (map (\<lambda>(n, a). [(known b n, ''unknown account''), (a \<noteq> 0, ''zero line'')]) (vlines v))
              @ [(vtype v \<in> set VTYPES, ''unknown voucher type'')]
              @ shape_asserts b v @ gollak_asserts b v)"

text \<open>\<open>post\<close>: a fresh ledger for every account, then every line of every voucher in turn.\<close>

definition open_ledger :: "account \<Rightarrow> ledger_account" where
  "open_ledger a = account.extend a \<lparr>rows = [], bal = opening_bal a, closing = 0\<rparr>"

definition others :: "book \<Rightarrow> posted_voucher \<Rightarrow> string \<times> int \<Rightarrow> (string \<times> int) list" where
  "others b v l =
     (let ls = vlines v; opp = filter (\<lambda>(m, x). (x > 0) \<noteq> (snd l > 0)) ls
      in if vtype v \<noteq> FundPayment then opp
         else if name_is b [Fund] (fst l) then filter (\<lambda>(m, x). name_is b [Income] m) opp
         else if name_is b [Income] (fst l) then filter (\<lambda>(m, x). name_is b [Fund] m) opp
         else if name_is b [Expense, Fixed] (fst l) then filter (\<lambda>(m, x). name_is b MONEY_KINDS m) opp
         else filter (\<lambda>(m, x). x > 0 \<and> name_is b [Expense, Fixed] m) ls)"

definition part_text :: "int \<Rightarrow> (string \<times> int) list \<Rightarrow> string" where
  "part_text a os =
     (if a > 0 then ''To '' else ''By '') @
     (if length os \<le> 3 then join_str '' / '' (map fst os)
      else ''several accounts ('' @ str_nat (int (length os)) @ '')'')"

definition post_line :: "book \<Rightarrow> posted_voucher \<Rightarrow> ledger_account list \<Rightarrow> string \<times> int \<Rightarrow> ledger_account list" where
  "post_line b v las l =
     map (\<lambda>la. if aname la = fst l
               then la\<lparr>bal := bal la + snd l,
                       rows := rows la @ [\<lparr>rdate = vdate v, rvid = vid v, rvch = v,
                         part = part_text (snd l) (others b v l),
                         dr = (if snd l > 0 then snd l else 0), cr = (if snd l < 0 then - snd l else 0),
                         rbal = bal la + snd l\<rparr>]\<rparr>
               else la) las"

definition post_voucher :: "book \<Rightarrow> ledger_account list \<Rightarrow> posted_voucher \<Rightarrow> ledger_account list" where
  "post_voucher b las v = foldl (post_line b v) las (vlines v)"

definition post :: "book \<Rightarrow> posted_voucher list \<Rightarrow> ledger_account list" where
  "post b vs =
     map (\<lambda>la. la\<lparr>closing := bal la\<rparr>)
       (foldl (post_voucher b) (map open_ledger (accounts b)) vs)"

text \<open>The assertions of \<open>validate_balances\<close>.\<close>

definition account_asserts :: "ledger_account \<Rightarrow> (bool \<times> string) list" where
  "account_asserts a =
     (if kind a \<in> set NONNEG_MONEY
      then (opening_bal a \<ge> 0, ''negative opening'')
           # map (\<lambda>r. (rbal r \<ge> 0, ''cash/bank negative'')) (rows a) else [])
     @ (if kind a = Card then map (\<lambda>r. (rbal r \<le> 0, ''card overpaid'')) (rows a) else [])
     @ (if kind a \<in> set [Advance, Fixed, Invest, Gollak, Deppaid, Loanto, Retention]
        then map (\<lambda>r. (rbal r \<ge> 0, ''over-settled'')) (rows a) else [])
     @ (if kind a = Pcapital
        then [(rows a = [], ''fixed capital moves only by a decision of the partners'')] else [])"

definition validate_balances :: "posted_book \<Rightarrow> error + unit" where
  "validate_balances b =
     asserts
       ([(sum_list [closing a. a \<leftarrow> accounts b, closing a > 0]
            = sum_list [- closing a. a \<leftarrow> accounts b, closing a < 0], ''trial balance''),
         (sum_list (map opening_bal (accounts b)) = 0, ''openings do not balance'')]
        @ map (\<lambda>v. (\<not> starts_with ''CASH DEP'' (case stmt v of None \<Rightarrow> '''' | Some s \<Rightarrow> s) \<or> branch_open (vdate v),
                    ''cash deposited when the branch is shut'')) (vouchers b)
        @ concat (map account_asserts (accounts b))
        @ [(list_ex (\<lambda>a. kind a = Cash) (accounts b), ''no cash account''),
           (min_count b \<le> int (length (vouchers b)) \<and> int (length (vouchers b)) \<le> max_count b, ''entry count'')])"

text \<open>The posted book: the same fields, with the ledger accounts and the numbered vouchers.\<close>

definition posted :: "book \<Rightarrow> ledger_account list \<Rightarrow> posted_voucher list \<Rightarrow> posted_book" where
  "posted b las vs =
     \<lparr>bname = bname b, kindword = kindword b, prefix = prefix b, style = style b,
      accounts = las, vouchers = vs, about = about b, custom = custom b,
      bank_extract = bank_extract b, partners = partners b, own_word = own_word b,
      pl_title = pl_title b, assets_note = assets_note b, journal_word = journal_word b,
      construction = construction b, chart_note = chart_note b, put_word = put_word b,
      taken_word = taken_word b, put_note = put_note b, taken_note = taken_note b,
      min_count = min_count b, max_count = max_count b, stock_line = stock_line b, pl_note = pl_note b\<rparr>"

definition finalize :: "book \<Rightarrow> error + posted_book" where
  "finalize b =
     (let numbered = number_vouchers (prefix b) 1 (sort_vouchers (vouchers b))
      in ebind (emap (fill_ref numbered) numbered) (\<lambda>vs.
         ebind (efor (validate_voucher b) vs) (\<lambda>_.
         let pb = posted b (post b vs) vs
         in ebind (validate_balances pb) (\<lambda>_. Inr pb))))"

section \<open>Queries on a posted book\<close>

definition bal_upto :: "ledger_account \<Rightarrow> date \<Rightarrow> int" where
  "bal_upto a d = opening_bal a + sum_list [dr r - cr r. r \<leftarrow> rows a, rdate r \<le> d]"

definition balance_at :: "posted_book \<Rightarrow> string \<Rightarrow> date \<Rightarrow> error + int" where
  "balance_at b n d =
     (case find_account b n of None \<Rightarrow> Inl (KeyError n) | Some a \<Rightarrow> Inr (bal_upto a d))"

definition acct_movement :: "ledger_account \<Rightarrow> date \<Rightarrow> date \<Rightarrow> int \<times> int" where
  "acct_movement a s e =
     (sum_list [dr r. r \<leftarrow> rows a, s \<le> rdate r \<and> rdate r \<le> e],
      sum_list [cr r. r \<leftarrow> rows a, s \<le> rdate r \<and> rdate r \<le> e])"

definition movement :: "posted_book \<Rightarrow> string \<Rightarrow> date \<Rightarrow> date \<Rightarrow> error + (int \<times> int)" where
  "movement b n s e =
     (case find_account b n of None \<Rightarrow> Inl (KeyError n) | Some a \<Rightarrow> Inr (acct_movement a s e))"

definition result_to :: "posted_book \<Rightarrow> date \<Rightarrow> int \<times> int" where
  "result_to b d =
     (sum_list [- bal_upto a d. a \<leftarrow> accounts b, kind a = Income],
      sum_list [bal_upto a d. a \<leftarrow> accounts b, kind a = Expense])"

definition equity_parts :: "posted_book \<Rightarrow> date \<Rightarrow> int \<times> int \<times> int" where
  "equity_parts b d =
     (- sum_list [opening_bal a. a \<leftarrow> accounts b, is_equity (kind a)],
      sum_list [snd (acct_movement a FY_START d). a \<leftarrow> accounts b, is_equity (kind a)],
      sum_list [fst (acct_movement a FY_START d). a \<leftarrow> accounts b, is_equity (kind a)])"

end
