(* ===== verification/Ledger_Facts.thy ===== *)
theory Ledger_Facts
  imports Posting
begin

text \<open>
  What posting does to each account, and the invariant of a finalised book: the rows of an account
  are the voucher lines on it, in order; the running balance is the prefix sum; and the laws of
  double entry, stated once in the locale \<open>double_entry\<close>.
\<close>

section \<open>One account's ledger\<close>

definition post_row :: "book \<Rightarrow> ledger_account \<Rightarrow> posted_voucher \<times> (string \<times> int) \<Rightarrow> ledger_account" where
  "post_row b la vl =
     (case vl of (v, l) \<Rightarrow>
        la\<lparr>bal := bal la + snd l,
           rows := rows la @ [\<lparr>rdate = vdate v, rvid = vid v, rvch = v,
             part = part_text (snd l) (others b v l),
             dr = (if snd l > 0 then snd l else 0), cr = (if snd l < 0 then - snd l else 0),
             rbal = bal la + snd l\<rparr>]\<rparr>)"

definition lines_on :: "string \<Rightarrow> ('a) voucher_scheme list \<Rightarrow> (('a) voucher_scheme \<times> (string \<times> int)) list" where
  "lines_on n vs = concat (map (\<lambda>v. map (Pair v) (filter (\<lambda>l. fst l = n) (vlines v))) vs)"

fun running :: "int \<Rightarrow> int list \<Rightarrow> int list" where
  "running s [] = []"
| "running s (x # xs) = (s + x) # running (s + x) xs"

lemma lines_on_simps [simp]:
  "lines_on n [] = []"
  "lines_on n (v # vs) = map (Pair v) (filter (\<lambda>l. fst l = n) (vlines v)) @ lines_on n vs"
  by (simp_all add: lines_on_def)

lemma post_row_simps [simp]:
  "aname (post_row b la vl) = aname la" "kind (post_row b la vl) = kind la"
  "opening_bal (post_row b la vl) = opening_bal la" "group (post_row b la vl) = group la"
  "label (post_row b la vl) = label la" "cols (post_row b la vl) = cols la"
  "bal (post_row b la vl) = bal la + snd (snd vl)"
  by (simp_all add: post_row_def split: prod.splits)

lemma foldl_post_row_static [simp]:
  "aname (foldl (post_row b) la vls) = aname la" "kind (foldl (post_row b) la vls) = kind la"
  "opening_bal (foldl (post_row b) la vls) = opening_bal la" "group (foldl (post_row b) la vls) = group la"
  "label (foldl (post_row b) la vls) = label la" "cols (foldl (post_row b) la vls) = cols la"
  by (induction vls arbitrary: la) simp_all

lemma post_line_alt:
  "post_line b v las l = map (\<lambda>la. if aname la = fst l then post_row b la (v, l) else la) las"
  by (simp add: post_line_def post_row_def)

lemma post_voucher_alt:
  "post_voucher b las v =
     map (\<lambda>la. foldl (post_row b) la (map (Pair v) (filter (\<lambda>l. fst l = aname la) (vlines v)))) las"
proof -
  have "foldl (post_line b v) las ls =
      map (\<lambda>la. foldl (post_row b) la (map (Pair v) (filter (\<lambda>l. fst l = aname la) ls))) las" for ls
  proof (induction ls arbitrary: las)
    case (Cons l ls)
    then show ?case by (auto simp: post_line_alt o_def)
  qed simp
  then show ?thesis by (simp add: post_voucher_def)
qed

lemma post_all_alt:
  "foldl (post_voucher b) las vs = map (\<lambda>la. foldl (post_row b) la (lines_on (aname la) vs)) las"
proof (induction vs arbitrary: las)
  case (Cons v vs)
  then show ?case by (simp add: post_voucher_alt o_def)
qed simp

text \<open>The ledger of an account after posting.\<close>

definition ledger_of :: "book \<Rightarrow> posted_voucher list \<Rightarrow> account \<Rightarrow> ledger_account" where
  "ledger_of b vs a =
     (let la = foldl (post_row b) (open_ledger a) (lines_on (aname a) vs) in la\<lparr>closing := bal la\<rparr>)"

lemma open_ledger_simps [simp]:
  "aname (open_ledger a) = aname a" "kind (open_ledger a) = kind a" "group (open_ledger a) = group a"
  "opening_bal (open_ledger a) = opening_bal a" "rows (open_ledger a) = []" "bal (open_ledger a) = opening_bal a"
  by (simp_all add: open_ledger_def account.extend_def account.defs)

lemma post_eq: "post b vs = map (ledger_of b vs) (accounts b)"
  by (simp add: post_def post_all_alt ledger_of_def Let_def o_def)

lemma ledger_of_static [simp]:
  "aname (ledger_of b vs a) = aname a" "kind (ledger_of b vs a) = kind a"
  "opening_bal (ledger_of b vs a) = opening_bal a" "group (ledger_of b vs a) = group a"
  by (simp_all add: ledger_of_def Let_def)

text \<open>The row of a line.\<close>

definition row_matches :: "ledger_row \<Rightarrow> posted_voucher \<times> (string \<times> int) \<Rightarrow> bool" where
  "row_matches r vl =
     (case vl of (v, l) \<Rightarrow> rdate r = vdate v \<and> rvid r = vid v \<and> rvch r = v
        \<and> dr r = (if snd l > 0 then snd l else 0) \<and> cr r = (if snd l < 0 then - snd l else 0))"

lemma post_row_rows:
  obtains r where "rows (post_row b la vl) = rows la @ [r]" "row_matches r vl" "rbal r = bal la + snd (snd vl)"
  by (cases vl) (simp add: post_row_def row_matches_def)

lemma post_rows:
  "\<exists>rs. rows (foldl (post_row b) la vls) = rows la @ rs \<and> list_all2 row_matches rs vls
        \<and> map rbal rs = running (bal la) (map (snd \<circ> snd) vls)
        \<and> bal (foldl (post_row b) la vls) = bal la + (\<Sum>vl\<leftarrow>vls. snd (snd vl))"
proof (induction vls arbitrary: la)
  case (Cons vl vls)
  obtain r where r: "rows (post_row b la vl) = rows la @ [r]" "row_matches r vl"
    "rbal r = bal la + snd (snd vl)" by (rule post_row_rows)
  from Cons [of "post_row b la vl"] obtain rs where
    "rows (foldl (post_row b) (post_row b la vl) vls) = rows (post_row b la vl) @ rs"
    "list_all2 row_matches rs vls"
    "map rbal rs = running (bal (post_row b la vl)) (map (snd \<circ> snd) vls)"
    "bal (foldl (post_row b) (post_row b la vl) vls) = bal (post_row b la vl) + (\<Sum>vl\<leftarrow>vls. snd (snd vl))"
    by blast
  then show ?case
    by (intro exI [of _ "r # rs"]) (simp add: r o_def)
qed simp

lemma ledger_of_rows:
  "list_all2 row_matches (rows (ledger_of b vs a)) (lines_on (aname a) vs)"
  "map rbal (rows (ledger_of b vs a)) = running (opening_bal a) (map (snd \<circ> snd) (lines_on (aname a) vs))"
  "closing (ledger_of b vs a) = opening_bal a + (\<Sum>vl\<leftarrow>lines_on (aname a) vs. snd (snd vl))"
  using post_rows [of b "open_ledger a" "lines_on (aname a) vs"] by (auto simp: ledger_of_def Let_def)

section \<open>The invariant of a posted book\<close>

text \<open>Each voucher's lines balance, name each account once and only accounts of the book, and are not
  nil; the vouchers are in date order and lie in the year; the rows, running balances and closing
  balance of each account come from the lines on it; every assertion of \<open>finalize\<close> holds.\<close>

definition lines_ok :: "string list \<Rightarrow> ('a) voucher_scheme \<Rightarrow> bool" where
  "lines_ok ns v =
     (2 \<le> length (vlines v) \<and> sum_list (map snd (vlines v)) = 0 \<and> distinct (map fst (vlines v))
      \<and> list_all (\<lambda>(n, a). n \<in> set ns \<and> a \<noteq> 0) (vlines v))"

definition ledger_ok :: "posted_voucher list \<Rightarrow> ledger_account \<Rightarrow> bool" where
  "ledger_ok vs la =
     (list_all2 row_matches (rows la) (lines_on (aname la) vs)
      \<and> map rbal (rows la) = running (opening_bal la) (map (snd \<circ> snd) (lines_on (aname la) vs))
      \<and> closing la = opening_bal la + (\<Sum>vl\<leftarrow>lines_on (aname la) vs. snd (snd vl)))"

definition posted_ok :: "posted_book \<Rightarrow> bool" where
  "posted_ok b =
     (distinct (order b) \<and> (\<Sum>a\<leftarrow>accounts b. opening_bal a) = 0
      \<and> list_all (lines_ok (order b)) (vouchers b)
      \<and> sorted (map vdate (vouchers b))
      \<and> list_all (\<lambda>v. FY_START \<le> vdate v \<and> vdate v \<le> FY_END) (vouchers b)
      \<and> list_all (ledger_ok (vouchers b)) (accounts b)
      \<and> list_all (\<lambda>v. is_ok (validate_voucher b v)) (vouchers b)
      \<and> is_ok (validate_balances b))"

lemma validate_voucher_lines_ok:
  "is_ok (validate_voucher b v) \<Longrightarrow> lines_ok (order b) v"
  by (auto simp: validate_voucher_def lines_ok_def known_iff split_def simp del: asserts.simps elim: list.pred_mono_strong)

lemma find_account_posted: "find_account (posted b (post b vs) ws) n = map_option (ledger_of b vs) (find_account b n)"
proof -
  have "find (\<lambda>la. aname la = n) (map (ledger_of b vs) as) = map_option (ledger_of b vs) (find (\<lambda>a. aname a = n) as)" for as
    by (induction as) simp_all
  then show ?thesis by (simp add: find_account_def posted_def post_eq)
qed

lemma name_is_posted [simp]: "name_is (posted b (post b vs) ws) = name_is b"
  by (intro ext) (simp add: name_is_def kind_of_def find_account_posted option.map_comp o_def)

lemma known_posted [simp]: "known (posted b (post b vs) ws) = known b"
  by (intro ext) (simp add: known_def find_account_posted)

lemma order_posted [simp]: "order (posted b (post b vs) ws) = order b"
  by (simp add: order_def posted_def post_eq o_def)

lemma posted_simps [simp]:
  "accounts (posted b las vs) = las" "vouchers (posted b las vs) = vs" "prefix (posted b las vs) = prefix b"
  "partners (posted b las vs) = partners b" "style (posted b las vs) = style b" "bname (posted b las vs) = bname b"
  by (simp_all add: posted_def)

lemma validate_voucher_posted [simp]:
  "validate_voucher (posted b (post b vs) ws) v = validate_voucher b v"
  by (simp only: validate_voucher_def shape_asserts_def gollak_asserts_def name_is_posted known_posted)

subsection \<open>Sorting, numbering and filling in the notes keep the dates and the lines\<close>

lemma number_vouchers_simps [simp]:
  "map vdate (number_vouchers p i vs) = map vdate vs" "map vlines (number_vouchers p i vs) = map vlines vs"
  "length (number_vouchers p i vs) = length vs"
  by (induction vs arbitrary: i) (simp_all add: voucher.defs)

lemma fill_ref_keeps: "fill_ref vs v = Inr w \<Longrightarrow> vdate w = vdate v \<and> vlines w = vlines v \<and> vid w = vid v \<and> vtype w = vtype v"
  by (auto simp: fill_ref_def split: option.splits)

lemma emap_fill_ref_keeps:
  "emap (fill_ref ws) vs = Inr us \<Longrightarrow> map vdate us = map vdate vs \<and> map vid us = map vid vs"
  by (induction vs arbitrary: us) (auto simp: ebind_Inr dest: fill_ref_keeps)

lemma sorted_sort_vouchers: "sorted (map vdate (sort_vouchers vs))"
proof -
  have "sorted (map (\<lambda>v. (vdate v, vseq v)) (sort_vouchers vs))"
    by (simp add: sort_vouchers_def)
  then have "sorted_wrt (\<lambda>v w. (vdate v, vseq v) \<le> (vdate w, vseq w)) (sort_vouchers vs)"
    by (simp add: sorted_map)
  then show ?thesis
    unfolding sorted_map by (rule sorted_wrt_mono_rel [rotated]) auto
qed

lemma set_sort_vouchers [simp]: "set (sort_vouchers vs) = set vs"
  by (simp add: sort_vouchers_def)

text \<open>A finalised book satisfies the invariant.\<close>

lemma finalize_posted_ok:
  assumes wf: "book_wf b" and fin: "finalize b = Inr pb"
  shows "posted_ok pb"
proof -
  let ?ns = "number_vouchers (prefix b) 1 (sort_vouchers (vouchers b))"
  from fin obtain vs where vs: "emap (fill_ref ?ns) ?ns = Inr vs"
    and val: "\<forall>v\<in>set vs. validate_voucher b v = Inr ()"
    and pb: "pb = posted b (post b vs) vs" and bal: "validate_balances pb = Inr ()"
    by (auto simp: finalize_def ebind_Inr Let_def efor_Inr)
  have dates: "map vdate vs = map vdate (sort_vouchers (vouchers b))"
    using emap_fill_ref_keeps [OF vs] by simp
  have "set (map vdate vs) = vdate ` set (vouchers b)" unfolding dates by simp
  then have year: "list_all (\<lambda>v. FY_START \<le> vdate v \<and> vdate v \<le> FY_END) vs"
    using wf by (auto simp: book_wf_def list_all_iff) (metis image_eqI imageE)+
  have op: "(\<Sum>a\<leftarrow>accounts pb. opening_bal a) = 0"
    using bal by (simp add: validate_balances_def is_ok_iff del: asserts.simps)
  have "list_all (lines_ok (order b)) vs"
    using val by (auto simp: list_all_iff intro!: validate_voucher_lines_ok)
  moreover have "list_all (ledger_ok vs) (accounts pb)"
    unfolding pb by (auto simp: list_all_iff post_eq ledger_ok_def intro: ledger_of_rows)
  ultimately show ?thesis
    using wf val op bal year sorted_sort_vouchers [of "vouchers b"]
    unfolding posted_ok_def by (simp add: pb dates book_wf_def list_all_iff)
qed

section \<open>Double entry\<close>

text \<open>The balance of an account on a date is its opening and the lines on it up to that date.\<close>

definition bal_of :: "posted_book \<Rightarrow> string \<Rightarrow> date \<Rightarrow> int" where
  "bal_of b n d = (case find_account b n of None \<Rightarrow> 0 | Some a \<Rightarrow> bal_upto a d)"

definition opening_of :: "posted_book \<Rightarrow> string \<Rightarrow> int" where
  "opening_of b n = (case find_account b n of None \<Rightarrow> 0 | Some a \<Rightarrow> opening_bal a)"

definition dated_lines :: "posted_book \<Rightarrow> (date \<times> (string \<times> int) list) list" where
  "dated_lines b = map (\<lambda>v. (vdate v, vlines v)) (vouchers b)"

text \<open>
  The laws of a double-entry record, for whoever keeps it: named accounts whose openings sum to nil,
  dated entries whose lines sum to nil and name only those accounts, and balances that are the
  opening and the lines to date.
\<close>

definition line_sum :: "string \<Rightarrow> (string \<times> int) list \<Rightarrow> int" where
  "line_sum n ls = (\<Sum>(m, a)\<leftarrow>ls. if m = n then a else 0)"

locale double_entry =
  fixes ok :: "'b \<Rightarrow> bool" and names :: "'b \<Rightarrow> string list" and open_of :: "'b \<Rightarrow> string \<Rightarrow> int"
    and entries :: "'b \<Rightarrow> (date \<times> (string \<times> int) list) list" and balance :: "'b \<Rightarrow> string \<Rightarrow> date \<Rightarrow> int"
  assumes names_distinct: "ok b \<Longrightarrow> distinct (names b)"
    and openings_nil: "ok b \<Longrightarrow> (\<Sum>n\<leftarrow>names b. open_of b n) = 0"
    and entry_balanced: "ok b \<Longrightarrow> (d, ls) \<in> set (entries b) \<Longrightarrow> sum_list (map snd ls) = 0"
    and entry_known: "ok b \<Longrightarrow> (d, ls) \<in> set (entries b) \<Longrightarrow> fst ` set ls \<subseteq> set (names b)"
    and balance_eq: "ok b \<Longrightarrow> n \<in> set (names b) \<Longrightarrow>
      balance b n d = open_of b n + (\<Sum>(e, ls)\<leftarrow>entries b. if e \<le> d then line_sum n ls else 0)"
begin

lemma line_sum_all:
  assumes "ok b" "(d, ls) \<in> set (entries b)"
  shows "(\<Sum>n\<leftarrow>names b. line_sum n ls) = 0"
proof -
  have "(\<Sum>n\<leftarrow>names b. line_sum n xs) = sum_list (map snd xs)" if "fst ` set xs \<subseteq> set (names b)" for xs
    using that
  proof (induction xs)
    case (Cons x xs)
    obtain m a where x: "x = (m, a)" by (cases x)
    have "(\<Sum>n\<leftarrow>names b. if m = n then a else 0) = a"
      using Cons.prems names_distinct [OF assms(1)] by (intro sum_list_indicator) (auto simp: x)
    with Cons show ?case by (simp add: line_sum_def x sum_list_addf)
  qed (simp add: line_sum_def)
  from this [OF entry_known [OF assms]] entry_balanced [OF assms] show ?thesis by simp
qed

lemma balances_nil:
  assumes "ok b"
  shows "(\<Sum>n\<leftarrow>names b. balance b n d) = 0"
proof -
  have "(\<Sum>n\<leftarrow>names b. balance b n d)
      = (\<Sum>n\<leftarrow>names b. open_of b n + (\<Sum>(e, ls)\<leftarrow>entries b. if e \<le> d then line_sum n ls else 0))"
    using balance_eq [OF assms] by (intro arg_cong [where f = sum_list] map_cong) auto
  also have "... = (\<Sum>n\<leftarrow>names b. \<Sum>(e, ls)\<leftarrow>entries b. if e \<le> d then line_sum n ls else 0)"
    using openings_nil [OF assms] by (simp add: sum_list_addf)
  also have "... = (\<Sum>x\<leftarrow>entries b. \<Sum>n\<leftarrow>names b. if fst x \<le> d then line_sum n (snd x) else 0)"
    by (subst sum_list_swap) (simp add: split_def)
  also have "... = (\<Sum>x\<leftarrow>entries b. 0)"
  proof (intro arg_cong [where f = sum_list] map_cong refl)
    fix x assume "x \<in> set (entries b)"
    then have "(\<Sum>n\<leftarrow>names b. line_sum n (snd x)) = 0"
      using line_sum_all [OF assms, of "fst x"] by simp
    then show "(\<Sum>n\<leftarrow>names b. if fst x \<le> d then line_sum n (snd x) else 0) = 0"
      by (cases "fst x \<le> d") simp_all
  qed
  finally show ?thesis by simp
qed

lemma debits_credits:
  "ok b \<Longrightarrow> (\<Sum>n\<leftarrow>names b. if balance b n d > 0 then balance b n d else 0)
         = (\<Sum>n\<leftarrow>names b. if balance b n d < 0 then - balance b n d else 0)"
  using balances_nil [of b d] sum_list_pos_neg [of "\<lambda>n. balance b n d" "names b"] by simp

lemma split_sum:
  "ok b \<Longrightarrow> (\<Sum>n\<leftarrow>filter P (names b). balance b n d) = - (\<Sum>n\<leftarrow>filter (\<lambda>n. \<not> P n) (names b). balance b n d)"
proof -
  have "(\<Sum>n\<leftarrow>ns. balance b n d)
      = (\<Sum>n\<leftarrow>filter P ns. balance b n d) + (\<Sum>n\<leftarrow>filter (\<lambda>n. \<not> P n) ns. balance b n d)" for ns
    by (induction ns) auto
  then show "ok b \<Longrightarrow> ?thesis" using balances_nil [of b d] by (metis add_eq_0_iff2)
qed

lemma balance_before:
  "ok b \<Longrightarrow> n \<in> set (names b) \<Longrightarrow> (\<forall>x \<in> set (entries b). d < fst x) \<Longrightarrow> balance b n d = open_of b n"
  by (subst balance_eq) (fastforce intro!: sum_list_zero_map)+

end

section \<open>The posted book keeps the laws of double entry\<close>

lemma posted_ok_ledger: "posted_ok b \<Longrightarrow> a \<in> set (accounts b) \<Longrightarrow> ledger_ok (vouchers b) a"
  by (simp add: posted_ok_def list_all_iff)

lemma posted_ok_distinct: "posted_ok b \<Longrightarrow> distinct (order b)"
  by (simp add: posted_ok_def)

lemma posted_ok_find: "posted_ok b \<Longrightarrow> a \<in> set (accounts b) \<Longrightarrow> find_account b (aname a) = Some a"
  by (simp add: find_account_eq posted_ok_distinct)

lemma bal_of_account [simp]: "posted_ok b \<Longrightarrow> a \<in> set (accounts b) \<Longrightarrow> bal_of b (aname a) d = bal_upto a d"
  by (simp add: bal_of_def posted_ok_find)

lemma opening_of_account [simp]: "posted_ok b \<Longrightarrow> a \<in> set (accounts b) \<Longrightarrow> opening_of b (aname a) = opening_bal a"
  by (simp add: opening_of_def posted_ok_find)

lemma rows_sum:
  assumes "list_all2 row_matches rs vls"
  shows "(\<Sum>r\<leftarrow>rs. if P (rdate r) then dr r - cr r else 0)
       = (\<Sum>vl\<leftarrow>vls. if P (vdate (fst vl)) then snd (snd vl) else 0)"
  using assms by induction (auto simp: row_matches_def split: prod.splits)

lemma lines_on_sum:
  "(\<Sum>vl\<leftarrow>lines_on n vs. if P (vdate (fst vl)) then snd (snd vl) else 0)
     = (\<Sum>v\<leftarrow>vs. if P (vdate v) then line_sum n (vlines v) else 0)"
proof -
  have "(\<Sum>l\<leftarrow>filter (\<lambda>l. fst l = n) ls. snd l) = line_sum n ls" for ls
    by (simp add: line_sum_def sum_list_filter_if split_def)
  then show ?thesis by (induction vs) (auto simp: o_def intro!: sum_list_zero_map)
qed

lemma bal_upto_lines:
  assumes "ledger_ok vs a"
  shows "bal_upto a d = opening_bal a + (\<Sum>v\<leftarrow>vs. if vdate v \<le> d then line_sum (aname a) (vlines v) else 0)"
proof -
  have "bal_upto a d = opening_bal a + (\<Sum>r\<leftarrow>rows a. if rdate r \<le> d then dr r - cr r else 0)"
    by (simp add: bal_upto_def)
  also have "list_all2 row_matches (rows a) (lines_on (aname a) vs)"
    using assms by (simp add: ledger_ok_def)
  from rows_sum [OF this, of "\<lambda>e. e \<le> d"] have "(\<Sum>r\<leftarrow>rows a. if rdate r \<le> d then dr r - cr r else 0)
      = (\<Sum>v\<leftarrow>vs. if vdate v \<le> d then line_sum (aname a) (vlines v) else 0)"
    by (simp add: lines_on_sum [of "\<lambda>e. e \<le> d"])
  finally show ?thesis .
qed

interpretation books: double_entry posted_ok order opening_of dated_lines bal_of
proof
  fix b :: posted_book assume ok: "posted_ok b"
  show "distinct (order b)" by (rule posted_ok_distinct [OF ok])
  have "(\<Sum>n\<leftarrow>order b. opening_of b n) = (\<Sum>a\<leftarrow>accounts b. opening_bal a)"
    unfolding order_def using ok by (auto simp: o_def intro!: arg_cong [where f = sum_list] map_cong)
  then show "(\<Sum>n\<leftarrow>order b. opening_of b n) = 0" using ok by (simp add: posted_ok_def)
  fix d ls assume "(d, ls) \<in> set (dated_lines b)"
  then obtain v where "v \<in> set (vouchers b)" "ls = vlines v" by (auto simp: dated_lines_def)
  with ok have "lines_ok (order b) v" "ls = vlines v" by (auto simp: posted_ok_def list_all_iff)
  then show "sum_list (map snd ls) = 0" "fst ` set ls \<subseteq> set (order b)"
    by (auto simp: lines_ok_def list_all_iff)
next
  fix b :: posted_book and n d assume ok: "posted_ok b" and "n \<in> set (order b)"
  then obtain a where a: "a \<in> set (accounts b)" "n = aname a" by (auto simp: order_def)
  show "bal_of b n d = opening_of b n + (\<Sum>(e, ls)\<leftarrow>dated_lines b. if e \<le> d then line_sum n ls else 0)"
    unfolding a(2) using bal_upto_lines [OF posted_ok_ledger [OF ok a(1)], of d] ok a(1)
    by (simp add: dated_lines_def o_def)
qed

text \<open>Sums over the accounts of the book, from the sums over their names.\<close>

lemma sum_accounts:
  assumes "posted_ok b"
  shows "(\<Sum>a\<leftarrow>accounts b. f (aname a) (bal_upto a d)) = (\<Sum>n\<leftarrow>order b. f n (bal_of b n d))"
  unfolding order_def using assms by (auto simp: o_def intro!: arg_cong [where f = sum_list] map_cong)

lemma closing_year_end:
  assumes "posted_ok b" "a \<in> set (accounts b)"
  shows "closing a = bal_upto a FY_END"
proof -
  have "\<forall>v\<in>set (vouchers b). vdate v \<le> FY_END" using assms(1) by (simp add: posted_ok_def list_all_iff)
  then have "(\<Sum>v\<leftarrow>vouchers b. if vdate v \<le> FY_END then line_sum (aname a) (vlines v) else 0)
      = (\<Sum>v\<leftarrow>vouchers b. line_sum (aname a) (vlines v))"
    by (intro arg_cong [where f = sum_list] map_cong) auto
  moreover have "(\<Sum>vl\<leftarrow>lines_on n vs. snd (snd vl)) = (\<Sum>v\<leftarrow>vs. line_sum n (vlines v))" for n and vs :: "posted_voucher list"
  proof (induction vs)
    case (Cons v vs)
    have "(\<Sum>l\<leftarrow>filter (\<lambda>l. fst l = n) ls. snd l) = line_sum n ls" for ls
      by (simp add: line_sum_def sum_list_filter_if split_def)
    with Cons show ?case by (simp add: o_def)
  qed simp
  ultimately show ?thesis
    using posted_ok_ledger [OF assms] bal_upto_lines [OF posted_ok_ledger [OF assms], of FY_END]
    by (simp add: ledger_ok_def)
qed

section \<open>Running balances\<close>

lemma running_upto:
  assumes "sorted (map fst xs)"
  shows "s + (\<Sum>x\<leftarrow>xs. if fst x \<le> d then snd x else 0) \<in> insert s (set (running s (map snd xs)))"
  using assms
proof (induction xs arbitrary: s)
  case (Cons x xs)
  show ?case
  proof (cases "fst x \<le> d")
    case True
    with Cons.IH [of "s + snd x"] Cons.prems show ?thesis by (auto simp: add.assoc)
  next
    case False
    with Cons.prems have "(\<Sum>y\<leftarrow>xs. if fst y \<le> d then snd y else 0) = 0"
      by (intro sum_list_zero_map) fastforce
    with False show ?thesis by simp
  qed
qed simp

lemma running_nth: "k < length xs \<Longrightarrow> running s xs ! k = s + sum_list (take (Suc k) xs)"
  by (induction xs arbitrary: s k) (auto simp: nth_Cons' take_Cons' split: if_splits)

lemma length_running [simp]: "length (running s xs) = length xs"
  by (induction xs arbitrary: s) simp_all

text \<open>The lines on an account, dated, in the order of the book.\<close>

definition account_lines :: "posted_book \<Rightarrow> string \<Rightarrow> (date \<times> int) list" where
  "account_lines b n = concat (map (\<lambda>v. map (\<lambda>l. (vdate v, snd l)) (filter (\<lambda>l. fst l = n) (vlines v))) (vouchers b))"

lemma account_lines_alt: "account_lines b n = map (\<lambda>vl. (vdate (fst vl), snd (snd vl))) (lines_on n (vouchers b))"
proof -
  have "concat (map (\<lambda>v. map (\<lambda>l. (vdate v, snd l)) (filter (\<lambda>l. fst l = n) (vlines v))) vs)
      = map (\<lambda>vl. (vdate (fst vl), snd (snd vl))) (lines_on n vs)" for vs :: "posted_voucher list"
    by (induction vs) simp_all
  then show ?thesis by (simp add: account_lines_def)
qed

lemma sorted_account_lines:
  assumes "posted_ok b"
  shows "sorted (map fst (account_lines b n))"
proof -
  have "sorted (map fst (concat (map (\<lambda>v. map (\<lambda>l. (vdate v, snd l)) (filter (\<lambda>l. fst l = n) (vlines v))) vs)))"
    if "sorted (map vdate vs)" for vs :: "posted_voucher list"
    using that
  proof (induction vs)
    case (Cons v vs)
    have "sorted (map (fst \<circ> (\<lambda>l. (vdate v, snd l))) ls)" for ls :: "(string \<times> int) list"
      by (induction ls) auto
    with Cons show ?case by (auto simp: sorted_append)
  qed simp
  then show ?thesis using assms by (simp add: posted_ok_def account_lines_def)
qed

lemma rows_account_lines:
  assumes "posted_ok b" "a \<in> set (accounts b)"
  shows "map (\<lambda>r. (rdate r, dr r - cr r)) (rows a) = account_lines b (aname a)"
    "map rbal (rows a) = running (opening_bal a) (map snd (account_lines b (aname a)))"
proof -
  have "map (\<lambda>r. (rdate r, dr r - cr r)) rs = map (\<lambda>vl. (vdate (fst vl), snd (snd vl))) vls"
    if "list_all2 row_matches rs vls" for rs vls
    using that by induction (auto simp: row_matches_def split: prod.splits)
  then show "map (\<lambda>r. (rdate r, dr r - cr r)) (rows a) = account_lines b (aname a)"
    using posted_ok_ledger [OF assms] by (simp add: ledger_ok_def account_lines_alt)
  show "map rbal (rows a) = running (opening_bal a) (map snd (account_lines b (aname a)))"
    using posted_ok_ledger [OF assms] by (simp add: ledger_ok_def account_lines_alt o_def)
qed

lemma bal_upto_account_lines:
  assumes "posted_ok b" "a \<in> set (accounts b)"
  shows "bal_upto a d = opening_bal a + (\<Sum>x\<leftarrow>account_lines b (aname a). if fst x \<le> d then snd x else 0)"
  unfolding rows_account_lines(1) [OF assms, symmetric] by (simp add: bal_upto_def o_def cong: if_cong)

lemma bal_upto_rbal:
  assumes "posted_ok b" "a \<in> set (accounts b)"
  shows "bal_upto a d \<in> insert (opening_bal a) (rbal ` set (rows a))"
  using running_upto [OF sorted_account_lines [OF assms(1)], of "opening_bal a" d "aname a"]
  by (simp add: bal_upto_account_lines [OF assms] flip: set_map rows_account_lines(2) [OF assms])

lemma posted_ok_account_asserts:
  "posted_ok b \<Longrightarrow> a \<in> set (accounts b) \<Longrightarrow> list_all fst (account_asserts a)"
  by (simp add: posted_ok_def validate_balances_def list_all_iff del: asserts.simps) blast

section \<open>What a finalised book promises\<close>

text \<open>C1. A book that \<open>finalize\<close> accepts balances on every day of its year, not only at the close: the
  balances on the Dr side and those on the Cr side have the same total.\<close>

theorem finalize_trial_balance:
  assumes "book_wf b" "finalize b = Inr pb"
  shows "sum_list [bal_upto a d. a \<leftarrow> accounts pb, bal_upto a d > 0]
       = sum_list [- bal_upto a d. a \<leftarrow> accounts pb, bal_upto a d < 0]"
  using books.debits_credits [OF finalize_posted_ok [OF assms], of d]
    sum_accounts [OF finalize_posted_ok [OF assms], of "\<lambda>n x. if x > 0 then x else 0" d]
    sum_accounts [OF finalize_posted_ok [OF assms], of "\<lambda>n x. if x < 0 then - x else 0" d]
  by simp

text \<open>C3. Posting: the rows of an account are the voucher lines on it, in date order; the balance printed in
  the k-th row is the opening and the first k lines; the closing balance is the balance on the last day.\<close>

theorem finalize_ledger:
  assumes "book_wf b" "finalize b = Inr pb" "a \<in> set (accounts pb)"
  shows "map (\<lambda>r. (rdate r, dr r - cr r)) (rows a) = account_lines pb (aname a)
    \<and> sorted (map rdate (rows a))
    \<and> (\<forall>k<length (rows a). rbal (rows a ! k)
         = opening_bal a + sum_list (take (Suc k) (map snd (account_lines pb (aname a)))))
    \<and> balance_at pb (aname a) FY_END = Inr (closing a)"
proof (intro conjI allI impI)
  note ok = finalize_posted_ok [OF assms(1,2)]
  show lines: "map (\<lambda>r. (rdate r, dr r - cr r)) (rows a) = account_lines pb (aname a)"
    by (rule rows_account_lines(1) [OF ok assms(3)])
  have "map fst (map (\<lambda>r. (rdate r, dr r - cr r)) (rows a)) = map rdate (rows a)" by simp
  with sorted_account_lines [OF ok, of "aname a"] lines show "sorted (map rdate (rows a))" by metis
  show "rbal (rows a ! k) = opening_bal a + sum_list (take (Suc k) (map snd (account_lines pb (aname a))))"
    if k: "k < length (rows a)" for k
  proof -
    have "length (rows a) = length (account_lines pb (aname a))" by (metis length_map lines)
    then have "map rbal (rows a) ! k = opening_bal a + sum_list (take (Suc k) (map snd (account_lines pb (aname a))))"
      using k unfolding rows_account_lines(2) [OF ok assms(3)] by (subst running_nth) simp_all
    with k show ?thesis by simp
  qed
  show "balance_at pb (aname a) FY_END = Inr (closing a)"
    using posted_ok_find [OF ok assms(3)] closing_year_end [OF ok assms(3)] by (simp add: balance_at_def)
qed

text \<open>C6. A finalised book never pays out cash, gollak, bank or wallet money it does not have: on no day is
  such a balance below nil.\<close>

theorem cash_never_negative:
  assumes "book_wf b" "finalize b = Inr pb" "a \<in> set (accounts pb)" "kind a \<in> set NONNEG_MONEY"
  shows "0 \<le> bal_upto a d"
proof -
  have "0 \<le> opening_bal a \<and> list_all (\<lambda>r. 0 \<le> rbal r) (rows a)"
    using posted_ok_account_asserts [OF finalize_posted_ok [OF assms(1,2)] assms(3)] assms(4)
    by (simp add: account_asserts_def)
  with bal_upto_rbal [OF finalize_posted_ok [OF assms(1,2)] assms(3), of d] show ?thesis
    by (auto simp: list_all_iff)
qed

lemma trial_balance_lemma:
  assumes "distinct (order b)" "(\<Sum>a\<leftarrow>accounts b. opening_bal a) = 0"
    and "efor (validate_voucher b) vs = Inr ()"
  shows "sum_list [closing a. a \<leftarrow> post b vs, closing a > 0] = sum_list [- closing a. a \<leftarrow> post b vs, closing a < 0]"
proof -
  have lines: "sum_list (map snd (vlines v)) = 0 \<and> fst ` set (vlines v) \<subseteq> set (order b)" if "v \<in> set vs" for v
    using that assms(3) validate_voucher_lines_ok [of b v] by (auto simp: efor_Inr lines_ok_def list_all_iff)
  have closing: "closing (ledger_of b vs a) = opening_bal a + (\<Sum>v\<leftarrow>vs. line_sum (aname a) (vlines v))" for a
  proof -
    have "(\<Sum>vl\<leftarrow>lines_on n vs. snd (snd vl)) = (\<Sum>v\<leftarrow>vs. line_sum n (vlines v))" for n
      by (induction vs) (simp_all add: o_def line_sum_def sum_list_filter_if split_def)
    then show ?thesis by (simp add: ledger_of_rows)
  qed
  have zero: "(\<Sum>a\<leftarrow>accounts b. line_sum (aname a) (vlines v)) = 0" if "v \<in> set vs" for v
  proof -
    have "(\<Sum>n\<leftarrow>order b. line_sum n xs) = sum_list (map snd xs)" if "fst ` set xs \<subseteq> set (order b)" for xs
      using that
    proof (induction xs)
      case (Cons x xs)
      have "(\<Sum>n\<leftarrow>order b. if fst x = n then snd x else 0) = snd x"
        using Cons.prems assms(1) by (intro sum_list_indicator) auto
      with Cons show ?case by (simp add: line_sum_def sum_list_addf split_def)
    qed (simp add: line_sum_def)
    with lines [OF that] show ?thesis by (simp add: order_def o_def)
  qed
  have "(\<Sum>a\<leftarrow>post b vs. closing a) = (\<Sum>a\<leftarrow>accounts b. \<Sum>v\<leftarrow>vs. line_sum (aname a) (vlines v))"
    using assms(2) by (simp add: post_eq o_def closing sum_list_addf)
  also have "... = (\<Sum>v\<leftarrow>vs. \<Sum>a\<leftarrow>accounts b. line_sum (aname a) (vlines v))" by (rule sum_list_swap)
  also have "... = 0" using zero by (rule sum_list_zero_map)
  finally show ?thesis using sum_list_pos_neg [of closing "post b vs"] by simp
qed

text \<open>C7. The trial-balance assertion of \<open>validate_balances\<close> never fails on its own: vouchers that pass
  \<open>validate_vouchers\<close> and openings that sum to nil leave no book whose closing balances disagree.\<close>

theorem trial_balance_assertion_holds:
  assumes "distinct (order b)" "(\<Sum>a\<leftarrow>accounts b. opening_bal a) = 0"
    and "efor (validate_voucher b) vs = Inr ()"
  shows "sum_list [closing a. a \<leftarrow> post b vs, closing a > 0] = sum_list [- closing a. a \<leftarrow> post b vs, closing a < 0]"
  by (rule trial_balance_lemma [OF assms])

end
