(* ===== verification/Year_Close.thy ===== *)
theory Year_Close
  imports Ledger_Facts
begin

text \<open>
  The year close a book posts itself (\<open>Book.appropriation\<close>, \<open>result_name\<close>, \<open>owner_account\<close>,
  \<open>close_entries\<close>, \<open>close_posts\<close>, \<open>post_close_balances\<close> of \<open>build.py\<close>), and what it promises: it never
  fails on a finalised book of the right shape, its entries balance, the income, expense and drawings
  heads end at nil, and the result is in the owner's or the partners' accounts.  The memo \<open>_close\<close> of
  \<open>close_entries\<close> is not modelled: the value is a function of the posted book.
\<close>

section \<open>The appropriation of a partnership's profit\<close>

definition partner_interest :: "posted_book \<Rightarrow> partner \<Rightarrow> error + int" where
  "partner_interest b p =
     ebind (case pcapital p of None \<Rightarrow> Inr 0
            | Some n \<Rightarrow> (case find_account b n of None \<Rightarrow> Inl (KeyError n) | Some a \<Rightarrow> Inr (- closing a)))
       (\<lambda>cap. if cap > 0 then half_up (cap * ioc_bp p) 10000 else Inr 0)"

text \<open>\<open>max(range(n), key=lambda k: (share, -k))\<close>: the earliest place of the largest.\<close>

fun arg_max_first :: "int list \<Rightarrow> nat" where
  "arg_max_first [] = 0"
| "arg_max_first [x] = 0"
| "arg_max_first (x # y # ys) =
     (let k = arg_max_first (y # ys) in if (y # ys) ! k > x then Suc k else 0)"

definition share_out :: "int \<Rightarrow> int list \<Rightarrow> int list" where
  "share_out rest ws =
     (let shares = map (\<lambda>w. rest * w div sum_list ws) ws; k = arg_max_first ws
      in shares[k := shares ! k + (rest - sum_list shares)])"

definition appropriation :: "posted_book \<Rightarrow> int \<Rightarrow> error + (partner \<times> int \<times> int) list" where
  "appropriation b result =
     (if partners b = [] then Inr []
      else ebind (emap (partner_interest b) (partners b)) (\<lambda>ints.
        let rest = result - sum_list ints
        in ebind (assert_that (rest > 0) ''interest on capital is paid only out of profit'') (\<lambda>_.
           if sum_list (map share (partners b)) = 0 then Inl (ZeroDivisionError ''weights'')
           else Inr (zip (partners b) (zip ints (share_out rest (map share (partners b))))))))"

section \<open>The entries of the close\<close>

fun result_name :: "style \<Rightarrow> string" where
  "result_name Business = ''Profit & Loss A/c''"
| "result_name Property = ''Profit & Loss A/c''"
| "result_name Household = ''Income & Expenses A/c''"
| "result_name Npo = ''Income & Expenditure A/c''"

definition owner_account :: "(('a) account_scheme, 'v) gbook \<Rightarrow> string option" where
  "owner_account b =
     (case find (\<lambda>a. kind a = Capital) (accounts b) of
        Some a \<Rightarrow> Some (aname a)
      | None \<Rightarrow> map_option aname (find (\<lambda>a. group a = ''Owner'') (accounts b)))"

type_synonym close_entry = "string \<times> string \<times> (string \<times> int) list"

definition close_add :: "posted_book \<Rightarrow> close_entry list \<Rightarrow> string \<Rightarrow> (string \<times> int) list \<Rightarrow> error + close_entry list" where
  "close_add b out note lines =
     (let ls = filter (\<lambda>(n, a). a \<noteq> 0) lines
      in if ls = [] then Inr out
         else if sum_list (map snd ls) = 0
              then Inr (out @ [(prefix b @ ''-Y'' @ str_nat (int (length out) + 1), note, ls)])
              else Inl (AssertionError note))"

fun result_words :: "style \<Rightarrow> string \<times> string" where
  "result_words Business = (''Net profit added to own money'', ''Net loss taken from own money'')"
| "result_words Property = (''Net profit added to own money'', ''Net loss taken from own money'')"
| "result_words Household = (''Saving for the year added to own money'', (''Spent more than came in '' @ u_emdash @ '' taken from own money''))"
| "result_words Npo = (''Surplus added to the General Fund'', ''Deficit taken from the General Fund'')"

definition APPR :: string where
  "APPR = ''P&L Appropriation A/c''"

definition heads_of :: "posted_book \<Rightarrow> kind \<Rightarrow> (string \<times> int) list" where
  "heads_of b k = [(aname a, closing a). a \<leftarrow> accounts b, kind a = k \<and> closing a \<noteq> 0]"

definition year_result :: "posted_book \<Rightarrow> int" where
  "year_result b = (\<Sum>(n, x)\<leftarrow>heads_of b Income. - x) - (\<Sum>(n, x)\<leftarrow>heads_of b Expense. x)"

definition close_partners :: "posted_book \<Rightarrow> close_entry list \<Rightarrow> error + close_entry list" where
  "close_partners b out =
     (let result = year_result b; res = result_name (style b)
      in ebind (assert_that (result > 0) ''a partnership's appropriation is shown for a profit'') (\<lambda>_.
         ebind (appropriation b result) (\<lambda>ap.
         ebind (close_add b out ''Net profit to the P&L Appropriation Account'' [(res, result), (APPR, - result)]) (\<lambda>out.
         ebind (close_add b out ''Interest on capital, as the partners agreed, to the partners' accounts (out of profit only)''
                  ((APPR, \<Sum>(p, i, x)\<leftarrow>ap. i) # map (\<lambda>(p, i, x). (pcurrent p, - i)) ap)) (\<lambda>out.
         close_add b out (''Share of profit to the partners' accounts ('' @ join_str '' : '' (map (\<lambda>p. str_int (share p)) (partners b)) @ '')'')
                  ((APPR, \<Sum>(p, i, x)\<leftarrow>ap. x) # map (\<lambda>(p, i, x). (pcurrent p, - x)) ap))))))"

definition close_owner :: "posted_book \<Rightarrow> close_entry list \<Rightarrow> error + close_entry list" where
  "close_owner b out =
     (let result = year_result b; res = result_name (style b)
      in case owner_account b of
           None \<Rightarrow> Inl (AssertionError (bname b))
         | Some own \<Rightarrow>
             ebind (close_add b out (if result \<ge> 0 then fst (result_words (style b)) else snd (result_words (style b)))
                      [(res, result), (own, - result)]) (\<lambda>out.
             ebind (close_add b out ''Drawings closed to own money''
                      ((own, \<Sum>(n, x)\<leftarrow>heads_of b Drawings. x) # map (\<lambda>(n, x). (n, - x)) (heads_of b Drawings))) (\<lambda>out.
             close_add b out ''Business income shared out, closed to own money (not a cost)''
                      ((own, \<Sum>(n, x)\<leftarrow>heads_of b Shareout. x) # map (\<lambda>(n, x). (n, - x)) (heads_of b Shareout)))))"

definition close_entries :: "posted_book \<Rightarrow> error + close_entry list" where
  "close_entries b =
     (let res = result_name (style b); short = take (length res - 4) res;
          inc = map (\<lambda>(n, x). (n, - x)) (heads_of b Income); ti = sum_list (map snd inc);
          exp = heads_of b Expense; te = sum_list (map snd exp)
      in ebind (close_add b [] (''Income heads closed to '' @ short) (inc @ [(res, - ti)])) (\<lambda>out.
         ebind (close_add b out (''Expense heads closed to '' @ short) ((res, te) # map (\<lambda>(n, x). (n, - x)) exp)) (\<lambda>out.
         if partners b \<noteq> [] then close_partners b out else close_owner b out)))"

text \<open>The close entries' lines on one account.\<close>

definition close_posts :: "posted_book \<Rightarrow> string \<Rightarrow> error + (string \<times> string \<times> int \<times> string list) list" where
  "close_posts b name =
     ebind (close_entries b) (\<lambda>es. Inr (concat (map (\<lambda>(vid, note, lines).
       [(vid, note, a, map fst (filter (\<lambda>(m, x). (x > 0) \<noteq> (a > 0)) lines)). (n, a) \<leftarrow> lines, n = name]) es)))"

section \<open>The balances after the close\<close>

text \<open>\<open>bs\<close> is the dictionary over the accounts (\<open>bal\<close> of the source), \<open>pseudo\<close> the one of the accounts the close itself opens.\<close>

fun upd_add :: "string \<Rightarrow> int \<Rightarrow> (string \<times> int) list \<Rightarrow> (string \<times> int) list" where
  "upd_add n a [] = [(n, a)]"
| "upd_add n a ((m, x) # ps) = (if m = n then (m, x + a) # ps else (m, x) # upd_add n a ps)"

definition apply_line :: "(string \<times> int) list \<times> (string \<times> int) list \<Rightarrow> string \<times> int \<Rightarrow> (string \<times> int) list \<times> (string \<times> int) list" where
  "apply_line st l =
     (case st of (bs, pseudo) \<Rightarrow>
        if fst l \<in> set (map fst bs) then (map (\<lambda>(m, x). if m = fst l then (m, x + snd l) else (m, x)) bs, pseudo)
        else (bs, upd_add (fst l) (snd l) pseudo))"

definition NIL_KINDS :: "kind list" where
  "NIL_KINDS = [Income, Expense, Drawings, Shareout]"

definition post_close_balances :: "posted_book \<Rightarrow> error + (string \<times> int) list" where
  "post_close_balances b =
     ebind (close_entries b) (\<lambda>es.
       let st = foldl apply_line (map (\<lambda>a. (aname a, closing a)) (accounts b), []) (concat (map (\<lambda>(v, t, ls). ls) es))
       in ebind (asserts
            ((list_all (\<lambda>(n, x). x = 0) (snd st), ''the result account is not closed'')
             # map (\<lambda>(a, nx). (kind a \<in> set NIL_KINDS \<longrightarrow> snd nx = 0, ''not closed'')) (zip (accounts b) (fst st))))
          (\<lambda>_. Inr (fst st)))"

section \<open>Adding the lines up\<close>

lemma line_sum_simps [simp]:
  "line_sum n [] = 0" "line_sum n (l # ls) = (if fst l = n then snd l else 0) + line_sum n ls"
  "line_sum n (xs @ ys) = line_sum n xs + line_sum n ys"
  by (auto simp: line_sum_def split_def)

lemma line_sum_nonzero: "line_sum n (filter (\<lambda>(m, a). a \<noteq> 0) ls) = line_sum n ls"
  by (induction ls) auto

lemma sum_nonzero: "sum_list (map snd (filter (\<lambda>(m, a). a \<noteq> (0::int)) ls)) = sum_list (map snd ls)"
  by (induction ls) auto

lemma line_sum_neg: "line_sum n (map (\<lambda>(m, x). (m, - x)) ls) = - line_sum n ls"
  by (induction ls) auto

lemma line_sum_absent: "n \<notin> fst ` set ls \<Longrightarrow> line_sum n ls = 0"
  by (induction ls) auto

definition clines :: "close_entry list \<Rightarrow> (string \<times> int) list" where
  "clines es = concat (map (\<lambda>(v, t, ls). ls) es)"

lemma close_add_ok:
  assumes "sum_list (map snd lines) = 0"
  obtains out' where "close_add b out nt lines = Inr out'"
    "\<And>n. line_sum n (clines out') = line_sum n (clines out) + line_sum n lines"
proof -
  let ?ls = "filter (\<lambda>(n, a). a \<noteq> 0) lines"
  have sum: "sum_list (map snd ?ls) = 0" using assms by (simp add: sum_nonzero)
  show thesis
  proof (cases "?ls = []")
    case True
    have "line_sum n lines = 0" for n using line_sum_nonzero [of n lines] True by simp
    with True show ?thesis by (intro that [of out]) (simp_all add: close_add_def)
  next
    case False
    let ?out = "out @ [(prefix b @ ''-Y'' @ str_nat (int (length out) + 1), nt, ?ls)]"
    show ?thesis
      by (rule that [of ?out]) (use False sum in \<open>simp_all add: close_add_def clines_def line_sum_nonzero\<close>)
  qed
qed

lemma close_add_balanced:
  assumes "close_add b out note lines = Inr out'" "\<forall>(v, t, ls) \<in> set out. sum_list (map snd ls) = 0"
  shows "\<forall>(v, t, ls) \<in> set out'. sum_list (map snd ls) = 0"
  using assms by (auto simp: close_add_def Let_def split: if_splits)

text \<open>The dictionaries after all lines: each account has its lines' sum, each name of the close's own as well.\<close>

definition get_or_0 :: "string \<Rightarrow> (string \<times> int) list \<Rightarrow> int" where
  "get_or_0 n ps = (case map_of ps n of None \<Rightarrow> 0 | Some x \<Rightarrow> x)"

lemma get_upd_add: "get_or_0 m (upd_add n a ps) = get_or_0 m ps + (if m = n then a else 0)"
  by (induction n a ps rule: upd_add.induct) (auto simp: get_or_0_def)

lemma upd_add_keys: "fst ` set (upd_add n a ps) = insert n (fst ` set ps)"
  by (induction n a ps rule: upd_add.induct) auto

lemma upd_add_distinct: "distinct (map fst ps) \<Longrightarrow> distinct (map fst (upd_add n a ps))"
proof (induction n a ps rule: upd_add.induct)
  case (2 n a m x ps)
  then show ?case using upd_add_keys [of n a ps] by auto
qed simp

lemma apply_lines:
  "distinct (map fst ps) \<Longrightarrow>
   fst (foldl apply_line (bs, ps) ls) = map (\<lambda>(m, x). (m, x + line_sum m ls)) bs
   \<and> distinct (map fst (snd (foldl apply_line (bs, ps) ls)))
   \<and> (\<forall>n. get_or_0 n (snd (foldl apply_line (bs, ps) ls))
        = get_or_0 n ps + (if n \<in> fst ` set bs then 0 else line_sum n ls))"
proof (induction ls arbitrary: bs ps)
  case (Cons l ls)
  show ?case
  proof (cases "fst l \<in> fst ` set bs")
    case True
    let ?bs = "map (\<lambda>(m, x). if m = fst l then (m, x + snd l) else (m, x)) bs"
    have step: "apply_line (bs, ps) l = (?bs, ps)" using True by (simp add: apply_line_def)
    have "map fst ?bs = map fst bs" by auto
    then have keys: "fst ` set ?bs = fst ` set bs" by (metis set_map)
    have vals: "map (\<lambda>(m, x). (m, x + line_sum m ls)) ?bs = map (\<lambda>(m, x). (m, x + line_sum m (l # ls))) bs"
      by auto
    show ?thesis using Cons.IH [OF Cons.prems, of ?bs] True unfolding foldl_Cons step keys vals by auto
  next
    case False
    let ?ps = "upd_add (fst l) (snd l) ps"
    have step: "apply_line (bs, ps) l = (bs, ?ps)" using False by (simp add: apply_line_def)
    have vals: "map (\<lambda>(m, x). (m, x + line_sum m ls)) bs = map (\<lambda>(m, x). (m, x + line_sum m (l # ls))) bs"
    proof (intro map_cong refl)
      fix p assume "p \<in> set bs"
      then have "fst p \<noteq> fst l" using False by (metis imageI)
      then show "(case p of (m, x) \<Rightarrow> (m, x + line_sum m ls)) = (case p of (m, x) \<Rightarrow> (m, x + line_sum m (l # ls)))"
        by (cases p) simp
    qed
    show ?thesis
      using Cons.IH [OF upd_add_distinct [OF Cons.prems, of "fst l" "snd l"], of bs] False
      unfolding foldl_Cons step vals by (auto simp: get_upd_add)
  qed
qed simp

lemma nil_if_get_0:
  assumes "distinct (map fst ps)" "\<forall>n. get_or_0 n ps = 0"
  shows "list_all (\<lambda>(n, x). x = 0) ps"
  using assms by (auto simp: list_all_iff get_or_0_def) (metis map_of_is_SomeI option.simps(5))

lemma post_close_ok:
  assumes es: "close_entries b = Inr es"
    and nil: "\<And>n. n \<notin> set (order b) \<Longrightarrow> line_sum n (clines es) = 0"
    and closed: "\<And>a. a \<in> set (accounts b) \<Longrightarrow> kind a \<in> set NIL_KINDS \<Longrightarrow> closing a + line_sum (aname a) (clines es) = 0"
  shows "post_close_balances b = Inr (map (\<lambda>a. (aname a, closing a + line_sum (aname a) (clines es))) (accounts b))"
proof -
  let ?bs = "map (\<lambda>a. (aname a, closing a)) (accounts b)"
  let ?st = "foldl apply_line (?bs, []) (clines es)"
  note all = apply_lines [of "[]" ?bs "clines es", simplified]
  have fst_st: "fst ?st = map (\<lambda>a. (aname a, closing a + line_sum (aname a) (clines es))) (accounts b)"
    using all by (simp add: o_def)
  have "get_or_0 n (snd ?st) = 0" for n
    using all nil [of n] by (auto simp: get_or_0_def order_def image_comp o_def)
  then have "list_all (\<lambda>(n, x). x = 0) (snd ?st)" using all by (intro nil_if_get_0) auto
  moreover have "list_all (\<lambda>(a, nx). kind a \<in> set NIL_KINDS \<longrightarrow> snd nx = 0) (zip (accounts b) (fst ?st))"
    unfolding fst_st using closed by (auto simp: list_all_iff set_zip)
  ultimately show ?thesis
    unfolding post_close_balances_def es ebind_simps clines_def [symmetric] Let_def
    by (simp add: ebind_Inr split_def fst_st del: asserts.simps)
qed

section \<open>The heads of a kind\<close>

lemma sum_list_if_eq:
  assumes "distinct (map key xs)" "a \<in> set xs"
  shows "(\<Sum>x\<leftarrow>xs. if key x = key a then f x else (0::int)) = f a"
  using assms
proof (induction xs)
  case (Cons x xs)
  have "(\<Sum>y\<leftarrow>xs. if key y = key x then f y else 0) = 0" if "key x \<notin> key ` set xs"
    using that by (intro sum_list_zero_map) (auto simp: rev_image_eqI)
  with Cons show ?case by (auto simp: image_iff)
qed simp

lemma line_sum_heads:
  assumes "posted_ok b" "a \<in> set (accounts b)"
  shows "line_sum (aname a) (heads_of b k) = (if kind a = k then closing a else 0)"
proof -
  have "line_sum n [(aname x, closing x). x \<leftarrow> as, kind x = k \<and> closing x \<noteq> 0]
      = (\<Sum>x\<leftarrow>as. if aname x = n then (if kind x = k then closing x else 0) else 0)" for n and as :: "ledger_account list"
    by (induction as) auto
  then show ?thesis
    using sum_list_if_eq [of aname "accounts b" a "\<lambda>x. if kind x = k then closing x else 0"]
      posted_ok_distinct [OF assms(1)] assms(2)
    by (simp add: heads_of_def order_def)
qed

lemma line_sum_heads_absent: "n \<notin> set (order b) \<Longrightarrow> line_sum n (heads_of b k) = 0"
  by (intro line_sum_absent) (auto simp: heads_of_def order_def)

lemma sum_heads: "(\<Sum>(n, x)\<leftarrow>heads_of b k. x) = (\<Sum>a\<leftarrow>accounts b. if kind a = k then closing a else 0)"
proof -
  have "(\<Sum>(n, x)\<leftarrow>[(aname x, closing x). x \<leftarrow> as, kind x = k \<and> closing x \<noteq> 0]. x)
      = (\<Sum>x\<leftarrow>as. if kind x = k then closing x else 0)" for as :: "ledger_account list"
    by (induction as) auto
  then show ?thesis by (simp add: heads_of_def)
qed

lemma sum_heads_snd: "sum_list (map snd (heads_of b k)) = (\<Sum>a\<leftarrow>accounts b. if kind a = k then closing a else 0)"
  using sum_heads [of b k] by (simp add: split_def)

definition head_total :: "posted_book \<Rightarrow> kind \<Rightarrow> int" where
  "head_total b k = (\<Sum>a\<leftarrow>accounts b. if kind a = k then closing a else 0)"

lemma year_result_eq: "year_result b = - head_total b Income - head_total b Expense"
  using sum_heads [of b Income] sum_heads [of b Expense]
  by (simp add: year_result_def head_total_def split_def sum_list_uminus)

lemma sum_neg_snd: "sum_list (map snd (map (\<lambda>(n, x). (n, - x)) ls)) = - (sum_list (map snd ls) :: int)"
  by (induction ls) auto

text \<open>The first two entries, which every book has.\<close>

lemma close_heads:
  defines "res b \<equiv> result_name (style b)"
  obtains out where
    "close_entries b = (if partners b \<noteq> [] then close_partners b out else close_owner b out)"
    "\<And>n. line_sum n (clines out) = - line_sum n (heads_of b Income) - line_sum n (heads_of b Expense)
        + (if n = res b then - year_result b else 0)"
proof -
  let ?inc = "map (\<lambda>(n, x). (n, - x)) (heads_of b Income)" and ?exp = "heads_of b Expense"
  let ?l1 = "?inc @ [(res b, - sum_list (map snd ?inc))]"
  let ?l2 = "(res b, sum_list (map snd ?exp)) # map (\<lambda>(n, x). (n, - x)) ?exp"
  let ?n1 = "''Income heads closed to '' @ take (length (res b) - 4) (res b)"
  let ?n2 = "''Expense heads closed to '' @ take (length (res b) - 4) (res b)"
  obtain out1 where 1: "close_add b [] ?n1 ?l1 = Inr out1"
    "\<And>n. line_sum n (clines out1) = line_sum n (clines []) + line_sum n ?l1"
    by (rule close_add_ok [where lines = ?l1 and b = b and nt = ?n1 and out = "[]"]) auto
  have "sum_list (map snd ?l2) = 0" using sum_neg_snd [of ?exp] by simp
  then obtain out2 where 2: "close_add b out1 ?n2 ?l2 = Inr out2"
    "\<And>n. line_sum n (clines out2) = line_sum n (clines out1) + line_sum n ?l2"
    by (rule close_add_ok [where lines = ?l2 and b = b and nt = ?n2 and out = out1]) auto
  have "close_entries b = (if partners b \<noteq> [] then close_partners b out2 else close_owner b out2)"
    using 1(1) 2(1) by (simp add: close_entries_def Let_def res_def)
  moreover have "line_sum n (clines out2) = - line_sum n (heads_of b Income) - line_sum n (heads_of b Expense)
        + (if n = res b then - year_result b else 0)" for n
    unfolding 2(2) 1(2) using sum_neg_snd [of "heads_of b Income"]
    by (auto simp: line_sum_neg clines_def sum_heads_snd year_result_eq head_total_def)
  ultimately show thesis by (rule that)
qed

text \<open>The three entries of a book with an owner.\<close>

lemma close_owner_ok:
  assumes own: "owner_account b = Some own"
  obtains es where "close_owner b out = Inr es"
    "\<And>n. line_sum n (clines es) = line_sum n (clines out)
        + (if n = result_name (style b) then year_result b else 0)
        + (if n = own then - year_result b + head_total b Drawings + head_total b Shareout else 0)
        - line_sum n (heads_of b Drawings) - line_sum n (heads_of b Shareout)"
proof -
  let ?d = "heads_of b Drawings" and ?s = "heads_of b Shareout" and ?w = "result_words (style b)"
  let ?n1 = "if year_result b \<ge> 0 then fst ?w else snd ?w"
  let ?l1 = "[(result_name (style b), year_result b), (own, - year_result b)]"
  let ?l2 = "(own, \<Sum>(n, x)\<leftarrow>?d. x) # map (\<lambda>(n, x). (n, - x)) ?d"
  let ?l3 = "(own, \<Sum>(n, x)\<leftarrow>?s. x) # map (\<lambda>(n, x). (n, - x)) ?s"
  let ?n2 = "''Drawings closed to own money''"
  let ?n3 = "''Business income shared out, closed to own money (not a cost)''"
  obtain o1 where 1: "close_add b out ?n1 ?l1 = Inr o1"
    "\<And>n. line_sum n (clines o1) = line_sum n (clines out) + line_sum n ?l1"
    by (rule close_add_ok [where lines = ?l1 and b = b and nt = ?n1 and out = out]) auto
  have sums: "sum_list (map snd ?l2) = 0" "sum_list (map snd ?l3) = 0"
    using sum_neg_snd [of ?d] sum_neg_snd [of ?s] by (simp_all add: split_def)
  obtain o2 where 2: "close_add b o1 ?n2 ?l2 = Inr o2"
      "\<And>n. line_sum n (clines o2) = line_sum n (clines o1) + line_sum n ?l2"
    by (rule close_add_ok [OF sums(1), where b = b and nt = ?n2 and out = o1]) auto
  obtain o3 where 3: "close_add b o2 ?n3 ?l3 = Inr o3"
      "\<And>n. line_sum n (clines o3) = line_sum n (clines o2) + line_sum n ?l3"
    by (rule close_add_ok [OF sums(2), where b = b and nt = ?n3 and out = o2]) auto
  have "close_owner b out = Inr o3"
    using 1(1) 2(1) 3(1) own by (simp add: close_owner_def Let_def)
  moreover have "line_sum n (clines o3) = line_sum n (clines out)
        + (if n = result_name (style b) then year_result b else 0)
        + (if n = own then - year_result b + head_total b Drawings + head_total b Shareout else 0)
        - line_sum n ?d - line_sum n ?s" for n
    unfolding 3(2) 2(2) 1(2) by (auto simp: line_sum_neg sum_heads head_total_def)
  ultimately show thesis by (rule that)
qed

text \<open>The lines of all the entries of such a close, summed per account.\<close>

lemma close_single_lines:
  assumes ok: "posted_ok b" and np: "partners b = []" and cap: "find (\<lambda>a. kind a = Capital) (accounts b) = Some c"
  obtains es where "close_entries b = Inr es"
    "\<And>n. line_sum n (clines es)
      = (if n = aname c then - year_result b + head_total b Drawings + head_total b Shareout else 0)
        - line_sum n (heads_of b Income) - line_sum n (heads_of b Expense)
        - line_sum n (heads_of b Drawings) - line_sum n (heads_of b Shareout)"
proof -
  have own: "owner_account b = Some (aname c)" using cap by (simp add: owner_account_def)
  obtain out where out: "close_entries b = (if partners b \<noteq> [] then close_partners b out else close_owner b out)"
    "\<And>n. line_sum n (clines out) = - line_sum n (heads_of b Income) - line_sum n (heads_of b Expense)
        + (if n = result_name (style b) then - year_result b else 0)" by (rule close_heads [of b]) blast
  obtain es where es: "close_owner b out = Inr es"
    "\<And>n. line_sum n (clines es) = line_sum n (clines out)
        + (if n = result_name (style b) then year_result b else 0)
        + (if n = aname c then - year_result b + head_total b Drawings + head_total b Shareout else 0)
        - line_sum n (heads_of b Drawings) - line_sum n (heads_of b Shareout)"
    by (rule close_owner_ok [OF own]) blast
  show thesis by (rule that [of es]) (simp_all add: es out np)
qed

lemma close_single_account:
  assumes ok: "posted_ok b" and cap: "find (\<lambda>a. kind a = Capital) (accounts b) = Some c"
    and a: "a \<in> set (accounts b)"
    and lines: "line_sum (aname a) ls
      = (if aname a = aname c then - year_result b + head_total b Drawings + head_total b Shareout else 0)
        - line_sum (aname a) (heads_of b Income) - line_sum (aname a) (heads_of b Expense)
        - line_sum (aname a) (heads_of b Drawings) - line_sum (aname a) (heads_of b Shareout)"
  shows "line_sum (aname a) ls =
      (if kind a \<in> set NIL_KINDS then - closing a
       else if aname a = aname c then - year_result b + head_total b Drawings + head_total b Shareout else 0)"
proof -
  have c: "c \<in> set (accounts b)" "kind c = Capital" using cap by (auto simp: find_Some_iff)
  have "aname a = aname c \<longleftrightarrow> a = c"
    using a c(1) posted_ok_find [OF ok] by (metis option.inject)
  then show ?thesis
    unfolding lines line_sum_heads [OF ok a] using c(2) by (cases "kind a") (auto simp: NIL_KINDS_def)
qed

lemma closings_nil:
  assumes "posted_ok b"
  shows "(\<Sum>a\<leftarrow>accounts b. closing a) = 0"
  using books.balances_nil [OF assms, of FY_END] sum_accounts [OF assms, of "\<lambda>n x. x" FY_END] closing_year_end [OF assms]
  by (metis (no_types, lifting) map_eq_conv)

lemma close_single_sum:
  assumes ok: "posted_ok b" and cap: "find (\<lambda>a. kind a = Capital) (accounts b) = Some c"
    and lines: "\<And>n. line_sum n ls
      = (if n = aname c then - year_result b + head_total b Drawings + head_total b Shareout else 0)
        - line_sum n (heads_of b Income) - line_sum n (heads_of b Expense)
        - line_sum n (heads_of b Drawings) - line_sum n (heads_of b Shareout)"
  shows "(\<Sum>a\<leftarrow>accounts b. closing a + line_sum (aname a) ls) = 0"
proof -
  have c: "c \<in> set (accounts b)" using cap by (auto simp: find_Some_iff)
  have "(\<Sum>a\<leftarrow>accounts b. line_sum (aname a) ls)
      = (\<Sum>a\<leftarrow>accounts b. if aname a = aname c then - year_result b + head_total b Drawings + head_total b Shareout else 0)
        - head_total b Income - head_total b Expense - head_total b Drawings - head_total b Shareout"
    unfolding lines head_total_def
    by (simp add: sum_list_addf sum_list_subtractf line_sum_heads [OF ok] cong: map_cong)
  also have "... = 0"
    by (subst sum_list_if_eq) (use posted_ok_distinct [OF ok] c in \<open>simp_all add: order_def year_result_eq\<close>)
  finally show ?thesis using closings_nil [OF ok] by (simp add: sum_list_addf)
qed

text \<open>C2. The year close of a book with an owner's capital account never fails, and leaves every income,
  expense, drawings and share-out head at nil, the capital account with the year's result added and
  what was taken out deducted, and every other account as it stood; the balances still sum to nil.\<close>

theorem close_single_owner:
  assumes fin: "book_wf b0" "finalize b0 = Inr b" and "partners b = []"
    and cap: "find (\<lambda>a. kind a = Capital) (accounts b) = Some c"
  shows "\<exists>bs. post_close_balances b = Inr bs \<and> sum_list (map snd bs) = 0 \<and>
     bs = map (\<lambda>a. (aname a,
            if kind a \<in> set NIL_KINDS then 0
            else if aname a = aname c
                 then closing a - year_result b + head_total b Drawings + head_total b Shareout
                 else closing a)) (accounts b)"
proof -
  note ok = finalize_posted_ok [OF fin]
  have c: "c \<in> set (accounts b)" using cap by (auto simp: find_Some_iff)
  obtain es where ces: "close_entries b = Inr es"
    and lines: "\<And>n. line_sum n (clines es)
      = (if n = aname c then - year_result b + head_total b Drawings + head_total b Shareout else 0)
        - line_sum n (heads_of b Income) - line_sum n (heads_of b Expense)
        - line_sum n (heads_of b Drawings) - line_sum n (heads_of b Shareout)"
    by (rule close_single_lines [OF ok assms(3) cap]) blast
  note each = close_single_account [OF ok cap _ lines]
  let ?bs = "map (\<lambda>a. (aname a, closing a + line_sum (aname a) (clines es))) (accounts b)"
  have "post_close_balances b = Inr ?bs"
  proof (rule post_close_ok [OF ces])
    show "line_sum n (clines es) = 0" if "n \<notin> set (order b)" for n
      using that c by (auto simp: lines line_sum_heads_absent order_def)
    show "closing a + line_sum (aname a) (clines es) = 0" if "a \<in> set (accounts b)" "kind a \<in> set NIL_KINDS" for a
      using that(2) unfolding each [OF that(1)] by simp
  qed
  moreover have "?bs = map (\<lambda>a. (aname a,
            if kind a \<in> set NIL_KINDS then 0
            else if aname a = aname c
                 then closing a - year_result b + head_total b Drawings + head_total b Shareout
                 else closing a)) (accounts b)"
    by (intro map_cong refl) (simp add: each)
  moreover have "sum_list (map snd ?bs) = 0" using close_single_sum [OF ok cap lines] by (simp add: o_def)
  ultimately show ?thesis by blast
qed

section \<open>The appropriation\<close>

lemma arg_max_first:
  "ws \<noteq> [] \<Longrightarrow> arg_max_first ws < length ws \<and> (\<forall>j<length ws. ws ! j \<le> ws ! arg_max_first ws)
     \<and> (\<forall>j<arg_max_first ws. ws ! j < ws ! arg_max_first ws)"
proof (induction ws rule: arg_max_first.induct)
  case (3 x y ys)
  let ?k = "arg_max_first (y # ys)"
  from 3 have k: "?k < length (y # ys)" "\<forall>j<length (y # ys). (y # ys) ! j \<le> (y # ys) ! ?k"
    "\<forall>j<?k. (y # ys) ! j < (y # ys) ! ?k" by auto
  show ?case
  proof (cases "(y # ys) ! ?k > x")
    case True
    then have "arg_max_first (x # y # ys) = Suc ?k" by (simp add: Let_def)
    moreover have "(x # y # ys) ! j \<le> (x # y # ys) ! Suc ?k" if "j < length (x # y # ys)" for j
      using k(2) True that by (cases j) auto
    moreover have "(x # y # ys) ! j < (x # y # ys) ! Suc ?k" if "j < Suc ?k" for j
      using k(3) True that by (cases j) auto
    ultimately show ?thesis using k(1) by simp
  next
    case False
    then have "arg_max_first (x # y # ys) = 0" by (simp add: Let_def)
    moreover have "(x # y # ys) ! j \<le> x" if "j < length (x # y # ys)" for j
      using k(2) False that by (cases j) force+
    ultimately show ?thesis by simp
  qed
qed auto

lemma sum_list_upd: "k < length xs \<Longrightarrow> sum_list (xs[k := x]) = sum_list xs + x - (xs ! k :: int)"
  by (induction xs arbitrary: k) (auto split: nat.splits)

lemma share_out_sum: "ws \<noteq> [] \<Longrightarrow> sum_list (share_out rest ws) = rest"
  using arg_max_first [of ws]
  by (simp add: share_out_def Let_def sum_list_upd)

lemma sum_list_pos: "ws \<noteq> [] \<Longrightarrow> list_all (\<lambda>w. 0 < w) ws \<Longrightarrow> 0 < (sum_list ws :: int)"
proof (induction ws)
  case (Cons w ws)
  then show ?case by (cases "ws = []") auto
qed simp

lemma share_out_floor:
  fixes rest :: int
  assumes "ws \<noteq> []" "list_all (\<lambda>w. 0 < w) ws"
  defines "fl \<equiv> map (\<lambda>w. rest * w div sum_list ws) ws"
  shows "0 \<le> rest - sum_list fl" "rest - sum_list fl < int (length ws)"
proof -
  let ?W = "sum_list ws"
  have W: "0 < ?W" by (rule sum_list_pos [OF assms(1,2)])
  have "?W * (\<Sum>w\<leftarrow>vs. rest * w div ?W) = rest * sum_list vs - (\<Sum>w\<leftarrow>vs. rest * w mod ?W)" for vs
  proof (induction vs)
    case (Cons v vs)
    have "?W * (rest * v div ?W) = rest * v - rest * v mod ?W" by (metis minus_mod_eq_mult_div)
    with Cons show ?case by (simp add: distrib_left)
  qed simp
  from this [of ws] have eq: "?W * (rest - sum_list fl) = (\<Sum>w\<leftarrow>ws. rest * w mod ?W)"
    by (simp add: fl_def right_diff_distrib mult.commute)
  have "0 \<le> (\<Sum>w\<leftarrow>vs. rest * w mod ?W)" for vs using W by (intro sum_list_nonneg) auto
  then have "0 \<le> ?W * (rest - sum_list fl)" unfolding eq .
  then show "0 \<le> rest - sum_list fl" using W by (simp add: zero_le_mult_iff)
  have "(\<Sum>w\<leftarrow>vs. rest * w mod ?W) \<le> int (length vs) * (?W - 1)" for vs
  proof (induction vs)
    case (Cons v vs)
    have "rest * v mod ?W \<le> ?W - 1" using pos_mod_bound [OF W, of "rest * v"] by simp
    with Cons show ?case by (simp add: distrib_right)
  qed simp
  from this [of ws] have "?W * (rest - sum_list fl) \<le> int (length ws) * (?W - 1)" using eq by simp
  also have "... < int (length ws) * ?W" using assms(1) by simp
  finally have "?W * (rest - sum_list fl) < ?W * int (length ws)" by (simp add: mult.commute)
  with W show "rest - sum_list fl < int (length ws)" by (simp only: mult_less_cancel_left_pos)
qed

lemma share_out_nth:
  assumes "k < length ws"
  shows "share_out rest ws ! k = rest * (ws ! k) div sum_list ws
     + (if k = arg_max_first ws then rest - (\<Sum>w\<leftarrow>ws. rest * w div sum_list ws) else 0)"
  using assms arg_max_first [of ws] by (auto simp: share_out_def Let_def nth_list_update)

lemma length_share_out [simp]: "length (share_out rest ws) = length ws"
  by (simp add: share_out_def Let_def)

lemma appropriation_Inr:
  assumes "appropriation b result = Inr ap" "partners b \<noteq> []"
  obtains ints where "emap (partner_interest b) (partners b) = Inr ints" "length ints = length (partners b)"
    "0 < result - sum_list ints" "sum_list (map share (partners b)) \<noteq> 0"
    "ap = zip (partners b) (zip ints (share_out (result - sum_list ints) (map share (partners b))))"
proof -
  from assms obtain ints where i: "emap (partner_interest b) (partners b) = Inr ints"
    "0 < result - sum_list ints" "sum_list (map share (partners b)) \<noteq> 0"
    "ap = zip (partners b) (zip ints (share_out (result - sum_list ints) (map share (partners b))))"
    by (auto simp: appropriation_def ebind_Inr Let_def split: if_splits)
  moreover have "length ints = length (partners b)"
    using i(1) by (simp add: emap_Inr_iff list_all2_lengthD)
  ultimately show thesis by (intro that) auto
qed

lemma sum_zip3:
  "length xs = length ps \<Longrightarrow> length ys = length ps \<Longrightarrow>
   (\<Sum>(p, i, x)\<leftarrow>zip ps (zip xs ys). i) = sum_list xs \<and> (\<Sum>(p, i, x)\<leftarrow>zip ps (zip xs ys). x) = sum_list ys"
proof (induction ps arbitrary: xs ys)
  case (Cons p ps)
  then obtain x xs' y ys' where "xs = x # xs'" "ys = y # ys'" by (metis length_Suc_conv)
  with Cons show ?case by simp
qed simp

lemma appropriation_total:
  assumes "appropriation b result = Inr ap" "partners b \<noteq> []"
  shows "(\<Sum>(p, i, x)\<leftarrow>ap. i) + (\<Sum>(p, i, x)\<leftarrow>ap. x) = result" "map fst ap = partners b"
proof -
  obtain ints where i: "length ints = length (partners b)"
    "ap = zip (partners b) (zip ints (share_out (result - sum_list ints) (map share (partners b))))"
    by (rule appropriation_Inr [OF assms]) blast
  then show "(\<Sum>(p, i, x)\<leftarrow>ap. i) + (\<Sum>(p, i, x)\<leftarrow>ap. x) = result" "map fst ap = partners b"
    using sum_zip3 [of ints "partners b" "share_out (result - sum_list ints) (map share (partners b))"]
      share_out_sum [of "map share (partners b)"] assms(2) by simp_all
qed

text \<open>C5. The appropriation gives away the whole profit, the partners in their order; every partner has the
  whole paise of his part of what is left after interest, and only the partner with the largest share
  (the earliest of them) has more, by fewer paise than there are partners.\<close>

theorem appropriation_shares:
  assumes "appropriation b result = Inr ap" "partners b \<noteq> []" "list_all (\<lambda>p. 0 < share p) (partners b)"
  shows "map fst ap = partners b \<and> (\<Sum>(p, i, x)\<leftarrow>ap. i + x) = result \<and>
    (\<exists>rest m. rest = result - (\<Sum>(p, i, x)\<leftarrow>ap. i) \<and> 0 < rest
       \<and> m < length ap \<and> (\<forall>j<length ap. share (fst (ap ! j)) \<le> share (fst (ap ! m)))
       \<and> (\<forall>j<m. share (fst (ap ! j)) < share (fst (ap ! m)))
       \<and> (\<forall>k<length ap. let exact = rest * share (fst (ap ! k)) div sum_list (map share (partners b)); x = snd (snd (ap ! k))
            in if k = m then exact \<le> x \<and> x < exact + int (length ap) else x = exact))"
proof -
  obtain ints where i: "length ints = length (partners b)" "0 < result - sum_list ints"
    "ap = zip (partners b) (zip ints (share_out (result - sum_list ints) (map share (partners b))))"
    by (rule appropriation_Inr [OF assms(1,2)]) blast
  let ?ws = "map share (partners b)" and ?rest = "result - sum_list ints" and ?m = "arg_max_first (map share (partners b))"
  have ne: "?ws \<noteq> []" using assms(2) by simp
  have len: "length ap = length (partners b)" using i by simp
  have ints: "(\<Sum>(p, i, x)\<leftarrow>ap. i) = sum_list ints"
    using sum_zip3 [of ints "partners b" "share_out ?rest ?ws"] i by simp
  have sh: "share (fst (ap ! k)) = ?ws ! k" "snd (snd (ap ! k)) = share_out ?rest ?ws ! k" if "k < length ap" for k
    using that i by simp_all
  have am: "?m < length ap" "\<forall>j<length ap. ?ws ! j \<le> ?ws ! ?m" "\<forall>j<?m. ?ws ! j < ?ws ! ?m"
    using arg_max_first [OF ne] len by auto
  have each: "let exact = ?rest * share (fst (ap ! k)) div sum_list ?ws; x = snd (snd (ap ! k))
      in if k = ?m then exact \<le> x \<and> x < exact + int (length ap) else x = exact" if k: "k < length ap" for k
    using share_out_nth [of k ?ws ?rest] share_out_floor [OF ne, of ?rest] assms(3) k len
    unfolding sh [OF k] by (simp add: Let_def list_all_iff del: length_share_out)
  have "(\<Sum>(p, i, x)\<leftarrow>ap. i + x) = result"
    using appropriation_total(1) [OF assms(1,2)] by (simp add: split_def sum_list_addf)
  moreover have "\<forall>j<?m. share (fst (ap ! j)) < share (fst (ap ! ?m))"
    using am sh by simp
  moreover have "\<forall>j<length ap. share (fst (ap ! j)) \<le> share (fst (ap ! ?m))"
    using am sh by simp
  ultimately show ?thesis
    using i(2) am(1) each appropriation_total(2) [OF assms(1,2)] unfolding ints by blast
qed

section \<open>The close of a partnership\<close>

definition partner_part :: "(partner \<times> int \<times> int) list \<Rightarrow> string \<Rightarrow> int" where
  "partner_part ap n = (\<Sum>(p, i, x)\<leftarrow>ap. if pcurrent p = n then i + x else 0)"

lemma line_sum_current:
  "line_sum n (map (\<lambda>(p, i, x). (pcurrent p, - i)) ap) + line_sum n (map (\<lambda>(p, i, x). (pcurrent p, - x)) ap)
     = - partner_part ap n"
  by (induction ap) (auto simp: partner_part_def)

lemma sum_snd_current:
  fixes ap :: "(partner \<times> int \<times> int) list"
  shows
  "sum_list (map snd (map (\<lambda>(p, i, x). (pcurrent p, - i)) ap)) = - (\<Sum>(p, i, x)\<leftarrow>ap. i)"
  "sum_list (map snd (map (\<lambda>(p, i, x). (pcurrent p, - x)) ap)) = - (\<Sum>(p, i, x)\<leftarrow>ap. x)"
  by (induction ap) auto

lemma close_partners_ok:
  assumes ap: "appropriation b (year_result b) = Inr ap" and ne: "partners b \<noteq> []" and pos: "0 < year_result b"
  obtains es where "close_partners b out = Inr es"
    "\<And>n. line_sum n (clines es) = line_sum n (clines out)
        + (if n = result_name (style b) then year_result b else 0) - partner_part ap n"
proof -
  let ?i = "\<Sum>(p, i, x)\<leftarrow>ap. i" and ?x = "\<Sum>(p, i, x)\<leftarrow>ap. x"
  let ?l1 = "[(result_name (style b), year_result b), (APPR, - year_result b)]"
  let ?l2 = "(APPR, ?i) # map (\<lambda>(p, i, x). (pcurrent p, - i)) ap"
  let ?l3 = "(APPR, ?x) # map (\<lambda>(p, i, x). (pcurrent p, - x)) ap"
  let ?n1 = "''Net profit to the P&L Appropriation Account''"
  let ?n2 = "''Interest on capital, as the partners agreed, to the partners' accounts (out of profit only)''"
  let ?n3 = "''Share of profit to the partners' accounts ('' @ join_str '' : '' (map (\<lambda>p. str_int (share p)) (partners b)) @ '')''"
  have sums: "sum_list (map snd ?l1) = 0" "sum_list (map snd ?l2) = 0" "sum_list (map snd ?l3) = 0"
    using sum_snd_current [of ap] by simp_all
  obtain o1 where 1: "close_add b out ?n1 ?l1 = Inr o1"
      "\<And>n. line_sum n (clines o1) = line_sum n (clines out) + line_sum n ?l1"
    by (rule close_add_ok [OF sums(1), where b = b and nt = ?n1 and out = out]) auto
  obtain o2 where 2: "close_add b o1 ?n2 ?l2 = Inr o2"
      "\<And>n. line_sum n (clines o2) = line_sum n (clines o1) + line_sum n ?l2"
    by (rule close_add_ok [OF sums(2), where b = b and nt = ?n2 and out = o1]) auto
  obtain o3 where 3: "close_add b o2 ?n3 ?l3 = Inr o3"
      "\<And>n. line_sum n (clines o3) = line_sum n (clines o2) + line_sum n ?l3"
    by (rule close_add_ok [OF sums(3), where b = b and nt = ?n3 and out = o2]) auto
  have "close_partners b out = Inr o3"
    using 1(1) 2(1) 3(1) ap pos by (simp add: close_partners_def Let_def assert_that_def)
  moreover have "line_sum n (clines o3) = line_sum n (clines out)
        + (if n = result_name (style b) then year_result b else 0) - partner_part ap n" for n
  proof -
    have "?i + ?x = year_result b" by (rule appropriation_total [OF ap ne])
    then show ?thesis unfolding 3(2) 2(2) 1(2) using line_sum_current [of n ap] by auto
  qed
  ultimately show thesis by (rule that)
qed

lemma close_partnership_lines:
  assumes ne: "partners b \<noteq> []" and ap: "appropriation b (year_result b) = Inr ap" and pos: "0 < year_result b"
  obtains es where "close_entries b = Inr es"
    "\<And>n. line_sum n (clines es)
      = - line_sum n (heads_of b Income) - line_sum n (heads_of b Expense) - partner_part ap n"
proof -
  obtain out where out: "close_entries b = (if partners b \<noteq> [] then close_partners b out else close_owner b out)"
    "\<And>n. line_sum n (clines out) = - line_sum n (heads_of b Income) - line_sum n (heads_of b Expense)
        + (if n = result_name (style b) then - year_result b else 0)" by (rule close_heads [of b]) blast
  obtain es where es: "close_partners b out = Inr es"
    "\<And>n. line_sum n (clines es) = line_sum n (clines out)
        + (if n = result_name (style b) then year_result b else 0) - partner_part ap n"
    by (rule close_partners_ok [OF ap ne pos]) blast
  show thesis by (rule that [of es]) (simp_all add: es out ne)
qed

lemma partner_part_0:
  assumes ne: "partners b \<noteq> []" and ap: "appropriation b (year_result b) = Inr ap"
    and cur: "list_all (\<lambda>p. name_is b [Pcurrent, Partner] (pcurrent p)) (partners b)"
    and n: "\<not> name_is b [Pcurrent, Partner] n"
  shows "partner_part ap n = 0"
proof -
  have "pcurrent (fst q) \<noteq> n" if "q \<in> set ap" for q
  proof -
    have "fst q \<in> set (partners b)"
      using that appropriation_total(2) [OF ap ne] by (metis image_eqI set_map)
    with cur n show ?thesis by (auto simp: list_all_iff)
  qed
  then show ?thesis unfolding partner_part_def by (intro sum_list_zero_map) (auto simp: split_def)
qed

text \<open>C4. The year close of a partnership that made a profit and agreed an appropriation never fails: the
  income and expense heads end at nil, each partner's current account has his interest and his share
  added, and every other account (the fixed capitals among them) stands as it was.\<close>

theorem close_partnership:
  assumes fin: "book_wf b0" "finalize b0 = Inr b" and ne: "partners b \<noteq> []"
    and ap: "appropriation b (year_result b) = Inr ap" and pos: "0 < year_result b"
    and cur: "list_all (\<lambda>p. name_is b [Pcurrent, Partner] (pcurrent p)) (partners b)"
    and dr: "list_all (\<lambda>a. kind a \<in> set [Drawings, Shareout] \<longrightarrow> closing a = 0) (accounts b)"
  shows "post_close_balances b = Inr (map (\<lambda>a. (aname a,
            if kind a \<in> set NIL_KINDS then 0 else closing a - partner_part ap (aname a))) (accounts b))"
proof -
  note ok = finalize_posted_ok [OF fin]
  obtain es where ces: "close_entries b = Inr es"
    and lines: "\<And>n. line_sum n (clines es)
      = - line_sum n (heads_of b Income) - line_sum n (heads_of b Expense) - partner_part ap n"
    by (rule close_partnership_lines [OF ne ap pos]) blast
  note part0 = partner_part_0 [OF ne ap cur]
  have nilk: "closing a + line_sum (aname a) (clines es) = 0" if a: "a \<in> set (accounts b)" "kind a \<in> set NIL_KINDS" for a
  proof -
    have "partner_part ap (aname a) = 0"
      by (rule part0) (use a posted_ok_find [OF ok a(1)] in \<open>auto simp: name_is_def kind_of_def NIL_KINDS_def\<close>)
    moreover have "kind a \<in> {Drawings, Shareout} \<Longrightarrow> closing a = 0" using dr a(1) by (auto simp: list_all_iff)
    ultimately show ?thesis
      using a(2) unfolding lines line_sum_heads [OF ok a(1)] by (auto simp: NIL_KINDS_def)
  qed
  have "post_close_balances b = Inr (map (\<lambda>a. (aname a, closing a + line_sum (aname a) (clines es))) (accounts b))"
  proof (rule post_close_ok [OF ces])
    show "line_sum n (clines es) = 0" if "n \<notin> set (order b)" for n
    proof -
      have "\<not> name_is b [Pcurrent, Partner] n"
        using that by (auto simp: name_is_def kind_of_def known_iff [symmetric] known_def)
      then show ?thesis using that by (simp add: lines line_sum_heads_absent part0)
    qed
  qed (rule nilk)
  also have "map (\<lambda>a. (aname a, closing a + line_sum (aname a) (clines es))) (accounts b)
      = map (\<lambda>a. (aname a, if kind a \<in> set NIL_KINDS then 0 else closing a - partner_part ap (aname a))) (accounts b)"
    by (intro map_cong refl) (use nilk in \<open>auto simp: lines line_sum_heads [OF ok] NIL_KINDS_def\<close>)
  finally show ?thesis .
qed

end
