(* ===== verification/Close_Facts.thy ===== *)
theory Close_Facts
  imports Year_Close
begin

text \<open>
  What the reports of the year end rely on: the contract of a year close, stated once in the locale
  \<open>closed_book\<close> (the balances sum to nil before and after; the heads end at nil; nothing outside the
  heads and the own money moves) and interpreted on the close that \<open>close_entries\<close> posts.
\<close>

section \<open>The contract of a year close\<close>

locale closed_book =
  fixes ok :: "'b \<Rightarrow> bool" and accts :: "'b \<Rightarrow> 'a list" and kd :: "'a \<Rightarrow> kind"
    and before :: "'b \<Rightarrow> 'a \<Rightarrow> int" and after :: "'b \<Rightarrow> 'a \<Rightarrow> int"
  assumes before_nil: "ok b \<Longrightarrow> (\<Sum>a\<leftarrow>accts b. before b a) = 0"
    and after_nil: "ok b \<Longrightarrow> (\<Sum>a\<leftarrow>accts b. after b a) = 0"
    and heads_nil: "ok b \<Longrightarrow> a \<in> set (accts b) \<Longrightarrow> kd a \<in> set NIL_KINDS \<Longrightarrow> after b a = 0"
    and outside: "ok b \<Longrightarrow> a \<in> set (accts b) \<Longrightarrow> is_bs (kd a) \<Longrightarrow> \<not> is_equity (kd a) \<Longrightarrow> after b a = before b a"
begin

lemma split3:
  fixes f :: "'a \<Rightarrow> int"
  shows "(\<Sum>a\<leftarrow>xs. f a) = (\<Sum>a\<leftarrow>xs. if is_equity (kd a) then f a else 0)
     + (\<Sum>a\<leftarrow>xs. if \<not> is_equity (kd a) \<and> is_bs (kd a) then f a else 0)
     + (\<Sum>a\<leftarrow>xs. if \<not> is_bs (kd a) then f a else 0)"
  by (induction xs) (auto simp: is_equity_def is_bs_def EQUITY_KINDS_def)

lemma assets_unmoved:
  assumes "ok b"
  shows "(\<Sum>a\<leftarrow>accts b. if \<not> is_equity (kd a) \<and> is_bs (kd a) then after b a else 0)
       = (\<Sum>a\<leftarrow>accts b. if \<not> is_equity (kd a) \<and> is_bs (kd a) then before b a else 0)"
  by (intro arg_cong [where f = sum_list] map_cong refl) (auto simp: outside [OF assms])

text \<open>The own money after the close is the own money before it with the result added.\<close>

lemma own_money:
  assumes "ok b"
  shows "(\<Sum>a\<leftarrow>accts b. if is_equity (kd a) then after b a else 0)
       = (\<Sum>a\<leftarrow>accts b. if is_equity (kd a) then before b a else 0) + (\<Sum>a\<leftarrow>accts b. if \<not> is_bs (kd a) then before b a else 0)"
proof -
  have "(\<Sum>a\<leftarrow>accts b. if \<not> is_bs (kd a) then after b a else 0) = 0"
    by (intro sum_list_zero_map) (auto simp: is_bs_def NIL_KINDS_def heads_nil [OF assms])
  then show ?thesis
    using split3 [of "before b" "accts b"] split3 [of "after b" "accts b"] before_nil [OF assms]
      after_nil [OF assms] assets_unmoved [OF assms] by simp
qed

text \<open>What the book has and is owed, less what it owes, is the own money.\<close>

lemma position:
  "ok b \<Longrightarrow> (\<Sum>a\<leftarrow>accts b. if \<not> is_equity (kd a) \<and> is_bs (kd a) then before b a else 0)
     = - (\<Sum>a\<leftarrow>accts b. if is_equity (kd a) then after b a else 0)"
  using split3 [of "after b" "accts b"] after_nil [of b] assets_unmoved [of b] heads_nil [of b]
    sum_list_zero_map [of "accts b" "\<lambda>a. if \<not> is_bs (kd a) then after b a else 0"]
  by (simp add: is_bs_def NIL_KINDS_def)

lemma carried_sides:
  "ok b \<Longrightarrow> (\<Sum>a\<leftarrow>accts b. if 0 < after b a then after b a else 0) = (\<Sum>a\<leftarrow>accts b. if after b a < 0 then - after b a else 0)"
  using after_nil [of b] sum_list_pos_neg [of "after b" "accts b"] by simp

end

section \<open>The close that the book posts\<close>

definition after_close :: "posted_book \<Rightarrow> ledger_account \<Rightarrow> int" where
  "after_close b a =
     closing a + (case close_entries b of Inl _ \<Rightarrow> 0 | Inr es \<Rightarrow> line_sum (aname a) (clines es))"

text \<open>A book that can be closed: one owner with a capital account, or partners whose appropriation is
  agreed, who are credited to their own accounts, and who have no drawings accounts.\<close>

definition closable :: "posted_book \<Rightarrow> bool" where
  "closable b =
     (posted_ok b \<and>
      (if partners b = [] then list_ex (\<lambda>a. kind a = Capital) (accounts b)
       else is_ok (appropriation b (year_result b)) \<and> 0 < year_result b
            \<and> list_all (\<lambda>p. name_is b [Pcurrent, Partner] (pcurrent p)) (partners b)
            \<and> list_all (\<lambda>a. kind a \<notin> set [Drawings, Shareout]) (accounts b)))"

lemma closable_posted: "closable b \<Longrightarrow> posted_ok b"
  by (simp add: closable_def)

text \<open>Every entry balances, so the close moves nothing in total.\<close>

lemma close_entries_balanced:
  assumes "close_entries b = Inr es"
  shows "\<forall>(v, t, ls) \<in> set es. sum_list (map snd ls) = 0"
  using assms
  by (auto simp: close_entries_def close_partners_def close_owner_def Let_def ebind_Inr split: if_splits option.splits
      dest!: close_add_balanced)

lemma clines_total:
  "\<forall>(v, t, ls) \<in> set es. sum_list (map snd ls) = 0 \<Longrightarrow> sum_list (map snd (clines es)) = 0"
  by (induction es) (auto simp: clines_def)

lemma find_ex: "list_ex P xs \<Longrightarrow> \<exists>x. find P xs = Some x"
  by (induction xs) auto

lemma closable_lines:
  assumes "closable b"
  obtains es where "close_entries b = Inr es"
    "\<And>n. n \<notin> set (order b) \<Longrightarrow> line_sum n (clines es) = 0"
    "\<And>a. a \<in> set (accounts b) \<Longrightarrow> kind a \<in> set NIL_KINDS \<Longrightarrow> closing a + line_sum (aname a) (clines es) = 0"
    "\<And>a. a \<in> set (accounts b) \<Longrightarrow> is_bs (kind a) \<Longrightarrow> \<not> is_equity (kind a) \<Longrightarrow> line_sum (aname a) (clines es) = 0"
proof (cases "partners b = []")
  case True
  note ok = closable_posted [OF assms]
  obtain c where cap: "find (\<lambda>a. kind a = Capital) (accounts b) = Some c"
    using assms True find_ex by (auto simp: closable_def)
  have c: "c \<in> set (accounts b)" "kind c = Capital" using cap by (auto simp: find_Some_iff)
  obtain es where es: "close_entries b = Inr es"
    and lines: "\<And>n. line_sum n (clines es)
      = (if n = aname c then - year_result b + head_total b Drawings + head_total b Shareout else 0)
        - line_sum n (heads_of b Income) - line_sum n (heads_of b Expense)
        - line_sum n (heads_of b Drawings) - line_sum n (heads_of b Shareout)"
    by (rule close_single_lines [OF ok True cap]) blast
  note each = close_single_account [OF ok cap _ lines]
  show ?thesis
  proof (rule that [OF es])
    show "line_sum n (clines es) = 0" if "n \<notin> set (order b)" for n
      using that c by (auto simp: lines line_sum_heads_absent order_def)
    fix a assume a: "a \<in> set (accounts b)"
    show "closing a + line_sum (aname a) (clines es) = 0" if "kind a \<in> set NIL_KINDS"
      using that unfolding each [OF a] by simp
    have "aname a = aname c \<longleftrightarrow> a = c" using a c(1) posted_ok_find [OF ok] by (metis option.inject)
    then show "line_sum (aname a) (clines es) = 0" if "is_bs (kind a)" "\<not> is_equity (kind a)"
      using that c(2) unfolding each [OF a] by (auto simp: NIL_KINDS_def is_bs_def is_equity_def EQUITY_KINDS_def)
  qed
next
  case ne: False
  note ok = closable_posted [OF assms]
  obtain ap where ap: "appropriation b (year_result b) = Inr ap" and pos: "0 < year_result b"
    and cur: "list_all (\<lambda>p. name_is b [Pcurrent, Partner] (pcurrent p)) (partners b)"
    and dr: "list_all (\<lambda>a. kind a \<notin> set [Drawings, Shareout]) (accounts b)"
    using assms ne by (auto simp: closable_def is_ok_iff)
  obtain es where es: "close_entries b = Inr es"
    and lines: "\<And>n. line_sum n (clines es)
      = - line_sum n (heads_of b Income) - line_sum n (heads_of b Expense) - partner_part ap n"
    by (rule close_partnership_lines [OF ne ap pos]) blast
  note part0 = partner_part_0 [OF ne ap cur]
  have kd: "name_is b ks (aname a) \<longleftrightarrow> kind a \<in> set ks" if "a \<in> set (accounts b)" for a ks
    using posted_ok_find [OF ok that] by (simp add: name_is_def kind_of_def)
  show ?thesis
  proof (rule that [OF es])
    show "line_sum n (clines es) = 0" if "n \<notin> set (order b)" for n
    proof -
      have "\<not> name_is b [Pcurrent, Partner] n"
        using that by (auto simp: name_is_def kind_of_def known_iff [symmetric] known_def)
      then show ?thesis using that by (simp add: lines line_sum_heads_absent part0)
    qed
    fix a assume a: "a \<in> set (accounts b)"
    show "closing a + line_sum (aname a) (clines es) = 0" if "kind a \<in> set NIL_KINDS"
      using that dr a part0 [of "aname a"] unfolding lines line_sum_heads [OF ok a]
      by (auto simp: kd [OF a] list_all_iff NIL_KINDS_def)
    show "line_sum (aname a) (clines es) = 0" if "is_bs (kind a)" "\<not> is_equity (kind a)"
      using that part0 [of "aname a"] unfolding lines line_sum_heads [OF ok a]
      by (auto simp: kd [OF a] is_bs_def is_equity_def EQUITY_KINDS_def)
  qed
qed

lemma lines_in_order:
  assumes "posted_ok b" "\<And>n. n \<notin> set (order b) \<Longrightarrow> line_sum n ls = 0"
  shows "(\<Sum>a\<leftarrow>accounts b. line_sum (aname a) ls) = sum_list (map snd ls)"
proof -
  have total: "sum_list (map snd ls) = (\<Sum>n\<leftarrow>ns. line_sum n ls)"
    if "distinct ns" "fst ` set ls \<subseteq> set ns" for ns and ls :: "(string \<times> int) list"
    using that
  proof (induction ls)
    case (Cons l ls)
    have "(\<Sum>n\<leftarrow>ns. if fst l = n then snd l else 0) = snd l"
      using Cons.prems by (intro sum_list_indicator) auto
    with Cons show ?case by (simp add: sum_list_addf)
  qed simp
  let ?more = "filter (\<lambda>n. n \<notin> set (order b)) (remdups (map fst ls))"
  have "sum_list (map snd ls) = (\<Sum>n\<leftarrow>order b @ ?more. line_sum n ls)"
    using posted_ok_distinct [OF assms(1)] by (intro total) auto
  also have "(\<Sum>n\<leftarrow>?more. line_sum n ls) = 0" using assms(2) by (intro sum_list_zero_map) auto
  then have "(\<Sum>n\<leftarrow>order b @ ?more. line_sum n ls) = (\<Sum>n\<leftarrow>order b. line_sum n ls)" by simp
  finally show ?thesis by (simp add: order_def o_def)
qed

interpretation closes: closed_book closable accounts kind "\<lambda>b. closing" after_close
proof
  fix b :: posted_book assume ok: "closable b"
  show nil: "(\<Sum>a\<leftarrow>accounts b. closing a) = 0" by (rule closings_nil [OF closable_posted [OF ok]])
  obtain es where es: "close_entries b = Inr es"
    and out: "\<And>n. n \<notin> set (order b) \<Longrightarrow> line_sum n (clines es) = 0"
    and heads: "\<And>a. a \<in> set (accounts b) \<Longrightarrow> kind a \<in> set NIL_KINDS \<Longrightarrow> closing a + line_sum (aname a) (clines es) = 0"
    and rest: "\<And>a. a \<in> set (accounts b) \<Longrightarrow> is_bs (kind a) \<Longrightarrow> \<not> is_equity (kind a) \<Longrightarrow> line_sum (aname a) (clines es) = 0"
    by (rule closable_lines [OF ok]) blast
  have "(\<Sum>a\<leftarrow>accounts b. line_sum (aname a) (clines es)) = 0"
    using lines_in_order [OF closable_posted [OF ok] out] clines_total [OF close_entries_balanced [OF es]] by simp
  then show "(\<Sum>a\<leftarrow>accounts b. after_close b a) = 0" using nil by (simp add: after_close_def es sum_list_addf)
  fix a assume a: "a \<in> set (accounts b)"
  show "after_close b a = 0" if "kind a \<in> set NIL_KINDS" using heads [OF a that] by (simp add: after_close_def es)
  show "after_close b a = closing a" if "is_bs (kind a)" "\<not> is_equity (kind a)"
    using rest [OF a that] by (simp add: after_close_def es)
qed

text \<open>The dictionary that \<open>post_close_balances\<close> returns.\<close>

lemma closable_balances:
  assumes "closable b"
  shows "post_close_balances b = Inr (map (\<lambda>a. (aname a, after_close b a)) (accounts b))"
proof -
  obtain es where es: "close_entries b = Inr es"
    and out: "\<And>n. n \<notin> set (order b) \<Longrightarrow> line_sum n (clines es) = 0"
    and heads: "\<And>a. a \<in> set (accounts b) \<Longrightarrow> kind a \<in> set NIL_KINDS \<Longrightarrow> closing a + line_sum (aname a) (clines es) = 0"
    by (rule closable_lines [OF assms]) blast
  show ?thesis using post_close_ok [OF es out heads] by (simp add: after_close_def es)
qed

lemma closable_entries: "closable b \<Longrightarrow> \<exists>es. close_entries b = Inr es"
  by (meson closable_lines)

lemma closable_posts:
  assumes "closable b"
  obtains cps where "close_posts b n = Inr cps"
    "a \<in> set (accounts b) \<Longrightarrow> aname a = n \<Longrightarrow> closing a + (\<Sum>(no, nt, x, os)\<leftarrow>cps. x) = after_close b a"
proof -
  obtain es where es: "close_entries b = Inr es" using closable_entries [OF assms] by blast
  let ?f = "\<lambda>(no, nt, ls). [(no, nt, x, map fst (filter (\<lambda>(m, y). (y > 0) \<noteq> (x > 0)) ls)). (m, x) \<leftarrow> ls, m = n]"
  have one: "(\<Sum>(no, nt, x, os)\<leftarrow>[(no, nt, x, g x). (m, x) \<leftarrow> ls, m = n]. x) = line_sum n ls"
    for no nt g and ls :: "(string \<times> int) list" by (induction ls) auto
  have "(\<Sum>(no, nt, x, os)\<leftarrow>concat (map ?f es). x) = line_sum n (clines es)"
  proof (induction es)
    case (Cons e es)
    obtain no nt ls where e: "e = (no, nt, ls)" by (cases e)
    have "(\<Sum>(no, nt, x, os)\<leftarrow>?f (no, nt, ls). x) = line_sum n ls"
      using one [of no nt "\<lambda>x. map fst (filter (\<lambda>(m, y). (y > 0) \<noteq> (x > 0)) ls)" ls] by simp
    moreover have "line_sum n (clines (e # es)) = line_sum n ls + line_sum n (clines es)"
      by (simp add: clines_def e)
    ultimately show ?case using Cons by (simp add: e)
  qed (simp add: clines_def)
  then show thesis by (intro that [of "concat (map ?f es)"]) (simp_all add: close_posts_def es after_close_def)
qed

end
