(* ===== verification/Report_Ledgers.thy ===== *)
theory Report_Ledgers
  imports Markdown Close_Facts
begin

text \<open>
  The parts of the printed book that follow the accounts one by one: the standing notes at the foot
  of a report (\<open>foot_notes\<close>), the chart with the opening balances (\<open>sec_chart\<close>), an account's ledger
  (\<open>ledger_table\<close>, \<open>close_row\<close>, \<open>sec_ledgers\<close>) and a statement for a period (\<open>statement_table\<close>).  A
  section is the list of its Markdown lines, or the error of the assertion that failed.  The account
  a loop over \<open>b.order\<close> looks up is the account itself.
\<close>

section \<open>Standing notes\<close>

definition BUILD_LINE :: "string \<Rightarrow> string \<Rightarrow> string" where
  "BUILD_LINE what cost = (''The cost of '' @ what @ '', '' @ u_rupee @ cost @ '' to date, is charged to expenditure and is not shown as a thing owned.'')"

definition shows_things_owned :: "posted_book \<Rightarrow> date \<Rightarrow> bool" where
  "shows_things_owned b d = list_ex (\<lambda>a. kind a = Fixed \<and> bal_upto a d \<noteq> 0) (accounts b)"

definition shows_stakes :: "posted_book \<Rightarrow> date \<Rightarrow> nat" where
  "shows_stakes b d = length (filter (\<lambda>a. kind a = Stake \<and> bal_upto a d \<noteq> 0) (accounts b))"

text \<open>The cost of the building charged to expenditure up to a date, \<open>head\<close> being \<open>b.construction[0]\<close>.\<close>

definition built_to :: "posted_book \<Rightarrow> string \<Rightarrow> date \<Rightarrow> int" where
  "built_to b head d =
     sum_list [a. v \<leftarrow> vouchers b, vdate v \<le> d, (n, a) \<leftarrow> vlines v, n = head \<and> a > 0]"

definition foot_notes :: "posted_book \<Rightarrow> bool \<Rightarrow> bool \<Rightarrow> nat \<Rightarrow> date option \<Rightarrow> string list" where
  "foot_notes b things stock stakes when =
     (case (when, construction b) of
        (Some d, Some (head, what)) \<Rightarrow>
          if built_to b head d \<noteq> 0 then [BUILD_LINE what (fmt (built_to b head d)), []] else []
      | _ \<Rightarrow> [])
     @ (if stakes \<noteq> 0 then [if stakes = 1 then STAKE_LINE else STAKES_LINE, []] else [])
     @ (if things then [COST_LINE, []] else [])
     @ (if stock \<and> stock_line b then [STOCK_LINE, []] else [])"

definition result_word :: "posted_book \<Rightarrow> int \<Rightarrow> string" where
  "result_word b result =
     (case style b of
        Npo \<Rightarrow> if result \<ge> 0 then ''surplus'' else ''deficit''
      | Household \<Rightarrow> if result \<ge> 0 then ''saving'' else ''spent more than came in''
      | _ \<Rightarrow> if result \<ge> 0 then ''profit'' else ''loss'')"

definition has_drawings :: "posted_book \<Rightarrow> bool" where
  "has_drawings b = list_ex (\<lambda>a. kind a = Drawings) (accounts b)"

definition natural_line :: "ledger_account \<Rightarrow> string" where
  "natural_line a =
     (if kind a = Party then ''on the Dr side when they owe you, on the Cr side when you owe them''
      else if kind a = Link then ''on the Dr side when that book owes this one, on the Cr side when this book owes that one''
      else if kind a = Pcurrent then ''on the Cr side when the firm owes the partner, on the Dr side when the partner has taken more''
      else if kind a = Card \<or> kind a = CC then (''on the Cr side '' @ u_emdash @ '' what is owed to the bank'')
      else (''usually on the '' @ (natural (KIND (kind a))) @ '' side''))"

section \<open>The chart\<close>

definition debit_part :: "int \<Rightarrow> int" where
  "debit_part x = (if x > 0 then x else 0)"

definition credit_part :: "int \<Rightarrow> int" where
  "credit_part x = (if x < 0 then - x else 0)"

definition chart_rows :: "posted_book \<Rightarrow> string list list" where
  "chart_rows b =
     map (\<lambda>(i, a). [str_nat (int i), aname a, group a, label a, fmt (debit_part (opening_bal a)), fmt (credit_part (opening_bal a))])
       (zip [1..<Suc (length (accounts b))] (accounts b))"

definition chart_intro :: "posted_book \<Rightarrow> string" where
  "chart_intro b =
     (let nt = (if chart_note b \<noteq> [] then chart_note b
                else (''The '' @ (str_lower (own_word b)) @ '' opening is the balancing figure, so the Dr and Cr totals agree.''))
      in (''Every account used in FY 2025-26, with its balance on 01 Apr 2025 brought forward from last year. '' @
       nt @ '' Income and expense accounts start the year at zero.''))"

definition chart_heads :: "string list" where
  "chart_heads = [''#'', ''Account'', ''Type'', ''What it is'', (''Opening balance (Dr) '' @ u_rupee), (''Opening balance (Cr) '' @ u_rupee)]"

definition sec_chart :: "posted_book \<Rightarrow> error + string list" where
  "sec_chart b =
     (let tdr = (\<Sum>a\<leftarrow>accounts b. debit_part (opening_bal a));
          tcr = (\<Sum>a\<leftarrow>accounts b. credit_part (opening_bal a))
      in ebind (assert_that (tdr = tcr) ''opening totals'') (\<lambda>_.
         Inr ([''### 1. Accounts and opening balances'', [],
               head_line (bname b) ((''opening balances on '' @ (fdate FY_START))), [], chart_intro b, []]
              @ table chart_heads [AR, AL, AL, AL, AR, AR]
                  (chart_rows b @ [[[], bold ''Total of opening balances'', [], [], bold (fmt0 tdr), bold (fmt0 tcr)]])
              @ [[]]
              @ foot_notes b (shows_things_owned b (prev_day FY_START)) False 0 None)))"

section \<open>An account's ledger\<close>

type_synonym close_post = "string \<times> string \<times> int \<times> string list"

definition close_part :: "int \<Rightarrow> string list \<Rightarrow> string" where
  "close_part a os = (if a > 0 then ''To '' else ''By '') @ join_str '' / '' os"

text \<open>The seven columns of a ledger line.\<close>

definition ledger_line :: "string \<Rightarrow> string \<Rightarrow> string \<Rightarrow> string \<Rightarrow> string \<Rightarrow> int \<Rightarrow> string" where
  "ledger_line d no text a c nb = table_row [d, no, text, a, c, fmt0 \<bar>nb\<bar>, side_of nb]"

definition close_row :: "close_post \<Rightarrow> int \<Rightarrow> string \<times> int \<times> int \<times> int" where
  "close_row cp bl =
     (case cp of (no, nt, a, os) \<Rightarrow>
        (ledger_line (fdate FY_END) no (with_note (close_part a os) nt) (fmt (debit_part a)) (fmt (credit_part a)) (bl + a),
         bl + a, debit_part a, credit_part a))"

text \<open>The running state of a table: the lines so far, the balance, the totals of the two columns.\<close>

type_synonym run = "string list \<times> int \<times> int \<times> int"

definition entry_step :: "bool \<Rightarrow> run \<Rightarrow> ledger_row \<Rightarrow> run" where
  "entry_step narr st r =
     (case st of (out, bl, tdr, tcr) \<Rightarrow>
        let nb = bl + dr r - cr r;
            text = (if narr then with_note (part r) (narration (rvch r)) else part r)
        in (out @ [ledger_line (fdate (rdate r)) (rvid r) text (fmt (dr r)) (fmt (cr r)) nb], nb, tdr + dr r, tcr + cr r))"

definition close_step :: "run \<Rightarrow> close_post \<Rightarrow> run" where
  "close_step st cp =
     (case st of (out, bl, tdr, tcr) \<Rightarrow>
        (case close_row cp bl of (line, nb, cd, cc) \<Rightarrow> (out @ [line], nb, tdr + cd, tcr + cc)))"

definition ledger_heads :: "string \<times> string \<Rightarrow> string list" where
  "ledger_heads cs = [''Date'', ''No.'', ''Particulars'', fst cs, snd cs, (''Balance '' @ u_rupee), ''Side'']"

definition ledger_aligns :: "align list" where
  "ledger_aligns = [AL, AL, AL, AR, AR, AR, AC]"

text \<open>The close entries on an income or expense head, after its total: they leave nil.\<close>

definition nil_close_row :: "close_post \<Rightarrow> string" where
  "nil_close_row cp =
     (case cp of (no, nt, a, os) \<Rightarrow>
        table_row [fdate FY_END, no, with_note (close_part a os) nt, fmt (debit_part a), fmt (credit_part a), fmt0 0, u_emdash])"

text \<open>\<open>labels\<close> are the words for the opening, the closing and the balance brought down; the values
  returned are the lines, the opening, the column totals and the closing balance.\<close>

definition ledger_table ::
    "posted_book \<Rightarrow> ledger_account \<Rightarrow> ledger_row list \<Rightarrow> date \<Rightarrow> date \<Rightarrow> string \<times> string \<times> string \<Rightarrow> bool \<Rightarrow> string \<Rightarrow> bool \<Rightarrow> bool
       \<Rightarrow> error + (string list \<times> int \<times> int \<times> int \<times> int)" where
  "ledger_table b acct rs s e labels show_bd total_label narr close =
     (case labels of (bf_label, cd_label, bd_label) \<Rightarrow>
      let bs = is_bs (kind acct);
          opening = (if bs then bal_upto acct (prev_day s) else 0);
          out0 = table (ledger_heads (cols acct)) ledger_aligns []
                 @ (if bs then [ledger_line (fdate s) [] bf_label (fmt (debit_part opening)) (fmt (credit_part opening)) opening] else []);
          st = foldl (entry_step narr) (out0, opening, 0, 0) rs
      in ebind (if close then close_posts b (aname acct) else Inr []) (\<lambda>cps.
         if bs then
           (case foldl close_step st cps of (out, cl, tdr, tcr) \<Rightarrow>
            let cd_dr = credit_part cl; cd_cr = debit_part cl;
                total = tdr + debit_part opening + cd_dr; total2 = tcr + credit_part opening + cd_cr
            in ebind (assert_that (total = total2) (aname acct)) (\<lambda>_.
               Inr (out @ [table_row [fdate e, [], cd_label, fmt cd_dr, fmt cd_cr, u_emdash, u_emdash],
                           table_row [[], [], bold ''Total'', bold (fmt0 total), bold (fmt0 total2), [], []]]
                    @ (if show_bd then [ledger_line (fdate (next_day e)) [] bd_label (fmt (debit_part cl)) (fmt (credit_part cl)) cl] else []),
                    opening, tdr, tcr, cl)))
         else
           (case st of (out, cl, tdr, tcr) \<Rightarrow>
            Inr (out @ [table_row [[], [], bold total_label, bold (fmt tdr), bold (fmt tcr), bold (fmt0 \<bar>cl\<bar>), bold (side_of cl)]]
                 @ map nil_close_row cps,
                 opening, tdr, tcr, cl))))"

definition ledgers_intro :: "posted_book \<Rightarrow> string" where
  "ledgers_intro b =
     (''One account after another: date, entry number, the other account (*To '' @ u_hellip @ ''* on the Dr side, *By '' @
       u_hellip @ ''* on the Cr side) with the entry's note in small type, the amount on its side, the running balance and its side. Accounts that carry a balance open with *Opening balance b/f* and end *Closing balance c/d '' @
       u_middot @ '' Total '' @ u_middot @ '' Opening balance b/d*, the opening and closing balances standing in the amount column of their side so that each column adds up to the Total; income and expense accounts end with their total for the year. The last rows of the heads'' @
       (if has_drawings b then '', the drawings'' else []) @ '' and the own-money accounts are the year-close entries (numbers ending Y1, Y2 '' @
       u_hellip @ '') that the book makes itself on '' @ (fdate FY_END) @ '' '' @ u_emdash @ '' they are listed in section 4.'')"

definition year_labels :: "string \<times> string \<times> string" where
  "year_labels = (''Opening balance b/f'', ''Closing balance c/d'', ''Opening balance b/d (FY 2026-27)'')"

definition year_ledger :: "posted_book \<Rightarrow> ledger_account \<Rightarrow> error + (string list \<times> int \<times> int \<times> int \<times> int)" where
  "year_ledger b a = ledger_table b a (rows a) FY_START FY_END year_labels True ''Total for the year'' True True"

definition account_section :: "posted_book \<Rightarrow> ledger_account \<Rightarrow> error + string list" where
  "account_section b a =
     (if rows a = [] \<and> opening_bal a = 0
      then Inr [''#### '' @ aname a, [], ''*No entries in FY 2025-26 and no opening balance.*'', []]
      else ebind (year_ledger b a) (\<lambda>(ls, _). Inr ([''#### '' @ aname a, []] @ ls @ [[]])))"

definition sec_ledgers :: "posted_book \<Rightarrow> error + string list" where
  "sec_ledgers b =
     ebind (emap (account_section b) (accounts b)) (\<lambda>lss.
       Inr ([''### 2. Every account (ledger)'', [], head_line (bname b) (((fdate FY_START) @ '' to '' @ (fdate FY_END))), [],
             ledgers_intro b, []]
            @ concat lss
            @ foot_notes b (list_ex (\<lambda>a. kind a = Fixed \<and> (rows a \<noteq> [] \<or> opening_bal a \<noteq> 0)) (accounts b)) False 0 None))"

section \<open>A statement for a period\<close>

definition running_words :: "ledger_account \<Rightarrow> int \<Rightarrow> string" where
  "running_words acct bl =
     (if kind acct \<noteq> Partner \<or> bl = 0 \<or> group acct \<notin> {''Sub-family'', ''Joint family''} then []
      else if group acct = ''Sub-family'' then (if bl > 0 then ''against the household'' else ''in the household's favour'')
      else if bl > 0 then ''against the family'' else ''in the family's favour'')"

definition statement_label :: "ledger_account \<Rightarrow> bool \<Rightarrow> date \<Rightarrow> int \<Rightarrow> string" where
  "statement_label acct sent e bl =
     (if sent \<and> bl \<noteq> 0 then (''Closing balance on '' @ (fdate e) @ '' '' @ u_emdash @ '' '' @ (if bl > 0 then ''Balance due from you'' else ''Balance due to you''))
      else if kind acct = Party \<and> bl \<noteq> 0 then (''Closing balance on '' @ (fdate e) @ '' '' @ u_emdash @ '' '' @ (if bl > 0 then ''You will get'' else ''You will give''))
      else if running_words acct bl \<noteq> [] then (''Closing balance on '' @ (fdate e) @ '' '' @ u_emdash @ '' '' @ (running_words acct bl))
      else (''Closing balance on '' @ (fdate e)))"

definition statement_table ::
    "ledger_account \<Rightarrow> ledger_row list \<Rightarrow> date \<Rightarrow> date \<Rightarrow> close_post list \<Rightarrow> bool \<Rightarrow> error + string list" where
  "statement_table acct rs s e closes sent =
     (let opening = (if is_bs (kind acct) then bal_upto acct (prev_day s) else 0);
          out0 = table (ledger_heads (if sent then ((''Naam (Dr) '' @ u_rupee), (''Jama (Cr) '' @ u_rupee)) else cols acct)) ledger_aligns []
                 @ [ledger_line (fdate s) [] ((''Opening balance on '' @ (fdate s))) u_emdash u_emdash opening]
      in case foldl close_step (foldl (entry_step True) (out0, opening, 0, 0) rs) closes of (out, bl, tdr, tcr) \<Rightarrow>
         ebind (assert_that (bl = opening + tdr - tcr) ''statement'') (\<lambda>_.
           Inr (out @ [table_row [[], [], bold ''Total for the period'', bold (fmt0 tdr), bold (fmt0 tcr), [], []],
                       table_row [fdate e, [], bold (statement_label acct sent e bl), [], [], bold (fmt0 \<bar>bl\<bar>), bold (side_of bl)]])))"

section \<open>The sums of a ledger\<close>

lemma debit_credit [simp]:
  "debit_part x - credit_part x = x" "0 \<le> debit_part x" "0 \<le> credit_part x"
  by (simp_all add: debit_part_def credit_part_def)

lemma side_sums: "debit_part x + credit_part y = credit_part x + debit_part y \<longleftrightarrow> x = (y::int)"
  by (auto simp: debit_part_def credit_part_def)

lemma sum_debit_credit: "(\<Sum>x\<leftarrow>xs. debit_part (f x)) - (\<Sum>x\<leftarrow>xs. credit_part (f x)) = (\<Sum>x\<leftarrow>xs. f x)"
  by (induction xs) (simp_all add: algebra_simps debit_part_def credit_part_def)

lemma entry_fold:
  "\<exists>ls. foldl (entry_step narr) (out, bl, d, c) rs
     = (out @ ls, bl + (\<Sum>r\<leftarrow>rs. dr r - cr r), d + (\<Sum>r\<leftarrow>rs. dr r), c + (\<Sum>r\<leftarrow>rs. cr r)) \<and> length ls = length rs"
proof (induction rs arbitrary: out bl d c)
  case (Cons r rs)
  obtain l where l: "entry_step narr (out, bl, d, c) r = (out @ [l], bl + dr r - cr r, d + dr r, c + cr r)"
    by (simp add: entry_step_def Let_def)
  from Cons [of "out @ [l]" "bl + dr r - cr r" "d + dr r" "c + cr r"] obtain ls where
    "foldl (entry_step narr) (out @ [l], bl + dr r - cr r, d + dr r, c + cr r) rs
      = ((out @ [l]) @ ls, bl + dr r - cr r + (\<Sum>r\<leftarrow>rs. dr r - cr r), d + dr r + (\<Sum>r\<leftarrow>rs. dr r), c + cr r + (\<Sum>r\<leftarrow>rs. cr r))"
    "length ls = length rs" by blast
  then show ?case by (intro exI [of _ "l # ls"]) (simp add: l algebra_simps)
qed simp

lemma close_fold:
  "\<exists>ls. foldl close_step (out, bl, d, c) cps
     = (out @ ls, bl + (\<Sum>(no, nt, x, os)\<leftarrow>cps. x), d + (\<Sum>(no, nt, x, os)\<leftarrow>cps. debit_part x), c + (\<Sum>(no, nt, x, os)\<leftarrow>cps. credit_part x))
       \<and> length ls = length cps"
proof (induction cps arbitrary: out bl d c)
  case (Cons cp cps)
  obtain no nt x os where cp: "cp = (no, nt, x, os)" by (cases cp)
  obtain l where l: "close_step (out, bl, d, c) (no, nt, x, os) = (out @ [l], bl + x, d + debit_part x, c + credit_part x)"
    by (simp add: close_step_def close_row_def)
  from Cons [of "out @ [l]" "bl + x" "d + debit_part x" "c + credit_part x"] obtain ls where
    "foldl close_step (out @ [l], bl + x, d + debit_part x, c + credit_part x) cps
      = ((out @ [l]) @ ls, bl + x + (\<Sum>(no, nt, x, os)\<leftarrow>cps. x), d + debit_part x + (\<Sum>(no, nt, x, os)\<leftarrow>cps. debit_part x),
         c + credit_part x + (\<Sum>(no, nt, x, os)\<leftarrow>cps. credit_part x))" "length ls = length cps" by blast
  then show ?case by (intro exI [of _ "l # ls"]) (simp add: l cp algebra_simps)
qed simp

lemma sum_posts: "(\<Sum>(no, nt, x, os)\<leftarrow>cps. debit_part x) - (\<Sum>(no, nt, x, os)\<leftarrow>cps. credit_part x) = (\<Sum>(no, nt, x, os)\<leftarrow>cps. x)"
  using sum_debit_credit [of "\<lambda>(no, nt, x, os). x" cps] by (simp add: split_def)

lemma rows_diff: "(\<Sum>r\<leftarrow>rs. dr r) - (\<Sum>r\<leftarrow>rs. cr r) = (\<Sum>r\<leftarrow>rs. dr r - cr r :: int)"
  by (induction rs) (simp_all add: algebra_simps)

text \<open>A ledger never fails: its columns agree because the closing balance is the opening with the rows.\<close>

lemma ledger_table_ok:
  assumes close: "close \<Longrightarrow> close_posts b (aname a) = Inr cps" and ncl: "\<not> close \<Longrightarrow> cps = []"
  shows "\<exists>ls tdr tcr cl. ledger_table b a rs s e labels sb tlab narr close
      = Inr (ls, (if is_bs (kind a) then bal_upto a (prev_day s) else 0), tdr, tcr, cl)
    \<and> cl = (if is_bs (kind a) then bal_upto a (prev_day s) else 0) + (\<Sum>r\<leftarrow>rs. dr r - cr r)
           + (if is_bs (kind a) then (\<Sum>(no, nt, x, os)\<leftarrow>cps. x) else 0)
    \<and> cl = (if is_bs (kind a) then bal_upto a (prev_day s) else 0) + tdr - tcr"
proof -
  obtain l1 l2 l3 where labels: "labels = (l1, l2, l3)" by (cases labels)
  let ?op = "if is_bs (kind a) then bal_upto a (prev_day s) else 0"
  let ?out = "table (ledger_heads (cols a)) ledger_aligns []
      @ (if is_bs (kind a) then [ledger_line (fdate s) [] l1 (fmt (debit_part ?op)) (fmt (credit_part ?op)) ?op] else [])"
  let ?d = "\<Sum>r\<leftarrow>rs. dr r" and ?c = "\<Sum>r\<leftarrow>rs. cr r" and ?n = "\<Sum>r\<leftarrow>rs. dr r - cr r"
  obtain ls where ls: "foldl (entry_step narr) (?out, ?op, 0, 0) rs = (?out @ ls, ?op + ?n, ?d, ?c)"
    using entry_fold [of narr ?out ?op 0 0 rs] by auto
  obtain ms where ms: "foldl close_step (?out @ ls, ?op + ?n, ?d, ?c) cps
      = ((?out @ ls) @ ms, ?op + ?n + (\<Sum>(no, nt, x, os)\<leftarrow>cps. x), ?d + (\<Sum>(no, nt, x, os)\<leftarrow>cps. debit_part x),
         ?c + (\<Sum>(no, nt, x, os)\<leftarrow>cps. credit_part x))"
    using close_fold [of "?out @ ls" "?op + ?n" ?d ?c cps] by blast
  have posts: "(if close then close_posts b (aname a) else Inr []) = Inr cps" using assms by simp
  have agree: "t + debit_part x + credit_part y = u + credit_part x + debit_part y \<longleftrightarrow> y = x + t - u" for t u x y
    by (auto simp: debit_part_def credit_part_def)
  show ?thesis
    using ls ms sum_posts [of cps] rows_diff [of rs]
    by (cases "is_bs (kind a)") (auto simp: ledger_table_def labels posts Let_def agree assert_that_def)
qed

section \<open>The rows of a posted account\<close>

lemma rows_year:
  assumes "posted_ok b" "a \<in> set (accounts b)" "r \<in> set (rows a)"
  shows "FY_START \<le> rdate r \<and> rdate r \<le> FY_END"
proof -
  have "list_all2 row_matches (rows a) (lines_on (aname a) (vouchers b))"
    using posted_ok_ledger [OF assms(1,2)] by (simp add: ledger_ok_def)
  then obtain v l where "row_matches r (v, l)" "(v, l) \<in> set (lines_on (aname a) (vouchers b))"
    using assms(3) by (metis in_set_conv_nth list_all2_conv_all_nth surj_pair)
  then have "rdate r = vdate v" "v \<in> set (vouchers b)" by (auto simp: row_matches_def lines_on_def)
  then show ?thesis using assms(1) by (auto simp: posted_ok_def list_all_iff)
qed

lemma before_year: "prev_day FY_START < FY_START"
  by (simp add: FY_START_def prev_day_def less_date_def days_in_month_def)

lemma bal_upto_before:
  assumes "posted_ok b" "a \<in> set (accounts b)" "d < FY_START"
  shows "bal_upto a d = opening_bal a"
proof -
  have "\<not> rdate r \<le> d" if "r \<in> set (rows a)" for r
    using rows_year [OF assms(1,2) that] assms(3) by auto
  then have "(\<Sum>r\<leftarrow>rows a. if rdate r \<le> d then dr r - cr r else 0) = 0" by (intro sum_list_zero_map) auto
  then show ?thesis by (simp add: bal_upto_def)
qed

lemma rows_total:
  assumes "posted_ok b" "a \<in> set (accounts b)"
  shows "(\<Sum>r\<leftarrow>rows a. dr r - cr r) = closing a - opening_bal a"
proof -
  have "(\<Sum>r\<leftarrow>rows a. if rdate r \<le> FY_END then dr r - cr r else 0) = (\<Sum>r\<leftarrow>rows a. dr r - cr r)"
    using rows_year [OF assms] by (intro arg_cong [where f = sum_list] map_cong) auto
  then show ?thesis using closing_year_end [OF assms] by (simp add: bal_upto_def)
qed

lemma year_ledger_ok:
  assumes "closable b" "a \<in> set (accounts b)"
  shows "\<exists>ls tdr tcr. year_ledger b a = Inr (ls, (if is_bs (kind a) then opening_bal a else 0), tdr, tcr,
      (if is_bs (kind a) then after_close b a else closing a - opening_bal a))
    \<and> (if is_bs (kind a) then after_close b a else closing a - opening_bal a)
      = (if is_bs (kind a) then opening_bal a else 0) + tdr - tcr"
proof -
  note ok = closable_posted [OF assms(1)]
  obtain cps where cps: "close_posts b (aname a) = Inr cps"
    "closing a + (\<Sum>(no, nt, x, os)\<leftarrow>cps. x) = after_close b a"
    using closable_posts [OF assms(1), of "aname a" a] assms(2) by metis
  show ?thesis
    using ledger_table_ok [of True b a cps "rows a" FY_START FY_END year_labels True "''Total for the year''" True] cps
      bal_upto_before [OF ok assms(2) before_year] rows_total [OF ok assms(2)]
    by (auto simp: year_ledger_def)
qed

section \<open>The sections never fail\<close>

lemma sec_chart_ok: "posted_ok b \<Longrightarrow> is_ok (sec_chart b)"
  using sum_debit_credit [of opening_bal "accounts b"]
  by (simp add: sec_chart_def posted_ok_def Let_def assert_that_def)

lemma sec_ledgers_ok:
  assumes "closable b"
  shows "is_ok (sec_ledgers b)"
proof -
  have "is_ok (account_section b a)" if "a \<in> set (accounts b)" for a
    using year_ledger_ok [OF assms that] by (auto simp: account_section_def)
  then have "is_ok (emap (account_section b) (accounts b))" by (simp add: emap_ok)
  then show ?thesis by (auto simp: sec_ledgers_def is_ok_iff)
qed

lemma statement_ok: "is_ok (statement_table a rs s e cps sent)"
proof -
  let ?op = "if is_bs (kind a) then bal_upto a (prev_day s) else 0"
  let ?out = "table (ledger_heads (if sent then ((''Naam (Dr) '' @ u_rupee), (''Jama (Cr) '' @ u_rupee)) else cols a)) ledger_aligns []
                 @ [ledger_line (fdate s) [] ((''Opening balance on '' @ (fdate s))) u_emdash u_emdash ?op]"
  let ?d = "\<Sum>r\<leftarrow>rs. dr r" and ?c = "\<Sum>r\<leftarrow>rs. cr r" and ?n = "\<Sum>r\<leftarrow>rs. dr r - cr r"
  obtain ls where ls: "foldl (entry_step True) (?out, ?op, 0, 0) rs = (?out @ ls, ?op + ?n, ?d, ?c)"
    using entry_fold [of True ?out ?op 0 0 rs] by auto
  obtain ms where "foldl close_step (?out @ ls, ?op + ?n, ?d, ?c) cps
      = ((?out @ ls) @ ms, ?op + ?n + (\<Sum>(no, nt, x, os)\<leftarrow>cps. x), ?d + (\<Sum>(no, nt, x, os)\<leftarrow>cps. debit_part x),
         ?c + (\<Sum>(no, nt, x, os)\<leftarrow>cps. credit_part x))"
    using close_fold [of "?out @ ls" "?op + ?n" ?d ?c cps] by blast
  with ls show ?thesis
    using sum_posts [of cps] rows_diff [of rs]
    unfolding statement_table_def Let_def by (simp add: assert_that_def algebra_simps)
qed

section \<open>The rows of a printed ledger, as cells\<close>

definition line_cells :: "string \<Rightarrow> string \<Rightarrow> string \<Rightarrow> string \<Rightarrow> string \<Rightarrow> int \<Rightarrow> string list" where
  "line_cells d no text a c nb = [d, no, text, a, c, fmt0 \<bar>nb\<bar>, side_of nb]"

fun entry_cells :: "int \<Rightarrow> ledger_row list \<Rightarrow> string list list" where
  "entry_cells bl [] = []"
| "entry_cells bl (r # rs) =
     (let nb = bl + dr r - cr r
      in line_cells (fdate (rdate r)) (rvid r) (with_note (part r) (narration (rvch r))) (fmt (dr r)) (fmt (cr r)) nb
           # entry_cells nb rs)"

fun close_cells :: "int \<Rightarrow> close_post list \<Rightarrow> string list list" where
  "close_cells bl [] = []"
| "close_cells bl ((no, nt, a, os) # cps) =
     line_cells (fdate FY_END) no (with_note (close_part a os) nt) (fmt (debit_part a)) (fmt (credit_part a)) (bl + a)
       # close_cells (bl + a) cps"

fun nil_cells :: "close_post list \<Rightarrow> string list list" where
  "nil_cells [] = []"
| "nil_cells ((no, nt, a, os) # cps) =
     [fdate FY_END, no, with_note (close_part a os) nt, fmt (debit_part a), fmt (credit_part a), fmt0 0, u_emdash] # nil_cells cps"

definition opening_cells :: "int \<Rightarrow> string list" where
  "opening_cells op = line_cells (fdate FY_START) [] ''Opening balance b/f'' (fmt (debit_part op)) (fmt (credit_part op)) op"

definition foot_cells :: "int \<Rightarrow> int \<Rightarrow> int \<Rightarrow> string list list" where
  "foot_cells cl t1 t2 =
     [[fdate FY_END, [], ''Closing balance c/d'', fmt (credit_part cl), fmt (debit_part cl), u_emdash, u_emdash],
      [[], [], bold ''Total'', bold (fmt0 t1), bold (fmt0 t2), [], []],
      line_cells (fdate (next_day FY_END)) [] ''Opening balance b/d (FY 2026-27)'' (fmt (debit_part cl)) (fmt (credit_part cl)) cl]"

definition year_cells :: "int \<Rightarrow> int \<Rightarrow> int \<Rightarrow> string list" where
  "year_cells cl tdr tcr =
     [[], [], bold ''Total for the year'', bold (fmt tdr), bold (fmt tcr), bold (fmt0 \<bar>cl\<bar>), bold (side_of cl)]"

lemma entry_fold_cells:
  "foldl (entry_step True) (out, bl, d, c) rs
     = (out @ map table_row (entry_cells bl rs), bl + (\<Sum>r\<leftarrow>rs. dr r - cr r), d + (\<Sum>r\<leftarrow>rs. dr r), c + (\<Sum>r\<leftarrow>rs. cr r))"
  by (induction rs arbitrary: out bl d c)
    (simp_all add: entry_step_def Let_def ledger_line_def line_cells_def algebra_simps)

lemma close_fold_cells:
  "foldl close_step (out, bl, d, c) cps
     = (out @ map table_row (close_cells bl cps), bl + (\<Sum>(no, nt, x, os)\<leftarrow>cps. x),
        d + (\<Sum>(no, nt, x, os)\<leftarrow>cps. debit_part x), c + (\<Sum>(no, nt, x, os)\<leftarrow>cps. credit_part x))"
proof (induction cps arbitrary: out bl d c)
  case (Cons cp cps)
  then show ?case
    by (cases cp) (simp add: close_step_def close_row_def ledger_line_def line_cells_def algebra_simps)
qed simp

lemma nil_rows_cells: "map nil_close_row cps = map table_row (nil_cells cps)"
  by (induction cps rule: nil_cells.induct) (simp_all add: nil_close_row_def)

definition ledger_cells :: "posted_book \<Rightarrow> ledger_account \<Rightarrow> close_post list \<Rightarrow> string list list" where
  "ledger_cells b a cps =
     (if is_bs (kind a)
      then [opening_cells (opening_bal a)] @ entry_cells (opening_bal a) (rows a) @ close_cells (closing a) cps
           @ foot_cells (after_close b a)
               ((\<Sum>r\<leftarrow>rows a. dr r) + (\<Sum>(no, nt, x, os)\<leftarrow>cps. debit_part x) + debit_part (opening_bal a) + credit_part (after_close b a))
               ((\<Sum>r\<leftarrow>rows a. cr r) + (\<Sum>(no, nt, x, os)\<leftarrow>cps. credit_part x) + credit_part (opening_bal a) + debit_part (after_close b a))
      else entry_cells 0 (rows a) @ [year_cells (closing a) (\<Sum>r\<leftarrow>rows a. dr r) (\<Sum>r\<leftarrow>rows a. cr r)] @ nil_cells cps)"

lemma year_ledger_cells:
  assumes "closable b" "a \<in> set (accounts b)" "close_posts b (aname a) = Inr cps" "is_bs (kind a) \<or> opening_bal a = 0"
  shows "\<exists>op tdr tcr cl. year_ledger b a = Inr (table (ledger_heads (cols a)) ledger_aligns (ledger_cells b a cps), op, tdr, tcr, cl)"
proof -
  note ok = closable_posted [OF assms(1)]
  have after: "after_close b a = closing a + (\<Sum>(no, nt, x, os)\<leftarrow>cps. x)"
    using closable_posts [OF assms(1), of "aname a" a] assms(2,3) by (metis sum.inject(2))
  have tot: "(\<Sum>r\<leftarrow>rows a. dr r - cr r) = closing a - opening_bal a" by (rule rows_total [OF ok assms(2)])
  have op: "is_bs (kind a) \<Longrightarrow> bal_upto a (prev_day FY_START) = opening_bal a"
    by (rule bal_upto_before [OF ok assms(2) before_year])
  have d: "debit_part x = credit_part x + x" for x :: int by (simp add: debit_part_def credit_part_def)
  show ?thesis
  proof (cases "is_bs (kind a)")
    case True
    then show ?thesis
      using after tot op sum_posts [of cps] rows_diff [of "rows a"]
      by (simp add: d year_ledger_def ledger_table_def year_labels_def entry_fold_cells close_fold_cells assms(3) assert_that_def Let_def
          ledger_cells_def table_def opening_cells_def foot_cells_def ledger_line_def line_cells_def algebra_simps)
  next
    case False
    with assms(4) show ?thesis
      using tot by (simp add: year_ledger_def ledger_table_def year_labels_def entry_fold_cells assms(3) Let_def
          ledger_cells_def table_def year_cells_def nil_rows_cells)
  qed
qed

text \<open>The same rows from what is posted: an entry with its running balance, a year-close row with the balance it
  leaves.\<close>

definition entry_line :: "ledger_row \<Rightarrow> string list" where
  "entry_line r =
     line_cells (fdate (rdate r)) (rvid r) (with_note (part r) (narration (rvch r))) (fmt (dr r)) (fmt (cr r)) (rbal r)"

definition year_close_line :: "close_post \<Rightarrow> int \<Rightarrow> string list" where
  "year_close_line cp bl =
     (case cp of (no, nt, x, os) \<Rightarrow>
        line_cells (fdate FY_END) no (with_note (close_part x os) nt) (fmt (max x 0)) (fmt (max (- x) 0)) bl)"

lemma parts_are_max: "debit_part x = max x 0" "credit_part x = max (- x) 0"
  by (simp_all add: debit_part_def credit_part_def)

lemma entry_cells_lines:
  "map rbal rs = running bl (map (\<lambda>r. dr r - cr r) rs) \<Longrightarrow> entry_cells bl rs = map entry_line rs"
proof (induction rs arbitrary: bl)
  case (Cons r rs)
  then have "bl + dr r - cr r = rbal r" by simp
  with Cons show ?case by (simp add: entry_line_def algebra_simps)
qed simp

lemma close_cells_lines:
  "close_cells bl cps = map2 year_close_line cps (running bl (map (\<lambda>(no, nt, x, os). x) cps))"
  by (induction bl cps rule: close_cells.induct) (simp_all add: year_close_line_def parts_are_max)

lemma rows_running:
  assumes "posted_ok b" "a \<in> set (accounts b)"
  shows "map rbal (rows a) = running (opening_bal a) (map (\<lambda>r. dr r - cr r) (rows a))"
proof -
  have "map snd (account_lines b (aname a)) = map (\<lambda>r. dr r - cr r) (rows a)"
    unfolding rows_account_lines(1) [OF assms, symmetric] by simp
  then show ?thesis using rows_account_lines(2) [OF assms] by simp
qed

lemma emap_concat: "emap f xs = Inr yss \<Longrightarrow> x \<in> set xs \<Longrightarrow> f x = Inr ys \<Longrightarrow> \<exists>u v. concat yss = u @ ys @ v"
proof (induction xs arbitrary: yss)
  case (Cons z xs)
  then obtain zs zss where z: "f z = Inr zs" "emap f xs = Inr zss" "yss = zs # zss" by (auto simp: ebind_Inr)
  show ?case
  proof (cases "x = z")
    case True
    with z Cons.prems(3) have "concat yss = [] @ ys @ concat zss" by simp
    then show ?thesis by blast
  next
    case False
    with Cons z obtain u v where "concat zss = u @ ys @ v" by auto
    then show ?thesis by (intro exI [of _ "zs @ u"] exI [of _ v]) (simp add: z)
  qed
qed simp

lemma sec_ledgers_has:
  assumes "closable b" "a \<in> set (accounts b)" "account_section b a = Inr ls"
  shows "\<exists>above below. sec_ledgers b = Inr (above @ ls @ below)"
proof -
  obtain lss where lss: "emap (account_section b) (accounts b) = Inr lss"
    using sec_ledgers_ok [OF assms(1)] by (auto simp: sec_ledgers_def is_ok_iff ebind_Inr)
  from emap_concat [OF this assms(2,3)] obtain u v where "concat lss = u @ ls @ v" by blast
  moreover have "\<exists>h t. sec_ledgers b = Inr (h @ concat lss @ t)"
    unfolding sec_ledgers_def lss ebind_def sum.case by (intro exI) (rule refl)
  ultimately obtain h t where "sec_ledgers b = Inr (h @ (u @ ls @ v) @ t)" by metis
  then have "sec_ledgers b = Inr ((h @ u) @ ls @ v @ t)" by simp
  then show ?thesis by blast
qed

lemma nil_cells_lines:
  "nil_cells cps
     = map (\<lambda>(no, nt, y, os). [fdate FY_END, no, with_note (close_part y os) nt, fmt (max y 0), fmt (max (- y) 0), fmt0 0, u_emdash]) cps"
  by (induction cps rule: nil_cells.induct) (simp_all add: parts_are_max)

lemma columns_agree:
  assumes "posted_ok b" "a \<in> set (accounts b)" "x = closing a + (\<Sum>(no, nt, y, os)\<leftarrow>cps. y)"
  shows "(\<Sum>r\<leftarrow>rows a. cr r) + (\<Sum>(no, nt, y, os)\<leftarrow>cps. credit_part y) + credit_part (opening_bal a) + debit_part x
     = (\<Sum>r\<leftarrow>rows a. dr r) + (\<Sum>(no, nt, y, os)\<leftarrow>cps. debit_part y) + debit_part (opening_bal a) + credit_part x"
  using rows_total [OF assms(1,2)] rows_diff [of "rows a"] sum_posts [of cps] debit_credit(1) [of x] debit_credit(1) [of "opening_bal a"]
    assms(3) by linarith

lemma ledger_cells_lines:
  fixes b :: posted_book
  defines "x a \<equiv> after_close b a"
  defines "t a cps \<equiv> max (opening_bal a) 0 + (\<Sum>r\<leftarrow>rows a. dr r) + (\<Sum>(no, nt, y, os)\<leftarrow>cps. max y 0) + max (- x a) 0"
  assumes "posted_ok b" "a \<in> set (accounts b)" "is_bs (kind a) \<or> opening_bal a = 0"
    and "x a = closing a + (\<Sum>(no, nt, y, os)\<leftarrow>cps. y)"
  shows "ledger_cells b a cps =
             (if is_bs (kind a)
              then [line_cells (fdate FY_START) [] ''Opening balance b/f'' (fmt (max (opening_bal a) 0)) (fmt (max (- opening_bal a) 0)) (opening_bal a)]
                 @ map entry_line (rows a)
                 @ map2 year_close_line cps (running (closing a) (map (\<lambda>(no, nt, y, os). y) cps))
                 @ [[fdate FY_END, [], ''Closing balance c/d'', fmt (max (- x a) 0), fmt (max (x a) 0), u_emdash, u_emdash],
                    [[], [], bold ''Total'', bold (fmt0 (t a cps)), bold (fmt0 (t a cps)), [], []],
                    line_cells (fdate (next_day FY_END)) [] ''Opening balance b/d (FY 2026-27)'' (fmt (max (x a) 0)) (fmt (max (- x a) 0)) (x a)]
              else map entry_line (rows a)
                 @ [[[], [], bold ''Total for the year'', bold (fmt (\<Sum>r\<leftarrow>rows a. dr r)), bold (fmt (\<Sum>r\<leftarrow>rows a. cr r)),
                     bold (fmt0 \<bar>closing a\<bar>), bold (side_of (closing a))]]
                 @ map (\<lambda>(no, nt, y, os). [fdate FY_END, no, with_note (close_part y os) nt, fmt (max y 0), fmt (max (- y) 0), fmt0 0, u_emdash]) cps)"
proof (cases "is_bs (kind a)")
  case True
  then show ?thesis
    using columns_agree [OF assms(3,4,6)] entry_cells_lines [OF rows_running [OF assms(3,4)]]
    by (simp add: ledger_cells_def opening_cells_def foot_cells_def close_cells_lines parts_are_max x_def t_def add_ac)
next
  case False
  then show ?thesis
    using assms(5) entry_cells_lines [OF rows_running [OF assms(3,4)]]
    by (simp add: ledger_cells_def year_cells_def nil_cells_lines)
qed

text \<open>C8. The ledger of an account as the book prints it, cell by cell.  An account that carries a
  balance: the opening balance brought forward on its side; every entry with its running balance; every row of the
  year close with the balance it leaves; the closing balance \<open>x\<close> carried down in the column of the other
  side; one total for both columns; and \<open>x\<close> brought down on its side, where \<open>x\<close> is the balance the year
  close leaves the account.  An income or expense head, which opens at nil: its entries, its total for the
  year, and the year-close rows that leave it nil.\<close>

theorem ledger_carries_the_close:
  assumes "book_wf b0" "finalize b0 = Inr b" "closable b" "a \<in> set (accounts b)" "rows a \<noteq> [] \<or> opening_bal a \<noteq> 0"
    and "is_bs (kind a) \<or> opening_bal a = 0"
  shows "\<exists>above below cps bs x t. close_posts b (aname a) = Inr cps \<and> post_close_balances b = Inr bs \<and> map_of bs (aname a) = Some x
     \<and> x = closing a + (\<Sum>(no, nt, y, os)\<leftarrow>cps. y)
     \<and> t = max (opening_bal a) 0 + (\<Sum>r\<leftarrow>rows a. dr r) + (\<Sum>(no, nt, y, os)\<leftarrow>cps. max y 0) + max (- x) 0
     \<and> sec_ledgers b = Inr (above @ [''#### '' @ aname a, []]
         @ table (ledger_heads (cols a)) ledger_aligns
             (if is_bs (kind a)
              then [line_cells (fdate FY_START) [] ''Opening balance b/f'' (fmt (max (opening_bal a) 0)) (fmt (max (- opening_bal a) 0)) (opening_bal a)]
                 @ map entry_line (rows a)
                 @ map2 year_close_line cps (running (closing a) (map (\<lambda>(no, nt, y, os). y) cps))
                 @ [[fdate FY_END, [], ''Closing balance c/d'', fmt (max (- x) 0), fmt (max x 0), u_emdash, u_emdash],
                    [[], [], bold ''Total'', bold (fmt0 t), bold (fmt0 t), [], []],
                    line_cells (fdate (next_day FY_END)) [] ''Opening balance b/d (FY 2026-27)'' (fmt (max x 0)) (fmt (max (- x) 0)) x]
              else map entry_line (rows a)
                 @ [[[], [], bold ''Total for the year'', bold (fmt (\<Sum>r\<leftarrow>rows a. dr r)), bold (fmt (\<Sum>r\<leftarrow>rows a. cr r)),
                     bold (fmt0 \<bar>closing a\<bar>), bold (side_of (closing a))]]
                 @ map (\<lambda>(no, nt, y, os). [fdate FY_END, no, with_note (close_part y os) nt, fmt (max y 0), fmt (max (- y) 0), fmt0 0, u_emdash]) cps)
         @ [[]] @ below)
     \<and> (\<not> is_bs (kind a) \<longrightarrow> x = 0)"
proof -
  note ok = closable_posted [OF assms(3)]
  obtain cps where cps: "close_posts b (aname a) = Inr cps" "closing a + (\<Sum>(no, nt, y, os)\<leftarrow>cps. y) = after_close b a"
    using closable_posts [OF assms(3), of "aname a" a] assms(4) by metis
  let ?x = "after_close b a" and ?heads = "ledger_heads (cols a)"
  have d: "distinct (map aname (accounts b))" using posted_ok_distinct [OF ok] by (simp add: order_def)
  have bs: "post_close_balances b = Inr (map (\<lambda>a. (aname a, after_close b a)) (accounts b))"
    "map_of (map (\<lambda>a. (aname a, after_close b a)) (accounts b)) (aname a) = Some ?x"
    using closable_balances [OF assms(3)] d assms(4) by (auto intro!: map_of_is_SomeI simp: o_def)
  obtain op tdr tcr cl where l: "year_ledger b a = Inr (table ?heads ledger_aligns (ledger_cells b a cps), op, tdr, tcr, cl)"
    using year_ledger_cells [OF assms(3,4) cps(1) assms(6)] by blast
  then have "account_section b a = Inr ([''#### '' @ aname a, []] @ table ?heads ledger_aligns (ledger_cells b a cps) @ [[]])"
    using assms(5) by (auto simp: account_section_def)
  from sec_ledgers_has [OF assms(3,4) this] obtain above below where
    sec: "sec_ledgers b = Inr (above @ ([''#### '' @ aname a, []] @ table ?heads ledger_aligns (ledger_cells b a cps) @ [[]]) @ below)"
    by blast
  have nil: "\<not> is_bs (kind a) \<longrightarrow> ?x = 0"
    using closes.heads_nil [OF assms(3,4)] by (auto simp: is_bs_def NIL_KINDS_def)
  note lines = ledger_cells_lines [OF ok assms(4,6) cps(2) [symmetric]]
  show ?thesis
    by (intro exI conjI, rule cps(1), rule bs(1), rule bs(2), rule cps(2) [symmetric], rule refl,
        rule sec [unfolded lines append_assoc], rule nil)
qed

end
