(* ===== verification/Report_Books.thy ===== *)
theory Report_Books
  imports Report_Ledgers "HOL-Library.List_Lexorder" "HOL-Library.Char_ord"
begin

text \<open>
  The export of \<open>build.py\<close>: the Day Book (\<open>daybook_rows\<close>, \<open>sec_daybook\<close>) and the Cash Book
  (\<open>cash_book\<close>, \<open>sec_books\<close>), and the month's bank statement answered line by line
  (\<open>sec_bank_extract\<close>).  Strings are compared by their UTF-8 bytes, which is Python's order.
\<close>

section \<open>The Day Book\<close>

text \<open>\<open>PLAIN_VTYPE[vtype]\<close> raises on a type it does not hold.\<close>

definition plain_word :: "vtype \<Rightarrow> error + string" where
  "plain_word t = (case t of OtherVtype s \<Rightarrow> Inl (KeyError s) | _ \<Rightarrow> Inr (PLAIN_VTYPE t))"

definition daybook_row :: "posted_book \<Rightarrow> posted_voucher \<Rightarrow> error + string list" where
  "daybook_row b v =
     (let moved = list_ex (\<lambda>(n, _). name_is b MONEY_KINDS n) (vlines v)
      in ebind (plain_word (vtype v)) (\<lambda>w.
         Inr [fdate (vdate v), vid v, w @ (if moved then [] else ('' '' @ u_emdash @ '' no money moved'')),
              side_cell (dr_lines v), side_cell (cr_lines v), fmt (amount v), narration v]))"

definition daybook_rows :: "posted_book \<Rightarrow> error + string list list" where
  "daybook_rows b = emap (daybook_row b) (vouchers b)"

text \<open>\<open>" \<sqdot> ".join("%s %d" % (k, kinds[k]) for k in sorted(kinds))\<close>.\<close>

definition count_words :: "string list \<Rightarrow> string" where
  "count_words ws =
     join_str ('' '' @ u_middot @ '' '') (map (\<lambda>k. (k @ '' '' @ (str_nat (int (length (filter (\<lambda>w. w = k) ws)))))) (sort (remdups ws)))"

definition daybook_intro :: string where
  "daybook_intro =
     (''In date order. Type: *Money in*, *Money out*, *Transfer* (between own cash, bank, card or deposit), *Gave on credit* / *Took on credit* (credit given to or taken from a person or shop '' @
       u_emdash @ '' no money moved yet), *Advance settled* (an advance accounted for against the bills), *Paid by a partner* (a partner paid from his own pocket), *Paid by the joint family* (the family paid a household's bill), *Settled at year end* (a sub-family account squared for the year), *Paid from a fund* (one action: the cost is charged to the year and the same amount is transferred from the fund), *Interest added to a deposit* (the bank added it; no money moved), *Written off* (a balance known not to come back, charged to an expense head), *Deposit set off* (a deposit held used against what the same person owes) and *Deposit forfeited* (a deposit kept as income), *Retention released* (money a customer held back, now due), *Correction* (an earlier entry put right '' @
       u_emdash @ '' its note names the entry and its date) and *Fix / Adjust* (no money moved). An entry that moves no money in or out of cash, bank, card or wallet is marked *no money moved*. An entry with more than one account on a side shows each account with its amount.'')"

definition daybook_heads :: "string list" where
  "daybook_heads = [''Date'', ''No.'', ''Type'', ''Debit (Dr)'', ''Credit (Cr)'', (''Amount '' @ u_rupee), ''What happened'']"

definition year_span :: string where
  "year_span = ((fdate FY_START) @ '' to '' @ (fdate FY_END))"

definition sec_daybook :: "posted_book \<Rightarrow> error + string list" where
  "sec_daybook b =
     ebind (daybook_rows b) (\<lambda>rs.
     ebind (emap (\<lambda>v. plain_word (vtype v)) (vouchers b)) (\<lambda>ws.
     Inr ([(''### 1. Day Book (rojnamcha) '' @ u_emdash @ '' every entry of the year''), [], head_line (bname b) year_span, [],
           daybook_intro, []]
          @ table daybook_heads [AL, AL, AL, AL, AL, AR, AL] rs
          @ [[], (''*'' @ (str_nat (int (length (vouchers b)))) @ '' entries: '' @ (count_words ws) @ ''.*''), []])))"

section \<open>The Cash Book\<close>

text \<open>\<open>bal\<close>, \<open>mdr\<close> and \<open>mcr\<close> are the dictionaries over \<open>names\<close>, kept as the lists of their values.\<close>

definition bal_cell :: "int \<Rightarrow> string" where
  "bal_cell x = fmt0 \<bar>x\<bar> @ (if x < 0 then '' Cr'' else [])"

definition amounts_on :: "string list \<Rightarrow> posted_voucher \<Rightarrow> int list" where
  "amounts_on names v = map (\<lambda>n. line_sum n (vlines v)) names"

definition cash_part :: "posted_book \<Rightarrow> string list \<Rightarrow> posted_voucher \<Rightarrow> error + string" where
  "cash_part b names v =
     (let amt = (\<lambda>n. line_sum n (vlines v));
          oth = filter (\<lambda>(n, x). n \<notin> set names) (vlines v)
      in if oth = [] then
           Inr (((join_str '' / '' (filter (\<lambda>n. amt n < 0) names)) @ '' to '' @ (join_str '' / '' (filter (\<lambda>n. amt n > 0) names))))
         else
           (let moved = filter (\<lambda>n. amt n \<noteq> 0) names; net = (\<Sum>n\<leftarrow>names. amt n)
            in if length moved = 1 then
                 (case find_account b (hd moved) of
                    None \<Rightarrow> Inl (KeyError (hd moved))
                  | Some a \<Rightarrow>
                      (case filter (\<lambda>r. rvid r = vid v) (rows a) of
                         [] \<Rightarrow> Inl (IndexError ''list index out of range'')
                       | r # _ \<Rightarrow> Inr (part r)))
               else Inr (join_str '' / '' (map (\<lambda>(n, x). (if net > 0 then ''To '' else ''By '') @ n)
                      (filter (\<lambda>(n, x). (x < 0) = (net > 0)) oth)))))"

text \<open>One voucher in the Cash Book: the state is the lines, the balances and the month's totals.\<close>

type_synonym cash_run = "string list \<times> int list \<times> int list \<times> int list"

definition cash_step :: "posted_book \<Rightarrow> string list \<Rightarrow> cash_run \<Rightarrow> posted_voucher \<Rightarrow> error + cash_run" where
  "cash_step b names st v =
     (case st of (out, bals, mdr, mcr) \<Rightarrow>
        let amts = amounts_on names v; bals' = map2 (+) bals amts
        in ebind (cash_part b names v) (\<lambda>p.
           Inr (out @ [table_row ([fdate (vdate v), vid v, with_note p (narration v)]
                   @ [join_str '' | '' (map (\<lambda>a. fmt (max a 0)) amts), join_str '' | '' (map (\<lambda>a. fmt (max (- a) 0)) amts),
                      join_str '' | '' (map bal_cell bals')])],
                bals', map2 (\<lambda>m a. m + max a 0) mdr amts, map2 (\<lambda>m a. m + max (- a) 0) mcr amts)))"

definition in_month :: "int \<times> int \<Rightarrow> posted_voucher \<Rightarrow> bool" where
  "in_month ym v = ((year (vdate v), month (vdate v)) = ym)"

definition cash_month ::
    "posted_book \<Rightarrow> string list \<Rightarrow> posted_voucher list \<Rightarrow> string list \<times> int list \<Rightarrow> int \<times> int \<Rightarrow> error + (string list \<times> int list)" where
  "cash_month b names vchs st ym =
     (case (st, ym) of ((out, bals), (y, m)) \<Rightarrow>
        let mv = filter (in_month ym) vchs; nils = map (\<lambda>_. 0) names
        in if mv = [] then Inr (out, bals)
           else ebind (efold (cash_step b names) (out, bals, nils, nils) mv) (\<lambda>(out, bals, mdr, mcr).
             Inr (out @ [table_row [fdate (month_end y m), [], bold ((''Month total '' @ u_emdash @ '' '' @ (month_name y m) @ '' '' @ u_middot @ '' closing balance'')),
                     join_str '' | '' (map (\<lambda>x. bold (fmt0 x)) mdr), join_str '' | '' (map (\<lambda>x. bold (fmt0 x)) mcr),
                     join_str '' | '' (map (\<lambda>x. bold (bal_cell x)) bals)]], bals)))"

definition cash_gollak_note :: string where
  "cash_gollak_note =
     ''A gollak count is cash received on the day it is counted, in the gollak's own column; emptying the gollak moves it to the cash box or the bank. ''"

definition cash_intro :: "ledger_account list \<Rightarrow> string" where
  "cash_intro accts =
     (''Every receipt and every payment of cash and of the bank, with the note of each entry: money in on the left, money out on the right, a column for each. '' @
       (if list_ex (\<lambda>a. kind a = Gollak) accts then cash_gollak_note else []) @ ''Money moved between the cash box and the bank stands on both sides '' @
       u_emdash @ '' out of one, into the other. Each month that had entries ends with its totals and the balance of each; the cash balance is what the cash box must hold, the bank balance is the bank's.'')"

definition cash_heads :: "string list \<Rightarrow> string list" where
  "cash_heads shorts =
     [''Date'', ''No.'', ''Particulars''] @ map (\<lambda>s. (''Money in (Dr) '' @ u_emdash @ '' '' @ s @ '' '' @ u_rupee)) shorts
     @ map (\<lambda>s. (''Money out (Cr) '' @ u_emdash @ '' '' @ s @ '' '' @ u_rupee)) shorts @ map (\<lambda>s. (''Balance '' @ u_emdash @ '' '' @ s @ '' '' @ u_rupee)) shorts"

text \<open>\<open>b.accounts[n]\<close> for each of the names.\<close>

definition lookup_accounts :: "posted_book \<Rightarrow> string list \<Rightarrow> error + ledger_account list" where
  "lookup_accounts b names =
     emap (\<lambda>n. case find_account b n of None \<Rightarrow> Inl (KeyError n) | Some a \<Rightarrow> Inr a) names"

definition cash_last :: "string list \<Rightarrow> int list \<Rightarrow> string" where
  "cash_last names bals =
     (''*On 31 Mar 2026: '' @ (join_str (('' '' @ u_middot @ '' '')) (map2 (\<lambda>n x. (n @ '' '' @ u_rupee @ (bal_cell x))) names bals)) @
       '' '' @ u_emdash @ '' the same as the closing balances in the ledgers of the printed book (its section 2).*'')"

definition cash_book :: "posted_book \<Rightarrow> string list \<Rightarrow> string \<Rightarrow> error + string list" where
  "cash_book b names heading =
     ebind (lookup_accounts b names) (\<lambda>accts.
     let shorts = map2 (\<lambda>n a. if kind a = Cash then ''Cash'' else n) names accts;
         bals = map opening_bal accts;
         vchs = filter (\<lambda>v. list_ex (\<lambda>(n, _). n \<in> set names) (vlines v)) (vouchers b);
         out0 = [''### '' @ heading, [], head_line (bname b) year_span, [], cash_intro accts, []]
              @ table (cash_heads shorts) ([AL, AL, AL] @ replicate (3 * length names) AR) []
              @ [table_row [fdate FY_START, [], ''Opening balance b/f'', join_str '' | '' (map (\<lambda>x. fmt (max x 0)) bals),
                   join_str '' | '' (map (\<lambda>x. fmt (max (- x) 0)) bals), join_str '' | '' (map bal_cell bals)]]
     in ebind (efold (cash_month b names vchs) (out0, bals) fy_months) (\<lambda>(out, bals).
        ebind (assert_that (bals = map closing accts) ''cash book'') (\<lambda>_.
        Inr (out @ [[], cash_last names bals, []]))))"

definition cash_book_names :: "posted_book \<Rightarrow> string list" where
  "cash_book_names b = concat (map (\<lambda>k. map aname (filter (\<lambda>a. kind a = k) (accounts b))) [Cash, Gollak, Bank])"

definition sec_books :: "posted_book \<Rightarrow> error + string list" where
  "sec_books b =
     ebind (sec_daybook b) (\<lambda>d.
     let names = cash_book_names b
     in ebind (cash_book b names ((''2. Cash Book '' @ u_emdash @ '' '' @ (join_str '' and '' names)))) (\<lambda>c. Inr (d @ c)))"

section \<open>The bank's statement, line by line\<close>

definition bank_step :: "string \<Rightarrow> string list list \<times> int \<Rightarrow> ledger_row \<Rightarrow> string list list \<times> int" where
  "bank_step bank st r =
     (case st of (out, bl) \<Rightarrow>
        let v = rvch r; nb = bl + dr r - cr r;
            oth = filter (\<lambda>(n, x). n \<noteq> bank) (vlines v);
            classified = (case oth of [(n, x)] \<Rightarrow> n | _ \<Rightarrow> join_str br (map (\<lambda>(n, x). (n @ '' '' @ u_rupee @ (fmt \<bar>x\<bar>))) oth))
        in (out @ [[fdate (rdate r), (case stmt v of Some (c # s) \<Rightarrow> c # s | _ \<Rightarrow> narration v),
                    fmt (cr r), fmt (dr r), bal_cell nb, classified, vid v]], nb))"

definition bank_heads :: "string list" where
  "bank_heads = [''Date'', ''As the bank printed it'', (''Withdrawal '' @ u_rupee), (''Deposit '' @ u_rupee), (''Balance '' @ u_rupee), ''Which account'', ''No.'']"

text \<open>The rows of the statement and the balance it ends at.\<close>

definition bank_rows :: "ledger_account \<Rightarrow> string \<Rightarrow> int \<Rightarrow> int \<Rightarrow> string list list \<times> int" where
  "bank_rows a bank y m =
     (let bal0 = bal_upto a (prev_day (D y m 1));
          rs = filter (\<lambda>r. (year (rdate r), month (rdate r)) = (y, m)) (rows a)
      in case foldl (bank_step bank) ([[fdate (D y m 1), ''Opening balance'', [], [], bal_cell bal0, [], []]], bal0) rs of
           (out, bl) \<Rightarrow> (out @ [[fdate (month_end y m), bold ''Closing balance'', [], [], bold (bal_cell bl), [], []]], bl))"

definition bank_intro :: "string \<Rightarrow> string" where
  "bank_intro bank =
     (''How the book is kept from the bank: every line of the month's statement is answered with one question '' @
       u_emdash @ '' where did the money come from, or where did it go? The bank's running balance is the balance of '' @
       bank @ '' in the books.'')"

definition sec_bank_extract :: "posted_book \<Rightarrow> int \<Rightarrow> error + string list" where
  "sec_bank_extract b num =
     (case bank_extract b of
        None \<Rightarrow> Inl (TypeError ''cannot unpack None'')
      | Some (bank, (y, m)) \<Rightarrow>
          ebind (case find_account b bank of None \<Rightarrow> Inl (KeyError bank) | Some a \<Rightarrow> Inr a) (\<lambda>a.
          Inr ([(''#### 3.'' @ (str_int num) @ '' Bank statement '' @ [CHR 0xE2, CHR 0x86, CHR 0x92] @ '' entries '' @ u_emdash @
       '' '' @ bank @ '', '' @ (month_name y m)), [],
                head_line (bname b) (month_name y m), [], bank_intro bank, []]
               @ table bank_heads [AL, AL, AR, AR, AR, AL, AL] (fst (bank_rows a bank y m))
               @ [[]])))"

section \<open>The Cash Book agrees with the ledgers\<close>

definition dates_valid :: "posted_book \<Rightarrow> bool" where
  "dates_valid b = list_all (\<lambda>v. valid_date (vdate v)) (vouchers b)"

lemma lookup_accounts_ok:
  assumes "posted_ok b" "set names \<subseteq> set (order b)"
  obtains accts where "lookup_accounts b names = Inr accts" "map aname accts = names" "set accts \<subseteq> set (accounts b)"
proof -
  have "\<exists>accts. lookup_accounts b names = Inr accts \<and> map aname accts = names \<and> set accts \<subseteq> set (accounts b)"
    using assms(2)
  proof (induction names)
    case (Cons n ns)
    then obtain as where as: "lookup_accounts b ns = Inr as" "map aname as = ns" "set as \<subseteq> set (accounts b)" by auto
    obtain a where "a \<in> set (accounts b)" "n = aname a" using Cons.prems by (auto simp: order_def)
    then have "find_account b n = Some a" using posted_ok_find [OF assms(1)] by simp
    then show ?case using as \<open>n = aname a\<close> \<open>a \<in> set (accounts b)\<close> by (simp add: lookup_accounts_def)
  qed (simp add: lookup_accounts_def)
  then show thesis using that by blast
qed

lemma row_of_line:
  assumes "posted_ok b" "a \<in> set (accounts b)" "v \<in> set (vouchers b)" "line_sum (aname a) (vlines v) \<noteq> 0"
  shows "\<exists>r\<in>set (rows a). rvid r = vid v"
proof -
  have "aname a \<in> fst ` set (vlines v)" using assms(4) line_sum_absent by blast
  then obtain l where l: "l \<in> set (vlines v)" "fst l = aname a" by force
  have "(v, l) \<in> set (lines_on (aname a) (vouchers b))" using l assms(3) by (auto simp: lines_on_def)
  moreover have "list_all2 row_matches (rows a) (lines_on (aname a) (vouchers b))"
    using posted_ok_ledger [OF assms(1,2)] by (simp add: ledger_ok_def)
  ultimately obtain r where "r \<in> set (rows a)" "row_matches r (v, l)"
    by (metis in_set_conv_nth list_all2_conv_all_nth)
  then show ?thesis by (auto simp: row_matches_def)
qed

lemma cash_part_ok:
  assumes "posted_ok b" "set names \<subseteq> set (order b)" "v \<in> set (vouchers b)"
  shows "\<exists>p. cash_part b names v = Inr p"
proof -
  let ?moved = "filter (\<lambda>n. line_sum n (vlines v) \<noteq> 0) names"
  have "\<exists>a r rs. find_account b (hd ?moved) = Some a \<and> filter (\<lambda>r. rvid r = vid v) (rows a) = r # rs"
    if one: "length ?moved = 1"
  proof -
    from one obtain n where n: "?moved = [n]" by (metis One_nat_def length_0_conv length_Suc_conv)
    then have "n \<in> set ?moved" by simp
    then have "n \<in> set names" "line_sum n (vlines v) \<noteq> 0" by simp_all
    then obtain a where a: "a \<in> set (accounts b)" "n = aname a" using assms(2) by (auto simp: order_def)
    then have "\<exists>r\<in>set (rows a). rvid r = vid v"
      using row_of_line [OF assms(1) a(1) assms(3)] \<open>line_sum n (vlines v) \<noteq> 0\<close> by simp
    then obtain r rs where "filter (\<lambda>r. rvid r = vid v) (rows a) = r # rs"
      by (metis (mono_tags, lifting) filter_empty_conv list.exhaust)
    then show ?thesis using posted_ok_find [OF assms(1) a(1)] a(2) n by auto
  qed
  then show ?thesis by (auto simp: cash_part_def Let_def)
qed

lemma map2_map: "map2 f (map g xs) (map h xs) = map (\<lambda>x. f (g x) (h x)) xs"
  by (induction xs) simp_all

lemma cash_steps:
  assumes "posted_ok b" "set names \<subseteq> set (order b)" "set vs \<subseteq> set (vouchers b)"
  shows "\<exists>out' m1' m2'. efold (cash_step b names) (out, map f names, m1, m2) vs
       = Inr (out', map (\<lambda>n. f n + (\<Sum>v\<leftarrow>vs. line_sum n (vlines v))) names, m1', m2')"
  using assms(3)
proof (induction vs arbitrary: out f m1 m2)
  case (Cons v vs)
  obtain p where "cash_part b names v = Inr p" using cash_part_ok [OF assms(1,2), of v] Cons.prems by auto
  then obtain out1 m11 m21 where "cash_step b names (out, map f names, m1, m2) v
      = Inr (out1, map (\<lambda>n. f n + line_sum n (vlines v)) names, m11, m21)"
    by (simp add: cash_step_def Let_def amounts_on_def map2_map)
  with Cons.IH [of out1 "\<lambda>n. f n + line_sum n (vlines v)" m11 m21] Cons.prems show ?case
    by (auto simp: algebra_simps)
qed auto

lemma cash_month_ok:
  assumes "posted_ok b" "set names \<subseteq> set (order b)" "set vs \<subseteq> set (vouchers b)"
  shows "\<exists>out'. cash_month b names vs (out, map f names) ym
       = Inr (out', map (\<lambda>n. f n + (\<Sum>v\<leftarrow>filter (in_month ym) vs. line_sum n (vlines v))) names)"
proof -
  obtain y m where ym: "ym = (y, m)" by (cases ym)
  let ?mv = "filter (in_month (y, m)) vs"
  have mv: "set ?mv \<subseteq> set (vouchers b)" using assms(3) by auto
  show ?thesis
  proof (cases "?mv = []")
    case True
    then show ?thesis by (simp add: cash_month_def ym)
  next
    case False
    obtain out' m1 m2 where "efold (cash_step b names) (out, map f names, map (\<lambda>_. 0) names, map (\<lambda>_. 0) names) ?mv
        = Inr (out', map (\<lambda>n. f n + (\<Sum>v\<leftarrow>?mv. line_sum n (vlines v))) names, m1, m2)"
      using cash_steps [OF assms(1,2) mv] by blast
    with False show ?thesis by (simp add: cash_month_def ym Let_def)
  qed
qed

lemma cash_months_ok:
  assumes "posted_ok b" "set names \<subseteq> set (order b)" "set vs \<subseteq> set (vouchers b)"
  shows "\<exists>out'. efold (cash_month b names vs) (out, map f names) yms
       = Inr (out', map (\<lambda>n. f n + (\<Sum>ym\<leftarrow>yms. \<Sum>v\<leftarrow>filter (in_month ym) vs. line_sum n (vlines v))) names)"
proof (induction yms arbitrary: out f)
  case (Cons ym yms)
  obtain out1 where "cash_month b names vs (out, map f names) ym
       = Inr (out1, map (\<lambda>n. f n + (\<Sum>v\<leftarrow>filter (in_month ym) vs. line_sum n (vlines v))) names)"
    using cash_month_ok [OF assms] by blast
  with Cons [of out1 "\<lambda>n. f n + (\<Sum>v\<leftarrow>filter (in_month ym) vs. line_sum n (vlines v))"] show ?case
    by (auto simp: algebra_simps)
qed simp

lemma sum_by_month:
  assumes "\<forall>v\<in>set vs. (year (vdate v), month (vdate v)) \<in> set yms" "distinct yms"
  shows "(\<Sum>ym\<leftarrow>yms. \<Sum>v\<leftarrow>filter (in_month ym) vs. f v) = (\<Sum>v\<leftarrow>vs. f v :: int)"
proof -
  have "(\<Sum>ym\<leftarrow>yms. \<Sum>v\<leftarrow>filter (in_month ym) vs. f v) = (\<Sum>v\<leftarrow>vs. \<Sum>ym\<leftarrow>yms. if in_month ym v then f v else 0)"
    by (simp only: sum_list_filter_if) (rule sum_list_swap)
  also have "... = (\<Sum>v\<leftarrow>vs. f v)"
    using assms by (intro arg_cong [where f = sum_list] map_cong refl) (simp add: in_month_def sum_list_indicator)
  finally show ?thesis .
qed

lemma year_months:
  assumes "posted_ok b" "dates_valid b" "v \<in> set (vouchers b)"
  shows "(year (vdate v), month (vdate v)) \<in> set fy_months"
  using assms year_month_iff [of "vdate v"] by (simp add: posted_ok_def dates_valid_def list_all_iff)

lemma closing_lines:
  assumes "posted_ok b" "a \<in> set (accounts b)"
  shows "closing a = opening_bal a + (\<Sum>v\<leftarrow>vouchers b. line_sum (aname a) (vlines v))"
proof -
  have "\<forall>v\<in>set (vouchers b). vdate v \<le> FY_END" using assms(1) by (simp add: posted_ok_def list_all_iff)
  then have "(\<Sum>v\<leftarrow>vouchers b. if vdate v \<le> FY_END then line_sum (aname a) (vlines v) else 0)
      = (\<Sum>v\<leftarrow>vouchers b. line_sum (aname a) (vlines v))"
    by (intro arg_cong [where f = sum_list] map_cong) auto
  then show ?thesis
    using bal_upto_lines [OF posted_ok_ledger [OF assms], of FY_END] closing_year_end [OF assms] by simp
qed

lemma distinct_fy_months: "distinct fy_months"
  by (simp add: fy_months_eq)

lemma sum_list_filter_0:
  "(\<And>x. x \<in> set xs \<Longrightarrow> \<not> P x \<Longrightarrow> f x = 0) \<Longrightarrow> (\<Sum>x\<leftarrow>filter P xs. f x) = (\<Sum>x\<leftarrow>xs. f x :: int)"
  by (induction xs) auto

lemma cash_book_ok:
  assumes ok: "posted_ok b" "dates_valid b" and names: "set names \<subseteq> set (order b)"
  shows "\<exists>accts body. lookup_accounts b names = Inr accts \<and> map aname accts = names
    \<and> cash_book b names h = Inr (body @ [[], cash_last names (map closing accts), []])"
proof -
  obtain accts where accts: "lookup_accounts b names = Inr accts" "map aname accts = names" "set accts \<subseteq> set (accounts b)"
    by (rule lookup_accounts_ok [OF ok(1) names])
  let ?P = "\<lambda>v. list_ex (\<lambda>(n, _). n \<in> set names) (vlines v)"
  let ?vs = "filter ?P (vouchers b)"
  have names_map: "map f names = map (\<lambda>a. f (aname a)) accts" for f :: "string \<Rightarrow> int"
    unfolding accts(2) [symmetric] by (simp add: o_def)
  have op: "map opening_bal accts = map (opening_of b) names"
    unfolding names_map using accts(3) opening_of_account [OF ok(1)] by auto
  have vs_months: "\<forall>v\<in>set ?vs. (year (vdate v), month (vdate v)) \<in> set fy_months"
    using year_months [OF ok] by auto
  have all: "(\<Sum>ym\<leftarrow>fy_months. \<Sum>v\<leftarrow>filter (in_month ym) ?vs. line_sum n (vlines v)) = (\<Sum>v\<leftarrow>vouchers b. line_sum n (vlines v))"
    if "n \<in> set names" for n
  proof -
    have "line_sum n (vlines v) = 0" if "\<not> ?P v" for v
      using that \<open>n \<in> set names\<close> by (intro line_sum_absent) (auto simp: list_ex_iff)
    then have "(\<Sum>v\<leftarrow>?vs. line_sum n (vlines v)) = (\<Sum>v\<leftarrow>vouchers b. line_sum n (vlines v))"
      by (intro sum_list_filter_0) auto
    with sum_by_month [OF vs_months distinct_fy_months, of "\<lambda>v. line_sum n (vlines v)"] show ?thesis by (rule trans)
  qed
  have cl: "map (\<lambda>n. opening_of b n + (\<Sum>ym\<leftarrow>fy_months. \<Sum>v\<leftarrow>filter (in_month ym) ?vs. line_sum n (vlines v))) names = map closing accts"
    unfolding names_map
  proof (intro map_cong refl)
    fix a assume "a \<in> set accts"
    then have a: "a \<in> set (accounts b)" "aname a \<in> set names" using accts by auto
    show "opening_of b (aname a) + (\<Sum>ym\<leftarrow>fy_months. \<Sum>v\<leftarrow>filter (in_month ym) ?vs. line_sum (aname a) (vlines v)) = closing a"
      using all [OF a(2)] closing_lines [OF ok(1) a(1)] opening_of_account [OF ok(1) a(1)] by simp
  qed
  have vs: "set ?vs \<subseteq> set (vouchers b)" by auto
  have run: "\<exists>body. ebind (efold (cash_month b names ?vs) (o0, map (opening_of b) names) fy_months) (\<lambda>(out, bals).
        ebind (assert_that (bals = map closing accts) ''cash book'') (\<lambda>_. Inr (out @ [[], cash_last names bals, []])))
      = Inr (body @ [[], cash_last names (map closing accts), []])" for o0
  proof -
    obtain out' where "efold (cash_month b names ?vs) (o0, map (opening_of b) names) fy_months = Inr (out', map closing accts)"
      using cash_months_ok [OF ok(1) names vs, of o0 "opening_of b" fy_months] unfolding cl by blast
    then show ?thesis by (simp add: assert_that_def)
  qed
  have "\<exists>body. cash_book b names h = Inr (body @ [[], cash_last names (map closing accts), []])"
    unfolding cash_book_def accts(1) ebind_simps Let_def op by (rule run)
  with accts(1,2) show ?thesis by blast
qed

lemma cash_book_names_order: "set (cash_book_names b) \<subseteq> set (order b)"
  by (auto simp: cash_book_names_def order_def)

lemma daybook_ok:
  assumes "posted_ok b"
  shows "is_ok (sec_daybook b)"
proof -
  have "\<exists>w. plain_word (vtype v) = Inr w" if "v \<in> set (vouchers b)" for v
  proof -
    have "is_ok (validate_voucher b v)" using assms that by (simp add: posted_ok_def list_all_iff)
    then have "vtype v \<in> set VTYPES" by (simp add: validate_voucher_def del: asserts.simps)
    then show ?thesis by (auto simp: VTYPES_def plain_word_def split: vtype.splits)
  qed
  note words = this
  have "is_ok (emap (\<lambda>v. plain_word (vtype v)) (vouchers b))" unfolding emap_ok using words by (auto simp: is_ok_iff)
  moreover have "is_ok (daybook_rows b)"
  proof -
    have "is_ok (daybook_row b v)" if "v \<in> set (vouchers b)" for v
      using words [OF that] by (auto simp: daybook_row_def Let_def)
    then show ?thesis unfolding daybook_rows_def emap_ok by blast
  qed
  ultimately show ?thesis by (auto simp: sec_daybook_def is_ok_iff)
qed

text \<open>C9. The export of any finalised book can be drawn: no voucher is of an unknown type, every
  particulars cell finds its ledger row, and the Cash Book, which adds the vouchers up month by month,
  ends at the closing balances of the ledgers it covers, so its own assertion never fails.\<close>

theorem export_agrees_with_ledgers:
  assumes "book_wf b0" "finalize b0 = Inr b" "dates_valid b"
  shows "is_ok (sec_books b) \<and>
    (\<exists>accts body. map aname accts = cash_book_names b \<and> set accts \<subseteq> set (accounts b)
       \<and> cash_book b (cash_book_names b) h = Inr (body @ [[], cash_last (cash_book_names b) (map closing accts), []]))"
proof -
  note ok = finalize_posted_ok [OF assms(1,2)]
  have cash: "\<exists>accts body. lookup_accounts b (cash_book_names b) = Inr accts \<and> map aname accts = cash_book_names b
      \<and> cash_book b (cash_book_names b) h = Inr (body @ [[], cash_last (cash_book_names b) (map closing accts), []])" for h
    by (rule cash_book_ok [OF ok assms(3) cash_book_names_order])
  obtain accts where accts: "lookup_accounts b (cash_book_names b) = Inr accts" "set accts \<subseteq> set (accounts b)"
    by (rule lookup_accounts_ok [OF ok cash_book_names_order])
  have "is_ok (sec_books b)"
    using daybook_ok [OF ok] cash [of "(''2. Cash Book '' @ u_emdash @ '' '' @ (join_str '' and '' (cash_book_names b)))"]
    by (auto simp: sec_books_def is_ok_iff Let_def)
  moreover obtain body where "cash_book b (cash_book_names b) h = Inr (body @ [[], cash_last (cash_book_names b) (map closing accts), []])"
    "map aname accts = cash_book_names b"
    using cash [of h] accts(1) by auto
  ultimately show ?thesis using accts(2) by blast
qed

section \<open>The bank's statement ends at the bank's balance\<close>

text \<open>A line of the statement: the date, the bank's words or the note, money out, money in, the balance after
  it, the other account or accounts, the entry's number.\<close>

definition bank_line :: "string \<Rightarrow> ledger_row \<Rightarrow> string list" where
  "bank_line bank r =
     (let oth = filter (\<lambda>(n, x). n \<noteq> bank) (vlines (rvch r))
      in [fdate (rdate r), (case stmt (rvch r) of Some (c # s) \<Rightarrow> c # s | _ \<Rightarrow> narration (rvch r)), fmt (cr r), fmt (dr r),
          bal_cell (rbal r), (case oth of [(n, x)] \<Rightarrow> n | _ \<Rightarrow> join_str br (map (\<lambda>(n, x). (n @ '' '' @ u_rupee @ (fmt \<bar>x\<bar>))) oth)), vid (rvch r)])"

lemma bank_fold:
  "map rbal rs = running bl (map (\<lambda>r. dr r - cr r) rs) \<Longrightarrow>
   foldl (bank_step bank) (out, bl) rs = (out @ map (bank_line bank) rs, bl + (\<Sum>r\<leftarrow>rs. dr r - cr r))"
proof (induction rs arbitrary: out bl)
  case (Cons r rs)
  then have rbal: "bl + dr r - cr r = rbal r" by simp
  then have "bank_step bank (out, bl) r = (out @ [bank_line bank r], rbal r)"
    by (simp add: bank_step_def bank_line_def Let_def)
  with Cons rbal show ?case by (simp add: algebra_simps)
qed simp

text \<open>The rows of a posted account after a day, carried on from the balance on that day.\<close>

lemma filter_split_sorted: "sorted (map f xs) \<Longrightarrow> xs = filter (\<lambda>x. f x \<le> d) xs @ filter (\<lambda>x. \<not> f x \<le> d) xs"
proof (induction xs)
  case (Cons x xs)
  then show ?case
  proof (cases "f x \<le> d")
    case False
    then have "\<forall>y \<in> set xs. \<not> f y \<le> d" using Cons.prems by auto
    with False show ?thesis by (simp add: filter_empty_conv filter_True)
  qed simp
qed simp

lemma running_append: "running s (xs @ ys) = running s xs @ running (s + sum_list xs) ys"
  by (induction xs arbitrary: s) (simp_all add: add.assoc)

lemma rows_after:
  assumes "posted_ok b" "a \<in> set (accounts b)" "d \<le> e"
  defines "rs \<equiv> filter (\<lambda>r. \<not> rdate r \<le> d \<and> rdate r \<le> e) (rows a)"
  shows "map rbal rs = running (bal_upto a d) (map (\<lambda>r. dr r - cr r) rs)"
    and "bal_upto a d + (\<Sum>r\<leftarrow>rs. dr r - cr r) = bal_upto a e"
proof -
  let ?am = "\<lambda>r. dr r - cr r"
  have "map rdate (rows a) = map fst (account_lines b (aname a))"
    unfolding rows_account_lines(1) [OF assms(1,2), symmetric] by simp
  then have sorted: "sorted (map rdate (rows a))" using sorted_account_lines [OF assms(1)] by simp
  have "map snd (account_lines b (aname a)) = map ?am (rows a)"
    unfolding rows_account_lines(1) [OF assms(1,2), symmetric] by simp
  then have rbal: "map rbal (rows a) = running (opening_bal a) (map ?am (rows a))"
    using rows_account_lines(2) [OF assms(1,2)] by simp
  define A B C where "A = filter (\<lambda>r. rdate r \<le> d) (rows a)" and "B = filter (\<lambda>r. \<not> rdate r \<le> d) (rows a)"
    and "C = filter (\<lambda>r. \<not> rdate r \<le> e) B"
  have AB: "rows a = A @ B" unfolding A_def B_def by (rule filter_split_sorted [OF sorted])
  have "sorted (map rdate B)" using sorted AB by (simp add: sorted_append)
  from filter_split_sorted [OF this, of e] have BC: "B = filter (\<lambda>r. rdate r \<le> e) B @ C" by (simp only: C_def)
  have "filter (\<lambda>r. rdate r \<le> e) B = rs" by (simp add: rs_def B_def)
  with BC have BC: "B = rs @ C" by metis
  have split: "rows a = A @ rs @ C" using AB BC by simp
  have sumA: "bal_upto a d = opening_bal a + (\<Sum>r\<leftarrow>A. ?am r)" by (simp add: bal_upto_def A_def sum_list_filter_if)
  show "map rbal rs = running (bal_upto a d) (map ?am rs)"
    using rbal unfolding split map_append running_append sumA
    by (auto dest!: append_eq_append_conv [THEN iffD1, rotated])
  have "filter (\<lambda>r. rdate r \<le> e) (rows a) = A @ rs"
  proof -
    have "filter (\<lambda>r. rdate r \<le> e) A = A" using assms(3) by (intro filter_True) (auto simp: A_def)
    moreover have "filter (\<lambda>r. rdate r \<le> e) rs = rs" by (intro filter_True) (auto simp: rs_def)
    moreover have "filter (\<lambda>r. rdate r \<le> e) C = []" by (intro filter_False) (auto simp: C_def)
    ultimately show ?thesis by (simp add: split)
  qed
  then have "bal_upto a e = opening_bal a + (\<Sum>r\<leftarrow>A @ rs. ?am r)" by (simp add: bal_upto_def sum_list_filter_if [symmetric])
  then show "bal_upto a d + (\<Sum>r\<leftarrow>rs. ?am r) = bal_upto a e" using sumA by simp
qed

lemma rows_valid:
  assumes "posted_ok b" "dates_valid b" "a \<in> set (accounts b)" "r \<in> set (rows a)"
  shows "valid_date (rdate r)"
proof -
  have "list_all2 row_matches (rows a) (lines_on (aname a) (vouchers b))"
    using posted_ok_ledger [OF assms(1,3)] by (simp add: ledger_ok_def)
  then obtain v l where "row_matches r (v, l)" "(v, l) \<in> set (lines_on (aname a) (vouchers b))"
    using assms(4) by (metis in_set_conv_nth list_all2_conv_all_nth surj_pair)
  then have "rdate r = vdate v" "v \<in> set (vouchers b)" by (auto simp: row_matches_def lines_on_def)
  then show ?thesis using assms(2) by (simp add: dates_valid_def list_all_iff)
qed

text \<open>A valid date lies in the month exactly when it is after the day before its first and not after its last.\<close>

lemma month_window:
  assumes "valid_date d" "1 \<le> m" "m \<le> 12"
  shows "(year d, month d) = (y, m) \<longleftrightarrow> d \<le> month_end y m \<and> \<not> d \<le> prev_day (D y m 1)"
proof -
  have p: "prev_day (D y m 1) = (if m > 1 then Date y (m - 1) (days_in_month y (m - 1)) else Date (y - 1) 12 31)"
    by (simp add: prev_day_def D_def)
  have e: "month_end y m = Date y m (days_in_month y m)" using assms by (simp add: month_end_eq)
  have dd: "1 \<le> day d" "day d \<le> days_in_month (year d) (month d)" "1 \<le> month d" "month d \<le> 12"
    using assms(1) by (auto simp: valid_date_def)
  have d31: "days_in_month y' 12 = 31" for y' by (simp add: days_in_month_def)
  show ?thesis
  proof (cases "month d = m - 1 \<and> year d = y")
    case True
    then have "day d \<le> days_in_month y (m - 1)" using dd(2) by simp
    with True dd assms(2,3) show ?thesis unfolding p e by (auto simp: less_eq_date_def)
  next
    case False
    then show ?thesis
      unfolding p e using dd assms(2,3) d31 [of "year d"] by (auto simp: less_eq_date_def)
  qed
qed

text \<open>C10. The month's bank statement as it is printed: the opening line with the bank's balance on
  the day before the month; one line for every row of the bank's ledger in the month, in order, with what
  was taken out, what was put in and the ledger's running balance after it; and the closing line with
  the bank's balance on the last day.  The section of the book is that table.\<close>

theorem bank_extract_ends_at_balance:
  assumes "book_wf b0" "finalize b0 = Inr b" "dates_valid b" "a \<in> set (accounts b)" "1 \<le> m" "m \<le> 12"
  shows "fst (bank_rows a (aname a) y m)
      = [[fdate (D y m 1), ''Opening balance'', [], [], bal_cell (bal_upto a (prev_day (D y m 1))), [], []]]
        @ map (bank_line (aname a)) (filter (\<lambda>r. (year (rdate r), month (rdate r)) = (y, m)) (rows a))
        @ [[fdate (month_end y m), bold ''Closing balance'', [], [], bold (bal_cell (bal_upto a (month_end y m))), [], []]]
    \<and> (bank_extract b = Some (aname a, (y, m)) \<longrightarrow>
         (\<exists>intro. sec_bank_extract b num
            = Inr (intro @ table bank_heads [AL, AL, AR, AR, AR, AL, AL] (fst (bank_rows a (aname a) y m)) @ [[]])))"
proof -
  note ok = finalize_posted_ok [OF assms(1,2)]
  have le: "prev_day (D y m 1) \<le> month_end y m"
    using assms(5,6) days_in_month_bounds [of y m]
    by (auto simp: month_end_eq prev_day_def D_def less_eq_date_def)
  have rs: "filter (\<lambda>r. (year (rdate r), month (rdate r)) = (y, m)) (rows a)
      = filter (\<lambda>r. \<not> rdate r \<le> prev_day (D y m 1) \<and> rdate r \<le> month_end y m) (rows a)"
    using month_window [OF rows_valid [OF ok assms(3,4)] assms(5,6), of _ y] by (intro filter_cong refl) blast
  have "fst (bank_rows a (aname a) y m)
      = [[fdate (D y m 1), ''Opening balance'', [], [], bal_cell (bal_upto a (prev_day (D y m 1))), [], []]]
        @ map (bank_line (aname a)) (filter (\<lambda>r. (year (rdate r), month (rdate r)) = (y, m)) (rows a))
        @ [[fdate (month_end y m), bold ''Closing balance'', [], [], bold (bal_cell (bal_upto a (month_end y m))), [], []]]"
    unfolding bank_rows_def Let_def rs using rows_after [OF ok assms(4) le] by (simp add: bank_fold)
  moreover have "find_account b (aname a) = Some a" by (rule posted_ok_find [OF ok assms(4)])
  ultimately show ?thesis by (auto simp: sec_bank_extract_def)
qed

end
