(* ===== verification/Report_Position.thy ===== *)
theory Report_Position
  imports Report_Books
begin

text \<open>
  What a person owes since when (\<open>fifo_open_items\<close>, \<open>sec_ageing\<close>), the full position on a date
  (\<open>place\<close>, \<open>position_table\<close>) and the statements during the year (\<open>sec_statements\<close>).
\<close>

section \<open>Open items, oldest first\<close>

text \<open>The \<open>while\<close> loop: an amount settles the oldest open items of the other sign.\<close>

type_synonym item = "date \<times> int"

function settle :: "item list \<Rightarrow> int \<Rightarrow> item list \<times> int" where
  "settle [] amt = ([], amt)"
| "settle ((d, x) # items) amt =
     (if amt = 0 \<or> (x > 0) = (amt > 0) then ((d, x) # items, amt)
      else let t = min \<bar>amt\<bar> \<bar>x\<bar>;
               x' = x + (if x < 0 then t else - t);
               amt' = amt + (if amt < 0 then t else - t)
           in if x' = 0 then settle items amt' else settle ((d, x') # items) amt')"
  by pat_completeness auto
termination
  by (relation "measure (\<lambda>(items, amt). length items + nat \<bar>amt\<bar>)") (auto simp: min_def Let_def split: if_splits)

definition fifo_step :: "item list \<Rightarrow> ledger_row \<Rightarrow> item list" where
  "fifo_step items r =
     (case settle items (dr r - cr r) of (its, amt) \<Rightarrow> if amt \<noteq> 0 then its @ [(rdate r, amt)] else its)"

definition fifo_open_items :: "ledger_account \<Rightarrow> date \<Rightarrow> item list" where
  "fifo_open_items a till =
     foldl fifo_step (if opening_bal a \<noteq> 0 then [(FY_START, opening_bal a)] else [])
       (takeWhile (\<lambda>r. rdate r \<le> till) (rows a))"

text \<open>The three columns of the list: up to 30 days, 31 to 90, over 90.\<close>

definition bucket :: "date \<Rightarrow> nat" where
  "bucket d = (let days = days_between FY_END d in if days \<le> 30 then 0 else if days \<le> 90 then 1 else 2)"

definition buckets :: "item list \<Rightarrow> int list" where
  "buckets items = map (\<lambda>k. \<Sum>(d, x)\<leftarrow>items. if bucket d = k then \<bar>x\<bar> else 0) [0, 1, 2]"

text \<open>One person's row: his side, his balance and its three parts, and the cells.\<close>

type_synonym ageing_row = "bool \<times> int \<times> int list \<times> string list"

definition ageing_row :: "ledger_account \<Rightarrow> error + ageing_row option" where
  "ageing_row a =
     (if kind a \<noteq> Party then Inr None
      else let bl = bal_upto a FY_END
           in if bl = 0 then Inr None
              else let items = fifo_open_items a FY_END; bk = buckets items
                   in ebind (assert_that ((\<Sum>(d, x)\<leftarrow>items. x) = bl) (aname a)) (\<lambda>_.
                      case items of
                        [] \<Rightarrow> Inl (IndexError ''list index out of range'')
                      | (d0, x0) # _ \<Rightarrow>
                          Inr (Some (bl > 0, \<bar>bl\<bar>, bk,
                            [aname a, (if bl > 0 then ''You will get (Dr)'' else ''You will give (Cr)''), fmt \<bar>bl\<bar>,
                             fmt (bk ! 0), fmt (bk ! 1), fmt (bk ! 2), fdate d0]))))"

definition ageing_total :: "string \<Rightarrow> ageing_row list \<Rightarrow> string list" where
  "ageing_total word rs =
     [bold word, [], bold (fmt0 (\<Sum>(s, bl, bk, c)\<leftarrow>rs. bl)), bold (fmt (\<Sum>(s, bl, bk, c)\<leftarrow>rs. bk ! 0)),
      bold (fmt (\<Sum>(s, bl, bk, c)\<leftarrow>rs. bk ! 1)), bold (fmt (\<Sum>(s, bl, bk, c)\<leftarrow>rs. bk ! 2)), []]"

definition ageing_heads :: "string list" where
  "ageing_heads = [''Person / shop'', ''Side'', (''Balance '' @ u_rupee), (''Up to 30 days '' @ u_rupee), (''31'' @ u_endash @ ''90 days '' @ u_rupee), (''Over 90 days '' @ u_rupee), ''Open since'']"

definition ageing_intro :: string where
  "ageing_intro =
     ''Every person or shop account with a balance, read straight from its own ledger, split by how long the amount has been open: money received settles the oldest amount first.''"

definition sec_ageing :: "posted_book \<Rightarrow> int \<Rightarrow> error + string list" where
  "sec_ageing b num =
     ebind (emap ageing_row (accounts b)) (\<lambda>rs.
     let rs = [r. Some r \<leftarrow> rs]; gets = filter fst rs; gives = filter (\<lambda>r. \<not> fst r) rs
     in Inr ([(''#### 3.'' @ (str_int num) @ '' You will get / You will give '' @ u_emdash @ '' who owes what, and since when (on '' @
       (fdate FY_END) @ '')''), [],
              head_line (bname b) ((''on '' @ (fdate FY_END))), [], ageing_intro, []]
             @ table ageing_heads [AL, AL, AR, AR, AR, AR, AL]
                 (map (\<lambda>(s, bl, bk, c). c) gets @ [ageing_total ''Total you will get'' gets]
                  @ map (\<lambda>(s, bl, bk, c). c) gives @ [ageing_total ''Total you will give'' gives])
             @ [[]]))"

section \<open>The position on a date\<close>

datatype place = PHave | PGet | PGive | PFund

definition place_of :: "kind \<Rightarrow> int \<Rightarrow> place" where
  "place_of k bl =
     (if k \<in> set HAVE_KINDS then (if bl \<ge> 0 then PHave else PGive)
      else if k = Party \<or> k = Link then (if bl > 0 then PGet else PGive)
      else if k = Fund then PFund
      else if bl \<le> 0 then PGive else PHave)"

definition placed :: "posted_book \<Rightarrow> date \<Rightarrow> place \<Rightarrow> (string \<times> int) list" where
  "placed b d w =
     [(aname a, \<bar>bal_upto a d\<bar>). a \<leftarrow> accounts b,
        is_bs (kind a) \<and> \<not> is_equity (kind a) \<and> bal_upto a d \<noteq> 0 \<and> place_of (kind a) (bal_upto a d) = w]"

definition position_net :: "posted_book \<Rightarrow> date \<Rightarrow> int" where
  "position_net b d =
     (\<Sum>(n, x)\<leftarrow>placed b d PHave. x) + (\<Sum>(n, x)\<leftarrow>placed b d PGet. x) - (\<Sum>(n, x)\<leftarrow>placed b d PGive. x)
     - (\<Sum>(n, x)\<leftarrow>placed b d PFund. x)"

definition position_rows :: "posted_book \<Rightarrow> date \<Rightarrow> string list list" where
  "position_rows b d =
     (let have = placed b d PHave; gets = placed b d PGet; gives = placed b d PGive; funds = placed b d PFund;
          net = position_net b d
      in map (\<lambda>(n, x). [''What I have'', n, fmt0 x, []]) have
         @ [[[], bold ((''Total '' @ u_emdash @ '' what I have'')), bold (fmt0 (\<Sum>(n, x)\<leftarrow>have. x)), []]]
         @ map (\<lambda>(n, x). [''What I will get'', n, fmt0 x, []]) gets
         @ [[[], bold ((''Total '' @ u_emdash @ '' what I will get'')), bold (fmt0 (\<Sum>(n, x)\<leftarrow>gets. x)), []]]
         @ map (\<lambda>(n, x). [''What I will give'', n, [], fmt0 x]) gives
         @ [[[], bold ((''Total '' @ u_emdash @ '' what I will give'')), [], bold (fmt0 (\<Sum>(n, x)\<leftarrow>gives. x))]]
         @ (if funds \<noteq> [] then map (\<lambda>(n, x). [''Funds held for a purpose'', n, [], fmt0 x]) funds
              @ [[[], bold ((''Total '' @ u_emdash @ '' funds'')), [], bold (fmt0 (\<Sum>(n, x)\<leftarrow>funds. x))]] else [])
         @ [[[], bold (((own_word b) @ '' = have + will get '' @ u_minus @ '' will give'' @ (if funds \<noteq> [] then (('' '' @ u_minus @ '' funds'')) else []))),
             bold (fmt0 \<bar>net\<bar> @ (if net < 0 then '' Dr'' else [])), []]])"

definition plus_minus :: "int \<Rightarrow> string" where
  "plus_minus result = (if result \<ge> 0 then ''+'' else u_minus)"

definition make_up_rows :: "posted_book \<Rightarrow> date \<Rightarrow> string list list" where
  "make_up_rows b d =
     (case equity_parts b d of (start, put, taken) \<Rightarrow> case result_to b d of (inc, exp) \<Rightarrow>
      let result = inc - exp; own = start + put - taken + result
      in [[''Income so far'', fmt0 inc],
          [(u_minus @ '' Spent so far''), fmt0 exp],
          [bold ((''= Result so far ('' @ (result_word b result) @ '')'')), bold (fmt0 \<bar>result\<bar>)],
          [((own_word b) @ '' at the start of the year (01 Apr 2025)''), fmt0 start],
          [(''+ '' @ (put_word b) @ '' so far'' @ (put_note b)), fmt0 put],
          [(u_minus @ '' '' @ (taken_word b) @ '' so far'' @ (taken_note b)), fmt0 taken],
          [((plus_minus result) @ '' Result so far ('' @ (result_word b result) @ '')''), fmt0 \<bar>result\<bar>],
          [bold ((''= '' @ (own_word b) @ '' now'')), bold (fmt0 own)]])"

definition make_up :: "posted_book \<Rightarrow> date \<Rightarrow> int" where
  "make_up b d =
     (case equity_parts b d of (start, put, taken) \<Rightarrow> case result_to b d of (inc, exp) \<Rightarrow> start + put - taken + (inc - exp))"

definition position_intro :: "posted_book \<Rightarrow> date \<Rightarrow> string" where
  "position_intro b d =
     (let funds = list_ex (\<lambda>a. kind a = Fund \<and> bal_upto a d \<noteq> 0) (accounts b);
          own = (if style b = Npo then own_word b else str_lower (own_word b))
      in (''Every account with a balance on '' @ (fdate d) @ '', placed on the side its balance falls. What I have plus what I will get, less what I will give'' @
       (if funds then '' and less the funds held for a purpose'' else []) @ '', is the '' @ own @ ''.''))"

definition position_table :: "posted_book \<Rightarrow> date \<Rightarrow> string \<Rightarrow> error + string list" where
  "position_table b d heading =
     ebind (assert_that (make_up b d = position_net b d) ''position make-up'') (\<lambda>_.
     Inr ([''#### '' @ heading, [], head_line (bname b) ((''on '' @ (fdate d))), [], position_intro b d, []]
          @ table [[], ''Account'', (''Have / will get '' @ u_rupee), (''Will give / funds '' @ u_rupee)] [AL, AL, AR, AR] (position_rows b d)
          @ [[]]
          @ table [''How it is made up'', u_rupee] [AL, AR] (make_up_rows b d)
          @ [[]]
          @ foot_notes b (shows_things_owned b d) True (shows_stakes b d) (Some d)))"

section \<open>The statements during the year\<close>

definition month_row :: "date \<Rightarrow> date \<Rightarrow> ledger_account \<Rightarrow> string list" where
  "month_row s e a =
     (let ob = bal_upto a (prev_day s) in case acct_movement a s e of (d, c) \<Rightarrow>
      let cb = ob + d - c in [aname a, fmt0 \<bar>ob\<bar>, side_of ob, fmt d, fmt c, fmt0 \<bar>cb\<bar>, side_of cb])"

definition month_moved :: "date \<Rightarrow> date \<Rightarrow> ledger_account \<Rightarrow> bool" where
  "month_moved s e a = (\<not> (bal_upto a (prev_day s) = 0 \<and> acct_movement a s e = (0, 0)))"

definition sec_month :: "posted_book \<Rightarrow> error + string list" where
  "sec_month b =
     (case STATEMENT_MONTH of (y, m) \<Rightarrow>
      let s = D y m 1; e = month_end y m;
          listed = filter (month_moved s e) (accounts b);
          tdr = (\<Sum>a\<leftarrow>listed. fst (acct_movement a s e)); tcr = (\<Sum>a\<leftarrow>listed. snd (acct_movement a s e));
          inc = (\<Sum>a\<leftarrow>accounts b. if kind a = Income then snd (acct_movement a s e) - fst (acct_movement a s e) else 0);
          exp = (\<Sum>a\<leftarrow>accounts b. if kind a = Expense then fst (acct_movement a s e) - snd (acct_movement a s e) else 0)
      in ebind (assert_that (tdr = tcr) ''month totals'') (\<lambda>_.
         Inr ([(''#### 3.3 One month '' @ u_emdash @ '' '' @ (month_name y m) @ '', account by account''), [], head_line (bname b) (month_name y m), [],
               (''Every account's balance on '' @ (fdate s) @ '', what went on its Dr side and its Cr side during the month, and its balance on '' @
       (fdate e) @ ''. The month's entries are in each account's ledger.''), []]
              @ table [''Account'', (''Opening '' @ (fdate s) @ '' '' @ u_rupee), ''Side'', (''Dr side in month '' @ u_rupee), (''Cr side in month '' @ u_rupee), (''Closing '' @ (fdate e) @ '' '' @ u_rupee), ''Side'']
                  [AL, AR, AC, AR, AR, AR, AC]
                  (map (month_row s e) listed
                   @ [[bold (''Total of the month's entries''), [], [], bold (fmt0 tdr), bold (fmt0 tcr), [], []]])
              @ [[], (''*'' @ (month_name y m) @ '' in brief: income '' @ u_rupee @ (fmt0 inc) @ '' '' @ u_middot @ '' spent '' @ u_rupee @
       (fmt0 exp) @ '' '' @ u_middot @ '' '' @ (result_word b (inc - exp)) @ '' '' @ u_rupee @ (fmt0 \<bar>inc - exp\<bar>) @ ''.*''), []]
              @ foot_notes b (list_ex (\<lambda>a. kind a = Fixed \<and> month_moved s e a) (accounts b)) True 0 (Some e))))"

definition sent_note :: "string \<Rightarrow> string" where
  "sent_note name =
     ('' This is the copy sent to '' @ (take (length name - 4) name) @ '': it is read by them, so its columns are named by side '' @
       u_emdash @ '' *Naam (Dr)* and *Jama (Cr)* '' @ u_emdash @ '' and its last line says *Balance due from you* or *Balance due to you*.'')"

definition sec_custom :: "posted_book \<Rightarrow> error + string list" where
  "sec_custom b =
     (case custom b of
        None \<Rightarrow> Inl (TypeError ''cannot unpack None'')
      | Some (name, s, e, why) \<Rightarrow>
          ebind (case find_account b name of None \<Rightarrow> Inl (KeyError name) | Some a \<Rightarrow> Inr a) (\<lambda>a.
          let sent = (kind a = Party \<and> (style b = Business \<or> style b = Property))
          in ebind (if e = FY_END \<and> is_bs (kind a) then close_posts b name else Inr []) (\<lambda>cps.
             ebind (statement_table a (filter (\<lambda>r. s \<le> rdate r \<and> rdate r \<le> e) (rows a)) s e cps sent) (\<lambda>t.
             Inr ([(''#### 3.4 One account for a chosen period '' @ u_emdash @ '' '' @ name @ '', '' @ (fdate s) @ '' to '' @ (fdate e)), [],
                   head_line (((bname b) @ '' '' @ u_emdash @ '' '' @ name)) (((fdate s) @ '' to '' @ (fdate e))), [],
                   why @ (if sent then sent_note name else '' This is the statement the user shares.''), []]
                  @ t @ [[]])))))"

definition sec_statements :: "posted_book \<Rightarrow> error + string list" where
  "sec_statements b =
     ebind (position_table b MID_YEAR ((''3.1 Full position on '' @ (fdate MID_YEAR) @ '' '' @ u_emdash @ '' what I have, what I will get, what I will give''))) (\<lambda>p1.
     ebind (position_table b FY_END ((''3.2 Full position on '' @ (fdate FY_END) @ '' '' @ u_emdash @ '' year end''))) (\<lambda>p2.
     ebind (sec_month b) (\<lambda>m.
     ebind (sec_custom b) (\<lambda>c.
     ebind (sec_ageing b 5) (\<lambda>ag.
     ebind (if bank_extract b \<noteq> None then sec_bank_extract b 6 else Inr []) (\<lambda>be.
     Inr ([''### 3. Positions and statements during the year'', []] @ p1 @ p2 @ m @ c @ ag @ be)))))))"

section \<open>Open items are the newest amounts of the balance's side\<close>

text \<open>The specification: the newest amounts that add up to a total, the oldest of them in part.  The
  list is given newest first.\<close>

fun newest :: "int \<Rightarrow> item list \<Rightarrow> item list" where
  "newest t [] = []"
| "newest t ((d, x) # older) =
     (if t \<le> 0 then [] else if t \<le> x then [(d, t)] else newest (t - x) older @ [(d, x)])"

definition flip :: "item list \<Rightarrow> item list" where
  "flip items = map (\<lambda>(d, x). (d, - x)) items"

definition credits_removed :: "item list \<Rightarrow> item list" where
  "credits_removed h = filter (\<lambda>i. snd i > 0) h"

text \<open>The open items of a history of dated amounts: on the side of its balance.\<close>

definition open_spec :: "item list \<Rightarrow> item list" where
  "open_spec h =
     (let s = sum_list (map snd h)
      in if s > 0 then newest s (rev (credits_removed h))
         else flip (newest (- s) (rev (credits_removed (flip h)))))"

definition history :: "ledger_account \<Rightarrow> date \<Rightarrow> item list" where
  "history a d =
     (if opening_bal a \<noteq> 0 then [(FY_START, opening_bal a)] else [])
     @ map (\<lambda>r. (rdate r, dr r - cr r)) (filter (\<lambda>r. rdate r \<le> d) (rows a))"

fun cut :: "int \<Rightarrow> item list \<Rightarrow> item list" where
  "cut y [] = []"
| "cut y ((d, x) # its) = (if y \<ge> x then cut (y - x) its else (d, x - y) # its)"

lemma flip_simps [simp]:
  "flip [] = []" "flip ((d, x) # its) = (d, - x) # flip its" "flip (xs @ ys) = flip xs @ flip ys"
  "flip (flip its) = its" "sum_list (map snd (flip its)) = - sum_list (map snd its)" "flip its = [] \<longleftrightarrow> its = []"
  by (induction its) (auto simp: flip_def uminus_sum_list_map o_def split_def)

lemma credits_removed_simps [simp]:
  "credits_removed [] = []" "credits_removed (xs @ ys) = credits_removed xs @ credits_removed ys"
  "credits_removed ((d, x) # h) = (if x > 0 then (d, x) # credits_removed h else credits_removed h)"
  by (simp_all add: credits_removed_def)

abbreviation all_pos :: "item list \<Rightarrow> bool" where
  "all_pos its \<equiv> list_all (\<lambda>i. snd i > 0) its"

lemma all_pos_sum: "all_pos its \<Longrightarrow> 0 \<le> sum_list (map snd its)"
  by (induction its) auto

lemma cut_0: "all_pos its \<Longrightarrow> cut 0 its = its"
  by (cases its) auto

declare settle.simps(2) [simp del]

lemma settle_same: "amt = 0 \<or> (x > 0) = (amt > 0) \<Longrightarrow> settle ((d, x) # items) amt = ((d, x) # items, amt)"
  by (subst settle.simps(2)) simp

lemma settle_other:
  "\<not> (amt = 0 \<or> (x > 0) = (amt > 0)) \<Longrightarrow> t = min \<bar>amt\<bar> \<bar>x\<bar> \<Longrightarrow> x' = x + (if x < 0 then t else - t) \<Longrightarrow>
   amt' = amt + (if amt < 0 then t else - t) \<Longrightarrow>
   settle ((d, x) # items) amt = (if x' = 0 then settle items amt' else settle ((d, x') # items) amt')"
  by (subst settle.simps(2)) (simp only: Let_def if_False)

lemma settle_pos:
  "all_pos its \<Longrightarrow> 0 \<le> y \<Longrightarrow>
   settle its (- y) = (if y < sum_list (map snd its) then (cut y its, 0) else ([], sum_list (map snd its) - y))"
proof (induction its arbitrary: y)
  case (Cons i its)
  obtain d x where i: "i = (d, x)" by (cases i)
  have x: "0 < x" and pos: "all_pos its" using Cons.prems by (simp_all add: i)
  note sum = all_pos_sum [OF pos]
  consider "y = 0" | "0 < y" "y < x" | "x \<le> y" using Cons.prems by linarith
  then show ?case
  proof cases
    case 1
    with x sum show ?thesis by (simp add: i settle_same)
  next
    case 2
    with x have "settle (i # its) (- y) = settle ((d, x - y) # its) 0"
      using settle_other [of "- y" x y "x - y" 0 d its] by (simp add: i)
    with 2 x sum show ?thesis by (simp add: i settle_same)
  next
    case 3
    with x have "settle (i # its) (- y) = settle its (x - y)"
      using settle_other [of "- y" x x 0 "x - y" d its] by (simp add: i)
    with Cons.IH [OF pos, of "y - x"] 3 show ?thesis by (simp add: i)
  qed
qed simp

lemma settle_flip:
  "list_all (\<lambda>i. snd i \<noteq> 0) its \<Longrightarrow> settle (flip its) (- y) = (case settle its y of (js, z) \<Rightarrow> (flip js, - z))"
proof (induction its y rule: settle.induct)
  case (2 d x items amt)
  let ?t = "min \<bar>amt\<bar> \<bar>x\<bar>"
  let ?x = "x + (if x < 0 then ?t else - ?t)" and ?a = "amt + (if amt < 0 then ?t else - ?t)"
  show ?case
  proof (cases "amt = 0 \<or> (x > 0) = (amt > 0)")
    case True
    with 2(3) have "- amt = 0 \<or> (- x > 0) = (- amt > 0)" by auto
    with True show ?thesis by (simp add: settle_same)
  next
    case False
    with 2(3) have flipped: "\<not> (- amt = 0 \<or> (- x > 0) = (- amt > 0))" "x \<noteq> 0" "amt \<noteq> 0" by auto
    have x: "- x + (if - x < 0 then ?t else - ?t) = - ?x" and a: "- amt + (if - amt < 0 then ?t else - ?t) = - ?a"
      using flipped by auto
    have l: "settle ((d, x) # items) amt = (if ?x = 0 then settle items ?a else settle ((d, ?x) # items) ?a)"
      using False by (rule settle_other) simp_all
    have r: "settle (flip ((d, x) # items)) (- amt)
        = (if - ?x = 0 then settle (flip items) (- ?a) else settle ((d, - ?x) # flip items) (- ?a))"
      using settle_other [OF flipped(1), of ?t "- ?x" "- ?a" d "flip items"] x a by simp
    show ?thesis
    proof (cases "?x = 0")
      case True
      then show ?thesis unfolding l r using 2(1) [OF False refl refl refl True] 2(3) by simp
    next
      case nz: False
      then show ?thesis unfolding l r using 2(2) [OF False refl refl refl nz] 2(3) by simp
    qed
  qed
qed simp

lemma sum_snds [simp]: "(\<Sum>(d, x)\<leftarrow>its. x) = sum_list (map snd its)"
  by (simp add: split_def)

lemma newest_props:
  "all_pos its \<Longrightarrow> 0 \<le> t \<Longrightarrow> t \<le> sum_list (map snd its) \<Longrightarrow>
   all_pos (newest t its) \<and> sum_list (map snd (newest t its)) = t"
  by (induction t its rule: newest.induct) auto

lemma cut_append:
  "all_pos its \<Longrightarrow> 0 \<le> y \<Longrightarrow>
   cut y (its @ js) = (if y < sum_list (map snd its) then cut y its @ js else cut (y - sum_list (map snd its)) js)"
proof (induction y its rule: cut.induct)
  case (2 y d x its)
  then show ?case using all_pos_sum [of its] by (auto simp: diff_diff_eq)
qed simp

lemma cut_newest:
  "all_pos its \<Longrightarrow> t \<le> sum_list (map snd its) \<Longrightarrow> 0 \<le> y \<Longrightarrow> y < t \<Longrightarrow> cut y (newest t its) = newest (t - y) its"
proof (induction t its arbitrary: y rule: newest.induct)
  case (2 t d x older)
  show ?case
  proof (cases "t \<le> x")
    case False
    with 2 have pos: "all_pos (newest (t - x) older)" and sum: "sum_list (map snd (newest (t - x) older)) = t - x"
      using newest_props [of older "t - x"] by auto
    from False 2 show ?thesis by (auto simp: cut_append [OF pos] sum algebra_simps)
  qed (use 2 in auto)
qed simp

definition add_amount :: "item list \<Rightarrow> item \<Rightarrow> item list" where
  "add_amount items i =
     (case settle items (snd i) of (its, amt) \<Rightarrow> if amt \<noteq> 0 then its @ [(fst i, amt)] else its)"

lemma credits_removed_pos [simp]: "all_pos (credits_removed h)"
  by (induction h) (auto simp: credits_removed_def)

lemma all_pos_rev [simp]: "all_pos (rev its) = all_pos its"
  by simp

lemma sum_credits_removed:
  "sum_list (map snd h) = sum_list (map snd (credits_removed h)) - sum_list (map snd (credits_removed (flip h)))"
  by (induction h) auto

lemma sum_rev_snd [simp]: "sum_list (map snd (rev its)) = sum_list (map snd its)"
  for its :: "item list"
  by (induction its) auto

lemma newest_nonpos [simp]: "t \<le> 0 \<Longrightarrow> newest t its = []"
  by (cases its) auto

lemma open_spec_pos:
  "0 \<le> sum_list (map snd h) \<Longrightarrow> open_spec h = newest (sum_list (map snd h)) (rev (credits_removed h))"
  by (simp add: open_spec_def Let_def)

lemma open_spec_flip: "open_spec (flip h) = flip (open_spec h)"
  by (simp add: open_spec_def Let_def)

lemma newest_credits:
  assumes "0 \<le> sum_list (map snd h)"
  shows "all_pos (newest (sum_list (map snd h)) (rev (credits_removed h)))"
    and "sum_list (map snd (newest (sum_list (map snd h)) (rev (credits_removed h)))) = sum_list (map snd h)"
  using newest_props [of "rev (credits_removed h)" "sum_list (map snd h)"] assms
    sum_credits_removed [of h] all_pos_sum [OF credits_removed_pos, of "flip h"] by auto

lemma settle_debit: "all_pos its \<Longrightarrow> 0 < x \<Longrightarrow> settle its x = (its, x)"
  by (cases its) (auto simp: settle_same)

lemma add_amount_pos:
  assumes s: "0 \<le> sum_list (map snd h)"
  shows "add_amount (open_spec h) (d, x) = open_spec (h @ [(d, x)])"
proof -
  let ?s = "sum_list (map snd h)"
  note its = newest_credits [OF s]
  consider "x = 0" | "0 < x" | "x < 0" "- x < ?s" | "x < 0" "?s \<le> - x" by linarith
  then show ?thesis
  proof cases
    case 1
    have "settle js 0 = (js, 0)" for js by (cases js) (auto simp: settle_same)
    with 1 s show ?thesis by (simp add: add_amount_def open_spec_pos)
  next
    case 2
    with s its show ?thesis by (auto simp: add_amount_def open_spec_pos settle_debit)
  next
    case 3
    with s its show ?thesis
      using settle_pos [OF its(1), of "- x"] cut_newest [of "rev (credits_removed h)" ?s "- x"]
        sum_credits_removed [of h] all_pos_sum [OF credits_removed_pos, of "flip h"]
      by (simp add: add_amount_def open_spec_pos)
  next
    case 4
    with s its show ?thesis
      using settle_pos [OF its(1), of "- x"]
      by (auto simp: add_amount_def open_spec_pos open_spec_def [of "h @ [(d, x)]"] Let_def)
  qed
qed

lemma add_amount_flip:
  "list_all (\<lambda>i. snd i \<noteq> 0) its \<Longrightarrow> add_amount (flip its) (d, - x) = flip (add_amount its (d, x))"
  by (auto simp: add_amount_def settle_flip split: prod.splits)

lemma add_amount_open_spec: "add_amount (open_spec h) (d, x) = open_spec (h @ [(d, x)])"
proof (cases "0 \<le> sum_list (map snd h)")
  case False
  then have s: "0 \<le> sum_list (map snd (flip h))" by simp
  have nz: "list_all (\<lambda>i. snd i \<noteq> 0) (open_spec (flip h))"
    using newest_credits(1) [OF s] unfolding open_spec_pos [OF s] by (auto simp: list_all_iff)
  have "add_amount (flip (open_spec (flip h))) (d, - (- x)) = flip (add_amount (open_spec (flip h)) (d, - x))"
    by (rule add_amount_flip [OF nz])
  also have "... = flip (open_spec (flip (h @ [(d, x)])))"
    using add_amount_pos [OF s, of d "- x"] by simp
  finally show ?thesis unfolding open_spec_flip by simp
qed (rule add_amount_pos)

lemma open_items_spec: "foldl add_amount [] h = open_spec h"
proof (induction h rule: rev_induct)
  case (snoc i h)
  then show ?case using add_amount_open_spec [of h "fst i" "snd i"] by simp
qed (simp add: open_spec_def)

lemma open_spec_sum: "sum_list (map snd (open_spec h)) = sum_list (map snd h)"
proof (cases "0 \<le> sum_list (map snd h)")
  case True
  then show ?thesis by (simp add: open_spec_pos newest_credits)
next
  case False
  then have s: "0 \<le> sum_list (map snd (flip h))" by simp
  from newest_credits(2) [OF s] show ?thesis
    using open_spec_flip [of h] open_spec_pos [OF s] by (metis flip_simps(5) minus_equation_iff)
qed

lemma open_spec_side:
  "list_all (\<lambda>i. snd i \<noteq> 0 \<and> (snd i > 0) = (sum_list (map snd h) > 0)) (open_spec h)"
proof (cases "0 \<le> sum_list (map snd h)")
  case True
  with newest_credits(1) [OF True] show ?thesis
    by (cases "sum_list (map snd h) = 0") (auto simp: open_spec_pos list_all_iff)
next
  case False
  then have s: "0 \<le> sum_list (map snd (flip h))" by simp
  have "open_spec h = flip (open_spec (flip h))" by (simp add: open_spec_flip)
  moreover have "all_pos (open_spec (flip h))"
    unfolding open_spec_pos [OF s] by (rule newest_credits(1) [OF s])
  ultimately show ?thesis using False by (auto simp: list_all_iff flip_def)
qed

lemma fifo_rows:
  "foldl fifo_step items rs = foldl add_amount items (map (\<lambda>r. (rdate r, dr r - cr r)) rs)"
proof (induction rs arbitrary: items)
  case (Cons r rs)
  have "fifo_step items r = add_amount items (rdate r, dr r - cr r)"
    by (simp add: fifo_step_def add_amount_def split: prod.split)
  with Cons show ?case by simp
qed simp

lemma takeWhile_sorted: "sorted (map f xs) \<Longrightarrow> takeWhile (\<lambda>x. f x \<le> d) xs = filter (\<lambda>x. f x \<le> d) xs"
  for d :: "'a::linorder"
proof (induction xs)
  case (Cons x xs)
  then have "filter (\<lambda>x. f x \<le> d) xs = []" if "\<not> f x \<le> d"
    using that by (auto simp: filter_empty_conv dest: order_trans)
  with Cons show ?case by (cases "f x \<le> d") auto
qed simp

lemma rows_sorted:
  assumes "posted_ok b" "a \<in> set (accounts b)"
  shows "sorted (map rdate (rows a))"
  using sorted_account_lines [OF assms(1), of "aname a"]
  unfolding rows_account_lines(1) [OF assms, symmetric] by (simp add: o_def)

lemma fifo_history:
  assumes "posted_ok b" "a \<in> set (accounts b)"
  shows "fifo_open_items a d = open_spec (history a d)"
proof -
  have start: "(if opening_bal a \<noteq> 0 then [(FY_START, opening_bal a)] else [])
      = foldl add_amount [] (if opening_bal a \<noteq> 0 then [(FY_START, opening_bal a)] else [])"
    by (simp add: add_amount_def)
  show ?thesis
    unfolding fifo_open_items_def takeWhile_sorted [OF rows_sorted [OF assms]] fifo_rows history_def
      open_items_spec [symmetric] foldl_append
    by (subst start) (rule refl)
qed

lemma history_sum: "sum_list (map snd (history a d)) = bal_upto a d"
  by (simp add: history_def bal_upto_def o_def sum_list_filter_if)

text \<open>An item is a date and an amount; the open items are those the specification names.\<close>

text \<open>C11. The open items of any account of a finalised book, on any date, are exactly what the
  specification names: the newest amounts on the side of the balance that add up to it, the oldest of
  them in part. They add up to the balance, and none is nil or on the other side.\<close>

theorem fifo_is_newest:
  assumes "book_wf b0" "finalize b0 = Inr b" "a \<in> set (accounts b)"
  shows "fifo_open_items a d = open_spec (history a d)
    \<and> (\<Sum>(e, x)\<leftarrow>fifo_open_items a d. x) = bal_upto a d
    \<and> list_all (\<lambda>(e, x). x \<noteq> 0 \<and> (x > 0) = (bal_upto a d > 0)) (fifo_open_items a d)"
  using fifo_history [OF finalize_posted_ok [OF assms(1,2)] assms(3), of d] open_spec_sum [of "history a d"]
    open_spec_side [of "history a d"]
  by (simp add: history_sum split_def)

section \<open>The list of what is owed never fails\<close>

lemma bucket_less: "bucket d < 3"
  by (simp add: bucket_def Let_def)

lemma buckets_total: "sum_list (buckets its) = (\<Sum>(d, x)\<leftarrow>its. \<bar>x\<bar>)"
proof (induction its)
  case (Cons i its)
  obtain d x where "i = (d, x)" by (cases i)
  moreover have "bucket d = 0 \<or> bucket d = 1 \<or> bucket d = 2" using bucket_less [of d] by linarith
  ultimately show ?case using Cons by (auto simp: buckets_def)
qed (simp add: buckets_def)

lemma same_side_abs:
  "list_all (\<lambda>(d, x). x \<noteq> 0 \<and> (x > 0) = (s > 0)) its \<Longrightarrow> (\<Sum>(d, x)\<leftarrow>its. \<bar>x\<bar>) = \<bar>\<Sum>(d, x)\<leftarrow>its. x\<bar>"
  for s :: int and its :: "item list"
proof (induction its)
  case (Cons i its)
  have "list_all (\<lambda>(d, x). x \<noteq> 0 \<and> (x > 0) = (s > 0)) js \<Longrightarrow>
      (s > 0 \<longrightarrow> 0 \<le> sum_list (map snd js)) \<and> (\<not> s > 0 \<longrightarrow> sum_list (map snd js) \<le> 0)" for js :: "item list"
    by (induction js) auto
  from this [of its] Cons show ?case by (cases i) (auto simp: split_def)
qed simp

lemma ageing_row_ok:
  assumes "posted_ok b" "a \<in> set (accounts b)"
  shows "is_ok (ageing_row a)"
    and "kind a = Party \<Longrightarrow> bal_upto a FY_END \<noteq> 0 \<Longrightarrow>
      \<exists>bk cs. ageing_row a = Inr (Some (bal_upto a FY_END > 0, \<bar>bal_upto a FY_END\<bar>, bk, cs))
        \<and> sum_list bk = \<bar>bal_upto a FY_END\<bar> \<and> bk = buckets (open_spec (history a FY_END))"
proof -
  let ?its = "open_spec (history a FY_END)"
  have sum: "(\<Sum>(d, x)\<leftarrow>?its. x) = bal_upto a FY_END" by (simp add: open_spec_sum history_sum)
  have ne: "?its \<noteq> []" if "bal_upto a FY_END \<noteq> 0" using sum that by auto
  have tot: "sum_list (buckets ?its) = \<bar>bal_upto a FY_END\<bar>"
    unfolding buckets_total sum [symmetric]
    using open_spec_side [of "history a FY_END"] by (intro same_side_abs [of "bal_upto a FY_END"]) (simp add: history_sum split_def)
  show "is_ok (ageing_row a)"
    using ne sum by (cases ?its) (auto simp: ageing_row_def Let_def fifo_history [OF assms] assert_that_def)
  show "\<exists>bk cs. ageing_row a = Inr (Some (bal_upto a FY_END > 0, \<bar>bal_upto a FY_END\<bar>, bk, cs))
        \<and> sum_list bk = \<bar>bal_upto a FY_END\<bar> \<and> bk = buckets ?its"
    if "kind a = Party" "bal_upto a FY_END \<noteq> 0"
    using that ne sum tot by (cases ?its) (auto simp: ageing_row_def Let_def fifo_history [OF assms] assert_that_def)
qed

lemma sec_ageing_ok:
  assumes "posted_ok b"
  shows "is_ok (sec_ageing b n)"
proof -
  have "is_ok (emap ageing_row (accounts b))"
    unfolding emap_ok by (blast intro: ageing_row_ok(1) [OF assms])
  then show ?thesis by (auto simp: sec_ageing_def is_ok_iff Let_def)
qed

section \<open>The position adds up unless a fund is overspent\<close>

definition overspent :: "posted_book \<Rightarrow> date \<Rightarrow> bool" where
  "overspent b d = list_ex (\<lambda>a. kind a = Fund \<and> bal_upto a d > 0) (accounts b)"

lemma balances_nil_on: "posted_ok b \<Longrightarrow> (\<Sum>a\<leftarrow>accounts b. bal_upto a d) = 0"
  using sum_accounts [of b "\<lambda>n x. x" d] books.balances_nil [of b d] by simp

lemma equity_moved:
  assumes "posted_ok b" "a \<in> set (accounts b)"
  shows "fst (acct_movement a FY_START d) - snd (acct_movement a FY_START d) = bal_upto a d - opening_bal a"
proof -
  have "filter (\<lambda>r. FY_START \<le> rdate r \<and> rdate r \<le> d) (rows a) = filter (\<lambda>r. rdate r \<le> d) (rows a)"
    using rows_year [OF assms] by (intro filter_cong) auto
  then show ?thesis
    by (simp add: acct_movement_def bal_upto_def rows_diff sum_list_filter_if [symmetric])
qed

definition place_sign :: "place \<Rightarrow> int" where
  "place_sign w = (case w of PHave \<Rightarrow> 1 | PGet \<Rightarrow> 1 | PGive \<Rightarrow> - 1 | PFund \<Rightarrow> - 1)"

lemma position_net_alt:
  "position_net b d = (\<Sum>a\<leftarrow>accounts b. if is_bs (kind a) \<and> \<not> is_equity (kind a) \<and> bal_upto a d \<noteq> 0
     then place_sign (place_of (kind a) (bal_upto a d)) * \<bar>bal_upto a d\<bar> else 0)"
proof -
  have "(\<Sum>(n, x)\<leftarrow>[(f a, g a). a \<leftarrow> xs, P a \<and> h a = PHave]. x) + (\<Sum>(n, x)\<leftarrow>[(f a, g a). a \<leftarrow> xs, P a \<and> h a = PGet]. x)
      - (\<Sum>(n, x)\<leftarrow>[(f a, g a). a \<leftarrow> xs, P a \<and> h a = PGive]. x) - (\<Sum>(n, x)\<leftarrow>[(f a, g a). a \<leftarrow> xs, P a \<and> h a = PFund]. x)
      = (\<Sum>a\<leftarrow>xs. if P a then place_sign (h a) * g a else 0)"
    for xs and f :: "ledger_account \<Rightarrow> string" and g :: "ledger_account \<Rightarrow> int" and P h
  proof (induction xs)
    case (Cons a xs)
    then show ?case by (cases "h a") (auto simp: place_sign_def)
  qed simp
  from this [where xs = "accounts b" and P = "\<lambda>a. is_bs (kind a) \<and> \<not> is_equity (kind a) \<and> bal_upto a d \<noteq> 0"
      and h = "\<lambda>a. place_of (kind a) (bal_upto a d)" and f = aname and g = "\<lambda>a. \<bar>bal_upto a d\<bar>"]
  show ?thesis by (simp add: position_net_def placed_def conj_assoc)
qed

lemma place_value:
  "x \<noteq> 0 \<Longrightarrow> place_sign (place_of k x) * \<bar>x\<bar> = x - (if k = Fund \<and> x > 0 then 2 * x else 0)"
  by (auto simp: place_of_def place_sign_def HAVE_KINDS_def split: if_splits)

lemma own_before_result:
  assumes "posted_ok b"
  shows "(case equity_parts b d of (start, put, taken) \<Rightarrow> start + put - taken)
       = - (\<Sum>a\<leftarrow>accounts b. if is_equity (kind a) then bal_upto a d else 0)"
proof -
  have "(\<Sum>a\<leftarrow>xs. if is_equity (kind a) then opening_bal a else 0) - (\<Sum>a\<leftarrow>xs. if is_equity (kind a) then snd (acct_movement a FY_START d) else 0)
      + (\<Sum>a\<leftarrow>xs. if is_equity (kind a) then fst (acct_movement a FY_START d) else 0)
      = (\<Sum>a\<leftarrow>xs. if is_equity (kind a) then bal_upto a d else 0)" if "set xs \<subseteq> set (accounts b)" for xs
    using that by (induction xs) (use equity_moved [OF assms, of _ d] in force)+
  from this [of "accounts b"] show ?thesis by (simp add: equity_parts_def sum_list_filter_if)
qed

lemma make_up_eq:
  assumes "posted_ok b"
  shows "make_up b d = (\<Sum>a\<leftarrow>accounts b. if is_bs (kind a) \<and> \<not> is_equity (kind a) then bal_upto a d else 0)"
proof -
  have "(\<Sum>a\<leftarrow>xs. bal_upto a d) = (\<Sum>a\<leftarrow>xs. if is_equity (kind a) then bal_upto a d else 0)
      + (\<Sum>a\<leftarrow>xs. if kind a = Income then bal_upto a d else 0) + (\<Sum>a\<leftarrow>xs. if kind a = Expense then bal_upto a d else 0)
      + (\<Sum>a\<leftarrow>xs. if is_bs (kind a) \<and> \<not> is_equity (kind a) then bal_upto a d else 0)" for xs
    by (induction xs) (auto simp: is_equity_def is_bs_def EQUITY_KINDS_def)
  moreover have "(\<Sum>a\<leftarrow>xs. if P a then - f a else 0) = - (\<Sum>a\<leftarrow>xs. if P a then f a else 0)"
    for P and f :: "ledger_account \<Rightarrow> int" and xs by (induction xs) auto
  ultimately show ?thesis using own_before_result [OF assms, of d] balances_nil_on [OF assms, of d]
    by (simp add: make_up_def result_to_def sum_list_filter_if split_def)
qed

lemma make_up_gap:
  assumes "posted_ok b"
  shows "make_up b d - position_net b d = 2 * (\<Sum>a\<leftarrow>accounts b. if kind a = Fund \<and> bal_upto a d > 0 then bal_upto a d else 0)"
proof -
  have fund: "is_bs Fund" "\<not> is_equity Fund" by (simp_all add: is_bs_def is_equity_def EQUITY_KINDS_def)
  have "(\<Sum>a\<leftarrow>xs. if is_bs (kind a) \<and> \<not> is_equity (kind a) then bal_upto a d else 0)
      - (\<Sum>a\<leftarrow>xs. if is_bs (kind a) \<and> \<not> is_equity (kind a) \<and> bal_upto a d \<noteq> 0
           then place_sign (place_of (kind a) (bal_upto a d)) * \<bar>bal_upto a d\<bar> else 0)
      = 2 * (\<Sum>a\<leftarrow>xs. if kind a = Fund \<and> bal_upto a d > 0 then bal_upto a d else 0)" for xs
  proof (induction xs)
    case (Cons a xs)
    let ?x = "bal_upto a d"
    have "(if is_bs (kind a) \<and> \<not> is_equity (kind a) then ?x else 0)
        - (if is_bs (kind a) \<and> \<not> is_equity (kind a) \<and> ?x \<noteq> 0 then place_sign (place_of (kind a) ?x) * \<bar>?x\<bar> else 0)
        = 2 * (if kind a = Fund \<and> ?x > 0 then ?x else 0)"
      using place_value [of ?x "kind a"] fund by (auto split: if_splits)
    moreover have "(x + p) - (y + q) = 2 * (z + w)" if "x - y = 2 * z" "p - q = 2 * w" for x y z p q w :: int
      using that by simp
    ultimately show ?case using Cons unfolding list.map sum_list.Cons by blast
  qed simp
  then show ?thesis unfolding make_up_eq [OF assms] position_net_alt by blast
qed

lemma position_iff:
  assumes "posted_ok b"
  shows "make_up b d = position_net b d \<longleftrightarrow> \<not> overspent b d"
proof -
  have nil: "(\<Sum>a\<leftarrow>xs. if kind a = Fund \<and> bal_upto a d > 0 then bal_upto a d else 0) = 0
      \<longleftrightarrow> \<not> list_ex (\<lambda>a. kind a = Fund \<and> bal_upto a d > 0) xs" for xs
  proof (induction xs)
    case (Cons a xs)
    have "0 \<le> (\<Sum>a\<leftarrow>xs. if kind a = Fund \<and> bal_upto a d > 0 then bal_upto a d else 0)"
      by (intro sum_list_nonneg) auto
    with Cons show ?case by auto
  qed simp
  have "make_up b d = position_net b d
      \<longleftrightarrow> (\<Sum>a\<leftarrow>accounts b. if kind a = Fund \<and> bal_upto a d > 0 then bal_upto a d else 0) = 0"
    using make_up_gap [OF assms, of d] by linarith
  also have "... \<longleftrightarrow> \<not> overspent b d" unfolding nil overspent_def ..
  finally show ?thesis .
qed

lemma position_table_iff:
  assumes "posted_ok b"
  shows "is_ok (position_table b d h) \<longleftrightarrow> \<not> overspent b d"
    and "overspent b d \<Longrightarrow> position_table b d h = Inl (AssertionError ''position make-up'')"
  using position_iff [OF assms, of d] by (simp_all add: position_table_def assert_that_def)

section \<open>The statements of the year\<close>

lemma moved_in_period:
  assumes "posted_ok b"
  shows "(\<Sum>a\<leftarrow>accounts b. fst (acct_movement a s e)) = (\<Sum>a\<leftarrow>accounts b. snd (acct_movement a s e))"
proof -
  let ?P = "\<lambda>d. s \<le> d \<and> d \<le> e"
  have one: "fst (acct_movement a s e) - snd (acct_movement a s e)
      = (\<Sum>v\<leftarrow>vouchers b. if ?P (vdate v) then line_sum (aname a) (vlines v) else 0)" if "a \<in> set (accounts b)" for a
  proof -
    have "list_all2 row_matches (rows a) (lines_on (aname a) (vouchers b))"
      using posted_ok_ledger [OF assms that] by (simp add: ledger_ok_def)
    from rows_sum [OF this, of ?P] show ?thesis
      using lines_on_sum [of ?P "aname a" "vouchers b"] rows_diff [of "filter (\<lambda>r. ?P (rdate r)) (rows a)"]
      by (simp add: acct_movement_def sum_list_filter_if)
  qed
  have "(\<Sum>a\<leftarrow>accounts b. fst (acct_movement a s e)) - (\<Sum>a\<leftarrow>accounts b. snd (acct_movement a s e))
      = (\<Sum>a\<leftarrow>accounts b. \<Sum>v\<leftarrow>vouchers b. if ?P (vdate v) then line_sum (aname a) (vlines v) else 0)"
    unfolding sum_list_subtractf [symmetric] using one by (intro arg_cong [where f = sum_list] map_cong) auto
  also have "... = (\<Sum>v\<leftarrow>vouchers b. \<Sum>a\<leftarrow>accounts b. if ?P (vdate v) then line_sum (aname a) (vlines v) else 0)"
    by (rule sum_list_swap)
  also have "... = 0"
  proof (rule sum_list_zero_map)
    fix v assume "v \<in> set (vouchers b)"
    then have "(\<Sum>n\<leftarrow>order b. line_sum n (vlines v)) = 0"
      by (intro books.line_sum_all [OF assms, of "vdate v"]) (auto simp: dated_lines_def)
    then show "(\<Sum>a\<leftarrow>accounts b. if ?P (vdate v) then line_sum (aname a) (vlines v) else 0) = 0"
      by (cases "?P (vdate v)") (auto simp: order_def o_def intro!: sum_list_zero_map)
  qed
  finally show ?thesis by simp
qed

lemma sec_month_ok:
  assumes "posted_ok b"
  shows "is_ok (sec_month b)"
proof -
  obtain y m where ym: "STATEMENT_MONTH = (y, m)" by (cases STATEMENT_MONTH)
  let ?s = "D y m 1" and ?e = "month_end y m"
  have "(\<Sum>a\<leftarrow>filter (month_moved ?s ?e) (accounts b). f (acct_movement a ?s ?e)) = (\<Sum>a\<leftarrow>accounts b. f (acct_movement a ?s ?e))"
    if "f (0, 0) = 0" for f :: "int \<times> int \<Rightarrow> int"
    using that by (intro sum_list_filter_0) (auto simp: month_moved_def)
  from this [of fst] this [of snd] show ?thesis
    using moved_in_period [OF assms, of ?s ?e]
    by (simp add: sec_month_def ym Let_def assert_that_def)
qed

definition custom_ready :: "posted_book \<Rightarrow> bool" where
  "custom_ready b =
     (case custom b of None \<Rightarrow> False
      | Some (name, s, e, why) \<Rightarrow> known b name)"

lemma sec_custom_ok:
  assumes "closable b" "custom_ready b"
  shows "is_ok (sec_custom b)"
proof -
  obtain name s e why where c: "custom b = Some (name, s, e, why)" and "known b name"
    using assms(2) by (auto simp: custom_ready_def split: option.splits)
  then obtain a where a: "find_account b name = Some a" by (auto simp: known_def)
  obtain cps where cps: "close_posts b name = Inr cps" using closable_posts [OF assms(1)] by blast
  have "\<exists>t. statement_table a rs s e ps sent = Inr t" for rs ps sent
    using statement_ok [of a rs s e ps sent] by (auto simp: is_ok_iff)
  then show ?thesis by (auto simp: sec_custom_def c a cps Let_def is_ok_iff ebind_Inr)
qed

definition bank_ready :: "posted_book \<Rightarrow> bool" where
  "bank_ready b = (case bank_extract b of None \<Rightarrow> True | Some (name, ym) \<Rightarrow> known b name)"

lemma sec_statements_iff:
  assumes ok: "posted_ok b" and "closable b" "custom_ready b" "bank_ready b"
  shows "is_ok (sec_statements b) \<longleftrightarrow> \<not> overspent b MID_YEAR \<and> \<not> overspent b FY_END"
proof -
  have bank: "is_ok (sec_bank_extract b 6)" if "bank_extract b \<noteq> None"
    using that assms(4) by (auto simp: sec_bank_extract_def bank_ready_def known_def split: option.splits prod.splits)
  obtain m c ag where "sec_month b = Inr m" "sec_custom b = Inr c" "sec_ageing b 5 = Inr ag"
    using sec_month_ok [OF ok] sec_custom_ok [OF assms(2,3)] sec_ageing_ok [OF ok, of 5] by (auto simp: is_ok_iff)
  then have rest: "is_ok (sec_month b)" "is_ok (sec_custom b)" "is_ok (sec_ageing b 5)"
    "is_ok (if bank_extract b \<noteq> None then sec_bank_extract b 6 else Inr [])"
    using bank by auto
  have chain: "is_ok (ebind p1 (\<lambda>x1. ebind p2 (\<lambda>x2. ebind mo (\<lambda>x3. ebind cu (\<lambda>x4. ebind ow (\<lambda>x5. ebind ba (\<lambda>x6.
      Inr (f x1 x2 x3 x4 x5 x6)))))))) \<longleftrightarrow> is_ok p1 \<and> is_ok p2"
    if "is_ok mo" "is_ok cu" "is_ok ow" "is_ok ba"
    for p1 p2 mo cu ow ba and f :: "string list \<Rightarrow> string list \<Rightarrow> string list \<Rightarrow> string list \<Rightarrow> string list \<Rightarrow> string list \<Rightarrow> string list"
    using that by (auto simp: is_ok_iff ebind_Inr)
  show ?thesis
    unfolding sec_statements_def chain [OF rest] position_table_iff(1) [OF ok] ..
qed

text \<open>C12. The statements during the year of a finalised book that can be closed, whose chosen account
  and bank are accounts of the book, are drawn exactly when no fund is overspent at the middle or the
  end of the year: an overspent fund, whose debit balance the builder still places among the funds,
  stops the position with an assertion error.\<close>

theorem statements_unless_overspent:
  assumes "book_wf b0" "finalize b0 = Inr b" "closable b" "custom_ready b" "bank_ready b"
  shows "(is_ok (sec_statements b) \<longleftrightarrow> \<not> overspent b MID_YEAR \<and> \<not> overspent b FY_END)
    \<and> (overspent b MID_YEAR \<longrightarrow> sec_statements b = Inl (AssertionError ''position make-up''))"
proof -
  note ok = finalize_posted_ok [OF assms(1,2)]
  have "sec_statements b = Inl (AssertionError ''position make-up'')" if "overspent b MID_YEAR"
    unfolding sec_statements_def position_table_iff(2) [OF ok that] by simp
  with sec_statements_iff [OF ok assms(3,4,5)] show ?thesis by blast
qed

end
