(* ===== verification/Report_Year_End.thy ===== *)
theory Report_Year_End
  imports Report_Position
begin

text \<open>
  The year-end part of the printed book: the trial balance of closing balances, a trust's receipts and
  payments, the result for the year, each fund's year, a firm's appropriation, the close entries, the
  balance sheet after the close and what is carried into the next year (\<open>sec_closing\<close> and the sections it
  calls), and \<open>render_book_sections\<close>.  The result that \<open>sec_balance_sheet\<close> leaves in \<open>b.counts\<close> is
  \<open>year_result\<close>.
\<close>

section \<open>Trial balance of closing balances\<close>

definition closing_rows :: "posted_book \<Rightarrow> string list list" where
  "closing_rows b =
     [[aname a, fmt (debit_part (closing a)), fmt (credit_part (closing a))]. a \<leftarrow> accounts b, closing a \<noteq> 0]"

definition nil_names :: "posted_book \<Rightarrow> string list" where
  "nil_names b = [aname a. a \<leftarrow> accounts b, closing a = 0 \<and> (rows a \<noteq> [] \<or> opening_bal a \<noteq> 0)]"

definition trial_intro :: string where
  "trial_intro =
     ''The closing balance of every account after the last entry of the year (before the year-close entries below), Dr balances in one column and Cr balances in the other. The two totals must agree. Each account's opening, movements and closing are in its own ledger.''"

definition trial_section :: "posted_book \<Rightarrow> error + string list" where
  "trial_section b =
     (let tdr = (\<Sum>a\<leftarrow>accounts b. debit_part (closing a)); tcr = (\<Sum>a\<leftarrow>accounts b. credit_part (closing a)); zero = nil_names b
      in ebind (assert_that (tdr = tcr) ''trial balance'') (\<lambda>_.
         Inr ([(''### 4. Year end '' @ u_emdash @ '' FY 2025-26''), [], (''#### 4.1 Trial Balance on 31 Mar 2026 '' @ u_emdash @ '' closing balances only''), [],
               head_line (bname b) ((''on '' @ (fdate FY_END))), [], trial_intro, []]
              @ table [''Account'', (''Dr balance '' @ u_rupee), (''Cr balance '' @ u_rupee)] [AL, AR, AR]
                  (closing_rows b @ [[bold ''TOTALS'', bold (fmt tdr), bold (fmt tcr)]])
              @ [[], (''**Checked: Dr '' @ u_rupee @ (fmt tdr) @ '' = Cr '' @ u_rupee @ (fmt tcr) @ ''. The books balance.**'')]
              @ (if zero \<noteq> [] then [[], (''*Accounts with entries in the year but nil on 31 Mar 2026 (not listed above): '' @ (join_str ''; '' zero) @
       ''.*'')] else [])
              @ [[]]
              @ foot_notes b (shows_things_owned b FY_END) False 0 None)))"

section \<open>Receipts and payments of a trust\<close>

text \<open>The two dictionaries of the account: what was received and what was paid, by account.\<close>

type_synonym rp_state = "(string \<times> int) list \<times> (string \<times> int) list"

definition rp_fund_line :: "posted_book \<Rightarrow> rp_state \<Rightarrow> string \<times> int \<Rightarrow> error + rp_state" where
  "rp_fund_line b st l =
     (if snd l > 0
      then (case kind_of b (fst l) of
              None \<Rightarrow> Inl (KeyError (fst l))
            | Some k \<Rightarrow> Inr (if k = Expense \<or> k = Fixed then (fst st, upd_add (fst l) (snd l) (snd st)) else st))
      else Inr st)"

definition rp_line :: "posted_book \<Rightarrow> posted_voucher \<Rightarrow> rp_state \<Rightarrow> string \<times> int \<Rightarrow> error + rp_state" where
  "rp_line b v st l =
     (case kind_of b (fst l) of
        None \<Rightarrow> Inl (KeyError (fst l))
      | Some k \<Rightarrow>
          if is_money k then Inr st
          else ebind (assert_that ((vtype v = Receipt \<or> vtype v = Payment) \<and> (snd l > 0 \<or> (k \<noteq> Advance \<and> k \<noteq> Loan)))
                        ''R&P entry shape'') (\<lambda>_.
               Inr (if snd l < 0 then (upd_add (fst l) (- snd l) (fst st), snd st)
                    else (fst st, upd_add (fst l) (snd l) (snd st)))))"

definition rp_step :: "posted_book \<Rightarrow> rp_state \<Rightarrow> posted_voucher \<Rightarrow> error + rp_state" where
  "rp_step b st v =
     (if vtype v = Contra \<or> take 7 (vtype_str (vtype v)) = ''Journal'' then Inr st
      else if vtype v = FundPayment then efold (rp_fund_line b) st (vlines v)
      else efold (rp_line b v) st (vlines v))"

definition rp_entries :: "posted_book \<Rightarrow> error + rp_state" where
  "rp_entries b = efold (rp_step b) ([], []) (vouchers b)"

definition rp_left :: "posted_book \<Rightarrow> (string \<times> int) list \<Rightarrow> (string \<times> int) list" where
  "rp_left b receipts =
     [((''To Opening balance '' @ u_emdash @ '' '' @ (aname a)), opening_bal a). a \<leftarrow> accounts b, is_money (kind a)]
     @ [(''To '' @ n, x). n \<leftarrow> order b, x \<leftarrow> (case map_of receipts n of None \<Rightarrow> [] | Some x \<Rightarrow> [x])]"

definition rp_right :: "posted_book \<Rightarrow> (string \<times> int) list \<Rightarrow> (string \<times> int) list" where
  "rp_right b payments =
     [(''By '' @ n, x). n \<leftarrow> order b, x \<leftarrow> (case map_of payments n of None \<Rightarrow> [] | Some x \<Rightarrow> [x])]
     @ [((''By Closing balance '' @ u_emdash @ '' '' @ (aname a)), closing a). a \<leftarrow> accounts b, is_money (kind a)]"

fun side_by_side :: "(string \<times> int) list \<Rightarrow> (string \<times> int) list \<Rightarrow> string list list" where
  "side_by_side [] [] = []"
| "side_by_side ((n, x) # ls) [] = [n, fmt0 x, [], []] # side_by_side ls []"
| "side_by_side [] ((m, y) # rs) = [[], [], m, fmt0 y] # side_by_side [] rs"
| "side_by_side ((n, x) # ls) ((m, y) # rs) = [n, fmt0 x, m, fmt0 y] # side_by_side ls rs"

definition rp_intro :: string where
  "rp_intro =
     ''The cash book and the bank together: opening cash and bank, everything received and paid by account (things bought included), closing cash and bank. Money moved between own cash, gollak and bank is neither a receipt nor a payment and is left out; a cost paid from a fund is a payment of the cost.''"

definition sec_npo_rp :: "posted_book \<Rightarrow> int \<Rightarrow> error + string list" where
  "sec_npo_rp b num =
     ebind (rp_entries b) (\<lambda>(receipts, payments).
     let left = rp_left b receipts; right = rp_right b payments;
         tr = sum_list (map snd left); tp = sum_list (map snd right)
     in ebind (assert_that (tr = tp) ''R&P'') (\<lambda>_.
        Inr ([(''#### 4.'' @ (str_int num) @ '' Receipts & Payments Account for FY 2025-26''), [], head_line (bname b) ''FY 2025-26'', [], rp_intro, []]
             @ table [''Receipts'', u_rupee, ''Payments'', u_rupee] [AL, AR, AL, AR]
                 (side_by_side left right @ [[bold ''Total'', bold (fmt tr), bold ''Total'', bold (fmt tp)]])
             @ [[]])))"
section \<open>The result for the year\<close>

text \<open>The numbers of the subsections: the result, the funds, the appropriation, the close, the balance sheet and the carry forward.\<close>

record numbers =
  n_stmt :: int
  n_fund :: int
  n_appr :: int
  n_close :: int
  n_bs :: int
  n_cf :: int

definition has_funds :: "posted_book \<Rightarrow> bool" where
  "has_funds b = list_ex (\<lambda>a. kind a = Fund) (accounts b)"

definition numbers_of :: "posted_book \<Rightarrow> numbers" where
  "numbers_of b =
     (let num = (if style b = Npo then 3 else 2); nxt = num + 1 + (if has_funds b then 1 else 0);
          cl = nxt + (if partners b \<noteq> [] then 1 else 0)
      in \<lparr>n_stmt = num, n_fund = num + 1, n_appr = nxt, n_close = cl, n_bs = cl + 1, n_cf = cl + 2\<rparr>)"

definition pl_words :: "posted_book \<Rightarrow> numbers \<Rightarrow> string \<times> string" where
  "pl_words b k =
     (let c = str_int (n_close k) in
      if partners b \<noteq> [] then ((''Net profit '' @ u_emdash @ '' carried to the P&L Appropriation (4.'' @ (str_int (n_appr k)) @ '')''),
                               (''Net loss '' @ u_emdash @ '' carried to the P&L Appropriation (4.'' @ (str_int (n_appr k)) @ '')''))
      else case style b of
        Household \<Rightarrow> ((''Saving for the year '' @ u_emdash @ '' closed to own money (4.'' @ c @ '')''), (''Spent more than came in '' @ u_emdash @ '' taken from own money (4.'' @ c @ '')''))
      | Npo \<Rightarrow> ((''Surplus (income more than spent) '' @ u_emdash @ '' closed to the General Fund (4.'' @ c @ '')''),
               (''Deficit (spent more than income) '' @ u_emdash @ '' taken from the General Fund (4.'' @ c @ '')''))
      | _ \<Rightarrow> ((''Net profit '' @ u_emdash @ '' closed to own money (4.'' @ c @ '')''), (''Net loss '' @ u_emdash @ '' taken from own money (4.'' @ c @ '')'')))"

definition pl_rows :: "posted_book \<Rightarrow> numbers \<Rightarrow> string list list" where
  "pl_rows b k =
     (let ti = (\<Sum>a\<leftarrow>filter (\<lambda>a. kind a = Income) (accounts b). - closing a);
          te = (\<Sum>a\<leftarrow>filter (\<lambda>a. kind a = Expense) (accounts b). closing a); result = ti - te
      in [[''To '' @ aname a, str_int (int (length (rows a))), fmt0 (closing a), u_emdash]. a \<leftarrow> accounts b, kind a = Expense]
         @ [[''By '' @ aname a, str_int (int (length (rows a))), u_emdash, fmt0 (- closing a)]. a \<leftarrow> accounts b, kind a = Income]
         @ [[bold ''Total of the heads for the year'', [], bold (fmt0 te), bold (fmt0 ti)],
            (if result \<ge> 0 then [''To '' @ fst (pl_words b k), [], fmt0 result, u_emdash]
             else [''By '' @ snd (pl_words b k), [], u_emdash, fmt0 (- result)]),
            [bold ''Total'', [], bold (fmt (max te ti)), bold (fmt (max te ti))]])"

definition pl_intro :: string where
  "pl_intro =
     (''Every income and expense account's **total for the year** '' @ u_emdash @ '' the *Total for the year* line of its ledger '' @
       u_emdash @ '' with the number of entries that made it up. Only what was really received, spent or charged on credit during the year; nothing is added or spread at the year end.'')"

definition pl_section :: "posted_book \<Rightarrow> numbers \<Rightarrow> string list" where
  "pl_section b k =
     (let ti = (\<Sum>a\<leftarrow>filter (\<lambda>a. kind a = Income) (accounts b). - closing a);
          te = (\<Sum>a\<leftarrow>filter (\<lambda>a. kind a = Expense) (accounts b). closing a); result = ti - te
      in [(''#### 4.'' @ (str_int (n_stmt k)) @ '' '' @ (pl_title b) @ '' for FY 2025-26''), [], head_line (bname b) ''FY 2025-26'', [], pl_intro]
         @ (if pl_note b \<noteq> [] then [pl_note b] else []) @ [[]]
         @ table [''Particulars'', ''Entries'', (''Spent / expenses (Dr) '' @ u_rupee), (''Income (Cr) '' @ u_rupee)] [AL, AR, AR, AR] (pl_rows b k)
         @ [[], (''**FY 2025-26: income '' @ u_rupee @ (fmt0 ti) @ '' '' @ u_middot @ '' spent '' @ u_rupee @ (fmt0 te) @ '' '' @ u_middot @
       '' '' @ (result_word b result) @ '' '' @ u_rupee @ (fmt0 \<bar>result\<bar>) @ ''.**''), []]
         @ foot_notes b False True 0 (Some FY_END))"

section \<open>Each fund, the appropriation and the close entries\<close>

definition fund_intro :: string where
  "fund_intro =
     ''A fund holds money given for one purpose. Gifts for it and the interest its deposit earns are added to it; what is spent for the purpose is charged to Income & Expenditure like any other cost, and the same amount is moved out of the fund as one action (*paid from the fund*), so the fund's own result stays nil. What is left is money held for that purpose, not free money.''"

definition fund_ledger :: "posted_book \<Rightarrow> ledger_account \<Rightarrow> error + string list" where
  "fund_ledger b a =
     ebind (ledger_table b a (rows a) FY_START FY_END (''Opening balance b/f'', ''Closing balance c/d'', []) False ''Total for the year'' True False)
       (\<lambda>(ls, _). Inr ([(''**'' @ (aname a) @ ''**''), []] @ ls @ [[]]))"

definition sec_fund_statements :: "posted_book \<Rightarrow> int \<Rightarrow> error + string list" where
  "sec_fund_statements b num =
     ebind (emap (fund_ledger b) (filter (\<lambda>a. kind a = Fund) (accounts b))) (\<lambda>ls.
     Inr ([(''#### 4.'' @ (str_int num) @ '' Each fund '' @ u_emdash @ '' its year''), [], head_line (bname b) ''FY 2025-26'', [], fund_intro, []] @ concat ls))"

definition short_result_name :: "posted_book \<Rightarrow> string" where
  "short_result_name b = (let res = result_name (style b) in take (length res - 4) res)"

definition taken_words :: "posted_book \<Rightarrow> string" where
  "taken_words b =
     join_str '' and '' ([w. (k, w) \<leftarrow> [(Drawings, ''the drawings''), (Shareout, ''the business income shared out'')],
        list_ex (\<lambda>a. kind a = k) (accounts b)])"

definition close_intro :: "posted_book \<Rightarrow> string" where
  "close_intro b =
     (let dw = taken_words b;
          own = (if style b = Npo then ''the General Fund''
                 else if partners b \<noteq> [] then ''the partners' accounts, through the P&L Appropriation Account'' else ''own money'')
      in (''Nobody types these. When the year is closed the book itself closes every income head and every expense head to **'' @
       (short_result_name b) @ ''**, and then the result'' @ (if dw \<noteq> [] then '' and '' @ dw else []) @ '' to '' @
       own @ ''. After them every income head, every expense head'' @ (if dw \<noteq> [] then '', '' @ dw else []) @
       '' and '' @ (short_result_name b) @ '' stand at nil, and the ledgers above show each entry on its last row.''))"

definition close_line :: "close_entry \<Rightarrow> string list" where
  "close_line e =
     (case e of (no, what, ls) \<Rightarrow>
      let drs = filter (\<lambda>(n, x). x > 0) ls; crs = map (\<lambda>(n, x). (n, - x)) (filter (\<lambda>(n, x). x < 0) ls)
      in [no, fdate FY_END, what, side_cell drs, side_cell crs, fmt (sum_list (map snd drs))])"

definition sec_close_entries :: "posted_book \<Rightarrow> int \<Rightarrow> error + string list" where
  "sec_close_entries b num =
     ebind (close_entries b) (\<lambda>es.
     ebind (post_close_balances b) (\<lambda>_.
     Inr ([(''#### 4.'' @ (str_int num) @ '' Year close '' @ u_emdash @ '' the entries the book makes itself on '' @
       (fdate FY_END)), [],
           head_line (bname b) ((''year ended '' @ (fdate FY_END))), [], close_intro b, []]
          @ table [''No.'', ''Date'', ''What the book does'', ''Debit (Dr)'', ''Credit (Cr)'', (''Amount '' @ u_rupee)] [AL, AL, AL, AL, AL, AR]
              (map close_line es)
          @ [[]])))"

text \<open>\<open>str((Decimal(bp) / 100).normalize())\<close>: trailing zeros go, and a positive exponent is written with \<open>E\<close>.\<close>

definition percent_of :: "int \<Rightarrow> string" where
  "percent_of bp =
     (let ds = str_nat \<bar>bp\<bar>; z = length (takeWhile (\<lambda>c. c = CHR ''0'') (rev ds));
          c = take (length ds - z) ds;
          body = (if z = 2 then c
                  else if z < 2
                  then (let k = 2 - z; p = replicate (k + 1 - length c) (CHR ''0'') @ c
                        in take (length p - k) p @ ''.'' @ drop (length p - k) p)
                  else take 1 c @ (if length c > 1 then ''.'' @ drop 1 c else []) @ ''E+'' @ str_nat (int (z - 2 + length c - 1)))
      in if bp < 0 then ''-'' @ body else body)"

definition account_named :: "posted_book \<Rightarrow> string option \<Rightarrow> error + ledger_account" where
  "account_named b n =
     (case n of None \<Rightarrow> Inl (KeyError ''None'')
      | Some n \<Rightarrow> (case find_account b n of None \<Rightarrow> Inl (KeyError n) | Some a \<Rightarrow> Inr a))"

definition appr_how :: "posted_book \<Rightarrow> string" where
  "appr_how b =
     (let ratio = join_str '' : '' (map (\<lambda>p. str_int (share p)) (partners b))
      in case filter (\<lambda>p. ioc_bp p \<noteq> 0) (partners b) of
           p # _ \<Rightarrow> (''interest on capital at '' @ (percent_of (ioc_bp p)) @ ''% a year on each partner's fixed capital first (the partners agreed it, and it is allowed only out of profit), then the rest in the ratio '' @
       ratio)
         | [] \<Rightarrow> (''no interest on capital is added (the partners did not agree it); the whole profit is shared in the ratio '' @
       ratio))"

definition appr_intro :: "posted_book \<Rightarrow> int \<Rightarrow> string" where
  "appr_intro b close_num =
     (''How the year's profit is divided among the partners, as their agreement says: '' @ (appr_how b) @
       ''. The book posts this account at the year close and adds each partner's part to his account '' @
       u_emdash @ '' entries in 4.'' @ (str_int close_num) @ ''.'')"

definition interest_row :: "posted_book \<Rightarrow> partner \<times> int \<times> int \<Rightarrow> error + string list list" where
  "interest_row b e =
     (case e of (p, i, s) \<Rightarrow>
      if ioc_bp p = 0 then Inr []
      else ebind (account_named b (pcapital p)) (\<lambda>a.
           Inr [[(''To Interest on capital '' @ u_emdash @ '' '' @ (pname p)), ((percent_of (ioc_bp p)) @ ''% on '' @ u_rupee @ (fmt (- closing a))), fmt0 i, u_emdash]]))"

definition sec_appropriation :: "posted_book \<Rightarrow> int \<Rightarrow> int \<Rightarrow> int \<Rightarrow> error + string list" where
  "sec_appropriation b result num close_num =
     (let weights = sum_list (map share (partners b))
      in ebind (appropriation b result) (\<lambda>ap.
         ebind (emap (interest_row b) ap) (\<lambda>ints.
         Inr ([(''#### 4.'' @ (str_int num) @ '' Profit & Loss Appropriation Account for FY 2025-26''), [], head_line (bname b) ''FY 2025-26'', [],
               appr_intro b close_num, []]
              @ table [''Particulars'', ''Basis'', (''Dr '' @ u_rupee), (''Cr '' @ u_rupee)] [AL, AL, AR, AR]
                  (concat ints
                   @ map (\<lambda>(p, i, s). [(''To Share of profit '' @ u_emdash @ '' '' @ (pname p)), ((str_int (share p)) @ '' of '' @ (str_int weights)), fmt0 s, u_emdash]) ap
                   @ [[(''By Net profit for the year (4.'' @ (str_int (num - 1)) @ '')''), [], u_emdash, fmt0 result],
                      [bold ''Total'', [], bold (fmt result), bold (fmt result)]])
              @ [[]]))))"

section \<open>The balance sheet after the close\<close>

definition pcb_of :: "(string \<times> int) list \<Rightarrow> string \<Rightarrow> error + int" where
  "pcb_of pcb n = (case map_of pcb n of None \<Rightarrow> Inl (KeyError n) | Some x \<Rightarrow> Inr x)"

text \<open>What the loop over the accounts collects: what the book has or will get, its funds, what it will give.\<close>

definition sheet_placed :: "posted_book \<Rightarrow> place list \<Rightarrow> ledger_account list" where
  "sheet_placed b ps =
     filter (\<lambda>a. is_bs (kind a) \<and> \<not> is_equity (kind a) \<and> closing a \<noteq> 0 \<and> place_of (kind a) (closing a) \<in> set ps) (accounts b)"

definition sheet_assets :: "posted_book \<Rightarrow> int" where
  "sheet_assets b = (\<Sum>a\<leftarrow>sheet_placed b [PHave, PGet]. \<bar>closing a\<bar>)"

definition sheet_owed :: "posted_book \<Rightarrow> int" where
  "sheet_owed b = (\<Sum>a\<leftarrow>sheet_placed b [PFund, PGive]. - closing a)"

definition own_at_close :: "posted_book \<Rightarrow> int \<Rightarrow> int" where
  "own_at_close b result = (case equity_parts b FY_END of (start, put, taken) \<Rightarrow> start + put - taken + result)"

text \<open>One row of the partners' table: an account of the partner, with the interest and the share that are closed to it.\<close>

definition partner_row :: "posted_book \<Rightarrow> (string \<times> int) list \<Rightarrow> partner \<Rightarrow> string option \<times> int \<times> int \<Rightarrow> error + string list" where
  "partner_row b pcb p e =
     (case e of (nm, i, s) \<Rightarrow>
      ebind (account_named b nm) (\<lambda>a.
      ebind (pcb_of pcb (aname a)) (\<lambda>x.
      (case acct_movement a FY_START FY_END of (taken, put) \<Rightarrow>
       let after = - closing a + (i + s)
       in ebind (assert_that (- x = after \<and> opening_bal a + taken - put = closing a) (aname a)) (\<lambda>_.
          Inr [pname p, (if Some (aname a) = pcapital p then ''Capital'' else if pcapital p \<noteq> None then ''Current'' else ''Partner's account''),
               amt_side (opening_bal a), fmt put, fmt i, fmt s, fmt taken, amt_side (- after)])))))"

text \<open>A partner's part of the sheet: his rows, his own-money rows with their amounts, and what he owes the firm.\<close>

type_synonym partner_part = "string list list \<times> (string \<times> int) list \<times> (string \<times> int) list"

definition partner_sheet :: "posted_book \<Rightarrow> (string \<times> int) list \<Rightarrow> partner \<times> int \<times> int \<Rightarrow> error + partner_part" where
  "partner_sheet b pcb e =
     (case e of (p, i, s) \<Rightarrow>
      ebind (case pcapital p of None \<Rightarrow> Inr 0 | Some n \<Rightarrow> ebind (account_named b (Some n)) (\<lambda>a. Inr (- closing a))) (\<lambda>cap.
      ebind (emap (partner_row b pcb p)
               ((if pcapital p \<noteq> None then [(pcapital p, 0, 0)] else []) @ [(Some (pcurrent p), i, s)])) (\<lambda>prows.
      ebind (account_named b (Some (pcurrent p))) (\<lambda>cur.
      let after = - closing cur + i + s
      in Inr (prows,
           (if pcapital p = None then [(((pname p) @ '' '' @ u_emdash @ '' partner's account at the end''), after)]
            else (((pname p) @ '' '' @ u_emdash @ '' capital account at the end''), cap)
                 # (if after \<ge> 0 then [(((pname p) @ '' '' @ u_emdash @ '' current account at the end''), after)] else [])),
           (if pcapital p \<noteq> None \<and> after < 0 then [(((pcurrent p) @ '' (Dr '' @ u_emdash @ '' '' @ (pname p) @ '' owes the firm)''), - after)] else []))))))"

text \<open>\<open>int_or\<close>, which reads a printed amount back; \<open>int()\<close> of anything but ASCII digits counts as a \<open>ValueError\<close>.\<close>

definition digits_value :: "string \<Rightarrow> error + int" where
  "digits_value s = (if s \<noteq> [] \<and> list_all is_digit s then Inr (int_of_digits s) else Inl (ValueError s))"

definition int_or :: "string \<Rightarrow> error + int" where
  "int_or cell =
     (let s = str_replace '','' [] (str_replace ''**'' [] cell); neg = starts_with u_minus s; s = lstrip_minus s;
          r = takeWhile (\<lambda>c. c \<noteq> CHR ''.'') s; p = drop (Suc (length r)) s
      in ebind (digits_value r) (\<lambda>r.
         ebind (if p \<noteq> [] then digits_value p else Inr 0) (\<lambda>p.
         Inr (if neg then - (r * 100 + p) else r * 100 + p))))"

definition owner_rows :: "posted_book \<Rightarrow> int \<Rightarrow> string list list" where
  "owner_rows b result =
     (case equity_parts b FY_END of (start, put, taken) \<Rightarrow>
      [[((own_word b) @ '' '' @ u_emdash @ '' at the start, 01 Apr 2025''), fmt0 start],
       [(''Add: '' @ (str_lower (put_word b)) @ '' during the year'' @ (put_note b)), fmt0 put],
       [(''Less: '' @ (str_lower (taken_word b)) @ '' during the year'' @ (taken_note b)), fmt0 taken],
       [((if result \<ge> 0 then ''Add'' else ''Less'') @ '': '' @ (result_word b result) @ '' for the year''), fmt0 \<bar>result\<bar>],
       [bold (((own_word b) @ '' '' @ u_emdash @ '' at the end, 31 Mar 2026'')), bold (fmt0 (own_at_close b result))]])"

text \<open>The own money of the sheet: the lines printed first, the own-money rows, and what partners owe.\<close>

definition own_part :: "posted_book \<Rightarrow> (string \<times> int) list \<Rightarrow> int \<Rightarrow> error + (string list \<times> string list list \<times> (string \<times> int) list)" where
  "own_part b pcb result =
     (if partners b \<noteq> []
      then ebind (appropriation b result) (\<lambda>ap.
           ebind (emap (partner_sheet b pcb) ap) (\<lambda>ps.
           let prow = concat (map fst ps);
               eq = map (\<lambda>(n, x). [n, fmt0 x]) (concat (map (fst \<circ> snd) ps)); owes = concat (map (snd \<circ> snd) ps)
           in ebind (emap (\<lambda>r. int_or (r ! 1)) eq) (\<lambda>xs.
              ebind (assert_that (sum_list xs - sum_list (map snd owes) = own_at_close b result) ''partners' own money'') (\<lambda>_.
              Inr ([''**The partners' accounts at the year end**'', []]
                   @ table [''Partner'', ''Account'', (''Opening '' @ u_rupee), (''+ Put in '' @ u_rupee), (''+ Interest on capital '' @ u_rupee), (''+ Share of profit '' @ u_rupee), (u_minus @ '' Drawings '' @ u_rupee), (''Closing '' @ u_rupee)]
                       [AL, AL, AR, AR, AR, AR, AR, AR] prow
                   @ [[]],
                   eq, owes)))))
      else Inr ([], owner_rows b result, []))"

definition sheet_row :: "ledger_account \<Rightarrow> string list" where
  "sheet_row a =
     [aname a, fmt0 (if place_of (kind a) (closing a) \<in> {PHave, PGet} then \<bar>closing a\<bar> else - closing a)]"

definition sheet_lines ::
    "posted_book \<Rightarrow> int \<Rightarrow> string list list \<Rightarrow> (string \<times> int) list \<Rightarrow> int \<Rightarrow> int \<Rightarrow> string list" where
  "sheet_lines b num eq owes total_l ta =
     (let funds = map sheet_row (sheet_placed b [PFund])
      in [(''**Own money'' @ (if funds \<noteq> [] then '', funds'' else []) @ '', and what I will give**''), []]
         @ table [''Particulars'', u_rupee] [AL, AR]
             (eq @ funds @ map sheet_row (sheet_placed b [PGive]) @ [[bold ''Total'', bold (fmt0 total_l)]])
         @ [[], ''**What I have and will get**'', []]
         @ table [''Particulars'', u_rupee] [AL, AR]
             (map sheet_row (sheet_placed b [PHave, PGet]) @ map (\<lambda>(n, x). [n, fmt0 x]) owes @ [[bold ''Total'', bold (fmt0 ta)]])
         @ [[], (''**Both sides '' @ u_rupee @ (fmt0 ta) @ ''. The books balance.**''), []]
         @ (if assets_note b \<noteq> [] then [assets_note b, []] else [])
         @ foot_notes b (shows_things_owned b FY_END) True (shows_stakes b FY_END) (Some FY_END))"

definition sec_balance_sheet :: "posted_book \<Rightarrow> int \<Rightarrow> int \<Rightarrow> error + string list" where
  "sec_balance_sheet b result num =
     ebind (post_close_balances b) (\<lambda>pcb.
     ebind (emap (\<lambda>a. pcb_of pcb (aname a)) (filter (\<lambda>a. is_equity (kind a)) (accounts b))) (\<lambda>eqs.
     ebind (assert_that (- sum_list eqs = own_at_close b result) ''post-close own money'') (\<lambda>_.
     ebind (own_part b pcb result) (\<lambda>(first, eq, owes).
     let owed = sum_list (map snd owes); ta = sheet_assets b + owed; total_l = sheet_owed b + own_at_close b result + owed
     in ebind (assert_that (total_l = ta) ''balance sheet'') (\<lambda>_.
        Inr ([(''#### 4.'' @ (str_int num) @ '' Full position on 31 Mar 2026 (Balance Sheet)''), [],
              head_line (bname b) ((''on '' @ (fdate FY_END) @ '', after the year close'')), []]
             @ first @ sheet_lines b num eq owes total_l ta))))))"

section \<open>What is carried into the next year\<close>

definition carry_rows :: "posted_book \<Rightarrow> error + (string \<times> string \<times> int) list" where
  "carry_rows b =
     ebind (post_close_balances b) (\<lambda>pcb.
     ebind (emap (\<lambda>a. ebind (pcb_of pcb (aname a)) (\<lambda>x. Inr (a, x))) (filter (\<lambda>a. is_bs (kind a)) (accounts b))) (\<lambda>axs.
     Inr [(aname a, group a, x). (a, x) \<leftarrow> axs, x \<noteq> 0]))"

definition running_names :: "posted_book \<Rightarrow> (string \<times> int) list \<Rightarrow> string list" where
  "running_names b pcb =
     [aname a. a \<leftarrow> accounts b, kind a = Partner \<and> partners b = [] \<and> map_of pcb (aname a) \<notin> {None, Some 0}]"

definition carry_how :: "posted_book \<Rightarrow> string list \<Rightarrow> string" where
  "carry_how b names =
     (if partners b \<noteq> []
      then (if list_ex (\<lambda>p. pcapital p \<noteq> None) (partners b)
            then ''each partner's capital account and current account open at their own balances, as in their ledgers''
            else ''each partner's account opens at its own balance, as in its ledger'')
      else if style b = Npo then ''the General Fund and each fund open at one figure each''
      else if names \<noteq> []
      then (let one = (length names = 1)
            in (''the own-money account opens as one figure, and '' @ (join_str '' and '' names) @ '' '' @ u_emdash @
       '' within own money '' @ u_emdash @ '' open'' @ (if one then ''s'' else []) @ '' at '' @ (if one then ''its'' else ''their'') @
       '' own balance'' @ (if one then [] else ''s'')))
      else ''the own money opens as one figure for each owner'')"

definition carry_intro :: "posted_book \<Rightarrow> string list \<Rightarrow> string" where
  "carry_intro b names =
     (''Every account that carries a balance takes its balance **after the year close** into the new year as its opening balance b/d on 01 Apr 2026 '' @
       u_emdash @ '' the b/d line of its ledger. Income and expense accounts'' @ (if has_drawings b then '' and the drawings'' else []) @
       '' start FY 2026-27 at nil; '' @ (carry_how b names) @ ''.'')"

definition carry_row :: "string \<times> string \<times> int \<Rightarrow> string list" where
  "carry_row r = (case r of (n, g, x) \<Rightarrow> [n, g, fmt0 \<bar>x\<bar>, side_of x, fmt0 \<bar>x\<bar>, side_of x])"

definition sec_carry_forward :: "posted_book \<Rightarrow> int \<Rightarrow> error + string list" where
  "sec_carry_forward b num =
     ebind (post_close_balances b) (\<lambda>pcb.
     ebind (carry_rows b) (\<lambda>rs.
     let tdr = (\<Sum>(n, g, x)\<leftarrow>rs. debit_part x); tcr = (\<Sum>(n, g, x)\<leftarrow>rs. credit_part x)
     in ebind (assert_that (tdr = tcr) ''carry-forward'') (\<lambda>_.
        Inr ([(''#### 4.'' @ (str_int num) @ '' Carried into FY 2026-27''), [], head_line (bname b) ''opening balances on 01 Apr 2026'', [],
              carry_intro b (running_names b pcb), []]
             @ table [''Account'', ''Type'', (''Closing 31 Mar 2026, after the close '' @ u_rupee), ''Side'', (''Opening b/d 01 Apr 2026 '' @ u_rupee), ''Side'']
                 [AL, AL, AR, AC, AR, AC]
                 (map carry_row rs
                  @ [[bold ((u_sigma @ '' Dr = '' @ u_sigma @ '' Cr'')), [], bold (fmt tdr), bold (''= '' @ fmt tcr), bold (fmt tdr), bold (''= '' @ fmt tcr)]])
             @ [[]]
             @ foot_notes b (list_ex (\<lambda>a. kind a = Fixed \<and> map_of pcb (aname a) \<notin> {None, Some 0}) (accounts b)) False 0 None))))"

section \<open>The whole year end, and the book\<close>

definition sec_closing :: "posted_book \<Rightarrow> error + string list" where
  "sec_closing b =
     (let k = numbers_of b; result = year_result b
      in ebind (trial_section b) (\<lambda>t.
         ebind (if style b = Npo then sec_npo_rp b 2 else Inr []) (\<lambda>rp.
         ebind (if has_funds b then sec_fund_statements b (n_fund k) else Inr []) (\<lambda>fu.
         ebind (if partners b \<noteq> [] then sec_appropriation b result (n_appr k) (n_close k) else Inr []) (\<lambda>ap.
         ebind (sec_close_entries b (n_close k)) (\<lambda>ce.
         ebind (sec_balance_sheet b result (n_bs k)) (\<lambda>bs.
         ebind (sec_carry_forward b (n_cf k)) (\<lambda>cf.
         Inr (t @ rp @ pl_section b k @ fu @ ap @ ce @ bs @ cf)))))))))"

definition render_book_sections :: "posted_book \<Rightarrow> error + string list" where
  "render_book_sections b =
     ebind (sec_chart b) (\<lambda>ch.
     ebind (sec_ledgers b) (\<lambda>l.
     ebind (sec_statements b) (\<lambda>s.
     ebind (sec_closing b) (\<lambda>c.
     Inr ([(''## Book: '' @ (bname b) @ '' '' @ u_emdash @ '' '' @ (kindword b)), []] @ (if about b \<noteq> [] then [about b, []] else []) @ ch @ l @ s @ c)))))"

section \<open>The sections of the year end never fail\<close>

lemma trial_section_ok: "posted_ok b \<Longrightarrow> is_ok (trial_section b)"
  using sum_debit_credit [of closing "accounts b"] closings_nil [of b]
  by (simp add: trial_section_def Let_def assert_that_def)

lemma fund_statements_ok: "is_ok (sec_fund_statements b n)"
proof -
  have "is_ok (fund_ledger b a)" for a
    using ledger_table_ok [of False b a "[]" "rows a" FY_START FY_END "(''Opening balance b/f'', ''Closing balance c/d'', [])"
        False "''Total for the year''" True] by (auto simp: fund_ledger_def is_ok_iff)
  then have "is_ok (emap (fund_ledger b) (filter (\<lambda>a. kind a = Fund) (accounts b)))" unfolding emap_ok by blast
  then show ?thesis by (auto simp: sec_fund_statements_def is_ok_iff)
qed

lemma close_section_ok: "closable b \<Longrightarrow> is_ok (sec_close_entries b n)"
  using closable_entries [of b] closable_balances [of b] by (auto simp: sec_close_entries_def)

lemma pcb_after:
  assumes "closable b" "a \<in> set (accounts b)"
  shows "map_of (map (\<lambda>a. (aname a, after_close b a)) (accounts b)) (aname a) = Some (after_close b a)"
proof -
  have "map_of (map (\<lambda>a. (aname a, g a)) as) (aname a) = Some (g a)"
    if "distinct (map aname as)" "a \<in> set as" for as and g :: "ledger_account \<Rightarrow> int"
    using that by (induction as) (auto simp: image_iff)
  then show ?thesis using posted_ok_distinct [OF closable_posted [OF assms(1)]] assms(2) by (simp add: order_def)
qed

lemma emap_all: "(\<And>x. x \<in> set xs \<Longrightarrow> f x = Inr (g x)) \<Longrightarrow> emap f xs = Inr (map g xs)"
  by (induction xs) auto

lemma pcb_of_all:
  assumes "closable b" "set as \<subseteq> set (accounts b)"
  shows "emap (\<lambda>a. pcb_of (map (\<lambda>a. (aname a, after_close b a)) (accounts b)) (aname a)) as = Inr (map (after_close b) as)"
  using assms(2) pcb_after [OF assms(1)] by (intro emap_all) (auto simp: pcb_of_def)

lemma year_result_heads:
  "year_result b = - (\<Sum>a\<leftarrow>accounts b. if \<not> is_bs (kind a) then closing a else 0)"
proof -
  have "year_result b = (\<Sum>(n, x)\<leftarrow>[(aname a, closing a). a \<leftarrow> as, kind a = Income \<and> closing a \<noteq> 0]. - x)
      - (\<Sum>(n, x)\<leftarrow>[(aname a, closing a). a \<leftarrow> as, kind a = Expense \<and> closing a \<noteq> 0]. x)" if "as = accounts b" for as
    by (simp add: year_result_def heads_of_def that)
  moreover have "(\<Sum>(n, x)\<leftarrow>[(aname a, closing a). a \<leftarrow> as, kind a = Income \<and> closing a \<noteq> 0]. - x)
      - (\<Sum>(n, x)\<leftarrow>[(aname a, closing a). a \<leftarrow> as, kind a = Expense \<and> closing a \<noteq> 0]. x)
      = - (\<Sum>a\<leftarrow>as. if \<not> is_bs (kind a) then closing a else 0)" for as :: "ledger_account list"
    by (induction as) (auto simp: is_bs_def)
  ultimately show ?thesis by metis
qed

text \<open>The own money of the sheet is what the equity accounts hold after the close.\<close>

lemma own_at_close_eq:
  assumes "closable b"
  shows "own_at_close b (year_result b) = - (\<Sum>a\<leftarrow>filter (\<lambda>a. is_equity (kind a)) (accounts b). after_close b a)"
proof -
  note ok = closable_posted [OF assms]
  have "own_at_close b (year_result b) = - (\<Sum>a\<leftarrow>accounts b. if is_equity (kind a) then bal_upto a FY_END else 0) + year_result b"
    using own_before_result [OF ok, of FY_END] by (simp add: own_at_close_def split_def)
  also have "(\<Sum>a\<leftarrow>accounts b. if is_equity (kind a) then bal_upto a FY_END else 0)
      = (\<Sum>a\<leftarrow>accounts b. if is_equity (kind a) then closing a else 0)"
    using closing_year_end [OF ok] by (intro arg_cong [where f = sum_list] map_cong) auto
  finally show ?thesis
    using closes.own_money [OF assms] year_result_heads [of b] by (simp add: sum_list_filter_if)
qed

lemma sheet_total:
  assumes "posted_ok b"
  shows "sheet_assets b - sheet_owed b = (\<Sum>a\<leftarrow>accounts b. if \<not> is_equity (kind a) \<and> is_bs (kind a) then closing a else 0)"
proof -
  have sgn: "place_of k x \<in> {PHave, PGet} \<Longrightarrow> 0 \<le> x" for k x
    by (auto simp: place_of_def split: if_splits)
  have all: "place_of k x \<in> set [PHave, PGet] \<or> place_of k x \<in> set [PFund, PGive]" for k x
    by (cases "place_of k x") auto
  have "(\<Sum>a\<leftarrow>filter (\<lambda>a. is_bs (kind a) \<and> \<not> is_equity (kind a) \<and> closing a \<noteq> 0 \<and> place_of (kind a) (closing a) \<in> set [PHave, PGet]) as. \<bar>closing a\<bar>)
      - (\<Sum>a\<leftarrow>filter (\<lambda>a. is_bs (kind a) \<and> \<not> is_equity (kind a) \<and> closing a \<noteq> 0 \<and> place_of (kind a) (closing a) \<in> set [PFund, PGive]) as. - closing a)
      = (\<Sum>a\<leftarrow>as. if \<not> is_equity (kind a) \<and> is_bs (kind a) then closing a else 0)" for as :: "ledger_account list"
  proof (induction as)
    case (Cons a as)
    show ?case using Cons sgn [of "kind a" "closing a"] all [of "kind a" "closing a"]
      by (cases "place_of (kind a) (closing a)") auto
  qed simp
  then show ?thesis by (simp add: sheet_assets_def sheet_owed_def sheet_placed_def)
qed

lemma sheet_balances:
  assumes "closable b"
  shows "sheet_owed b + own_at_close b (year_result b) = sheet_assets b"
  using sheet_total [OF closable_posted [OF assms]] closes.position [OF assms] own_at_close_eq [OF assms]
  by (simp add: sum_list_filter_if)

lemma carry_rows_eq:
  assumes "closable b"
  shows "carry_rows b = Inr [(aname a, group a, after_close b a). a \<leftarrow> accounts b, is_bs (kind a) \<and> after_close b a \<noteq> 0]"
proof -
  let ?pcb = "map (\<lambda>a. (aname a, after_close b a)) (accounts b)"
  have "emap (\<lambda>a. ebind (pcb_of ?pcb (aname a)) (\<lambda>x. Inr (a, x))) (filter (\<lambda>a. is_bs (kind a)) (accounts b))
      = Inr (map (\<lambda>a. (a, after_close b a)) (filter (\<lambda>a. is_bs (kind a)) (accounts b)))"
    using pcb_after [OF assms] by (intro emap_all) (auto simp: pcb_of_def)
  moreover have "[(aname a, group a, x). (a, x) \<leftarrow> map (\<lambda>a. (a, after_close b a)) (filter (\<lambda>a. is_bs (kind a)) as), x \<noteq> 0]
      = [(aname a, group a, after_close b a). a \<leftarrow> as, is_bs (kind a) \<and> after_close b a \<noteq> 0]" for as
    by (induction as) auto
  ultimately show ?thesis by (simp add: carry_rows_def closable_balances [OF assms])
qed

lemma carry_forward_ok:
  assumes "closable b"
  shows "is_ok (sec_carry_forward b n)"
proof -
  have sum: "(\<Sum>(n, g, x)\<leftarrow>[(aname a, group a, after_close b a). a \<leftarrow> as, is_bs (kind a) \<and> after_close b a \<noteq> 0]. debit_part x)
      - (\<Sum>(n, g, x)\<leftarrow>[(aname a, group a, after_close b a). a \<leftarrow> as, is_bs (kind a) \<and> after_close b a \<noteq> 0]. credit_part x)
      = (\<Sum>a\<leftarrow>as. if is_bs (kind a) then after_close b a else 0)" for as
    by (induction as) (auto simp: debit_part_def credit_part_def)
  have "(\<Sum>a\<leftarrow>accounts b. if is_bs (kind a) then after_close b a else 0) = (\<Sum>a\<leftarrow>accounts b. after_close b a)"
    using closes.heads_nil [OF assms] by (intro arg_cong [where f = sum_list] map_cong) (auto simp: is_bs_def NIL_KINDS_def)
  then have "(\<Sum>a\<leftarrow>accounts b. if is_bs (kind a) then after_close b a else 0) = 0"
    using closes.after_nil [OF assms] by simp
  with sum [of "accounts b"] show ?thesis
    by (simp add: sec_carry_forward_def closable_balances [OF assms] carry_rows_eq [OF assms] Let_def assert_that_def)
qed

section \<open>Reading the printed amounts back\<close>

lemma digits_value_digits: "s \<noteq> [] \<Longrightarrow> list_all is_digit s \<Longrightarrow> digits_value s = Inr (int_of_digits s)"
  by (simp add: digits_value_def)

lemma int_or_plain:
  assumes "0 < q"
  shows "int_or (plain_amount q) = Inr q" "int_or (u_minus @ plain_amount q) = Inr (- q)"
proof -
  let ?d = "str_nat (q div 100)" and ?p = "pad0 2 (q mod 100)"
  have d: "?d \<noteq> []" "list_all is_digit ?d" "int_of_digits ?d = q div 100"
    using assms by (auto intro: str_nat_digits simp: int_of_digits_str_nat)
  have p: "length ?p = 2" "list_all is_digit ?p" "int_of_digits ?p = q mod 100"
    using pad0_two [of "q mod 100"] by auto
  let ?s = "?d @ (if q mod 100 \<noteq> 0 then ''.'' @ ?p else [])"
  have no: "CHR ''.'' \<notin> set ?d" "CHR '','' \<notin> set ?p" using d(2) p(2) by (simp_all add: digits_not_in)
  have commas: "str_replace '','' [] (plain_amount q) = ?s"
    using amount_int_part_group [OF d(1,2)] no(2)
    by (auto simp: plain_amount_def Let_def str_replace_char filter_id_conv)
  have stars: "str_replace ''**'' [] s = s" if "set s \<subseteq> amount_chars" for s
    using that by (intro str_replace_absent [of "CHR ''*''"]) (auto simp: amount_chars_def)
  have subs: "set (plain_amount q) \<subseteq> amount_chars" "set (u_minus @ plain_amount q) \<subseteq> amount_chars"
    using plain_amount_sub [OF assms] u_minus_sub by auto
  have first: "lstrip_minus ?s = ?s" and nominus: "\<not> starts_with u_minus ?s"
    using d(1,2) by (cases ?d; auto intro!: lstrip_minus_digit simp: starts_with_def)+
  have tw: "takeWhile (\<lambda>c. c \<noteq> CHR ''.'') ?s = ?d"
    using no(1) by (auto simp: takeWhile_append takeWhile_eq_all_conv)
  have split: "q div 100 * 100 + q mod 100 = q" "- (q div 100 * 100) - q mod 100 = - q"
    using div_mult_mod_eq [of q 100] by linarith+
  have read: "ebind (digits_value ?d) (\<lambda>r. ebind (if drop (Suc (length ?d)) ?s \<noteq> [] then digits_value (drop (Suc (length ?d)) ?s) else Inr 0)
      (\<lambda>p. Inr (if neg then - (r * 100 + p) else r * 100 + p))) = Inr (if neg then - q else q)" for neg
    using d p split by (cases "q mod 100 = 0") (auto simp: digits_value_digits)
  show "int_or (plain_amount q) = Inr q"
    unfolding int_or_def Let_def stars [OF subs(1)] commas first tw using read [of False] nominus by simp
  have commas': "str_replace '','' [] (u_minus @ plain_amount q) = u_minus @ ?s"
    using commas by (simp add: str_replace_char)
  have strip': "lstrip_minus (u_minus @ ?s) = ?s" using first by (simp only: lstrip_minus_minus)
  show "int_or (u_minus @ plain_amount q) = Inr (- q)"
    unfolding int_or_def Let_def stars [OF subs(2)] commas' strip' tw using read [of True] by (simp add: starts_with_def)
qed

lemma int_or_fmt0: "int_or (fmt0 x) = Inr x"
proof (cases "x = 0")
  case True
  have "int_or ''0'' = Inr 0" by code_simp
  with True show ?thesis by (simp add: fmt_opt_def)
next
  case False
  with int_or_plain [of x] int_or_plain [of "- x"] show ?thesis by (auto simp: fmt_opt_nonzero)
qed

section \<open>The partners' part of the balance sheet\<close>

text \<open>A firm's partners: every own-money account is one partner's capital or current account, and interest is paid on a capital account.\<close>

definition partner_names :: "partner list \<Rightarrow> string list" where
  "partner_names ps = map pcurrent ps @ [n. p \<leftarrow> ps, n \<leftarrow> (case pcapital p of None \<Rightarrow> [] | Some n \<Rightarrow> [n])]"

definition partners_wf :: "posted_book \<Rightarrow> bool" where
  "partners_wf b =
     (distinct (partner_names (partners b))
      \<and> set (partner_names (partners b)) = set (map aname (filter (\<lambda>a. is_equity (kind a)) (accounts b)))
      \<and> list_all (\<lambda>p. ioc_bp p \<noteq> 0 \<longrightarrow> pcapital p \<noteq> None) (partners b))"

definition after_of :: "posted_book \<Rightarrow> string \<Rightarrow> int" where
  "after_of b n = (case find_account b n of None \<Rightarrow> 0 | Some a \<Rightarrow> after_close b a)"

lemma after_close_partner:
  assumes "closable b" "partners b \<noteq> []" "appropriation b (year_result b) = Inr ap"
    and "a \<in> set (accounts b)" "is_equity (kind a)"
  shows "after_close b a = closing a - partner_part ap (aname a)"
proof -
  note ok = closable_posted [OF assms(1)]
  have "0 < year_result b" using assms(1,2) by (simp add: closable_def)
  then obtain es where es: "close_entries b = Inr es"
    and lines: "\<And>n. line_sum n (clines es) = - line_sum n (heads_of b Income) - line_sum n (heads_of b Expense) - partner_part ap n"
    using close_partnership_lines [OF assms(2,3)] by blast
  show ?thesis
    using assms(5) by (simp add: after_close_def es lines line_sum_heads [OF ok assms(4)])
      (auto simp: is_equity_def EQUITY_KINDS_def)
qed

lemma partner_part_current:
  assumes "distinct (map (pcurrent \<circ> fst) ap)" "(p, i, x) \<in> set ap"
  shows "partner_part ap (pcurrent p) = i + x"
  using assms
proof (induction ap)
  case (Cons e ap)
  have absent: "partner_part ap n = 0" if "n \<notin> set (map (pcurrent \<circ> fst) ap)" for n
    using that unfolding partner_part_def by (intro sum_list_zero_map) (auto simp: image_iff)
  show ?case
  proof (cases "(p, i, x) = e")
    case True
    with Cons.prems absent [of "pcurrent p"] show ?thesis by (auto simp: partner_part_def)
  next
    case False
    with Cons.prems have "(p, i, x) \<in> set ap" by auto
    with Cons have "partner_part ap (pcurrent p) = i + x" and "pcurrent (fst e) \<noteq> pcurrent p" by (auto simp: image_iff)
    then show ?thesis by (cases e) (simp add: partner_part_def)
  qed
qed simp

definition firm_ready :: "posted_book \<Rightarrow> (partner \<times> int \<times> int) list \<Rightarrow> bool" where
  "firm_ready b ap =
     (closable b \<and> partners b \<noteq> [] \<and> partners_wf b \<and> appropriation b (year_result b) = Inr ap)"

lemma firm_partners:
  assumes "firm_ready b ap"
  shows "map fst ap = partners b" "distinct (map (pcurrent \<circ> fst) ap)"
proof -
  have "appropriation b (year_result b) = Inr ap" "partners b \<noteq> []" "partners_wf b"
    using assms by (simp_all add: firm_ready_def)
  from appropriation_total(2) [OF this(1,2)] this(3) show "map fst ap = partners b" "distinct (map (pcurrent \<circ> fst) ap)"
    by (auto simp: partners_wf_def partner_names_def simp flip: map_map)
qed

lemma partner_account:
  assumes "firm_ready b ap" "n \<in> set (partner_names (partners b))"
  obtains a where "a \<in> set (accounts b)" "aname a = n" "account_named b (Some n) = Inr a"
    "after_close b a = closing a - partner_part ap n" "after_of b n = after_close b a"
    "pcb_of (map (\<lambda>a. (aname a, after_close b a)) (accounts b)) n = Inr (after_close b a)"
    "opening_bal a + fst (acct_movement a FY_START FY_END) - snd (acct_movement a FY_START FY_END) = closing a"
proof -
  have firm: "closable b" "partners b \<noteq> []" "partners_wf b" "appropriation b (year_result b) = Inr ap"
    using assms(1) by (simp_all add: firm_ready_def)
  note ok = closable_posted [OF firm(1)]
  obtain a where a: "a \<in> set (accounts b)" "is_equity (kind a)" "aname a = n"
    using assms(2) firm(3) by (auto simp: partners_wf_def)
  show thesis
  proof (rule that [OF a(1,3)])
    have f: "find_account b n = Some a" using posted_ok_find [OF ok a(1)] a(3) by simp
    show "account_named b (Some n) = Inr a" "after_of b n = after_close b a" by (simp_all add: account_named_def after_of_def f)
    show "after_close b a = closing a - partner_part ap n"
      using after_close_partner [OF firm(1,2,4) a(1,2)] a(3) by simp
    show "pcb_of (map (\<lambda>a. (aname a, after_close b a)) (accounts b)) n = Inr (after_close b a)"
      using pcb_after [OF firm(1) a(1)] a(3) by (simp add: pcb_of_def)
    show "opening_bal a + fst (acct_movement a FY_START FY_END) - snd (acct_movement a FY_START FY_END) = closing a"
      using equity_moved [OF ok a(1), of FY_END] closing_year_end [OF ok a(1)] by simp
  qed
qed

lemma partner_row_ok:
  assumes "firm_ready b ap" "n \<in> set (partner_names (partners b))" "partner_part ap n = i + s"
  shows "is_ok (partner_row b (map (\<lambda>a. (aname a, after_close b a)) (accounts b)) p (Some n, i, s))"
proof -
  obtain a where a: "aname a = n" "account_named b (Some n) = Inr a" "after_close b a = closing a - partner_part ap n"
    "pcb_of (map (\<lambda>a. (aname a, after_close b a)) (accounts b)) n = Inr (after_close b a)"
    "opening_bal a + fst (acct_movement a FY_START FY_END) - snd (acct_movement a FY_START FY_END) = closing a"
    by (rule partner_account [OF assms(1,2)]) blast
  show ?thesis using assms(3) a by (simp add: partner_row_def split_def assert_that_def)
qed

lemma partner_sheet_ok:
  assumes firm: "firm_ready b ap" and e: "(p, i, s) \<in> set ap"
  shows "\<exists>prows eqs owes. partner_sheet b (map (\<lambda>a. (aname a, after_close b a)) (accounts b)) (p, i, s) = Inr (prows, eqs, owes)
    \<and> sum_list (map snd eqs) - sum_list (map snd owes)
      = - (\<Sum>n\<leftarrow>pcurrent p # (case pcapital p of None \<Rightarrow> [] | Some n \<Rightarrow> [n]). after_of b n)"
proof -
  let ?pcb = "map (\<lambda>a. (aname a, after_close b a)) (accounts b)"
  have p: "p \<in> set (partners b)" using firm_partners(1) [OF firm] e by (metis fst_conv image_eqI set_map)
  have wf: "distinct (partner_names (partners b))" using firm by (simp add: firm_ready_def partners_wf_def)
  have cur: "pcurrent p \<in> set (partner_names (partners b))" using p by (auto simp: partner_names_def)
  have part: "partner_part ap (pcurrent p) = i + s" by (rule partner_part_current [OF firm_partners(2) [OF firm] e])
  obtain c where c: "account_named b (Some (pcurrent p)) = Inr c" "after_close b c = closing c - partner_part ap (pcurrent p)"
    "after_of b (pcurrent p) = after_close b c"
    by (rule partner_account [OF firm cur]) blast
  obtain r where r: "partner_row b ?pcb p (Some (pcurrent p), i, s) = Inr r"
    using partner_row_ok [OF firm cur part] by (auto simp: is_ok_iff)
  show ?thesis
  proof (cases "pcapital p")
    case None
    with c r part show ?thesis by (simp add: partner_sheet_def Let_def)
  next
    case (Some n)
    have cap: "n \<in> set (partner_names (partners b))" using p Some by (force simp: partner_names_def)
    have "n \<notin> set (map pcurrent (partners b))" using wf p Some by (force simp: partner_names_def)
    then have part0: "partner_part ap n = 0"
      unfolding firm_partners(1) [OF firm, symmetric] partner_part_def by (intro sum_list_zero_map) (auto simp: image_iff)
    then have row: "is_ok (partner_row b ?pcb p (Some n, 0, 0))" by (intro partner_row_ok [OF firm cap]) simp
    obtain a where a: "account_named b (Some n) = Inr a" "after_close b a = closing a - partner_part ap n" "after_of b n = after_close b a"
      by (rule partner_account [OF firm cap]) blast
    from row obtain r0 where "partner_row b ?pcb p (Some n, 0, 0) = Inr r0" by (auto simp: is_ok_iff)
    with Some c r a part part0 show ?thesis by (simp add: partner_sheet_def Let_def)
  qed
qed

lemma own_part_ok:
  assumes firm: "firm_ready b ap"
  shows "is_ok (own_part b (map (\<lambda>a. (aname a, after_close b a)) (accounts b)) (year_result b))"
proof -
  let ?pcb = "map (\<lambda>a. (aname a, after_close b a)) (accounts b)"
  have sums: "\<exists>ps. emap (partner_sheet b ?pcb) es = Inr ps
      \<and> sum_list (map snd (concat (map (fst \<circ> snd) ps))) - sum_list (map snd (concat (map (snd \<circ> snd) ps)))
        = - (\<Sum>n\<leftarrow>partner_names (map fst es). after_of b n)" if "set es \<subseteq> set ap" for es
    using that
  proof (induction es)
    case (Cons e es)
    obtain p i s where e: "e = (p, i, s)" by (cases e)
    from Cons.prems e have "(p, i, s) \<in> set ap" "set es \<subseteq> set ap" by auto
    from partner_sheet_ok [OF firm this(1)] obtain pr eqs owes where one:
      "partner_sheet b ?pcb (p, i, s) = Inr (pr, eqs, owes)"
      "sum_list (map snd eqs) - sum_list (map snd owes)
        = - (\<Sum>n\<leftarrow>pcurrent p # (case pcapital p of None \<Rightarrow> [] | Some n \<Rightarrow> [n]). after_of b n)" by blast
    from Cons.IH [OF \<open>set es \<subseteq> set ap\<close>] obtain ps where "emap (partner_sheet b ?pcb) es = Inr ps"
      "sum_list (map snd (concat (map (fst \<circ> snd) ps))) - sum_list (map snd (concat (map (snd \<circ> snd) ps)))
        = - (\<Sum>n\<leftarrow>partner_names (map fst es). after_of b n)" by blast
    with one show ?case by (simp add: e partner_names_def o_def)
  qed (simp add: partner_names_def)
  obtain ps where ps: "emap (partner_sheet b ?pcb) ap = Inr ps"
    "sum_list (map snd (concat (map (fst \<circ> snd) ps))) - sum_list (map snd (concat (map (snd \<circ> snd) ps)))
        = - (\<Sum>n\<leftarrow>partner_names (partners b). after_of b n)"
    using sums [of ap] firm_partners(1) [OF firm] by auto
  have cl: "closable b" and ap: "appropriation b (year_result b) = Inr ap" and ne: "partners b \<noteq> []"
    and wf: "partners_wf b" using firm by (simp_all add: firm_ready_def)
  note ok = closable_posted [OF cl]
  let ?eq = "filter (\<lambda>a. is_equity (kind a)) (accounts b)"
  have "(\<Sum>n\<leftarrow>partner_names (partners b). after_of b n) = (\<Sum>n\<in>set (partner_names (partners b)). after_of b n)"
    using wf by (simp add: partners_wf_def sum_list_distinct_conv_sum_set)
  also have "... = (\<Sum>n\<leftarrow>map aname ?eq. after_of b n)"
  proof -
    have "distinct (map aname ?eq)" using posted_ok_distinct [OF ok] by (simp add: order_def distinct_map_filter)
    moreover have "set (partner_names (partners b)) = set (map aname ?eq)" using wf by (simp only: partners_wf_def)
    ultimately show ?thesis by (simp only: sum_list_distinct_conv_sum_set)
  qed
  also have "... = (\<Sum>a\<leftarrow>?eq. after_close b a)"
    unfolding map_map using posted_ok_find [OF ok] by (intro arg_cong [where f = sum_list] map_cong) (auto simp: after_of_def)
  finally have own: "sum_list (map snd (concat (map (fst \<circ> snd) ps))) - sum_list (map snd (concat (map (snd \<circ> snd) ps)))
      = own_at_close b (year_result b)"
    using ps(2) own_at_close_eq [OF cl] by simp
  have read: "emap (\<lambda>r. int_or (r ! 1)) (map (\<lambda>(n, x). [n, fmt0 x]) xs) = Inr (map snd xs)" for xs :: "(string \<times> int) list"
    by (induction xs) (auto simp: int_or_fmt0)
  show ?thesis using ne ap ps(1) own by (simp add: own_part_def read Let_def assert_that_def del: One_nat_def)
qed

lemma appropriation_section_ok:
  assumes firm: "firm_ready b ap"
  shows "is_ok (sec_appropriation b (year_result b) k m)"
proof -
  have "is_ok (interest_row b e)" if "e \<in> set ap" for e
  proof -
    obtain p i s where e: "e = (p, i, s)" by (cases e)
    have p: "p \<in> set (partners b)" using firm_partners(1) [OF firm] that e by (metis fst_conv image_eqI set_map)
    show ?thesis
    proof (cases "ioc_bp p = 0")
      case False
      with p firm obtain n where n: "pcapital p = Some n" by (auto simp: firm_ready_def partners_wf_def list_all_iff)
      with p have "n \<in> set (partner_names (partners b))" by (force simp: partner_names_def)
      then obtain a where "account_named b (Some n) = Inr a" by (rule partner_account [OF firm]) blast
      with False n show ?thesis by (simp add: interest_row_def e)
    qed (simp add: interest_row_def e)
  qed
  then have "is_ok (emap (interest_row b) ap)" unfolding emap_ok by blast
  moreover have "appropriation b (year_result b) = Inr ap" using firm by (simp add: firm_ready_def)
  ultimately show ?thesis by (auto simp: sec_appropriation_def Let_def is_ok_iff)
qed

section \<open>The whole book\<close>

text \<open>What the printer needs of a book beyond \<open>closable\<close>: a firm's own-money accounts are its partners'.\<close>

definition printable :: "posted_book \<Rightarrow> bool" where
  "printable b = (closable b \<and> (partners b \<noteq> [] \<longrightarrow> partners_wf b))"

lemma balance_sheet_ok:
  assumes "printable b"
  shows "is_ok (sec_balance_sheet b (year_result b) n)"
proof -
  have cl: "closable b" using assms by (simp add: printable_def)
  let ?pcb = "map (\<lambda>a. (aname a, after_close b a)) (accounts b)"
  have own: "is_ok (own_part b ?pcb (year_result b))"
  proof (cases "partners b = []")
    case False
    then obtain ap where "appropriation b (year_result b) = Inr ap" using cl by (auto simp: closable_def is_ok_iff)
    with False assms show ?thesis by (intro own_part_ok) (simp add: firm_ready_def printable_def)
  qed (simp add: own_part_def)
  then obtain first eqs owes where own: "own_part b ?pcb (year_result b) = Inr (first, eqs, owes)" by (auto simp: is_ok_iff)
  have eq: "emap (\<lambda>a. pcb_of ?pcb (aname a)) (filter (\<lambda>a. is_equity (kind a)) (accounts b))
      = Inr (map (after_close b) (filter (\<lambda>a. is_equity (kind a)) (accounts b)))"
    by (rule pcb_of_all [OF cl]) auto
  show ?thesis
    using own_at_close_eq [OF cl] sheet_balances [OF cl]
    by (simp add: sec_balance_sheet_def closable_balances [OF cl] eq own Let_def assert_that_def)
qed

text \<open>Whether a trust's receipts and payments can be drawn.\<close>

definition rp_ready :: "posted_book \<Rightarrow> bool" where
  "rp_ready b = (style b = Npo \<longrightarrow> is_ok (sec_npo_rp b 2))"

lemma sec_closing_ok:
  assumes "printable b"
  shows "is_ok (sec_closing b) \<longleftrightarrow> rp_ready b"
proof -
  have cl: "closable b" using assms by (simp add: printable_def)
  let ?k = "numbers_of b"
  have fu: "is_ok (if has_funds b then sec_fund_statements b (n_fund ?k) else Inr [])" using fund_statements_ok by auto
  have ap: "is_ok (if partners b \<noteq> [] then sec_appropriation b (year_result b) (n_appr ?k) (n_close ?k) else Inr [])"
  proof (cases "partners b = []")
    case False
    then obtain ap where "appropriation b (year_result b) = Inr ap" using cl by (auto simp: closable_def is_ok_iff)
    with False assms have "firm_ready b ap" by (simp add: firm_ready_def printable_def)
    then show ?thesis using False appropriation_section_ok by auto
  qed simp
  have chain: "is_ok (ebind t (\<lambda>x1. ebind r (\<lambda>x2. ebind fu (\<lambda>x3. ebind ap (\<lambda>x4. ebind ce (\<lambda>x5. ebind bs (\<lambda>x6. ebind cf (\<lambda>x7.
      Inr (f x1 x2 x3 x4 x5 x6 x7))))))))) \<longleftrightarrow> is_ok r"
    if "is_ok t" "is_ok fu" "is_ok ap" "is_ok ce" "is_ok bs" "is_ok cf"
    for t r fu ap ce bs cf and f :: "string list \<Rightarrow> string list \<Rightarrow> string list \<Rightarrow> string list \<Rightarrow> string list \<Rightarrow> string list \<Rightarrow> string list \<Rightarrow> string list"
    using that by (auto simp: is_ok_iff ebind_Inr)
  show ?thesis
    unfolding sec_closing_def Let_def
      chain [OF trial_section_ok [OF closable_posted [OF cl]] fu ap close_section_ok [OF cl] balance_sheet_ok [OF assms] carry_forward_ok [OF cl]]
    by (simp add: rp_ready_def)
qed

text \<open>C13. The printed book of a finalised book that can be closed (a firm's own-money accounts being its partners')
  is drawn from its title to the carry forward exactly when no fund is overspent on the position dates
  and, for a trust, its receipts and payments agree: none of the other assertions of the printer (the
  chart's totals, the ledgers' columns, the month, the open items, the trial balance, the partners'
  accounts, the balance sheet, the carry forward) can fail.\<close>

theorem book_prints:
  assumes "book_wf b0" "finalize b0 = Inr b" "printable b" "custom_ready b" "bank_ready b"
  shows "is_ok (render_book_sections b) \<longleftrightarrow> \<not> overspent b MID_YEAR \<and> \<not> overspent b FY_END \<and> rp_ready b"
proof -
  note ok = finalize_posted_ok [OF assms(1,2)]
  have cl: "closable b" using assms(3) by (simp add: printable_def)
  have "is_ok (ebind ch (\<lambda>x1. ebind l (\<lambda>x2. ebind s (\<lambda>x3. ebind c (\<lambda>x4. Inr (f x1 x2 x3 x4)))))) \<longleftrightarrow> is_ok s \<and> is_ok c"
    if "is_ok ch" "is_ok l" for ch l s c and f :: "string list \<Rightarrow> string list \<Rightarrow> string list \<Rightarrow> string list \<Rightarrow> string list"
    using that by (auto simp: is_ok_iff ebind_Inr)
  from this [OF sec_chart_ok [OF ok] sec_ledgers_ok [OF cl]] show ?thesis
    unfolding render_book_sections_def
    using sec_statements_iff [OF ok cl assms(4,5)] sec_closing_ok [OF assms(3)] by metis
qed

text \<open>C22. The balance sheet: what the book has and will get equals what it will give with the own money
  after the close, the own money being what the equity accounts hold in the balances carried forward;
  a printed amount read back by \<open>int_or\<close> is the amount.\<close>

theorem sheet_balances_after_close:
  assumes "book_wf b0" "finalize b0 = Inr b" "closable b"
  shows "sheet_owed b + own_at_close b (year_result b) = sheet_assets b
    \<and> own_at_close b (year_result b) = - (\<Sum>a\<leftarrow>filter (\<lambda>a. is_equity (kind a)) (accounts b). after_close b a)
    \<and> carry_rows b = Inr [(aname a, group a, after_close b a). a \<leftarrow> accounts b, is_bs (kind a) \<and> after_close b a \<noteq> 0]
    \<and> int_or (fmt0 (own_at_close b (year_result b))) = Inr (own_at_close b (year_result b))"
  using sheet_balances [OF assms(3)] own_at_close_eq [OF assms(3)] carry_rows_eq [OF assms(3)] int_or_fmt0 by blast

section \<open>When a trust's receipts and payments agree\<close>

definition money_moved :: "posted_book \<Rightarrow> posted_voucher \<Rightarrow> int" where
  "money_moved b v = (\<Sum>(n, x)\<leftarrow>vlines v. if name_is b MONEY_KINDS n then x else 0)"

definition fund_cost :: "posted_book \<Rightarrow> posted_voucher \<Rightarrow> int" where
  "fund_cost b v = (\<Sum>(n, x)\<leftarrow>vlines v. if x > 0 \<and> name_is b [Expense, Fixed] n then x else 0)"

text \<open>What a voucher leaves out of the account: the money a transfer or a journal entry moves, and what a
  payment from a fund takes beyond its cost.\<close>

definition left_out :: "posted_book \<Rightarrow> posted_voucher \<Rightarrow> int" where
  "left_out b v =
     (if vtype v = Contra \<or> take 7 (vtype_str (vtype v)) = ''Journal'' then money_moved b v
      else if vtype v = FundPayment then money_moved b v + fund_cost b v
      else 0)"

definition rp_keys :: "posted_book \<Rightarrow> rp_state \<Rightarrow> bool" where
  "rp_keys b st =
     (distinct (map fst (fst st)) \<and> distinct (map fst (snd st))
      \<and> set (map fst (fst st)) \<subseteq> set (order b) \<and> set (map fst (snd st)) \<subseteq> set (order b))"

definition rp_net :: "rp_state \<Rightarrow> int" where
  "rp_net st = sum_list (map snd (fst st)) - sum_list (map snd (snd st))"

lemma upd_add_dict:
  "set (map fst (upd_add n a ps)) = insert n (set (map fst ps))"
  "distinct (map fst ps) \<Longrightarrow> distinct (map fst (upd_add n a ps))"
  "sum_list (map snd (upd_add n a ps)) = sum_list (map snd ps) + a"
proof -
  show keys: "set (map fst (upd_add n a ps)) = insert n (set (map fst ps))" for ps
  proof (induction ps)
    case (Cons p ps)
    then show ?case by (cases p) (simp add: insert_commute)
  qed simp
  show "distinct (map fst ps) \<Longrightarrow> distinct (map fst (upd_add n a ps))"
  proof (induction ps)
    case (Cons p ps)
    obtain m y where p: "p = (m, y)" by (cases p)
    have "m \<notin> set (map fst (upd_add n a ps))" if "m \<noteq> n" using Cons.prems that unfolding keys by (simp add: p)
    with Cons p show ?case by (cases "m = n") auto
  qed simp
  show "sum_list (map snd (upd_add n a ps)) = sum_list (map snd ps) + a" by (induction ps) auto
qed

lemma efold_net:
  assumes "\<And>s x s'. f s x = Inr s' \<Longrightarrow> P s \<Longrightarrow> x \<in> set xs \<Longrightarrow> P s' \<and> net s' = net s + g x"
  shows "efold f s xs = Inr t \<Longrightarrow> P s \<Longrightarrow> P t \<and> net t = net s + (\<Sum>x\<leftarrow>xs. g x :: int)"
  using assms
proof (induction xs arbitrary: s)
  case (Cons x xs)
  from Cons.prems(1) obtain s' where s': "f s x = Inr s'" "efold f s' xs = Inr t" by (auto simp: ebind_Inr)
  from Cons.prems(3) [OF s'(1) Cons.prems(2)] have "P s'" "net s' = net s + g x" by auto
  moreover from Cons.IH [OF s'(2) this(1)] Cons.prems(3) have "P t \<and> net t = net s' + (\<Sum>x\<leftarrow>xs. g x)" by simp
  ultimately show ?case by simp
qed simp

lemma known_kind: "kind_of b n = Some k \<Longrightarrow> n \<in> set (order b)"
  unfolding kind_of_def using known_iff [of b n] by (auto simp: known_def)

lemma rp_line_net:
  "rp_line b v st l = Inr st' \<Longrightarrow> rp_keys b st \<Longrightarrow>
   rp_keys b st' \<and> rp_net st' = rp_net st + (if name_is b MONEY_KINDS (fst l) then 0 else - snd l)"
  by (auto simp: rp_line_def rp_keys_def rp_net_def name_is_def is_money_def upd_add_dict known_kind ebind_Inr
      simp del: set_map split: option.splits if_splits)

lemma rp_fund_net:
  "rp_fund_line b st l = Inr st' \<Longrightarrow> rp_keys b st \<Longrightarrow>
   rp_keys b st' \<and> rp_net st' = rp_net st + (if snd l > 0 \<and> name_is b [Expense, Fixed] (fst l) then - snd l else 0)"
  by (auto simp: rp_fund_line_def rp_keys_def rp_net_def name_is_def upd_add_dict known_kind
      simp del: set_map split: option.splits if_splits)

text \<open>What the validation of a voucher says of the money it moves.\<close>

lemma fund_payment_cost:
  assumes "is_ok (validate_voucher b v)" "vtype v = FundPayment"
  shows "money_moved b v + fund_cost b v = 0"
proof -
  let ?drs = "filter (\<lambda>(n, x). x > 0) (vlines v)" and ?crs = "filter (\<lambda>(n, x). x < 0) (vlines v)"
  let ?fd = "filter (\<lambda>(n, x). name_is b [Fund] n) ?drs" and ?ic = "filter (\<lambda>(n, x). name_is b [Income] n) ?crs"
  let ?mc = "filter (\<lambda>(n, x). name_is b MONEY_KINDS n) ?crs"
  have sum: "sum_list (map snd (vlines v)) = 0" and nz: "list_all (\<lambda>(n, x). x \<noteq> 0) (vlines v)"
    using validate_voucher_lines_ok [OF assms(1)] by (auto simp: lines_ok_def list_all_iff)
  have drs: "list_all (\<lambda>(n, x). name_is b [Fund, Expense, Fixed] n) ?drs"
    and crs: "list_all (\<lambda>(n, x). name_is b (Income # MONEY_KINDS) n) ?crs"
    and eq: "map snd ?fd = map (\<lambda>(n, x). - x) ?ic" "map snd ?fd = [sum_list (map (\<lambda>(n, x). - x) ?mc)]"
    using assms by (auto simp: validate_voucher_def shape_asserts_def Let_def list_all_iff split_def simp del: asserts.simps)
  have neg: "sum_list (map (\<lambda>(n, x). - x) xs) = - sum_list (map snd xs)" for xs :: "(string \<times> int) list"
    by (induction xs) auto
  have flt: "sum_list (map snd (filter P (filter Q xs))) = (\<Sum>l\<leftarrow>xs. if Q l \<and> P l then snd l else 0)"
    for P Q and xs :: "(string \<times> int) list" by (induction xs) auto
  have point: "snd l = (if (case l of (n, x) \<Rightarrow> x > 0) \<and> (case l of (n, x) \<Rightarrow> name_is b [Fund] n) then snd l else 0)
      + (if (case l of (n, x) \<Rightarrow> x < 0) \<and> (case l of (n, x) \<Rightarrow> name_is b [Income] n) then snd l else 0)
      + (case l of (n, x) \<Rightarrow> if name_is b MONEY_KINDS n then x else 0)
      + (case l of (n, x) \<Rightarrow> if x > 0 \<and> name_is b [Expense, Fixed] n then x else 0)"
    "(case l of (n, x) \<Rightarrow> if name_is b MONEY_KINDS n then x else 0)
      = (if (case l of (n, x) \<Rightarrow> x < 0) \<and> (case l of (n, x) \<Rightarrow> name_is b MONEY_KINDS n) then snd l else 0)"
    if "l \<in> set (vlines v)" for l
  proof -
    obtain n x where l: "l = (n, x)" by (cases l)
    have "x \<noteq> 0" "0 < x \<Longrightarrow> name_is b [Fund, Expense, Fixed] n" "x < 0 \<Longrightarrow> name_is b (Income # MONEY_KINDS) n"
      using nz drs crs that l by (auto simp: list_all_iff)
    then have xs: "x = (if x > 0 \<and> name_is b [Fund] n then x else 0) + (if x < 0 \<and> name_is b [Income] n then x else 0)
        + (if name_is b MONEY_KINDS n then x else 0) + (if x > 0 \<and> name_is b [Expense, Fixed] n then x else 0)"
      "(if name_is b MONEY_KINDS n then x else 0) = (if x < 0 \<and> name_is b MONEY_KINDS n then x else 0)"
      by (cases "kind_of b n"; cases "0 < x"; auto simp: name_is_def MONEY_KINDS_def)+
    show "snd l = (if (case l of (n, x) \<Rightarrow> x > 0) \<and> (case l of (n, x) \<Rightarrow> name_is b [Fund] n) then snd l else 0)
      + (if (case l of (n, x) \<Rightarrow> x < 0) \<and> (case l of (n, x) \<Rightarrow> name_is b [Income] n) then snd l else 0)
      + (case l of (n, x) \<Rightarrow> if name_is b MONEY_KINDS n then x else 0)
      + (case l of (n, x) \<Rightarrow> if x > 0 \<and> name_is b [Expense, Fixed] n then x else 0)"
      "(case l of (n, x) \<Rightarrow> if name_is b MONEY_KINDS n then x else 0)
      = (if (case l of (n, x) \<Rightarrow> x < 0) \<and> (case l of (n, x) \<Rightarrow> name_is b MONEY_KINDS n) then snd l else 0)"
      unfolding l prod.case snd_conv by (rule xs)+
  qed
  have "sum_list (map snd (vlines v)) = sum_list (map snd ?fd) + sum_list (map snd ?ic) + money_moved b v + fund_cost b v"
    unfolding flt money_moved_def fund_cost_def sum_list_addf [symmetric]
    using point(1) by (intro arg_cong [where f = sum_list] map_cong) auto
  moreover have "money_moved b v = sum_list (map snd ?mc)"
    unfolding flt money_moved_def using point(2) by (intro arg_cong [where f = sum_list] map_cong) auto
  ultimately show ?thesis
    using sum arg_cong [OF eq(1), of sum_list] arg_cong [OF eq(2), of sum_list] unfolding neg by simp
qed

lemma journal_money:
  assumes "is_ok (validate_voucher b v)" "vtype v \<notin> {Contra, Receipt, Payment, FundPayment}"
  shows "money_moved b v = 0" "take 7 (vtype_str (vtype v)) = ''Journal''"
proof -
  have "vtype v \<in> set VTYPES" and none: "filter (\<lambda>(n, a). name_is b MONEY_KINDS n) (vlines v) = []"
    using assms by (auto simp: validate_voucher_def shape_asserts_def Let_def simp del: asserts.simps)
  then show "take 7 (vtype_str (vtype v)) = ''Journal''" using assms(2) by (auto simp: VTYPES_def)
  show "money_moved b v = 0"
    using none unfolding money_moved_def by (intro sum_list_zero_map) (auto simp: filter_empty_conv)
qed

lemma skipped_voucher:
  assumes "is_ok (validate_voucher b v)" "vtype v \<noteq> Contra"
  shows "left_out b v = 0"
  using assms fund_payment_cost [of b v] journal_money [of b v]
  by (cases "vtype v \<in> {Receipt, Payment, FundPayment}") (auto simp: left_out_def)

lemma efold_ok:
  "(\<And>s x. P s \<Longrightarrow> x \<in> set xs \<Longrightarrow> is_ok (f s x)) \<Longrightarrow> (\<And>s x s'. f s x = Inr s' \<Longrightarrow> P s \<Longrightarrow> x \<in> set xs \<Longrightarrow> P s') \<Longrightarrow> P s \<Longrightarrow>
   is_ok (efold f s xs)"
  by (induction xs arbitrary: s) (auto simp: is_ok_iff ebind_Inr, metis)

text \<open>A receipt or a payment with a non-money credit line on an advance or a loan stops the account.\<close>

definition rp_shape :: "posted_book \<Rightarrow> posted_voucher \<Rightarrow> bool" where
  "rp_shape b v =
     (vtype v \<in> {Receipt, Payment} \<longrightarrow> list_all (\<lambda>(n, x). x < 0 \<longrightarrow> \<not> name_is b [Advance, Loan] n) (vlines v))"

lemma rp_line_ok_iff:
  assumes "known b (fst l)" "snd l \<noteq> 0" "vtype v \<in> {Receipt, Payment}"
  shows "is_ok (rp_line b v st l) \<longleftrightarrow> \<not> (snd l < 0 \<and> name_is b [Advance, Loan] (fst l))"
  using assms
  by (auto simp: rp_line_def name_is_def known_def kind_of_def is_money_def MONEY_KINDS_def assert_that_def split: option.splits)

lemma efold_line_ok_iff:
  assumes "\<And>s x. x \<in> set xs \<Longrightarrow> is_ok (f s x) \<longleftrightarrow> Q x"
  shows "is_ok (efold f s xs) \<longleftrightarrow> list_all Q xs"
  using assms
proof (induction xs arbitrary: s)
  case (Cons x xs)
  show ?case
  proof (cases "f s x")
    case (Inl e)
    with Cons.prems [of x s] show ?thesis by simp
  next
    case (Inr s')
    with Cons.prems [of x s] Cons.IH [of s'] Cons.prems show ?thesis by simp
  qed
qed simp

lemma rp_step_ok_iff:
  assumes "is_ok (validate_voucher b v)"
  shows "is_ok (rp_step b st v) \<longleftrightarrow> rp_shape b v"
proof -
  have ls: "known b (fst l)" "snd l \<noteq> 0" if "l \<in> set (vlines v)" for l
    using validate_voucher_lines_ok [OF assms] that by (auto simp: lines_ok_def list_all_iff known_iff)
  consider "vtype v = Receipt \<or> vtype v = Payment" | "vtype v = FundPayment"
    | "vtype v = Contra \<or> vtype v \<notin> {Contra, Receipt, Payment, FundPayment}" by blast
  then show ?thesis
  proof cases
    case 1
    then have "is_ok (efold (rp_line b v) st (vlines v)) \<longleftrightarrow> list_all (\<lambda>l. \<not> (snd l < 0 \<and> name_is b [Advance, Loan] (fst l))) (vlines v)"
      using ls by (intro efold_line_ok_iff rp_line_ok_iff) auto
    with 1 show ?thesis by (auto simp: rp_step_def rp_shape_def list_all_iff)
  next
    case 2
    have "is_ok (efold (rp_fund_line b) st (vlines v)) \<longleftrightarrow> list_all (\<lambda>l. True) (vlines v)"
      using ls by (intro efold_line_ok_iff) (force simp: rp_fund_line_def known_def kind_of_def split: option.splits)
    with 2 show ?thesis by (auto simp: rp_step_def rp_shape_def list_all_iff)
  next
    case 3
    with journal_money(2) [OF assms] show ?thesis by (auto simp: rp_step_def rp_shape_def)
  qed
qed

lemma rp_entries_ok_iff:
  assumes "posted_ok b"
  shows "is_ok (rp_entries b) \<longleftrightarrow> list_all (rp_shape b) (vouchers b)"
  unfolding rp_entries_def using assms
  by (intro efold_line_ok_iff rp_step_ok_iff) (auto simp: posted_ok_def list_all_iff)

lemma rp_step_net:
  assumes "is_ok (validate_voucher b v)" "rp_step b st v = Inr st'" "rp_keys b st"
  shows "rp_keys b st' \<and> rp_net st' = rp_net st + (money_moved b v - left_out b v)"
proof -
  have bal: "sum_list (map snd (vlines v)) = 0"
    using validate_voucher_lines_ok [OF assms(1)] by (simp add: lines_ok_def)
  consider "vtype v = Contra \<or> take 7 (vtype_str (vtype v)) = ''Journal''"
    | "vtype v = FundPayment" | "vtype v = Receipt \<or> vtype v = Payment"
    using journal_money(2) [OF assms(1)] by fastforce
  then show ?thesis
  proof cases
    case 1
    with assms(2,3) show ?thesis by (simp add: rp_step_def left_out_def)
  next
    case 2
    with assms(2) have "efold (rp_fund_line b) st (vlines v) = Inr st'" by (simp add: rp_step_def)
    from efold_net [where net = rp_net and P = "rp_keys b" and f = "rp_fund_line b", OF rp_fund_net this assms(3)] have
      "rp_keys b st' \<and> rp_net st' = rp_net st + (\<Sum>l\<leftarrow>vlines v. if snd l > 0 \<and> name_is b [Expense, Fixed] (fst l) then - snd l else 0)"
      by simp
    moreover have "(\<Sum>l\<leftarrow>ls. if snd l > 0 \<and> name_is b [Expense, Fixed] (fst l) then - snd l else 0)
        = - (\<Sum>(n, x)\<leftarrow>ls. if x > 0 \<and> name_is b [Expense, Fixed] n then x else 0)" for ls :: "(string \<times> int) list"
      by (induction ls) auto
    ultimately show ?thesis using 2 by (simp add: left_out_def fund_cost_def)
  next
    case 3
    with assms(2) have "efold (rp_line b v) st (vlines v) = Inr st'" by (auto simp: rp_step_def)
    from efold_net [where net = rp_net and P = "rp_keys b" and f = "rp_line b v", OF rp_line_net this assms(3)] have
      "rp_keys b st' \<and> rp_net st' = rp_net st + (\<Sum>l\<leftarrow>vlines v. if name_is b MONEY_KINDS (fst l) then 0 else - snd l)"
      by simp
    moreover have "(\<Sum>l\<leftarrow>ls. if name_is b MONEY_KINDS (fst l) then 0 else - snd l)
        = (\<Sum>(n, x)\<leftarrow>ls. if name_is b MONEY_KINDS n then x else 0) - sum_list (map snd ls)"
      for ls :: "(string \<times> int) list" by (induction ls) auto
    ultimately show ?thesis using 3 bal by (auto simp: left_out_def money_moved_def)
  qed
qed

lemma rp_entries_net:
  assumes "posted_ok b" "rp_entries b = Inr st"
  shows "rp_keys b st" "rp_net st = (\<Sum>v\<leftarrow>vouchers b. money_moved b v) - (\<Sum>v\<leftarrow>vouchers b. left_out b v)"
proof -
  have "rp_keys b st \<and> rp_net st = rp_net ([], []) + (\<Sum>v\<leftarrow>vouchers b. money_moved b v - left_out b v)"
  proof (rule efold_net [where net = rp_net and P = "rp_keys b", OF _ assms(2) [unfolded rp_entries_def]])
    fix s v s' assume "rp_step b s v = Inr s'" "rp_keys b s" "v \<in> set (vouchers b)"
    moreover from this(3) assms(1) have "is_ok (validate_voucher b v)" by (auto simp: posted_ok_def list_all_iff)
    ultimately show "rp_keys b s' \<and> rp_net s' = rp_net s + (money_moved b v - left_out b v)" using rp_step_net by blast
  qed (simp add: rp_keys_def)
  then show "rp_keys b st" "rp_net st = (\<Sum>v\<leftarrow>vouchers b. money_moved b v) - (\<Sum>v\<leftarrow>vouchers b. left_out b v)"
    by (simp_all add: rp_net_def sum_list_subtractf)
qed

lemma sum_looked_up:
  fixes ps :: "(string \<times> int) list"
  assumes "distinct ns" "distinct (map fst ps)" "set (map fst ps) \<subseteq> set ns"
  shows "sum_list (map snd [(f n, x). n \<leftarrow> ns, x \<leftarrow> (case map_of ps n of None \<Rightarrow> [] | Some x \<Rightarrow> [x])]) = sum_list (map snd ps)"
proof -
  have "sum_list (map snd [(f n, x). n \<leftarrow> ns, x \<leftarrow> (case map_of ps n of None \<Rightarrow> [] | Some x \<Rightarrow> [x])])
      = (\<Sum>n\<leftarrow>ns. case map_of ps n of None \<Rightarrow> 0 | Some x \<Rightarrow> x)"
    by (induction ns) (auto split: option.splits)
  also have "... = (\<Sum>n\<in>set ns. case map_of ps n of None \<Rightarrow> 0 | Some x \<Rightarrow> x)"
    using assms(1) by (simp add: sum_list_distinct_conv_sum_set)
  also have "... = (\<Sum>n\<in>set (map fst ps). case map_of ps n of None \<Rightarrow> 0 | Some x \<Rightarrow> x)"
  proof (rule sum.mono_neutral_right)
    show "\<forall>n\<in>set ns - set (map fst ps). (case map_of ps n of None \<Rightarrow> 0 | Some x \<Rightarrow> x) = 0"
    proof
      fix n assume "n \<in> set ns - set (map fst ps)"
      then have "map_of ps n = None" by (simp add: map_of_eq_None_iff)
      then show "(case map_of ps n of None \<Rightarrow> 0 | Some x \<Rightarrow> x) = 0" by simp
    qed
  qed (use assms(3) in auto)
  also have "... = (\<Sum>n\<leftarrow>map fst ps. case map_of ps n of None \<Rightarrow> 0 | Some x \<Rightarrow> x)"
    by (simp only: sum_list_distinct_conv_sum_set [OF assms(2)])
  also have "... = sum_list (map snd ps)"
    using assms(2) by (induction ps) (auto simp: image_iff intro!: arg_cong [where f = sum_list] map_cong)
  finally show ?thesis .
qed

lemma money_closing:
  assumes "posted_ok b"
  shows "(\<Sum>a\<leftarrow>filter (\<lambda>a. is_money (kind a)) (accounts b). closing a)
       = (\<Sum>a\<leftarrow>filter (\<lambda>a. is_money (kind a)) (accounts b). opening_bal a) + (\<Sum>v\<leftarrow>vouchers b. money_moved b v)"
proof -
  let ?ms = "filter (\<lambda>a. is_money (kind a)) (accounts b)"
  have "(\<Sum>a\<leftarrow>?ms. closing a) = (\<Sum>a\<leftarrow>?ms. opening_bal a + (\<Sum>v\<leftarrow>vouchers b. line_sum (aname a) (vlines v)))"
    using closing_lines [OF assms] by (intro arg_cong [where f = sum_list] map_cong) auto
  also have "... = (\<Sum>a\<leftarrow>?ms. opening_bal a) + (\<Sum>v\<leftarrow>vouchers b. \<Sum>a\<leftarrow>?ms. line_sum (aname a) (vlines v))"
    by (simp add: sum_list_addf sum_list_swap [of _ "vouchers b"])
  also have "(\<Sum>v\<leftarrow>vouchers b. \<Sum>a\<leftarrow>?ms. line_sum (aname a) (vlines v)) = (\<Sum>v\<leftarrow>vouchers b. money_moved b v)"
  proof (intro arg_cong [where f = sum_list] map_cong refl)
    fix v assume "v \<in> set (vouchers b)"
    have ms: "n \<in> set (map aname ?ms) \<longleftrightarrow> name_is b MONEY_KINDS n" for n
      using posted_ok_find [OF assms]
      by (auto simp: name_is_def kind_of_def is_money_def image_iff split: option.splits dest: find_account_Some)
    have dist: "distinct (map aname ?ms)" using posted_ok_distinct [OF assms] by (simp add: order_def distinct_map_filter)
    have "(\<Sum>n\<leftarrow>map aname ?ms. line_sum n ls) = (\<Sum>(n, x)\<leftarrow>ls. if name_is b MONEY_KINDS n then x else 0)" for ls
    proof (induction ls)
      case (Cons l ls)
      have "(\<Sum>n\<leftarrow>map aname ?ms. if fst l = n then snd l else 0) = (if fst l \<in> set (map aname ?ms) then snd l else 0)"
      proof (cases "fst l \<in> set (map aname ?ms)")
        case True
        with sum_list_indicator [OF dist True] show ?thesis by (simp only: if_True)
      next
        case False
        then have "(\<Sum>n\<leftarrow>map aname ?ms. if fst l = n then snd l else 0) = 0" by (intro sum_list_zero_map) auto
        with False show ?thesis by (simp only: if_False)
      qed
      with Cons show ?case by (simp only: ms list.map line_sum_simps sum_list.Cons sum_list_addf) (simp add: split_def del: map_map)
    qed (simp add: o_def)
    then show "(\<Sum>a\<leftarrow>?ms. line_sum (aname a) (vlines v)) = money_moved b v"
      by (simp add: money_moved_def o_def)
  qed
  finally show ?thesis .
qed

text \<open>C20. A trust's receipts and payments account is drawn exactly when no receipt or payment credits an
  advance or a loan and the transfers move no money out of cash and bank on the whole: a transfer
  between money accounts moves none, and every journal entry and payment from a fund is accounted
  for; a transfer into a deposit, which validation admits, is left out of both sides, so the account stops unless
  such transfers and those out of deposits add up to nil.\<close>

theorem receipts_and_payments:
  assumes "book_wf b0" "finalize b0 = Inr b"
  shows "is_ok (sec_npo_rp b n) \<longleftrightarrow> list_all (rp_shape b) (vouchers b)
    \<and> (\<Sum>v\<leftarrow>filter (\<lambda>v. vtype v = Contra) (vouchers b). money_moved b v) = 0"
proof -
  note ok = finalize_posted_ok [OF assms]
  have valid: "is_ok (validate_voucher b v)" if "v \<in> set (vouchers b)" for v
    using ok that by (auto simp: posted_ok_def list_all_iff)
  have contra: "(\<Sum>v\<leftarrow>vouchers b. left_out b v) = (\<Sum>v\<leftarrow>filter (\<lambda>v. vtype v = Contra) (vouchers b). money_moved b v)"
    using skipped_voucher [OF valid] unfolding sum_list_filter_if
    by (intro arg_cong [where f = sum_list] map_cong) (auto simp: left_out_def)
  show ?thesis
  proof (cases "rp_entries b")
    case (Inl e)
    then show ?thesis using rp_entries_ok_iff [OF ok] by (simp add: sec_npo_rp_def)
  next
    case (Inr st)
    obtain rc pm where st: "st = (rc, pm)" by (cases st)
    note net = rp_entries_net [OF ok Inr]
    have one: "sum_list (map snd [(f a, g a). a \<leftarrow> as, P a]) = (\<Sum>a\<leftarrow>filter P as. g a)"
      for f :: "ledger_account \<Rightarrow> string" and g :: "ledger_account \<Rightarrow> int" and P as by (induction as) auto
    have "distinct (order b)" by (rule posted_ok_distinct [OF ok])
    note look = sum_looked_up [OF this]
    have keys: "distinct (map fst rc)" "set (map fst rc) \<subseteq> set (order b)" "distinct (map fst pm)" "set (map fst pm) \<subseteq> set (order b)"
      using net(1) by (simp_all add: rp_keys_def st)
    have looked:
      "sum_list (map snd [(f n, x). n \<leftarrow> order b, x \<leftarrow> (case map_of rc n of None \<Rightarrow> [] | Some x \<Rightarrow> [x])]) = sum_list (map snd rc)"
      "sum_list (map snd [(f n, x). n \<leftarrow> order b, x \<leftarrow> (case map_of pm n of None \<Rightarrow> [] | Some x \<Rightarrow> [x])]) = sum_list (map snd pm)"
      for f :: "string \<Rightarrow> string" by (rule look [OF keys(1,2)], rule look [OF keys(3,4)])
    have "sum_list (map snd (rp_left b rc)) - sum_list (map snd (rp_right b pm))
        = - (\<Sum>v\<leftarrow>vouchers b. left_out b v)"
      using net(2) money_closing [OF ok] unfolding rp_left_def rp_right_def map_append sum_list_append one looked
      by (simp add: rp_net_def st)
    then have "sum_list (map snd (rp_left b rc)) = sum_list (map snd (rp_right b pm)) \<longleftrightarrow> (\<Sum>v\<leftarrow>vouchers b. left_out b v) = 0"
      by linarith
    moreover have "list_all (rp_shape b) (vouchers b)" using rp_entries_ok_iff [OF ok] Inr by simp
    ultimately show ?thesis unfolding contra by (simp add: sec_npo_rp_def Inr st Let_def assert_that_def)
  qed
qed

end
