(* ===== verification/Regex.thy ===== *)
theory Regex
  imports Money
begin

text \<open>
  The regular expressions of Python's \<open>re\<close>, as far as the scripts use them: a backtracking matcher
  that returns every way to match, in the order Python tries them, so that its head is Python's
  match.  A subject is the character before it (for \<open>^\<close> and \<open>\b\<close>) and the rest of the text; a group
  is its number and the text it took.  The source writes its patterns as text; here each is the term
  its text parses to.
\<close>

section \<open>Characters\<close>

definition is_alpha :: "char \<Rightarrow> bool" where
  "is_alpha c = (let n = (of_char c :: nat) in 65 \<le> n \<and> n \<le> 90 \<or> 97 \<le> n \<and> n \<le> 122)"

definition word_char :: "char \<Rightarrow> bool" where
  "word_char c = (is_alpha c \<or> is_digit c \<or> c = CHR ''_'')"

definition among :: "string \<Rightarrow> char \<Rightarrow> bool" where
  "among s c = (c \<in> set s)"

definition between :: "char \<Rightarrow> char \<Rightarrow> char \<Rightarrow> bool" where
  "between a b c = ((of_char a :: nat) \<le> of_char c \<and> (of_char c :: nat) \<le> of_char b)"

definition any_char :: "char \<Rightarrow> bool" where
  "any_char c = (c \<noteq> nl)"

section \<open>Patterns\<close>

datatype rx =
    Emp
  | Lit string
  | Cls "char \<Rightarrow> bool"
  | Cat rx rx
  | Alt rx rx
  | Many rx          \<comment> \<open>\<open>r*\<close>, greedy\<close>
  | Few rx           \<comment> \<open>\<open>r*?\<close>, lazy\<close>
  | Grp nat rx
  | Bol              \<comment> \<open>\<open>^\<close>\<close>
  | Eol              \<comment> \<open>\<open>$\<close>\<close>
  | Wbd              \<comment> \<open>\<open>\b\<close>\<close>
  | Unless_before "char \<Rightarrow> bool"   \<comment> \<open>\<open>(?<!c)\<close>\<close>
  | Unless_after "char \<Rightarrow> bool"    \<comment> \<open>\<open>(?!c)\<close>\<close>
  | Ahead rx         \<comment> \<open>\<open>(?=r)\<close>\<close>

definition Seq :: "rx list \<Rightarrow> rx" where
  "Seq rs = foldr Cat rs Emp"

definition Opt :: "rx \<Rightarrow> rx" where
  "Opt r = Alt r Emp"

definition Some_of :: "rx \<Rightarrow> rx" where   \<comment> \<open>\<open>r+\<close>\<close>
  "Some_of r = Cat r (Many r)"

definition Few_of :: "rx \<Rightarrow> rx" where   \<comment> \<open>\<open>r+?\<close>\<close>
  "Few_of r = Cat r (Few r)"

definition Times :: "nat \<Rightarrow> rx \<Rightarrow> rx" where   \<comment> \<open>\<open>r{n}\<close>\<close>
  "Times n r = Seq (replicate n r)"

fun Upto :: "nat \<Rightarrow> rx \<Rightarrow> rx" where   \<comment> \<open>\<open>r{0,n}\<close>\<close>
  "Upto 0 r = Emp"
| "Upto (Suc n) r = Opt (Cat r (Upto n r))"

type_synonym subject = "char option \<times> string"
type_synonym groups = "(nat \<times> string) list"

definition advance :: "nat \<Rightarrow> subject \<Rightarrow> subject" where
  "advance n p = (if n = 0 then p else (Some (snd p ! (n - 1)), drop n (snd p)))"

definition word_before :: "subject \<Rightarrow> bool" where
  "word_before p = (case fst p of None \<Rightarrow> False | Some c \<Rightarrow> word_char c)"

definition word_after :: "subject \<Rightarrow> bool" where
  "word_after p = (case snd p of [] \<Rightarrow> False | c # _ \<Rightarrow> word_char c)"

text \<open>The group that starts at \<open>p\<close> and ends at \<open>q\<close>.\<close>

definition span_text :: "subject \<Rightarrow> subject \<Rightarrow> string" where
  "span_text p q = take (length (snd p) - length (snd q)) (snd p)"

definition then_all :: "(subject \<Rightarrow> (subject \<times> groups) list) \<Rightarrow> subject \<times> groups \<Rightarrow> (subject \<times> groups) list" where
  "then_all f m = map (\<lambda>m'. (fst m', snd m' @ snd m)) (f (fst m))"

lemma then_all_cong [fundef_cong]:
  "m = m' \<Longrightarrow> f (fst m') = f' (fst m') \<Longrightarrow> then_all f m = then_all f' m'"
  by (simp add: then_all_def)

function rm :: "rx \<Rightarrow> subject \<Rightarrow> (subject \<times> groups) list" where
  "rm Emp p = [(p, [])]"
| "rm (Lit w) p = (if starts_with w (snd p) then [(advance (length w) p, [])] else [])"
| "rm (Cls P) p = (case snd p of [] \<Rightarrow> [] | c # _ \<Rightarrow> if P c then [(advance 1 p, [])] else [])"
| "rm (Cat r s) p = concat (map (\<lambda>m. then_all (rm s) m) (rm r p))"
| "rm (Alt r s) p = rm r p @ rm s p"
| "rm (Many r) p =
     concat (map (\<lambda>m. if length (snd (fst m)) < length (snd p) then then_all (rm (Many r)) m else []) (rm r p)) @ [(p, [])]"
| "rm (Few r) p =
     (p, []) # concat (map (\<lambda>m. if length (snd (fst m)) < length (snd p) then then_all (rm (Few r)) m else []) (rm r p))"
| "rm (Grp k r) p = map (\<lambda>m. (fst m, (k, span_text p (fst m)) # snd m)) (rm r p)"
| "rm Bol p = (if fst p = None then [(p, [])] else [])"
| "rm Eol p = (if snd p = [] then [(p, [])] else [])"
| "rm Wbd p = (if word_before p \<noteq> word_after p then [(p, [])] else [])"
| "rm (Unless_before P) p = (if (case fst p of None \<Rightarrow> False | Some c \<Rightarrow> P c) then [] else [(p, [])])"
| "rm (Unless_after P) p = (if (case snd p of [] \<Rightarrow> False | c # _ \<Rightarrow> P c) then [] else [(p, [])])"
| "rm (Ahead r) p = (if rm r p = [] then [] else [(p, [])])"
  by pat_completeness auto
termination
  by (relation "measures [\<lambda>(r, p). size r, \<lambda>(r, p). length (snd p)]") auto

text \<open>\<open>re.match\<close> and \<open>re.search\<close>: the groups of the first match.  Group \<open>k\<close> of a match, if it took part.\<close>

definition re_match :: "rx \<Rightarrow> string \<Rightarrow> groups option" where
  "re_match r s = (case rm r (None, s) of [] \<Rightarrow> None | m # _ \<Rightarrow> Some (snd m))"

fun search_from :: "rx \<Rightarrow> char option \<Rightarrow> string \<Rightarrow> (subject \<times> subject \<times> groups) option" where
  "search_from r c s =
     (case rm r (c, s) of
        m # _ \<Rightarrow> Some ((c, s), fst m, snd m)
      | [] \<Rightarrow> (case s of [] \<Rightarrow> None | x # xs \<Rightarrow> search_from r (Some x) xs))"

declare search_from.simps [simp del]

definition re_search :: "rx \<Rightarrow> string \<Rightarrow> groups option" where
  "re_search r s = map_option (\<lambda>(p, q, g). g) (search_from r None s)"

definition grp :: "groups \<Rightarrow> nat \<Rightarrow> string" where
  "grp g k = (case map_of g k of Some t \<Rightarrow> t | None \<Rightarrow> [])"

definition matches :: "rx \<Rightarrow> string \<Rightarrow> bool" where
  "matches r s = (re_match r s \<noteq> None)"

definition occurs :: "rx \<Rightarrow> string \<Rightarrow> bool" where
  "occurs r s = (re_search r s \<noteq> None)"

text \<open>\<open>re.findall\<close>: the groups of the matches from the left, each search starting where the last match
  ended; the patterns of the source never match the empty text, so each search leaves less.\<close>

lemma then_all_fst: "m \<in> set (then_all f m0) \<Longrightarrow> \<exists>m' \<in> set (f (fst m0)). fst m = fst m'"
  unfolding then_all_def set_map by (elim imageE) (rule bexI; simp)

lemma advance_shorter [simp]: "length (snd (advance n p)) \<le> length (snd p)"
  by (simp add: advance_def)

lemma rm_shorter: "m \<in> set (rm r p) \<Longrightarrow> length (snd (fst m)) \<le> length (snd p)"
proof (induction r p arbitrary: m rule: rm.induct)
  case (4 r s p)
  then obtain m0 m' where m0: "m0 \<in> set (rm r p)" and m': "m' \<in> set (rm s (fst m0))" "fst m = fst m'"
    by (auto dest: then_all_fst)
  from "4.IH"(1) [OF m0] "4.IH"(2) [OF m0 m'(1)] m'(2) show ?case by simp
next
  case (6 r p)
  show ?case
  proof (cases "fst m = p")
    case False
    with "6.prems" obtain m0 m' where m0: "m0 \<in> set (rm r p)" "length (snd (fst m0)) < length (snd p)"
      and m': "m' \<in> set (rm (Many r) (fst m0))" "fst m = fst m'"
      by (auto split: if_splits dest!: then_all_fst)
    from "6.IH"(2) [OF m0 m'(1)] m0 m'(2) show ?thesis by simp
  qed simp
next
  case (7 r p)
  show ?case
  proof (cases "fst m = p")
    case False
    with "7.prems" obtain m0 m' where m0: "m0 \<in> set (rm r p)" "length (snd (fst m0)) < length (snd p)"
      and m': "m' \<in> set (rm (Few r) (fst m0))" "fst m = fst m'"
      by (auto split: if_splits dest!: then_all_fst)
    from "7.IH"(2) [OF m0 m'(1)] m0 m'(2) show ?thesis by simp
  qed simp
next
  case (8 k r p)
  then show ?case by auto
next
  case (3 P p)
  then show ?case by (auto simp: advance_def split: if_splits list.splits)
qed (auto split: if_splits list.splits)

lemma search_from_shorter:
  "search_from r c s = Some (p, q, g) \<Longrightarrow> length (snd q) \<le> length (snd p) \<and> length (snd p) \<le> length s"
proof (induction r c s rule: search_from.induct)
  case (1 r c s)
  show ?case
  proof (cases "rm r (c, s)")
    case (Cons m ms)
    with "1.prems" rm_shorter [of m r "(c, s)"] show ?thesis by (auto simp: search_from.simps [of r c s])
  next
    case Nil
    with "1.prems" obtain x xs where "s = x # xs" "search_from r (Some x) xs = Some (p, q, g)"
      by (auto simp: search_from.simps [of r c s] split: list.splits)
    with "1.IH" [OF Nil] show ?thesis by fastforce
  qed
qed

function find_all :: "rx \<Rightarrow> char option \<Rightarrow> string \<Rightarrow> groups list" where
  "find_all r c s =
     (case search_from r c s of
        None \<Rightarrow> []
      | Some (p, q, g) \<Rightarrow> g # (if length (snd q) < length s then find_all r (fst q) (snd q) else []))"
  by pat_completeness auto
termination
  by (relation "measure (\<lambda>(r, c, s). length s)") auto

declare find_all.simps [simp del]

definition re_findall :: "rx \<Rightarrow> string \<Rightarrow> groups list" where
  "re_findall r s = find_all r None s"

text \<open>\<open>re.finditer\<close>: where each match starts and ends, and its groups.\<close>

function find_spans :: "rx \<Rightarrow> nat \<Rightarrow> char option \<Rightarrow> string \<Rightarrow> (nat \<times> nat \<times> groups) list" where
  "find_spans r k c s =
     (case search_from r c s of
        None \<Rightarrow> []
      | Some (p, q, g) \<Rightarrow>
          let i = k + (length s - length (snd p)); j = k + (length s - length (snd q))
          in (i, j, g) # (if length (snd q) < length s then find_spans r j (fst q) (snd q) else []))"
  by pat_completeness auto
termination
  by (relation "measure (\<lambda>(r, k, c, s). length s)") auto

declare find_spans.simps [simp del]

definition re_finditer :: "rx \<Rightarrow> string \<Rightarrow> (nat \<times> nat \<times> groups) list" where
  "re_finditer r s = find_spans r 0 None s"

text \<open>\<open>re.sub\<close>: each match replaced by what its groups give.\<close>

function sub_all :: "rx \<Rightarrow> (groups \<Rightarrow> string) \<Rightarrow> char option \<Rightarrow> string \<Rightarrow> string" where
  "sub_all r f c s =
     (case search_from r c s of
        None \<Rightarrow> s
      | Some (p, q, g) \<Rightarrow>
          take (length s - length (snd p)) s @ f g
            @ (if length (snd q) < length s then sub_all r f (fst q) (snd q) else snd q))"
  by pat_completeness auto
termination
  by (relation "measure (\<lambda>(r, f, c, s). length s)") auto

declare sub_all.simps [simp del]

definition re_sub :: "rx \<Rightarrow> (groups \<Rightarrow> string) \<Rightarrow> string \<Rightarrow> string" where
  "re_sub r f s = sub_all r f None s"

end
