(* ===== verification/Report_Family.thy ===== *)
theory Report_Family
  imports Report_Year_End Regex "HOL-Library.Multiset" "HOL-Library.List_Lexorder" "HOL-Library.Char_ord" "HOL-Library.Product_Lexorder"
begin

text \<open>
  The printed file of a case: its books one after another and the summary that the books of one
  owner or one family agree, entry for entry (\<open>accounts_for\<close>, \<open>link_pairs\<close>, \<open>pair_rows\<close>, \<open>pair_section\<close>,
  \<open>sec_family_summary\<close>, \<open>render_case\<close>, \<open>render_export\<close> of \<open>build.py\<close>).  Names of accounts and entry
  numbers are compared as Python compares them: by their characters, which are ASCII where order matters.
\<close>

section \<open>Pairs of books\<close>

record case_file =
  slug :: string
  title :: string
  real_names :: bool
  intro :: "string list"
  people :: "(string \<times> string) list"
  books :: "posted_book list"
  summary_note :: string

definition link_names :: "string \<Rightarrow> string list" where
  "link_names other =
     [(other @ '' A/c''), (''Udhaar '' @ u_endash @ '' '' @ other @ '' A/c''), (''Income from '' @ other @ '' A/c''), (''Capital A/c '' @ u_endash @ '' '' @ other), (''Drawings A/c '' @ u_endash @ '' '' @ other)]"

definition accounts_for :: "posted_book \<Rightarrow> posted_book \<Rightarrow> ledger_account list" where
  "accounts_for b other = filter (\<lambda>a. aname a \<in> set (link_names (bname other))) (accounts b)"

text \<open>The book an account is named after: \<open>names[other]\<close>, the last book of that name.\<close>

definition named_after :: "string \<Rightarrow> string option" where
  "named_after n =
     (if ends_with '' A/c'' n
      then (let other = take (length n - 4) n
            in if starts_with ((''Udhaar '' @ u_endash @ '' '')) other then Some (drop (length ((''Udhaar '' @ u_endash @ '' ''))) other) else Some other)
      else None)"

definition book_named :: "posted_book list \<Rightarrow> string \<Rightarrow> posted_book option" where
  "book_named bs n = find (\<lambda>b. bname b = n) (rev bs)"

type_synonym pair = "posted_book \<times> posted_book"

definition link_step :: "posted_book list \<Rightarrow> posted_book \<Rightarrow> pair list \<Rightarrow> ledger_account \<Rightarrow> error + pair list" where
  "link_step bs b pairs a =
     (case named_after (aname a) of
        None \<Rightarrow> Inr pairs
      | Some other \<Rightarrow>
          (case book_named bs other of
             None \<Rightarrow> Inr pairs
           | Some ob \<Rightarrow>
               if other = bname b then Inr pairs
               else ebind (assert_that (accounts_for ob b \<noteq> []) ''mirror account missing'') (\<lambda>_.
                    Inr (if list_ex (\<lambda>(x, y). {bname x, bname y} = {bname ob, bname b}) pairs then pairs
                         else pairs @ [(b, ob)]))))"

definition link_pairs :: "posted_book list \<Rightarrow> error + pair list" where
  "link_pairs bs = efold (\<lambda>pairs b. efold (link_step bs b) pairs (accounts b)) [] bs"

section \<open>The entries of a pair\<close>

text \<open>A row of a pair: date, signed amount, entry number, note; in the order of date and number.\<close>

type_synonym pair_row = "date \<times> int \<times> string \<times> string"

definition pair_rows :: "ledger_account list \<Rightarrow> pair_row list" where
  "pair_rows as =
     sort_key (\<lambda>(d, x, v, nt). (d, v))
       (concat (map (\<lambda>a. map (\<lambda>r. (rdate r, dr r - cr r, rvid r, narration (rvch r))) (rows a)) as))"

definition dr_cr :: "int \<Rightarrow> bool \<Rightarrow> string list" where
  "dr_cr x nil =
     [(if x > 0 then fmt x else if nil \<and> x = 0 then ''0'' else []), (if x < 0 then fmt (- x) else [])]"

text \<open>\<open>left\<close>: the other book's entries by date and amount, each with the numbers not yet matched, oldest first.\<close>

type_synonym unmatched = "((date \<times> int) \<times> string) list"

definition left_of :: "pair_row list \<Rightarrow> unmatched" where
  "left_of rs = map (\<lambda>(d, x, v, nt). ((d, - x), v)) rs"

definition pop_left :: "(date \<times> int) list \<Rightarrow> unmatched \<Rightarrow> date \<times> int \<Rightarrow> error + (string \<times> unmatched)" where
  "pop_left keys left k =
     (case find (\<lambda>e. fst e = k) left of
        Some e \<Rightarrow> Inr (snd e, remove1 e left)
      | None \<Rightarrow> Inl (if k \<in> set keys then IndexError ''pop from empty list'' else KeyError ''no such entry''))"

type_synonym match_state = "string list list \<times> unmatched \<times> int \<times> int"

definition match_step :: "(date \<times> int) list \<Rightarrow> match_state \<Rightarrow> pair_row \<Rightarrow> error + match_state" where
  "match_step keys st r =
     (case st of (out, left, bal1, bal2) \<Rightarrow> case r of (d, x, v, nt) \<Rightarrow>
      ebind (pop_left keys left (d, x)) (\<lambda>(other, left').
      Inr (out @ [[fdate d, nt, v] @ dr_cr x False @ [other] @ dr_cr (- x) False], left', bal1 + x, bal2 - x)))"

text \<open>The year-close entries on a pair's accounts in one book: net by entry, with the note of the entry.\<close>

definition close_of :: "posted_book \<Rightarrow> ledger_account list \<Rightarrow> error + (string \<times> string \<times> int \<times> string list) list" where
  "close_of bk as = ebind (emap (\<lambda>a. close_posts bk (aname a)) as) (\<lambda>pss. Inr (concat pss))"

definition net_of :: "(string \<times> string \<times> int \<times> string list) list \<Rightarrow> (string \<times> int) list" where
  "net_of ps = foldl (\<lambda>net (v, nt, x, os). upd_add v x net) [] ps"

definition note_of :: "(string \<times> string \<times> int \<times> string list) list \<Rightarrow> string \<Rightarrow> string" where
  "note_of ps v = (case find (\<lambda>p. fst p = v) (rev ps) of None \<Rightarrow> [] | Some (w, nt, x, os) \<Rightarrow> nt)"

text \<open>\<open>int(v.rsplit("Y", 1)[1])\<close>.\<close>

definition close_number :: "string \<Rightarrow> error + int" where
  "close_number v =
     (if CHR ''Y'' \<in> set v then digits_value (rev (takeWhile (\<lambda>c. c \<noteq> CHR ''Y'') (rev v)))
      else Inl (IndexError ''list index out of range''))"

definition close_lines_of :: "bool \<Rightarrow> posted_book \<Rightarrow> ledger_account list \<Rightarrow> error + (string list list \<times> int)" where
  "close_lines_of first bk as =
     ebind (close_of bk as) (\<lambda>ps.
     ebind (emap (\<lambda>(v, x). ebind (close_number v) (\<lambda>k. Inr (k, v, x))) (net_of ps)) (\<lambda>ks.
     let es = [(v, x). (k, v, x) \<leftarrow> sort_key fst ks, x \<noteq> 0];
         row = (\<lambda>(v, x). let cs = v # dr_cr x False
                         in [fdate FY_END, (''Year close in '' @ (bname bk) @ '' only '' @ u_emdash @ '' '' @ (note_of ps v))]
                            @ (if first then cs @ [[], [], []] else [[], [], []] @ cs))
     in Inr (map row es, sum_list (map snd es))))"

definition bold_cells :: "string list \<Rightarrow> string list" where
  "bold_cells cs = map (\<lambda>c. if c \<noteq> [] then bold c else []) cs"

definition pair_intro :: "posted_book \<Rightarrow> posted_book \<Rightarrow> ledger_account list \<Rightarrow> ledger_account list \<Rightarrow> string" where
  "pair_intro b ob mine theirs =
     ((bname b) @ '': '' @ (join_str '' and '' (map aname mine)) @ ''. '' @ (bname ob) @ '': '' @ (join_str '' and '' (map aname theirs)) @
       ''. Each entry is shown once, with its number in both books; the note is '' @ (bname b) @ [CHR 0x27] @
       ''s.'')"

definition pair_heads :: "posted_book \<Rightarrow> posted_book \<Rightarrow> string list" where
  "pair_heads b ob =
     [''Date'', ''What happened'', ''No.'', ((bname b) @ '' (Dr) '' @ u_rupee), (''(Cr) '' @ u_rupee), ''No.'', ((bname ob) @ '' (Dr) '' @ u_rupee), (''(Cr) '' @ u_rupee)]"

definition after_sum :: "posted_book \<Rightarrow> ledger_account list \<Rightarrow> error + int" where
  "after_sum bk as =
     ebind (post_close_balances bk) (\<lambda>pcb.
     ebind (emap (\<lambda>a. pcb_of pcb (aname a)) as) (\<lambda>xs. Inr (sum_list xs)))"

definition pair_section ::
    "posted_book \<Rightarrow> posted_book \<Rightarrow> ledger_account list \<Rightarrow> ledger_account list \<Rightarrow> int \<Rightarrow> int \<Rightarrow> (int \<Rightarrow> int \<Rightarrow> error + string list)
       \<Rightarrow> error + string list" where
  "pair_section b ob mine theirs op1 op2 foot_of =
     (let head = [[fdate FY_START, ''Brought forward'', []] @ dr_cr op1 True @ [[]] @ dr_cr op2 True];
          left = left_of (pair_rows theirs)
      in ebind (efold (match_step (map fst left)) (head, left, op1, op2) (pair_rows mine)) (\<lambda>(out, left', bal1, bal2).
         ebind (assert_that (left' = []) ''an entry in only one book'') (\<lambda>_.
         ebind (close_lines_of True b mine) (\<lambda>(c1, n1).
         ebind (close_lines_of False ob theirs) (\<lambda>(c2, n2).
         ebind (after_sum b mine) (\<lambda>s1. ebind (after_sum ob theirs) (\<lambda>s2.
         let bal1 = bal1 + n1; bal2 = bal2 + n2
         in ebind (assert_that (bal1 = s1 \<and> bal2 = s2) ''pair closing'') (\<lambda>_.
            ebind (foot_of bal1 bal2) (\<lambda>foot.
            Inr ([(''### Account between '' @ (bname b) @ '' and '' @ (bname ob) @ '' '' @ u_emdash @ '' '' @ (fdate FY_START) @ '' to '' @
       (fdate FY_END)), [],
                  head_line (((bname b) @ '' '' @ u_middot @ '' '' @ (bname ob))) (((fdate FY_START) @ '' to '' @ (fdate FY_END))), [],
                  pair_intro b ob mine theirs, []]
                 @ table (pair_heads b ob) [AL, AL, AL, AR, AR, AL, AR, AR]
                     (out @ c1 @ c2
                      @ [[fdate FY_END, bold ''Closing balance, after the year close'', []] @ bold_cells (dr_cr bal1 True) @ [[]]
                         @ bold_cells (dr_cr bal2 True)])
                 @ [[]] @ foot))))))))))"

section \<open>The family summary\<close>

definition rupees_signed :: "int \<Rightarrow> string" where
  "rupees_signed x = ((if x < 0 then u_minus else []) @ u_rupee @ (fmt0 \<bar>x\<bar>))"

text \<open>What an owner's book and his business's book keep between them: the profit kept in the business.
  \<open>bus.counts["result"]\<close> is the business's result for the year.\<close>

definition result_of_owner :: "posted_book \<Rightarrow> posted_book \<Rightarrow> error + int" where
  "result_of_owner own bus =
     (if partners bus \<noteq> []
      then ebind (appropriation bus (year_result bus)) (\<lambda>ap.
           Inr (\<Sum>(p, i, x)\<leftarrow>ap. if pname p = bname own then i + x else 0))
      else Inr (year_result bus))"

definition kept_line :: "posted_book \<Rightarrow> posted_book \<Rightarrow> int \<Rightarrow> int \<Rightarrow> int \<Rightarrow> int \<Rightarrow> string" where
  "kept_line own bus held_in put_in res takes =
     (let m = rupees_signed;
          held = (if partners bus \<noteq> [] then ((bname own) @ [CHR 0x27] @ ''s partner's account in the business after the year close'')
                  else ''the business's own money after the year close'')
      in if held_in - put_in \<ge> 0
         then (''**Profit kept in the business '' @ u_emdash @ '' '' @ (bname own) @ '' and '' @ (bname bus) @ '':** '' @ held @
       '' '' @ (m held_in) @ '', less the money put in that '' @ (bname own) @ '' holds '' @ (m put_in) @ '', is '' @
       (m (held_in - put_in)) @ ''. That is the business's profit for '' @ (bname own) @ '' '' @ (m res) @ '' less the '' @
       (m takes) @ '' taken out ('' @ (m res) @ '' '' @ u_minus @ '' '' @ (m takes) @ '' = '' @ (m (res - takes)) @ '').'')
         else (''**Taken out beyond the profit '' @ u_emdash @ '' '' @ (bname own) @ '' and '' @ (bname bus) @ '':** '' @ held @
       '' '' @ (m held_in) @ '', less the money put in that '' @ (bname own) @ '' holds '' @ (m put_in) @ '', is '' @
       (m (held_in - put_in)) @ ''. The business's profit for '' @ (bname own) @ '' was '' @ (m res) @ '' and '' @
       (m takes) @ '' was taken out ('' @ (m res) @ '' '' @ u_minus @ '' '' @ (m takes) @ '' = '' @ (m (res - takes)) @ '').''))"

definition kept_of :: "posted_book \<Rightarrow> posted_book \<Rightarrow> ledger_account list \<Rightarrow> ledger_account list \<Rightarrow> error + string list" where
  "kept_of own bus oa ba =
     (if list_ex (\<lambda>a. kind a = Stake) oa
      then ebind (after_sum bus (filter (\<lambda>a. is_equity (kind a)) ba)) (\<lambda>x.
           let held_in = - x; put_in = (\<Sum>a\<leftarrow>filter (\<lambda>a. kind a = Stake) oa. closing a);
               takes = - (\<Sum>a\<leftarrow>filter (\<lambda>a. kind a = Income) oa. closing a)
           in ebind (result_of_owner own bus) (\<lambda>res.
              ebind (assert_that (held_in - put_in = res - takes) ''profit kept in the business'') (\<lambda>_.
              Inr [kept_line own bus held_in put_in res takes])))
      else Inr [])"

definition pair_foot ::
    "string list \<Rightarrow> posted_book \<Rightarrow> posted_book \<Rightarrow> ledger_account list \<Rightarrow> ledger_account list \<Rightarrow> int \<Rightarrow> int \<Rightarrow> error + string list" where
  "pair_foot kept b ob mine theirs bal1 bal2 =
     (if kept \<noteq> [] then Inr ([''**Entries agree one for one.**'', []] @ concat (map (\<lambda>k. [k, []]) kept))
      else ebind (assert_that (bal1 = - bal2) ''running-account pair does not agree'') (\<lambda>_.
           if bal1 = 0 then Inr [(''**Agrees** '' @ u_emdash @ '' nil in both books.''), []]
           else case (mine, theirs) of
                  (a # _, c # _) \<Rightarrow>
                    (let w1 = running_words a bal1; w2 = running_words c bal2;
                         w1 = (if w1 \<noteq> [] then w1 else side_of bal1); w2 = (if w2 \<noteq> [] then w2 else side_of bal2)
                     in Inr [(''**Agrees** '' @ u_emdash @ '' '' @ u_rupee @ (fmt0 \<bar>bal1\<bar>) @ '' '' @ w1 @ '' in '' @ (bname b) @ [CHR 0x27] @ ''s book, and '' @
       u_rupee @ (fmt0 \<bar>bal2\<bar>) @ '' '' @ w2 @ '' in '' @ (bname ob) @ [CHR 0x27] @ ''s book.''), []])
                | _ \<Rightarrow> Inl (IndexError ''list index out of range'')))"

text \<open>The dated amounts of a pair in one book, in order; the second book's with the sign turned.\<close>

definition pair_amounts :: "bool \<Rightarrow> ledger_account list \<Rightarrow> (date \<times> int) list" where
  "pair_amounts mirrored as =
     sort (concat (map (\<lambda>a. map (\<lambda>r. (rdate r, if mirrored then cr r - dr r else dr r - cr r)) (rows a)) as))"

definition opening_sum :: "ledger_account list \<Rightarrow> int" where
  "opening_sum as = (\<Sum>a\<leftarrow>filter (\<lambda>a. is_bs (kind a)) as. opening_bal a)"

definition pair_summary :: "pair \<Rightarrow> error + (string list \<times> string list)" where
  "pair_summary pr =
     (case pr of (b, ob) \<Rightarrow>
      let mine = accounts_for b ob; theirs = accounts_for ob b; op1 = opening_sum mine; op2 = opening_sum theirs;
          p1 = pair_amounts False mine; p2 = pair_amounts True theirs;
          g1 = (\<Sum>(d, x)\<leftarrow>p1. if x > 0 then x else 0); r1 = (\<Sum>(d, x)\<leftarrow>p1. if x < 0 then - x else 0)
      in ebind (assert_that (op1 = - op2) ''pair openings do not agree'') (\<lambda>_.
         ebind (assert_that (p1 = p2) ''pair entries differ'') (\<lambda>_.
         ebind (kept_of b ob mine theirs) (\<lambda>k1.
         ebind (kept_of ob b theirs mine) (\<lambda>k2.
         ebind (pair_section b ob mine theirs op1 op2 (pair_foot (k1 @ k2) b ob mine theirs)) (\<lambda>sec.
         Inr ([bname b, join_str ''<br>'' (map aname mine), amt_side op1, fmt g1, fmt r1,
               bname ob, join_str ''<br>'' (map aname theirs), amt_side op2, fmt r1, fmt g1, str_nat (int (length p1)), ''Yes''], sec)))))))"

definition has_stake :: "pair \<Rightarrow> bool" where
  "has_stake pr = (case pr of (x, y) \<Rightarrow> list_ex (\<lambda>a. kind a = Stake) (accounts_for x y @ accounts_for y x))"

definition summary_intro :: "pair list \<Rightarrow> string" where
  "summary_intro pairs =
     (''Money that moves between two books is written in both, in accounts named after the other book. For each pair: the balances brought forward agree, and what one book gave is what the other received, entry for entry. The table below gives each pair's totals; the account between each pair follows it, entry by entry.'' @
       (if \<not> list_all has_stake pairs then '' A family and a sub-family also agree balance for balance on opposite sides.'' else []) @
       (if list_ex has_stake pairs then ('' An owner and the business he owns agree entry by entry '' @ u_emdash @ '' money put in against the business's capital, money sent home against its drawings '' @ u_emdash @ '' but not in balance: the owner holds the business at the money put in, while the business's own money also carries its profit, so the difference is printed at the foot of that pair's account as *profit kept in the business*.'') else []))"

definition summary_heads :: "string list" where
  "summary_heads =
     [''Book'', ''Its accounts for the other book'', (''Brought forward '' @ u_rupee), (''Given (Dr) '' @ u_rupee), (''Received (Cr) '' @ u_rupee), ''Other book'', ''Its accounts'',
      (''Brought forward '' @ u_rupee), (''Given (Dr) '' @ u_rupee), (''Received (Cr) '' @ u_rupee), ''Entries'', ''Agree'']"

definition sec_family_summary :: "case_file \<Rightarrow> error + string list" where
  "sec_family_summary c =
     ebind (link_pairs (books c)) (\<lambda>pairs.
     if pairs = [] then Inr []
     else ebind (emap pair_summary pairs) (\<lambda>rs.
          Inr ([(''## '' @ (if length (books c) > 2 then ''Family summary'' else ''The two books side by side'') @
       '' '' @ u_emdash @ '' the books agree''), [],
                head_line (join_str ('' '' @ u_middot @ '' '') (map bname (books c))) ''FY 2025-26'', [], summary_intro pairs, []]
               @ table summary_heads [AL, AL, AR, AR, AR, AL, AL, AR, AR, AR, AR, AC] (map fst rs)
               @ [[]]
               @ (if summary_note c \<noteq> [] then [summary_note c, []] else [])
               @ concat (map snd rs))))"

section \<open>The printed file and the export\<close>

text \<open>The words a printed book may not hold, and the search for them: a word that begins and ends with a
  letter must stand alone (\<open>\b...\b\<close>, the word characters being ASCII letters, digits and \<open>_\<close>), any other
  token may stand anywhere.\<close>

definition FORBIDDEN_IN_PRINT :: "string list" where
  "FORBIDDEN_IN_PRINT =
     [''`'', [CHR 0xC2, CHR 0xA7], ''ADR'', [CHR 0xE2, CHR 0x9A, CHR 0xA0], ''owner ruling'', ''build.py'', ''check_md'', ''GAPS'', ''README'', ''asserted'', ''equity'',
      ''(credit given)'', ''(credit taken)'', ''Journal'', ''Contra'', ''vector'', ''money_in'', ''category_'', ''Standard type'',
      ''Nominal'', ''non-cash'', ''Receipt ('', ''voucher'', ''Voucher'', ''Due to'', ''Due from'', ''narration'', ''accrual'',
      ''Vch'', ''app'', ''auditor'', ''on khata'', ''(khata)'']"



text \<open>\<open>found whole tok inword s\<close>: \<open>tok\<close> is in \<open>s\<close>, after a text whose last character is a word character iff \<open>inword\<close>.\<close>

fun found :: "bool \<Rightarrow> string \<Rightarrow> bool \<Rightarrow> string \<Rightarrow> bool" where
  "found whole tok inword s =
     ((starts_with tok s
         \<and> (whole \<longrightarrow> \<not> inword \<and> (case drop (length tok) s of [] \<Rightarrow> True | c # _ \<Rightarrow> \<not> word_char c)))
      \<or> (case s of [] \<Rightarrow> False | c # cs \<Rightarrow> found whole tok (word_char c) cs))"

definition lint_plain :: "string \<Rightarrow> string \<Rightarrow> error + unit" where
  "lint_plain md name =
     (case find (\<lambda>tok. found (is_alpha (hd tok) \<and> is_alpha (List.last tok)) tok False md) FORBIDDEN_IN_PRINT of
        None \<Rightarrow> Inr ()
      | Some tok \<Rightarrow> Inl (AssertionError (''printed book '' @ name @ '' contains '' @ tok)))"

text \<open>The text: the lines joined, without the empty ones at the end.\<close>

definition md_text :: "string list \<Rightarrow> string" where
  "md_text ls = join_str [nl] (rev (dropWhile (\<lambda>l. l = []) (rev ls))) @ [nl]"

definition case_notice :: "bool \<Rightarrow> string" where
  "case_notice real =
     (''Amounts are in '' @ u_rupee @ ''; paise are shown only when there are paise. Plain words come first and the true side follows in small brackets '' @
       u_emdash @ '' Money in (Dr), You will give (Cr) '' @ u_emdash @ '' so the side is never lost. '' @ (if real then ''Every figure is illustrative.'' else ''Every name is a made-up placeholder and every figure is illustrative.''))"

definition render_case :: "case_file \<Rightarrow> error + string" where
  "render_case c =
     ebind (emap render_book_sections (books c)) (\<lambda>bs.
     ebind (sec_family_summary c) (\<lambda>fs.
     let md = md_text
           ([(''# '' @ (title c)), []] @ intro c @ [[]]
            @ (if people c \<noteq> []
               then table [''Who'', ''Role in this example'' @ (if real_names c then [] else '' (placeholder name)'')] [AL, AL]
                      (map (\<lambda>(w, r). [w, r]) (people c)) @ [[]] else [])
            @ [case_notice (real_names c), []] @ concat bs @ fs)
     in ebind (lint_plain md (slug c)) (\<lambda>_. Inr md)))"

definition export_intro :: string where
  "export_intro =
     ''An export, not part of the printed book: the Day Book and the Cash Book, which can be drawn for any period, with or without each entry's note. This export is the full year FY 2025-26, with notes. Entry numbers are the same as in the printed book's ledgers.''"

definition render_export :: "case_file \<Rightarrow> error + string" where
  "render_export c =
     ebind (emap (\<lambda>b. ebind (sec_books b) (\<lambda>ls. Inr ([(''## Book: '' @ (bname b) @ '' '' @ u_emdash @ '' '' @ (kindword b)), []] @ ls))) (books c)) (\<lambda>bs.
     let md = md_text ([(''# Day Book and Cash Book '' @ u_emdash @ '' '' @ (title c)), [], export_intro, []] @ concat bs)
     in ebind (lint_plain md (slug c @ ''.export'')) (\<lambda>_. Inr md))"

section \<open>The entries of a pair match when their dated amounts agree\<close>

definition row_key :: "pair_row \<Rightarrow> date \<times> int" where
  "row_key r = (case r of (d, x, v, nt) \<Rightarrow> (d, x))"

definition row_amount :: "pair_row \<Rightarrow> int" where
  "row_amount r = (case r of (d, x, v, nt) \<Rightarrow> x)"

lemma pop_left_Inr:
  "pop_left keys left k = Inr (v, left') \<Longrightarrow> mset (map fst left) = add_mset k (mset (map fst left'))"
proof -
  assume "pop_left keys left k = Inr (v, left')"
  then obtain e where e: "find (\<lambda>e. fst e = k) left = Some e" "left' = remove1 e left"
    by (auto simp: pop_left_def split: option.splits)
  then have "e \<in> set left" "fst e = k" by (auto simp: find_Some_iff)
  then have "mset left = add_mset e (mset left')" using e(2) by simp
  then have "image_mset fst (mset left) = image_mset fst (add_mset e (mset left'))" by (rule arg_cong)
  with \<open>fst e = k\<close> show ?thesis by simp
qed

lemma match_step_eq:
  "match_step keys (out, left, b1, b2) (d, x, v, nt) =
     ebind (pop_left keys left (d, x)) (\<lambda>(w, left').
       Inr (out @ [[fdate d, nt, v] @ dr_cr x False @ [w] @ dr_cr (- x) False], left', b1 + x, b2 - x))"
  by (simp add: match_step_def)

lemma pop_left_ok: "k \<in> set (map fst left) \<Longrightarrow> is_ok (pop_left keys left k)"
proof -
  assume "k \<in> set (map fst left)"
  then have "find (\<lambda>e. fst e = k) left \<noteq> None" by (auto simp: find_None_iff)
  then show ?thesis by (auto simp: pop_left_def)
qed

lemma match_ok:
  "mset (map row_key rs) \<subseteq># mset (map fst left) \<Longrightarrow>
   \<exists>out' left'. efold (match_step keys) (out, left, b1, b2) rs
      = Inr (out', left', b1 + sum_list (map row_amount rs), b2 - sum_list (map row_amount rs))
     \<and> mset (map fst left) = mset (map row_key rs) + mset (map fst left')"
proof (induction rs arbitrary: out left b1 b2)
  case (Cons r rs)
  obtain d x v nt where r: "r = (d, x, v, nt)" by (cases r)
  have key: "row_key r = (d, x)" "row_amount r = x" by (simp_all add: row_key_def row_amount_def r)
  then have "(d, x) \<in># mset (map row_key (r # rs))" by simp
  then have "(d, x) \<in> set (map fst left)" using mset_subset_eqD [OF Cons.prems] by fastforce
  from pop_left_ok [OF this, of keys] obtain w left1 where pop: "pop_left keys left (d, x) = Inr (w, left1)"
    by (auto simp: is_ok_iff)
  note m = pop_left_Inr [OF pop]
  have "mset (map row_key rs) \<subseteq># mset (map fst left1)"
    using Cons.prems m key by simp
  from Cons.IH [OF this, of "out @ [[fdate d, nt, v] @ dr_cr x False @ [w] @ dr_cr (- x) False]" "b1 + x" "b2 - x"] m show ?case
    unfolding efold.simps r match_step_eq pop using key by (auto simp: r algebra_simps)
qed simp

lemma match_Inr:
  "efold (match_step keys) (out, left, b1, b2) rs = Inr (out', left', b1', b2') \<Longrightarrow>
   mset (map fst left) = mset (map row_key rs) + mset (map fst left')"
proof (induction rs arbitrary: out left b1 b2)
  case (Cons r rs)
  obtain d x v nt where r: "r = (d, x, v, nt)" by (cases r)
  from Cons.prems obtain w left1 where pop: "pop_left keys left (d, x) = Inr (w, left1)"
    and rest: "efold (match_step keys) (out @ [[fdate d, nt, v] @ dr_cr x False @ [w] @ dr_cr (- x) False], left1, b1 + x, b2 - x) rs
      = Inr (out', left', b1', b2')"
    unfolding efold.simps r match_step_eq by (auto simp: ebind_Inr)
  have "row_key r = (d, x)" by (simp add: row_key_def r)
  with Cons.IH [OF rest] pop_left_Inr [OF pop] show ?case by simp
qed simp

lemma pair_rows_keys:
  "mset (map row_key (pair_rows as)) = mset (concat (map (\<lambda>a. map (\<lambda>r. (rdate r, dr r - cr r)) (rows a)) as))"
proof -
  have "mset (map row_key (pair_rows as))
      = image_mset row_key (mset (concat (map (\<lambda>a. map (\<lambda>r. (rdate r, dr r - cr r, rvid r, narration (rvch r))) (rows a)) as)))"
    by (simp add: pair_rows_def)
  also have "... = mset (map row_key (concat (map (\<lambda>a. map (\<lambda>r. (rdate r, dr r - cr r, rvid r, narration (rvch r))) (rows a)) as)))"
    by simp
  also have "map row_key (concat (map (\<lambda>a. map (\<lambda>r. (rdate r, dr r - cr r, rvid r, narration (rvch r))) (rows a)) as))
      = concat (map (\<lambda>a. map (\<lambda>r. (rdate r, dr r - cr r)) (rows a)) as)"
    by (simp add: map_concat o_def row_key_def)
  finally show ?thesis .
qed

lemma left_keys:
  "mset (map fst (left_of (pair_rows as))) = mset (concat (map (\<lambda>a. map (\<lambda>r. (rdate r, cr r - dr r)) (rows a)) as))"
proof -
  have "map fst (left_of rs) = map (\<lambda>(d, x). (d, - x)) (map row_key rs)" for rs
    by (auto simp: left_of_def row_key_def)
  then have "mset (map fst (left_of (pair_rows as))) = image_mset (\<lambda>(d, x). (d, - x)) (mset (map row_key (pair_rows as)))"
    by (simp only: mset_map)
  also have "... = mset (map (\<lambda>(d, x). (d, - x)) (concat (map (\<lambda>a. map (\<lambda>r. (rdate r, dr r - cr r)) (rows a)) as)))"
    unfolding pair_rows_keys by simp
  also have "map (\<lambda>(d, x). (d, - x)) (concat (map (\<lambda>a. map (\<lambda>r. (rdate r, dr r - cr r)) (rows a)) as))
      = concat (map (\<lambda>a. map (\<lambda>r. (rdate r, cr r - dr r)) (rows a)) as)"
    by (simp add: map_concat o_def)
  finally show ?thesis .
qed

lemma amounts_agree_iff:
  "pair_amounts False mine = pair_amounts True theirs
   \<longleftrightarrow> mset (map row_key (pair_rows mine)) = mset (map fst (left_of (pair_rows theirs)))"
proof -
  have "sort xs = sort ys \<longleftrightarrow> mset xs = mset ys" for xs ys :: "(date \<times> int) list"
    by (metis mset_sort properties_for_sort sorted_sort)
  then show ?thesis unfolding pair_amounts_def pair_rows_keys left_keys by (simp only: if_False if_True)
qed

lemma match_iff:
  "(\<exists>out b1 b2. efold (match_step keys) (head, left_of (pair_rows theirs), op1, op2) (pair_rows mine) = Inr (out, [], b1, b2))
   \<longleftrightarrow> pair_amounts False mine = pair_amounts True theirs"
proof
  assume "\<exists>out b1 b2. efold (match_step keys) (head, left_of (pair_rows theirs), op1, op2) (pair_rows mine) = Inr (out, [], b1, b2)"
  then show "pair_amounts False mine = pair_amounts True theirs"
    unfolding amounts_agree_iff using match_Inr by fastforce
next
  assume "pair_amounts False mine = pair_amounts True theirs"
  then have eq: "mset (map row_key (pair_rows mine)) = mset (map fst (left_of (pair_rows theirs)))" by (simp add: amounts_agree_iff)
  then have "mset (map row_key (pair_rows mine)) \<subseteq># mset (map fst (left_of (pair_rows theirs)))" by simp
  from match_ok [OF this, of keys head op1 op2] obtain out left' where
    "efold (match_step keys) (head, left_of (pair_rows theirs), op1, op2) (pair_rows mine)
      = Inr (out, left', op1 + sum_list (map row_amount (pair_rows mine)), op2 - sum_list (map row_amount (pair_rows mine)))"
    "mset (map fst (left_of (pair_rows theirs))) = mset (map row_key (pair_rows mine)) + mset (map fst left')" by blast
  with eq show "\<exists>out b1 b2. efold (match_step keys) (head, left_of (pair_rows theirs), op1, op2) (pair_rows mine) = Inr (out, [], b1, b2)"
    by auto
qed

section \<open>The close entries on a pair's accounts\<close>

definition numbered :: "close_entry list \<Rightarrow> bool" where
  "numbered es = list_all (\<lambda>(v, t, ls). is_ok (close_number v)) es"

lemma close_number_ok: "0 \<le> n \<Longrightarrow> is_ok (close_number (pre @ ''-Y'' @ str_nat n))"
proof -
  assume "0 \<le> n"
  then have d: "str_nat n \<noteq> []" "list_all is_digit (str_nat n)" by (simp_all add: str_nat_digits)
  have no: "CHR ''Y'' \<notin> set (str_nat n)" using d(2) by (rule digits_not_in) code_simp
  have "takeWhile (\<lambda>c. c \<noteq> CHR ''Y'') (rev (pre @ ''-Y'' @ str_nat n)) = rev (str_nat n)"
    using no by (auto simp: takeWhile_append takeWhile_eq_all_conv)
  with d show ?thesis by (simp add: close_number_def digits_value_def)
qed

lemma close_add_numbered: "close_add b out nt ls = Inr out' \<Longrightarrow> numbered out \<Longrightarrow> numbered out'"
  using close_number_ok [of "int (length out) + 1" "prefix b"]
  by (auto simp: close_add_def numbered_def Let_def split: if_splits)

lemma close_entries_numbered: "close_entries b = Inr es \<Longrightarrow> numbered es"
  by (auto simp: close_entries_def close_partners_def close_owner_def Let_def ebind_Inr numbered_def [of "[]"]
      split: if_splits option.splits dest!: close_add_numbered)

lemma close_posts_numbered:
  assumes "close_posts b n = Inr ps" "p \<in> set ps"
  shows "is_ok (close_number (fst p))"
proof -
  obtain es where es: "close_entries b = Inr es" using assms(1) by (auto simp: close_posts_def ebind_Inr)
  from close_entries_numbered [OF this] assms es show ?thesis
    by (fastforce simp: close_posts_def numbered_def list_all_iff)
qed

lemma net_of_sum: "sum_list (map snd (net_of ps)) = (\<Sum>(v, nt, x, os)\<leftarrow>ps. x)"
proof -
  have "sum_list (map snd (foldl (\<lambda>net (v, nt, x, os). upd_add v x net) net ps)) = sum_list (map snd net) + (\<Sum>(v, nt, x, os)\<leftarrow>ps. x)"
    for net by (induction ps arbitrary: net) (auto simp: upd_add_dict(3))
  then show ?thesis by (simp add: net_of_def)
qed

lemma net_of_keys: "set (map fst (net_of ps)) = fst ` set ps"
proof -
  have "set (map fst (foldl (\<lambda>net (v, nt, x, os). upd_add v x net) net ps)) = set (map fst net) \<union> fst ` set ps" for net
    by (induction ps arbitrary: net) (auto simp: upd_add_dict(1) simp del: set_map)
  then show ?thesis by (simp add: net_of_def)
qed

lemma close_of_ok:
  assumes "closable b" "set as \<subseteq> set (accounts b)"
  shows "\<exists>ps. close_of b as = Inr ps \<and> (\<Sum>(v, nt, x, os)\<leftarrow>ps. x) = (\<Sum>a\<leftarrow>as. after_close b a - closing a)
    \<and> (\<forall>p\<in>set ps. is_ok (close_number (fst p)))"
proof -
  have "\<exists>pss. emap (\<lambda>a. close_posts b (aname a)) as = Inr pss
      \<and> (\<Sum>(v, nt, x, os)\<leftarrow>concat pss. x) = (\<Sum>a\<leftarrow>as. after_close b a - closing a)
      \<and> (\<forall>p\<in>set (concat pss). is_ok (close_number (fst p)))"
    using assms(2)
  proof (induction as)
    case (Cons a as)
    obtain ps where ps: "close_posts b (aname a) = Inr ps" "closing a + (\<Sum>(v, nt, x, os)\<leftarrow>ps. x) = after_close b a"
      using closable_posts [OF assms(1), of "aname a" a] Cons.prems by auto
    from Cons obtain pss where "emap (\<lambda>a. close_posts b (aname a)) as = Inr pss"
      "(\<Sum>(v, nt, x, os)\<leftarrow>concat pss. x) = (\<Sum>a\<leftarrow>as. after_close b a - closing a)"
      "\<forall>p\<in>set (concat pss). is_ok (close_number (fst p))" by auto
    with ps close_posts_numbered [OF ps(1)] show ?case by auto
  qed simp
  then show ?thesis by (auto simp: close_of_def)
qed

lemma close_lines_ok:
  assumes "closable b" "set as \<subseteq> set (accounts b)"
  shows "\<exists>ls. close_lines_of first b as = Inr (ls, \<Sum>a\<leftarrow>as. after_close b a - closing a)"
proof -
  obtain ps where ps: "close_of b as = Inr ps" "(\<Sum>(v, nt, x, os)\<leftarrow>ps. x) = (\<Sum>a\<leftarrow>as. after_close b a - closing a)"
    "\<forall>p\<in>set ps. is_ok (close_number (fst p))" using close_of_ok [OF assms] by blast
  have "is_ok (close_number v)" if "(v, x) \<in> set (net_of ps)" for v x
  proof -
    have "v \<in> set (map fst (net_of ps))" using that by force
    then show ?thesis unfolding net_of_keys using ps(3) by auto
  qed
  then have "is_ok (emap (\<lambda>(v, x). ebind (close_number v) (\<lambda>k. Inr (k, v, x))) (net_of ps))"
    unfolding emap_ok by (fastforce simp: is_ok_iff)
  then obtain ks where ks: "emap (\<lambda>(v, x). ebind (close_number v) (\<lambda>k. Inr (k, v, x))) (net_of ps) = Inr ks" by (auto simp: is_ok_iff)
  have same: "emap (\<lambda>(v, x). ebind (close_number v) (\<lambda>k. Inr (k, v, x))) net = Inr ks \<Longrightarrow> map snd ks = net" for net ks
    by (induction net arbitrary: ks) (auto simp: ebind_Inr)
  have nz: "sum_list (map snd [(v, x). (k, v, x) \<leftarrow> ls, x \<noteq> 0]) = sum_list (map (snd \<circ> snd) ls)" for ls :: "(int \<times> string \<times> int) list"
    by (induction ls) auto
  have "mset (map (snd \<circ> snd) (sort_key fst ks)) = mset (map (snd \<circ> snd) ks)" by simp
  then have "sum_list (map (snd \<circ> snd) (sort_key fst ks)) = sum_list (map (snd \<circ> snd) ks)"
    by (metis sum_mset_sum_list)
  also have "... = sum_list (map snd (net_of ps))" using same [OF ks] by (metis map_map)
  finally show ?thesis using ps(2) by (simp add: close_lines_of_def ps(1) ks Let_def nz net_of_sum)
qed

lemma after_sum_ok:
  assumes "closable b" "set as \<subseteq> set (accounts b)"
  shows "after_sum b as = Inr (\<Sum>a\<leftarrow>as. after_close b a)"
  using pcb_of_all [OF assms] by (simp add: after_sum_def closable_balances [OF assms(1)])

section \<open>The account between two books\<close>

lemma accounts_for_sub: "set (accounts_for b ob) \<subseteq> set (accounts b)"
  by (auto simp: accounts_for_def)

lemma row_amounts: "image_mset snd (mset (map row_key rs)) = mset (map row_amount rs)"
  by (induction rs) (auto simp: row_key_def row_amount_def)

lemma is_ok_ebind_Inr: "is_ok (ebind x (\<lambda>y. Inr (f y))) = is_ok x"
  by (cases x) simp_all

definition heads_open_nil :: "ledger_account list \<Rightarrow> bool" where
  "heads_open_nil as = list_all (\<lambda>a. \<not> is_bs (kind a) \<longrightarrow> opening_bal a = 0) as"

lemma opening_to_closing:
  assumes "posted_ok b" "set as \<subseteq> set (accounts b)" "heads_open_nil as"
  shows "opening_sum as + sum_list (map row_amount (pair_rows as)) = (\<Sum>a\<leftarrow>as. closing a)"
proof -
  have amounts: "sum_list (map row_amount (pair_rows as)) = (\<Sum>a\<leftarrow>as. \<Sum>r\<leftarrow>rows a. dr r - cr r)"
  proof -
    have "sum_list (map row_amount (pair_rows as)) = sum_mset (image_mset snd (mset (map row_key (pair_rows as))))"
      unfolding row_amounts by (rule sum_mset_sum_list [symmetric])
    also have "... = sum_mset (mset (map snd (concat (map (\<lambda>a. map (\<lambda>r. (rdate r, dr r - cr r)) (rows a)) as))))"
      unfolding pair_rows_keys by simp
    also have "... = sum_list (map snd (concat (map (\<lambda>a. map (\<lambda>r. (rdate r, dr r - cr r)) (rows a)) as)))"
      by (rule sum_mset_sum_list)
    also have "... = (\<Sum>a\<leftarrow>as. \<Sum>r\<leftarrow>rows a. dr r - cr r)" by (induction as) (simp_all add: o_def)
    finally show ?thesis .
  qed
  have "opening_sum as = (\<Sum>a\<leftarrow>as. opening_bal a)"
    using assms(3) unfolding opening_sum_def by (intro sum_list_filter_0) (auto simp: heads_open_nil_def list_all_iff)
  then have "opening_sum as + sum_list (map row_amount (pair_rows as)) = (\<Sum>a\<leftarrow>as. opening_bal a + (\<Sum>r\<leftarrow>rows a. dr r - cr r))"
    unfolding amounts by (simp add: sum_list_addf)
  also have "... = (\<Sum>a\<leftarrow>as. closing a)"
    using rows_total [OF assms(1)] assms(2) by (intro arg_cong [where f = sum_list] map_cong) auto
  finally show ?thesis .
qed

text \<open>C21. The account between two books: when both can be closed and their heads open at nil, the entries match
  one for one exactly when the dated amounts of one book are those of the other with the sign turned,
  and then the account is drawn (its closing balances being the ones carried forward in each book)
  exactly when its foot is.\<close>

theorem pair_account_closes:
  assumes "book_wf b0" "finalize b0 = Inr b" "closable b" "book_wf ob0" "finalize ob0 = Inr ob" "closable ob"
    and mine: "mine = accounts_for b ob" "heads_open_nil mine" and theirs: "theirs = accounts_for ob b" "heads_open_nil theirs"
    and opn: "opening_sum mine = - opening_sum theirs"
  shows "is_ok (pair_section b ob mine theirs (opening_sum mine) (opening_sum theirs) foot)
    \<longleftrightarrow> pair_amounts False mine = pair_amounts True theirs
       \<and> is_ok (foot (\<Sum>a\<leftarrow>mine. after_close b a) (\<Sum>a\<leftarrow>theirs. after_close ob a))"
proof -
  note ok = finalize_posted_ok [OF assms(1,2)] and ok' = finalize_posted_ok [OF assms(4,5)]
  have sub: "set mine \<subseteq> set (accounts b)" "set theirs \<subseteq> set (accounts ob)" by (simp_all add: mine theirs accounts_for_sub)
  let ?left = "left_of (pair_rows theirs)"
  let ?head = "[[fdate FY_START, ''Brought forward'', []] @ dr_cr (opening_sum mine) True @ [[]] @ dr_cr (opening_sum theirs) True]"
  let ?run = "efold (match_step (map fst ?left)) (?head, ?left, opening_sum mine, opening_sum theirs) (pair_rows mine)"
  show ?thesis
  proof (cases "pair_amounts False mine = pair_amounts True theirs")
    case False
    then have "\<not> (\<exists>out b1 b2. ?run = Inr (out, [], b1, b2))" using match_iff by blast
    then show ?thesis using False
      by (cases ?run) (auto simp: pair_section_def Let_def assert_that_def split: if_splits)
  next
    case True
    then have eq: "mset (map row_key (pair_rows mine)) = mset (map fst ?left)" by (simp add: amounts_agree_iff)
    then obtain out where run: "?run = Inr (out, [], (\<Sum>a\<leftarrow>mine. closing a), opening_sum theirs - sum_list (map row_amount (pair_rows mine)))"
      using match_ok [of "pair_rows mine" ?left "map fst ?left" ?head "opening_sum mine" "opening_sum theirs"]
        opening_to_closing [OF ok sub(1) mine(2)] by auto
    have "sum_list (map row_amount (pair_rows mine)) = - sum_list (map row_amount (pair_rows theirs))"
    proof -
      have "image_mset snd (mset (map row_key (pair_rows mine))) = image_mset snd (mset (map fst ?left))" using eq by simp
      moreover have "image_mset snd (mset (map fst (left_of rs))) = mset (map (\<lambda>r. - row_amount r) rs)" for rs
        by (induction rs) (auto simp: left_of_def row_amount_def)
      ultimately have "mset (map row_amount (pair_rows mine)) = mset (map (\<lambda>r. - row_amount r) (pair_rows theirs))"
        unfolding row_amounts by simp
      then have "sum_list (map row_amount (pair_rows mine)) = sum_list (map (\<lambda>r. - row_amount r) (pair_rows theirs))"
        by (metis sum_mset_sum_list)
      then show ?thesis by (simp add: uminus_sum_list_map o_def)
    qed
    then have b2: "opening_sum theirs - sum_list (map row_amount (pair_rows mine)) = (\<Sum>a\<leftarrow>theirs. closing a)"
      using opening_to_closing [OF ok' sub(2) theirs(2)] by simp
    obtain c1 where c1: "close_lines_of True b mine = Inr (c1, \<Sum>a\<leftarrow>mine. after_close b a - closing a)"
      using close_lines_ok [OF assms(3) sub(1)] by blast
    obtain c2 where c2: "close_lines_of False ob theirs = Inr (c2, \<Sum>a\<leftarrow>theirs. after_close ob a - closing a)"
      using close_lines_ok [OF assms(6) sub(2)] by blast
    show ?thesis
      using True unfolding pair_section_def Let_def run b2
      by (simp add: c1 c2 after_sum_ok [OF assms(3) sub(1)] after_sum_ok [OF assms(6) sub(2)] sum_list_subtractf assert_that_def is_ok_ebind_Inr)
  qed
qed

section \<open>No forbidden word is printed\<close>

text \<open>What the search looks for: \<open>tok\<close> somewhere, and where it must stand alone, no word character beside it.\<close>

definition stands_alone :: "string \<Rightarrow> string \<Rightarrow> bool" where
  "stands_alone u v = ((u \<noteq> [] \<longrightarrow> \<not> word_char (List.last u)) \<and> (v \<noteq> [] \<longrightarrow> \<not> word_char (hd v)))"

lemma found_iff:
  "found whole tok w s \<longleftrightarrow>
     (\<exists>u v. s = u @ tok @ v
        \<and> (whole \<longrightarrow> (if u = [] then \<not> w else \<not> word_char (List.last u)) \<and> (v \<noteq> [] \<longrightarrow> \<not> word_char (hd v))))"
proof (induction s arbitrary: w)
  case Nil
  show ?case by (subst found.simps) (auto simp: starts_with_def)
next
  case (Cons c s)
  have here: "(starts_with tok (c # s) \<and> (whole \<longrightarrow> \<not> w \<and> (case drop (length tok) (c # s) of [] \<Rightarrow> True | d # _ \<Rightarrow> \<not> word_char d)))
      \<longleftrightarrow> (\<exists>v. c # s = tok @ v \<and> (whole \<longrightarrow> \<not> w \<and> (v \<noteq> [] \<longrightarrow> \<not> word_char (hd v))))"
  proof (cases "\<exists>v. c # s = tok @ v")
    case True
    then obtain v where v: "c # s = tok @ v" by blast
    have d: "drop (length tok) (c # s) = v" "starts_with tok (c # s)" unfolding v by simp_all
    show ?thesis unfolding d using v d(2) by (cases v) auto
  qed (auto simp: starts_with_prefix)
  have "(\<exists>u v. c # s = u @ tok @ v
        \<and> (whole \<longrightarrow> (if u = [] then \<not> w else \<not> word_char (List.last u)) \<and> (v \<noteq> [] \<longrightarrow> \<not> word_char (hd v))))
      \<longleftrightarrow> (\<exists>v. c # s = tok @ v \<and> (whole \<longrightarrow> \<not> w \<and> (v \<noteq> [] \<longrightarrow> \<not> word_char (hd v))))
        \<or> (\<exists>u v. s = u @ tok @ v
             \<and> (whole \<longrightarrow> (if u = [] then \<not> word_char c else \<not> word_char (List.last u)) \<and> (v \<noteq> [] \<longrightarrow> \<not> word_char (hd v))))"
    (is "?l \<longleftrightarrow> ?r")
  proof
    assume ?l
    then obtain u v where uv: "c # s = u @ tok @ v"
      "whole \<longrightarrow> (if u = [] then \<not> w else \<not> word_char (List.last u)) \<and> (v \<noteq> [] \<longrightarrow> \<not> word_char (hd v))" by blast
    then show ?r by (cases u) (auto split: if_splits)
  next
    assume ?r
    then show ?l
    proof (elim disjE exE conjE)
      fix v assume "c # s = tok @ v" "whole \<longrightarrow> \<not> w \<and> (v \<noteq> [] \<longrightarrow> \<not> word_char (hd v))"
      then show ?l by (intro exI [of _ "[]"] exI [of _ v]) simp
    next
      fix u v assume "s = u @ tok @ v"
        "whole \<longrightarrow> (if u = [] then \<not> word_char c else \<not> word_char (List.last u)) \<and> (v \<noteq> [] \<longrightarrow> \<not> word_char (hd v))"
      then show ?l by (intro exI [of _ "c # u"] exI [of _ v]) auto
    qed
  qed
  then show ?case unfolding found.simps [of whole tok w "c # s"] here using Cons.IH [of "word_char c"] by simp
qed

declare found.simps [simp del]

text \<open>C36. The printed file of a case holds no forbidden token: wherever one occurs in the text it begins and
  ends with a letter and is part of a longer word.\<close>

theorem printed_in_plain_words:
  assumes "render_case c = Inr md" "tok \<in> set FORBIDDEN_IN_PRINT" "md = u @ tok @ v"
  shows "is_alpha (hd tok) \<and> is_alpha (List.last tok) \<and> \<not> stands_alone u v"
proof -
  have "lint_plain md (slug c) = Inr ()"
    using assms(1) by (auto simp: render_case_def ebind_Inr Let_def)
  then have "find (\<lambda>tok. found (is_alpha (hd tok) \<and> is_alpha (List.last tok)) tok False md) FORBIDDEN_IN_PRINT = None"
    by (auto simp: lint_plain_def split: option.splits)
  then have "\<not> found (is_alpha (hd tok) \<and> is_alpha (List.last tok)) tok False md"
    using assms(2) by (auto simp: find_None_iff)
  then have "\<not> (is_alpha (hd tok) \<and> is_alpha (List.last tok) \<longrightarrow>
      (if u = [] then \<not> False else \<not> word_char (List.last u)) \<and> (v \<noteq> [] \<longrightarrow> \<not> word_char (hd v)))"
    unfolding found_iff using assms(3) by blast
  then show ?thesis by (auto simp: stands_alone_def split: if_splits)
qed

text \<open>A case with no books, whose title holds a forbidden token inside a word.\<close>

definition happy_case :: case_file where
  "happy_case =
     \<lparr>slug = ''happy'', title = ''Happy family'', real_names = True, intro = [], people = [], books = [], summary_note = []\<rparr>"

definition happy_lines :: "string list" where
  "happy_lines = [''# Happy family'', [], [], case_notice True, []]"

lemma found_contains: "found w tok b s \<Longrightarrow> contains_sub tok s"
  unfolding found_iff contains_sub_iff by blast

lemma happy_printed: "render_case happy_case = Inr (md_text happy_lines)"
proof -
  have "list_all (\<lambda>tok. \<not> contains_sub tok (md_text happy_lines)) (removeAll ''app'' FORBIDDEN_IN_PRINT)" by code_simp
  then have rest: "tok \<in> set FORBIDDEN_IN_PRINT \<Longrightarrow> tok \<noteq> ''app'' \<Longrightarrow> \<not> found w tok False (md_text happy_lines)" for tok w
    using found_contains by (fastforce simp: list_all_iff)
  have app: "\<not> found True ''app'' False (md_text happy_lines)" by code_simp
  have "is_alpha (hd ''app'') \<and> is_alpha (List.last ''app'')" by code_simp
  have "\<not> found (is_alpha (hd tok) \<and> is_alpha (List.last tok)) tok False (md_text happy_lines)"
    if "tok \<in> set FORBIDDEN_IN_PRINT" for tok
    using rest [OF that] app \<open>is_alpha (hd ''app'') \<and> is_alpha (List.last ''app'')\<close> by (cases "tok = ''app''") simp_all
  then have "find (\<lambda>tok. found (is_alpha (hd tok) \<and> is_alpha (List.last tok)) tok False (md_text happy_lines)) FORBIDDEN_IN_PRINT = None"
    unfolding find_None_iff by blast
  then have "lint_plain (md_text happy_lines) ''happy'' = Inr ()" by (simp add: lint_plain_def)
  then show ?thesis
    by (simp add: render_case_def happy_case_def sec_family_summary_def link_pairs_def happy_lines_def)
qed

theorem printed_in_plain_words_witness:
  "\<exists>md v. render_case happy_case = Inr md \<and> md = ''# H'' @ ''app'' @ v \<and> \<not> stands_alone ''# H'' v"
proof -
  obtain v where v: "md_text happy_lines = ''# H'' @ ''app'' @ v" by (simp add: md_text_def happy_lines_def case_notice_def)
  have "''app'' \<in> set FORBIDDEN_IN_PRINT" by (simp add: FORBIDDEN_IN_PRINT_def)
  from printed_in_plain_words [OF happy_printed this v] v happy_printed show ?thesis by metis
qed

end
