(* ===== verification/Companion.thy ===== *)
theory Companion
  imports Report_Family
begin

text \<open>
  The technical companion of a file (\<open>render_tech\<close>, \<open>entry_kinds\<close> of \<open>build.py\<close>) and the record of
  what a builder of a file returns: the printed file, and what only the companion and the README
  show of it.  The hash of the printed text (\<open>hashlib.blake2b\<close>) is a function given from outside.
\<close>

section \<open>A file with what the companion shows\<close>

record case_doc = case_file +
  demonstrates :: "string list"
  gaps :: "(string \<times> string) list list"       \<comment> \<open>\<open>b.gaps\<close>, for each book\<close>
  sources :: "string list list"               \<comment> \<open>\<open>b.sources\<close>, for each book\<close>

definition printed_case :: "case_doc \<Rightarrow> case_file" where
  "printed_case c = case_file.truncate c"

section \<open>The kinds of entry\<close>

text \<open>The keys of \<open>KIND\<close>.\<close>

fun kind_key :: "kind \<Rightarrow> string" where
  "kind_key Cash = ''cash''"
| "kind_key Gollak = ''gollak''"
| "kind_key Bank = ''bank''"
| "kind_key Wallet = ''wallet''"
| "kind_key Card = ''card''"
| "kind_key CC = ''cc''"
| "kind_key Party = ''party''"
| "kind_key Link = ''link''"
| "kind_key Stake = ''stake''"
| "kind_key Advance = ''advance''"
| "kind_key Loanto = ''loanto''"
| "kind_key Retention = ''retention''"
| "kind_key Fixed = ''fixed''"
| "kind_key Deppaid = ''deppaid''"
| "kind_key Invest = ''invest''"
| "kind_key Loan = ''loan''"
| "kind_key Deposit = ''deposit''"
| "kind_key Fund = ''fund''"
| "kind_key Capital = ''capital''"
| "kind_key Drawings = ''drawings''"
| "kind_key Shareout = ''shareout''"
| "kind_key Partner = ''partner''"
| "kind_key Pcapital = ''pcapital''"
| "kind_key Pcurrent = ''pcurrent''"
| "kind_key Income = ''income''"
| "kind_key Expense = ''expense''"

fun APP_VERB :: "vtype \<Rightarrow> error + string" where
  "APP_VERB Receipt = Inr (''money_in'')"
| "APP_VERB Payment = Inr (''money_out'')"
| "APP_VERB Contra = Inr (''transfer'')"
| "APP_VERB CreditGiven = Inr (''gave_credit'')"
| "APP_VERB CreditTaken = Inr (''took_credit'')"
| "APP_VERB AdvanceSettled = Inr ((''advance spend (02 '' @ [CHR 0xC2, CHR 0xA7] @ ''7) '' @ u_emdash @ '' non-member advance, see GAPS A10''))"
| "APP_VERB PaidByPartner = Inr ((''partner pays from own pocket (02 '' @ [CHR 0xC2, CHR 0xA7] @ ''1.2 partner) '' @ u_emdash @ '' see GAPS''))"
| "APP_VERB Correction = Inr ((''amend / re-classify (02 '' @ [CHR 0xC2, CHR 0xA7] @ ''5) '' @ u_emdash @ '' see GAPS''))"
| "APP_VERB PaidByFamily = Inr ((''02 '' @ [CHR 0xC2, CHR 0xA7] @ ''6 one-sided case (a book pays another's cost) '' @ u_emdash @ '' see GAPS A11''))"
| "APP_VERB Settled = Inr ((''year-end settlement of a sub-family account (owner's option) '' @ u_emdash @ '' see GAPS A11''))"
| "APP_VERB Journal = Inr ((''adjustment, or a non-money journal 02 '' @ [CHR 0xC2, CHR 0xA7] @ ''2 lacks '' @ u_emdash @ '' see GAPS''))"
| "APP_VERB FundPayment = Inr ((''one action, two postings (O-17-1): Dr expense '' @ u_middot @ '' Cr money, and Dr fund '' @ u_middot @
       '' Cr transfer from the fund '' @ u_emdash @ '' see GAPS E2''))"
| "APP_VERB InterestAdded = Inr ((''interest the bank adds to a deposit (O-09-5, O-17-2): Dr deposit '' @ u_middot @ '' Cr fund or income '' @
       u_emdash @ '' see GAPS A3''))"
| "APP_VERB WrittenOff = Inr ((''write-off to an expense head (O-06-5, O-12-1, O-18-5): Dr Written off '' @ u_middot @ '' Cr the account '' @
       u_emdash @ '' see GAPS A5''))"
| "APP_VERB SetOff = Inr ((''deposit held set off against what the same person owes (O-09-8, O-12-2): Dr deposit held '' @
       u_middot @ '' Cr the person '' @ u_emdash @ '' see GAPS A5''))"
| "APP_VERB Forfeited = Inr ((''deposit held kept as income (O-09-8, O-18-3): Dr deposit held '' @ u_middot @ '' Cr Deposit forfeited '' @
       u_emdash @ '' see GAPS A5''))"
| "APP_VERB RetentionReleased = Inr ((''retention money released by transfer to the party's account (O-06-4): Dr the person '' @ u_middot @
       '' Cr retention held '' @ u_emdash @ '' see GAPS D2''))"
| "APP_VERB FromFund = Inr ((''year-end transfer from a fund for its purpose already paid from general money (bookkeeper A7, 1 Nov 2026): Dr fund '' @
       u_middot @ '' Cr transfer from the fund '' @ u_emdash @ '' see GAPS E2''))"
| "APP_VERB (OtherVtype t) = Inl (KeyError t)"

definition ENTRY_KINDS :: "(string \<times> string option) list" where
  "ENTRY_KINDS =
     [(''Receipt'', Some (''a bank or cash movement'')),
      (''Payment'', Some (''a bank or cash movement'')),
      (''Journal (credit given)'', Some (''credit with a named party'')),
      (''Journal (credit taken)'', Some (''credit with a named party'')),
      (''loan'', Some (''a loan instalment as the bank paid it'')),
      (''Contra'', Some (''a transfer between own accounts'')),
      (''Journal (advance settled)'', Some (''an advance or its settlement'')),
      (''advance'', Some (''an advance or its settlement'')),
      (''Journal (paid by partner)'', Some (''a partner's own-pocket payment'')),
      (''Journal (paid by family)'', Some (''a payment the joint family made for a sub-family'')),
      (''Payment (from a fund)'', Some (''a payment from a fund'')),
      (''Journal (interest added)'', Some (''interest the bank adds to a deposit'')),
      (''Journal'', None),
      (''Journal (settled)'', Some (''a running account settled at year end'')),
      (''Journal (set off)'', Some (''a deposit held set off against what is owed'')),
      (''Journal (deposit forfeited)'', Some (''a deposit held kept as income'')),
      (''Journal (retention released)'', Some (''retention money released'')),
      (''Journal (from a fund)'', Some (''a fund's money moved for its purpose at year end'')),
      (''Journal (written off)'', Some (''an amount written off'')),
      (''Journal (correction)'', Some (''a correction''))]"

text \<open>The kinds one voucher shows: its type, and for a receipt or a payment an advance it touches or a loan it repays.\<close>

definition voucher_keys :: "posted_book \<Rightarrow> posted_voucher \<Rightarrow> error + string list" where
  "voucher_keys b v =
     (if vtype v = Receipt \<or> vtype v = Payment
      then ebind (emap (\<lambda>(n, a). ebind (account_named b (Some n)) (\<lambda>x.
             Inr (if kind x = Advance \<or> (kind x = Loan \<and> a > 0) then [kind_key (kind x)] else []))) (vlines v))
             (\<lambda>ks. Inr (vtype_str (vtype v) # concat ks))
      else Inr [vtype_str (vtype v)])"

definition voucher_seen :: "posted_book \<Rightarrow> posted_voucher \<Rightarrow> error + string list" where
  "voucher_seen b v =
     ebind (voucher_keys b v) (\<lambda>ks.
     ebind (assert_that (vtype_str (vtype v) \<in> set (map fst ENTRY_KINDS)) ''no kind of entry for'') (\<lambda>_. Inr ks))"

definition journal_words :: "posted_book list \<Rightarrow> string" where
  "journal_words bs =
     join_str '' or '' (sort (remdups (map journal_word (filter (\<lambda>b. list_ex (\<lambda>v. vtype v = Journal) (vouchers b)) bs))))"

definition kind_words :: "posted_book list \<Rightarrow> string list \<Rightarrow> string list" where
  "kind_words bs seen =
     foldl (\<lambda>ws (key, w). let w = (case w of Some w \<Rightarrow> w | None \<Rightarrow> journal_words bs)
                          in if key \<in> set seen \<and> w \<notin> set ws then ws @ [w] else ws) [] ENTRY_KINDS"

definition entry_kinds :: "posted_book list \<Rightarrow> error + string" where
  "entry_kinds bs =
     ebind (emap (\<lambda>b. ebind (emap (voucher_seen b) (vouchers b)) (\<lambda>s. Inr (concat s))) bs) (\<lambda>seen.
       let ws = kind_words bs (concat seen)
       in case ws of
            [] \<Rightarrow> Inl (IndexError ''list index out of range'')
          | [w] \<Rightarrow> Inr w
          | _ \<Rightarrow> Inr (join_str '', '' (butlast ws) @ '', or '' @ List.last ws))"

section \<open>The companion\<close>

definition priced :: "(string \<times> int) list \<Rightarrow> string" where   \<comment> \<open>\<open>"; ".join("%s %s" % (n, fmt(a)) ...)\<close>\<close>
  "priced ls = join_str ''; '' (map (\<lambda>(n, a). n @ '' '' @ fmt a) ls)"

definition tech_accounts :: "posted_book \<Rightarrow> string list" where
  "tech_accounts b =
     table [''#'', ''Account'', ''Printed type'', ''Standard type'', ''Traditional class'', ''Kind (generator)'', ''Natural balance'', ''Opening 01 Apr 2025'']
       [AR, AL, AL, AL, AL, AL, AC, AR]
       (map (\<lambda>(i, a). [str_nat (int (Suc i)), aname a, group a, std_type (KIND (kind a)), trad (KIND (kind a)),
                       ''`'' @ kind_key (kind a) @ ''`'', natural (KIND (kind a)), amt_side (opening_bal a)])
          (List.enumerate 0 (accounts b)))"

definition tech_entry :: "posted_book \<Rightarrow> posted_voucher \<Rightarrow> error + string list" where
  "tech_entry b v =
     ebind (APP_VERB (vtype v)) (\<lambda>verb.
       Inr [vid v, fdate (vdate v), PLAIN_VTYPE (vtype v), vtype_str (formal_vtype b v), verb, priced (dr_lines v), priced (cr_lines v)])"

definition tech_entries :: "posted_book \<Rightarrow> error + string list" where
  "tech_entries b =
     ebind (emap (tech_entry b) (vouchers b)) (\<lambda>rs.
       Inr (table [''No.'', ''Date'', ''Printed type'', ''Formal voucher type'', (''App verb (02 '' @ [CHR 0xC2, CHR 0xA7] @ ''2)''), ''Dr'', ''Cr''] [AL, AL, AL, AL, AL, AL, AL] rs))"

definition formal_counts :: "posted_book \<Rightarrow> string" where
  "formal_counts b =
     (let fs = map (\<lambda>v. vtype_str (formal_vtype b v)) (vouchers b)
      in join_str ('' '' @ u_middot @ '' '') (map (\<lambda>k. k @ '' '' @ str_nat (int (count_list fs k))) (sort (remdups fs))))"

definition first_line :: "(kind \<Rightarrow> bool) \<Rightarrow> posted_book \<Rightarrow> (string \<times> int) list \<Rightarrow> error + (string \<times> int)" where
  "first_line P b ls =
     (case filter (\<lambda>(n, a). case kind_of b n of None \<Rightarrow> False | Some k \<Rightarrow> P k) ls of
        [] \<Rightarrow> Inl (IndexError ''list index out of range'') | l # _ \<Rightarrow> Inr l)"

definition lines_of :: "(kind \<Rightarrow> bool) \<Rightarrow> posted_book \<Rightarrow> (string \<times> int) list \<Rightarrow> (string \<times> int) list" where
  "lines_of P b ls = filter (\<lambda>(n, a). case kind_of b n of None \<Rightarrow> False | Some k \<Rightarrow> P k) ls"

definition fund_posting :: "posted_book \<Rightarrow> posted_voucher \<Rightarrow> error + string" where
  "fund_posting b v =
     ebind (first_line (\<lambda>k. k = Fund) b (dr_lines v)) (\<lambda>fd.
     ebind (first_line (\<lambda>k. k = Income) b (cr_lines v)) (\<lambda>inc.
       Inr ((''- `'' @ (vid v) @ ''`: posting 1 '' @ u_emdash @ '' Dr '' @ (priced (lines_of (\<lambda>k. k \<noteq> Fund) b (dr_lines v))) @
       '' '' @ u_middot @ '' Cr '' @ (priced (lines_of is_money b (cr_lines v))) @ '' (the cost, charged to Income & Expenditure); posting 2 '' @
       u_emdash @ '' Dr '' @ (fst fd) @ '' '' @ (fmt (snd fd)) @ '' '' @ u_middot @ '' Cr '' @ (fst inc) @ '' '' @ (fmt (snd inc)) @
       '' (the same amount moved out of the fund, so the fund's own result is nil).''))))"

definition tech_funds :: "posted_book \<Rightarrow> error + string list" where
  "tech_funds b =
     (let vs = filter (\<lambda>v. vtype v = FundPayment) (vouchers b)
      in if vs = [] then Inr []
         else ebind (emap (fund_posting b) vs) (\<lambda>ls. Inr ([(''### Spending from a fund '' @ u_emdash @ '' one action, two postings (O-17-1)''), []] @ ls @ [[]])))"

definition tech_close :: "posted_book \<Rightarrow> error + string list" where
  "tech_close b =
     ebind (close_entries b) (\<lambda>es.
       Inr (table [''No.'', ''What the book does'', ''Dr'', ''Cr''] [AL, AL, AL, AL]
         (map (\<lambda>(no, what, ls). [no, what, priced (filter (\<lambda>(n, a). a > 0) ls), priced (map (\<lambda>(n, a). (n, - a)) (filter (\<lambda>(n, a). a < 0) ls))]) es)))"

definition tech_appropriation :: "posted_book \<Rightarrow> error + string list" where
  "tech_appropriation b =
     (if partners b = [] then Inr []
      else ebind (appropriation b (year_result b)) (\<lambda>ap.
        Inr [''*P&L Appropriation (posted): '' @ join_str ''; '' (map (\<lambda>(p, i, s). pname p @ '' interest '' @ fmt0 i @ '' + share '' @ fmt0 s) ap)
             @ (''. Leftover paise of the share go to the partner with the largest ratio, ties to the earliest partner account (02 '' @
       [CHR 0xC2, CHR 0xA7] @ ''7.1). Interest on capital only where the partners agreed it and only out of profit (O-14-3).*''), []]))"

definition tech_book :: "posted_book \<Rightarrow> (string \<times> string) list \<Rightarrow> string list \<Rightarrow> error + string list" where
  "tech_book b gps srcs =
     ebind (tech_entries b) (\<lambda>es.
     ebind (tech_funds b) (\<lambda>fs.
     ebind (tech_close b) (\<lambda>cl.
     ebind (tech_appropriation b) (\<lambda>ap.
       Inr ([(''## '' @ (bname b) @ '' '' @ u_emdash @ '' '' @ (kindword b) @ '' (prefix `'' @ (prefix b) @ ''`, '' @ (str_nat (int (length (vouchers b)))) @
       '' entries)''), [],
             (''### Accounts '' @ u_emdash @ '' standard type and traditional class (five types, O-02-1; a bank is a personal account, O-02-2)''), []] @ tech_accounts b @ [[],
             (''### Entries '' @ u_emdash @ '' formal voucher type and the app verb''), []] @ es @ [[], (''*'' @ (str_nat (int (length (vouchers b)))) @ '' vouchers: '' @ (formal_counts b) @ ''.*''), []] @ fs
            @ [(''### Year close '' @ u_emdash @ '' the entries the book makes itself (O-19-1; formal type `Journal (year close)`, dated 31 Mar 2026)''), []] @ cl @ [[]] @ ap
            @ (if gps \<noteq> [] then [''### Where this book needs what the app's rules do not yet provide (see `GAPS.md`)'', []] @ map (\<lambda>(r, t). ''- `'' @ r @ ''`'' @ ('' '' @ u_emdash @ '' '') @ t) gps @ [[]] else [])
            @ (if srcs \<noteq> [] then [''### Practice sources'', []] @ map (\<lambda>s. ''- '' @ s) srcs @ [[]] else []))))))"

definition tech_checks :: "string list" where
  "tech_checks =
     [''## Checks'', [],
      (''- `build.py` asserts: every voucher sums to zero with '' @ [CHR 0xE2, CHR 0x89, CHR 0xA5] @ '' 2 non-zero lines and no account twice; money in/out touches a money account and no-money entries do not (a Money out may also credit an advance it recovers or the lender's part of a purchase); a transfer joins two own money/deposit accounts; spending from a fund charges the year and moves the same amount out of the fund; the gollak is filled only by a count and emptied only into cash or bank; openings and the trial balance balance; cash, bank and wallet never go negative, a credit card never goes past nil; advances, loans given, retention, things owned and deposits are never over-settled; fixed capital does not move; every year-close entry balances, the result account and every income, expense and drawings account stand at nil after them, and the own money after them equals the balance sheet's; the position make-up equals the position at both dates; the balance sheet balances; the carry-forward sums to zero; every inter-book pair agrees entry for entry; the entry count is within the compact range; no book prints on more than 14 A4 pages.''),
      ''- `check_md.py` re-derives the printed book independently (no shared code): chart totals, the Day Book entry by entry, every ledger row by row, the Cash Book with its month totals, the bank-statement extract, both positions and their make-up, the one-month summary, the chosen-period statement, the ageing, the trial balance, the year's statement, the appropriation, the Receipts & Payments, each fund's statement, the year-close entries, the balance sheet, the carry-forward and the family summary, and that every report head carries the book, the date or period, the basis, Year closed and Made on.'',
      []]"

definition render_tech :: "(string \<Rightarrow> string) \<Rightarrow> case_doc \<Rightarrow> string \<Rightarrow> error + string" where
  "render_tech blake2b c md =
     ebind (entry_kinds (books c)) (\<lambda>kinds.
     ebind (emap (\<lambda>(b, gps, srcs). tech_book b gps srcs) (zip (books c) (zip (gaps c) (sources c)))) (\<lambda>bs.
       Inr (join_str [nl]
         ([(''# Technical companion '' @ u_emdash @ '' '' @ (title c)), [],
           (''Generated by `build.py` beside `'' @ (slug c) @ ''.md`. The printed book is the user-facing layout in everyday words; everything technical lives here, in `README.md` and in `GAPS.md`. Content hash of the printed book (BLAKE2b-256): `'' @
       (blake2b md) @ ''`.''), [],
           (''## Basis (ADR 2026-10-12 '' @ [CHR 0xC2, CHR 0xA7] @ ''2, '' @ [CHR 0xC2, CHR 0xA7] @ ''10'' @ u_endash @
       [CHR 0xC2, CHR 0xA7] @ ''12; ADR 2026-10-20 '' @ [CHR 0xC2, CHR 0xA7] @ ''2; rulings of 20 Oct 2026 in `docs/archive/reference/accounting-research/OPEN.md`)''), [],
           ''- No tax, GST, TDS, invoicing, stock or payroll (`docs/00-vision.md`, non-goals). Purchases for resale are an expense when bought or taken on credit; there is no closing stock.'',
           (''- Transaction-driven: every entry is '' @ kinds @ ''.''),
           (''- The khata basis (O-01-1): no depreciation, prepaid, outstanding or accrued entries and no closing stock; things owned stay at cost (O-09-1). The year close is **posted** by the book itself (O-19-1) on 31 Mar 2026 '' @
       u_emdash @ '' income and expense heads to the result, the result and Drawings to own money, a partnership through a posted P&L Appropriation Account (O-14-1), a trust's surplus or deficit to the General Fund '' @
       u_emdash @ '' listed below as entries `<prefix>-Y1 '' @ u_hellip @ ''`, formal type `Journal (year close)`; none is typed by the user and none is in the Day Book export.''),
           (''- Plain words in the printed book; the true side stays in a small bracket after the plain label (ADR 2026-10-10b '' @
       [CHR 0xC2, CHR 0xA7] @ ''4). Ledger rows carry each entry's note in small type; the Day Book and the Cash Book are an export (`'' @
       (slug c) @ ''.export.md`), not part of the printed book (ADR 2026-10-12 '' @ [CHR 0xC2, CHR 0xA7] @
       ''11, amended 13 Oct 2026).''), []] @ concat bs @ tech_checks) @ [nl])))"

end
