(* ===== verification/Book_Check.thy ===== *)
theory Book_Check
  imports Ledger_Facts
begin

text \<open>
  A decision procedure for \<open>finalize\<close> on a concrete book.  What its assertions look at is the
  skeleton of the book: kinds and openings, dates, voucher types, and lines with the account's place
  for its name.  \<open>skeleton_check\<close> runs them on the skeleton, and \<open>build_book_ok\<close> shows that a
  book whose skeleton passes is built without an error.
\<close>

section \<open>The skeleton of a book\<close>

type_synonym skeleton = "date \<times> vtype \<times> (nat \<times> int) list \<times> bool"

definition pos_of :: "string list \<Rightarrow> string \<Rightarrow> nat" where
  "pos_of ns n = length (takeWhile (\<lambda>m. m \<noteq> n) ns)"

lemma pos_of_nth:
  assumes "n \<in> set ns"
  shows "pos_of ns n < length ns" "ns ! pos_of ns n = n"
proof -
  have *: "length (takeWhile (\<lambda>m. m \<noteq> n) ns) < length ns"
    using assms by (induction ns) auto
  then show "pos_of ns n < length ns" by (simp add: pos_of_def)
  show "ns ! pos_of ns n = n" using nth_length_takeWhile [OF *] by (simp add: pos_of_def)
qed

lemma pos_of_less: "pos_of ns n < length ns \<longleftrightarrow> n \<in> set ns"
proof
  assume "pos_of ns n < length ns"
  then show "n \<in> set ns" using nth_length_takeWhile [of "\<lambda>m. m \<noteq> n" ns] nth_mem unfolding pos_of_def by fastforce
qed (rule pos_of_nth)

lemma pos_of_eq: "n \<in> set ns \<Longrightarrow> m \<in> set ns \<Longrightarrow> pos_of ns n = pos_of ns m \<longleftrightarrow> n = m"
  by (metis pos_of_nth(2))

definition cash_dep :: "string option \<Rightarrow> bool" where
  "cash_dep st = starts_with ''CASH DEP'' (case st of None \<Rightarrow> '''' | Some s \<Rightarrow> s)"

definition entry_skeleton :: "string list \<Rightarrow> entry \<Rightarrow> skeleton" where
  "entry_skeleton ns e =
     (edate e, etype e, map (\<lambda>(n, a). (pos_of ns n, a)) (elines e), cash_dep (estmt e))"

lemma entry_refs:
  "eref (pay d x y amt narr st) = None" "eref (rcv d x y amt narr st) = None" "eref (move d x y amt narr st) = None"
  "eref (gave d x y amt narr) = None" "eref (took d x y amt narr) = None"
  "eref (fix_entry d x y amt narr t r) = r" "eref (ventry d t narr ls st) = None"
  by (simp_all add: pay_def rcv_def move_def gave_def took_def fix_entry_def ventry_def)

lemma entry_skeletons:
  "entry_skeleton ns (pay d x y amt narr st) = (d, Payment, [(pos_of ns x, amt), (pos_of ns y, - amt)], cash_dep st)"
  "entry_skeleton ns (rcv d x y amt narr st) = (d, Receipt, [(pos_of ns x, amt), (pos_of ns y, - amt)], cash_dep st)"
  "entry_skeleton ns (move d x y amt narr st) = (d, Contra, [(pos_of ns x, amt), (pos_of ns y, - amt)], cash_dep st)"
  "entry_skeleton ns (gave d x y amt narr) = (d, CreditGiven, [(pos_of ns x, amt), (pos_of ns y, - amt)], False)"
  "entry_skeleton ns (took d x y amt narr) = (d, CreditTaken, [(pos_of ns x, amt), (pos_of ns y, - amt)], False)"
  "entry_skeleton ns (fix_entry d x y amt narr t r) = (d, t, [(pos_of ns x, amt), (pos_of ns y, - amt)], False)"
  "entry_skeleton ns (ventry d t narr ls st) = (d, t, map (\<lambda>(n, a). (pos_of ns n, a)) ls, cash_dep st)"
  by (simp_all add: entry_skeleton_def pay_def rcv_def move_def gave_def took_def fix_entry_def ventry_def cash_dep_def)

section \<open>The checks on the skeleton\<close>

definition shape_check :: "vtype \<Rightarrow> (kind \<times> int) list \<Rightarrow> bool" where
  "shape_check t ls =
     (let drs = filter (\<lambda>(k, a). a > 0) ls;
          crs = filter (\<lambda>(k, a). a < 0) ls;
          money = filter (\<lambda>(k, a). k \<in> set MONEY_KINDS) ls
      in if t = Contra then
           length (filter (\<lambda>(k, a). k \<in> set (Invest # MONEY_KINDS)) ls) = length ls \<and> length ls = 2 \<and> money \<noteq> []
         else if t = FundPayment then
           (let fd = filter (\<lambda>(k, a). k \<in> set [Fund]) drs;
                ic = filter (\<lambda>(k, a). k \<in> set [Income]) crs
            in (length fd = 1 \<and> length ic = 1 \<and> money \<noteq> [] \<and> length ls = 4)
               \<and> (list_all (\<lambda>(k, a). k \<in> set [Fund, Expense, Fixed]) drs
                  \<and> list_all (\<lambda>(k, a). k \<in> set (Income # MONEY_KINDS)) crs)
               \<and> (map snd fd = map (\<lambda>(k, a). - a) ic
                  \<and> map snd fd = [sum_list (map (\<lambda>(k, a). - a) (filter (\<lambda>(k, a). k \<in> set MONEY_KINDS) crs))]))
         else if t = Receipt then money \<noteq> [] \<and> list_all (\<lambda>(k, a). k \<in> set MONEY_KINDS) drs
         else if t = Payment then
           money \<noteq> [] \<and> list_all (\<lambda>(k, a). k \<in> set ([Advance, Loan] @ MONEY_KINDS)) crs
             \<and> list_all (\<lambda>(k, a). k \<notin> set MONEY_KINDS) drs
         else money = [])"

definition gollak_check :: "vtype \<Rightarrow> (kind \<times> int) list \<Rightarrow> bool" where
  "gollak_check t ls =
     list_all (\<lambda>(k, a).
        if a < 0 then t = Contra \<and> list_all (\<lambda>(k, x). k \<in> set [Cash, Bank]) (filter (\<lambda>(k, x). x > 0) ls)
        else t = Receipt \<and> list_all (\<lambda>(k, x). k \<in> set [Income]) (filter (\<lambda>(k, x). x < 0) ls))
       (filter (\<lambda>(k, a). k \<in> set [Gollak]) ls)"

definition voucher_check :: "kind list \<Rightarrow> skeleton \<Rightarrow> bool" where
  "voucher_check ks v =
     (case v of (d, t, ls, dep) \<Rightarrow>
        2 \<le> length ls \<and> sum_list (map snd ls) = 0 \<and> distinct (map fst ls)
        \<and> list_all (\<lambda>(i, a). i < length ks \<and> a \<noteq> 0) ls \<and> t \<in> set VTYPES
        \<and> (let kls = map (\<lambda>(i, a). (ks ! i, a)) ls in shape_check t kls \<and> gollak_check t kls)
        \<and> (FY_START \<le> d \<and> d \<le> FY_END) \<and> (dep \<longrightarrow> branch_open d))"

definition account_check :: "kind \<Rightarrow> int \<Rightarrow> int list \<Rightarrow> bool" where
  "account_check k op xs =
     (let rs = running op xs
      in (k \<in> set NONNEG_MONEY \<longrightarrow> op \<ge> 0 \<and> list_all (\<lambda>x. x \<ge> 0) rs)
         \<and> (k = Card \<longrightarrow> list_all (\<lambda>x. x \<le> 0) rs)
         \<and> (k \<in> set [Advance, Fixed, Invest, Gollak, Deppaid, Loanto, Retention] \<longrightarrow> list_all (\<lambda>x. x \<ge> 0) rs)
         \<and> (k = Pcapital \<longrightarrow> rs = []))"

fun postings :: "nat \<Rightarrow> skeleton list \<Rightarrow> int list" where
  "postings i [] = []"
| "postings i ((d, t, ls, dep) # vs) = map snd (filter (\<lambda>(j, a). j = i) ls) @ postings i vs"

fun accounts_check :: "skeleton list \<Rightarrow> nat \<Rightarrow> kind list \<Rightarrow> int list \<Rightarrow> bool" where
  "accounts_check vs i (k # ks) (op # ops) = (account_check k op (postings i vs) \<and> accounts_check vs (Suc i) ks ops)"
| "accounts_check vs i ks ops = (ks = [] \<and> ops = [])"

text \<open>The closing balances, from the openings and the postings.\<close>

fun skeleton_closings :: "skeleton list \<Rightarrow> nat \<Rightarrow> int list \<Rightarrow> int list" where
  "skeleton_closings vs i [] = []"
| "skeleton_closings vs i (op # ops) = (op + sum_list (postings i vs)) # skeleton_closings vs (Suc i) ops"

definition skeleton_balances :: "skeleton list \<Rightarrow> int list \<Rightarrow> int list" where
  "skeleton_balances vs ops = skeleton_closings (sort_key fst vs) 0 ops"

definition skeleton_check :: "int \<Rightarrow> int \<Rightarrow> kind list \<Rightarrow> int list \<Rightarrow> skeleton list \<Rightarrow> bool" where
  "skeleton_check mn mx ks ops vs =
     (list_all (voucher_check ks) vs \<and> accounts_check (sort_key fst vs) 0 ks ops
      \<and> Cash \<in> set ks \<and> mn \<le> int (length vs) \<and> int (length vs) \<le> mx)"

section \<open>Building a book in one go\<close>

definition build_book :: "book \<Rightarrow> account list \<Rightarrow> string \<Rightarrow> entry list \<Rightarrow> error + posted_book" where
  "build_book h as own es =
     ebind (add_accounts h as) (\<lambda>b.
     ebind (balance_opening_into b own) (\<lambda>b.
     ebind (add_entries b es) finalize))"

lemma add_accounts_eq:
  "distinct (map aname (accounts h @ as)) \<Longrightarrow> add_accounts h as = Inr (h\<lparr>accounts := accounts h @ as\<rparr>)"
proof (induction as arbitrary: h)
  case (Cons a as)
  then have "add h a = Inr (h\<lparr>accounts := accounts h @ [a]\<rparr>)"
    by (auto simp: add_def known_iff order_def)
  with Cons.IH [of "h\<lparr>accounts := accounts h @ [a]\<rparr>"] Cons.prems show ?case
    by (simp add: add_accounts_def)
qed (simp add: add_accounts_def)

fun vouchers_of :: "nat \<Rightarrow> entry list \<Rightarrow> voucher list" where
  "vouchers_of i [] = []"
| "vouchers_of i (e # es) =
     \<lparr>vdate = edate e, vtype = etype e, narration = enarr e, vlines = elines e,
       stmt = estmt e, vseq = i, vref = eref e\<rparr> # vouchers_of (Suc i) es"

lemma add_entries_eq:
  "list_all (\<lambda>e. FY_START \<le> edate e \<and> edate e \<le> FY_END) es \<Longrightarrow>
   add_entries h es = Inr (h\<lparr>vouchers := vouchers h @ vouchers_of (length (vouchers h)) es\<rparr>)"
proof (induction es arbitrary: h)
  case (Cons e es)
  then show ?case by (simp add: add_entries_def book_v_def)
qed (simp add: add_entries_def)

definition total_but :: "string \<Rightarrow> account list \<Rightarrow> int" where
  "total_but own as = (\<Sum>a\<leftarrow>as. if aname a = own then 0 else opening_bal a)"

text \<open>The opening of the own-money account once it balances the others.\<close>

definition own_opening :: "string \<Rightarrow> account list \<Rightarrow> int" where
  "own_opening own as = - total_but own as"

definition balanced_openings :: "string \<Rightarrow> account list \<Rightarrow> int list" where
  "balanced_openings own as = map (\<lambda>a. if aname a = own then - total_but own as else opening_bal a) as"

lemma set_opening_map [simp]:
  "map kind (set_opening n x as) = map kind as"
  "map opening_bal (set_opening n x as) = map (\<lambda>a. if aname a = n then x else opening_bal a) as"
  by (induction as) (simp_all add: set_opening_def)

lemma build_book_eq:
  assumes "accounts h = []" "vouchers h = []" "distinct (map aname as)" "own \<in> set (map aname as)"
    and "list_all (\<lambda>e. FY_START \<le> edate e \<and> edate e \<le> FY_END) es"
  shows "build_book h as own es
       = finalize (h\<lparr>accounts := set_opening own (- total_but own as) as, vouchers := vouchers_of 0 es\<rparr>)"
proof -
  have t: "sum_list [opening_bal a. a \<leftarrow> as, aname a \<noteq> own] = total_but own as"
    unfolding total_but_def by (auto intro!: arg_cong [where f = sum_list] map_cong)
  have "add_accounts h as = Inr (h\<lparr>accounts := as\<rparr>)" using add_accounts_eq [of h as] assms by simp
  moreover have "balance_opening_into (h\<lparr>accounts := as\<rparr>) own
      = Inr (h\<lparr>accounts := set_opening own (- total_but own as) as\<rparr>)"
    using assms(4) t by (simp add: balance_opening_into_def known_iff order_def)
  ultimately show ?thesis
    using add_entries_eq [OF assms(5)] assms(2) by (simp add: build_book_def)
qed

lemma vouchers_of_seq: "map vseq (vouchers_of i es) = [i..<i + length es]"
proof (induction es arbitrary: i)
  case (Cons e es)
  have "[i..<i + length (e # es)] = i # [Suc i..<Suc i + length es]" by (subst upt_rec) simp
  with Cons show ?case by simp
qed simp

lemma vouchers_of_set: "w \<in> set (vouchers_of i es) \<Longrightarrow> \<exists>e\<in>set es. vdate w = edate e \<and> vref w = eref e"
  by (induction es arbitrary: i) auto

lemma length_vouchers_of [simp]: "length (vouchers_of i es) = length es"
  by (induction es arbitrary: i) simp_all

lemma built_wf:
  assumes "vouchers h = []" "distinct (map aname as)"
    and "list_all (\<lambda>e. FY_START \<le> edate e \<and> edate e \<le> FY_END) es"
  shows "book_wf (h\<lparr>accounts := as, vouchers := vouchers_of 0 es\<rparr>)"
  using assms by (auto simp: book_wf_def order_def vouchers_of_seq list_all_iff dest!: vouchers_of_set)

section \<open>The skeleton decides\<close>

definition voucher_skeleton :: "string list \<Rightarrow> ('a) voucher_scheme \<Rightarrow> skeleton" where
  "voucher_skeleton ns v =
     (vdate v, vtype v, map (\<lambda>(n, a). (pos_of ns n, a)) (vlines v), cash_dep (stmt v))"

lemma skeleton_vouchers_of: "map (voucher_skeleton ns) (vouchers_of i es) = map (entry_skeleton ns) es"
  by (induction es arbitrary: i) (simp_all add: voucher_skeleton_def entry_skeleton_def)

subsection \<open>Sorting\<close>

lemma insort_seq:
  "list_all (\<lambda>y. vseq x < vseq y) ys \<Longrightarrow> insort_key (\<lambda>v. (vdate v, vseq v)) x ys = insort_key vdate x ys"
  by (induction ys) (auto simp: less_eq_prod_def)

lemma sort_seq:
  fixes vs :: "voucher list"
  assumes "sorted_wrt (\<lambda>v w. vseq v < vseq w) vs"
  shows "sort_key (\<lambda>v. (vdate v, vseq v)) vs = sort_key vdate vs"
  using assms
proof (induction vs)
  case (Cons v vs)
  then have "list_all (\<lambda>y. vseq v < vseq y) (sort_key vdate vs)" by (simp add: list_all_iff)
  with Cons show ?case by (simp add: insort_seq)
qed simp

lemma sort_skeleton: "map (voucher_skeleton ns) (sort_key vdate vs) = sort_key fst (map (voucher_skeleton ns) vs)"
proof -
  have "map (voucher_skeleton ns) (insort_key vdate v ys)
      = insort_key fst (voucher_skeleton ns v) (map (voucher_skeleton ns) ys)" for v and ys :: "('a) voucher_scheme list"
    by (induction ys) (simp_all add: voucher_skeleton_def)
  then show ?thesis by (induction vs) simp_all
qed

lemma skeleton_number: "map (voucher_skeleton ns) (number_vouchers p i vs) = map (voucher_skeleton ns) vs"
  by (induction vs arbitrary: i) (simp_all add: voucher_skeleton_def voucher.defs)

lemma skeleton_fill_ref: "fill_ref ws v = Inr w \<Longrightarrow> voucher_skeleton ns w = voucher_skeleton ns v"
  by (auto simp: fill_ref_def voucher_skeleton_def split: option.splits)

lemma skeleton_emap_fill_ref:
  "emap (fill_ref ws) vs = Inr us \<Longrightarrow> map (voucher_skeleton ns) us = map (voucher_skeleton ns) vs"
  by (induction vs arbitrary: us) (auto simp: ebind_Inr dest: skeleton_fill_ref)

subsection \<open>One voucher\<close>

lemma find_pos:
  assumes "n \<in> set (order b)"
  shows "find_account b n = Some (accounts b ! pos_of (order b) n)"
proof -
  have "find (\<lambda>a. aname a = n) as = Some (as ! pos_of (map aname as) n)" if "n \<in> set (map aname as)" for as :: "'a account_scheme list"
    using that by (induction as) (auto simp: pos_of_def)
  with assms show ?thesis by (simp add: find_account_def order_def)
qed

lemma name_is_pos:
  assumes "n \<in> set (order b)"
  shows "name_is b K n \<longleftrightarrow> map kind (accounts b) ! pos_of (order b) n \<in> set K"
proof -
  have "pos_of (order b) n < length (accounts b)" using pos_of_nth(1) [OF assms] by (simp add: order_def)
  then show ?thesis by (simp add: name_is_def kind_of_def find_pos [OF assms])
qed

lemma shape_check_eq:
  assumes nm: "\<And>n a K. (n, a) \<in> set (vlines v) \<Longrightarrow> name_is b K n \<longleftrightarrow> kd n \<in> set K"
  shows "list_all fst (shape_asserts b v) \<longleftrightarrow> shape_check (vtype v) (map (\<lambda>(n, a). (kd n, a)) (vlines v))"
    and "list_all fst (gollak_asserts b v) \<longleftrightarrow> gollak_check (vtype v) (map (\<lambda>(n, a). (kd n, a)) (vlines v))"
proof -
  have nm': "name_is b K (fst p) \<longleftrightarrow> kd (fst p) \<in> set K" if "p \<in> set (vlines v)" for p K
    using nm [of "fst p" "snd p"] that by simp
  have al: "list_all (\<lambda>p. name_is b K (fst p)) (filter P (vlines v)) = list_all (\<lambda>p. kd (fst p) \<in> set K) (filter P (vlines v))"
    and nl: "list_all (\<lambda>p. \<not> name_is b K (fst p)) (filter P (vlines v)) = list_all (\<lambda>p. kd (fst p) \<notin> set K) (filter P (vlines v))" for K P
    using nm' by (auto simp: list_all_iff)
  show "list_all fst (shape_asserts b v) \<longleftrightarrow> shape_check (vtype v) (map (\<lambda>(n, a). (kd n, a)) (vlines v))"
    unfolding shape_asserts_def shape_check_def Let_def
    by (simp add: nm' al nl filter_map split_def o_def cong: if_cong filter_cong)
  show "list_all fst (gollak_asserts b v) \<longleftrightarrow> gollak_check (vtype v) (map (\<lambda>(n, a). (kd n, a)) (vlines v))"
    unfolding gollak_asserts_def gollak_check_def
    by (simp add: nm' al nl filter_map split_def o_def if_distrib [of fst] cong: if_cong filter_cong)
qed

lemma voucher_check_ok:
  assumes "voucher_check (map kind (accounts b)) (voucher_skeleton (order b) v)"
  shows "is_ok (validate_voucher b v)"
    and "fst ` set (vlines v) \<subseteq> set (order b)"
    and "cash_dep (stmt v) \<Longrightarrow> branch_open (vdate v)"
proof -
  let ?ks = "map kind (accounts b)" and ?p = "pos_of (order b)"
  have len: "?p n < length (accounts b) \<longleftrightarrow> n \<in> set (order b)" for n
    using pos_of_less [of "order b" n] by (simp add: order_def)
  from assms have ls: "2 \<le> length (vlines v)" "sum_list (map snd (vlines v)) = 0" "distinct (map (?p \<circ> fst) (vlines v))"
      "list_all (\<lambda>(n, a). n \<in> set (order b) \<and> a \<noteq> 0) (vlines v)" "vtype v \<in> set VTYPES"
    and sh: "shape_check (vtype v) (map (\<lambda>(n, a). (?ks ! ?p n, a)) (vlines v))"
      "gollak_check (vtype v) (map (\<lambda>(n, a). (?ks ! ?p n, a)) (vlines v))"
    and dep: "cash_dep (stmt v) \<Longrightarrow> branch_open (vdate v)"
    by (auto simp: voucher_check_def voucher_skeleton_def Let_def o_def split_def len)
  show kn: "fst ` set (vlines v) \<subseteq> set (order b)" using ls(4) by (auto simp: list_all_iff)
  have "distinct (map fst (vlines v))"
    using ls(3) distinct_map [of ?p "map fst (vlines v)"] by simp
  moreover have "name_is b K n \<longleftrightarrow> ?ks ! ?p n \<in> set K" if "(n, a) \<in> set (vlines v)" for n a K
    using that kn by (intro name_is_pos) force
  note shape_check_eq [of v b "\<lambda>n. ?ks ! ?p n", OF this]
  ultimately show "is_ok (validate_voucher b v)"
    using ls sh by (auto simp: validate_voucher_def known_iff split_def simp del: asserts.simps elim: list.pred_mono_strong)
  show "cash_dep (stmt v) \<Longrightarrow> branch_open (vdate v)" by (rule dep)
qed

subsection \<open>The balances\<close>

lemma postings_lines:
  assumes "n \<in> set ns" "\<forall>v\<in>set vs. fst ` set (vlines v) \<subseteq> set ns"
  shows "postings (pos_of ns n) (map (voucher_skeleton ns) vs) = map (snd \<circ> snd) (lines_on n vs)"
  using assms(2)
proof (induction vs)
  case (Cons v vs)
  have "map snd (filter (\<lambda>(j, a). j = pos_of ns n) (map (\<lambda>(n, a). (pos_of ns n, a)) ls))
      = map snd (filter (\<lambda>l. fst l = n) ls)" if "fst ` set ls \<subseteq> set ns" for ls :: "(string \<times> int) list"
    using that
  proof (induction ls)
    case (Cons l ls)
    then have "pos_of ns (fst l) = pos_of ns n \<longleftrightarrow> fst l = n" by (intro pos_of_eq assms(1)) auto
    with Cons show ?case by (simp add: split_def)
  qed simp
  with Cons show ?case by (simp add: voucher_skeleton_def o_def)
qed simp

lemma account_check_ok:
  assumes "account_check (kind a) (opening_bal a) xs" "map rbal (rows a) = running (opening_bal a) xs"
  shows "list_all fst (account_asserts a)"
proof -
  have "list_all (\<lambda>r. 0 \<le> rbal r) (rows a) = list_all (\<lambda>x. 0 \<le> x) (running (opening_bal a) xs)"
    "list_all (\<lambda>r. rbal r \<le> 0) (rows a) = list_all (\<lambda>x. x \<le> 0) (running (opening_bal a) xs)"
    by (simp_all flip: assms(2))
  moreover have "rows a = [] \<longleftrightarrow> running (opening_bal a) xs = []" using assms(2) by (metis map_is_Nil_conv)
  ultimately show ?thesis
    using assms(1) unfolding account_asserts_def account_check_def Let_def by simp
qed

lemma accounts_check_nth:
  "accounts_check vs i ks ops \<Longrightarrow>
   length ops = length ks \<and> (\<forall>j<length ks. account_check (ks ! j) (ops ! j) (postings (i + j) vs))"
proof (induction vs i ks ops rule: accounts_check.induct)
  case (1 vs i k ks op ops)
  then have 0: "account_check k op (postings i vs)"
    and IH: "length ops = length ks" "\<forall>j<length ks. account_check (ks ! j) (ops ! j) (postings (Suc i + j) vs)"
    by simp_all
  have "account_check ((k # ks) ! j) ((op # ops) ! j) (postings (i + j) vs)" if "j < length (k # ks)" for j
    using 0 IH(2) that by (cases j) simp_all
  with IH(1) show ?case by simp
qed simp_all

lemma pos_of_distinct: "distinct ns \<Longrightarrow> i < length ns \<Longrightarrow> pos_of ns (ns ! i) = i"
proof -
  assume *: "distinct ns" "i < length ns"
  then have "ns ! i \<in> set ns" by simp
  with * show ?thesis using pos_of_nth [of "ns ! i" ns] nth_eq_iff_index_eq by blast
qed

text \<open>The assertions of \<open>validate_balances\<close> hold of a book whose skeleton passes.\<close>

lemma validate_balances_ok:
  fixes b :: book
  defines "ns \<equiv> order b" and "ks \<equiv> map kind (accounts b)" and "ops \<equiv> map opening_bal (accounts b)"
  assumes d: "distinct (order b)" and sum0: "sum_list ops = 0"
    and vc: "list_all (voucher_check ks) (map (voucher_skeleton ns) vs)"
    and ac: "accounts_check (map (voucher_skeleton ns) vs) 0 ks ops"
    and cash: "Cash \<in> set ks" and cnt: "min_count b \<le> int (length vs)" "int (length vs) \<le> max_count b"
  shows "efor (validate_voucher b) vs = Inr ()" and "is_ok (validate_balances (posted b (post b vs) vs))"
proof -
  have each: "is_ok (validate_voucher b v)" "fst ` set (vlines v) \<subseteq> set ns" "cash_dep (stmt v) \<Longrightarrow> branch_open (vdate v)"
    if "v \<in> set vs" for v
    using voucher_check_ok [of b v] vc that unfolding ns_def ks_def by (auto simp: list_all_iff)
  then show val: "efor (validate_voucher b) vs = Inr ()" by (auto simp: efor_Inr is_ok_iff)
  have acc: "list_all fst (account_asserts (ledger_of b vs a))" if a: "a \<in> set (accounts b)" for a
  proof (rule account_check_ok)
    let ?i = "pos_of ns (aname a)"
    have n: "aname a \<in> set ns" using a by (simp add: ns_def order_def)
    have "?i < length (accounts b)" using pos_of_nth(1) [OF n] by (simp add: ns_def order_def)
    moreover have "accounts b ! ?i = a"
      using find_pos [of "aname a" b] find_account_eq [OF d a] n unfolding ns_def by simp
    ultimately show "account_check (kind (ledger_of b vs a)) (opening_bal (ledger_of b vs a)) (map (snd \<circ> snd) (lines_on (aname a) vs))"
      using accounts_check_nth [OF ac] postings_lines [OF n, of vs] each(2) by (force simp: ks_def ops_def)
  qed (simp add: ledger_of_rows)
  have tb: "sum_list [closing a. a \<leftarrow> post b vs, closing a > 0] = sum_list [- closing a. a \<leftarrow> post b vs, closing a < 0]"
    by (rule trial_balance_lemma [OF d _ val]) (use sum0 in \<open>simp add: ops_def\<close>)
  have dep: "list_all (\<lambda>v. \<not> starts_with ''CASH DEP'' (case stmt v of None \<Rightarrow> '''' | Some s \<Rightarrow> s) \<or> branch_open (vdate v)) vs"
    using each(3) by (auto simp: list_all_iff cash_dep_def)
  have "list_ex (\<lambda>a. kind a = Cash) (post b vs)"
    using cash by (force simp: post_eq list_ex_iff ks_def)
  then show "is_ok (validate_balances (posted b (post b vs) vs))"
    using tb dep acc sum0 cnt
    unfolding validate_balances_def asserts_is_ok list_all_append list_all_map list_all_concat
    by (simp add: posted_def ops_def post_eq o_def list_all_iff)
qed

lemma voucher_check_year:
  "voucher_check ks (entry_skeleton ns e) \<Longrightarrow> FY_START \<le> edate e \<and> edate e \<le> FY_END"
  by (simp add: voucher_check_def entry_skeleton_def)

lemma number_image: "vseq ` set (number_vouchers p i ws) = vseq ` set ws" "vref ` set (number_vouchers p i ws) = vref ` set ws"
  by (induction ws arbitrary: i) (simp_all add: voucher.defs)

lemma fill_refs_ok:
  fixes p :: string
  assumes refs: "list_all (\<lambda>e. case eref e of None \<Rightarrow> True | Some k \<Rightarrow> k < length es) es"
  defines "ws \<equiv> number_vouchers p 1 (sort_vouchers (vouchers_of 0 es))"
  shows "is_ok (emap (fill_ref ws) ws)"
  unfolding emap_ok
proof
  have "vseq ` set ws = set (map vseq (vouchers_of 0 es))" by (simp add: ws_def number_image)
  then have seqs: "vseq ` set ws = {0..<length es}" unfolding vouchers_of_seq by simp
  fix w assume "w \<in> set ws"
  then have "vref w \<in> vref ` set (vouchers_of 0 es)" unfolding ws_def by (metis image_eqI number_image(2) set_sort_vouchers)
  then obtain e where e: "e \<in> set es" "vref w = eref e" by (auto dest: vouchers_of_set)
  show "is_ok (fill_ref ws w)"
  proof (cases "vref w")
    case (Some k)
    have "case eref e of None \<Rightarrow> True | Some k \<Rightarrow> k < length es" using refs e(1) by (simp add: list_all_iff)
    with e(2) Some have "k < length es" by (cases "eref e") simp_all
    then have "k \<in> vseq ` set ws" unfolding seqs by simp
    then have "find (\<lambda>w. vseq w = k) ws \<noteq> None" by (auto simp: find_None_iff)
    with Some show ?thesis by (auto simp: fill_ref_def)
  qed (simp add: fill_ref_def)
qed

lemma balanced_openings_sum:
  assumes "distinct (map aname as)" "own \<in> set (map aname as)"
  shows "sum_list (balanced_openings own as) = 0"
proof -
  obtain a where a: "a \<in> set as" "aname a = own" using assms(2) by auto
  have "sum_list (balanced_openings own as)
      = (\<Sum>x\<leftarrow>as. if aname x = aname a then - total_but own as else (if aname x = own then 0 else opening_bal x))"
    unfolding balanced_openings_def using a by (auto intro!: arg_cong [where f = sum_list])
  also have "... = 0"
    by (subst sum_list_map_if_eq [OF assms(1) a(1), of "\<lambda>_. - total_but own as"]) (simp add: a total_but_def)
  finally show ?thesis .
qed

lemma skeleton_closings_nth:
  "length (skeleton_closings vs i ops) = length ops
   \<and> (\<forall>j<length ops. skeleton_closings vs i ops ! j = ops ! j + sum_list (postings (i + j) vs))"
proof (induction vs i ops rule: skeleton_closings.induct)
  case (2 vs i op ops)
  have "skeleton_closings vs i (op # ops) ! j = (op # ops) ! j + sum_list (postings (i + j) vs)"
    if "j < length (op # ops)" for j
    using 2 that by (cases j) simp_all
  with 2 show ?case by simp
qed simp

lemma closings_skeleton:
  fixes b :: book
  assumes d: "distinct (order b)" and ls: "\<forall>v\<in>set vs. fst ` set (vlines v) \<subseteq> set (order b)"
  shows "map closing (post b vs)
       = skeleton_closings (map (voucher_skeleton (order b)) vs) 0 (map opening_bal (accounts b))"
proof (rule nth_equalityI)
  let ?sk = "map (voucher_skeleton (order b)) vs"
  show "length (map closing (post b vs)) = length (skeleton_closings ?sk 0 (map opening_bal (accounts b)))"
    by (simp add: skeleton_closings_nth post_eq)
  fix i assume "i < length (map closing (post b vs))"
  then have i: "i < length (accounts b)" by (simp add: post_eq)
  let ?a = "accounts b ! i"
  have n: "aname ?a = order b ! i" "aname ?a \<in> set (order b)" using i by (auto simp: order_def)
  have "pos_of (order b) (aname ?a) = i"     unfolding n(1) by (rule pos_of_distinct [OF d]) (use i in \<open>simp add: order_def\<close>)
  then have "postings i ?sk = map (snd \<circ> snd) (lines_on (aname ?a) vs)" using postings_lines [OF n(2) ls] by simp
  moreover have "skeleton_closings ?sk 0 (map opening_bal (accounts b)) ! i
      = map opening_bal (accounts b) ! i + sum_list (postings (0 + i) ?sk)"
    using skeleton_closings_nth [of ?sk 0 "map opening_bal (accounts b)"] i by (simp only: length_map)
  ultimately show "map closing (post b vs) ! i = skeleton_closings ?sk 0 (map opening_bal (accounts b)) ! i"
    using i by (simp add: post_eq ledger_of_rows(3) o_def)
qed

text \<open>A book over some accounts and entries whose skeleton passes is finalised without an error.\<close>

lemma finalize_skeleton:
  assumes d: "distinct (map aname as)" and sum0: "sum_list (map opening_bal as) = 0" and h: "vouchers h = []"
    and refs: "list_all (\<lambda>e. case eref e of None \<Rightarrow> True | Some k \<Rightarrow> k < length es) es"
    and chk: "skeleton_check (min_count h) (max_count h) (map kind as) (map opening_bal as)
                (map (entry_skeleton (map aname as)) es)"
  shows "book_wf (h\<lparr>accounts := as, vouchers := vouchers_of 0 es\<rparr>)"
    and "\<exists>pb. finalize (h\<lparr>accounts := as, vouchers := vouchers_of 0 es\<rparr>) = Inr pb
           \<and> map aname (accounts pb) = map aname as \<and> map kind (accounts pb) = map kind as
           \<and> map closing (accounts pb)
             = skeleton_balances (map (entry_skeleton (map aname as)) es) (map opening_bal as)
           \<and> partners pb = partners h \<and> style pb = style h"
proof -
  let ?b = "h\<lparr>accounts := as, vouchers := vouchers_of 0 es\<rparr>"
  let ?sk = "voucher_skeleton (order ?b)"
  have ord: "order ?b = map aname as" by (simp add: order_def)
  have yr: "list_all (\<lambda>e. FY_START \<le> edate e \<and> edate e \<le> FY_END) es"
    using chk voucher_check_year by (simp add: skeleton_check_def list_all_iff) blast
  show "book_wf ?b" by (rule built_wf [OF h d yr])
  let ?ws = "number_vouchers (prefix ?b) 1 (sort_vouchers (vouchers ?b))"
  have "is_ok (emap (fill_ref ?ws) ?ws)" using fill_refs_ok [OF refs] by simp
  then obtain vs where vs: "emap (fill_ref ?ws) ?ws = Inr vs" by (auto simp: is_ok_iff)
  have inc: "sorted_wrt (\<lambda>v w. vseq v < vseq w) (vouchers_of 0 es)"
    using vouchers_of_seq [of 0 es] by (simp flip: sorted_wrt_map [of "(<)" vseq])
  have sk: "map ?sk vs = sort_key fst (map (entry_skeleton (map aname as)) es)"
    by (simp add: skeleton_emap_fill_ref [OF vs] skeleton_number sort_vouchers_def sort_seq [OF inc] sort_skeleton skeleton_vouchers_of ord)
  have len: "length vs = length es" using sk by (metis length_map length_sort)
  have vcs: "list_all (voucher_check (map kind as)) (map ?sk vs)"
    and "accounts_check (map ?sk vs) 0 (map kind as) (map opening_bal as)"
    using chk by (simp_all add: sk skeleton_check_def list_all_iff)
  note check = this
  have acc: "accounts ?b = as" "min_count ?b = min_count h" "max_count ?b = max_count h" by simp_all
  from check have "efor (validate_voucher ?b) vs = Inr ()" "is_ok (validate_balances (posted ?b (post ?b vs) vs))"
    using validate_balances_ok [of ?b vs, unfolded acc] sum0 chk d ord by (simp_all add: skeleton_check_def len)
  then have fin: "finalize ?b = Inr (posted ?b (post ?b vs) vs)"
    using vs by (auto simp: finalize_def Let_def is_ok_iff)
  have "\<forall>v\<in>set vs. fst ` set (vlines v) \<subseteq> set (order ?b)"
  proof
    fix v assume "v \<in> set vs"
    then have "voucher_check (map kind (accounts ?b)) (?sk v)" using vcs unfolding acc by (simp add: list_all_iff)
    then show "fst ` set (vlines v) \<subseteq> set (order ?b)" by (rule voucher_check_ok(2))
  qed
  then have "map closing (post ?b vs)
      = skeleton_balances (map (entry_skeleton (map aname as)) es) (map opening_bal as)"
    using closings_skeleton [of ?b vs] d sk unfolding acc ord skeleton_balances_def by simp
  then show "\<exists>pb. finalize ?b = Inr pb
           \<and> map aname (accounts pb) = map aname as \<and> map kind (accounts pb) = map kind as
           \<and> map closing (accounts pb)
             = skeleton_balances (map (entry_skeleton (map aname as)) es) (map opening_bal as)
           \<and> partners pb = partners h \<and> style pb = style h"
    by (intro exI [of _ "posted ?b (post ?b vs) vs"]) (simp add: fin, simp add: post_eq o_def)
qed

text \<open>A book whose own money is the balancing figure.\<close>

lemma build_book_ok:
  assumes h: "accounts h = []" "vouchers h = []" and d: "distinct (map aname as)" and own: "own \<in> set (map aname as)"
    and refs: "list_all (\<lambda>e. case eref e of None \<Rightarrow> True | Some k \<Rightarrow> k < length es) es"
    and chk: "skeleton_check (min_count h) (max_count h) (map kind as) (balanced_openings own as)
                (map (entry_skeleton (map aname as)) es)"
  shows "\<exists>b pb. book_wf b \<and> finalize b = Inr pb \<and> build_book h as own es = Inr pb
           \<and> map aname (accounts pb) = map aname as \<and> map kind (accounts pb) = map kind as
           \<and> map closing (accounts pb)
             = skeleton_balances (map (entry_skeleton (map aname as)) es) (balanced_openings own as)
           \<and> partners pb = partners h \<and> style pb = style h"
proof -
  let ?as = "set_opening own (- total_but own as) as"
  have ops: "map opening_bal ?as = balanced_openings own as" by (simp add: balanced_openings_def)
  have yr: "list_all (\<lambda>e. FY_START \<le> edate e \<and> edate e \<le> FY_END) es"
    using chk voucher_check_year by (simp add: skeleton_check_def list_all_iff) blast
  show ?thesis
    unfolding build_book_eq [OF h d own yr]
    using finalize_skeleton [of ?as h es, unfolded ops] assms balanced_openings_sum [OF d own] by simp blast
qed

text \<open>A book whose openings were all asked for, and must agree.\<close>

definition build_book_asked :: "book \<Rightarrow> account list \<Rightarrow> entry list \<Rightarrow> error + posted_book" where
  "build_book_asked h as es =
     ebind (add_accounts h as) (\<lambda>b.
     ebind (assert_that (sum_list (map opening_bal (accounts b)) = 0) ''openings must balance'') (\<lambda>_.
     ebind (add_entries b es) finalize))"

lemma build_book_asked_ok:
  assumes h: "accounts h = []" "vouchers h = []" and d: "distinct (map aname as)"
    and sum0: "sum_list (map opening_bal as) = 0"
    and refs: "list_all (\<lambda>e. case eref e of None \<Rightarrow> True | Some k \<Rightarrow> k < length es) es"
    and chk: "skeleton_check (min_count h) (max_count h) (map kind as) (map opening_bal as)
                (map (entry_skeleton (map aname as)) es)"
  shows "\<exists>b pb. book_wf b \<and> finalize b = Inr pb \<and> build_book_asked h as es = Inr pb
           \<and> map aname (accounts pb) = map aname as \<and> map kind (accounts pb) = map kind as
           \<and> map closing (accounts pb)
             = skeleton_balances (map (entry_skeleton (map aname as)) es) (map opening_bal as)
           \<and> partners pb = partners h \<and> style pb = style h"
proof -
  have yr: "list_all (\<lambda>e. FY_START \<le> edate e \<and> edate e \<le> FY_END) es"
    using chk voucher_check_year by (simp add: skeleton_check_def list_all_iff) blast
  have "add_accounts h as = Inr (h\<lparr>accounts := as\<rparr>)" using add_accounts_eq [of h as] h(1) d by simp
  then have "build_book_asked h as es = finalize (h\<lparr>accounts := as, vouchers := vouchers_of 0 es\<rparr>)"
    using add_entries_eq [OF yr] h(2) sum0 by (simp add: build_book_asked_def assert_that_def)
  with finalize_skeleton [OF d sum0 h(2) refs chk] show ?thesis by simp blast
qed

end
