(* ===== verification/Shop_Book.thy ===== *)
theory Shop_Book
  imports Book_Check
begin

text \<open>
  The shop's book (\<open>build_shop\<close> of \<open>build.py\<close>): its accounts and entries in source order, loops over
  literal lists as \<open>map\<close>s, and the book they build.  The local name \<open>wrong\<close> is the place of the entry it
  is bound to.  Every assertion of \<open>finalize\<close> holds of it, and its closing balances are computed.
\<close>

definition Q4N :: "string list" where
  "Q4N = [(''April'' @ u_endash @ ''June 2025''), (''July'' @ u_endash @ ''September 2025''), (''October'' @ u_endash @ ''December 2025''), (''January'' @ u_endash @ ''March 2026'')]"

definition Q4E :: "date list" where
  "Q4E = [D 2025 6 30, D 2025 9 30, D 2025 12 31, D 2026 3 31]"

definition sh_cs :: "int list" where
  "sh_cs = [R 386000, R 342500, R 412000, R 398500]"

definition sh_gs :: "int list" where
  "sh_gs = [R 238000, R 214500, R 256000, R 247000]"

definition sh_sp :: "int list" where
  "sh_sp = [R 334000, R 301500, R 352000, R 338000]"

section \<open>Sukhwinder Sales Co.\<close>

definition sh_cash :: string where "sh_cash = ''Cash A/c''"
definition sh_bank :: string where "sh_bank = ''PNB Current A/c''"
definition sh_gnb :: string where "sh_gnb = ''Guru Nanak Builders A/c''"
definition sh_dpw :: string where "sh_dpw = ''Dhillon Plumbing Works A/c''"
definition sh_sup :: string where "sh_sup = ''Supreme Pipes Ltd A/c''"
definition sh_jaq :: string where "sh_jaq = ''Jaquar Sanitary Agency A/c''"
definition sh_adv :: string where "sh_adv = (''Advance '' @ u_endash @ '' Manpreet Kaur A/c'')"
definition sh_sdep :: string where "sh_sdep = (''Deposit paid '' @ u_endash @ '' Kapoor Properties A/c'')"
definition sh_fit :: string where "sh_fit = ''Shop Fittings & Counter A/c''"
definition sh_cap :: string where "sh_cap = (''Capital A/c '' @ u_endash @ '' Sukhwinder Bal'')"
definition sh_drw :: string where "sh_drw = (''Drawings A/c '' @ u_endash @ '' Sukhwinder Bal'')"
definition sh_sales :: string where "sh_sales = ''Sales A/c''"
definition sh_pur :: string where "sh_pur = ''Goods Bought for Sale A/c''"
definition sh_frt :: string where "sh_frt = ''Freight & Cartage A/c''"
definition sh_sal :: string where "sh_sal = ''Salary A/c''"
definition sh_rent :: string where "sh_rent = ''Shop Rent A/c''"
definition sh_util :: string where "sh_util = ''Electricity & Phone A/c''"
definition sh_sund :: string where "sh_sund = ''Bank Charges & Sundry A/c''"
definition sh_short :: string where "sh_short = ''Cash short / over A/c''"
definition sh_kasar :: string where "sh_kasar = ''Rebate & Kasar Allowed A/c''"

lemmas sh_name_defs =
  sh_cash_def sh_bank_def sh_gnb_def sh_dpw_def sh_sup_def sh_jaq_def
  sh_adv_def sh_sdep_def sh_fit_def sh_cap_def sh_drw_def sh_sales_def
  sh_pur_def sh_frt_def sh_sal_def sh_rent_def sh_util_def sh_sund_def
  sh_short_def sh_kasar_def

definition sh_accounts :: "account list" where
  "sh_accounts =
     [Account sh_cash Cash ''Counter cash'' (R 22000),
      Account sh_bank Bank ''Shop's current account'' (R 480000),
      Account sh_gnb Party (''Customer '' @ u_emdash @ '' builder'') (R 64000),
      Account sh_dpw Party (''Customer '' @ u_emdash @ '' plumbing contractor'') 0,
      Account sh_sup Party (''Supplier '' @ u_emdash @ '' pipes and fittings'') (- (R 118000)),
      Account sh_jaq Party (''Supplier '' @ u_emdash @ '' sanitary ware'') (- (R 46500)),
      Account sh_adv Advance ''Salary advance to the salesman'' 0,
      Account sh_sdep Deppaid
          (''Security deposit paid to the shop's landlord (six months' rent) '' @ u_emdash @ '' comes back when the shop is vacated'')
              (R 90000),
      Account sh_fit Fixed ''Racks, counter and display at what they cost'' (R 120000),
      Account sh_cap Capital ''Owner's own money in the shop'' 0,
      Account sh_drw Drawings ''Money taken for the household'' 0,
      Account sh_sales Income (''Goods sold '' @ u_emdash @ '' for cash at the counter and on credit'') 0,
      Account sh_pur Expense (''Pipes, fittings and sanitary ware bought '' @ u_emdash @ '' spent when bought (no stock is counted)'') 0,
      Account sh_frt Expense ''Goods brought to the shop and delivered'' 0,
      Account sh_sal Expense ''Salesman's salary'' 0,
      Account sh_rent Expense ''Rent of the shop'' 0,
      Account sh_util Expense ''Shop electricity and phone'' 0,
      Account sh_sund Expense ''Bank charges, stationery, small items'' 0,
      Account sh_short Expense
          ''What the counter cash count found short (spent) or over (got back) against the cash book, charged at once''
              0,
      Account sh_kasar Expense
          (''Rebate allowed to a customer on a disputed bill '' @ u_emdash @ '' taken off what he owes, against sales'') 0]"

definition sh_entries_1 :: "entry list" where
  "sh_entries_1 =
     concat (map (\<lambda>k. [rcv (Q4E ! k) sh_cash sh_sales (sh_cs ! k) (''Counter sales in cash, '' @ Q4N ! k @
         '' (from the daily cash memo book)'') None,
        move (Q4E ! k) sh_bank sh_cash ((if k \<noteq> 0 then (sh_cs ! k) - (R 6000) else (sh_cs ! k) - (R 4000)))
            ''Counter cash deposited in the bank'' (Some (''CASH DEP'' @ u_endash @ ''BRANCH'')),
        gave (Q4E ! k) sh_gnb sh_sales (sh_gs ! k) (''Goods to Guru Nanak Builders on credit, '' @ Q4N ! k),
        took (Q4E ! k) sh_pur sh_sup (sh_sp ! k) (''Pipes and fittings from Supreme Pipes on credit, '' @ Q4N ! k),
        pay (D (year (Q4E ! k)) ((month (Q4E ! k)) - 2) 3) sh_rent sh_bank (R 45000) (''Shop rent, '' @ Q4N ! k)
            (Some (''NEFT DR'' @ u_endash @ ''KAPOOR PROPERTIES''))] @ (if k = 1 then [ventry (Q4E ! k) Payment
                (''Salary of Manpreet Kaur, '' @ Q4N ! k @
                    ('' '' @ u_emdash @ '' '' @ u_rupee @ ''10,000 of it recovered from her advance, the rest paid'')) [(sh_sal, R 54000), (sh_adv, -
                        (R 10000)), (sh_bank, - (R 44000))] (Some (''NEFT DR'' @ u_endash @ ''MANPREET KAUR'' @ u_endash @ ''SAL''))] else [pay (Q4E !
                            k) sh_sal sh_bank (R 54000) (''Salary of Manpreet Kaur, '' @ Q4N ! k) (Some
                                (''NEFT DR'' @ u_endash @ ''MANPREET KAUR'' @ u_endash @ ''SAL''))]) @ [pay (D (year (Q4E ! k)) ((month (Q4E ! k)) - 1)
                                    10) sh_drw sh_bank (R 60000) ''Drawings for the household'' (Some
                                        (''IMPS DR'' @ u_endash @ ''SUKHWINDER BAL'' @ u_endash @ ''SELF''))])
          [0, 1, 2, 3])
     @ [rcv (D 2025 4 14) sh_bank sh_gnb (R 64000) ''Guru Nanak Builders paid March's goods (opening balance)''
         (Some (''NEFT CR'' @ u_endash @ ''GURU NANAK BUILDERS''))]
     @ concat (map (\<lambda>(d, k). [rcv d sh_bank sh_gnb (sh_gs ! k) (''Guru Nanak Builders paid for the goods of '' @ Q4N
         ! k @ (if k = 1 then '' (late)'' else '''')) (Some (''NEFT CR'' @ u_endash @ ''GURU NANAK BUILDERS''))])
          [(D 2025 7 15, 0), (D 2025 10 22, 1), (D 2026 1 14, 2)])
     @ [pay (D 2025 4 8) sh_sup sh_bank (R 118000) (''Supreme Pipes paid '' @ u_emdash @ '' March bill (opening balance)'') (Some
         (''RTGS DR'' @ u_endash @ ''SUPREME PIPES''))]
     @ concat (map (\<lambda>(d, k). [pay d sh_sup sh_bank (sh_sp ! k) ((''Supreme Pipes paid '' @ u_emdash @ '' goods of '') @ Q4N ! k) (Some
         (''RTGS DR'' @ u_endash @ ''SUPREME PIPES''))])
          [(D 2025 7 18, 0), (D 2025 10 9, 1), (D 2026 1 16, 2)])
     @ [took (D 2025 5 20) sh_pur sh_jaq (R 118600) ''Sanitary ware from Jaquar Sanitary Agency on credit'',
        took (D 2025 11 18) sh_pur sh_jaq (R 126400) ''Sanitary ware from Jaquar Sanitary Agency on credit'',
        pay (D 2025 4 25) sh_jaq sh_bank (R 46500) (''Jaquar Sanitary Agency paid '' @ u_emdash @ '' opening balance'') (Some
            (''NEFT DR'' @ u_endash @ ''JAQUAR SANITARY'')),
        pay (D 2025 8 26) sh_jaq sh_bank (R 118600) (''Jaquar Sanitary Agency paid '' @ u_emdash @ '' May bill'') (Some
            (''NEFT DR'' @ u_endash @ ''JAQUAR SANITARY'')),
        rcv (D 2025 6 6) sh_bank sh_dpw (R 50000) ''Advance from Dhillon Plumbing Works against a hotel job'' (Some
            (''UPI CR'' @ u_endash @ ''DHILLON PLUMBING'')),
        gave (D 2025 7 4) sh_dpw sh_sales (R 86500)
            ''Pipes and fittings to Dhillon Plumbing Works for the hotel job'',
        gave (D 2025 12 11) sh_dpw sh_sales (R 42800) ''Sanitary ware to Dhillon Plumbing Works'',
        rcv (D 2026 2 9) sh_bank sh_dpw (R 60000) ''Dhillon Plumbing Works paid part of the balance'' (Some
            (''UPI CR'' @ u_endash @ ''DHILLON PLUMBING'')),
        pay (D 2025 8 12) sh_adv sh_bank (R 10000) ''Salary advance to Manpreet Kaur'' (Some
            (''IMPS DR'' @ u_endash @ ''MANPREET KAUR'')),
        pay (D 2025 8 21) sh_util sh_bank (R 14800) (''Shop electricity and phone, April'' @ u_endash @ ''August'') (Some
            (''BILLPAY DR'' @ u_endash @ ''PSPCL'')),
        pay (D 2026 2 19) sh_util sh_bank (R 17200) (''Shop electricity and phone, September'' @ u_endash @ ''January'') (Some
            (''BILLPAY DR'' @ u_endash @ ''PSPCL''))]"

definition sh_entries_2 :: "nat \<Rightarrow> entry list" where
  "sh_entries_2 wrong =
     [pay (D 2025 8 30) sh_pur sh_cash (R 3200) ''Tempo hire for a delivery to Phagwara, cash'' None,
        fix_entry (D 2025 9 6) sh_frt sh_pur (R 3200)
            (''Entry {ref} (tempo hire) was written to Goods Bought for Sale '' @ u_emdash @ '' moved to Freight & Cartage'')
                Correction (Some wrong),
        pay (D 2025 5 16) sh_frt sh_cash (R 4600) ''Cartage of the Jaquar consignment, cash'' None,
        pay (D 2026 1 24) sh_frt sh_cash (R 5100) ''Cartage and delivery, cash'' None,
        move (D 2025 11 3) sh_cash sh_bank (R 15000) ''Cash withdrawn for change and small payments (ATM)'' (Some
            (''ATM WDL'' @ u_endash @ ''PHAGWARA'')),
        pay (D 2025 11 26) sh_fit sh_bank (R 38000) (''New display rack for sanitary ware '' @ u_emdash @ '' thing owned, at cost'')
            (Some (''NEFT DR'' @ u_endash @ ''STEEL RACKS'')),
        pay (D 2026 3 31) sh_sund sh_bank (R 1180) ''Bank charges for the year'' (Some ''CHGS DR''),
        pay (D 2025 12 31) sh_short sh_cash (R 1150)
            (''Counter cash counted '' @ u_rupee @ ''1,150 less than the cash book '' @ u_emdash @ '' charged to Cash short / over'') None,
        rcv (D 2026 3 31) sh_cash sh_short (R 300)
            (''Counter cash counted '' @ u_rupee @ ''300 more than the cash book '' @ u_emdash @ '' got back to Cash short / over'') None,
        ventry (D 2026 3 31) Journal
            (''Rebate (kasar) of '' @ u_rupee @ ''2,300 allowed to Dhillon Plumbing Works on the disputed sanitary-ware bill '' @ u_emdash @ '' he pays the rest'')
                [(sh_kasar, R 2300), (sh_dpw, - (R 2300))] None]"

definition sh_entries :: "entry list" where
  "sh_entries =
     (let es = sh_entries_1;
          es = es @ sh_entries_2 (length es)
      in es)"

definition sh_header :: book where
  "sh_header = (Book ''Sukhwinder Sales Co.'' ''business book'' ''S'' Business)\<lparr>about :=
      (''One-owner shop '' @ u_middot @ '' counter cash banked '' @ u_middot @ '' customers and suppliers on credit '' @ u_middot @ '' a salesman on salary '' @ u_middot @ '' kept from the bank statement.''),
        stock_line := True,
        chart_note :=
            ''The own money opening is the balancing figure, so the Dr and Cr totals agree. Last year's book entered no closing-stock figure, so no stock is brought back into Goods Bought for Sale: the goods on the shelf on 01 Apr 2025 were charged to the year they were bought.'',
        bank_extract := Some (sh_bank, (2025, 8)),
        custom := Some (sh_dpw, D 2025 4 1, D 2026 3 31,
            (''The plumbing contractor's account for the year '' @ u_emdash @ '' an advance first, then goods that turned the balance round, then the payment.''))\<rparr>"

definition build_sh :: "error + posted_book" where
  "build_sh = build_book sh_header sh_accounts sh_cap sh_entries"

definition sh_names :: "string list" where
  "sh_names =
     [sh_cash, sh_bank, sh_gnb, sh_dpw, sh_sup, sh_jaq, sh_adv, sh_sdep, sh_fit, sh_cap, sh_drw, sh_sales,
      sh_pur, sh_frt, sh_sal, sh_rent, sh_util, sh_sund, sh_short, sh_kasar]"

lemma sh_names: "map aname sh_accounts = sh_names"
  by (simp add: sh_accounts_def sh_names_def Account_def AccountG_def )

lemma sh_names_distinct: "distinct sh_names"
  by (simp add: sh_names_def sh_name_defs )

lemma sh_pos:
  "pos_of sh_names sh_cash = 0"
  "pos_of sh_names sh_bank = 1"
  "pos_of sh_names sh_gnb = 2"
  "pos_of sh_names sh_dpw = 3"
  "pos_of sh_names sh_sup = 4"
  "pos_of sh_names sh_jaq = 5"
  "pos_of sh_names sh_adv = 6"
  "pos_of sh_names sh_sdep = 7"
  "pos_of sh_names sh_fit = 8"
  "pos_of sh_names sh_cap = 9"
  "pos_of sh_names sh_drw = 10"
  "pos_of sh_names sh_sales = 11"
  "pos_of sh_names sh_pur = 12"
  "pos_of sh_names sh_frt = 13"
  "pos_of sh_names sh_sal = 14"
  "pos_of sh_names sh_rent = 15"
  "pos_of sh_names sh_util = 16"
  "pos_of sh_names sh_sund = 17"
  "pos_of sh_names sh_short = 18"
  "pos_of sh_names sh_kasar = 19"
  by (simp_all add: pos_of_def sh_names_def sh_name_defs  )

lemma sh_kinds:
  "map kind sh_accounts =
     [Cash, Bank, Party, Party, Party, Party, Advance, Deppaid, Fixed, Capital, Drawings, Income, Expense,
      Expense, Expense, Expense, Expense, Expense, Expense, Expense]"
  by (simp add: sh_accounts_def Account_def AccountG_def )

lemma sh_openings:
  "balanced_openings sh_cap sh_accounts =
     [2200000, 48000000, 6400000, 0, - 11800000, - 4650000, 0, 9000000, 12000000, - 61150000, 0, 0, 0, 0, 0, 0,
      0, 0, 0, 0]"
  by (simp add: balanced_openings_def total_but_def sh_accounts_def Account_def AccountG_def sh_name_defs R_def  )

lemma sh_own: "own_opening sh_cap sh_accounts = - 61150000"
  unfolding own_opening_def [of sh_cap sh_accounts]
  by (simp add: total_but_def sh_accounts_def Account_def AccountG_def sh_name_defs R_def  )

lemma sh_counts: "min_count sh_header = 40" "max_count sh_header = 60"
  by (simp_all add: sh_header_def Book_def)

lemma sh_empty: "accounts sh_header = []" "vouchers sh_header = []"
  by (simp_all add: sh_header_def Book_def)

lemmas sh_entries_defs =
  sh_entries_def sh_entries_1_def sh_entries_2_def

lemma sh_refs: "list_all (\<lambda>e. case eref e of None \<Rightarrow> True | Some k \<Rightarrow> k < length sh_entries) sh_entries"
  by (simp add: sh_entries_defs entry_refs Let_def Q4E_def sh_cs_def sh_gs_def sh_sp_def)

text \<open>The skeleton of the book, evaluated.\<close>

lemma sh_skeleton:
  "skeleton_check (min_count sh_header) (max_count sh_header) (map kind sh_accounts)
     (balanced_openings sh_cap sh_accounts)
     (map (entry_skeleton (map aname sh_accounts)) sh_entries)"
  unfolding sh_names sh_kinds sh_openings sh_counts
  apply (simp add: sh_entries_defs entry_skeletons sh_pos Let_def Q4E_def R_def cash_dep_def D_def sh_cs_def
      sh_gs_def sh_sp_def)
  by code_simp

text \<open>The closing balances of the accounts, in order (paise, positive is Dr).\<close>

definition sh_closing :: "int list" where
  "sh_closing =
     [4525000, 88672000, 24700000, 1700000, - 33800000, - 12640000, 0, 9000000, 15800000, - 61150000, 24000000,
      - 262380000, 157050000, 1290000, 21600000, 18000000, 3200000, 118000, 85000, 230000]"

lemma sh_closings:
  "skeleton_balances (map (entry_skeleton (map aname sh_accounts)) sh_entries)
     (balanced_openings sh_cap sh_accounts) = sh_closing"
  unfolding sh_names sh_openings sh_closing_def
  apply (simp add: sh_entries_defs entry_skeletons sh_pos Let_def Q4E_def R_def cash_dep_def D_def sh_cs_def
      sh_gs_def sh_sp_def)
  by code_simp

lemma sh_built:
  "\<exists>b pb. book_wf b \<and> finalize b = Inr pb \<and> build_sh = Inr pb \<and> map aname (accounts pb) = sh_names
     \<and> map kind (accounts pb) = map kind sh_accounts
     \<and> map closing (accounts pb) = sh_closing
     \<and> partners pb = partners sh_header \<and> style pb = style sh_header"
proof -
  have d: "distinct (map aname sh_accounts)" unfolding sh_names by (rule sh_names_distinct)
  have own: "sh_cap \<in> set (map aname sh_accounts)" unfolding sh_names by (simp add: sh_names_def)
  note * = build_book_ok [OF sh_empty d own sh_refs sh_skeleton, unfolded sh_closings]
  show ?thesis using * unfolding build_sh_def sh_names .
qed

end
