(* ===== verification/Partnership_Book.thy ===== *)
theory Partnership_Book
  imports Shop_Book
begin

text \<open>
  The partnership's book (\<open>build_partnership\<close> of \<open>build.py\<close>).  The partners are the list \<open>pf_partner_list\<close>;
  the dictionary \<open>cur\<close> is the function \<open>pf_current\<close>.
\<close>

definition pf_partner_list :: "(string \<times> int \<times> int \<times> int) list" where
  "pf_partner_list = [(''Sukhwinder Bal'', R 300000, - (R 12000), 2), (''Pradeep Bal'', R 300000, - (R 8000), 2),
      (''Harjeet Singh'', R 150000, R 0, 1)]"

definition pf_bills :: "(date \<times> int) list" where
  "pf_bills = [(D 2025 6 28, R 300000), (D 2025 9 27, R 360000), (D 2025 12 27, R 320000)]"

definition pf_job_ret :: "int" where
  "pf_job_ret = sum_list (map (\<lambda>(_, a). (a * 5) div 100) pf_bills)"

definition pf_capital :: "string \<Rightarrow> string" where
  "pf_capital nm = (''Capital A/c '' @ u_endash @ '' '') @ nm"

definition pf_current :: "string \<Rightarrow> string" where
  "pf_current nm = (''Current A/c '' @ u_endash @ '' '') @ nm"

section \<open>Bal Fabricators\<close>

definition pf_cash :: string where "pf_cash = ''Cash A/c''"
definition pf_bank :: string where "pf_bank = ''Punjab & Sind Bank Current A/c''"
definition pf_verka :: string where "pf_verka = ''Verka Dairy Plant A/c''"
definition pf_pss :: string where "pf_pss = ''Punjab Steel Sheds A/c''"
definition pf_sandhu :: string where "pf_sandhu = ''Sandhu Builders A/c''"
definition pf_ret :: string where "pf_ret = (''Retention held by '' @ u_endash @ '' Sandhu Builders A/c'')"
definition pf_jin :: string where "pf_jin = ''Jindal Steel Traders A/c''"
definition pf_pcw :: string where "pf_pcw = ''Shree Powder Coaters A/c''"
definition pf_fadv :: string where "pf_fadv = (''Advance '' @ u_endash @ '' Gurmeet Singh (foreman) A/c'')"
definition pf_mach :: string where "pf_mach = ''Machinery & Tools A/c''"
definition pf_inc :: string where "pf_inc = ''Fabrication Income A/c''"
definition pf_steel :: string where "pf_steel = ''Steel & Material A/c''"
definition pf_coat :: string where "pf_coat = ''Powder Coating A/c''"
definition pf_wages :: string where "pf_wages = ''Wages A/c''"
definition pf_rent :: string where "pf_rent = ''Workshop Rent A/c''"
definition pf_elec :: string where "pf_elec = ''Electricity A/c''"
definition pf_trn :: string where "pf_trn = ''Transport A/c''"
definition pf_sund :: string where "pf_sund = ''Sundry A/c''"

lemmas pf_name_defs =
  pf_cash_def pf_bank_def pf_verka_def pf_pss_def pf_sandhu_def pf_ret_def
  pf_jin_def pf_pcw_def pf_fadv_def pf_mach_def
  pf_inc_def pf_steel_def
  pf_coat_def pf_wages_def pf_rent_def pf_elec_def pf_trn_def pf_sund_def

definition pf_accounts :: "account list" where
  "pf_accounts =
     [Account pf_cash Cash ''Workshop cash'' (R 15000),
      Account pf_bank Bank ''Firm's current account'' (R 514000),
      Account pf_verka Party (''Customer '' @ u_emdash @ '' sheds and racks'') (R 48000),
      Account pf_pss Party (''Customer '' @ u_emdash @ '' fabrication on job work'') 0,
      Account pf_sandhu Party (''Builder '' @ u_emdash @ '' contract job: advance first, then running bills less the 5% held back'') 0,
      Account pf_ret Retention
          (''5% of each bill the builder holds back until the work of that bill is accepted '' @ u_emdash @ '' released to his account when due'')
              0,
      Account pf_jin Party (''Supplier '' @ u_emdash @ '' steel sections and sheets'') (- (R 72000)),
      Account pf_pcw Party (''Supplier '' @ u_emdash @ '' powder coating; paid in advance, then billed'') 0,
      Account pf_fadv Advance
          ''Money with the foreman for site labour and small purchases, accounted for against his slips'' 0,
      Account pf_mach Fixed ''Welding sets, cutters, drills at what they cost'' (R 265000)]
     @ map (\<lambda>(nm, capv, cr, sh). Account (pf_capital nm) Pcapital (nm @ '''s fixed capital (share '' @ str_nat sh @
         '')'') (- capv)) pf_partner_list
     @ map (\<lambda>(nm, capv, cr, sh). Account (pf_current nm) Pcurrent (nm @
         ('''s current account '' @ u_emdash @ '' drawings, costs paid for the firm'')) cr) pf_partner_list
     @ [Account pf_inc Income (''Work billed to customers '' @ u_emdash @ '' job work and the Sandhu Builders contract'') 0,
      Account pf_steel Expense ''Steel, paint, electrodes, bolts'' 0,
      Account pf_coat Expense ''Powder coating of finished work'' 0,
      Account pf_wages Expense ''Welders' and helpers' wages, and site labour from the foreman's slips'' 0,
      Account pf_rent Expense ''Rent of the workshop'' 0,
      Account pf_elec Expense ''Workshop electricity'' 0,
      Account pf_trn Expense ''Carrying material and finished work'' 0,
      Account pf_sund Expense ''Small items, bank charges'' 0]"

definition pf_entries_1 :: "entry list" where
  "pf_entries_1 =
     [rcv (D 2025 4 16) pf_bank pf_verka (R 48000) ''Verka Dairy Plant paid the March bill (opening balance)'' (Some
         (''NEFT CR'' @ u_endash @ ''VERKA DAIRY''))]
     @ concat (map (\<lambda>(d, a, what). [gave d pf_verka pf_inc a ((''Verka Dairy Plant '' @ u_emdash @ '' '') @ what)])
          [(D 2025 5 28, R 386000, ''cattle-shed frames''), (D 2025 10 30, R 418500,
              ''milk-can racks and a canopy'')])
     @ [rcv (D 2025 7 9) pf_bank pf_verka (R 386000) ''Verka Dairy Plant paid for the cattle-shed frames'' (Some
         (''NEFT CR'' @ u_endash @ ''VERKA DAIRY'')),
        rcv (D 2025 12 18) pf_bank pf_verka (R 418500) ''Verka Dairy Plant paid for the racks and canopy'' (Some
            (''NEFT CR'' @ u_endash @ ''VERKA DAIRY''))]
     @ concat (map (\<lambda>(d, a, what). [gave d pf_pss pf_inc a ((''Punjab Steel Sheds '' @ u_emdash @ '' '') @ what)])
          [(D 2025 6 30, R 264000, (''job work, April'' @ u_endash @ ''June'')), (D 2025 9 30, R 276500, (''job work, July'' @ u_endash @ ''September''))])
     @ [rcv (D 2025 8 12) pf_bank pf_pss (R 264000) (''Punjab Steel Sheds paid for April'' @ u_endash @ ''June'') (Some
         (''NEFT CR'' @ u_endash @ ''PUNJAB STEEL SHEDS'')),
        rcv (D 2025 11 14) pf_bank pf_pss (R 276500) (''Punjab Steel Sheds paid for July'' @ u_endash @ ''September'') (Some
            (''NEFT CR'' @ u_endash @ ''PUNJAB STEEL SHEDS'')),
        rcv (D 2025 4 10) pf_bank pf_sandhu (R 150000)
            ''Mobilisation advance from Sandhu Builders for the staircases and railings of Sunny Enclave'' (Some
                (''RTGS CR'' @ u_endash @ ''SANDHU BUILDERS''))]
     @ concat (map (\<lambda>(k, (d, a)). (let held = (a * 5) div 100 in [ventry d CreditGiven ((''Running bill '' @ str_nat
         (int (k + 1)) @ (if k = ((length pf_bills) - 1) then '' (final)'' else '''') @
             ('' to Sandhu Builders (Sunny Enclave staircases, towers A'' @ u_endash @ ''B) '' @ u_emdash @ '' '' @ u_rupee) @ fmt a @ ('' billed, 5% ('' @ u_rupee) @ fmt
                 held @ '') held back'')) [(pf_sandhu, a - held), (pf_ret, held), (pf_inc, - a)] None]))
          (List.enumerate 0 pf_bills))
     @ concat (map (\<lambda>(d, k). (let a = snd (pf_bills ! k) in [rcv d pf_bank pf_sandhu ((a - ((a * 5) div 100)) - (R
         50000)) (''Sandhu Builders paid running bill '' @ str_nat (int (k + 1)) @
             ('' less the 5% held back and '' @ u_rupee @ ''50,000 of the advance'')) (Some (''RTGS CR'' @ u_endash @ ''SANDHU BUILDERS''))]))
          [(D 2025 7 22, 0), (D 2025 10 24, 1), (D 2026 1 23, 2)])
     @ [ventry (D 2026 2 15) RetentionReleased
         ((''Sunny Enclave staircases completed and handed over '' @ u_emdash @ '' half the job's retention ('' @ u_rupee) @ fmt (pf_job_ret div
             2) @ ('' of '' @ u_rupee) @ fmt pf_job_ret @
                 '') released by Sandhu Builders, the rest after the defect period; moved to his account'')
                     [(pf_sandhu, pf_job_ret div 2), (pf_ret, - (pf_job_ret div 2))] None,
        rcv (D 2026 3 6) pf_bank pf_sandhu (pf_job_ret div 2)
            ''Sandhu Builders paid the released half of the retention'' (Some (''RTGS CR'' @ u_endash @ ''SANDHU BUILDERS''))]
     @ concat (map (\<lambda>(k, a). [took (Q4E ! k) pf_steel pf_jin a (''Steel from Jindal Steel Traders on credit, '' @
         Q4N ! k)])
          (List.enumerate 0 [R 198000, R 176000, R 214000, R 168000]))
     @ [pay (D 2025 4 22) pf_jin pf_bank (R 72000) (''Jindal Steel Traders paid '' @ u_emdash @ '' opening balance'') (Some
         (''RTGS DR'' @ u_endash @ ''JINDAL STEEL''))]
     @ concat (map (\<lambda>(d, k). [pay d pf_jin pf_bank ([R 198000, R 176000, R 214000] ! k)
         ((''Jindal Steel Traders paid '' @ u_emdash @ '' steel of '') @ Q4N ! k) (Some (''RTGS DR'' @ u_endash @ ''JINDAL STEEL''))])
          [(D 2025 7 21, 0), (D 2025 10 20, 1), (D 2026 1 20, 2)])
     @ [pay (D 2025 6 2) pf_pcw pf_bank (R 60000)
         ''Advance to Shree Powder Coaters for the staircases' powder coating'' (Some
             (''NEFT DR'' @ u_endash @ ''SHREE POWDER COATERS'')),
        took (D 2025 7 10) pf_coat pf_pcw (R 73500) ''Shree Powder Coaters' bill for the staircases' powder coating'',
        pay (D 2025 8 5) pf_pcw pf_bank (R 13500) ''Shree Powder Coaters paid the rest of the bill'' (Some
            (''NEFT DR'' @ u_endash @ ''SHREE POWDER COATERS''))]"

definition pf_entries_2 :: "entry list" where
  "pf_entries_2 =
     concat (map (\<lambda>k. [pay (Q4E ! k) pf_wages pf_bank ([R 126000, R 118000, R 132000, R 124000] ! k)
         (''Wages of the welders and helpers, '' @ Q4N ! k) (Some (''NEFT DR'' @ u_endash @ ''WAGES'')),
        pay (D (year (Q4E ! k)) ((month (Q4E ! k)) - 2) 5) pf_rent pf_bank (R 36000) (''Workshop rent, '' @ Q4N ! k)
            (Some (''NEFT DR'' @ u_endash @ ''WORKSHOP RENT''))])
          [0, 1, 2, 3])
     @ [pay (D 2025 9 18) pf_elec pf_bank (R 31400) (''Workshop electricity, April'' @ u_endash @ ''August'') (Some
         (''BILLPAY DR'' @ u_endash @ ''PSPCL'')),
        ventry (D 2026 2 16) PaidByPartner
            (''Workshop electricity, September'' @ u_endash @ ''January, paid by Pradeep Bal from his own account'') [(pf_elec, R
                33800), (pf_current ''Pradeep Bal'', - (R 33800))] None,
        ventry (D 2025 6 12) PaidByPartner
            ''Truck hire for the Verka frames, paid by Sukhwinder Bal in cash from his pocket'' [(pf_trn, R 8500),
                (pf_current ''Sukhwinder Bal'', - (R 8500))] None]
     @ concat (map (\<lambda>(d, nm, a). [pay d (pf_current nm) pf_bank a (''Drawings of '' @ nm) (Some ((''IMPS DR'' @ u_endash) @
         str_upper nm))])
          [(D 2025 7 15, ''Sukhwinder Bal'', R 150000), (D 2025 7 15, ''Pradeep Bal'', R 150000), (D 2025 6 2,
              ''Harjeet Singh'', R 50000), (D 2025 10 24, ''Harjeet Singh'', R 50000), (D 2026 2 2,
                  ''Harjeet Singh'', R 50000)])
     @ [pay (D 2025 11 3) pf_fadv pf_cash (R 25000) ''Advance to the foreman for the Verka canopy site, cash'' None,
        ventry (D 2025 11 29) AdvanceSettled
            (''Foreman's account of the canopy site '' @ u_emdash @ '' site labour and bolts, against his advance'') [(pf_wages, R
                16400), (pf_steel, R 7900), (pf_fadv, - (R 24300))] None,
        pay (D 2026 2 2) pf_fadv pf_bank (R 20000) ''Labour money to the foreman for the Sunny Enclave railings''
            (Some (''IMPS DR'' @ u_endash @ ''GURMEET SINGH'')),
        ventry (D 2026 3 28) AdvanceSettled
            (''Foreman's slips for the Sunny Enclave railings set against his advance '' @ u_emdash @ '' wages include '' @ u_rupee @ ''1,000 of labour paid on slips he lost (slip lost); '' @ u_rupee @ ''1,700 stays with him'')
                [(pf_wages, R 12800), (pf_steel, R 6200), (pf_fadv, - (R 19000))] None,
        move (D 2025 10 6) pf_cash pf_bank (R 20000) ''Cash withdrawn for the workshop (ATM)'' (Some
            (''ATM WDL'' @ u_endash @ ''MOGA'')),
        pay (D 2025 12 9) pf_mach pf_bank (R 68000) (''New MIG welding set '' @ u_emdash @ '' thing owned, at cost'') (Some
            (''NEFT DR'' @ u_endash @ ''WELDING SET''))]"

definition pf_entries_3 :: "nat \<Rightarrow> entry list" where
  "pf_entries_3 wrong =
     [pay (D 2025 8 23) pf_steel pf_cash (R 4200) ''Tempo hire for the Verka frames' delivery, cash'' None,
        fix_entry (D 2025 9 2) pf_trn pf_steel (R 4200)
            (''Entry {ref} (tempo hire) was written to Steel & Material '' @ u_emdash @ '' moved to Transport'') Correction (Some
                wrong)]"

definition pf_entries :: "entry list" where
  "pf_entries =
     (let es = pf_entries_1;
          es = es @ pf_entries_2;
          es = es @ pf_entries_3 (length es)
      in es)"

definition pf_header :: book where
  "pf_header = (Book ''Bal Fabricators'' ''partnership business book'' ''BF'' Business)\<lparr>about :=
      (''Shared business book '' @ u_middot @ '' three partners 2 : 2 : 1 '' @ u_middot @ '' fixed capital and current accounts '' @ u_middot @ '' interest on capital: 6% a year, as the partners agreed '' @ u_middot @ '' customers and supplier on credit '' @ u_middot @ '' a contract job with retention money.''),
        partners := map (\<lambda>(nm, _, _, sh). \<lparr>pname = nm, pcapital = Some (pf_capital nm), pcurrent = pf_current nm,
            share = sh, ioc_bp = 600\<rparr>) pf_partner_list,
        own_word := ''Partners' own money'',
        chart_note :=
            ''Each partner's capital and current account is the figure that partner agreed; cash, bank, the customers, the supplier, the foreman's advance and the machinery are what the firm held. The Dr and Cr totals agree.'',
        custom := Some (pf_sandhu, D 2025 4 1, D 2026 3 31,
            (''The builder's account for the year '' @ u_emdash @ '' the advance, three running bills (the 5% held back is in its own account), payments net of the advance, half the job's retention released at completion.'')),
        assets_note :=
            ''Each partner's account after the year's interest and share is shown in the table above. The builder's retention money is in its own account: the half still held, which the firm will get after the defect period.''\<rparr>"

definition build_pf :: "error + posted_book" where
  "build_pf = build_book_asked pf_header pf_accounts pf_entries"

definition pf_names :: "string list" where
  "pf_names =
     [pf_cash, pf_bank, pf_verka, pf_pss, pf_sandhu, pf_ret, pf_jin, pf_pcw, pf_fadv, pf_mach,
      pf_capital ''Sukhwinder Bal'', pf_capital ''Pradeep Bal'', pf_capital ''Harjeet Singh'',
      pf_current ''Sukhwinder Bal'', pf_current ''Pradeep Bal'', pf_current ''Harjeet Singh'', pf_inc,
      pf_steel, pf_coat, pf_wages, pf_rent, pf_elec, pf_trn, pf_sund]"

lemma pf_names: "map aname pf_accounts = pf_names"
  by (simp add: pf_accounts_def pf_names_def Account_def AccountG_def pf_partner_list_def pf_capital_def
      pf_current_def)

lemma pf_names_distinct: "distinct pf_names"
  by (simp add: pf_names_def pf_name_defs pf_partner_list_def pf_capital_def pf_current_def)

lemma pf_pos:
  "pos_of pf_names pf_cash = 0"
  "pos_of pf_names pf_bank = 1"
  "pos_of pf_names pf_verka = 2"
  "pos_of pf_names pf_pss = 3"
  "pos_of pf_names pf_sandhu = 4"
  "pos_of pf_names pf_ret = 5"
  "pos_of pf_names pf_jin = 6"
  "pos_of pf_names pf_pcw = 7"
  "pos_of pf_names pf_fadv = 8"
  "pos_of pf_names pf_mach = 9"
  "pos_of pf_names (pf_capital ''Sukhwinder Bal'') = 10"
  "pos_of pf_names (pf_capital ''Pradeep Bal'') = 11"
  "pos_of pf_names (pf_capital ''Harjeet Singh'') = 12"
  "pos_of pf_names (pf_current ''Sukhwinder Bal'') = 13"
  "pos_of pf_names (pf_current ''Pradeep Bal'') = 14"
  "pos_of pf_names (pf_current ''Harjeet Singh'') = 15"
  "pos_of pf_names pf_inc = 16"
  "pos_of pf_names pf_steel = 17"
  "pos_of pf_names pf_coat = 18"
  "pos_of pf_names pf_wages = 19"
  "pos_of pf_names pf_rent = 20"
  "pos_of pf_names pf_elec = 21"
  "pos_of pf_names pf_trn = 22"
  "pos_of pf_names pf_sund = 23"
  by (simp_all add: pos_of_def pf_names_def pf_name_defs pf_partner_list_def pf_capital_def pf_current_def )

lemma pf_kinds:
  "map kind pf_accounts =
     [Cash, Bank, Party, Party, Party, Retention, Party, Party, Advance, Fixed, Pcapital, Pcapital, Pcapital,
      Pcurrent, Pcurrent, Pcurrent, Income, Expense, Expense, Expense, Expense, Expense, Expense, Expense]"
  by (simp add: pf_accounts_def Account_def AccountG_def pf_partner_list_def pf_capital_def pf_current_def)

lemma pf_openings:
  "map opening_bal pf_accounts =
     [1500000, 51400000, 4800000, 0, 0, 0, - 7200000, 0, 0, 26500000, - 30000000, - 30000000, - 15000000,
      - 1200000, - 800000, 0, 0, 0, 0, 0, 0, 0, 0, 0]"
  by (simp add: balanced_openings_def total_but_def pf_accounts_def Account_def AccountG_def pf_name_defs R_def
      pf_partner_list_def pf_capital_def pf_current_def )

lemma pf_counts: "min_count pf_header = 40" "max_count pf_header = 60"
  by (simp_all add: pf_header_def Book_def)

lemma pf_empty: "accounts pf_header = []" "vouchers pf_header = []"
  by (simp_all add: pf_header_def Book_def)

lemmas pf_entries_defs =
  pf_entries_def pf_entries_1_def pf_entries_2_def pf_entries_3_def

lemma pf_refs: "list_all (\<lambda>e. case eref e of None \<Rightarrow> True | Some k \<Rightarrow> k < length pf_entries) pf_entries"
  by (simp add: pf_entries_defs entry_refs Let_def Q4E_def pf_bills_def pf_job_ret_def)

text \<open>The skeleton of the book, evaluated.\<close>

lemma pf_skeleton:
  "skeleton_check (min_count pf_header) (max_count pf_header) (map kind pf_accounts)
     (map opening_bal pf_accounts)
     (map (entry_skeleton (map aname pf_accounts)) pf_entries)"
  unfolding pf_names pf_kinds pf_openings pf_counts
  apply (simp add: pf_entries_defs entry_skeletons pf_pos Let_def Q4E_def R_def cash_dep_def D_def pf_bills_def
      pf_job_ret_def)
  by code_simp

text \<open>The closing balances of the accounts, in order (paise, positive is Dr).\<close>

definition pf_closing :: "int list" where
  "pf_closing =
     [580000, 89560000, 0, 0, 0, 2450000, - 16800000, 0, 170000, 33300000, - 30000000, - 30000000, - 15000000,
      12950000, 10820000, 15000000, - 232500000, 77010000, 7350000, 52920000, 14400000, 6520000, 1270000, 0]"

lemma pf_closings:
  "skeleton_balances (map (entry_skeleton (map aname pf_accounts)) pf_entries)
     (map opening_bal pf_accounts) = pf_closing"
  unfolding pf_names pf_openings pf_closing_def
  apply (simp add: pf_entries_defs entry_skeletons pf_pos Let_def Q4E_def R_def cash_dep_def D_def pf_bills_def
      pf_job_ret_def)
  by code_simp

lemma pf_built:
  "\<exists>b pb. book_wf b \<and> finalize b = Inr pb \<and> build_pf = Inr pb \<and> map aname (accounts pb) = pf_names
     \<and> map kind (accounts pb) = map kind pf_accounts
     \<and> map closing (accounts pb) = pf_closing
     \<and> partners pb = partners pf_header \<and> style pb = style pf_header"
proof -
  have d: "distinct (map aname pf_accounts)" unfolding pf_names by (rule pf_names_distinct)
  have sum0: "sum_list (map opening_bal pf_accounts) = 0" unfolding pf_openings by simp
  note * = build_book_asked_ok [OF pf_empty d sum0 pf_refs pf_skeleton, unfolded pf_closings]
  show ?thesis using * unfolding build_pf_def pf_names .
qed

end
