(* ===== verification/Trust_Book.thy ===== *)
theory Trust_Book
  imports Shop_Book
begin

text \<open>
  The trust's book (\<open>build_trust\<close> of \<open>build.py\<close>): its accounts, its entries and the book they build.
\<close>

definition tr_counts :: "(date \<times> int) list" where
  "tr_counts = [(D 2025 5 31, R 86450), (D 2025 7 31, R 74200), (D 2025 9 30, R 69850), (D 2025 11 30, R 112600), (D
      2026 1 31, R 81300), (D 2026 3 29, R 95750)]"

section \<open>Radha Soami Satsang Sabha\<close>

definition tr_cash :: string where "tr_cash = ''Cash A/c''"
definition tr_gol :: string where "tr_gol = ''Gollak Cash A/c''"
definition tr_bank :: string where "tr_bank = ''SBI Savings A/c''"
definition tr_lfd :: string where "tr_lfd = ''SBI Fixed Deposit A/c''"
definition tr_adv :: string where "tr_adv = (''Advance '' @ u_endash @ '' Amritpal Singh A/c'')"
definition tr_cem :: string where "tr_cem = ''Kotli Cement Store A/c''"
definition tr_furn :: string where "tr_furn = ''Furniture & Equipment A/c''"
definition tr_lfund :: string where "tr_lfund = ''Langar Hall Fund A/c''"
definition tr_gf :: string where "tr_gf = ''General Fund A/c''"
definition tr_golinc :: string where "tr_golinc = (''Donations '' @ u_endash @ '' gollak A/c'')"
definition tr_ltr :: string where "tr_ltr = ''Transferred from the Langar Hall Fund A/c''"
definition tr_don :: string where "tr_don = ''Donation A/c''"
definition tr_ddon :: string where "tr_ddon = ''Dairy Donation A/c''"
definition tr_bint :: string where "tr_bint = ''Bank Interest A/c''"
definition tr_cons :: string where "tr_cons = ''Construction A/c''"
definition tr_genx :: string where "tr_genx = ''General Expense A/c''"
definition tr_dairy :: string where "tr_dairy = ''Dairy Expense A/c''"
definition tr_lab :: string where "tr_lab = ''Labour A/c''"
definition tr_manni :: string where "tr_manni = ''Manni Labour A/c''"
definition tr_ravi :: string where "tr_ravi = ''Ravinder Labour A/c''"
definition tr_lang :: string where "tr_lang = ''Langar A/c''"

lemmas tr_name_defs =
  tr_cash_def tr_gol_def tr_bank_def tr_lfd_def tr_adv_def tr_cem_def
  tr_furn_def tr_lfund_def tr_gf_def tr_golinc_def tr_ltr_def tr_don_def
  tr_ddon_def tr_bint_def tr_cons_def tr_genx_def tr_dairy_def tr_lab_def
  tr_manni_def tr_ravi_def tr_lang_def

definition tr_accounts :: "account list" where
  "tr_accounts =
     [Account tr_cash Cash ''The trust's cash box, with the secretary'' (R 22000),
      Account tr_gol Gollak (''The gollak '' @ u_emdash @ '' counted every two months, emptied only into the cash box or the bank'') 0,
      Account tr_bank Bank
          (''The trust's savings account '' @ u_emdash @ '' it earns the bank's interest (a current account earns none)'') (R 485000),
      Account tr_lfd Invest
          (''Fixed deposit first made from the langar hall donations '' @ u_emdash @ '' its interest this year went to the Langar Hall Fund'')
              (R 200000),
      Account tr_adv Advance ''Langar money with the sewadar, accounted for with bills'' 0,
      Account tr_cem Party (''Building-material store '' @ u_emdash @ '' cement and bricks for the hall'') 0,
      Account tr_furn Fixed
          (''Things given to the trust and kept, at '' @ u_rupee @ ''1 each '' @ u_emdash @ '' the estimated value is in the entry's note'') 0,
      Account tr_lfund Fund
          (''Money given for the langar hall and the interest on its deposit '' @ u_emdash @ '' kept for that purpose only'') (- (R
              250000)),
      Account tr_gf Capital ''The trust's own money (the year's surplus or deficit is added at the year end)'' 0,
      Account tr_golinc Income ''Money counted from the gollak (the count records the donation)'' 0,
      Account tr_ltr Income
          ''What the fund pays for the hall, moved out of the fund so the fund's own result stays nil'' 0,
      Account tr_don Income ''Donations from sponsors and the sangat by bank or receipt'' 0,
      Account tr_ddon Income ''Donations given for the dairy'' 0,
      Account tr_bint Income ''Interest credited by the bank'' 0,
      Account tr_cons Expense (''The new langar hall '' @ u_emdash @ '' cement, bricks, steel, mason (written as an expense)'') 0,
      Account tr_genx Expense ''Electricity, tent, printing, small items'' 0,
      Account tr_dairy Expense ''Fodder, feed and the vet for the dairy'' 0,
      Account tr_lab Expense ''Daily-wage labour at the big diwans and repairs'' 0,
      Account tr_manni Expense ''Manni's wages'' 0,
      Account tr_ravi Expense ''Ravinder's wages'' 0,
      Account tr_lang Expense (''Langar provisions '' @ u_emdash @ '' atta, dal, ghee, sabzi, gas'') 0]"

definition tr_entries_1 :: "entry list" where
  "tr_entries_1 =
     concat (map (\<lambda>(k, (d, a)). [rcv d tr_gol tr_golinc a
         (''Gollak counted by Amritpal Singh, witnessed by Ranjeet Singh (note-count sheet '' @ str_nat (int (k +
             1)) @ '')'') None] @ (if (k mod 2) = 0 then [move d tr_cash tr_gol (R 50000)
                 ''Part of the gollak put in the cash box the same day'' None,
        move (next_branch_day (add_days d 2)) tr_bank tr_gol (a - (R 50000))
            ''Rest of the gollak deposited in the bank'' (Some (''CASH DEP'' @ u_endash @ ''GOLLAK''))] else [move (next_branch_day
                (add_days d 1)) tr_bank tr_gol a ''Gollak deposited in the bank'' (Some (''CASH DEP'' @ u_endash @ ''GOLLAK''))]))
          (List.enumerate 0 tr_counts))
     @ concat (map (\<lambda>(d, a, who). [rcv d tr_bank tr_don a (''Donation from '' @ who) (Some (''NEFT CR'' @ u_endash @ ''DONATION''))])
          [(D 2025 4 14, R 51000, ''a family on Baisakhi''), (D 2025 8 9, R 25000,
              ''a sponsor for the monthly satsang''), (D 2025 11 5, R 110000, ''sponsors for the Gurpurab diwan''),
                  (D 2026 2 21, R 31000, ''an NRI family'')])
     @ [rcv (D 2025 6 12) tr_cash tr_ddon (R 4100) ''Donation for the dairy (cow feed), cash'' None,
        rcv (D 2025 12 8) tr_bank tr_ddon (R 15000) ''Donation for the dairy'' (Some (''NEFT CR'' @ u_endash @ ''DAIRY DONATION'')),
        rcv (D 2026 3 31) tr_bank tr_bint (R 6840) ''Interest credited by the bank'' (Some ''INT.CR''),
        took (D 2025 7 18) tr_cons tr_cem (R 148000) (''Langar hall '' @ u_emdash @ '' cement and bricks on credit from the store''),
        pay (D 2025 9 10) tr_cem tr_bank (R 148000) ''Kotli Cement Store paid for the cement and bricks'' (Some
            (''NEFT DR'' @ u_endash @ ''KOTLI CEMENT''))]
     @ concat (map (\<lambda>(d, a, who). [rcv d tr_bank tr_lfund a (''Donation from '' @ who @
         ('' '' @ u_emdash @ '' to the Langar Hall Fund'')) (Some (''NEFT CR'' @ u_endash @ ''HALL DONATION''))])
          [(D 2025 5 20, R 51000, ''a family, for the langar hall''), (D 2025 8 12, R 25000,
              ''an NRI family, for the langar hall''), (D 2026 1 20, R 31000,
                  ''a family in memory of an elder, for the langar hall'')])
     @ [ventry (D 2026 3 20) InterestAdded
         (''Yearly interest added by the bank to the deposit made from the langar hall donations '' @ u_emdash @ '' added to the Langar Hall Fund'')
             [(tr_lfd, R 14000), (tr_lfund, - (R 14000))] None]
     @ concat (map (\<lambda>(d, a, what). [ventry d FundPayment ((''Langar hall '' @ u_emdash @ '' '') @ what @
         '', paid from the Langar Hall Fund'') [(tr_cons, a), (tr_lfund, a), (tr_bank, - a), (tr_ltr, - a)] (Some
             (''NEFT DR'' @ u_endash @ ''CONSTRUCTION''))])
          [(D 2025 10 14, R 186000, ''steel and shuttering''), (D 2025 12 22, R 124000,
              ''mason contractor, first bill'')])
     @ [pay (D 2026 3 16) tr_cons tr_bank (R 96000)
         (''Langar hall '' @ u_emdash @ '' mason contractor, second bill (from the trust's general money)'') (Some
             (''NEFT DR'' @ u_endash @ ''CONSTRUCTION'')),
        ventry (D 2026 2 8) Journal
            (''A family gave a steel almirah for the office '' @ u_emdash @ '' kept by the trust, entered at '' @ u_rupee @ ''1; estimated value '' @ u_rupee @ ''18,000'')
                [(tr_furn, R 1), (tr_don, - (R 1))] None]
     @ concat (map (\<lambda>k. [pay (Q4E ! k) tr_manni tr_cash (R 27000) (''Manni's wages, '' @ Q4N ! k @ '', cash'') None,
        pay (Q4E ! k) tr_ravi tr_cash (R 25500) (''Ravinder's wages, '' @ Q4N ! k @ '', cash'') None])
          [0, 1, 2, 3])
     @ concat (map (\<lambda>(d0, d1, give, spent). [pay d0 tr_adv tr_bank give ''Langar advance to Amritpal Singh'' (Some
         (''IMPS DR'' @ u_endash @ ''AMRITPAL SINGH'')),
        ventry d1 AdvanceSettled ''Amritpal Singh's langar bills set against his advance'' [(tr_lang, spent),
            (tr_adv, - spent)] None])
          [(D 2025 4 2, D 2025 6 30, R 60000, R 58650), (D 2025 10 1, D 2025 12 31, R 90000, R 88400), (D 2026 1 2,
              D 2026 3 31, R 60000, R 61850)])
     @ [pay (D 2025 11 4) tr_lab tr_cash (R 18000) ''Daily-wage labour for the Gurpurab diwan, cash'' None]
     @ concat (map (\<lambda>(d, a). [pay d tr_dairy tr_bank a ''Fodder and feed for the dairy'' (Some (''UPI DR'' @ u_endash @ ''FODDER''))])
          [(D 2025 6 20, R 14600), (D 2025 10 20, R 12800), (D 2026 2 18, R 16200)])
     @ [pay (D 2025 9 15) tr_genx tr_bank (R 21400) (''Electricity, April'' @ u_endash @ ''August'') (Some (''BILLPAY DR'' @ u_endash @ ''PSPCL'')),
        pay (D 2026 2 14) tr_genx tr_bank (R 19800) (''Electricity, September'' @ u_endash @ ''January'') (Some (''BILLPAY DR'' @ u_endash @ ''PSPCL''))]"

definition tr_entries_2 :: "entry list" where
  "tr_entries_2 =
     [move (D 2025 6 27) tr_cash tr_bank (R 45000) ''Cash withdrawn for wages (cheque, self)'' (Some
         (''CHQ WDL'' @ u_endash @ ''SELF'')),
        move (D 2025 12 29) tr_cash tr_bank (R 45000) ''Cash withdrawn for wages (cheque, self)'' (Some
            (''CHQ WDL'' @ u_endash @ ''SELF''))]"

definition tr_entries_3 :: "nat \<Rightarrow> entry list" where
  "tr_entries_3 wrong =
     [pay (D 2025 9 6) tr_genx tr_cash (R 2800) ''Fodder for the dairy, cash'' None,
        fix_entry (D 2025 9 20) tr_dairy tr_genx (R 2800)
            (''Entry {ref} (fodder) was written to General Expense '' @ u_emdash @ '' moved to Dairy Expense'') Correction (Some wrong),
        ventry (D 2026 3 31) FromFund
            (''Hall bills paid from the trust's general money (cement and bricks, mason's second bill) '' @ u_emdash @ '' met from what is left in the Langar Hall Fund'')
                [(tr_lfund, R 61000), (tr_ltr, - (R 61000))] None]"

definition tr_entries :: "entry list" where
  "tr_entries =
     (let es = tr_entries_1;
          es = es @ tr_entries_2;
          es = es @ tr_entries_3 (length es)
      in es)"

definition tr_header :: book where
  "tr_header = (Book ''Radha Soami Satsang Sabha'' ''trust book'' ''RS'' Npo)\<lparr>about :=
      (''Trust book '' @ u_middot @ '' gollak counted and emptied into cash or bank '' @ u_middot @ '' langar through the sewadar's advance '' @ u_middot @ '' dairy '' @ u_middot @ '' construction as an expense '' @ u_middot @ '' a Langar Hall Fund (the donors' money for the hall) with its deposit and interest '' @ u_middot @ '' two labourers with their own heads.''),
        own_word := ''General Fund'',
        custom := Some (tr_gol, D 2025 4 1, D 2026 3 31,
            (''The gollak for the year '' @ u_emdash @ '' each count (the donation is recorded when it is counted), and where its money went: always into the cash box or the bank, never spent from the box.'')),
        construction := Some (''Construction A/c'', ''the langar hall''),
        journal_word := ''a thing given in kind and kept'',
        assets_note :=
            ''The Langar Hall Fund is money held for that purpose and is shown with the own money, beside the General Fund, not inside it.''\<rparr>"

definition build_tr :: "error + posted_book" where
  "build_tr = build_book tr_header tr_accounts tr_gf tr_entries"

definition tr_names :: "string list" where
  "tr_names =
     [tr_cash, tr_gol, tr_bank, tr_lfd, tr_adv, tr_cem, tr_furn, tr_lfund, tr_gf, tr_golinc, tr_ltr, tr_don,
      tr_ddon, tr_bint, tr_cons, tr_genx, tr_dairy, tr_lab, tr_manni, tr_ravi, tr_lang]"

lemma tr_names: "map aname tr_accounts = tr_names"
  by (simp add: tr_accounts_def tr_names_def Account_def AccountG_def )

lemma tr_names_distinct: "distinct tr_names"
  by (simp add: tr_names_def tr_name_defs )

lemma tr_pos:
  "pos_of tr_names tr_cash = 0"
  "pos_of tr_names tr_gol = 1"
  "pos_of tr_names tr_bank = 2"
  "pos_of tr_names tr_lfd = 3"
  "pos_of tr_names tr_adv = 4"
  "pos_of tr_names tr_cem = 5"
  "pos_of tr_names tr_furn = 6"
  "pos_of tr_names tr_lfund = 7"
  "pos_of tr_names tr_gf = 8"
  "pos_of tr_names tr_golinc = 9"
  "pos_of tr_names tr_ltr = 10"
  "pos_of tr_names tr_don = 11"
  "pos_of tr_names tr_ddon = 12"
  "pos_of tr_names tr_bint = 13"
  "pos_of tr_names tr_cons = 14"
  "pos_of tr_names tr_genx = 15"
  "pos_of tr_names tr_dairy = 16"
  "pos_of tr_names tr_lab = 17"
  "pos_of tr_names tr_manni = 18"
  "pos_of tr_names tr_ravi = 19"
  "pos_of tr_names tr_lang = 20"
  by (simp_all add: pos_of_def tr_names_def tr_name_defs  )

lemma tr_kinds:
  "map kind tr_accounts =
     [Cash, Gollak, Bank, Invest, Advance, Party, Fixed, Fund, Capital, Income, Income, Income, Income, Income,
      Expense, Expense, Expense, Expense, Expense, Expense, Expense]"
  by (simp add: tr_accounts_def Account_def AccountG_def )

lemma tr_openings:
  "balanced_openings tr_gf tr_accounts =
     [2200000, 0, 48500000, 20000000, 0, 0, 0, - 25000000, - 45700000, 0, 0, 0, 0, 0, 0, 0, 0, 0, 0, 0, 0]"
  by (simp add: balanced_openings_def total_but_def tr_accounts_def Account_def AccountG_def tr_name_defs R_def  )

lemma tr_own: "own_opening tr_gf tr_accounts = - 45700000"
  unfolding own_opening_def [of tr_gf tr_accounts]
  by (simp add: total_but_def tr_accounts_def Account_def AccountG_def tr_name_defs R_def  )

lemma tr_counts: "min_count tr_header = 40" "max_count tr_header = 60"
  by (simp_all add: tr_header_def Book_def)

lemma tr_empty: "accounts tr_header = []" "vouchers tr_header = []"
  by (simp_all add: tr_header_def Book_def)

lemmas tr_entries_defs =
  tr_entries_def tr_entries_1_def tr_entries_2_def tr_entries_3_def

lemma tr_refs: "list_all (\<lambda>e. case eref e of None \<Rightarrow> True | Some k \<Rightarrow> k < length tr_entries) tr_entries"
  by (simp add: tr_entries_defs entry_refs Let_def Q4E_def tr_counts_def)

text \<open>The skeleton of the book, evaluated.\<close>

lemma tr_skeleton:
  "skeleton_check (min_count tr_header) (max_count tr_header) (map kind tr_accounts)
     (balanced_openings tr_gf tr_accounts)
     (map (entry_skeleton (map aname tr_accounts)) tr_entries)"
  unfolding tr_names tr_kinds tr_openings tr_counts
  apply (simp add: tr_entries_defs entry_skeletons tr_pos Let_def Q4E_def R_def cash_dep_def D_def tr_counts_def)
  by code_simp

text \<open>The closing balances of the accounts, in order (paise, positive is Dr).\<close>

definition tr_closing :: "int list" where
  "tr_closing =
     [3530000, 0, 26219000, 21400000, 110000, 0, 100, 0, - 45700000, - 52015000, - 37100000, - 21700100,
      - 1910000, - 684000, 55400000, 4120000, 4640000, 1800000, 10800000, 10200000, 20890000]"

lemma tr_closings:
  "skeleton_balances (map (entry_skeleton (map aname tr_accounts)) tr_entries)
     (balanced_openings tr_gf tr_accounts) = tr_closing"
  unfolding tr_names tr_openings tr_closing_def
  apply (simp add: tr_entries_defs entry_skeletons tr_pos Let_def Q4E_def R_def cash_dep_def D_def tr_counts_def)
  by code_simp

lemma tr_built:
  "\<exists>b pb. book_wf b \<and> finalize b = Inr pb \<and> build_tr = Inr pb \<and> map aname (accounts pb) = tr_names
     \<and> map kind (accounts pb) = map kind tr_accounts
     \<and> map closing (accounts pb) = tr_closing
     \<and> partners pb = partners tr_header \<and> style pb = style tr_header"
proof -
  have d: "distinct (map aname tr_accounts)" unfolding tr_names by (rule tr_names_distinct)
  have own: "tr_gf \<in> set (map aname tr_accounts)" unfolding tr_names by (simp add: tr_names_def)
  note * = build_book_ok [OF tr_empty d own tr_refs tr_skeleton, unfolded tr_closings]
  show ?thesis using * unfolding build_tr_def tr_names .
qed

end
