(* ===== verification/Decimal.thy ===== *)
theory Decimal
  imports Prelude
begin

text \<open>
  What the source uses of Python's \<open>decimal\<close> at its default context, as CPython's \<open>_decimal\<close> computes
  it: 28 significant digits, every result rounded half to even, exponents between -999999 and 999999; a
  power with a whole exponent is taken by squaring with a few more digits and rounded once more at the end.
\<close>

section \<open>Finite decimals\<close>

text \<open>A coefficient and an exponent: \<open>(c, e)\<close> is \<open>c * 10^e\<close>.\<close>

type_synonym dec = "int \<times> int"

definition EMAX :: int where "EMAX = 999999"
definition PREC :: int where "PREC = 28"

function ndigits :: "int \<Rightarrow> int" where
  "ndigits n = (if n < 10 then 1 else 1 + ndigits (n div 10))"
  by auto
termination by (relation "measure nat") auto

declare ndigits.simps [simp del]

text \<open>Evaluated by comparing with the powers of 10.\<close>

function digits_from :: "int \<Rightarrow> int \<Rightarrow> int \<Rightarrow> int" where
  "digits_from k m n = (if n < m \<or> m \<le> 0 then k else digits_from (k + 1) (10 * m) n)"
  by auto
termination by (relation "measure (\<lambda>(k, m, n). nat (n + 1 - m))") auto

declare digits_from.simps [simp del]

lemma ten_le_div: "10 \<le> n div m \<longleftrightarrow> 10 * m \<le> n" if "0 < m" for n m :: int
proof
  assume "10 \<le> n div m"
  then have "m * 10 \<le> m * (n div m)" using that by simp
  moreover have "m * (n div m) + n mod m = n" "0 \<le> n mod m" using that by auto
  ultimately show "10 * m \<le> n" by linarith
next
  assume "10 * m \<le> n"
  from zdiv_mono1 [OF this that] show "10 \<le> n div m" using that by simp
qed

lemma digits_from: "0 < m \<Longrightarrow> digits_from k (10 * m) n = k + ndigits (n div m) - 1"
proof (induction k "10 * m" n arbitrary: m rule: digits_from.induct)
  case (1 k n)
  show ?case
  proof (cases "n < 10 * m")
    case True
    then have "n div m < 10" using ten_le_div [OF 1(2), of n] by simp
    with True show ?thesis by (simp add: digits_from.simps [of k] ndigits.simps [of "n div m"])
  next
    case False
    then have "10 \<le> n div m" using ten_le_div [OF 1(2), of n] by simp
    then have "ndigits (n div m) = 1 + ndigits (n div (10 * m))"
      by (subst ndigits.simps) (simp add: mult.commute zdiv_zmult2_eq)
    with False 1 show ?thesis by (simp add: digits_from.simps [of k])
  qed
qed

lemma ndigits_code [code]: "ndigits n = digits_from 1 10 n"
  using digits_from [of 1 1 n] by simp

text \<open>Division to the nearest, a tie to the even one.\<close>

definition nearest_even :: "int \<Rightarrow> int \<Rightarrow> int \<Rightarrow> int" where   \<comment> \<open>the quotient and the remainder by \<open>m\<close>\<close>
  "nearest_even m q x = (if m < 2 * x \<or> (2 * x = m \<and> odd q) then q + 1 else q)"

definition half_even :: "int \<Rightarrow> int \<Rightarrow> int" where
  "half_even n m = nearest_even m (n div m) (n mod m)"

text \<open>A result is cut to \<open>p\<close> digits, and to the least exponent when it is subnormal; one too large is an
  error.\<close>

fun excess :: "int \<Rightarrow> dec \<Rightarrow> int" where
  "excess p (c, e) = max (ndigits \<bar>c\<bar> - p) (- EMAX - (p - 1) - e)"

fun drop_digits :: "int \<Rightarrow> dec \<Rightarrow> dec" where
  "drop_digits k (c, e) = (if k \<le> 0 then (c, e) else (sgn c * half_even \<bar>c\<bar> (10 ^ nat k), e + k))"

fun in_bounds :: "dec \<Rightarrow> error + dec" where
  "in_bounds (c, e) = (if c \<noteq> 0 \<and> EMAX < e + ndigits \<bar>c\<bar> - 1 then Inl (ArithmeticError ''Overflow'') else Inr (c, e))"

definition dec_fix :: "int \<Rightarrow> dec \<Rightarrow> error + dec" where
  "dec_fix p x = in_bounds (drop_digits (excess p x) x)"

definition dec_of_int :: "int \<Rightarrow> dec" where
  "dec_of_int n = (n, 0)"

definition dec_mul :: "int \<Rightarrow> dec \<Rightarrow> dec \<Rightarrow> error + dec" where
  "dec_mul p x y = dec_fix p (fst x * fst y, snd x + snd y)"

text \<open>Addition at the smaller exponent.\<close>

fun at_exponent :: "int \<Rightarrow> dec \<Rightarrow> int" where
  "at_exponent k (c, e) = c * 10 ^ nat (e - k)"

definition dec_add :: "int \<Rightarrow> dec \<Rightarrow> dec \<Rightarrow> error + dec" where
  "dec_add p x y =
     dec_fix p (at_exponent (min (snd x) (snd y)) x + at_exponent (min (snd x) (snd y)) y, min (snd x) (snd y))"

definition dec_sub :: "int \<Rightarrow> dec \<Rightarrow> dec \<Rightarrow> error + dec" where
  "dec_sub p x y = dec_add p x (- fst y, snd y)"

text \<open>The quotient to \<open>p + 1\<close> digits or more; a remainder is kept by moving a last digit 0 or 5 up, so
  that it is never taken for exact or for a tie.\<close>

definition sticky :: "int \<Rightarrow> int \<Rightarrow> int" where   \<comment> \<open>the quotient and the remainder\<close>
  "sticky q x = (if x \<noteq> 0 \<and> q mod 5 = 0 then q + 1 else q)"

definition scaled_quotient :: "int \<Rightarrow> int \<Rightarrow> int" where
  "scaled_quotient n m = sticky (n div m) (n mod m)"

definition dec_div :: "int \<Rightarrow> dec \<Rightarrow> dec \<Rightarrow> error + dec" where
  "dec_div p x y =
     (if fst y = 0
      then Inl (if fst x = 0 then ArithmeticError ''InvalidOperation'' else ZeroDivisionError ''DivisionByZero'')
      else let s = ndigits \<bar>fst y\<bar> - ndigits \<bar>fst x\<bar> + p + 1
           in dec_fix p (sgn (fst x) * sgn (fst y) * scaled_quotient (\<bar>fst x\<bar> * 10 ^ nat s) (\<bar>fst y\<bar> * 10 ^ nat (- s)),
                         snd x - snd y - s))"

fun pow_loop :: "int \<Rightarrow> dec \<Rightarrow> nat \<Rightarrow> error + dec" where
  "pow_loop p b n =
     (if n \<le> 1 then Inr b
      else ebind (pow_loop p b (n div 2)) (\<lambda>h.
           ebind (dec_mul p h h) (\<lambda>s.
           if odd n then dec_mul p s b else Inr s)))"

declare pow_loop.simps [simp del]

text \<open>A step is evaluated only when the one before it has given a value.\<close>

lemmas pow_loop_code [code] = pow_loop.simps [unfolded ebind_def]

definition dec_pow :: "dec \<Rightarrow> nat \<Rightarrow> error + dec" where
  "dec_pow b n =
     (if n = 0 then (if fst b = 0 then Inl (ArithmeticError ''InvalidOperation'') else Inr (1, 0))
      else ebind (pow_loop (PREC + ndigits (int n) + 2) b n) (dec_fix PREC))"

text \<open>\<open>int(x.quantize(Decimal("1"), rounding=ROUND_HALF_UP))\<close>: a tie goes away from 0, and a result of more than
  28 digits is an error.\<close>

definition quantize_half_up :: "dec \<Rightarrow> error + int" where
  "quantize_half_up x =
     (case x of (c, e) \<Rightarrow>
        let q = (if 0 \<le> e then \<bar>c\<bar> * 10 ^ nat e else let m = 10 ^ nat (- e) in (2 * \<bar>c\<bar> + m) div (2 * m))
        in if PREC < ndigits q then Inl (ArithmeticError ''InvalidOperation'') else Inr (sgn c * q))"

end
