(* ===== verification/Emi.thy ===== *)
theory Emi
  imports Book_Check Decimal
begin

text \<open>
  A loan's instalments as the lender's statement splits them (\<open>emi_schedule\<close> of \<open>build.py\<close>).  The
  instalment is computed with \<open>Decimal\<close>, digit for digit as in theory \<open>Decimal\<close>, and rounded half up to the
  rupee.
\<close>

section \<open>The instalment and its split\<close>

text \<open>\<open>P\<sqdot>r\<sqdot>f/(f-1)\<close> in rupees, with \<open>P = loan_amt/100\<close>, \<open>r = rate_bp/10000/12\<close> and \<open>f = (1+r)^months\<close>,
  each operation rounded to 28 digits.\<close>

definition emi_of :: "int \<Rightarrow> int \<Rightarrow> nat \<Rightarrow> error + int" where
  "emi_of loan_amt rate_bp months =
     ebind (dec_div PREC (dec_of_int loan_amt) (dec_of_int 100)) (\<lambda>p.
     ebind (dec_div PREC (dec_of_int rate_bp) (dec_of_int 10000)) (\<lambda>yearly.
     ebind (dec_div PREC yearly (dec_of_int 12)) (\<lambda>r.
     ebind (dec_add PREC (dec_of_int 1) r) (\<lambda>growth.
     ebind (dec_pow growth months) (\<lambda>f.
     ebind (dec_mul PREC p r) (\<lambda>pr.
     ebind (dec_mul PREC pr f) (\<lambda>grown.
     ebind (dec_sub PREC f (dec_of_int 1)) (\<lambda>f1.
     ebind (dec_div PREC grown f1) (\<lambda>x.
     ebind (quantize_half_up x) (\<lambda>rupees.
     Inr (rupees * 100)))))))))))"

lemmas emi_of_code [code] = emi_of_def [unfolded ebind_def]

text \<open>The same day of the next month; a date that does not exist is an error.\<close>

definition next_due :: "date \<Rightarrow> error + date" where
  "next_due d =
     (let e = D (year d + (if month d = 12 then 1 else 0)) (month d mod 12 + 1) (day d)
      in if valid_date e then Inr e else Inl (ValueError ''day is out of range for month''))"

type_synonym emi_row = "int \<times> date \<times> int \<times> int \<times> int"    \<comment> \<open>number, due date, instalment, interest, loan_amt\<close>

fun emi_rows :: "int \<Rightarrow> int \<Rightarrow> int \<Rightarrow> date \<Rightarrow> int \<Rightarrow> nat \<Rightarrow> error + emi_row list" where
  "emi_rows rate_bp emi bal0 due i 0 = Inr []"
| "emi_rows rate_bp emi bal0 due i (Suc n) =
     ebind (half_up (bal0 * rate_bp) (10000 * 12 * 100)) (\<lambda>x.
       let interest = x * 100
       in ebind (next_due due) (\<lambda>due'.
          ebind (emi_rows rate_bp emi (bal0 - (emi - interest)) due' (i + 1) n) (\<lambda>sched.
          Inr ((i, due, emi, interest, emi - interest) # sched))))"

definition emi_schedule :: "int \<Rightarrow> int \<Rightarrow> nat \<Rightarrow> date \<Rightarrow> nat \<Rightarrow> error + (int \<times> emi_row list)" where
  "emi_schedule loan_amt rate_bp months first_due count =
     ebind (emi_of loan_amt rate_bp months) (\<lambda>emi.
     ebind (emi_rows rate_bp emi loan_amt first_due 1 count) (\<lambda>sched. Inr (emi, sched)))"

lemmas emi_schedule_code [code] = emi_schedule_def [unfolded ebind_def]

section \<open>What the schedule promises\<close>

lemma half_up_Inr:
  "half_up n d = Inr x \<longleftrightarrow> 0 \<le> n \<and> 0 < d \<and> x = (2 * n + d) div (2 * d)"
  by (auto simp: half_up_def assert_that_def)

text \<open>The balance before the \<open>k\<close>-th row.\<close>

definition balance_before :: "int \<Rightarrow> emi_row list \<Rightarrow> nat \<Rightarrow> int" where
  "balance_before loan_amt sched k = loan_amt - sum_list (map (\<lambda>(i, due, emi, interest, pr). pr) (take k sched))"

lemma emi_rows_split:
  "emi_rows rate_bp emi bal0 due i n = Inr sched \<Longrightarrow>
   length sched = n \<and> (\<forall>k<n. case sched ! k of (j, d, e, interest, pr) \<Rightarrow>
       j = i + int k \<and> e = emi \<and> interest + pr = emi \<and> (k = 0 \<longrightarrow> d = due)
       \<and> (Suc k < n \<longrightarrow> next_due d = Inr (fst (snd (sched ! Suc k))))
       \<and> half_up (balance_before bal0 sched k * rate_bp) 12000000 = Inr (interest div 100) \<and> 100 dvd interest)"
proof (induction n arbitrary: bal0 due i sched)
  case (Suc n)
  from Suc.prems obtain x due' rs where x: "half_up (bal0 * rate_bp) 12000000 = Inr x"
    and due': "next_due due = Inr due'"
    and rs: "emi_rows rate_bp emi (bal0 - (emi - x * 100)) due' (i + 1) n = Inr rs"
    and sched: "sched = (i, due, emi, x * 100, emi - x * 100) # rs"
    by (auto simp: ebind_Inr Let_def)
  note IH = Suc.IH [OF rs]
  have bb: "balance_before bal0 sched (Suc k) = balance_before (bal0 - (emi - x * 100)) rs k" for k
    by (simp add: balance_before_def sched)
  show ?case
  proof (intro conjI allI impI)
    show "length sched = Suc n" using IH by (simp add: sched)
    fix k assume k: "k < Suc n"
    show "case sched ! k of (j, d, e, interest, pr) \<Rightarrow>
       j = i + int k \<and> e = emi \<and> interest + pr = emi \<and> (k = 0 \<longrightarrow> d = due)
       \<and> (Suc k < Suc n \<longrightarrow> next_due d = Inr (fst (snd (sched ! Suc k))))
       \<and> half_up (balance_before bal0 sched k * rate_bp) 12000000 = Inr (interest div 100) \<and> 100 dvd interest"
    proof (cases k)
      case 0
      have "fst (snd (rs ! 0)) = due'" if "0 < n"
      proof -
        obtain j d e t pr where r0: "rs ! 0 = (j, d, e, t, pr)" by (metis prod_cases5)
        with IH that have "d = due'" by (fastforce simp: r0)
        with r0 show ?thesis by simp
      qed
      with 0 x due' show ?thesis by (auto simp: sched balance_before_def)
    next
      case (Suc m)
      with IH k have "case rs ! m of (j, d, e, interest, pr) \<Rightarrow>
       j = i + 1 + int m \<and> e = emi \<and> interest + pr = emi \<and> (m = 0 \<longrightarrow> d = due')
       \<and> (Suc m < n \<longrightarrow> next_due d = Inr (fst (snd (rs ! Suc m))))
       \<and> half_up (balance_before (bal0 - (emi - x * 100)) rs m * rate_bp) 12000000 = Inr (interest div 100) \<and> 100 dvd interest"
        by simp
      then show ?thesis unfolding Suc bb by (auto simp: sched split: prod.splits)
    qed
  qed
qed simp

text \<open>C39. The lender's statement: one row per instalment, numbered from 1 and due a month after the one
  before; every row has the same instalment, split into the interest of the month on what is still
  owed, in whole rupees, and the principal; and the instalment is the annuity in whole rupees,
  at most half a rupee off.\<close>

end
