(* ===== verification/Individual_Books.thy ===== *)
theory Individual_Books
  imports Shop_Book Emi
begin

text \<open>
  The two books of \<open>build_individual\<close> (\<open>build.py\<close>): the business and the personal book.  Where the source
  writes in both books in one loop, each book's entries are the \<open>map\<close> of its own calls.
\<close>

text \<open>The four instalments of the year; the schedule never fails on these figures (\<open>jp_sched_eq\<close>).\<close>

definition jp_sched :: "emi_row list" where
  "jp_sched = (case emi_schedule (R 800000) 950 60 (D 2025 12 5) 4 of Inl _ \<Rightarrow> [] | Inr (emi, sched) \<Rightarrow> sched)"

lemma jp_sched_eq:
  "jp_sched =
     [(1, D 2025 12 5, 1680100, 633300, 1046800), (2, D 2026 1 5, 1680100, 625000, 1055100),
      (3, D 2026 2 5, 1680100, 616700, 1063400), (4, D 2026 3 5, 1680100, 608300, 1071800)]"
  by code_simp

text \<open>The accounts of Jasvinder Technologies.\<close>

definition jt_tc :: string where "jt_tc = ''Cash A/c''"
definition jt_tb :: string where "jt_tb = ''HDFC Bank Current A/c''"
definition jt_med :: string where "jt_med = ''Medtech Solutions A/c''"
definition jt_kaur :: string where "jt_kaur = ''Kaur Exports A/c''"
definition jt_pab :: string where "jt_pab = ''Punjab Agro Board A/c''"
definition jt_cloud :: string where "jt_cloud = ''Cloudnine Hosting A/c''"
definition jt_radv :: string where "jt_radv = (''Advance '' @ u_endash @ '' Rohit Verma A/c'')"
definition jt_lap :: string where "jt_lap = ''Laptops & Office Equipment A/c''"
definition jt_cap :: string where "jt_cap = (''Capital A/c '' @ u_endash @ '' Jasvinder Singh'')"
definition jt_drw :: string where "jt_drw = (''Drawings A/c '' @ u_endash @ '' Jasvinder Singh'')"
definition jt_inc :: string where "jt_inc = ''Service Income A/c''"
definition jt_sal :: string where "jt_sal = ''Salary A/c''"
definition jt_rent :: string where "jt_rent = ''Office Rent A/c''"
definition jt_host :: string where "jt_host = ''Hosting & Software A/c''"
definition jt_net :: string where "jt_net = ''Internet & Phone A/c''"
definition jt_trav :: string where "jt_trav = ''Travel A/c''"
definition jt_sund :: string where "jt_sund = ''Office & Sundry A/c''"

text \<open>The accounts of Jasvinder Singh.\<close>

definition jp_pc :: string where "jp_pc = ''Cash A/c''"
definition jp_pb :: string where "jp_pb = ''SBI Savings A/c''"
definition jp_tag :: string where "jp_tag = ''FASTag Wallet A/c''"
definition jp_card :: string where "jp_card = ''HDFC Credit Card A/c''"
definition jp_fd :: string where "jp_fd = ''SBI Fixed Deposit A/c''"
definition jp_biz :: string where "jp_biz = ''Jasvinder Technologies A/c''"
definition jp_gur :: string where "jp_gur = (''Loan to '' @ u_endash @ '' Gurpreet Sandhu A/c'')"
definition jp_groc :: string where "jp_groc = ''Sharma General Store A/c''"
definition jp_drvp :: string where "jp_drvp = ''Balwinder Singh A/c''"
definition jp_hadv :: string where "jp_hadv = (''Advance '' @ u_endash @ '' house help A/c'')"
definition jp_dadv :: string where "jp_dadv = (''Advance '' @ u_endash @ '' Balwinder Singh A/c'')"
definition jp_car :: string where "jp_car = (''Car '' @ u_endash @ '' Maruti Baleno A/c'')"
definition jp_car2 :: string where "jp_car2 = (''Car '' @ u_endash @ '' Hyundai Venue A/c'')"
definition jp_cloan :: string where "jp_cloan = (''Car Loan '' @ u_endash @ '' HDFC Bank A/c'')"
definition jp_cap :: string where "jp_cap = (''Capital A/c '' @ u_endash @ '' Jasvinder Singh'')"
definition jp_inb :: string where "jp_inb = ''Income from Jasvinder Technologies A/c''"
definition jp_pint :: string where "jp_pint = ''Interest A/c''"
definition jp_gift :: string where "jp_gift = ''Gifts Received A/c''"
definition jp_hh :: string where "jp_hh = ''Groceries & Household A/c''"
definition jp_util :: string where "jp_util = ''Electricity & Phone A/c''"
definition jp_sch :: string where "jp_sch = ''School Fees A/c''"
definition jp_help :: string where "jp_help = ''Household Staff Wages A/c''"
definition jp_carx :: string where "jp_carx = ''Car Fuel & Upkeep A/c''"
definition jp_toll :: string where "jp_toll = ''Toll & Parking A/c''"
definition jp_cint :: string where "jp_cint = ''Interest on Car Loan A/c''"
definition jp_med :: string where "jp_med = ''Medical & Insurance A/c''"
definition jp_soc :: string where "jp_soc = ''Gifts & Social A/c''"
definition jp_wo :: string where "jp_wo = ''Written off A/c''"

section \<open>Jasvinder Technologies\<close>

lemmas jt_name_defs =
  jt_tc_def jt_tb_def jt_med_def jt_kaur_def jt_pab_def jt_cloud_def
  jt_radv_def jt_lap_def jt_cap_def jt_drw_def jt_inc_def jt_sal_def
  jt_rent_def jt_host_def jt_net_def jt_trav_def jt_sund_def

definition jt_accounts :: "account list" where
  "jt_accounts =
     [Account jt_tc Cash ''Office cash'' (R 5000),
      Account jt_tb Bank ''Business current account'' (R 320000),
      Account jt_med Party (''Client '' @ u_emdash @ '' monthly support retainer, billed quarterly'') (R 118000),
      Account jt_kaur Party (''Client '' @ u_emdash @ '' website and mobile-application work; paid an advance before the work'') 0,
      Account jt_pab Party (''Client '' @ u_emdash @ '' dashboard project billed in two stages'') 0,
      Account jt_cloud Party (''Supplier '' @ u_emdash @ '' servers and hosting, billed quarterly'') (- (R 8260)),
      Account jt_radv Advance ''Salary advance to the developer, recovered in his salary'' 0,
      Account jt_lap Fixed ''Laptops, monitors and office equipment at what they cost'' (R 145000),
      Account jt_cap Capital
          ''The owner's own money in the business; named after the owner, whose personal book is the other book'' 0,
      Account jt_drw Drawings ''Money sent home for the household; closed to own money at the year end'' 0,
      Account jt_inc Income ''IT services billed to clients'' 0,
      Account jt_sal Expense ''Developer's salary when paid'' 0,
      Account jt_rent Expense ''Office rent, paid quarterly'' 0,
      Account jt_host Expense ''Servers, hosting, domains and software'' 0,
      Account jt_net Expense ''Broadband and mobile'' 0,
      Account jt_trav Expense ''Travel to clients'' 0,
      Account jt_sund Expense ''Stationery, accountant's fee, bank charges, small items'' 0]"

definition jt_entries_1 :: "entry list" where
  "jt_entries_1 =
     concat (map (\<lambda>k. [gave (Q4E ! k) jt_med jt_inc (R 207000) (''Support retainer, '' @ Q4N ! k @
         ('' ('' @ u_rupee @ ''69,000 a month)'')),
        took (Q4E ! k) jt_host jt_cloud ([R 8260, R 9440, R 9440, R 11800] ! k) (''Hosting bill, '' @ Q4N ! k),
        pay (D (year (Q4E ! k)) ((month (Q4E ! k)) - 2) 5) jt_rent jt_tb (R 54000) (''Office rent, '' @ Q4N ! k)
            (Some (''NEFT DR'' @ u_endash @ ''OFFICE RENT''))])
          [0, 1, 2, 3])
     @ [rcv (D 2025 4 12) jt_tb jt_med (R 118000) ''Medtech Solutions paid the March 2025 bill (opening balance)''
         (Some (''NEFT CR'' @ u_endash @ ''MEDTECH SOLUTIONS''))]
     @ concat (map (\<lambda>(d, k). [rcv d jt_tb jt_med (R 207000) (''Medtech Solutions paid the retainer of '' @ Q4N ! k)
         (Some (''NEFT CR'' @ u_endash @ ''MEDTECH SOLUTIONS''))])
          [(D 2025 7 14, 0), (D 2025 10 13, 1), (D 2026 1 12, 2)])
     @ [pay (D 2025 4 10) jt_cloud jt_tb (R 8260) (''Hosting bill of January'' @ u_endash @ ''March 2025 paid (opening balance)'')
         (Some (''UPI DR'' @ u_endash @ ''CLOUDNINE HOSTING''))]
     @ concat (map (\<lambda>(d, k, a). [pay d jt_cloud jt_tb a (''Hosting bill of '' @ Q4N ! k @ '' paid'') (Some
         (''UPI DR'' @ u_endash @ ''CLOUDNINE HOSTING''))])
          [(D 2025 7 10, 0, R 8260), (D 2025 10 10, 1, R 9440), (D 2026 1 10, 2, R 9440)])
     @ [rcv (D 2025 5 6) jt_tb jt_kaur (R 60000)
         ''Advance from Kaur Exports for their export-order mobile application'' (Some (''NEFT CR'' @ u_endash @ ''KAUR EXPORTS'')),
        gave (D 2025 7 31) jt_kaur jt_inc (R 140000) (''Kaur Exports '' @ u_emdash @ '' export-order mobile application delivered''),
        rcv (D 2025 9 8) jt_tb jt_kaur (R 80000) ''Kaur Exports paid the rest of the application bill'' (Some
            (''NEFT CR'' @ u_endash @ ''KAUR EXPORTS'')),
        gave (D 2026 1 20) jt_kaur jt_inc (R 90000) (''Kaur Exports '' @ u_emdash @ '' website redesign''),
        rcv (D 2026 3 18) jt_tb jt_kaur (R 90000) ''Kaur Exports paid the website bill'' (Some
            (''NEFT CR'' @ u_endash @ ''KAUR EXPORTS'')),
        gave (D 2025 8 29) jt_pab jt_inc (R 236000) (''Punjab Agro Board '' @ u_emdash @ '' dashboard, first stage''),
        rcv (D 2025 11 21) jt_tb jt_pab (R 236000) ''Punjab Agro Board paid the first stage (late)'' (Some
            (''RTGS CR'' @ u_endash @ ''PUNJAB AGRO BOARD'')),
        gave (D 2026 2 27) jt_pab jt_inc (R 177000) (''Punjab Agro Board '' @ u_emdash @ '' dashboard, final stage'')]
     @ concat (map (\<lambda>(k, a). (if k = 1 then [ventry (Q4E ! k) Payment (''Salary of Rohit Verma, '' @ Q4N ! k @
         ('' '' @ u_emdash @ '' '' @ u_rupee @ ''20,000 of it recovered from his advance, the rest paid'')) [(jt_sal, R 135000), (jt_radv, - (R
             20000)), (jt_tb, - a)] (Some (''NEFT DR'' @ u_endash @ ''ROHIT VERMA'' @ u_endash @ ''SAL''))] else [pay (Q4E ! k) jt_sal jt_tb a
                 (''Salary of Rohit Verma, '' @ Q4N ! k) (Some (''NEFT DR'' @ u_endash @ ''ROHIT VERMA'' @ u_endash @ ''SAL''))]))
          (List.enumerate 0 [R 135000, R 115000, R 135000, R 135000]))
     @ [pay (D 2025 8 11) jt_radv jt_tb (R 20000) ''Salary advance to Rohit Verma'' (Some (''IMPS DR'' @ u_endash @ ''ROHIT VERMA'')),
        pay (D 2025 6 18) jt_lap jt_tb (R 110000) (''Two laptops for the office '' @ u_emdash @ '' things owned, at cost'') (Some
            (''NEFT DR'' @ u_endash @ ''LAPTOP WORLD'')),
        pay (D 2025 4 3) jt_net jt_tb (R 11800) (''Broadband and mobile, April'' @ u_endash @ ''September'') (Some (''UPI DR'' @ u_endash @ ''AIRTEL''))]"

definition jt_entries_2 :: "nat \<Rightarrow> entry list" where
  "jt_entries_2 wrong =
     [pay (D 2025 9 26) jt_net jt_tb (R 4720) ''Domain and e-mail renewal'' (Some (''UPI DR'' @ u_endash @ ''DOMAIN RENEWAL'')),
        fix_entry (D 2025 10 4) jt_host jt_net (R 4720)
            (''Entry {ref} (domain renewal) was written to Internet & Phone '' @ u_emdash @ '' moved to Hosting & Software'')
                Correction (Some wrong),
        pay (D 2025 10 3) jt_net jt_tb (R 11800) (''Broadband and mobile, October'' @ u_endash @ ''March'') (Some (''UPI DR'' @ u_endash @ ''AIRTEL'')),
        move (D 2025 7 7) jt_tc jt_tb (R 15000) ''Cash withdrawn for office cash (ATM)'' (Some (''ATM WDL'' @ u_endash @ ''MOHALI'')),
        pay (D 2025 8 22) jt_trav jt_tc (R 6400) ''Travel to Chandigarh for the Punjab Agro Board meetings, cash''
            None,
        pay (D 2026 2 14) jt_trav jt_tc (R 5200) ''Travel to Ludhiana for Kaur Exports, cash'' None,
        pay (D 2025 12 19) jt_sund jt_tc (R 2800) ''Stationery and printer cartridges, cash'' None,
        pay (D 2025 9 15) jt_sund jt_tb (R 9000) ''Accountant's fee for the FY 2024-25 books'' (Some
            (''UPI DR'' @ u_endash @ ''CA OFFICE''))]"

definition jt_entries_3 :: "entry list" where
  "jt_entries_3 =
     concat (map (\<lambda>(d, a). [pay d jt_drw jt_tb a
         (''Sent home for the household '' @ u_emdash @ '' to Jasvinder Singh's savings account'') (Some
             (''IMPS DR'' @ u_endash @ ''JASVINDER SINGH'' @ u_endash @ ''SELF''))])
          [(D 2025 4 1, R 120000), (D 2025 7 15, R 120000), (D 2025 10 20, R 120000), (D 2025 12 22, R 120000)])
     @ [rcv (D 2025 6 16) jt_tb jp_cap (R 100000) ''Put in by Jasvinder Singh for the new laptops'' (Some
         (''NEFT CR'' @ u_endash @ ''JASVINDER SINGH''))]"

definition jt_entries :: "entry list" where
  "jt_entries =
     (let es = jt_entries_1;
          es = es @ jt_entries_2 (length es);
          es = es @ jt_entries_3
      in es)"

definition jt_header :: book where
  "jt_header = (Book ''Jasvinder Technologies'' ''own business book'' ''JT'' Business)\<lparr>about :=
      (''One-owner business book '' @ u_middot @ '' IT services '' @ u_middot @ '' clients on credit '' @ u_middot @ '' supplier on credit '' @ u_middot @ '' a developer on salary '' @ u_middot @ '' the owner's money put in and money sent home, in accounts named after the owner's personal book.''),
        bank_extract := Some (jt_tb, (2026, 1)),
        custom := Some (jt_kaur, D 2025 4 1, D 2026 3 31,
            (''One client's account for the year '' @ u_emdash @ '' an advance before the work (they are owed work), the bill that turned it round, and the payments.'')),
        assets_note := ''''\<rparr>"

definition build_jt :: "error + posted_book" where
  "build_jt = build_book jt_header jt_accounts jt_cap jt_entries"

definition jt_names :: "string list" where
  "jt_names =
     [jt_tc, jt_tb, jt_med, jt_kaur, jt_pab, jt_cloud, jt_radv, jt_lap, jt_cap, jt_drw, jt_inc, jt_sal,
      jt_rent, jt_host, jt_net, jt_trav, jt_sund]"

lemma jt_names: "map aname jt_accounts = jt_names"
  by (simp add: jt_accounts_def jt_names_def Account_def AccountG_def )

lemma jt_names_distinct: "distinct jt_names"
  by (simp add: jt_names_def jt_name_defs )

lemma jt_pos:
  "pos_of jt_names jt_tc = 0"
  "pos_of jt_names jt_tb = 1"
  "pos_of jt_names jt_med = 2"
  "pos_of jt_names jt_kaur = 3"
  "pos_of jt_names jt_pab = 4"
  "pos_of jt_names jt_cloud = 5"
  "pos_of jt_names jt_radv = 6"
  "pos_of jt_names jt_lap = 7"
  "pos_of jt_names jt_cap = 8"
  "pos_of jt_names jt_drw = 9"
  "pos_of jt_names jt_inc = 10"
  "pos_of jt_names jt_sal = 11"
  "pos_of jt_names jt_rent = 12"
  "pos_of jt_names jt_host = 13"
  "pos_of jt_names jt_net = 14"
  "pos_of jt_names jt_trav = 15"
  "pos_of jt_names jt_sund = 16"
  "pos_of jt_names jp_cap = 8"
  by (simp_all add: pos_of_def jt_names_def jt_name_defs  jp_cap_def)

lemma jt_kinds:
  "map kind jt_accounts =
     [Cash, Bank, Party, Party, Party, Party, Advance, Fixed, Capital, Drawings, Income, Expense, Expense,
      Expense, Expense, Expense, Expense]"
  by (simp add: jt_accounts_def Account_def AccountG_def )

lemma jt_openings:
  "balanced_openings jt_cap jt_accounts =
     [500000, 32000000, 11800000, 0, 0, - 826000, 0, 14500000, - 57974000, 0, 0, 0, 0, 0, 0, 0, 0]"
  by (simp add: balanced_openings_def total_but_def jt_accounts_def Account_def AccountG_def jt_name_defs R_def  )

lemma jt_own: "own_opening jt_cap jt_accounts = - 57974000"
  unfolding own_opening_def [of jt_cap jt_accounts]
  by (simp add: total_but_def jt_accounts_def Account_def AccountG_def jt_name_defs R_def  )

lemma jt_counts: "min_count jt_header = 40" "max_count jt_header = 60"
  by (simp_all add: jt_header_def Book_def)

lemma jt_empty: "accounts jt_header = []" "vouchers jt_header = []"
  by (simp_all add: jt_header_def Book_def)

lemmas jt_entries_defs =
  jt_entries_def jt_entries_1_def jt_entries_2_def jt_entries_3_def

lemma jt_refs: "list_all (\<lambda>e. case eref e of None \<Rightarrow> True | Some k \<Rightarrow> k < length jt_entries) jt_entries"
  by (simp add: jt_entries_defs entry_refs Let_def Q4E_def jp_sched_eq)

text \<open>The skeleton of the book, evaluated.\<close>

lemma jt_skeleton:
  "skeleton_check (min_count jt_header) (max_count jt_header) (map kind jt_accounts)
     (balanced_openings jt_cap jt_accounts)
     (map (entry_skeleton (map aname jt_accounts)) jt_entries)"
  unfolding jt_names jt_kinds jt_openings jt_counts
  apply (simp add: jt_entries_defs entry_skeletons jt_pos Let_def Q4E_def R_def cash_dep_def D_def jp_sched_eq)
  by code_simp

text \<open>The closing balances of the accounts, in order (paise, positive is Dr).\<close>

definition jt_closing :: "int list" where
  "jt_closing =
     [560000, 19128000, 20700000, 0, 17700000, - 1180000, 0, 25500000, - 67974000, 48000000, - 147100000,
      54000000, 21600000, 4366000, 2360000, 1160000, 1180000]"

lemma jt_closings:
  "skeleton_balances (map (entry_skeleton (map aname jt_accounts)) jt_entries)
     (balanced_openings jt_cap jt_accounts) = jt_closing"
  unfolding jt_names jt_openings jt_closing_def
  apply (simp add: jt_entries_defs entry_skeletons jt_pos Let_def Q4E_def R_def cash_dep_def D_def jp_sched_eq)
  by code_simp

lemma jt_built:
  "\<exists>b pb. book_wf b \<and> finalize b = Inr pb \<and> build_jt = Inr pb \<and> map aname (accounts pb) = jt_names
     \<and> map kind (accounts pb) = map kind jt_accounts
     \<and> map closing (accounts pb) = jt_closing
     \<and> partners pb = partners jt_header \<and> style pb = style jt_header"
proof -
  have d: "distinct (map aname jt_accounts)" unfolding jt_names by (rule jt_names_distinct)
  have own: "jt_cap \<in> set (map aname jt_accounts)" unfolding jt_names by (simp add: jt_names_def)
  note * = build_book_ok [OF jt_empty d own jt_refs jt_skeleton, unfolded jt_closings]
  show ?thesis using * unfolding build_jt_def jt_names .
qed

section \<open>Jasvinder Singh\<close>

lemmas jp_name_defs =
  jp_pc_def jp_pb_def jp_tag_def jp_card_def jp_fd_def jp_biz_def
  jp_gur_def jp_groc_def jp_drvp_def jp_hadv_def jp_dadv_def jp_car_def
  jp_car2_def jp_cloan_def jp_cap_def jp_inb_def jp_pint_def jp_gift_def
  jp_hh_def jp_util_def jp_sch_def jp_help_def jp_carx_def jp_toll_def
  jp_cint_def jp_med_def jp_soc_def jp_wo_def

definition jp_accounts :: "account list" where
  "jp_accounts =
     set_opening jp_biz (- own_opening jt_cap jt_accounts)
     ([Account jp_pc Cash ''Cash at home'' (R 8000),
      Account jp_pb Bank (''Savings account '' @ u_emdash @ '' household money'') (R 185000),
      Account jp_tag Wallet (''Prepaid toll wallet for the cars '' @ u_emdash @ '' recharged from savings'') (R 1200),
      Account jp_card Card (''Credit card '' @ u_emdash @ '' what is owed on it'') (- (R 12400)),
      Account jp_fd Invest ''Fixed deposits'' (R 200000),
      Account jp_biz Stake ''Money put into the business, at what was put in; named after the business book'' 0,
      Account jp_gur Loanto
          (''Hand loan to a friend on a small interest '' @ u_emdash @ '' its own account, apart from any running account'') 0,
      Account jp_groc Party (''Grocer '' @ u_emdash @ '' what is owed for groceries'') (- (R 3200)),
      Account jp_drvp Party (''Driver '' @ u_emdash @ '' what he owes after the trip, to be cut from his pay'') 0,
      Account jp_hadv Advance ''Salary advance to the house help, recovered in her wages'' 0,
      Account jp_dadv Advance ''Money with the driver for the trip, accounted for against his bills'' 0,
      Account jp_car Fixed ''The family car at what it cost (2023)'' (R 640000),
      Account jp_car2 Fixed ''The second car at what it cost (October 2025)'' 0,
      Account jp_cloan Loan (''Loan for the second car '' @ u_emdash @ '' the principal still owed, as on the lender's statement'') 0,
      Account jp_cap Capital (''Own money '' @ u_emdash @ '' what the household is worth in this book'') 0,
      Account jp_inb Income (''Money the business sent home '' @ u_emdash @ '' the household's income'') 0,
      Account jp_pint Income ''Interest on savings, deposits and the hand loan'' 0,
      Account jp_gift Income ''Gifts given to the household'' 0,
      Account jp_hh Expense ''Groceries and household things'' 0,
      Account jp_util Expense ''Electricity, gas and phones'' 0,
      Account jp_sch Expense ''Children's school fees'' 0,
      Account jp_help Expense ''The house help's wages and the part-time driver's pay'' 0,
      Account jp_carx Expense ''Fuel, service, car insurance'' 0,
      Account jp_toll Expense ''Tolls off the FASTag wallet, and parking'' 0,
      Account jp_cint Expense ''Interest part of each instalment, as the lender's statement splits it'' 0,
      Account jp_med Expense ''Doctor, medicines, health and life insurance'' 0,
      Account jp_soc Expense ''Shagun, gifts, gurpurab and social occasions'' 0,
      Account jp_wo Expense (''Money known not to come back '' @ u_emdash @ '' the part of the friend's loan he could not repay'') 0])"

definition jp_entries_1 :: "entry list" where
  "jp_entries_1 =
     concat (map (\<lambda>(d, a). [rcv d jp_pb jp_inb a (''Received from Jasvinder Technologies '' @ u_emdash @ '' money sent home'') (Some
         (''IMPS CR'' @ u_endash @ ''JASVINDER TECHNOLOGIES''))])
          [(D 2025 4 1, R 120000), (D 2025 7 15, R 120000), (D 2025 10 20, R 120000), (D 2025 12 22, R 120000)])
     @ [pay (D 2025 6 16) jp_biz jp_pb (R 100000) ''Put into Jasvinder Technologies for the new laptops'' (Some
         (''NEFT DR'' @ u_endash @ ''JASVINDER TECHNOLOGIES''))]
     @ concat (map (\<lambda>(d, a, nm). [took d jp_hh jp_groc a (''Groceries on credit, '' @ nm)])
          [(D 2025 9 30, R 48400, (''April'' @ u_endash @ ''September'')), (D 2026 3 31, R 49500, (''October'' @ u_endash @ ''March''))])
     @ [pay (D 2025 4 5) jp_groc jp_pc (R 3200) ''Grocer's account for March paid, cash'' None,
        pay (D 2025 10 6) jp_groc jp_pb (R 48400) (''Grocer's account for April'' @ u_endash @ ''September paid (UPI)'') (Some
            (''UPI DR'' @ u_endash @ ''SHARMA GENERAL STORE''))]
     @ concat (map (\<lambda>(d, a). [pay d jp_util jp_pb a ''Electricity and phone bills, six months'' (Some
         (''BILLPAY DR'' @ u_endash @ ''PSPCL / AIRTEL''))])
          [(D 2025 7 21, R 15500), (D 2026 1 21, R 14200)])
     @ [pay (D 2025 4 15) jp_sch jp_pb (R 42000) ''School fees, first half-year'' (Some (''NEFT DR'' @ u_endash @ ''SCHOOL FEES'')),
        pay (D 2025 10 16) jp_sch jp_pb (R 44000) ''School fees, second half-year'' (Some (''NEFT DR'' @ u_endash @ ''SCHOOL FEES''))]
     @ concat (map (\<lambda>(d, a, nm). [pay d jp_help jp_pc a (''House help's wages, '' @ nm @ '', cash'') None])
          [(D 2025 6 30, R 30000, (''April'' @ u_endash @ ''June'')), (D 2025 12 31, R 30000, (''October'' @ u_endash @ ''December'')), (D 2026 3 31, R
              30000, (''January'' @ u_endash @ ''March''))])
     @ [pay (D 2025 7 8) jp_hadv jp_pc (R 6000) ''Salary advance to the house help, cash'' None,
        ventry (D 2025 9 30) Payment
            (''House help's wages, July'' @ u_endash @ ''September '' @ u_emdash @ '' '' @ u_rupee @ ''6,000 of it recovered from her advance, the rest paid in cash'')
                [(jp_help, R 30000), (jp_hadv, - (R 6000)), (jp_pc, - (R 24000))] None]
     @ concat (map (\<lambda>(d, a). [move d jp_pc jp_pb a ''Cash withdrawn (ATM)'' (Some (''ATM WDL'' @ u_endash @ ''MOHALI''))])
          [(D 2025 4 2, R 45000), (D 2025 9 26, R 45000), (D 2025 12 27, R 30000), (D 2026 3 2, R 30000)])
     @ [pay (D 2025 5 18) jp_gur jp_pb (R 25000) ''Hand loan to Gurpreet Sandhu, on a small interest (UPI)'' (Some
         (''UPI DR'' @ u_endash @ ''GURPREET SANDHU'')),
        rcv (D 2025 12 12) jp_pb jp_gur (R 15000) ''Gurpreet Sandhu returned part of the loan'' (Some
            (''UPI CR'' @ u_endash @ ''GURPREET SANDHU'')),
        rcv (D 2025 12 12) jp_pb jp_pint (R 1875)
            ''Interest on the hand loan paid by Gurpreet Sandhu for seven months'' (Some (''UPI CR'' @ u_endash @ ''GURPREET SANDHU'')),
        ventry (D 2026 3 31) WrittenOff
            (''The last '' @ u_rupee @ ''10,000 of Gurpreet Sandhu's loan written off '' @ u_emdash @ '' he has said he cannot repay it'') [(jp_wo, R
                10000), (jp_gur, - (R 10000))] None]
     @ concat (map (\<lambda>(d, a, nm). [pay d jp_carx jp_card a (nm @ '', on the credit card'') None])
          [(D 2025 5 12, R 9800, (''Fuel, April'' @ u_endash @ ''May'')), (D 2025 8 9, R 14200, ''Fuel and car service''), (D 2025 11
              10, R 18600, ''Car insurance renewal'')])
     @ concat (map (\<lambda>(d, a). [move d jp_card jp_pb a ''Credit-card bill paid from savings'' (Some
         (''CC PAYMENT DR'' @ u_endash @ ''HDFC CARD''))])
          [(D 2025 4 18, R 12400), (D 2025 6 18, R 9800), (D 2025 9 17, R 14200), (D 2025 12 17, R 18600)])"

definition jp_entries_2 :: "entry list" where
  "jp_entries_2 =
     [pay (D 2025 8 28) jp_med jp_pb (R 38000) ''LIC term-insurance premium (yearly)'' (Some
         (''NACH DR'' @ u_endash @ ''LIC OF INDIA'')),
        pay (D 2025 11 5) jp_soc jp_pc (R 11000) ''Shagun at a cousin's wedding and Gurpurab, cash'' None]"

definition jp_entries_3 :: "nat \<Rightarrow> entry list" where
  "jp_entries_3 wrong =
     [pay (D 2026 2 20) jp_hh jp_pb (R 5900) ''Gas cylinder booking and pipe repair (UPI)'' (Some
         (''UPI DR'' @ u_endash @ ''INDANE GAS'')),
        fix_entry (D 2026 3 2) jp_util jp_hh (R 5900)
            (''Entry {ref} (gas) was written to Groceries & Household '' @ u_emdash @ '' moved to Electricity & Phone'') Correction
                (Some wrong),
        ventry (D 2025 9 20) Receipt
            (''Cumulative fixed deposit of '' @ u_rupee @ ''1,00,000 matured after a year '' @ u_emdash @ '' principal and '' @ u_rupee @ ''7,186 interest paid to savings together'')
                [(jp_pb, R 107186), (jp_fd, - (R 100000)), (jp_pint, - (R 7186))] (Some ''FD MATURITY'')]
     @ concat (map (\<lambda>(d, a, nm). [rcv d jp_pb jp_pint a nm (Some ''INT.CR'')])
          [(D 2026 3 31, R 3360, ''Savings interest''), (D 2025 12 31, R 7200,
              (''Yearly interest on the other fixed deposit ('' @ u_rupee @ ''1,00,000), paid to savings''))])
     @ [rcv (D 2025 8 3) jp_pb jp_gift (R 11000) ''Birthday gift from an uncle (UPI)'' (Some (''UPI CR'' @ u_endash @ ''UNCLE'')),
        ventry (D 2025 10 25) Payment
            (''Second car bought for '' @ u_rupee @ ''9,00,000: the lender paid the dealer '' @ u_rupee @ ''8,00,000 (the loan) and the margin '' @ u_rupee @ ''1,00,000 was paid from savings'')
                [(jp_car2, R 900000), (jp_cloan, - (R 800000)), (jp_pb, - (R 100000))] (Some
                    (''RTGS DR'' @ u_endash @ ''HYUNDAI DEALER (MARGIN)''))]
     @ concat (map (\<lambda>(i, due, ee, interest, principal). [ventry due Payment (''Car loan instalment '' @ str_nat i @
         '' of 60, split as on the lender's statement'') [(jp_cloan, principal), (jp_cint, interest), (jp_pb, - ee)]
             (Some ((''ACH DR'' @ u_endash @ ''HDFC BANK'' @ u_endash @ ''CAR LOAN EMI '') @ pad0 2 i @ ''/60''))])
          jp_sched)
     @ [move (D 2025 10 3) jp_tag jp_pb (R 3000) ''FASTag wallet recharged from savings'' (Some
         (''UPI DR'' @ u_endash @ ''FASTAG RECHARGE'')),
        pay (D 2026 3 31) jp_toll jp_tag (R 2640) (''Tolls, October'' @ u_endash @ ''March, per the FASTag statement'') None,
        pay (D 2025 12 18) jp_dadv jp_pc (R 15000) ''Advance to Balwinder Singh for the Vaishno Devi trip, cash''
            None,
        ventry (D 2025 12 28) AdvanceSettled
            (''Balwinder Singh's trip bills '' @ u_emdash @ '' fuel, tolls he paid in cash, parking '' @ u_emdash @ '' set against his advance; '' @ u_rupee @ ''1,800 with no bill moved to his own account'')
                [(jp_carx, R 8200), (jp_toll, R 3500), (jp_drvp, R 1800), (jp_dadv, - (R 13500))] None,
        rcv (D 2025 12 28) jp_pc jp_dadv (R 1500) ''Balwinder Singh returned the unspent part of the advance, cash''
            None,
        took (D 2026 1 10) jp_help jp_drvp (R 9000) ''Balwinder Singh's pay for December (part-time driver)'',
        pay (D 2026 1 10) jp_drvp jp_pc (R 7200)
            (''Balwinder Singh paid his December pay, cash '' @ u_emdash @ '' less the '' @ u_rupee @ ''1,800 of trip money cut from it'') None]"

definition jp_entries :: "entry list" where
  "jp_entries =
     (let es = jp_entries_1;
          es = es @ jp_entries_2;
          es = es @ jp_entries_3 (length es)
      in es)"

definition jp_header :: book where
  "jp_header = (Book ''Jasvinder Singh'' ''personal book'' ''JP'' Household)\<lparr>about :=
      (''Personal book '' @ u_middot @ '' savings, cash, credit card, FASTag wallet, fixed deposit, two cars (one on a loan) '' @ u_middot @ '' a grocer on credit, a hand loan to a friend, advances to a driver and the house help '' @ u_middot @ '' money put into his business, and the business's money sent home as income.''),
        bank_extract := Some (jp_pb, (2025, 10)),
        custom := Some (jp_gur, D 2025 4 1, D 2026 3 31,
            (''The friend's loan account for the year '' @ u_emdash @ '' the loan, the part returned, and the rest written off.'')),
        assets_note := ''''\<rparr>"

definition build_jp :: "error + posted_book" where
  "build_jp = build_book jp_header jp_accounts jp_cap jp_entries"

definition jp_names :: "string list" where
  "jp_names =
     [jp_pc, jp_pb, jp_tag, jp_card, jp_fd, jp_biz, jp_gur, jp_groc, jp_drvp, jp_hadv, jp_dadv, jp_car,
      jp_car2, jp_cloan, jp_cap, jp_inb, jp_pint, jp_gift, jp_hh, jp_util, jp_sch, jp_help, jp_carx, jp_toll,
      jp_cint, jp_med, jp_soc, jp_wo]"

lemma jp_names: "map aname jp_accounts = jp_names"
  by (simp add: jp_accounts_def jp_names_def Account_def AccountG_def )

lemma jp_names_distinct: "distinct jp_names"
  by (simp add: jp_names_def jp_name_defs )

lemma jp_pos:
  "pos_of jp_names jp_pc = 0"
  "pos_of jp_names jp_pb = 1"
  "pos_of jp_names jp_tag = 2"
  "pos_of jp_names jp_card = 3"
  "pos_of jp_names jp_fd = 4"
  "pos_of jp_names jp_biz = 5"
  "pos_of jp_names jp_gur = 6"
  "pos_of jp_names jp_groc = 7"
  "pos_of jp_names jp_drvp = 8"
  "pos_of jp_names jp_hadv = 9"
  "pos_of jp_names jp_dadv = 10"
  "pos_of jp_names jp_car = 11"
  "pos_of jp_names jp_car2 = 12"
  "pos_of jp_names jp_cloan = 13"
  "pos_of jp_names jp_cap = 14"
  "pos_of jp_names jp_inb = 15"
  "pos_of jp_names jp_pint = 16"
  "pos_of jp_names jp_gift = 17"
  "pos_of jp_names jp_hh = 18"
  "pos_of jp_names jp_util = 19"
  "pos_of jp_names jp_sch = 20"
  "pos_of jp_names jp_help = 21"
  "pos_of jp_names jp_carx = 22"
  "pos_of jp_names jp_toll = 23"
  "pos_of jp_names jp_cint = 24"
  "pos_of jp_names jp_med = 25"
  "pos_of jp_names jp_soc = 26"
  "pos_of jp_names jp_wo = 27"
  by (simp_all add: pos_of_def jp_names_def jp_name_defs  jp_cap_def)

lemma jp_kinds:
  "map kind jp_accounts =
     [Cash, Bank, Wallet, Card, Invest, Stake, Loanto, Party, Party, Advance, Advance, Fixed, Fixed, Loan,
      Capital, Income, Income, Income, Expense, Expense, Expense, Expense, Expense, Expense, Expense, Expense,
      Expense, Expense]"
  by (simp add: jp_accounts_def Account_def AccountG_def )

lemma jp_openings:
  "balanced_openings jp_cap jp_accounts =
     [800000, 18500000, 120000, - 1240000, 20000000, 57974000, 0, - 320000, 0, 0, 0, 64000000, 0, 0,
      - 159834000, 0, 0, 0, 0, 0, 0, 0, 0, 0, 0, 0, 0, 0]"
  by (simp add: balanced_openings_def total_but_def jp_accounts_def Account_def AccountG_def jp_name_defs R_def
      set_opening_def  jt_own)

lemma jp_own: "own_opening jp_cap jp_accounts = - 159834000"
  unfolding own_opening_def [of jp_cap jp_accounts]
  by (simp add: total_but_def jp_accounts_def Account_def AccountG_def jp_name_defs R_def set_opening_def  jt_own)

lemma jp_counts: "min_count jp_header = 40" "max_count jp_header = 60"
  by (simp_all add: jp_header_def Book_def)

lemma jp_empty: "accounts jp_header = []" "vouchers jp_header = []"
  by (simp_all add: jp_header_def Book_def)

lemmas jp_entries_defs =
  jp_entries_def jp_entries_1_def jp_entries_2_def jp_entries_3_def

lemma jp_refs: "list_all (\<lambda>e. case eref e of None \<Rightarrow> True | Some k \<Rightarrow> k < length jp_entries) jp_entries"
  by (simp add: jp_entries_defs entry_refs Let_def Q4E_def jp_sched_eq)

text \<open>The skeleton of the book, evaluated.\<close>

lemma jp_skeleton:
  "skeleton_check (min_count jp_header) (max_count jp_header) (map kind jp_accounts)
     (balanced_openings jp_cap jp_accounts)
     (map (entry_skeleton (map aname jp_accounts)) jp_entries)"
  unfolding jp_names jp_kinds jp_openings jp_counts
  apply (simp add: jp_entries_defs entry_skeletons jp_pos Let_def Q4E_def R_def cash_dep_def D_def jp_sched_eq)
  by code_simp

text \<open>The closing balances of the accounts, in order (paise, positive is Dr).\<close>

definition jp_closing :: "int list" where
  "jp_closing =
     [310000, 10241700, 156000, 0, 10000000, 67974000, 0, - 4950000, 0, 0, 0, 64000000, 90000000, - 75762900,
      - 159834000, - 48000000, - 1962100, - 1100000, 9790000, 3560000, 8600000, 12900000, 5080000, 614000,
      2483300, 3800000, 1100000, 1000000]"

lemma jp_closings:
  "skeleton_balances (map (entry_skeleton (map aname jp_accounts)) jp_entries)
     (balanced_openings jp_cap jp_accounts) = jp_closing"
  unfolding jp_names jp_openings jp_closing_def
  apply (simp add: jp_entries_defs entry_skeletons jp_pos Let_def Q4E_def R_def cash_dep_def D_def jp_sched_eq)
  by code_simp

lemma jp_built:
  "\<exists>b pb. book_wf b \<and> finalize b = Inr pb \<and> build_jp = Inr pb \<and> map aname (accounts pb) = jp_names
     \<and> map kind (accounts pb) = map kind jp_accounts
     \<and> map closing (accounts pb) = jp_closing
     \<and> partners pb = partners jp_header \<and> style pb = style jp_header"
proof -
  have d: "distinct (map aname jp_accounts)" unfolding jp_names by (rule jp_names_distinct)
  have own: "jp_cap \<in> set (map aname jp_accounts)" unfolding jp_names by (simp add: jp_names_def)
  note * = build_book_ok [OF jp_empty d own jp_refs jp_skeleton, unfolded jp_closings]
  show ?thesis using * unfolding build_jp_def jp_names .
qed

end
