(* ===== verification/Family_Books.thy ===== *)
theory Family_Books
  imports Shop_Book
begin

text \<open>
  The seven books of \<open>build_family\<close> (\<open>build.py\<close>).  The local functions \<open>household\<close> and \<open>pair\<close> are
  written out at their calls.
\<close>

definition fj_A_settle :: "int" where
  "fj_A_settle = ((R 18000) + (R 90000)) + (R 9000)"

text \<open>The accounts of Randhawa Agriculture.\<close>

definition fg_gc :: string where "fg_gc = ''Cash A/c''"
definition fg_gb :: string where "fg_gb = ''PNB Savings A/c (farm)''"
definition fg_gk :: string where "fg_gk = (''KCC '' @ u_endash @ '' PNB A/c'')"
definition fg_gfert :: string where "fg_gfert = ''Sandhu Fertilisers A/c''"
definition fg_garh :: string where "fg_garh = ''Bansal & Sons A/c''"
definition fg_gadv :: string where "fg_gadv = (''Advance '' @ u_endash @ '' Aman Randhawa A/c'')"
definition fg_gmilkp :: string where "fg_gmilkp = ''Verka Milk Society A/c''"
definition fg_gland :: string where "fg_gland = ''Farm Land, Village Kotli A/c''"
definition fg_gtrac :: string where "fg_gtrac = ''Tractor & Implements A/c''"
definition fg_gbuff :: string where "fg_gbuff = ''Buffaloes A/c''"
definition fg_gF :: string where "fg_gF = (''Capital A/c '' @ u_endash @ '' Randhawa Joint Family'')"
definition fg_gFd :: string where "fg_gFd = (''Drawings A/c '' @ u_endash @ '' Randhawa Joint Family'')"
definition fg_gwh :: string where "fg_gwh = ''Wheat Sales A/c''"
definition fg_gpad :: string where "fg_gpad = ''Paddy Sales A/c''"
definition fg_gmilk :: string where "fg_gmilk = ''Milk Sales A/c''"
definition fg_goth :: string where "fg_goth = ''Straw & PM-Kisan Income A/c''"
definition fg_gseed :: string where "fg_gseed = ''Seed A/c''"
definition fg_gfx :: string where "fg_gfx = ''Fertiliser & Sprays A/c''"
definition fg_gdsl :: string where "fg_gdsl = ''Diesel & Repairs A/c''"
definition fg_glab :: string where "fg_glab = ''Labour A/c''"
definition fg_gth :: string where "fg_gth = ''Theka (Land Lease) A/c''"
definition fg_garx :: string where "fg_garx = ''Arhtiya Charges A/c''"
definition fg_gki :: string where "fg_gki = ''Interest on KCC A/c''"
definition fg_gfeed :: string where "fg_gfeed = ''Cattle Feed & Vet A/c''"

text \<open>The accounts of Randhawa Real Estate.\<close>

definition fe_ec :: string where "fe_ec = ''Cash A/c''"
definition fe_eb :: string where "fe_eb = ''Axis Bank Current A/c''"
definition fe_et1 :: string where "fe_et1 = ''Kotli Medical Hall A/c''"
definition fe_et2 :: string where "fe_et2 = ''Bhullar Hardware A/c''"
definition fe_edep1 :: string where "fe_edep1 = (''Deposit held '' @ u_endash @ '' Kotli Medical Hall A/c'')"
definition fe_edep2 :: string where "fe_edep2 = (''Deposit held '' @ u_endash @ '' Bhullar Hardware A/c'')"
definition fe_eadv :: string where "fe_eadv = (''Advance '' @ u_endash @ '' registry clerk A/c'')"
definition fe_eshops :: string where "fe_eshops = ''Shops at Kotli Chowk A/c''"
definition fe_eplot :: string where "fe_eplot = ''Plot No. 14, Model Colony A/c''"
definition fe_eplot2 :: string where "fe_eplot2 = ''Plot No. 7, Green Enclave A/c''"
definition fe_eF :: string where "fe_eF = (''Capital A/c '' @ u_endash @ '' Randhawa Joint Family'')"
definition fe_eFd :: string where "fe_eFd = (''Drawings A/c '' @ u_endash @ '' Randhawa Joint Family'')"
definition fe_erent :: string where "fe_erent = ''Rent Income A/c''"
definition fe_egain :: string where "fe_egain = ''Profit on Sale of Plot A/c''"
definition fe_eforf :: string where "fe_eforf = ''Deposit forfeited A/c''"
definition fe_etax :: string where "fe_etax = ''Property Tax A/c''"
definition fe_erep :: string where "fe_erep = ''Repairs A/c''"
definition fe_ebrok :: string where "fe_ebrok = ''Dalali A/c''"
definition fe_ewo :: string where "fe_ewo = ''Rent written off A/c''"

text \<open>The accounts of Randhawa Brick Field.\<close>

definition fk_kc :: string where "fk_kc = ''Cash A/c''"
definition fk_kb :: string where "fk_kb = ''HDFC Bank Current A/c''"
definition fk_ks1 :: string where "fk_ks1 = ''Sidhu Builders A/c''"
definition fk_ks2 :: string where "fk_ks2 = ''Dhaliwal Contractors A/c''"
definition fk_kcoal :: string where "fk_kcoal = ''Jindal Coal Depot A/c''"
definition fk_kadv :: string where "fk_kadv = (''Advance '' @ u_endash @ '' pathera jamadar A/c'')"
definition fk_kkiln :: string where "fk_kkiln = ''Kiln & Chimney A/c''"
definition fk_kF :: string where "fk_kF = ''Randhawa Joint Family A/c''"
definition fk_kG :: string where "fk_kG = ''Nirmaljeet Gill A/c''"
definition fk_ksale :: string where "fk_ksale = ''Brick Sales A/c''"
definition fk_kcx :: string where "fk_kcx = ''Coal A/c''"
definition fk_kmould :: string where "fk_kmould = ''Moulding Labour A/c''"
definition fk_kload :: string where "fk_kload = ''Loading & Transport A/c''"
definition fk_kroy :: string where "fk_kroy = ''Land Lease & Royalty A/c''"
definition fk_krep :: string where "fk_krep = ''Repairs & Sundry A/c''"

text \<open>The accounts of Randhawa Joint Family.\<close>

definition fj_fc :: string where "fj_fc = ''Cash A/c''"
definition fj_fb :: string where "fj_fb = ''SBI Joint Savings A/c''"
definition fj_ffd :: string where "fj_ffd = ''SBI Fixed Deposit A/c''"
definition fj_fhouse :: string where "fj_fhouse = ''Family House, Village Kotli A/c''"
definition fj_fgold :: string where "fj_fgold = ''Family Gold A/c''"
definition fj_fA :: string where "fj_fA = ''Amarjeet's Family A/c''"
definition fj_fB :: string where "fj_fB = ''Lakhbeer's Family A/c''"
definition fj_fC :: string where "fj_fC = ''Lakhwinder's Family A/c''"
definition fj_fG :: string where "fj_fG = ''Randhawa Agriculture A/c''"
definition fj_fE :: string where "fj_fE = ''Randhawa Real Estate A/c''"
definition fj_fK :: string where "fj_fK = ''Randhawa Brick Field A/c''"
definition fj_fudB :: string where "fj_fudB = (''Udhaar '' @ u_endash @ '' Lakhbeer's Family A/c'')"
definition fj_fmilk :: string where "fj_fmilk = ''Doodhwala A/c''"
definition fj_fmason :: string where "fj_fmason = (''Advance '' @ u_endash @ '' mason A/c'')"
definition fj_fcap :: string where "fj_fcap = (''Capital A/c '' @ u_endash @ '' Randhawa family'')"
definition fj_fiG :: string where "fj_fiG = ''Income from Randhawa Agriculture A/c''"
definition fj_fiE :: string where "fj_fiE = ''Income from Randhawa Real Estate A/c''"
definition fj_fiK :: string where "fj_fiK = ''Income from Randhawa Brick Field A/c''"
definition fj_fint :: string where "fj_fint = ''Interest A/c''"
definition fj_fkit :: string where "fj_fkit = ''Common Kitchen & Ration A/c''"
definition fj_felec :: string where "fj_felec = ''Electricity & Water A/c''"
definition fj_fmed :: string where "fj_fmed = ''Elders' Medical A/c''"
definition fj_fsoc :: string where "fj_fsoc = ''Gurdwara & Social A/c''"
definition fj_frep :: string where "fj_frep = ''House Repairs A/c''"
definition fj_fcar :: string where "fj_fcar = ''Family Car A/c''"
definition fj_fhA :: string where "fj_fhA = (''Household Expenses '' @ u_endash @ '' Amarjeet's family A/c'')"

text \<open>The accounts of Amarjeet's Family.\<close>

definition fa_cash :: string where "fa_cash = ''Cash A/c''"
definition fa_bank :: string where "fa_bank = ''PNB Savings A/c''"
definition fa_joint :: string where "fa_joint = ''Randhawa Joint Family A/c''"
definition fa_agro :: string where "fa_agro = ''Gill Kiryana Store A/c''"
definition fa_acust :: string where "fa_acust = ''Sidhu family A/c''"
definition fa_acap :: string where "fa_acap = (''Capital A/c '' @ u_endash @ '' Amarjeet's family'')"
definition fa_ast :: string where "fa_ast = ''Stitching Income A/c''"
definition fa_afam :: string where "fa_afam = ''Received from the Joint Family A/c''"
definition fa_aint :: string where "fa_aint = ''Interest A/c''"
definition fa_ahh :: string where "fa_ahh = ''Household & Groceries A/c''"
definition fa_acl :: string where "fa_acl = ''Clothes & Personal A/c''"
definition fa_amed :: string where "fa_amed = ''Medical A/c''"
definition fa_aph :: string where "fa_aph = ''Phone & Travel A/c''"
definition fa_asoc :: string where "fa_asoc = ''Gifts & Social A/c''"
definition fa_ahelp :: string where "fa_ahelp = ''House Help A/c''"
definition fa_aadv :: string where "fa_aadv = (''Advance '' @ u_endash @ '' house help A/c'')"

text \<open>The accounts of Lakhbeer's Family.\<close>

definition fb_cash :: string where "fb_cash = ''Cash A/c''"
definition fb_bank :: string where "fb_bank = ''HDFC Savings A/c''"
definition fb_joint :: string where "fb_joint = ''Randhawa Joint Family A/c''"
definition fb_budF :: string where "fb_budF = (''Udhaar '' @ u_endash @ '' Randhawa Joint Family A/c'')"
definition fb_bchem :: string where "fb_bchem = ''Bajwa Medical Store A/c''"
definition fb_bpaint :: string where "fb_bpaint = (''Advance '' @ u_endash @ '' painter A/c'')"
definition fb_bbike :: string where "fb_bbike = ''Motorcycle A/c''"
definition fb_bcap :: string where "fb_bcap = (''Capital A/c '' @ u_endash @ '' Lakhbeer's family'')"
definition fb_bint :: string where "fb_bint = ''Interest A/c''"
definition fb_bhh :: string where "fb_bhh = ''Household & Groceries A/c''"
definition fb_bedu :: string where "fb_bedu = ''Education A/c''"
definition fb_bmed :: string where "fb_bmed = ''Medical A/c''"
definition fb_bfuel :: string where "fb_bfuel = ''Fuel & Phone A/c''"
definition fb_bhome :: string where "fb_bhome = ''Rooms & Furnishing A/c''"

text \<open>The accounts of Lakhwinder's Family.\<close>

definition fc_cash :: string where "fc_cash = ''Cash A/c''"
definition fc_bank :: string where "fc_bank = ''SBI Salary A/c''"
definition fc_joint :: string where "fc_joint = ''Randhawa Joint Family A/c''"
definition fc_ccard :: string where "fc_ccard = ''SBI Credit Card A/c''"
definition fc_crd :: string where "fc_crd = ''Post Office RD A/c''"
definition fc_ccap :: string where "fc_ccap = (''Capital A/c '' @ u_endash @ '' Lakhwinder's family'')"
definition fc_csal :: string where "fc_csal = ''Salary A/c''"
definition fc_ctu :: string where "fc_ctu = ''Tuition Income A/c''"
definition fc_chh :: string where "fc_chh = ''Household & Groceries A/c''"
definition fc_csch :: string where "fc_csch = ''School Fees A/c''"
definition fc_cel :: string where "fc_cel = ''Electricity & Phone A/c''"
definition fc_cmed :: string where "fc_cmed = ''Medical A/c''"
definition fc_ccl :: string where "fc_ccl = ''Clothes & Social A/c''"
definition fc_cdairy :: string where "fc_cdairy = ''Kotli Dairy A/c''"
definition fc_celad :: string where "fc_celad = (''Advance '' @ u_endash @ '' electrician A/c'')"

section \<open>Randhawa Agriculture\<close>

lemmas fg_name_defs =
  fg_gc_def fg_gb_def fg_gk_def fg_gfert_def fg_garh_def fg_gadv_def
  fg_gmilkp_def fg_gland_def fg_gtrac_def fg_gbuff_def fg_gF_def fg_gFd_def
  fg_gwh_def fg_gpad_def fg_gmilk_def fg_goth_def fg_gseed_def fg_gfx_def
  fg_gdsl_def fg_glab_def fg_gth_def fg_garx_def fg_gki_def fg_gfeed_def

definition fg_accounts :: "account list" where
  "fg_accounts =
     [Account fg_gc Cash ''Farm cash, with Aman'' (R 8000),
      Account fg_gb Bank ''The farm's bank account'' (R 95000),
      Account fg_gk CC (''Kisan Credit Card loan account '' @ u_emdash @ '' what is owed to the bank (limit '' @ u_rupee @ ''5,00,000)'') (- (R 320000)),
      Account fg_gfert Party ''Fertiliser and spray dealer'' (- (R 26500)),
      Account fg_garh Party (''Arhtiya '' @ u_emdash @ '' paddy sold through him'') 0,
      Account fg_gadv Advance ''Labour money with Aman, accounted for with the labour slips'' 0,
      Account fg_gmilkp Party (''Dairy society '' @ u_emdash @ '' milk bills, paid later'') (R 21600),
      Account fg_gland Fixed ''18 acres of family land at what it cost'' (R 5400000),
      Account fg_gtrac Fixed ''Tractor, combine attachments, implements at cost'' (R 920000),
      Account fg_gbuff Fixed ''Four buffaloes at what they cost'' (R 320000),
      Account fg_gF Capital (''The owner's own money in the farm '' @ u_emdash @ '' the joint family's; named after the owner's book'')
          0,
      Account fg_gFd Drawings ''Money the farm sent home to the joint family; closed to own money at the year end'' 0,
      Account fg_gwh Income ''Wheat sold at MSP'' 0,
      Account fg_gpad Income ''Paddy sold through the arhtiya (full sale value)'' 0,
      Account fg_gmilk Income ''Milk to the dairy society'' 0,
      Account fg_goth Income ''Straw sold, and PM-Kisan instalments'' 0,
      Account fg_gseed Expense ''Seed'' 0,
      Account fg_gfx Expense ''Urea, DAP, sprays'' 0,
      Account fg_gdsl Expense ''Diesel and tractor repairs'' 0,
      Account fg_glab Expense ''Transplanting, harvest and daily labour'' 0,
      Account fg_gth Expense ''Rent for 6 acres taken on theka'' 0,
      Account fg_garx Expense ''Commission and market charges kept by the arhtiya'' 0,
      Account fg_gki Expense ''Interest charged to the KCC'' 0,
      Account fg_gfeed Expense ''Feed, fodder and the vet for the buffaloes'' 0]"

definition fg_entries_1 :: "entry list" where
  "fg_entries_1 =
     [pay (D 2025 5 6) fg_gFd fg_gb (R 400000) ''Wheat money sent home to the joint family'' (Some
         (''NEFT DR'' @ u_endash @ ''RANDHAWA JOINT FAMILY'')),
        pay (D 2025 11 25) fg_gFd fg_gb (R 350000) ''Paddy money sent home to the joint family'' (Some
            (''NEFT DR'' @ u_endash @ ''RANDHAWA JOINT FAMILY'')),
        rcv (D 2025 6 20) fg_gb fg_gF (R 80000) ''Put in by the joint family for the paddy nursery and theka'' (Some
            (''NEFT CR'' @ u_endash @ ''RANDHAWA JOINT FAMILY''))]"

definition fg_entries_2 :: "entry list" where
  "fg_entries_2 =
     [pay (D 2025 4 9) fg_glab fg_gc (R 12000) ''Wheat harvest labour, cash'' None,
        rcv (D 2025 4 28) fg_gb fg_gwh (R 824500) (''Wheat sold at MSP '' @ u_emdash @ '' 340 quintals @ '' @ u_rupee @ ''2,425, paid into the bank'')
            (Some (''PFMS CR'' @ u_endash @ ''WHEAT MSP'')),
        move (D 2025 5 2) fg_gk fg_gb (R 320000) ''KCC paid back from the wheat money'' (Some ''TRF TO KCC''),
        rcv (D 2025 5 10) fg_gb fg_goth (R 18000) ''Wheat straw sold'' (Some (''UPI CR'' @ u_endash @ ''STRAW'')),
        pay (D 2025 5 20) fg_gfert fg_gb (R 26500) (''Sandhu Fertilisers paid '' @ u_emdash @ '' last season's account'') (Some
            (''UPI DR'' @ u_endash @ ''SANDHU FERT'')),
        pay (D 2025 6 5) fg_gth fg_gb (R 240000) (''Theka for 6 acres for the year ('' @ u_rupee @ ''40,000 an acre)'') (Some
            (''NEFT DR'' @ u_endash @ ''THEKA'')),
        move (D 2025 6 4) fg_gb fg_gk (R 200000) ''Money drawn on the KCC for the paddy season'' (Some
            (''KCC DR'' @ u_endash @ ''TRF TO SB'')),
        pay (D 2025 6 6) fg_gseed fg_gb (R 34000) ''Paddy nursery seed'' (Some (''UPI DR'' @ u_endash @ ''SEED STORE'')),
        took (D 2025 6 25) fg_gfx fg_gfert (R 78000) ''Urea and DAP for paddy on credit'',
        took (D 2025 8 20) fg_gfx fg_gfert (R 36500) ''Sprays for paddy on credit'']
     @ concat (map (\<lambda>(d0, d1, give, spent). [pay d0 fg_gadv fg_gb give ''Labour money to Aman Randhawa'' (Some
         (''IMPS DR'' @ u_endash @ ''AMAN RANDHAWA'')),
        ventry d1 AdvanceSettled ''Aman Randhawa's labour slips set against his advance'' [(fg_glab, spent),
            (fg_gadv, - spent)] None])
          [(D 2025 6 10, D 2025 7 15, R 90000, R 88600), (D 2025 10 1, D 2025 10 31, R 60000, R 61400), (D 2026 3
              25, D 2026 3 31, R 20000, R 16500)])
     @ [pay (D 2025 7 25) fg_gdsl fg_gk (R 24600) ''Diesel and puddler repairs, paid from the KCC'' None,
        gave (D 2025 10 30) fg_garh fg_gpad (R 1146600)
            (''Paddy sold through Bansal & Sons '' @ u_emdash @ '' 490 quintals @ '' @ u_rupee @ ''2,340 (PR-126)''),
        took (D 2025 10 30) fg_garx fg_garh (R 28665) ''Bansal & Sons' commission and market charges on the paddy'',
        rcv (D 2025 11 14) fg_gb fg_garh (R 900000) ''Bansal & Sons paid most of the paddy money'' (Some
            (''RTGS CR'' @ u_endash @ ''BANSAL & SONS'')),
        rcv (D 2025 12 19) fg_gb fg_garh (R 217935) ''Bansal & Sons paid the rest of the paddy money'' (Some
            (''RTGS CR'' @ u_endash @ ''BANSAL & SONS'')),
        move (D 2025 11 17) fg_gk fg_gb (R 200000) ''KCC paid back from the paddy money'' (Some ''TRF TO KCC''),
        pay (D 2025 12 1) fg_gfert fg_gb (R 114500) (''Sandhu Fertilisers paid '' @ u_emdash @ '' paddy season's account'') (Some
            (''UPI DR'' @ u_endash @ ''SANDHU FERT''))]"

definition fg_entries_3 :: "entry list" where
  "fg_entries_3 =
     [move (D 2025 11 3) fg_gb fg_gk (R 150000) ''Money drawn on the KCC for wheat sowing'' (Some
         (''KCC DR'' @ u_endash @ ''TRF TO SB'')),
        pay (D 2025 11 6) fg_gseed fg_gb (R 46000) ''Wheat seed'' (Some (''UPI DR'' @ u_endash @ ''SEED STORE'')),
        took (D 2025 11 10) fg_gfx fg_gfert (R 84000) ''DAP and urea for wheat on credit'']
     @ concat (map (\<lambda>(d, a). [pay d fg_gki fg_gk a ''Interest charged by the bank to the KCC (half-year)'' None])
          [(D 2025 9 30, R 9850), (D 2026 3 31, R 5420)])
     @ [move (D 2025 4 7) fg_gc fg_gb (R 10000) ''Cash withdrawn for harvest labour (ATM)'' (Some (''ATM WDL'' @ u_endash @ ''KOTLI'')),
        rcv (D 2025 4 7) fg_gb fg_gmilkp (R 21600) ''Verka Milk Society paid the March milk (opening balance)''
            (Some (''NEFT CR'' @ u_endash @ ''VERKA MILK SOC'')),
        gave (D 2025 9 30) fg_gmilkp fg_gmilk (R 122400)
            (''Milk to Verka Milk Society, April'' @ u_endash @ ''September (ten-day bills)''),
        rcv (D 2025 10 8) fg_gb fg_gmilkp (R 122400) (''Verka Milk Society paid for the milk of April'' @ u_endash @ ''September'')
            (Some (''NEFT CR'' @ u_endash @ ''VERKA MILK SOC'')),
        gave (D 2026 3 31) fg_gmilkp fg_gmilk (R 138600)
            (''Milk to Verka Milk Society, October'' @ u_endash @ ''March (ten-day bills)''),
        pay (D 2025 9 10) fg_gfeed fg_gb (R 34600) ''Cattle feed and fodder, and the vet'' (Some
            (''UPI DR'' @ u_endash @ ''FEED STORE'')),
        rcv (D 2025 8 2) fg_gb fg_goth (R 6000) ''PM-Kisan instalments, three'' (Some (''DBT CR'' @ u_endash @ ''PM KISAN''))]"

definition fg_entries_4 :: "nat \<Rightarrow> entry list" where
  "fg_entries_4 wrong =
     [pay (D 2026 1 20) fg_gfx fg_gb (R 9800) ''Tractor tyre repair'' (Some (''UPI DR'' @ u_endash @ ''TYRE HOUSE'')),
        fix_entry (D 2026 1 28) fg_gdsl fg_gfx (R 9800)
            (''Entry {ref} (tractor tyre) was written to Fertiliser & Sprays '' @ u_emdash @ '' moved to Diesel & Repairs'') Correction
                (Some wrong)]"

definition fg_entries :: "entry list" where
  "fg_entries =
     (let es = fg_entries_1;
          es = es @ fg_entries_2;
          es = es @ fg_entries_3;
          es = es @ fg_entries_4 (length es)
      in es)"

definition fg_header :: book where
  "fg_header = (Book ''Randhawa Agriculture'' ''family business book'' ''RG'' Business)\<lparr>about := str_replace
      ''land on lease (theka).'' (''land on lease (theka) '' @ u_middot @ '' buffaloes and milk to the dairy society.'')
          (''The family farm '' @ u_middot @ '' KCC loan account '' @ u_middot @ '' fertiliser on credit '' @ u_middot @ '' paddy through an arhtiya '' @ u_middot @ '' Aman's labour advance '' @ u_middot @ '' land on lease (theka).''),
        min_count := 25,
        max_count := 40,
        chart_note :=
            (''The owner's capital '' @ u_emdash @ '' the joint family's '' @ u_emdash @ '' is the balancing figure, so the Dr and Cr totals agree.''),
        custom := Some (fg_gk, D 2025 4 1, D 2026 3 31,
            (''The KCC loan account for the year '' @ u_emdash @ '' drawn for each crop, the bank's interest, and the crop money paid back.''))\<rparr>"

definition build_fg :: "error + posted_book" where
  "build_fg = build_book fg_header fg_accounts fg_gF fg_entries"

definition fg_names :: "string list" where
  "fg_names =
     [fg_gc, fg_gb, fg_gk, fg_gfert, fg_garh, fg_gadv, fg_gmilkp, fg_gland, fg_gtrac, fg_gbuff, fg_gF, fg_gFd,
      fg_gwh, fg_gpad, fg_gmilk, fg_goth, fg_gseed, fg_gfx, fg_gdsl, fg_glab, fg_gth, fg_garx, fg_gki, fg_gfeed]"

lemma fg_names: "map aname fg_accounts = fg_names"
  by (simp add: fg_accounts_def fg_names_def Account_def AccountG_def )

lemma fg_names_distinct: "distinct fg_names"
  by (simp add: fg_names_def fg_name_defs )

lemma fg_pos:
  "pos_of fg_names fg_gc = 0"
  "pos_of fg_names fg_gb = 1"
  "pos_of fg_names fg_gk = 2"
  "pos_of fg_names fg_gfert = 3"
  "pos_of fg_names fg_garh = 4"
  "pos_of fg_names fg_gadv = 5"
  "pos_of fg_names fg_gmilkp = 6"
  "pos_of fg_names fg_gland = 7"
  "pos_of fg_names fg_gtrac = 8"
  "pos_of fg_names fg_gbuff = 9"
  "pos_of fg_names fg_gF = 10"
  "pos_of fg_names fg_gFd = 11"
  "pos_of fg_names fg_gwh = 12"
  "pos_of fg_names fg_gpad = 13"
  "pos_of fg_names fg_gmilk = 14"
  "pos_of fg_names fg_goth = 15"
  "pos_of fg_names fg_gseed = 16"
  "pos_of fg_names fg_gfx = 17"
  "pos_of fg_names fg_gdsl = 18"
  "pos_of fg_names fg_glab = 19"
  "pos_of fg_names fg_gth = 20"
  "pos_of fg_names fg_garx = 21"
  "pos_of fg_names fg_gki = 22"
  "pos_of fg_names fg_gfeed = 23"
  by (simp_all add: pos_of_def fg_names_def fg_name_defs  )

lemma fg_kinds:
  "map kind fg_accounts =
     [Cash, Bank, CC, Party, Party, Advance, Party, Fixed, Fixed, Fixed, Capital, Drawings, Income, Income,
      Income, Income, Expense, Expense, Expense, Expense, Expense, Expense, Expense, Expense]"
  by (simp add: fg_accounts_def Account_def AccountG_def )

lemma fg_openings:
  "balanced_openings fg_gF fg_accounts =
     [800000, 9500000, - 32000000, - 2650000, 0, 0, 2160000, 540000000, 92000000, 32000000, - 641810000, 0, 0,
      0, 0, 0, 0, 0, 0, 0, 0, 0, 0, 0]"
  by (simp add: balanced_openings_def total_but_def fg_accounts_def Account_def AccountG_def fg_name_defs R_def  )

lemma fg_own: "own_opening fg_gF fg_accounts = - 641810000"
  unfolding own_opening_def [of fg_gF fg_accounts]
  by (simp add: total_but_def fg_accounts_def Account_def AccountG_def fg_name_defs R_def  )

lemma fg_counts: "min_count fg_header = 25" "max_count fg_header = 40"
  by (simp_all add: fg_header_def Book_def)

lemma fg_empty: "accounts fg_header = []" "vouchers fg_header = []"
  by (simp_all add: fg_header_def Book_def)

lemmas fg_entries_defs =
  fg_entries_def fg_entries_1_def fg_entries_2_def fg_entries_3_def fg_entries_4_def

lemma fg_refs: "list_all (\<lambda>e. case eref e of None \<Rightarrow> True | Some k \<Rightarrow> k < length fg_entries) fg_entries"
  by (simp add: fg_entries_defs entry_refs Let_def Q4E_def fj_A_settle_def fy_months_eq)

text \<open>The skeleton of the book, evaluated.\<close>

lemma fg_skeleton:
  "skeleton_check (min_count fg_header) (max_count fg_header) (map kind fg_accounts)
     (balanced_openings fg_gF fg_accounts)
     (map (entry_skeleton (map aname fg_accounts)) fg_entries)"
  unfolding fg_names fg_kinds fg_openings fg_counts
  apply (simp add: fg_entries_defs entry_skeletons fg_pos Let_def Q4E_def R_def cash_dep_def D_def fj_A_settle_def
      fy_months_eq)
  by code_simp

text \<open>The closing balances of the accounts, in order (paise, positive is Dr).\<close>

definition fg_closing :: "int list" where
  "fg_closing =
     [600000, 68003500, - 18987000, - 8400000, 0, 350000, 13860000, 540000000, 92000000, 32000000, - 649810000,
      75000000, - 82450000, - 114660000, - 26100000, - 2400000, 8000000, 19850000, 3440000, 17850000, 24000000,
      2866500, 1527000, 3460000]"

lemma fg_closings:
  "skeleton_balances (map (entry_skeleton (map aname fg_accounts)) fg_entries)
     (balanced_openings fg_gF fg_accounts) = fg_closing"
  unfolding fg_names fg_openings fg_closing_def
  apply (simp add: fg_entries_defs entry_skeletons fg_pos Let_def Q4E_def R_def cash_dep_def D_def fj_A_settle_def
      fy_months_eq)
  by code_simp

lemma fg_built:
  "\<exists>b pb. book_wf b \<and> finalize b = Inr pb \<and> build_fg = Inr pb \<and> map aname (accounts pb) = fg_names
     \<and> map kind (accounts pb) = map kind fg_accounts
     \<and> map closing (accounts pb) = fg_closing
     \<and> partners pb = partners fg_header \<and> style pb = style fg_header"
proof -
  have d: "distinct (map aname fg_accounts)" unfolding fg_names by (rule fg_names_distinct)
  have own: "fg_gF \<in> set (map aname fg_accounts)" unfolding fg_names by (simp add: fg_names_def)
  note * = build_book_ok [OF fg_empty d own fg_refs fg_skeleton, unfolded fg_closings]
  show ?thesis using * unfolding build_fg_def fg_names .
qed

section \<open>Randhawa Real Estate\<close>

lemmas fe_name_defs =
  fe_ec_def fe_eb_def fe_et1_def fe_et2_def fe_edep1_def fe_edep2_def
  fe_eadv_def fe_eshops_def fe_eplot_def fe_eplot2_def fe_eF_def fe_eFd_def
  fe_erent_def fe_egain_def fe_eforf_def fe_etax_def fe_erep_def fe_ebrok_def
  fe_ewo_def

definition fe_accounts :: "account list" where
  "fe_accounts =
     [Account fe_ec Cash ''Cash, with Lakhwinder'' (R 3000),
      Account fe_eb Bank ''The real estate's current account'' (R 140000),
      Account fe_et1 Party (''Tenant '' @ u_emdash @ '' shop 1, '' @ u_rupee @ ''12,000 a month'') 0,
      Account fe_et2 Party (''Tenant '' @ u_emdash @ '' shop 2, '' @ u_rupee @ ''10,000 a month'') (R 10000),
      Account fe_edep1 Deposit (''Security deposit from the shop 1 tenant '' @ u_emdash @ '' returned when he leaves'') (- (R 36000)),
      Account fe_edep2 Deposit ''Security deposit from the shop 2 tenant'' (- (R 30000)),
      Account fe_eadv Advance ''Money with the registry clerk for stamp duty, settled against the registry'' 0,
      Account fe_eshops Fixed ''Two shops at what they cost'' (R 1850000),
      Account fe_eplot Fixed (''Plot bought in 2021, at what it cost '' @ u_emdash @ '' sold in November 2025'') (R 1200000),
      Account fe_eplot2 Fixed ''Plot bought in February 2026, at what it cost'' 0,
      Account fe_eF Capital
          (''The owner's own money in the real estate '' @ u_emdash @ '' the joint family's; named after the owner's book'') 0,
      Account fe_eFd Drawings
          ''Money the real estate sent home to the joint family; closed to own money at the year end'' 0,
      Account fe_erent Income ''Rent of the two shops'' 0,
      Account fe_egain Income ''Sale price of the plot less what it cost'' 0,
      Account fe_eforf Income ''Part of a tenant's deposit kept when he left without notice'' 0,
      Account fe_etax Expense ''Municipal property tax'' 0,
      Account fe_erep Expense ''Repairs to the shops'' 0,
      Account fe_ebrok Expense ''Dealer's dalali on the plot sale'' 0,
      Account fe_ewo Expense ''Rent a tenant will not pay, after it was asked for'' 0]"

definition fe_entries_1 :: "entry list" where
  "fe_entries_1 =
     [pay (D 2025 9 15) fe_eFd fe_eb (R 60000) ''Rent surplus sent home to the joint family'' (Some
         (''NEFT DR'' @ u_endash @ ''RANDHAWA JOINT FAMILY'')),
        pay (D 2025 12 10) fe_eFd fe_eb (R 250000) ''Part of the plot money sent home to the joint family'' (Some
            (''NEFT DR'' @ u_endash @ ''RANDHAWA JOINT FAMILY''))]"

definition fe_entries_2 :: "entry list" where
  "fe_entries_2 =
     concat (map (\<lambda>(k, d). [ventry d CreditGiven (''Rent for '' @ Q4N ! k @ (if k = 3 then
         '' (shop 2 left on 31 December)'' else '''')) ((if k < 3 then [(fe_et1, R 36000), (fe_et2, R 30000),
             (fe_erent, - (R 66000))] else [(fe_et1, R 36000), (fe_erent, - (R 36000))])) None])
          (List.enumerate 0 [D 2025 4 1, D 2025 7 1, D 2025 10 1, D 2026 1 1]))
     @ concat (map (\<lambda>(k, d). [rcv d fe_eb fe_et1 (if k < 3 then R 36000 else R 34000) (''Rent of '' @ Q4N ! k @
         '' received'' @ (if k < 3 then '''' else ('' '' @ u_emdash @ '' '' @ u_rupee @ ''2,000 short, he disputes the water charge''))) (Some
             (''UPI CR'' @ u_endash @ ''KOTLI MEDICAL''))])
          (List.enumerate 0 [D 2025 4 7, D 2025 7 7, D 2025 10 7, D 2026 1 7]))
     @ [rcv (D 2025 4 15) fe_eb fe_et2 (R 10000) ''Rent of March 2025 received (opening balance)'' (Some
         (''UPI CR'' @ u_endash @ ''BHULLAR HARDWARE''))]
     @ concat (map (\<lambda>(d, k, a). [rcv d fe_eb fe_et2 a ((''Rent of '' @ Q4N ! k @ '' received'' @ (if k = 1 then
         '' (late)'' else '''') @ (if k = 2 then ('' '' @ u_emdash @ '' only '' @ u_rupee @ ''5,000 of '' @ u_rupee @ ''30,000'') else ''''))) (Some
             (''UPI CR'' @ u_endash @ ''BHULLAR HARDWARE''))])
          [(D 2025 5 12, 0, R 30000), (D 2025 9 18, 1, R 30000), (D 2025 12 22, 2, R 5000)])
     @ [ventry (D 2025 12 31) SetOff
         (''Bhullar Hardware left shop 2 owing '' @ u_rupee @ ''25,000 of the October'' @ u_endash @ ''December rent '' @ u_emdash @ '' '' @ u_rupee @ ''25,000 of his '' @ u_rupee @ ''30,000 deposit set off against it'')
             [(fe_edep2, R 25000), (fe_et2, - (R 25000))] None,
        ventry (D 2025 12 31) Forfeited
            (''The other '' @ u_rupee @ ''5,000 of Bhullar Hardware's deposit kept '' @ u_emdash @ '' he left without the notice the agreement asks for'')
                [(fe_edep2, R 5000), (fe_eforf, - (R 5000))] None,
        ventry (D 2026 3 25) WrittenOff
            (u_rupee @ ''2,000 of Kotli Medical Hall's January'' @ u_endash @ ''March rent written off '' @ u_emdash @ '' he refuses to pay the disputed water charge'')
                [(fe_ewo, R 2000), (fe_et1, - (R 2000))] None,
        ventry (D 2025 11 18) Receipt
            (''Plot No. 14 sold for '' @ u_rupee @ ''15,50,000 '' @ u_emdash @ '' its cost '' @ u_rupee @ ''12,00,000 and the profit '' @ u_rupee @ ''3,50,000'') [(fe_eb, R 1550000),
                (fe_eplot, - (R 1200000)), (fe_egain, - (R 350000))] (Some (''RTGS CR'' @ u_endash @ ''PLOT SALE'')),
        pay (D 2025 11 20) fe_ebrok fe_eb (R 31000) ''Dealer's dalali on the plot sale (2%)'' (Some
            (''NEFT DR'' @ u_endash @ ''PROPERTY DEALER'')),
        pay (D 2025 12 12) fe_eshops fe_eb (R 140000)
            (''Mezzanine floor built over shop 1 '' @ u_emdash @ '' an improvement, added to the shops' cost'') (Some
                (''NEFT DR'' @ u_endash @ ''BUILDER'')),
        pay (D 2026 2 5) fe_eplot2 fe_eb (R 980000) (''Plot No. 7, Green Enclave bought '' @ u_emdash @ '' thing owned, at cost'')
            (Some (''RTGS DR'' @ u_endash @ ''PLOT PURCHASE'')),
        pay (D 2026 2 9) fe_eadv fe_eb (R 70000) ''Money to the registry clerk for stamp duty and registry'' (Some
            (''IMPS DR'' @ u_endash @ ''REGISTRY CLERK'')),
        ventry (D 2026 2 16) AdvanceSettled
            (''Stamp duty and registry of Plot No. 7 set against the clerk's advance '' @ u_emdash @ '' part of the plot's cost'')
                [(fe_eplot2, R 68600), (fe_eadv, - (R 68600))] None,
        rcv (D 2026 2 20) fe_ec fe_eadv (R 1400) ''The registry clerk returned the rest, cash'' None,
        pay (D 2025 9 26) fe_etax fe_eb (R 14200) ''Property tax 2025-26 for the shops'' (Some
            (''NETBANKING DR'' @ u_endash @ ''MC KOTLI'')),
        pay (D 2025 6 18) fe_erep fe_ec (R 2800) (''Shutter repair, shop 2, cash '' @ u_emdash @ '' a repair, charged to the year'')
            None]"

definition fe_entries_3 :: "nat \<Rightarrow> entry list" where
  "fe_entries_3 wrong =
     [pay (D 2026 1 9) fe_etax fe_eb (R 6500) ''Plumbing in shop 1'' (Some (''UPI DR'' @ u_endash @ ''PLUMBER'')),
        fix_entry (D 2026 1 15) fe_erep fe_etax (R 6500)
            (''Entry {ref} (plumbing) was written to Property Tax '' @ u_emdash @ '' moved to Repairs'') Correction (Some wrong),
        move (D 2025 6 16) fe_ec fe_eb (R 5000) ''Cash withdrawn (ATM)'' (Some (''ATM WDL'' @ u_endash @ ''KOTLI''))]"

definition fe_entries :: "entry list" where
  "fe_entries =
     (let es = fe_entries_1;
          es = es @ fe_entries_2;
          es = es @ fe_entries_3 (length es)
      in es)"

definition fe_header :: book where
  "fe_header = (Book ''Randhawa Real Estate'' ''family business book'' ''RE'' Property)\<lparr>about :=
      (''Two shops let at Kotli Chowk '' @ u_middot @ '' rent charged quarterly '' @ u_middot @ '' a plot sold and another bought '' @ u_middot @ '' tenants' deposits, one set off and forfeited when a tenant left owing '' @ u_middot @ '' rent written off '' @ u_middot @ '' an improvement added to the cost.''),
        min_count := 25,
        max_count := 40,
        chart_note :=
            (''The owner's capital '' @ u_emdash @ '' the joint family's '' @ u_emdash @ '' is the balancing figure, so the Dr and Cr totals agree.''),
        custom := Some (fe_et2, D 2025 4 1, D 2026 3 31,
            (''The tenant who left '' @ u_emdash @ '' rent charged, paid late and in part, his deposit set off against what he owed and the rest of it kept.''))\<rparr>"

definition build_fe :: "error + posted_book" where
  "build_fe = build_book fe_header fe_accounts fe_eF fe_entries"

definition fe_names :: "string list" where
  "fe_names =
     [fe_ec, fe_eb, fe_et1, fe_et2, fe_edep1, fe_edep2, fe_eadv, fe_eshops, fe_eplot, fe_eplot2, fe_eF, fe_eFd,
      fe_erent, fe_egain, fe_eforf, fe_etax, fe_erep, fe_ebrok, fe_ewo]"

lemma fe_names: "map aname fe_accounts = fe_names"
  by (simp add: fe_accounts_def fe_names_def Account_def AccountG_def )

lemma fe_names_distinct: "distinct fe_names"
  by (simp add: fe_names_def fe_name_defs )

lemma fe_pos:
  "pos_of fe_names fe_ec = 0"
  "pos_of fe_names fe_eb = 1"
  "pos_of fe_names fe_et1 = 2"
  "pos_of fe_names fe_et2 = 3"
  "pos_of fe_names fe_edep1 = 4"
  "pos_of fe_names fe_edep2 = 5"
  "pos_of fe_names fe_eadv = 6"
  "pos_of fe_names fe_eshops = 7"
  "pos_of fe_names fe_eplot = 8"
  "pos_of fe_names fe_eplot2 = 9"
  "pos_of fe_names fe_eF = 10"
  "pos_of fe_names fe_eFd = 11"
  "pos_of fe_names fe_erent = 12"
  "pos_of fe_names fe_egain = 13"
  "pos_of fe_names fe_eforf = 14"
  "pos_of fe_names fe_etax = 15"
  "pos_of fe_names fe_erep = 16"
  "pos_of fe_names fe_ebrok = 17"
  "pos_of fe_names fe_ewo = 18"
  by (simp_all add: pos_of_def fe_names_def fe_name_defs  )

lemma fe_kinds:
  "map kind fe_accounts =
     [Cash, Bank, Party, Party, Deposit, Deposit, Advance, Fixed, Fixed, Fixed, Capital, Drawings, Income,
      Income, Income, Expense, Expense, Expense, Expense]"
  by (simp add: fe_accounts_def Account_def AccountG_def )

lemma fe_openings:
  "balanced_openings fe_eF fe_accounts =
     [300000, 14000000, 0, 1000000, - 3600000, - 3000000, 0, 185000000, 120000000, 0, - 313700000, 0, 0, 0, 0,
      0, 0, 0, 0]"
  by (simp add: balanced_openings_def total_but_def fe_accounts_def Account_def AccountG_def fe_name_defs R_def  )

lemma fe_own: "own_opening fe_eF fe_accounts = - 313700000"
  unfolding own_opening_def [of fe_eF fe_accounts]
  by (simp add: total_but_def fe_accounts_def Account_def AccountG_def fe_name_defs R_def  )

lemma fe_counts: "min_count fe_header = 25" "max_count fe_header = 40"
  by (simp_all add: fe_header_def Book_def)

lemma fe_empty: "accounts fe_header = []" "vouchers fe_header = []"
  by (simp_all add: fe_header_def Book_def)

lemmas fe_entries_defs =
  fe_entries_def fe_entries_1_def fe_entries_2_def fe_entries_3_def

lemma fe_refs: "list_all (\<lambda>e. case eref e of None \<Rightarrow> True | Some k \<Rightarrow> k < length fe_entries) fe_entries"
  by (simp add: fe_entries_defs entry_refs Let_def Q4E_def fj_A_settle_def fy_months_eq)

text \<open>The skeleton of the book, evaluated.\<close>

lemma fe_skeleton:
  "skeleton_check (min_count fe_header) (max_count fe_header) (map kind fe_accounts)
     (balanced_openings fe_eF fe_accounts)
     (map (entry_skeleton (map aname fe_accounts)) fe_entries)"
  unfolding fe_names fe_kinds fe_openings fe_counts
  apply (simp add: fe_entries_defs entry_skeletons fe_pos Let_def Q4E_def R_def cash_dep_def D_def fj_A_settle_def
      fy_months_eq)
  by code_simp

text \<open>The closing balances of the accounts, in order (paise, positive is Dr).\<close>

definition fe_closing :: "int list" where
  "fe_closing =
     [660000, 35030000, 0, 0, - 3600000, 0, 0, 199000000, 0, 104860000, - 313700000, 31000000, - 23400000,
      - 35000000, - 500000, 1420000, 930000, 3100000, 200000]"

lemma fe_closings:
  "skeleton_balances (map (entry_skeleton (map aname fe_accounts)) fe_entries)
     (balanced_openings fe_eF fe_accounts) = fe_closing"
  unfolding fe_names fe_openings fe_closing_def
  apply (simp add: fe_entries_defs entry_skeletons fe_pos Let_def Q4E_def R_def cash_dep_def D_def fj_A_settle_def
      fy_months_eq)
  by code_simp

lemma fe_built:
  "\<exists>b pb. book_wf b \<and> finalize b = Inr pb \<and> build_fe = Inr pb \<and> map aname (accounts pb) = fe_names
     \<and> map kind (accounts pb) = map kind fe_accounts
     \<and> map closing (accounts pb) = fe_closing
     \<and> partners pb = partners fe_header \<and> style pb = style fe_header"
proof -
  have d: "distinct (map aname fe_accounts)" unfolding fe_names by (rule fe_names_distinct)
  have own: "fe_eF \<in> set (map aname fe_accounts)" unfolding fe_names by (simp add: fe_names_def)
  note * = build_book_ok [OF fe_empty d own fe_refs fe_skeleton, unfolded fe_closings]
  show ?thesis using * unfolding build_fe_def fe_names .
qed

section \<open>Randhawa Brick Field\<close>

lemmas fk_name_defs =
  fk_kc_def fk_kb_def fk_ks1_def fk_ks2_def fk_kcoal_def fk_kadv_def
  fk_kkiln_def fk_kF_def fk_kG_def fk_ksale_def fk_kcx_def fk_kmould_def
  fk_kload_def fk_kroy_def fk_krep_def

definition fk_accounts :: "account list" where
  "fk_accounts =
     set_opening fk_kG (- (R 700000))
     ([Account fk_kc Cash ''Kiln cash, with the munshi'' (R 15000),
      Account fk_kb Bank ''The brick field's current account'' (R 210000),
      Account fk_ks1 Party (''Customer '' @ u_emdash @ '' bricks by the trolley'') (R 84000),
      Account fk_ks2 Party ''Customer'' 0,
      Account fk_kcoal Party ''Coal supplier'' (- (R 95000)),
      Account fk_kadv Advance ''Advance to the moulders' jamadar, settled against bricks moulded'' 0,
      Account fk_kkiln Fixed ''The kiln, chimney and sheds at what they cost'' (R 1650000),
      Account fk_kF Partner ''The joint family's partner's account (share 3 of 5); named after its book'' 0,
      Account fk_kG Partner ''Nirmaljeet Gill's partner's account (share 2 of 5)'' 0,
      Account fk_ksale Income ''Bricks sold'' 0,
      Account fk_kcx Expense ''Coal for firing'' 0,
      Account fk_kmould Expense ''Patheras paid per thousand bricks'' 0,
      Account fk_kload Expense ''Loading, tractor-trolley hire'' 0,
      Account fk_kroy Expense ''Lease of the kiln land and earth royalty'' 0,
      Account fk_krep Expense ''Kiln repairs and small items'' 0])"

definition fk_entries_1 :: "entry list" where
  "fk_entries_1 =
     [rcv (D 2025 10 20) fk_kb fk_kF (R 200000) ''Put in by the joint family for the season'' (Some
         (''NEFT CR'' @ u_endash @ ''RANDHAWA JOINT FAMILY'')),
        pay (D 2025 7 10) fk_kF fk_kb (R 150000) ''Taken out by the joint family'' (Some
            (''NEFT DR'' @ u_endash @ ''RANDHAWA JOINT FAMILY'')),
        pay (D 2026 3 20) fk_kF fk_kb (R 180000) ''Taken out by the joint family'' (Some
            (''NEFT DR'' @ u_endash @ ''RANDHAWA JOINT FAMILY'')),
        rcv (D 2025 10 21) fk_kb fk_kF (R 100000) ''Put in by Lakhwinder Randhawa for the joint family's share''
            (Some (''NEFT CR'' @ u_endash @ ''LAKHWINDER RANDHAWA'')),
        ventry (D 2025 12 5) PaidByPartner
            ''Chimney repair paid by Lakhbeer Randhawa from his own money, for the joint family's share'' [(fk_krep,
                R 20000), (fk_kF, - (R 20000))] None]"

definition fk_entries_2 :: "entry list" where
  "fk_entries_2 =
     [rcv (D 2025 4 18) fk_kb fk_ks1 (R 84000) ''Sidhu Builders paid for March bricks (opening balance)'' (Some
         (''NEFT CR'' @ u_endash @ ''SIDHU BUILDERS''))]
     @ concat (map (\<lambda>(d, a). [rcv d fk_kc fk_ksale a ''Bricks sold for cash at the kiln this month'' None])
          [(D 2025 4 30, R 296000), (D 2025 5 31, R 324000), (D 2026 3 31, R 198000)])
     @ concat (map (\<lambda>(d, a). [move d fk_kb fk_kc a ''Kiln cash deposited'' (Some (''CASH DEP'' @ u_endash @ ''BRANCH''))])
          [(D 2025 5 2, R 280000), (D 2025 6 2, R 310000), (D 2026 3 31, R 185000)])
     @ concat (map (\<lambda>(d, who, a). [gave d who fk_ksale a (''Bricks on credit '' @ u_emdash @ '' trolleys delivered this month'')])
          [(D 2025 5 20, fk_ks1, R 312000), (D 2025 6 25, fk_ks2, R 268000), (D 2026 2 28, fk_ks1, R 244000), (D
              2026 3 25, fk_ks2, R 196000)])
     @ [rcv (D 2025 7 4) fk_kb fk_ks1 (R 312000) ''Sidhu Builders paid for the May bricks'' (Some
         (''NEFT CR'' @ u_endash @ ''SIDHU BUILDERS'')),
        rcv (D 2025 9 12) fk_kb fk_ks2 (R 268000) ''Dhaliwal Contractors paid for the June bricks (late)'' (Some
            (''NEFT CR'' @ u_endash @ ''DHALIWAL CONTRACTORS'')),
        rcv (D 2026 3 16) fk_kb fk_ks1 (R 160000) ''Sidhu Builders paid part of the February bricks'' (Some
            (''NEFT CR'' @ u_endash @ ''SIDHU BUILDERS''))]
     @ concat (map (\<lambda>(d, a). [took d fk_kcx fk_kcoal a ''Coal from Jindal Coal Depot on credit''])
          [(D 2025 11 25, R 420000), (D 2026 1 28, R 365000)])
     @ [pay (D 2025 4 25) fk_kcoal fk_kb (R 95000) (''Jindal Coal Depot paid '' @ u_emdash @ '' last season's balance'') (Some
         (''RTGS DR'' @ u_endash @ ''JINDAL COAL'')),
        pay (D 2025 12 26) fk_kcoal fk_kb (R 420000) (''Jindal Coal Depot paid '' @ u_emdash @ '' November coal'') (Some
            (''RTGS DR'' @ u_endash @ ''JINDAL COAL''))]
     @ concat (map (\<lambda>(d0, d1, give, spent). [pay d0 fk_kadv fk_kb give
         ''Advance to the pathera jamadar for moulding'' (Some (''IMPS DR'' @ u_endash @ ''PATHERA JAMADAR'')),
        ventry d1 AdvanceSettled
            ''Bricks moulded, at the agreed rate per thousand, set against the jamadar's advance'' [(fk_kmould,
                spent), (fk_kadv, - spent)] None])
          [(D 2025 4 2, D 2025 6 28, R 150000, R 148500), (D 2025 11 10, D 2025 12 31, R 120000, R 116000), (D 2026
              1 5, D 2026 3 30, R 140000, R 142400)])
     @ [pay (D 2025 5 28) fk_kload fk_kc (R 26000) (''Loading and trolley hire, April'' @ u_endash @ ''May, cash'') None,
        pay (D 2026 3 28) fk_kload fk_kc (R 21500) (''Loading and trolley hire, February'' @ u_endash @ ''March, cash'') None,
        pay (D 2025 10 28) fk_kroy fk_kb (R 180000) ''Lease of the kiln land and earth royalty for the season''
            (Some (''NEFT DR'' @ u_endash @ ''LAND LEASE'')),
        pay (D 2025 11 4) fk_krep fk_kb (R 46000) ''Kiln and chimney repairs before firing'' (Some
            (''NEFT DR'' @ u_endash @ ''KILN REPAIR''))]
     @ concat (map (\<lambda>(d, a). [pay d fk_kG fk_kb a ''Taken out by Nirmaljeet Gill (entered on his instruction)''
         (Some (''NEFT DR'' @ u_endash @ ''NIRMALJEET GILL''))])
          [(D 2025 7 12, R 100000), (D 2026 3 22, R 120000)])
     @ [rcv (D 2025 10 22) fk_kb fk_kG (R 130000) ''Put in by Nirmaljeet Gill for the season'' (Some
         (''NEFT CR'' @ u_endash @ ''NIRMALJEET GILL''))]"

definition fk_entries_3 :: "nat \<Rightarrow> entry list" where
  "fk_entries_3 wrong =
     [pay (D 2025 6 10) fk_kmould fk_kc (R 3400) ''Kiln office electricity bill, cash'' None,
        fix_entry (D 2025 6 30) fk_krep fk_kmould (R 3400)
            (''Entry {ref} (electricity) was written to Moulding Labour '' @ u_emdash @ '' moved to Repairs & Sundry'') Correction
                (Some wrong),
        move (D 2025 11 12) fk_kc fk_kb (R 20000) ''Cash withdrawn for the kiln (ATM)'' (Some (''ATM WDL'' @ u_endash @ ''KOTLI''))]"

definition fk_entries :: "entry list" where
  "fk_entries =
     (let es = fk_entries_1;
          es = es @ fk_entries_2;
          es = es @ fk_entries_3 (length es)
      in es)"

definition fk_header :: book where
  "fk_header = (Book ''Randhawa Brick Field'' ''shared business book'' ''RK'' Business)\<lparr>about :=
      (''Brick kiln shared 3 : 2 by the joint family and Nirmaljeet Gill '' @ u_middot @ '' no interest on capital '' @ u_emdash @ '' the profit is shared 3 : 2 '' @ u_middot @ '' bricks on credit '' @ u_middot @ '' coal on credit '' @ u_middot @ '' the pathera's advance.''),
        min_count := 25,
        max_count := 40,
        partners := [\<lparr>pname = ''Randhawa Joint Family'', pcapital = None, pcurrent = fk_kF, share = 3, ioc_bp = 0\<rparr>,
          \<lparr>pname = ''Nirmaljeet Gill'', pcapital = None, pcurrent = fk_kG, share = 2, ioc_bp = 0\<rparr>],
        own_word := ''Partners' own money'',
        chart_note :=
            ''Nirmaljeet Gill's account is the figure he agreed; the joint family's account is the balancing figure, so the Dr and Cr totals agree.'',
        custom := Some (fk_kG, D 2025 4 1, D 2026 3 31,
            (''The outside partner's account for the year '' @ u_emdash @ '' what he put in and took out, and his share of the profit posted at the year close.''))\<rparr>"

definition build_fk :: "error + posted_book" where
  "build_fk = build_book fk_header fk_accounts fk_kF fk_entries"

definition fk_names :: "string list" where
  "fk_names =
     [fk_kc, fk_kb, fk_ks1, fk_ks2, fk_kcoal, fk_kadv, fk_kkiln, fk_kF, fk_kG, fk_ksale, fk_kcx, fk_kmould,
      fk_kload, fk_kroy, fk_krep]"

lemma fk_names: "map aname fk_accounts = fk_names"
  by (simp add: fk_accounts_def fk_names_def Account_def AccountG_def )

lemma fk_names_distinct: "distinct fk_names"
  by (simp add: fk_names_def fk_name_defs )

lemma fk_pos:
  "pos_of fk_names fk_kc = 0"
  "pos_of fk_names fk_kb = 1"
  "pos_of fk_names fk_ks1 = 2"
  "pos_of fk_names fk_ks2 = 3"
  "pos_of fk_names fk_kcoal = 4"
  "pos_of fk_names fk_kadv = 5"
  "pos_of fk_names fk_kkiln = 6"
  "pos_of fk_names fk_kF = 7"
  "pos_of fk_names fk_kG = 8"
  "pos_of fk_names fk_ksale = 9"
  "pos_of fk_names fk_kcx = 10"
  "pos_of fk_names fk_kmould = 11"
  "pos_of fk_names fk_kload = 12"
  "pos_of fk_names fk_kroy = 13"
  "pos_of fk_names fk_krep = 14"
  by (simp_all add: pos_of_def fk_names_def fk_name_defs  )

lemma fk_kinds:
  "map kind fk_accounts =
     [Cash, Bank, Party, Party, Party, Advance, Fixed, Partner, Partner, Income, Expense, Expense, Expense,
      Expense, Expense]"
  by (simp add: fk_accounts_def Account_def AccountG_def )

lemma fk_openings:
  "balanced_openings fk_kF fk_accounts =
     [1500000, 21000000, 8400000, 0, - 9500000, 0, 165000000, - 116400000, - 70000000, 0, 0, 0, 0, 0, 0]"
  by (simp add: balanced_openings_def total_but_def fk_accounts_def Account_def AccountG_def fk_name_defs R_def
      set_opening_def  )

lemma fk_own: "own_opening fk_kF fk_accounts = - 116400000"
  unfolding own_opening_def [of fk_kF fk_accounts]
  by (simp add: total_but_def fk_accounts_def Account_def AccountG_def fk_name_defs R_def set_opening_def  )

lemma fk_counts: "min_count fk_header = 25" "max_count fk_header = 40"
  by (simp_all add: fk_header_def Book_def)

lemma fk_empty: "accounts fk_header = []" "vouchers fk_header = []"
  by (simp_all add: fk_header_def Book_def)

lemmas fk_entries_defs =
  fk_entries_def fk_entries_1_def fk_entries_2_def fk_entries_3_def

lemma fk_refs: "list_all (\<lambda>e. case eref e of None \<Rightarrow> True | Some k \<Rightarrow> k < length fk_entries) fk_entries"
  by (simp add: fk_entries_defs entry_refs Let_def Q4E_def fj_A_settle_def fy_months_eq)

text \<open>The skeleton of the book, evaluated.\<close>

lemma fk_skeleton:
  "skeleton_check (min_count fk_header) (max_count fk_header) (map kind fk_accounts)
     (balanced_openings fk_kF fk_accounts)
     (map (entry_skeleton (map aname fk_accounts)) fk_entries)"
  unfolding fk_names fk_kinds fk_openings fk_counts
  apply (simp add: fk_entries_defs entry_skeletons fk_pos Let_def Q4E_def R_def cash_dep_def D_def fj_A_settle_def
      fy_months_eq)
  by code_simp

text \<open>The closing balances of the accounts, in order (paise, positive is Dr).\<close>

definition fk_closing :: "int list" where
  "fk_closing =
     [2710000, 51800000, 8400000, 19600000, - 36500000, 310000, 165000000, - 115400000, - 61000000,
      - 183800000, 78500000, 40690000, 4750000, 18000000, 6940000]"

lemma fk_closings:
  "skeleton_balances (map (entry_skeleton (map aname fk_accounts)) fk_entries)
     (balanced_openings fk_kF fk_accounts) = fk_closing"
  unfolding fk_names fk_openings fk_closing_def
  apply (simp add: fk_entries_defs entry_skeletons fk_pos Let_def Q4E_def R_def cash_dep_def D_def fj_A_settle_def
      fy_months_eq)
  by code_simp

lemma fk_built:
  "\<exists>b pb. book_wf b \<and> finalize b = Inr pb \<and> build_fk = Inr pb \<and> map aname (accounts pb) = fk_names
     \<and> map kind (accounts pb) = map kind fk_accounts
     \<and> map closing (accounts pb) = fk_closing
     \<and> partners pb = partners fk_header \<and> style pb = style fk_header"
proof -
  have d: "distinct (map aname fk_accounts)" unfolding fk_names by (rule fk_names_distinct)
  have own: "fk_kF \<in> set (map aname fk_accounts)" unfolding fk_names by (simp add: fk_names_def)
  note * = build_book_ok [OF fk_empty d own fk_refs fk_skeleton, unfolded fk_closings]
  show ?thesis using * unfolding build_fk_def fk_names .
qed

section \<open>Randhawa Joint Family\<close>

lemmas fj_name_defs =
  fj_fc_def fj_fb_def fj_ffd_def fj_fhouse_def fj_fgold_def fj_fA_def
  fj_fB_def fj_fC_def fj_fG_def fj_fE_def fj_fK_def fj_fudB_def
  fj_fmilk_def fj_fmason_def fj_fcap_def fj_fiG_def fj_fiE_def fj_fiK_def
  fj_fint_def fj_fkit_def fj_felec_def fj_fmed_def fj_fsoc_def fj_frep_def
  fj_fcar_def fj_fhA_def

definition fj_accounts :: "account list" where
  "fj_accounts =
     set_opening fj_fK (- own_opening fk_kF fk_accounts)
     (set_opening fj_fE (- own_opening fe_eF fe_accounts)
     (set_opening fj_fG (- own_opening fg_gF fg_accounts)
     ([Account fj_fc Cash ''The family's cash, with Amarjeet'' (R 35000),
      Account fj_fb Bank ''The family's joint savings account'' (R 420000),
      Account fj_ffd Invest ''The family's fixed deposits'' (R 500000),
      Account fj_fhouse Fixed ''The family house at what it cost'' (R 2500000),
      Account fj_fgold Fixed ''Gold and jewellery at what it cost'' (R 600000),
      (AccountG fj_fA Partner
          (''Amarjeet's household's account '' @ u_emdash @ '' spent for it or given, less put in; settled or carried forward'') (R
              18000) ''Sub-family'')\<lparr>cols := (''Spent for them / given (Dr)'', ''Put in by them / settled (Cr)'')\<rparr>,
      (AccountG fj_fB Partner
          (''Lakhbeer's household's account '' @ u_emdash @ '' spent for it or given, less put in; settled or carried forward'') 0
              ''Sub-family'')\<lparr>cols := (''Spent for them / given (Dr)'', ''Put in by them / settled (Cr)'')\<rparr>,
      (AccountG fj_fC Partner (''Lakhwinder's household's account '' @ u_emdash @ '' puts in more than it draws; carried forward'') (-
          (R 12000)) ''Sub-family'')\<lparr>cols := (''Spent for them / given (Dr)'', ''Put in by them / settled (Cr)'')\<rparr>,
      Account fj_fG Stake ''The family's money put into its farm, at what it put in'' 0,
      Account fj_fE Stake ''The family's money put into its real estate, at what it put in'' 0,
      Account fj_fK Stake ''The family's money put into the brick field (its 3 of 5 share), at what it put in'' 0,
      Account fj_fudB Loanto
          (''Money Lakhbeer's household took to be returned '' @ u_emdash @ '' on its own page, not with the household money'') 0,
      Account fj_fmilk Party
          (''Milkman '' @ u_emdash @ '' milk for the common kitchen, written up each half-year; March 2025's milk brought forward'') (-
              (R 9600)),
      Account fj_fmason Advance ''Advance to the mason for the roof, settled against his bill'' 0,
      Account fj_fcap Capital ''The family's own money'' 0,
      Account fj_fiG Income (''Money the farm sent home '' @ u_emdash @ '' the family's income'') 0,
      Account fj_fiE Income (''Money the real estate sent home '' @ u_emdash @ '' the family's income'') 0,
      Account fj_fiK Income (''Money the family took from the brick field '' @ u_emdash @ '' the family's income'') 0,
      Account fj_fint Income ''Interest on savings and fixed deposits'' 0,
      Account fj_fkit Expense ''Atta, dal, ghee, milk and gas for the common kitchen'' 0,
      Account fj_felec Expense ''The house's electricity and water'' 0,
      Account fj_fmed Expense ''Doctor and medicines for the elders'' 0,
      Account fj_fsoc Expense ''Gurdwara, weddings, shagun'' 0,
      Account fj_frep Expense ''Repairs to the family house'' 0,
      Account fj_fcar Expense ''Fuel, service and insurance of the family car'' 0,
      Account fj_fhA Expense ''Amarjeet's household's account for the year, borne by the family when settled'' 0])))"

definition fj_entries_1 :: "entry list" where
  "fj_entries_1 =
     [rcv (D 2025 5 6) fj_fb fj_fiG (R 400000) ''Wheat money sent home by Randhawa Agriculture'' (Some
         (''NEFT CR'' @ u_endash @ ''RANDHAWA AGRI'')),
        rcv (D 2025 11 25) fj_fb fj_fiG (R 350000) ''Paddy money sent home by Randhawa Agriculture'' (Some
            (''NEFT CR'' @ u_endash @ ''RANDHAWA AGRI'')),
        pay (D 2025 6 20) fj_fG fj_fb (R 80000) ''Put into Randhawa Agriculture for the paddy nursery and theka''
            (Some (''NEFT DR'' @ u_endash @ ''RANDHAWA AGRI'')),
        rcv (D 2025 9 15) fj_fb fj_fiE (R 60000) ''Rent surplus sent home by Randhawa Real Estate'' (Some
            (''NEFT CR'' @ u_endash @ ''RANDHAWA REAL ESTATE'')),
        rcv (D 2025 12 10) fj_fb fj_fiE (R 250000) ''Plot money sent home by Randhawa Real Estate'' (Some
            (''NEFT CR'' @ u_endash @ ''RANDHAWA REAL ESTATE'')),
        pay (D 2025 10 20) fj_fK fj_fb (R 200000) ''Put into the brick field for the season (the family's share)''
            (Some (''NEFT DR'' @ u_endash @ ''RANDHAWA BRICK FIELD'')),
        rcv (D 2025 7 10) fj_fb fj_fiK (R 150000) (''Taken from the brick field '' @ u_emdash @ '' the family's income'') (Some
            (''NEFT CR'' @ u_endash @ ''RANDHAWA BRICK FIELD'')),
        rcv (D 2026 3 20) fj_fb fj_fiK (R 180000) (''Taken from the brick field '' @ u_emdash @ '' the family's income'') (Some
            (''NEFT CR'' @ u_endash @ ''RANDHAWA BRICK FIELD''))]
     @ concat (map (\<lambda>(d, a). [pay d fj_fA fj_fb a ''Household money for six months to Amarjeet's family'' (Some
         (''NEFT DR'' @ u_endash @ ''AMARJEET'')),
        pay d fj_fB fj_fb (a + (R 15000)) ''Household money for six months to Lakhbeer's family'' (Some
            (''NEFT DR'' @ u_endash @ ''LAKHBEER''))])
          [(D 2025 4 3, R 45000), (D 2025 10 3, R 45000)])
     @ [pay (D 2025 8 6) fj_fB fj_fb (R 70000) ''Towards Aman's motorcycle'' (Some (''NEFT DR'' @ u_endash @ ''LAKHBEER'')),
        pay (D 2025 8 18) fj_fudB fj_fb (R 50000) (''Lakhbeer took '' @ u_rupee @ ''50,000 for a while '' @ u_emdash @ '' he will return it'') (Some
            (''NEFT DR'' @ u_endash @ ''LAKHBEER''))]
     @ concat (map (\<lambda>(d, a). [rcv d fj_fb fj_fC a ''Put in by Lakhwinder's family from his salary'' (Some
         (''NEFT CR'' @ u_endash @ ''LAKHWINDER''))])
          [(D 2025 7 2, R 40000), (D 2026 1 2, R 40000)])
     @ [pay (D 2026 1 14) fj_fB fj_fb (R 28500)
         ''Aman's college fees for the second semester, paid by the family for Lakhbeer's household'' (Some
             (''NEFT DR'' @ u_endash @ ''COLLEGE'')),
        ventry (D 2025 10 21) Journal
            (''Lakhwinder's family put '' @ u_rupee @ ''1,00,000 straight into the brick field '' @ u_emdash @ '' the family's money in it, put in by his household'')
                [(fj_fK, R 100000), (fj_fC, - (R 100000))] None,
        ventry (D 2025 12 5) Journal
            (''Lakhbeer paid '' @ u_rupee @ ''20,000 of the brick field's chimney repair from his own money '' @ u_emdash @ '' the family's money in the brick field, set against what he took'')
                [(fj_fK, R 20000), (fj_fudB, - (R 20000))] None,
        rcv (D 2026 3 24) fj_fb fj_fudB (R 30000) (''Lakhbeer paid back the rest of the '' @ u_rupee @ ''50,000 he took'') (Some
            (''NEFT CR'' @ u_endash @ ''LAKHBEER'')),
        pay (D 2025 12 26) fj_fA fj_fc (R 9000)
            (''Amarjeet's household '' @ u_emdash @ '' Indu's dental treatment, paid by the family in cash'') None,
        ventry (D 2026 3 31) Settled
            (''Amarjeet's family's account settled for the year '' @ u_emdash @ '' the family bears it as Amarjeet's household expenses'')
                [(fj_fhA, fj_A_settle), (fj_fA, - fj_A_settle)] None]"

definition fj_entries_2 :: "entry list" where
  "fj_entries_2 =
     [pay (D 2025 4 8) fj_fkit fj_fb (R 93500)
         (''Ration and gas for the common kitchen, April'' @ u_endash @ ''September (wholesale)'') (Some (''UPI DR'' @ u_endash @ ''RATION'')),
        pay (D 2025 10 8) fj_fkit fj_fb (R 101500)
            (''Ration and gas for the common kitchen, October'' @ u_endash @ ''March (wholesale)'') (Some (''UPI DR'' @ u_endash @ ''RATION'')),
        pay (D 2026 1 21) fj_felec fj_fb (R 35000) (''Electricity and water, April'' @ u_endash @ ''December'') (Some
            (''BILLPAY DR'' @ u_endash @ ''PSPCL'')),
        pay (D 2025 12 9) fj_fmed fj_fb (R 24000) ''Eye operation for Bapu ji'' (Some (''UPI DR'' @ u_endash @ ''EYE HOSPITAL'')),
        pay (D 2026 2 12) fj_fsoc fj_fb (R 51000) ''Shagun at a niece's wedding'' (Some (''UPI DR'' @ u_endash @ ''SHAGUN'')),
        pay (D 2025 8 25) fj_fmason fj_fc (R 15000) ''Advance to the mason for the roof, cash'' None,
        ventry (D 2025 9 4) AdvanceSettled ''The mason's bill for the roof waterproofing set against his advance''
            [(fj_frep, R 15000), (fj_fmason, - (R 15000))] None,
        pay (D 2025 9 4) fj_frep fj_fb (R 21000) ''Rest of the mason's bill for the roof'' (Some
            (''NEFT DR'' @ u_endash @ ''ROOF REPAIR'')),
        took (D 2025 9 30) fj_fkit fj_fmilk (R 57600) (''Milk for April'' @ u_endash @ ''September on credit from the milkman''),
        took (D 2026 3 31) fj_fkit fj_fmilk (R 59400) (''Milk for October'' @ u_endash @ ''March on credit from the milkman''),
        pay (D 2025 10 4) fj_fmilk fj_fb (R 67200)
            (''Milkman's account paid '' @ u_emdash @ '' March (brought forward) and April'' @ u_endash @ ''September'') (Some (''UPI DR'' @ u_endash @ ''DOODHWALA'')),
        pay (D 2025 7 18) fj_fcar fj_fb (R 28400) ''Family car insurance'' (Some (''NETBANKING DR'' @ u_endash @ ''INSURANCE''))]"

definition fj_entries_3 :: "nat \<Rightarrow> entry list" where
  "fj_entries_3 wrong =
     [pay (D 2025 12 28) fj_fsoc fj_fc (R 6200) ''Car service, cash'' None,
        fix_entry (D 2026 1 5) fj_fcar fj_fsoc (R 6200)
            (''Entry {ref} (car service) was written to Gurdwara & Social '' @ u_emdash @ '' moved to Family Car'') Correction (Some
                wrong),
        move (D 2025 8 22) fj_fc fj_fb (R 30000) ''Cash withdrawn for the house (ATM)'' (Some (''ATM WDL'' @ u_endash @ ''KOTLI'')),
        move (D 2026 1 10) fj_ffd fj_fb (R 300000) ''New fixed deposit from the brick-field and plot money'' (Some
            ''TRF TO FD''),
        rcv (D 2025 9 30) fj_fb fj_fint (R 2860) ''Savings interest'' (Some ''INT.CR''),
        rcv (D 2026 3 31) fj_fb fj_fint (R 36500) ''Interest on the fixed deposits, paid to savings'' (Some
            (''INT.CR'' @ u_endash @ ''FD''))]"

definition fj_entries :: "entry list" where
  "fj_entries =
     (let es = fj_entries_1;
          es = es @ fj_entries_2;
          es = es @ fj_entries_3 (length es)
      in es)"

definition fj_header :: book where
  "fj_header = (Book ''Randhawa Joint Family'' ''joint family book'' ''RJ'' Household)\<lparr>journal_word :=
      ''money a sub-family put straight into a family business'',
        about := (''The joint family's own book '' @ u_middot @ '' house, gold and deposits '' @ u_middot @ '' the common kitchen '' @ u_middot @ '' one account per sub-family, settled or carried forward '' @ u_middot @ '' money put into the family businesses '' @ u_middot @ '' their money sent home as family income.''),
        own_word := ''Family's own money'',
        put_note := '' (by the sub-families, and their accounts settled)'',
        taken_note := '' (given to the sub-families or spent for them)'',
        min_count := 25,
        max_count := 40,
        custom := Some (fj_fA, D 2025 4 1, D 2026 3 31,
            (''One sub-family's account for the year '' @ u_emdash @ '' household money, a bill the family paid, and the year-end settlement.''))\<rparr>"

definition build_fj :: "error + posted_book" where
  "build_fj = build_book fj_header fj_accounts fj_fcap fj_entries"

definition fj_names :: "string list" where
  "fj_names =
     [fj_fc, fj_fb, fj_ffd, fj_fhouse, fj_fgold, fj_fA, fj_fB, fj_fC, fj_fG, fj_fE, fj_fK, fj_fudB, fj_fmilk,
      fj_fmason, fj_fcap, fj_fiG, fj_fiE, fj_fiK, fj_fint, fj_fkit, fj_felec, fj_fmed, fj_fsoc, fj_frep,
      fj_fcar, fj_fhA]"

lemma fj_names: "map aname fj_accounts = fj_names"
  by (simp add: fj_accounts_def fj_names_def Account_def AccountG_def )

lemma fj_names_distinct: "distinct fj_names"
  by (simp add: fj_names_def fj_name_defs )

lemma fj_pos:
  "pos_of fj_names fj_fc = 0"
  "pos_of fj_names fj_fb = 1"
  "pos_of fj_names fj_ffd = 2"
  "pos_of fj_names fj_fhouse = 3"
  "pos_of fj_names fj_fgold = 4"
  "pos_of fj_names fj_fA = 5"
  "pos_of fj_names fj_fB = 6"
  "pos_of fj_names fj_fC = 7"
  "pos_of fj_names fj_fG = 8"
  "pos_of fj_names fj_fE = 9"
  "pos_of fj_names fj_fK = 10"
  "pos_of fj_names fj_fudB = 11"
  "pos_of fj_names fj_fmilk = 12"
  "pos_of fj_names fj_fmason = 13"
  "pos_of fj_names fj_fcap = 14"
  "pos_of fj_names fj_fiG = 15"
  "pos_of fj_names fj_fiE = 16"
  "pos_of fj_names fj_fiK = 17"
  "pos_of fj_names fj_fint = 18"
  "pos_of fj_names fj_fkit = 19"
  "pos_of fj_names fj_felec = 20"
  "pos_of fj_names fj_fmed = 21"
  "pos_of fj_names fj_fsoc = 22"
  "pos_of fj_names fj_frep = 23"
  "pos_of fj_names fj_fcar = 24"
  "pos_of fj_names fj_fhA = 25"
  by (simp_all add: pos_of_def fj_names_def fj_name_defs  )

lemma fj_kinds:
  "map kind fj_accounts =
     [Cash, Bank, Invest, Fixed, Fixed, Partner, Partner, Partner, Stake, Stake, Stake, Loanto, Party, Advance,
      Capital, Income, Income, Income, Income, Expense, Expense, Expense, Expense, Expense, Expense, Expense]"
  by (simp add: fj_accounts_def Account_def AccountG_def )

lemma fj_openings:
  "balanced_openings fj_fcap fj_accounts =
     [3500000, 42000000, 50000000, 250000000, 60000000, 1800000, 0, - 1200000, 641810000, 313700000, 116400000,
      0, - 960000, 0, - 1477050000, 0, 0, 0, 0, 0, 0, 0, 0, 0, 0, 0]"
  by (simp add: balanced_openings_def total_but_def fj_accounts_def Account_def AccountG_def fj_name_defs R_def
      set_opening_def  fg_own fe_own fk_own)

lemma fj_own: "own_opening fj_fcap fj_accounts = - 1477050000"
  unfolding own_opening_def [of fj_fcap fj_accounts]
  by (simp add: total_but_def fj_accounts_def Account_def AccountG_def fj_name_defs R_def set_opening_def  fg_own
      fe_own fk_own)

lemma fj_counts: "min_count fj_header = 25" "max_count fj_header = 40"
  by (simp_all add: fj_header_def Book_def)

lemma fj_empty: "accounts fj_header = []" "vouchers fj_header = []"
  by (simp_all add: fj_header_def Book_def)

lemmas fj_entries_defs =
  fj_entries_def fj_entries_1_def fj_entries_2_def fj_entries_3_def

lemma fj_refs: "list_all (\<lambda>e. case eref e of None \<Rightarrow> True | Some k \<Rightarrow> k < length fj_entries) fj_entries"
  by (simp add: fj_entries_defs entry_refs Let_def Q4E_def fj_A_settle_def fy_months_eq)

text \<open>The skeleton of the book, evaluated.\<close>

lemma fj_skeleton:
  "skeleton_check (min_count fj_header) (max_count fj_header) (map kind fj_accounts)
     (balanced_openings fj_fcap fj_accounts)
     (map (entry_skeleton (map aname fj_accounts)) fj_entries)"
  unfolding fj_names fj_kinds fj_openings fj_counts
  apply (simp add: fj_entries_defs entry_skeletons fj_pos Let_def Q4E_def R_def cash_dep_def D_def fj_A_settle_def
      fy_months_eq)
  by code_simp

text \<open>The closing balances of the accounts, in order (paise, positive is Dr).\<close>

definition fj_closing :: "int list" where
  "fj_closing =
     [3480000, 56926000, 80000000, 250000000, 60000000, 0, 21850000, - 19200000, 649810000, 313700000,
      148400000, 0, - 5940000, 0, - 1477050000, - 75000000, - 31000000, - 33000000, - 3936000, 31200000,
      3500000, 2400000, 5100000, 3600000, 3460000, 11700000]"

lemma fj_closings:
  "skeleton_balances (map (entry_skeleton (map aname fj_accounts)) fj_entries)
     (balanced_openings fj_fcap fj_accounts) = fj_closing"
  unfolding fj_names fj_openings fj_closing_def
  apply (simp add: fj_entries_defs entry_skeletons fj_pos Let_def Q4E_def R_def cash_dep_def D_def fj_A_settle_def
      fy_months_eq)
  by code_simp

lemma fj_built:
  "\<exists>b pb. book_wf b \<and> finalize b = Inr pb \<and> build_fj = Inr pb \<and> map aname (accounts pb) = fj_names
     \<and> map kind (accounts pb) = map kind fj_accounts
     \<and> map closing (accounts pb) = fj_closing
     \<and> partners pb = partners fj_header \<and> style pb = style fj_header"
proof -
  have d: "distinct (map aname fj_accounts)" unfolding fj_names by (rule fj_names_distinct)
  have own: "fj_fcap \<in> set (map aname fj_accounts)" unfolding fj_names by (simp add: fj_names_def)
  note * = build_book_ok [OF fj_empty d own fj_refs fj_skeleton, unfolded fj_closings]
  show ?thesis using * unfolding build_fj_def fj_names .
qed

section \<open>Amarjeet's Family\<close>

lemmas fa_name_defs =
  fa_cash_def fa_bank_def fa_joint_def fa_agro_def fa_acust_def fa_acap_def
  fa_ast_def fa_afam_def fa_aint_def fa_ahh_def fa_acl_def fa_amed_def
  fa_aph_def fa_asoc_def fa_ahelp_def fa_aadv_def

definition fa_accounts :: "account list" where
  "fa_accounts =
     [Account fa_cash Cash ''Cash at home'' (R 6000),
      Account fa_bank Bank ''The household's bank account'' (R 64000),
      (AccountG fa_joint Partner
          (''Our account with the joint family '' @ u_emdash @ '' received from it, less put in; settled or carried forward'') (- (R
              18000)) ''Joint family'')\<lparr>cols := (''Put in / settled (Dr)'', ''Received from the family (Cr)'')\<rparr>,
      Account fa_agro Party ''Grocer'' (- (R 4200)),
      Account fa_acust Party (''Neighbours '' @ u_emdash @ '' suits stitched on credit'') 0,
      Account fa_acap Capital ''The household's own money'' 0,
      Account fa_ast Income ''Indu's stitching work'' 0,
      Account fa_afam Income ''Our account with the family for the year, borne by the family when settled'' 0,
      Account fa_aint Income ''Savings interest'' 0,
      Account fa_ahh Expense ''Groceries and household things'' 0,
      Account fa_acl Expense ''Clothes and personal things'' 0,
      Account fa_amed Expense ''Doctor and medicines'' 0,
      Account fa_aph Expense ''Mobiles and bus fares'' 0,
      Account fa_asoc Expense ''Shagun and gifts'' 0,
      Account fa_ahelp Expense ''The house help's wages'' 0,
      Account fa_aadv Advance ''Advance to the house help, set against her wages'' 0]"

definition fa_entries_1 :: "entry list" where
  "fa_entries_1 =
     concat (map (\<lambda>(d, a). [rcv d fa_bank fa_joint a
         (''Ghar kharch aaya '' @ u_emdash @ '' household money for six months from the joint family'') (Some
             (''NEFT CR'' @ u_endash @ ''RANDHAWA JOINT FAMILY''))])
          [(D 2025 4 3, R 45000), (D 2025 10 3, R 45000)])"

definition fa_entries_2 :: "entry list" where
  "fa_entries_2 =
     [ventry (D 2025 12 26) PaidByFamily ''Indu's dental treatment, paid by the joint family'' [(fa_amed, R 9000),
         (fa_joint, - (R 9000))] None,
        ventry (D 2026 3 31) Settled
            (''Our account with the joint family settled for the year '' @ u_emdash @ '' the family bears it'') [(fa_joint,
                fj_A_settle), (fa_afam, - fj_A_settle)] None]"

definition fa_entries_3 :: "entry list" where
  "fa_entries_3 =
     concat (map (\<lambda>(k, a). [took (Q4E ! k) fa_ahh fa_agro a (''Groceries on credit, '' @ Q4N ! k)])
          (List.enumerate 0 [R 14800, R 13900, R 15600, R 14200]))
     @ [pay (D 2025 4 6) fa_agro fa_cash (R 4200) ''Grocer's account for March paid, cash'' None]
     @ concat (map (\<lambda>(d, a). [pay d fa_agro fa_bank a ''Grocer's account paid (UPI)'' (Some (''UPI DR'' @ u_endash @ ''GILL KIRYANA''))])
          [(D 2025 7 5, R 14800), (D 2025 10 6, R 13900), (D 2026 1 6, R 15600)])
     @ concat (map (\<lambda>(d, a). [rcv d fa_cash fa_ast a (''Indu's stitching '' @ u_emdash @ '' suits for the season, cash'') None])
          [(D 2025 5 30, R 6400), (D 2025 10 30, R 9800), (D 2026 2 27, R 7200)])
     @ [gave (D 2025 11 12) fa_acust fa_ast (R 5600) ''Four wedding suits stitched for the Sidhu family, on credit'',
        rcv (D 2026 1 18) fa_cash fa_acust (R 5600) ''The Sidhu family paid for the suits, cash'' None,
        pay (D 2025 10 12) fa_acl fa_bank (R 12500) ''Clothes for Diwali'' (Some (''UPI DR'' @ u_endash @ ''CLOTH HOUSE'')),
        pay (D 2026 3 8) fa_acl fa_cash (R 4800) ''Shoes and a shawl, cash'' None,
        pay (D 2025 8 19) fa_amed fa_cash (R 3600) ''Doctor and medicines, cash'' None,
        pay (D 2025 6 10) fa_aph fa_bank (R 4400) ''Mobiles for six months'' (Some (''UPI DR'' @ u_endash @ ''MOBILE RECHARGE'')),
        pay (D 2025 12 10) fa_aph fa_bank (R 4400) ''Mobiles for six months'' (Some (''UPI DR'' @ u_endash @ ''MOBILE RECHARGE'')),
        pay (D 2025 11 18) fa_asoc fa_cash (R 5100) ''Shagun at a wedding in the village, cash'' None]"

definition fa_entries_4 :: "nat \<Rightarrow> entry list" where
  "fa_entries_4 wrong =
     [pay (D 2025 9 9) fa_asoc fa_cash (R 1800) ''Bus fares to Amritsar, cash'' None,
        fix_entry (D 2025 9 20) fa_aph fa_asoc (R 1800)
            (''Entry {ref} (bus fares) was written to Gifts & Social '' @ u_emdash @ '' moved to Phone & Travel'') Correction (Some
                wrong),
        move (D 2025 8 4) fa_cash fa_bank (R 10000) ''Cash withdrawn (ATM)'' (Some (''ATM WDL'' @ u_endash @ ''KOTLI'')),
        move (D 2025 12 20) fa_cash fa_bank (R 15000) ''Cash withdrawn (ATM)'' (Some (''ATM WDL'' @ u_endash @ ''KOTLI'')),
        rcv (D 2026 3 31) fa_bank fa_aint (R 910) ''Savings interest'' (Some ''INT.CR''),
        pay (D 2025 9 30) fa_ahelp fa_cash (R 9000) (''House help's wages, July'' @ u_endash @ ''September, cash'') None,
        pay (D 2025 10 15) fa_aadv fa_cash (R 3000) ''Advance to the house help for Diwali, cash'' None,
        ventry (D 2025 12 31) Payment
            (''House help's wages, October'' @ u_endash @ ''December '' @ u_emdash @ '' '' @ u_rupee @ ''3,000 of it recovered from her Diwali advance, the rest paid in cash'')
                [(fa_ahelp, R 9000), (fa_aadv, - (R 3000)), (fa_cash, - (R 6000))] None]"

definition fa_entries :: "entry list" where
  "fa_entries =
     (let es = fa_entries_1;
          es = es @ fa_entries_2;
          es = es @ fa_entries_3;
          es = es @ fa_entries_4 (length es)
      in es)"

definition fa_header :: book where
  "fa_header = (Book ''Amarjeet's Family'' ''household book'' ''RA'' Household)\<lparr>about :=
      (''Amarjeet and Indu's household '' @ u_middot @ '' money from the joint family '' @ u_middot @ '' Indu's stitching '' @ u_middot @ '' a grocer on credit '' @ u_middot @ '' the account with the family settled at the year end.''),
        min_count := 25,
        max_count := 40,
        put_word := ''Received from the joint family'',
        taken_word := ''Put into the joint family or settled'',
        custom := Some (fa_joint, D 2025 4 1, D 2026 3 31,
            (''Our account with the joint family for the year '' @ u_emdash @ '' the same entries as the family's account for this household, on the other side, and its settlement.''))\<rparr>"

definition build_fa :: "error + posted_book" where
  "build_fa = build_book fa_header fa_accounts fa_acap fa_entries"

definition fa_names :: "string list" where
  "fa_names =
     [fa_cash, fa_bank, fa_joint, fa_agro, fa_acust, fa_acap, fa_ast, fa_afam, fa_aint, fa_ahh, fa_acl,
      fa_amed, fa_aph, fa_asoc, fa_ahelp, fa_aadv]"

lemma fa_names: "map aname fa_accounts = fa_names"
  by (simp add: fa_accounts_def fa_names_def Account_def AccountG_def )

lemma fa_names_distinct: "distinct fa_names"
  by (simp add: fa_names_def fa_name_defs )

lemma fa_pos:
  "pos_of fa_names fa_cash = 0"
  "pos_of fa_names fa_bank = 1"
  "pos_of fa_names fa_joint = 2"
  "pos_of fa_names fa_agro = 3"
  "pos_of fa_names fa_acust = 4"
  "pos_of fa_names fa_acap = 5"
  "pos_of fa_names fa_ast = 6"
  "pos_of fa_names fa_afam = 7"
  "pos_of fa_names fa_aint = 8"
  "pos_of fa_names fa_ahh = 9"
  "pos_of fa_names fa_acl = 10"
  "pos_of fa_names fa_amed = 11"
  "pos_of fa_names fa_aph = 12"
  "pos_of fa_names fa_asoc = 13"
  "pos_of fa_names fa_ahelp = 14"
  "pos_of fa_names fa_aadv = 15"
  by (simp_all add: pos_of_def fa_names_def fa_name_defs  )

lemma fa_kinds:
  "map kind fa_accounts =
     [Cash, Bank, Partner, Party, Party, Capital, Income, Income, Income, Expense, Expense, Expense, Expense,
      Expense, Expense, Advance]"
  by (simp add: fa_accounts_def Account_def AccountG_def )

lemma fa_openings:
  "balanced_openings fa_acap fa_accounts =
     [600000, 6400000, - 1800000, - 420000, 0, - 4780000, 0, 0, 0, 0, 0, 0, 0, 0, 0, 0]"
  by (simp add: balanced_openings_def total_but_def fa_accounts_def Account_def AccountG_def fa_name_defs R_def  )

lemma fa_own: "own_opening fa_acap fa_accounts = - 4780000"
  unfolding own_opening_def [of fa_acap fa_accounts]
  by (simp add: total_but_def fa_accounts_def Account_def AccountG_def fa_name_defs R_def  )

lemma fa_counts: "min_count fa_header = 25" "max_count fa_header = 40"
  by (simp_all add: fa_header_def Book_def)

lemma fa_empty: "accounts fa_header = []" "vouchers fa_header = []"
  by (simp_all add: fa_header_def Book_def)

lemmas fa_entries_defs =
  fa_entries_def fa_entries_1_def fa_entries_2_def fa_entries_3_def fa_entries_4_def

lemma fa_refs: "list_all (\<lambda>e. case eref e of None \<Rightarrow> True | Some k \<Rightarrow> k < length fa_entries) fa_entries"
  by (simp add: fa_entries_defs entry_refs Let_def Q4E_def fj_A_settle_def fy_months_eq)

text \<open>The skeleton of the book, evaluated.\<close>

lemma fa_skeleton:
  "skeleton_check (min_count fa_header) (max_count fa_header) (map kind fa_accounts)
     (balanced_openings fa_acap fa_accounts)
     (map (entry_skeleton (map aname fa_accounts)) fa_entries)"
  unfolding fa_names fa_kinds fa_openings fa_counts
  apply (simp add: fa_entries_defs entry_skeletons fa_pos Let_def Q4E_def R_def cash_dep_def D_def fj_A_settle_def
      fy_months_eq)
  by code_simp

text \<open>The closing balances of the accounts, in order (paise, positive is Dr).\<close>

definition fa_closing :: "int list" where
  "fa_closing =
     [2250000, 6431000, 0, - 1420000, 0, - 4780000, - 2900000, - 11700000, - 91000, 5850000, 1730000, 1260000,
      1060000, 510000, 1800000, 0]"

lemma fa_closings:
  "skeleton_balances (map (entry_skeleton (map aname fa_accounts)) fa_entries)
     (balanced_openings fa_acap fa_accounts) = fa_closing"
  unfolding fa_names fa_openings fa_closing_def
  apply (simp add: fa_entries_defs entry_skeletons fa_pos Let_def Q4E_def R_def cash_dep_def D_def fj_A_settle_def
      fy_months_eq)
  by code_simp

lemma fa_built:
  "\<exists>b pb. book_wf b \<and> finalize b = Inr pb \<and> build_fa = Inr pb \<and> map aname (accounts pb) = fa_names
     \<and> map kind (accounts pb) = map kind fa_accounts
     \<and> map closing (accounts pb) = fa_closing
     \<and> partners pb = partners fa_header \<and> style pb = style fa_header"
proof -
  have d: "distinct (map aname fa_accounts)" unfolding fa_names by (rule fa_names_distinct)
  have own: "fa_acap \<in> set (map aname fa_accounts)" unfolding fa_names by (simp add: fa_names_def)
  note * = build_book_ok [OF fa_empty d own fa_refs fa_skeleton, unfolded fa_closings]
  show ?thesis using * unfolding build_fa_def fa_names .
qed

section \<open>Lakhbeer's Family\<close>

lemmas fb_name_defs =
  fb_cash_def fb_bank_def fb_joint_def fb_budF_def fb_bchem_def fb_bpaint_def
  fb_bbike_def fb_bcap_def fb_bint_def fb_bhh_def fb_bedu_def fb_bmed_def
  fb_bfuel_def fb_bhome_def

definition fb_accounts :: "account list" where
  "fb_accounts =
     [Account fb_cash Cash ''Cash at home'' (R 5000),
      Account fb_bank Bank ''The household's bank account'' (R 85000),
      (AccountG fb_joint Partner
          (''Our account with the joint family '' @ u_emdash @ '' received from it, less put in; settled or carried forward'') 0
              ''Joint family'')\<lparr>cols := (''Put in / settled (Dr)'', ''Received from the family (Cr)'')\<rparr>,
      Account fb_budF Loan
          (''Money we took from the joint family to be returned '' @ u_emdash @ '' on its own page, not with the household money'') 0,
      Account fb_bchem Party ''Chemist'' 0,
      Account fb_bpaint Advance ''Advance to the painter for the rooms, settled against his bill'' 0,
      Account fb_bbike Fixed ''Aman's motorcycle at what it cost (August 2025)'' 0,
      Account fb_bcap Capital ''The household's own money'' 0,
      Account fb_bint Income ''Savings interest'' 0,
      Account fb_bhh Expense ''Groceries and household things'' 0,
      Account fb_bedu Expense ''College fees and books'' 0,
      Account fb_bmed Expense ''Medicines bought on credit from the chemist'' 0,
      Account fb_bfuel Expense ''Motorcycle fuel and mobiles'' 0,
      Account fb_bhome Expense ''Painting and furnishing of the rooms'' 0]"

definition fb_entries_1 :: "entry list" where
  "fb_entries_1 =
     concat (map (\<lambda>(d, a). [rcv d fb_bank fb_joint (a + (R 15000))
         (''Ghar kharch aaya '' @ u_emdash @ '' household money for six months from the joint family'') (Some
             (''NEFT CR'' @ u_endash @ ''RANDHAWA JOINT FAMILY''))])
          [(D 2025 4 3, R 45000), (D 2025 10 3, R 45000)])
     @ [rcv (D 2025 8 6) fb_bank fb_joint (R 70000) ''From the joint family towards Aman's motorcycle'' (Some
         (''NEFT CR'' @ u_endash @ ''RANDHAWA JOINT FAMILY'')),
        rcv (D 2025 8 18) fb_bank fb_budF (R 50000)
            (''Took '' @ u_rupee @ ''50,000 from the joint family for a while '' @ u_emdash @ '' to be returned'') (Some
                (''NEFT CR'' @ u_endash @ ''RANDHAWA JOINT FAMILY'')),
        ventry (D 2026 1 14) PaidByFamily ''College fees for the second semester, paid by the joint family''
            [(fb_bedu, R 28500), (fb_joint, - (R 28500))] None,
        pay (D 2025 12 5) fb_budF fb_bank (R 20000)
            (''Paid the brick field's chimney repair from our money '' @ u_emdash @ '' set against what we took from the family'')
                (Some (''UPI DR'' @ u_endash @ ''KILN REPAIR'')),
        pay (D 2026 3 24) fb_budF fb_bank (R 30000)
            (''Paid back the rest of the '' @ u_rupee @ ''50,000 we took from the joint family'') (Some
                (''NEFT DR'' @ u_endash @ ''RANDHAWA JOINT FAMILY''))]"

definition fb_entries_2 :: "entry list" where
  "fb_entries_2 =
     [pay (D 2025 8 8) fb_bbike fb_bank (R 98500) (''Motorcycle for Aman '' @ u_emdash @ '' thing owned, at cost'') (Some
         (''NEFT DR'' @ u_endash @ ''HERO MOTORS''))]
     @ concat (map (\<lambda>(d, a). [took d fb_bmed fb_bchem a ''Medicines on credit''])
          [(D 2025 5 14, R 2400), (D 2025 9 22, R 3100), (D 2026 2 3, R 2700)])
     @ [pay (D 2025 10 4) fb_bchem fb_cash (R 5500) ''Chemist's account paid, cash'' None]
     @ concat (map (\<lambda>(k, a). [pay (D (year (Q4E ! k)) ((month (Q4E ! k)) - 2) 12) fb_bhh fb_bank a
         (''Groceries and household, '' @ Q4N ! k) (Some (''UPI DR'' @ u_endash @ ''GROCERIES''))])
          (List.enumerate 0 [R 13600, R 12900, R 14100, R 13300]))
     @ [pay (D 2025 7 16) fb_bedu fb_bank (R 28500) ''College fees, first semester'' (Some (''NEFT DR'' @ u_endash @ ''COLLEGE'')),
        pay (D 2025 10 22) fb_bfuel fb_cash (R 6200) ''Motorcycle fuel, cash'' None,
        pay (D 2026 3 18) fb_bfuel fb_bank (R 7400) ''Fuel and mobiles'' (Some (''UPI DR'' @ u_endash @ ''FUEL'')),
        pay (D 2025 10 8) fb_bpaint fb_cash (R 8000) ''Advance to the painter for the rooms, cash'' None,
        ventry (D 2025 10 27) AdvanceSettled ''The painter's bill for the rooms set against his advance''
            [(fb_bhome, R 8000), (fb_bpaint, - (R 8000))] None,
        pay (D 2025 10 27) fb_bhome fb_cash (R 6500) ''Rest of the painter's bill, cash'' None,
        pay (D 2025 11 20) fb_bhome fb_bank (R 14800) ''Curtains and a bed for the rooms'' (Some
            (''UPI DR'' @ u_endash @ ''FURNISHING''))]
     @ concat (map (\<lambda>(d, a). [move d fb_cash fb_bank a ''Cash withdrawn (ATM)'' (Some (''ATM WDL'' @ u_endash @ ''KOTLI''))])
          [(D 2025 10 2, R 25000), (D 2026 2 6, R 10000)])"

definition fb_entries_3 :: "nat \<Rightarrow> entry list" where
  "fb_entries_3 wrong =
     [pay (D 2025 12 15) fb_bhh fb_cash (R 2100) ''Mobile recharges, cash'' None,
        fix_entry (D 2025 12 24) fb_bfuel fb_bhh (R 2100)
            (''Entry {ref} (mobiles) was written to Household '' @ u_emdash @ '' moved to Fuel & Phone'') Correction (Some wrong),
        pay (D 2026 3 2) fb_bchem fb_cash (R 2700) ''Chemist's account paid, cash'' None,
        rcv (D 2026 3 31) fb_bank fb_bint (R 640) ''Savings interest'' (Some ''INT.CR'')]"

definition fb_entries :: "entry list" where
  "fb_entries =
     (let es = fb_entries_1;
          es = es @ fb_entries_2;
          es = es @ fb_entries_3 (length es)
      in es)"

definition fb_header :: book where
  "fb_header = (Book ''Lakhbeer's Family'' ''household book'' ''RB'' Household)\<lparr>about :=
      (''Lakhbeer and Aman's household '' @ u_middot @ '' money from the joint family, and '' @ u_rupee @ ''50,000 taken to be returned on its own udhaar page '' @ u_emdash @ '' part paid back through the brick field, the rest by bank '' @ u_middot @ '' a motorcycle '' @ u_middot @ '' a chemist on credit '' @ u_middot @ '' a painter's advance.''),
        min_count := 25,
        max_count := 40,
        put_word := ''Received from the joint family'',
        taken_word := ''Put into the joint family or settled'',
        custom := Some (fb_bchem, D 2025 4 1, D 2026 3 31,
            (''The chemist's account for the year '' @ u_emdash @ '' medicines on credit and the payments.''))\<rparr>"

definition build_fb :: "error + posted_book" where
  "build_fb = build_book fb_header fb_accounts fb_bcap fb_entries"

definition fb_names :: "string list" where
  "fb_names =
     [fb_cash, fb_bank, fb_joint, fb_budF, fb_bchem, fb_bpaint, fb_bbike, fb_bcap, fb_bint, fb_bhh, fb_bedu,
      fb_bmed, fb_bfuel, fb_bhome]"

lemma fb_names: "map aname fb_accounts = fb_names"
  by (simp add: fb_accounts_def fb_names_def Account_def AccountG_def )

lemma fb_names_distinct: "distinct fb_names"
  by (simp add: fb_names_def fb_name_defs )

lemma fb_pos:
  "pos_of fb_names fb_cash = 0"
  "pos_of fb_names fb_bank = 1"
  "pos_of fb_names fb_joint = 2"
  "pos_of fb_names fb_budF = 3"
  "pos_of fb_names fb_bchem = 4"
  "pos_of fb_names fb_bpaint = 5"
  "pos_of fb_names fb_bbike = 6"
  "pos_of fb_names fb_bcap = 7"
  "pos_of fb_names fb_bint = 8"
  "pos_of fb_names fb_bhh = 9"
  "pos_of fb_names fb_bedu = 10"
  "pos_of fb_names fb_bmed = 11"
  "pos_of fb_names fb_bfuel = 12"
  "pos_of fb_names fb_bhome = 13"
  by (simp_all add: pos_of_def fb_names_def fb_name_defs  )

lemma fb_kinds:
  "map kind fb_accounts =
     [Cash, Bank, Partner, Loan, Party, Advance, Fixed, Capital, Income, Expense, Expense, Expense, Expense,
      Expense]"
  by (simp add: fb_accounts_def Account_def AccountG_def )

lemma fb_openings:
  "balanced_openings fb_bcap fb_accounts =
     [500000, 8500000, 0, 0, 0, 0, 0, - 9000000, 0, 0, 0, 0, 0, 0]"
  by (simp add: balanced_openings_def total_but_def fb_accounts_def Account_def AccountG_def fb_name_defs R_def  )

lemma fb_own: "own_opening fb_bcap fb_accounts = - 9000000"
  unfolding own_opening_def [of fb_bcap fb_accounts]
  by (simp add: total_but_def fb_accounts_def Account_def AccountG_def fb_name_defs R_def  )

lemma fb_counts: "min_count fb_header = 25" "max_count fb_header = 40"
  by (simp_all add: fb_header_def Book_def)

lemma fb_empty: "accounts fb_header = []" "vouchers fb_header = []"
  by (simp_all add: fb_header_def Book_def)

lemmas fb_entries_defs =
  fb_entries_def fb_entries_1_def fb_entries_2_def fb_entries_3_def

lemma fb_refs: "list_all (\<lambda>e. case eref e of None \<Rightarrow> True | Some k \<Rightarrow> k < length fb_entries) fb_entries"
  by (simp add: fb_entries_defs entry_refs Let_def Q4E_def fj_A_settle_def fy_months_eq)

text \<open>The skeleton of the book, evaluated.\<close>

lemma fb_skeleton:
  "skeleton_check (min_count fb_header) (max_count fb_header) (map kind fb_accounts)
     (balanced_openings fb_bcap fb_accounts)
     (map (entry_skeleton (map aname fb_accounts)) fb_entries)"
  unfolding fb_names fb_kinds fb_openings fb_counts
  apply (simp add: fb_entries_defs entry_skeletons fb_pos Let_def Q4E_def R_def cash_dep_def D_def fj_A_settle_def
      fy_months_eq)
  by code_simp

text \<open>The closing balances of the accounts, in order (paise, positive is Dr).\<close>

definition fb_closing :: "int list" where
  "fb_closing =
     [900000, 3754000, - 21850000, 0, 0, 0, 9850000, - 9000000, - 64000, 5390000, 5700000, 820000, 1570000,
      2930000]"

lemma fb_closings:
  "skeleton_balances (map (entry_skeleton (map aname fb_accounts)) fb_entries)
     (balanced_openings fb_bcap fb_accounts) = fb_closing"
  unfolding fb_names fb_openings fb_closing_def
  apply (simp add: fb_entries_defs entry_skeletons fb_pos Let_def Q4E_def R_def cash_dep_def D_def fj_A_settle_def
      fy_months_eq)
  by code_simp

lemma fb_built:
  "\<exists>b pb. book_wf b \<and> finalize b = Inr pb \<and> build_fb = Inr pb \<and> map aname (accounts pb) = fb_names
     \<and> map kind (accounts pb) = map kind fb_accounts
     \<and> map closing (accounts pb) = fb_closing
     \<and> partners pb = partners fb_header \<and> style pb = style fb_header"
proof -
  have d: "distinct (map aname fb_accounts)" unfolding fb_names by (rule fb_names_distinct)
  have own: "fb_bcap \<in> set (map aname fb_accounts)" unfolding fb_names by (simp add: fb_names_def)
  note * = build_book_ok [OF fb_empty d own fb_refs fb_skeleton, unfolded fb_closings]
  show ?thesis using * unfolding build_fb_def fb_names .
qed

section \<open>Lakhwinder's Family\<close>

lemmas fc_name_defs =
  fc_cash_def fc_bank_def fc_joint_def fc_ccard_def fc_crd_def fc_ccap_def
  fc_csal_def fc_ctu_def fc_chh_def fc_csch_def fc_cel_def fc_cmed_def
  fc_ccl_def fc_cdairy_def fc_celad_def

definition fc_accounts :: "account list" where
  "fc_accounts =
     [Account fc_cash Cash ''Cash at home'' (R 7000),
      Account fc_bank Bank ''The household's bank account'' (R 48000),
      (AccountG fc_joint Partner
          (''Our account with the joint family '' @ u_emdash @ '' received from it, less put in; settled or carried forward'') (R
              12000) ''Joint family'')\<lparr>cols := (''Put in / settled (Dr)'', ''Received from the family (Cr)'')\<rparr>,
      Account fc_ccard Card (''Credit card '' @ u_emdash @ '' what is owed on it'') (- (R 6800)),
      Account fc_crd Invest ''Recurring deposit in the post office'' (R 36000),
      Account fc_ccap Capital ''The household's own money'' 0,
      Account fc_csal Income ''Lakhwinder's salary as a government teacher (after deductions)'' 0,
      Account fc_ctu Income ''Harjeet's home tuition'' 0,
      Account fc_chh Expense ''Groceries and household things'' 0,
      Account fc_csch Expense ''Supreet's school fees and books'' 0,
      Account fc_cel Expense ''Electricity of their floor, mobiles, internet'' 0,
      Account fc_cmed Expense ''Doctor and medicines'' 0,
      Account fc_ccl Expense ''Clothes, gifts and outings'' 0,
      Account fc_cdairy Party (''Dairy shop '' @ u_emdash @ '' milk and curd for their floor'') 0,
      Account fc_celad Advance ''Advance to the electrician for rewiring their floor'' 0]"

definition fc_entries_1 :: "entry list" where
  "fc_entries_1 =
     concat (map (\<lambda>(d, a). [pay d fc_joint fc_bank a ''Put into the joint family from Lakhwinder's salary'' (Some
         (''NEFT DR'' @ u_endash @ ''RANDHAWA JOINT FAMILY''))])
          [(D 2025 7 2, R 40000), (D 2026 1 2, R 40000)])
     @ [pay (D 2025 10 21) fc_joint fc_bank (R 100000)
         ''Put into the brick field from Lakhwinder's salary, for the family's share'' (Some
             (''NEFT DR'' @ u_endash @ ''RANDHAWA BRICK FIELD''))]"

definition fc_entries_2 :: "entry list" where
  "fc_entries_2 =
     concat (map (\<lambda>(y, m). [rcv (D y m 1) fc_bank fc_csal (R 62400) ((''Salary for '' @ (if m > 1 then month_name y
         (m - 1) else month_name (y - 1) 12) @ '' (after deductions)'')) (Some (''SAL CR'' @ u_endash @ ''DEO JALANDHAR''))])
          fy_months)
     @ [rcv (D 2025 7 31) fc_cash fc_ctu (R 9000) (''Harjeet's tuition fees, April'' @ u_endash @ ''July, cash'') None,
        rcv (D 2026 2 28) fc_cash fc_ctu (R 12000) (''Harjeet's tuition fees, August'' @ u_endash @ ''February, cash'') None]
     @ concat (map (\<lambda>(d, a, what). [pay d (if what = ''Groceries'' then fc_chh else fc_ccl) fc_ccard a (what @
         '', on the credit card'') None])
          [(D 2025 5 20, R 11800, ''Groceries''), (D 2025 10 18, R 16400, ''Clothes for Diwali''), (D 2026 2 16, R
              12600, ''Groceries'')])
     @ concat (map (\<lambda>(d, a). [move d fc_ccard fc_bank a ''Credit-card bill paid'' (Some (''CC PAYMENT DR'' @ u_endash @ ''SBI CARD''))])
          [(D 2025 4 18, R 6800), (D 2025 6 18, R 11800), (D 2025 11 18, R 16400)])
     @ [pay (D 2025 4 12) fc_csch fc_bank (R 36000) ''Supreet's school fees and books for the year'' (Some
         (''NEFT DR'' @ u_endash @ ''SCHOOL'')),
        pay (D 2025 9 8) fc_chh fc_bank (R 18500) (''Groceries and household, June'' @ u_endash @ ''September'') (Some
            (''UPI DR'' @ u_endash @ ''GROCERIES'')),
        pay (D 2025 8 23) fc_cel fc_bank (R 7800) (''Electricity, mobiles and internet, April'' @ u_endash @ ''July'') (Some
            (''BILLPAY DR'' @ u_endash @ ''PSPCL'')),
        pay (D 2026 1 22) fc_cel fc_bank (R 9100) (''Electricity, mobiles and internet, August'' @ u_endash @ ''December'') (Some
            (''BILLPAY DR'' @ u_endash @ ''PSPCL'')),
        pay (D 2025 12 11) fc_cmed fc_cash (R 4600) ''Doctor and medicines, cash'' None]
     @ concat (map (\<lambda>d. [move d fc_crd fc_bank (R 30000) ''Six months of the recurring deposit'' (Some
         ''TRF TO POST OFFICE RD'')])
          [D 2025 9 5, D 2026 3 5])
     @ [move (D 2025 6 4) fc_cash fc_bank (R 15000) ''Cash withdrawn (ATM)'' (Some (''ATM WDL'' @ u_endash @ ''JALANDHAR'')),
        took (D 2025 9 30) fc_chh fc_cdairy (R 16200) (''Milk and curd for April'' @ u_endash @ ''September on credit from the dairy''),
        took (D 2026 3 31) fc_chh fc_cdairy (R 17100) (''Milk and curd for October'' @ u_endash @ ''March on credit from the dairy''),
        pay (D 2025 10 5) fc_cdairy fc_bank (R 16200) (''Dairy's account for April'' @ u_endash @ ''September paid'') (Some
            (''UPI DR'' @ u_endash @ ''KOTLI DAIRY'')),
        pay (D 2025 7 12) fc_celad fc_cash (R 5000) ''Advance to the electrician for rewiring, cash'' None,
        ventry (D 2025 7 26) AdvanceSettled ''The electrician's bill for rewiring set against his advance''
            [(fc_cel, R 5000), (fc_celad, - (R 5000))] None]"

definition fc_entries_3 :: "nat \<Rightarrow> entry list" where
  "fc_entries_3 wrong =
     [pay (D 2025 11 26) fc_chh fc_bank (R 3500) ''Supreet's school trip'' (Some (''UPI DR'' @ u_endash @ ''SCHOOL TRIP'')),
        fix_entry (D 2025 12 2) fc_csch fc_chh (R 3500)
            (''Entry {ref} (school trip) was written to Household '' @ u_emdash @ '' moved to School Fees'') Correction (Some wrong)]"

definition fc_entries :: "entry list" where
  "fc_entries =
     (let es = fc_entries_1;
          es = es @ fc_entries_2;
          es = es @ fc_entries_3 (length es)
      in es)"

definition fc_header :: book where
  "fc_header = (Book ''Lakhwinder's Family'' ''household book'' ''RC'' Household)\<lparr>about :=
      (''Lakhwinder, Harjeet and Supreet's household '' @ u_middot @ '' Lakhwinder's salary '' @ u_middot @ '' Harjeet's tuition '' @ u_middot @ '' a credit card '' @ u_middot @ '' a recurring deposit '' @ u_middot @ '' money put into the family and into the brick field.''),
        min_count := 25,
        max_count := 40,
        put_word := ''Received from the joint family'',
        taken_word := ''Put into the joint family or settled'',
        custom := Some (fc_ccard, D 2025 4 1, D 2026 3 31,
            (''The credit card for the year '' @ u_emdash @ '' what was spent on it and the bills paid from the salary account.''))\<rparr>"

definition build_fc :: "error + posted_book" where
  "build_fc = build_book fc_header fc_accounts fc_ccap fc_entries"

definition fc_names :: "string list" where
  "fc_names =
     [fc_cash, fc_bank, fc_joint, fc_ccard, fc_crd, fc_ccap, fc_csal, fc_ctu, fc_chh, fc_csch, fc_cel, fc_cmed,
      fc_ccl, fc_cdairy, fc_celad]"

lemma fc_names: "map aname fc_accounts = fc_names"
  by (simp add: fc_accounts_def fc_names_def Account_def AccountG_def )

lemma fc_names_distinct: "distinct fc_names"
  by (simp add: fc_names_def fc_name_defs )

lemma fc_pos:
  "pos_of fc_names fc_cash = 0"
  "pos_of fc_names fc_bank = 1"
  "pos_of fc_names fc_joint = 2"
  "pos_of fc_names fc_ccard = 3"
  "pos_of fc_names fc_crd = 4"
  "pos_of fc_names fc_ccap = 5"
  "pos_of fc_names fc_csal = 6"
  "pos_of fc_names fc_ctu = 7"
  "pos_of fc_names fc_chh = 8"
  "pos_of fc_names fc_csch = 9"
  "pos_of fc_names fc_cel = 10"
  "pos_of fc_names fc_cmed = 11"
  "pos_of fc_names fc_ccl = 12"
  "pos_of fc_names fc_cdairy = 13"
  "pos_of fc_names fc_celad = 14"
  by (simp_all add: pos_of_def fc_names_def fc_name_defs  )

lemma fc_kinds:
  "map kind fc_accounts =
     [Cash, Bank, Partner, Card, Invest, Capital, Income, Income, Expense, Expense, Expense, Expense, Expense,
      Party, Advance]"
  by (simp add: fc_accounts_def Account_def AccountG_def )

lemma fc_openings:
  "balanced_openings fc_ccap fc_accounts =
     [700000, 4800000, 1200000, - 680000, 3600000, - 9620000, 0, 0, 0, 0, 0, 0, 0, 0, 0]"
  by (simp add: balanced_openings_def total_but_def fc_accounts_def Account_def AccountG_def fc_name_defs R_def  )

lemma fc_own: "own_opening fc_ccap fc_accounts = - 9620000"
  unfolding own_opening_def [of fc_ccap fc_accounts]
  by (simp add: total_but_def fc_accounts_def Account_def AccountG_def fc_name_defs R_def  )

lemma fc_counts: "min_count fc_header = 25" "max_count fc_header = 40"
  by (simp_all add: fc_header_def Book_def)

lemma fc_empty: "accounts fc_header = []" "vouchers fc_header = []"
  by (simp_all add: fc_header_def Book_def)

lemmas fc_entries_defs =
  fc_entries_def fc_entries_1_def fc_entries_2_def fc_entries_3_def

lemma fc_refs: "list_all (\<lambda>e. case eref e of None \<Rightarrow> True | Some k \<Rightarrow> k < length fc_entries) fc_entries"
  by (simp add: fc_entries_defs entry_refs Let_def Q4E_def fj_A_settle_def fy_months_eq)

text \<open>The skeleton of the book, evaluated.\<close>

lemma fc_skeleton:
  "skeleton_check (min_count fc_header) (max_count fc_header) (map kind fc_accounts)
     (balanced_openings fc_ccap fc_accounts)
     (map (entry_skeleton (map aname fc_accounts)) fc_entries)"
  unfolding fc_names fc_kinds fc_openings fc_counts
  apply (simp add: fc_entries_defs entry_skeletons fc_pos Let_def Q4E_def R_def cash_dep_def D_def fj_A_settle_def
      fy_months_eq)
  by code_simp

text \<open>The closing balances of the accounts, in order (paise, positive is Dr).\<close>

definition fc_closing :: "int list" where
  "fc_closing =
     [3340000, 41570000, 19200000, - 1260000, 9600000, - 9620000, - 74880000, - 2100000, 7620000, 3950000,
      2190000, 460000, 1640000, - 1710000, 0]"

lemma fc_closings:
  "skeleton_balances (map (entry_skeleton (map aname fc_accounts)) fc_entries)
     (balanced_openings fc_ccap fc_accounts) = fc_closing"
  unfolding fc_names fc_openings fc_closing_def
  apply (simp add: fc_entries_defs entry_skeletons fc_pos Let_def Q4E_def R_def cash_dep_def D_def fj_A_settle_def
      fy_months_eq)
  by code_simp

lemma fc_built:
  "\<exists>b pb. book_wf b \<and> finalize b = Inr pb \<and> build_fc = Inr pb \<and> map aname (accounts pb) = fc_names
     \<and> map kind (accounts pb) = map kind fc_accounts
     \<and> map closing (accounts pb) = fc_closing
     \<and> partners pb = partners fc_header \<and> style pb = style fc_header"
proof -
  have d: "distinct (map aname fc_accounts)" unfolding fc_names by (rule fc_names_distinct)
  have own: "fc_ccap \<in> set (map aname fc_accounts)" unfolding fc_names by (simp add: fc_names_def)
  note * = build_book_ok [OF fc_empty d own fc_refs fc_skeleton, unfolded fc_closings]
  show ?thesis using * unfolding build_fc_def fc_names .
qed

end
