(* ===== verification/Cases.thy ===== *)
theory Cases
  imports Companion Shop_Book Partnership_Book Trust_Book Individual_Books Family_Books
begin

text \<open>
  The five files (\<open>build_individual\<close> to \<open>build_trust\<close> of \<open>build.py\<close>): what their builders write round
  the books - title, introduction, people, the note under the family summary, and what the companion
  and the README show.
\<close>

section \<open>Figures of a book\<close>

definition closing_of :: "posted_book \<Rightarrow> string \<Rightarrow> int" where   \<comment> \<open>of an account of the book\<close>
  "closing_of b n = (case find_account b n of None \<Rightarrow> 0 | Some a \<Rightarrow> closing a)"

definition book_result :: "posted_book \<Rightarrow> int" where   \<comment> \<open>\<open>res\<close>\<close>
  "book_result b = (\<Sum>a\<leftarrow>accounts b. if kind a = Income then - closing a else 0)
     - (\<Sum>a\<leftarrow>accounts b. if kind a = Expense then closing a else 0)"

definition first_of :: "'a list \<Rightarrow> error + 'a" where
  "first_of xs = (case xs of [] \<Rightarrow> Inl (IndexError ''list index out of range'') | x # _ \<Rightarrow> Inr x)"

section \<open>\<open>build_individual\<close>\<close>

definition individual_intro :: "string list" where
  "individual_intro =
     [(''**Jasvinder Singh** keeps two books. His **personal book** holds the household: a savings account, cash, a credit card, a FASTag wallet, a fixed deposit, two cars (the second bought in October on a car loan that the lender paid straight to the dealer), a hand loan to a friend, a driver's advance, a house help's salary advance and a grocer who gives credit. **Jasvinder Technologies** is his one-owner IT services business: clients billed on credit, a hosting supplier on credit, one developer on salary. Money moves between the two books only when he puts money into the business or when the business sends money home for the household '' @
       u_emdash @ '' each time it is written in both books, in accounts named after the other book. What the business sends home is the household's income; the business is held in the personal book at the money put in. Both books are kept from the bank statement.'')]"

definition individual_people :: "(string \<times> string) list" where
  "individual_people =
     [(''Jasvinder Singh'', ''Owner of both books''),
      (''Gurpreet Sandhu'', (''Friend '' @ u_emdash @ '' borrowed '' @ u_rupee @ ''25,000 in May on a small interest, returned '' @ u_rupee @
       ''15,000 in December; the rest written off in March'')),
      (''Sharma General Store'', (''Grocer '' @ u_emdash @ '' household groceries on credit, settled every six months'')),
      (''Balwinder Singh'', (''Part-time driver '' @ u_emdash @ '' took '' @ u_rupee @ ''15,000 for the family's Vaishno Devi trip in December and accounted for it'')),
      (''HDFC Bank'', (''Car lender '' @ u_emdash @ '' '' @ u_rupee @ ''8,00,000 for the second car, paid to the dealer, 60 monthly instalments from 05 Dec 2025'')),
      ((''Medtech Solutions '' @ u_middot @ '' Kaur Exports '' @ u_middot @ '' Punjab Agro Board''), (''Clients of the business '' @ u_emdash @ '' billed on credit; Kaur Exports pays in advance once'')),
      (''Cloudnine Hosting'', (''Hosting supplier '' @ u_emdash @ '' billed quarterly on credit'')),
      (''Rohit Verma'', (''Developer on salary '' @ u_emdash @ '' took a salary advance in August, recovered in his salary''))]"

definition individual_shows :: "string list" where
  "individual_shows =
     [''two books linked by accounts named after each other, agreeing entry for entry; the business's money sent home is the household's income (cost method)'',
      ''a car bought on a loan the lender paid to the dealer; EMI lines split from the lender's statement'',
      ''a driver's advance settled against several heads, the part with no bill moved to his account and cut from his next pay, the rest returned; a FASTag wallet'',
      ''a hand loan with its own account, part returned, the rest written off'',
      ''salary advances recovered in the salary entry in both books'',
      ''credit card as a money account; a deposit that matured; a gift received'',
      ''a client who pays an advance and crosses zero'',
      ''a correction in each book'']"

definition individual_gaps :: "(string \<times> string) list list" where
  "individual_gaps =
     [[((''Jasvinder Technologies A/c '' @ u_middot @ '' Income from '' @ u_hellip), ''own money in a business held at what was put in; money the business sends home is income (O-13-4, cost method; GAPS A11)''),
      (''HDFC Credit Card A/c'', ''money subtype card, Cr by sign; card bill paid by transfer''),
      ((''Car '' @ u_endash @ '' Maruti Baleno A/c''), ''asset at cost (GAPS A1)''),
      ((''Loan to '' @ u_endash @ '' Gurpreet Sandhu A/c''), ''a loan to a person that carries interest: its own account beside the running account, written off to an expense head (O-02-4, O-12-1)'')],
      [((''Capital / Drawings A/c '' @ u_endash @ '' Jasvinder Singh''), ''a sole proprietor's business book keeps Capital and Drawings (O-13-1, O-13-2); both are named after the owner, whose personal book is the other book of the pair (O-13-4; GAPS A11)'')]]"

definition individual_note :: "posted_book \<Rightarrow> posted_book \<Rightarrow> (string \<times> int) list \<Rightarrow> string" where
  "individual_note p t pcb =
     (''The two sides agree entry by entry, on every date. The personal book holds the business at the money put in ('' @
       u_rupee @ (fmt (closing_of p jp_biz)) @ '') and takes the money the business sends home as income (*Income from Jasvinder Technologies*, '' @
       u_rupee @ (fmt (- closing_of p jp_inb)) @ '' this year); in the business book the same money is the owner's drawings. The business's net profit for the year, '' @
       u_rupee @ (fmt (book_result t)) @ '', is worked out in its own book and is not written in the personal book; after the year close the business's own money is '' @
       u_rupee @ (fmt (- (case map_of pcb jt_cap of None \<Rightarrow> 0 | Some x \<Rightarrow> x))) @ ''.'')"

definition build_individual :: "error + case_doc" where
  "build_individual =
     ebind build_jt (\<lambda>t. ebind build_jp (\<lambda>p. ebind (post_close_balances t) (\<lambda>pcb.
       Inr \<lparr>slug = ''individual-jasvinder-singh'', title = (''Individual and own business '' @ u_emdash @ '' Jasvinder Singh and Jasvinder Technologies''), real_names = True,
           intro = individual_intro, people = individual_people, books = [p, t], summary_note = individual_note p t pcb,
           demonstrates = individual_shows, gaps = individual_gaps, sources = [[], []]\<rparr>)))"

section \<open>\<open>build_family\<close>\<close>

definition family_intro :: "string list" where
  "family_intro =
     [(''Three brothers '' @ u_emdash @ '' **Amarjeet**, **Lakhbeer** and **Lakhwinder Randhawa** '' @ u_emdash @
       '' keep a joint household. **Randhawa Joint Family** is the joint family's own book: the house, the gold, the deposits, the common kitchen, and one account for each sub-family '' @
       u_emdash @ '' what the family spent for that household or gave it, less what the household put in, into the family or into a family business. A sub-family account is not a debt: at the year end it is settled or carried forward, as the family decides. Each brother's household keeps its own book. The family owns **Randhawa Agriculture** and **Randhawa Real Estate** outright and shares **Randhawa Brick Field** 3 : 2 with an outside partner, **Nirmaljeet Gill**; money a business sends home is the family's income. Money that moves between two books is written in both, in accounts named after the other book, and the family summary shows each pair agreeing.'')]"

definition family_people :: "(string \<times> string) list" where
  "family_people =
     [(''Amarjeet Randhawa'', (''Eldest brother '' @ u_emdash @ '' keeps the joint family's book and runs the farm; head of his household (with Indu Randhawa)'')),
      (''Lakhbeer Randhawa'', (''Brother '' @ u_emdash @ '' runs the brick field; head of his household (with his son Aman Randhawa); took '' @
       u_rupee @ ''50,000 from the family in August, to be returned '' @ u_emdash @ '' kept on its own udhaar page'')),
      (''Lakhwinder Randhawa'', (''Brother '' @ u_emdash @ '' a salaried teacher, looks after the real estate; head of his household (with Harjeet and Supreet Randhawa)'')),
      (''Aman Randhawa'', (''Lakhbeer's son '' @ u_emdash @ '' runs the farm day to day; holds the farm-labour advance'')),
      (''Nirmaljeet Gill'', (''Outside partner in the brick field '' @ u_emdash @ '' share 2 of 5''))]"

definition family_shows :: "string list" where
  "family_shows =
     [''seven books, six pairs of accounts named after each other, agreeing entry for entry'',
      (''a running account per sub-family in the joint book '' @ u_emdash @ '' money given, bills paid for it, money it put in; one settled at the year end, others carried forward''),
      (''money taken to be returned, on its own udhaar page in both books '' @ u_emdash @ '' part returned by paying a family-business bill, the rest paid back by bank''),
      ''a household putting its own money into a family business (three books)'',
      ''family businesses held at money put in; money sent home is the family's income'',
      ''a KCC, an arhtiya, theka land'',
      (''a plot sold at a profit and another bought with registry costs; an improvement added to the shops' cost; a tenant who left owing '' @
       u_emdash @ '' deposit set off, the rest forfeited; rent written off''),
      ''a brick field shared 3 : 2 with an outside partner, its P&L Appropriation posted at the year close; the farm's buffaloes and milk to the dairy society'']"

definition family_gaps :: "(string \<times> string) list list" where
  "family_gaps =
     [[(''Sub-family accounts'', (''a running account per sub-family inside the joint book, carried forward or settled at the year end (owner, 13 Oct 2026) '' @
       u_emdash @ '' GAPS A11'')),
      ((''Income from '' @ u_hellip), (''money a family business sends home is the family's income; money put in stays at cost (the cost method) '' @
       u_emdash @ '' GAPS A11'')),
      (''three-book entries'', (''a household paying into a family business, or paying its bill, writes in three books (household, business, joint) '' @
       u_emdash @ '' GAPS A11''))],
      [],
      [],
      [],
      [],
      [],
      [(''partners'', ''fluctuating partner accounts (no fixed capital); 3 : 2 share computed, no interest'')]]"

definition family_note :: "posted_book \<Rightarrow> posted_book \<Rightarrow> int \<Rightarrow> string" where
  "family_note g e kshare =
     (''How to read it. **Sub-families:** each household's account in the joint book and the joint-family account in the household's book move together; Amarjeet's was settled on 31 Mar 2026 (the family bore it), Lakhbeer's '' @
       u_rupee @ ''50,000 (on its own udhaar page) was returned through the brick field and by bank, and the rest is carried forward. **Family businesses:** the joint book holds each business at the money the family put in; money a business sends home is the family's income (*Income from '' @
       u_hellip @ ''*). Each business works out its own profit in its own book and it is not written in the joint book: Randhawa Agriculture '' @
       u_rupee @ (fmt (book_result g)) @ '', Randhawa Real Estate '' @ u_rupee @ (fmt (book_result e)) @ '', and the family's 3 of 5 of the brick field's, '' @
       u_rupee @ (fmt kshare) @ ''.'')"

definition build_family :: "error + case_doc" where
  "build_family =
     ebind build_fj (\<lambda>f. ebind build_fa (\<lambda>a. ebind build_fb (\<lambda>bb. ebind build_fc (\<lambda>c. ebind build_fg (\<lambda>g. ebind build_fe (\<lambda>e. ebind build_fk (\<lambda>k. 
     ebind (appropriation k (book_result k)) (\<lambda>ap. ebind (first_of ap) (\<lambda>(_, _, kshare).
       Inr \<lparr>slug = ''joint-family-randhawa'', title = (''Joint family and its businesses '' @ u_emdash @ '' the Randhawa family (seven books)''), real_names = True,
           intro = family_intro, people = family_people, books = [f, a, bb, c, g, e, k], summary_note = family_note g e kshare,
           demonstrates = family_shows, gaps = family_gaps, sources = [[], [], [], [], [], [], []]\<rparr>)))))))))"

section \<open>\<open>build_shop\<close>\<close>

definition shop_intro :: "string list" where
  "shop_intro =
     [(''**Sukhwinder Bal** runs a pipes-and-sanitary shop. Counter sales are in cash and the cash is banked; builders and plumbers buy on credit; the pipe company and the sanitary agency supply on credit. One salesman draws a salary and once takes an advance. The book is kept from the bank statement and the counter cash book. Goods bought for sale are written as spent when bought '' @
       u_emdash @ '' no stock is counted.'')]"

definition shop_people :: "(string \<times> string) list" where
  "shop_people =
     [(''Sukhwinder Bal'', ''Proprietor; takes money for the household each quarter''),
      (''Manpreet Kaur'', (''Salesman '' @ u_emdash @ '' salary each quarter; a salary advance in August'')),
      (''Guru Nanak Builders'', (''Customer on credit '' @ u_emdash @ '' pays the quarter's goods the next month'')),
      (''Dhillon Plumbing Works'', (''Customer who pays in advance, then buys '' @ u_emdash @ '' the account turns round'')),
      ((''Supreme Pipes Ltd '' @ u_middot @ '' Jaquar Sanitary Agency''), ''Suppliers on credit''),
      (''Kapoor Properties'', (''The shop's landlord '' @ u_emdash @ '' rent paid each quarter; holds the shop's '' @ u_rupee @ ''90,000 security deposit''))]"

definition shop_shows :: "string list" where
  "shop_shows =
     [''counter cash sales banked by transfer'',
      ''customers and suppliers on credit; a customer whose advance turns round, and a rebate allowed on his disputed bill'',
      ''salary advance recovered from salary'',
      ''a correction of a wrong head'',
      (''purchases expensed '' @ u_emdash @ '' no stock'')]"

definition shop_gaps :: "(string \<times> string) list list" where
  "shop_gaps =
     [[((''Deposit paid '' @ u_endash @ '' Kapoor Properties A/c''), ''a deposit paid to a named person: its own asset account per person, apart from any running account (owner, 13 Oct 2026; GAPS A2b)''),
      (''Goods Bought for Sale A/c'', (''purchases expensed; no closing stock (owner ruling '' @ u_emdash @ '' no inventory); profit is therefore sales less purchases. Last year entered no closing stock either, so the book opens with none (02 '' @
       [CHR 0xC2, CHR 0xA7] @ ''6.3)''))]]"

definition build_shop :: "error + case_doc" where
  "build_shop =
     ebind build_sh (\<lambda>b.
       Inr \<lparr>slug = ''shop-sukhwinder-sales-co'', title = (''Shop '' @ u_emdash @ '' Sukhwinder Sales Co. (pipes & sanitary)''), real_names = True,
           intro = shop_intro, people = shop_people, books = [b], summary_note = '''',
           demonstrates = shop_shows, gaps = shop_gaps, sources = [[]]\<rparr>)"

section \<open>\<open>build_partnership\<close>\<close>

definition partnership_intro :: "string list" where
  "partnership_intro =
     [(''**Bal Fabricators** is a steel-fabrication and aluminium workshop owned by **Sukhwinder Bal**, **Pradeep Bal** and **Harjeet Singh**, who is from outside the family, sharing profit **2 : 2 : 1**. Each partner has a **fixed capital account** and a **current account**: drawings and costs a partner pays from his own pocket go to his current account; the capitals do not move. Their agreement gives **interest on capital at 6% a year**, then the rest of the profit in the ratio. At the year close the book posts the P&L Appropriation Account and adds each partner's part to his account. The year's big job is a contract for a builder, **Sandhu Builders**: a mobilisation advance, three running bills of which 5% is held back, and the retention money kept in its own account beside the builder's running account '' @
       u_emdash @ '' released for the whole job, half when it is completed and handed over, the rest after the defect period. The powder-coating supplier is paid in advance and then sends his bill; the site foreman runs the labour money as an advance and accounts for it.'')]"

definition partnership_people :: "(string \<times> string) list" where
  "partnership_people =
     [(''Sukhwinder Bal'', (''Partner '' @ u_emdash @ '' share 2, capital '' @ u_rupee @ ''3,00,000'')),
      (''Pradeep Bal'', (''Partner '' @ u_emdash @ '' share 2, capital '' @ u_rupee @ ''3,00,000; pays some workshop costs from his own pocket, as Sukhwinder does once'')),
      (''Harjeet Singh'', (''Partner from outside the family '' @ u_emdash @ '' share 1, capital '' @ u_rupee @ ''1,50,000; draws as much as the others, more than his share of the profit'')),
      ((''Verka Dairy Plant '' @ u_middot @ '' Punjab Steel Sheds''), ''Customers on credit''),
      (''Sandhu Builders'', (''Builder '' @ u_emdash @ '' contract job: mobilisation advance, running bills with 5% held back'')),
      (''Jindal Steel Traders'', ''Steel supplier on credit''),
      (''Shree Powder Coaters'', (''Powder-coating supplier '' @ u_emdash @ '' paid in advance, then billed'')),
      (''Gurmeet Singh'', (''Site foreman '' @ u_emdash @ '' holds the labour money as an advance, settled against his slips''))]"

definition partnership_shows :: "string list" where
  "partnership_shows =
     [''fixed capital and current accounts for three partners; a posted P&L Appropriation: 6% interest on capital out of profit, then 2 : 2 : 1'',
      ''a contract job for a builder: mobilisation advance recovered bill by bill, 5% retention in its own account, half of the whole job's released at completion, the rest held for the defect period'',
      ''a supplier paid in advance whose account crosses to the other side and back'',
      ''a foreman's advance settled against wages and material, a lost slip still counted as wages'',
      ''partners paying firm costs from their own pocket'',
      ''a partner whose current account stays on the Dr side after his interest and share'',
      ''a correction'']"

definition partnership_gaps :: "(string \<times> string) list list" where
  "partnership_gaps =
     [[((''Current A/c '' @ u_endash @ '' each partner''), (''02 '' @ [CHR 0xC2, CHR 0xA7] @ ''1.2 has one `partner` account per member; practice keeps a fixed capital and a current account (GAPS B2)'')),
      (''P&L Appropriation A/c'', ''interest on capital (as agreed, only out of profit) and the 2:2:1 share posted at the year close to the partners' current accounts (O-14-1, O-14-3; GAPS B1)''),
      (''Paid by a partner'', (''a partner pays a firm cost from his own pocket '' @ u_emdash @ '' Dr expense '' @ u_middot @ '' Cr partner's current account'')),
      ((''Retention held by '' @ u_endash @ '' Sandhu Builders A/c''), ''retention money in its own asset account beside the running account, released by transfer (O-06-4; GAPS D2)'')]]"

definition build_partnership :: "error + case_doc" where
  "build_partnership =
     ebind build_pf (\<lambda>b.
       Inr \<lparr>slug = ''partnership-bal-fabricators'', title = (''Partnership '' @ u_emdash @ '' Bal Fabricators''), real_names = True,
           intro = partnership_intro, people = partnership_people, books = [b], summary_note = '''',
           demonstrates = partnership_shows, gaps = partnership_gaps, sources = [[]]\<rparr>)"

section \<open>\<open>build_trust\<close>\<close>

definition trust_intro :: "string list" where
  "trust_intro =
     [(''A satsang sabha with a **gollak** counted every two months before the secretary and a witness and emptied only into the cash box or the bank, sponsors' donations by bank, donations for the dairy, a **langar** run through the sewadar's advance, a small dairy, a new langar hall being built '' @
       u_emdash @ '' written as **Construction**, an expense head '' @ u_emdash @ '' and two labourers, **Manni** and **Ravinder**, paid in cash each quarter, each with his own expense head. Daily-wage labour at the big diwans is *Labour*. Money given **for the langar hall** goes to the **Langar Hall Fund** with its own fixed deposit, whose interest is added to the fund; when the hall is paid for from the fund the cost is charged to the year and the same amount is moved out of the fund in one action. The year-end statements are Receipts & Payments, Income & Expenditure, the Balance Sheet with the General Fund, and a statement of each fund.'')]"

definition trust_people :: "(string \<times> string) list" where
  "trust_people =
     [(''Ranjeet Singh'', (''Secretary '' @ u_emdash @ '' witness at every gollak count; signs the bank payments'')),
      (''Amritpal Singh'', (''Sewadar '' @ u_emdash @ '' counts the gollak; holds the langar advance and accounts for it'')),
      ((''Manni '' @ u_middot @ '' Ravinder''), (''Labourers paid in cash each quarter '' @ u_emdash @ '' each has his own expense head'')),
      (''Kotli Cement Store'', (''Building-material store '' @ u_emdash @ '' cement and bricks for the hall on credit'')),
      (''Three families and an NRI donor'', (''Gave for the langar hall '' @ u_emdash @ '' the money went to the Langar Hall Fund; one family donated a steel almirah that the trust keeps''))]"

definition trust_shows :: "string list" where
  "trust_shows =
     [''gollak counts that record the donation, emptied only into cash or bank'',
      ''langar through the sewadar's advance'',
      ''Manni and Ravinder as expense heads'',
      ''construction as an expense head'',
      ''a Langar Hall Fund for a purpose (the donors' money for the hall): donations for the hall, its fixed deposit's interest added to the fund, the hall paid from the fund in one action'',
      (''a donated thing kept at '' @ u_rupee @ ''1''),
      ''R&P, I&E, Balance Sheet and a statement of each fund'',
      ''a correction'']"

definition trust_gaps :: "(string \<times> string) list list" where
  "trust_gaps =
     [[(''Gollak Cash A/c'', (''money subtype cash_collection: the count records the donation (Dr Gollak '' @ u_middot @ '' Cr Donations '' @
       u_endash @ '' gollak), emptying is a transfer (O-17-8)'')),
      (''Langar Hall Fund A/c'', (''a fund for a purpose '' @ u_emdash @ '' the donors' money for the hall, restricted by them, not set aside by the committee (ICAI TG on NPOs '' @
       [CHR 0xC2, CHR 0xB6] @ ''106); spending is one action, two postings: the cost to Income & Expenditure and the same amount transferred from the fund (O-17-1); interest on the fund's deposit goes to the fund (O-17-2) '' @
       u_emdash @ '' GAPS A4, E2'')),
      (''Furniture & Equipment A/c'', (''a thing donated and kept is entered at '' @ u_rupee @ ''1 with its estimated value in the note (O-17-7)'')),
      (''Construction A/c'', (''an expense head '' @ u_emdash @ '' confirmed by the owner 13 Oct 2026, although ADR 2026-10-12 '' @
       [CHR 0xC2, CHR 0xA7] @ ''6's asset class could hold a building at cost'')),
      (''Dairy Donation A/c'', (''income (donations received for the dairy) '' @ u_emdash @ '' confirmed by the owner 13 Oct 2026'')),
      (''R&P'', ''Receipts & Payments for organization books (GAPS A8)'')]]"

definition build_trust :: "error + case_doc" where
  "build_trust =
     ebind build_tr (\<lambda>b.
       Inr \<lparr>slug = ''trust-radha-soami-satsang-sabha'', title = (''Trust '' @ u_emdash @ '' Radha Soami Satsang Sabha''), real_names = True,
           intro = trust_intro, people = trust_people, books = [b], summary_note = '''',
           demonstrates = trust_shows, gaps = trust_gaps, sources = [[]]\<rparr>)"

section \<open>All five\<close>

definition CASE_BUILDERS :: "(error + case_doc) list" where   \<comment> \<open>the ADR's order\<close>
  "CASE_BUILDERS = [build_individual, build_family, build_shop, build_partnership, build_trust]"

end
