(* ===== verification/Blake2b.thy ===== *)
theory Blake2b
  imports Prelude "HOL-Library.Word"
begin

text \<open>
  \<open>hashlib.blake2b(..., digest_size=32).hexdigest()\<close> as \<open>build.py\<close> uses it: BLAKE2b (RFC 7693) without a
  key, on bytes, with words of 64 bits that wrap around.
\<close>

unbundle bit_operations_syntax

type_synonym w64 = "64 word"

definition IV :: "w64 list" where
  "IV = [0x6A09E667F3BCC908, 0xBB67AE8584CAA73B, 0x3C6EF372FE94F82B, 0xA54FF53A5F1D36F1,
         0x510E527FADE682D1, 0x9B05688C2B3E6C1F, 0x1F83D9ABFB41BD6B, 0x5BE0CD19137E2179]"

definition PERMS :: "nat list list" where
  "PERMS =
     [[0, 1, 2, 3, 4, 5, 6, 7, 8, 9, 10, 11, 12, 13, 14, 15],
      [14, 10, 4, 8, 9, 15, 13, 6, 1, 12, 0, 2, 11, 7, 5, 3],
      [11, 8, 12, 0, 5, 2, 15, 13, 10, 14, 3, 6, 7, 1, 9, 4],
      [7, 9, 3, 1, 13, 12, 11, 14, 2, 6, 5, 10, 4, 0, 15, 8],
      [9, 0, 5, 7, 2, 4, 10, 15, 14, 1, 11, 12, 6, 8, 3, 13],
      [2, 12, 6, 10, 0, 11, 8, 3, 4, 13, 7, 5, 15, 14, 1, 9],
      [12, 5, 1, 15, 14, 13, 4, 10, 0, 7, 6, 3, 9, 2, 8, 11],
      [13, 11, 7, 14, 12, 1, 3, 9, 5, 0, 15, 4, 8, 6, 2, 10],
      [6, 15, 14, 9, 11, 3, 0, 8, 12, 2, 13, 7, 1, 4, 10, 5],
      [10, 2, 8, 4, 7, 6, 1, 5, 15, 11, 9, 14, 3, 12, 13, 0]]"

definition rotr :: "nat \<Rightarrow> w64 \<Rightarrow> w64" where
  "rotr n w = (drop_bit n w OR push_bit (64 - n) w)"

text \<open>The mixing of four words of the working vector with two of the block.\<close>

definition mix :: "w64 list \<Rightarrow> nat \<times> nat \<times> nat \<times> nat \<Rightarrow> w64 \<Rightarrow> w64 \<Rightarrow> w64 list" where
  "mix v ix x y = (case ix of (a, b, c, d) \<Rightarrow>
     let va = v ! a + v ! b + x;
         vd = rotr 32 (v ! d XOR va);
         vc = v ! c + vd;
         vb = rotr 24 (v ! b XOR vc);
         va = va + vb + y;
         vd = rotr 16 (vd XOR va);
         vc = vc + vd;
         vb = rotr 63 (vb XOR vc)
     in v[a := va, b := vb, c := vc, d := vd])"

definition MIXES :: "(nat \<times> nat \<times> nat \<times> nat) list" where
  "MIXES = [(0, 4, 8, 12), (1, 5, 9, 13), (2, 6, 10, 14), (3, 7, 11, 15),
            (0, 5, 10, 15), (1, 6, 11, 12), (2, 7, 8, 13), (3, 4, 9, 14)]"

definition blake_round :: "w64 list \<Rightarrow> w64 list \<Rightarrow> nat list \<Rightarrow> w64 list" where
  "blake_round m v s =
     foldl (\<lambda>v (k, ix). mix v ix (m ! (s ! (2 * k))) (m ! (s ! (2 * k + 1)))) v (List.enumerate 0 MIXES)"

definition compress :: "w64 list \<Rightarrow> w64 list \<Rightarrow> nat \<Rightarrow> bool \<Rightarrow> w64 list" where
  "compress h m t final =
     (let v = h @ IV;
          v = v[12 := v ! 12 XOR word_of_nat t, 13 := v ! 13 XOR word_of_nat (t div 2 ^ 64)];
          v = (if final then v[14 := NOT (v ! 14)] else v);
          v = foldl (blake_round m) v (PERMS @ take 2 PERMS)
      in map (\<lambda>i. h ! i XOR v ! i XOR v ! (i + 8)) [0..<8])"

text \<open>A word of eight bytes, the lowest first; the sixteen words of a block of 128 bytes, filled up with zeros.\<close>

definition word_at :: "nat list \<Rightarrow> w64" where
  "word_at bs = foldr (\<lambda>b w. word_of_nat b OR push_bit 8 w) bs 0"

definition block_words :: "nat list \<Rightarrow> w64 list" where
  "block_words bs =
     (let bs = bs @ replicate (128 - length bs) 0 in map (\<lambda>i. word_at (take 8 (drop (8 * i) bs))) [0..<16])"

function blake_blocks :: "w64 list \<Rightarrow> nat \<Rightarrow> nat list \<Rightarrow> w64 list" where
  "blake_blocks h t bs =
     (if length bs \<le> 128 then compress h (block_words bs) (t + length bs) True
      else blake_blocks (compress h (block_words (take 128 bs)) (t + 128) False) (t + 128) (drop 128 bs))"
  by pat_completeness auto
termination
  by (relation "measure (\<lambda>(h, t, bs). length bs)") auto

definition hex_digit :: "nat \<Rightarrow> char" where
  "hex_digit k = ''0123456789abcdef'' ! k"

definition word_hex :: "w64 \<Rightarrow> string" where   \<comment> \<open>its bytes, the lowest first, two digits each\<close>
  "word_hex w = concat (map (\<lambda>i. let b = unat (drop_bit (8 * i) w AND 0xFF) in [hex_digit (b div 16), hex_digit (b mod 16)]) [0..<8])"

definition blake2b :: "string \<Rightarrow> string" where
  "blake2b s =
     concat (map word_hex (take 4 (blake_blocks (IV[0 := IV ! 0 XOR 0x01010020]) 0 (map of_char s))))"

end
