(* ===== verification/Readme.thy ===== *)
theory Readme
  imports Cases Blake2b
begin

text \<open>
  The README of the set (\<open>render_readme\<close> of \<open>build.py\<close>): its fixed text, the table of the books with
  their totals, what each file shows, and the hash of the five printed files.
\<close>

definition readme_set :: "string list" where
  "readme_set =
     [''---'',
      (''approved_by:      # bookkeeper name '' @ u_emdash @ '' empty = PROVISIONAL (ADR 2026-09-05i '' @
       [CHR 0xC2, CHR 0xA7] @ ''3)''),
      ''approved_on:      # YYYY-MM-DD'',
      ''content_hash:     # BLAKE2b-256 over the five reference books' .md files; checked by scripts/check_coverage.dart'',
      ''---'',
      [],
      (''# Reference books '' @ u_emdash @ '' five books, FY 2025-26''),
      [],
      (''**Status: '' @ [CHR 0xE2, CHR 0x9A, CHR 0xA0] @ [CHR 0xEF, CHR 0xB8, CHR 0x8F] @ '' PROVISIONAL '' @
       u_emdash @ '' for the owner's review, then a bookkeeper's sign-off.** Five compact ledger books for 01 Apr 2025 '' @
       u_endash @ '' 31 Mar 2026, written the way a competent Indian bookkeeper keeps such books from real transactions. They are the **target output** of the app (ADR 2026-10-12 '' @
       [CHR 0xC2, CHR 0xA7] @ ''10, reworked by ADR 2026-10-20 '' @ [CHR 0xC2, CHR 0xA7] @ ''2): nothing here was bent to fit `docs/02-ledger-rules.md`, the ADRs or the code; where the app cannot yet produce what a book shows, `GAPS.md` says so, and `COVERAGE.md` says which book and entry shows each ruling of 20 Oct 2026 (`docs/archive/reference/accounting-research/OPEN.md`) and each mechanic of the five practice books that were merged into these five. Everything is generated by `build.py`, asserted to balance, and re-derived from the printed markdown by `check_md.py`; the `.md`, `.html` and `.tech.md` files are outputs, never edited by hand. PDFs are local outputs and git-ignored (ADR 2026-10-12 '' @
       [CHR 0xC2, CHR 0xA7] @ ''11).''),
      [],
      (''**Five books, ADR 2026-10-20 '' @ [CHR 0xC2, CHR 0xA7] @ ''2.** The practice set had ten books; the truck operator, the farmer, the landlord, the contractor and the committee were merged into the kept five (their finished outputs are archived at `docs/archive/reference/practice-books-merged/`): the truck's vehicle loan, the driver's advance and the FASTag wallet are in the individual; the farm's KCC, arhtiya, milk and buffaloes are in Randhawa Agriculture; the landlord's improvement, set-off, forfeiture and write-off are in Randhawa Real Estate; the contractor's retention money, mobilisation advance and supplier advance are in Bal Fabricators; the committee's fund for a purpose is in the trust.''),
      [],
      (''All five carry the owner's real names (ADR 2026-10-12 '' @ [CHR 0xC2, CHR 0xA7] @ ''12, extending ADR 2026-10-11 '' @
       [CHR 0xC2, CHR 0xA7] @ ''2); the people the merged mechanics add (the driver, the foreman, the caretaker, the donors) are made-up names. Every figure is illustrative.''),
      [],
      ''## 1. The set'',
      []]"

definition readme_rules :: "string list" where
  "readme_rules =
     [[],
      (''Sizes (ADR 2026-10-12 '' @ [CHR 0xC2, CHR 0xA7] @ ''11, kept by ADR 2026-10-20 '' @ [CHR 0xC2, CHR 0xA7] @
       ''2): about 40'' @ u_endash @ ''60 entries per book, 25'' @ u_endash @ ''40 for each of the seven Randhawa books; 10'' @
       u_endash @ ''14 A4 pages per book. `build.py` renders every book on its own and **fails when any book prints on more than 14 pages**; `check_md.py` fails on an entry count outside the range. Entry numbers (`JP-017`) are the printed ones.''),
      [],
      ''## 2. Rules every book follows'',
      [],
      ''- **No tax, GST, TDS, invoicing, stock or payroll** (`docs/00-vision.md`, non-goals). Goods bought for sale are spent when bought or taken on credit; there is no closing stock, and the shop's statement says so. A salary is simply paid.'',
      (''- **One basis for every book '' @ u_emdash @ '' the khata basis** (O-01-1): money is recorded when it moves; an amount due to or from a named person when it arises; nothing for the passage of time alone. **Every report head** carries the book, the date or period, the basis in one plain line (*Kept on money paid and received, and what people owe; no year-end adjustments.*), *Year closed* and *Made on* '' @
       u_emdash @ '' a fixed, pinned date, so a rerun is byte-identical (O-01-1, O-20-1, O-20-2).''),
      ''- **Transaction-driven.** Every entry is a real event: money in or out of cash, bank, card, wallet or KCC; credit given or taken with a named person; a transfer between own accounts or into a deposit; an advance and its settlement; a loan instalment as the lender's statement splits it; a partner paying from his own pocket; a correction of a wrong head. Every book has credit given or taken, receipts, a cash withdrawal, a transfer, an advance and a correction.'',
      ''- **One running account per person; its own account for what is not everyday credit.** A deposit held or paid, retention money held back, an advance for spending, and a loan that carries interest each have their own account on the person's page, beside the running account (O-02-4, O-06-4, O-07-1, O-09-8).'',
      (''- **Advances** are settled in one entry (Dr each head '' @ u_middot @ '' Cr *Advance '' @ u_endash @
       '' '' @ ([CHR 0x7B]) @ ''person'' @ ([CHR 0x7D]) @ ''*); the unspent part is returned, left open and carried forward, moved to the person's own account, or written off; a salary advance is recovered in the salary entry (O-07-2'' @
       u_hellip @ ''O-07-5, O-12-3). A balance known not to come back is *Written off* / *Rent written off* (O-06-5, O-12-1, O-18-5); a cash count that differs goes to *Cash short / over* (O-11-1).''),
      ''- **Things owned stay at cost, no depreciation** (O-09-1, O-09-2): every position that shows them prints *Things owned are shown at what they cost; no depreciation is charged.* A thing bought on a loan the lender pays to the seller is one entry (O-09-6); an improvement is added to a building's cost, a repair is an expense (O-18-4).'',
      ''- **Corrections are new entries**, never edits; each correction's note names the entry it fixes, with its number and date (O-11-2, O-11-5).'',
      (''- **The year close is posted by the book itself** (O-19-1): income and expense heads to the result; the result and the drawings to own money; for both partnerships (Bal Fabricators and Randhawa Brick Field) through a posted P&L Appropriation Account to each partner '' @
       u_emdash @ '' interest on capital only where the partners agreed it (Bal Fabricators does, 6% a year on fixed capital; Randhawa Brick Field does not) and only out of profit (O-14-1'' @
       u_hellip @ ''O-14-3); the trust's surplus or deficit to the General Fund; the joint family's to its own money. The entries are printed in the year-end section (numbers ending Y1, Y2 '' @
       u_hellip @ '') and on the last rows of the ledgers they touch; the carry-forward then opens with one own-money figure for each owner; a partnership with fixed capital carries each partner's capital and current account at its own balance (04 '' @
       [CHR 0xC2, CHR 0xA7] @ ''2.6, O-19-1).''),
      (''- **Own business, and a business owned by another book** (O-13-4, O-15-3): the owner's personal book holds the business as one account at the money put in; money the business sends home is *Income from '' @
       ([CHR 0x7B]) @ ''business'' @ ([CHR 0x7D]) @ ''* (the cost method), the same as the joint family's. A household's statement is *Income & Expenses*, its result *Saving* or *Spent more than came in*; loans, money returned, transfers between own accounts and a matured deposit are never income (O-13-5).''),
      (''- **A fund is money for one purpose** (O-17-1, O-17-2): gifts for it and its deposit's interest are added to it; spending from it is one action '' @
       u_emdash @ '' the cost is charged to Income & Expenditure and the same amount is moved out of the fund (two postings in the technical companion). The gollak count records the donation, and emptying the box is a transfer (O-17-8); a thing donated and kept is entered at '' @
       u_rupee @ ''1 with its estimated value in the note (O-17-7).''),
      (''- **Plain words, true side in brackets** (ADR 2026-10-12 '' @ [CHR 0xC2, CHR 0xA7] @ ''2, ADR 2026-10-10b '' @
       [CHR 0xC2, CHR 0xA7] @ ''4): *Money in (Dr) / Money out (Cr)*, *You will get (Dr) / You will give (Cr)*, *Given (Dr) / Received (Cr)* '' @
       u_hellip @ '' Engine names, rule references, '' @ [CHR 0xE2, CHR 0x9A, CHR 0xA0] @ [CHR 0xEF, CHR 0xB8, CHR 0x8F] @
       '' notes and checks never appear on a printed book '' @ u_emdash @ '' `build.py` refuses to write one that does (`lint_plain`), and `check_md.py` checks the same independently. Each book's `.tech.md` maps every account to its standard type, traditional class and generator kind, every entry to its formal voucher type and the 02 '' @
       [CHR 0xC2, CHR 0xA7] @ ''2 verb it needs, and lists the year-close entries.''),
      (''- **No registers and no entry tags** (owner, 12 Oct 2026; GAPS A7). A trip, a tenant or a member is an account the user names; *who owes what, and since when* is the ageing list (up to 30 '' @
       u_middot @ '' 31'' @ u_endash @ ''90 '' @ u_middot @ '' over 90 days, oldest settled first '' @ u_emdash @ '' O-20-9).''),
      (''- **Inter-book money** goes through an account named after the other book '' @ u_emdash @ '' never *Due to/from* (a sole proprietor's business book names its capital and drawings accounts after the owner, whose personal book is the other book) '' @
       u_emdash @ '' written in both books, and each file with more than one book ends with a summary showing every pair agreeing entry for entry (O-15-*, O-16-*). A pair is carried forward by default, or settled when the books agree to.''),
      [],
      ''## 3. Layout of every book (the owner's order)'',
      [],
      ''The printed book (`<file>.md` / `.html` / local `.pdf`); every numbered heading is followed by its head line:'',
      [],
      (''1. **Accounts and opening balances** '' @ u_emdash @ '' every account with its plain type and what it is; Dr total = Cr total.''),
      (''2. **Every account (ledger)** '' @ u_emdash @ '' Date '' @ u_middot @ '' No. '' @ u_middot @ '' Particulars (*To '' @
       u_hellip @ ''* / *By '' @ u_hellip @ ''*, with the entry's note in small type) '' @ u_middot @ '' plain Dr column '' @
       u_middot @ '' plain Cr column '' @ u_middot @ '' Balance '' @ u_middot @ '' Side. Balance accounts open *Opening balance b/f* and end *Closing balance c/d '' @
       u_middot @ '' Total '' @ u_middot @ '' Opening balance b/d*, the opening and closing balances standing in the amount column of their side so that each column adds up to the Total; income and expense accounts end with *Total for the year*; the own-money, drawings and head accounts end with their year-close row.''),
      (''3. **Positions and statements during the year** '' @ u_emdash @ '' the full position at 30 Sep 2025 and 31 Mar 2026 with how the own money is made up; **one month** (October 2025) as an account-by-account summary; **one account for a chosen period** (the statement a user shares); **You will get / You will give** with ageing; and, where the user works from a bank statement '' @
       u_emdash @ '' the individual (both books) and the shop '' @ u_emdash @ '' one month's **bank statement '' @
       [CHR 0xE2, CHR 0x86, CHR 0x92] @ '' entries** table.''),
      (''4. **Year end** '' @ u_emdash @ '' trial balance (closing balances only, O-19-2); Receipts & Payments (trust); the year's statement (Profit & Loss, Income & Expenditure, Income & Expenses for a household), with the no-stock line for the shop; **each fund's statement** (trust); the P&L Appropriation Account (the two partnerships); **the year-close entries**; the Balance Sheet (with the partners' table where there are partners); the carry-forward into FY 2026-27.''),
      [],
      (''**The export** (`<file>.export.md` / `.html`): the **Day Book** (every entry, its plain type, Dr and Cr accounts, amount, note) and the **Cash Book** (cash and the bank, a column for each on the Money in and the Money out side, a transfer between them on both sides, with each month's totals and balances '' @
       u_emdash @ '' 04 '' @ [CHR 0xC2, CHR 0xA7] @ ''5.4) '' @ u_emdash @ '' what the app gives when the user downloads them, for any period and with or without notes; here the full year, with notes. They are not part of the printed book; there is no separate Bank Book, since the bank has its column in the Cash Book (ADR 2026-10-12 '' @
       [CHR 0xC2, CHR 0xA7] @ ''11, amended 13 Oct 2026). The year-close entries are made by the book and are not in the Day Book. When printing or exporting, the app lets the user choose **All**, or a multi-select of the sections and the accounts to include, for any period and with or without notes.''),
      [],
      ''## 4. What each file shows'',
      []]"

definition readme_rest :: "string list" where
  "readme_rest =
     [[],
      ''## 5. Rulings applied, and readings still open'',
      [],
      ''Ruled by the owner, 13 Oct 2026, and kept:'',
      [],
      (''- **Trust '' @ u_emdash @ '' *Dairy Donation* is income** (donations received for the dairy). **Trust '' @
       u_emdash @ '' *Construction* is an expense head** (O-09-7), so the langar hall is in Income & Expenditure; the part paid from the Langar Hall Fund is moved out of the fund in the same entry.''),
      (''- **Joint family '' @ u_emdash @ '' the joint book is *Randhawa Joint Family*.** It keeps **one running account per sub-family**: household money given and bills the family pays for that household on the Dr side; what the household puts in '' @
       u_emdash @ '' into the family, or straight into a family business '' @ u_emdash @ '' on the Cr side. It is not a debt: at the year end it is **settled or carried forward**, as the family decides (O-15-5). The book shows both ways: Amarjeet's account settled on 31 Mar (the family bears it as his household's expenses); Lakhwinder's carried forward, including '' @
       u_rupee @ ''1,00,000 he put straight into the brick field. Lakhbeer's '' @ u_rupee @ ''50,000 taken *to be returned* is kept on its own udhaar page in both books, not on his running account (owner, 27 Oct 2026): part returned by paying a brick-field bill from his own money (written in three books), the rest paid back by bank in March.''),
      (''- **Joint family '' @ u_emdash @ '' family businesses** are held at the money the family put in; money a business sends home is the family's income (*Income from '' @
       u_hellip @ ''*); the business's profit is computed in its own book and stated in the family summary (O-15-3, O-15-4).''),
      [],
      ''Ruled by the product architect on the owner's delegation, 20 Oct 2026 (`docs/archive/reference/accounting-research/OPEN.md`, all 125 rows), applied here: the khata basis and the report head; the posted year close and the partnership appropriation; the individual's income from his business; retention, advances and loans in their own accounts; write-offs and *Cash short / over*; things at cost; the no-stock line; the trust's three statements and each fund's; the ageing buckets; the joint-family pairs. `COVERAGE.md` maps each ruling to the entries that show it and lists the ruled rows these books do not show, with the reason.'',
      [],
      ''Still open:'',
      [],
      (''- '' @ [CHR 0xE2, CHR 0x9A, CHR 0xA0] @ [CHR 0xEF, CHR 0xB8, CHR 0x8F] @ '' **Bookkeeper's review.** Every ruling of 20 Oct 2026 goes to the bookkeeper (research outline, step 5) together with these books; the books follow the rulings as written, and where a ruling and the books seem to differ the ruling is right and the books are to be fixed.''),
      (''- **Compact entries** (owner, 26 Oct 2026). To keep each book to about 50 entries, a recurring item is written once for a quarter or a half-year '' @
       u_emdash @ '' a quarter's wages, a half-year's groceries on credit, a quarter's counter sales '' @
       u_emdash @ '' and the note says what period it covers. These books show each kind of entry and every report done correctly; they do not show how often an entry recurs. In the app every bank line is imported as its own entry, and the user gives each one its account and, if they wish, a note (07 '' @
       [CHR 0xC2, CHR 0xA7] @ ''11); entries typed by hand are entered as they happen.''),
      (''- '' @ [CHR 0xE2, CHR 0x9A, CHR 0xA0] @ [CHR 0xEF, CHR 0xB8, CHR 0x8F] @ '' **What the app does today contradicts some rulings** (02 '' @
       [CHR 0xC2, CHR 0xA7] @ ''5 amends a posted entry where the rulings correct by a new entry; 02 '' @
       [CHR 0xC2, CHR 0xA7] @ ''7 requires approval for an advance; ADR 2026-09-05e '' @ [CHR 0xC2, CHR 0xA7] @
       ''2 keeps drawings separate where the rulings close them to capital) '' @ u_emdash @ '' taken up once, in the app-requirements pass after the bookkeeper's review (ADR 2026-10-20, Consequences). `GAPS.md` lists them.''),
      [],
      (''## 6. Sources (bookkeeping only '' @ u_emdash @ '' no tax sources)''),
      [],
      (''- ICAI Board of Studies, CA Foundation *Principles and Practice of Accounting* '' @ u_emdash @
       '' *Financial Statements of Not-for-Profit Organisations* (Receipts & Payments as the summary of the cash book; Income & Expenditure; a fund for a special purpose credited with its donations and debited with its spending) and *Accounting for Partnership* (fixed and fluctuating capital, P&L Appropriation, interest on capital out of profit only).''),
      (''- ICAI, AS 10 *Property, Plant and Equipment* (revised 2016), paras 7, 17'' @ u_endash @ ''18, 20 '' @
       u_emdash @ '' what goes into the cost of a thing owned (the car's price, the plot's stamp duty, the mezzanine floor); used only for cost '' @
       u_emdash @ '' no depreciation is posted.''),
      ''- The twenty research notes and `docs/archive/reference/accounting-research/OPEN.md`, whose rulings the books follow.'',
      [],
      ''## 7. Regenerating and checking'',
      [],
      ''- `python3 -I build.py` in this folder regenerates every file (`--no-pdf` skips Chrome and the page check; `--chrome PATH`; `--skip-check` skips the checker). Standard library only, integer paise, no clock, no randomness; two runs give byte-identical `.md`, `.html` and `.tech.md` (PDF dates and ids are pinned too).'',
      ''- **`build.py` asserts** on every run: every entry sums to zero with at least two lines and no account twice; money in/out touches a money account and no-money entries do not (a Money out may also credit an advance it recovers or the lender's part of a purchase); a transfer joins two own money/deposit accounts; spending from a fund charges the year and moves the same amount out of the fund; the gollak is filled only by a count and emptied only into cash or bank; openings and the trial balance balance; cash, bank and wallet never go negative, a credit card never goes past nil; advances, loans given, retention, things owned and deposits are never over-settled; fixed capital never moves; every year-close entry balances and leaves every head, the drawings and the result account at nil; the position make-up equals the position at both dates; the balance sheet balances; the carry-forward sums to zero; every inter-book pair agrees entry for entry; the entry count is in range; no book prints on more than 14 pages.'',
      ''- **`check_md.py`** (no code shared with `build.py`) re-derives every printed figure from the markdown: chart, Day Book, every ledger row (including the year-close rows), the Cash Book, the bank extract, both positions and their make-up, the one-month summary (and that it does not repeat the entries), the chosen-period statement, the ageing, the trial balance, the year's statement, each fund's statement, the appropriation (interest from the printed rate and capital; each share within a paisa of the exact ratio, and posted to the partners' accounts), Receipts & Payments, the year-close entries, the balance sheet and partners' table, the carry-forward after the close, the family summaries, the report heads, the things-owned and no-stock lines, the corrections' notes, the entry counts and the plain-word lint. `build.py` runs it and stops before making PDFs if it fails.'']"

definition readme_close :: "string list" where
  "readme_close =
     [[],
      (''## 8. For development '' @ u_emdash @ '' `GAPS.md` and `COVERAGE.md`''),
      [],
      ''`GAPS.md` lists, with entry numbers from these books, every place where producing them needs something the app's rules do not yet provide, and the order in which those gaps steer development. `COVERAGE.md` maps every ruled row of `OPEN.md` that a book can show, and every merged mechanic, to the book and entries that demonstrate it, and lists the ruled rows deliberately not shown.'',
      []]"

section \<open>The table of the books\<close>

text \<open>The heads' names; what came in, what was spent, and the debit total of the trial balance.\<close>

definition readme_heads :: "string list" where
  "readme_heads = [(''File (`.md` '' @ u_middot @ '' `.html` '' @ u_middot @ '' `.tech.md` '' @ u_middot @ '' `.export.md` '' @ u_middot @
       '' local `.pdf`)''), ''Book'', ''Kind'', ''Prefix'', ''Entries'', ''Accounts'', (''Trial balance '' @ u_rupee), (''Income '' @ u_rupee), (''Spent '' @ u_rupee), (''Result '' @ u_rupee)]"

definition readme_row :: "case_doc \<Rightarrow> nat \<times> posted_book \<Rightarrow> string list" where
  "readme_row c kb = (case kb of (k, b) \<Rightarrow>
     let inc = (\<Sum>a\<leftarrow>accounts b. if kind a = Income then - closing a else 0);
         exp = (\<Sum>a\<leftarrow>accounts b. if kind a = Expense then closing a else 0);
         tb = (\<Sum>a\<leftarrow>accounts b. if closing a > 0 then closing a else 0)
     in [if k = 0 then ''`'' @ slug c @ ''`'' else [], bname b, kindword b, ''`'' @ prefix b @ ''`'',
         str_nat (int (length (vouchers b))), str_nat (int (length (accounts b))), fmt tb, fmt inc, fmt exp, fmt (inc - exp)])"

definition readme_table :: "case_doc list \<Rightarrow> string list" where
  "readme_table cs =
     table readme_heads [AL, AL, AL, AL, AR, AR, AR, AR, AR, AR]
       (concat (map (\<lambda>c. map (readme_row c) (List.enumerate 0 (books c))) cs))"

definition readme_shows :: "case_doc \<Rightarrow> string" where
  "readme_shows c = (''- **'' @ (title c) @ ''** '' @ u_emdash @ '' '' @ (join_str ''; '' (demonstrates c)) @ ''.'')"

text \<open>The five printed files, in the order of their names, hashed as one text.\<close>

definition content_hash :: "(case_doc \<times> string) list \<Rightarrow> string" where
  "content_hash cms = blake2b (concat (map snd (sort_key (\<lambda>cm. slug (fst cm)) cms)))"

definition render_readme :: "(case_doc \<times> string) list \<Rightarrow> string" where
  "render_readme cms =
     (let cs = map fst cms
      in join_str [nl]
           (readme_set @ readme_table cs @ readme_rules @ map readme_shows cs @ readme_rest
            @ [(''- Content hash (BLAKE2b-256 over the five book `.md` files) of this generation: `'' @ (content_hash cms) @
       ''`.'')] @ readme_close) @ [nl])"

end
