(* ===== verification/Html.thy ===== *)
theory Html
  imports Regex Markdown
begin

text \<open>
  From Markdown to the self-contained page (\<open>inline_md\<close> and \<open>md_to_html\<close> of \<open>build.py\<close>): paragraphs,
  headings, lists and tables, line by line, with the one open list as the state.
\<close>

section \<open>Inside a line\<close>

text \<open>\<open>html.escape\<close>, without and with the quotes.\<close>

definition html_escape :: "bool \<Rightarrow> string \<Rightarrow> string" where
  "html_escape quotes s =
     (let t = str_replace ''>'' ''&gt;'' (str_replace ''<'' ''&lt;'' (str_replace ''&'' ''&amp;'' s))
      in if quotes then str_replace [CHR 0x27] ''&#x27;'' (str_replace ''\"'' ''&quot;'' t) else t)"

definition inline_md :: "string \<Rightarrow> string" where
  "inline_md s =
     (let s = html_escape False s;
          s = str_replace ''&lt;/em&gt;'' ''</em>'' (str_replace ''&lt;em&gt;'' ''<em>'' (str_replace ''&lt;br&gt;'' ''<br>'' s));
          s = re_sub (Seq [Lit ''`'', Grp 1 (Some_of (Cls (\<lambda>x. x \<notin> set ''`''))), Lit ''`'']) (\<lambda>g. ''<code>'' @ grp g 1 @ ''</code>'') s;
          s = re_sub (Seq [Lit ''**'', Grp 1 (Few_of (Cls any_char)), Lit ''**'']) (\<lambda>g. ''<strong>'' @ grp g 1 @ ''</strong>'') s;
          s = re_sub (Seq [Unless_before (\<lambda>x. word_char x \<or> x \<in> set ''*''), Lit ''*'', Grp 1 (Few_of (Cls (\<lambda>x. \<not> (x = nl \<or> x \<in> set ''*'')))), Lit ''*'', Unless_after (\<lambda>x. word_char x \<or> x \<in> set ''*'')]) (\<lambda>g. ''<em>'' @ grp g 1 @ ''</em>'') s
      in re_sub (Seq [Lit ''['', Grp 1 (Some_of (Cls (\<lambda>x. x \<notin> set '']''))), Lit '']('', Grp 2 (Some_of (Cls (\<lambda>x. x \<notin> set '')''))), Lit '')'']) (\<lambda>g. ''<a href=\"'' @ grp g 2 @ ''\">'' @ grp g 1 @ ''</a>'') s)"

section \<open>Line by line\<close>

record page =
  pout :: "string list"
  in_list :: "string option"
  para :: "string list"

definition emit :: "string \<Rightarrow> page \<Rightarrow> page" where
  "emit x st = st\<lparr>pout := pout st @ [x]\<rparr>"

definition flush_para :: "page \<Rightarrow> page" where
  "flush_para st =
     (if para st \<noteq> [] then emit (''<p>'' @ inline_md (join_str '' '' (para st)) @ ''</p>'') st\<lparr>para := []\<rparr> else st)"

definition end_list :: "page \<Rightarrow> page" where
  "end_list st = (case in_list st of None \<Rightarrow> st | Some t \<Rightarrow> (emit (''</'' @ t @ ''>'') st)\<lparr>in_list := None\<rparr>)"

definition ends_block :: "page \<Rightarrow> page" where
  "ends_block st = end_list (flush_para st)"

text \<open>The cells of a row, and the classes of a separator line.\<close>

definition strip_bars :: "string \<Rightarrow> string" where
  "strip_bars s = rev (dropWhile (\<lambda>c. c = CHR ''|'') (rev (dropWhile (\<lambda>c. c = CHR ''|'') s)))"

definition html_cells :: "string \<Rightarrow> string list" where
  "html_cells ln = map strip (split_sub '' | '' (strip_bars (strip ln)))"

definition align_class :: "string \<Rightarrow> string" where
  "align_class c =
     (let c = strip c
      in if starts_with '':'' c \<and> ends_with '':'' c then ''c'' else if ends_with '':'' c then ''r'' else ''l'')"

definition html_aligns :: "string \<Rightarrow> string list" where
  "html_aligns ln = map align_class (split_on (CHR ''|'') (strip_bars (strip ln)))"

definition html_row :: "string \<Rightarrow> string list \<Rightarrow> string list \<Rightarrow> string" where
  "html_row tag aligns row =
     concat (map (\<lambda>k. ''<'' @ tag @ '' class=\"'' @ (if k < length aligns then aligns ! k else ''l'') @ ''\">''
                      @ inline_md (row ! k) @ ''</'' @ tag @ ''>'') [0..<length row])"

definition table_line :: "string \<Rightarrow> string list \<Rightarrow> bool" where   \<comment> \<open>a row, and a separator line below it\<close>
  "table_line ln below =
     (starts_with ''|'' ln \<and> below \<noteq> [] \<and> matches (Seq [Bol, Lit ''|'', Some_of (Cls (among '':-| '')), Lit ''|'', Eol]) (strip (hd below)))"

definition html_table :: "string \<Rightarrow> string \<Rightarrow> string list \<Rightarrow> page \<Rightarrow> page" where
  "html_table ln sep rs st =
     (let aligns = html_aligns sep;
          st = emit (''<table><thead><tr>'' @ html_row ''th'' aligns (html_cells ln) @ ''</tr></thead><tbody>'') (ends_block st);
          st = fold (\<lambda>r. emit (''<tr>'' @ html_row ''td'' aligns (html_cells r) @ ''</tr>'')) rs st
      in emit ''</tbody></table>'' st)"

definition HEADING :: rx where
  "HEADING = (Seq [Bol, Grp 1 (Seq [Lit ''#'', Upto 5 (Lit ''#'')]), Lit '' '', Grp 2 (Many (Cls any_char)), Eol])"

definition ITEM :: rx where
  "ITEM = (Seq [Bol, Grp 1 (Many (Cls is_space)), Grp 2 (Alt (Cls (among ''-*'')) (Seq [Some_of (Cls is_digit), Lit ''.''])), Lit '' '', Grp 3 (Many (Cls any_char)), Eol])"

definition html_heading :: "groups \<Rightarrow> page \<Rightarrow> page" where
  "html_heading g st =
     (let lvl = str_nat (int (length (grp g 1)))
      in emit (''<h'' @ lvl @ ''>'' @ inline_md (grp g 2) @ ''</h'' @ lvl @ ''>'') (ends_block st))"

definition open_list :: "string \<Rightarrow> page \<Rightarrow> page" where
  "open_list t st =
     (if in_list st = Some t then st else (emit (''<'' @ t @ ''>'') (end_list st))\<lparr>in_list := Some t\<rparr>)"

definition html_item :: "groups \<Rightarrow> page \<Rightarrow> page" where
  "html_item g st =
     (let t = (if is_digit (hd (grp g 2)) then ''ol'' else ''ul'')
      in emit (''<li>'' @ inline_md (grp g 3) @ ''</li>'') (open_list t (flush_para st)))"

function html_lines :: "page \<Rightarrow> string list \<Rightarrow> page" where
  "html_lines st [] = ends_block st"
| "html_lines st (ln # rest) =
     (if table_line ln rest
      then html_lines (html_table ln (hd rest) (takeWhile is_row (tl rest)) st) (dropWhile is_row (tl rest))
      else case re_match HEADING ln of
             Some g \<Rightarrow> html_lines (html_heading g st) rest
           | None \<Rightarrow> (case re_match ITEM ln of
               Some g \<Rightarrow> html_lines (html_item g st) rest
             | None \<Rightarrow> if strip ln = [] then html_lines (ends_block st) rest
                      else html_lines (st\<lparr>para := para st @ [ln]\<rparr>) rest))"
  by pat_completeness auto
termination
proof (relation "measure (\<lambda>(st, ls). length ls)")
  fix st ln and rest :: "string list"
  assume "table_line ln rest"
  then show "((html_table ln (hd rest) (takeWhile is_row (tl rest)) st, dropWhile is_row (tl rest)), st, ln # rest)
      \<in> measure (\<lambda>(st, ls). length ls)"
    using length_dropWhile_le [of is_row "tl rest"] by (simp add: le_imp_less_Suc le_trans)
qed auto

definition CSS :: string where
  "CSS = [nl] @ concat (map (\<lambda>l. l @ [nl])
     [''@page { size: A4; margin: 13mm 12mm 14mm 12mm; }'',
      ''html { font-size: 10.5px; }'',
      ''body { font-family: -apple-system, \"Helvetica Neue\", Helvetica, Arial, \"Noto Sans\", sans-serif; color: #111; margin: 0; padding: 0 2mm; line-height: 1.35; max-width: 100%; }'',
      ''h1 { font-size: 2em; margin: 0 0 .4em 0; }'',
      ''h2 { font-size: 1.45em; margin: 1.3em 0 .4em 0; border-bottom: 1.5px solid #333; padding-bottom: .15em; page-break-after: avoid; }'',
      ''h3 { font-size: 1.18em; margin: 1.1em 0 .3em 0; page-break-after: avoid; }'',
      ''h4 { font-size: 1.02em; margin: .9em 0 .25em 0; page-break-after: avoid; }'',
      ''p { margin: .35em 0 .55em 0; }'',
      ''ul, ol { margin: .3em 0 .7em 1.2em; padding: 0; }'',
      ''li { margin: .15em 0; }'',
      ''table { border-collapse: collapse; width: 100%; margin: .35em 0 .9em 0; page-break-inside: auto; font-variant-numeric: tabular-nums; }'',
      ''tr { page-break-inside: avoid; }'',
      ''th, td { border: .5px solid #999; padding: 2.2px 4px; vertical-align: top; font-size: .95em; }'',
      ''th { background: #eee; text-align: left; font-weight: 600; }'',
      ''td.r, th.r { text-align: right; white-space: nowrap; }'',
      ''td.c, th.c { text-align: center; }'',
      ''em { color: #444; }'',
      ''td em { font-size: .86em; color: #555; }'',
      ''code { font-family: Menlo, Consolas, monospace; font-size: .92em; background: #f3f3f3; padding: 0 2px; }'',
      ''hr { border: 0; border-top: 1px solid #bbb; margin: 1.2em 0; }'',
      ''thead { display: table-header-group; }'',
      ''@media screen and (max-width: 600px) { html { font-size: 12px; } body { padding: 0 8px; } table { display: block; overflow-x: auto; } }'',
      ''@media print { a { color: inherit; text-decoration: none; } }''])"

definition blank_page :: page where
  "blank_page = \<lparr>pout = [], in_list = None, para = []\<rparr>"

definition md_to_html :: "string \<Rightarrow> string \<Rightarrow> string" where
  "md_to_html md title =
     ''<!doctype html>'' @ [nl] @ ''<html lang=\"en\"><head><meta charset=\"utf-8\">'' @ [nl]
     @ ''<meta name=\"viewport\" content=\"width=device-width, initial-scale=1\">'' @ [nl]
     @ ''<title>'' @ html_escape True title @ ''</title>'' @ [nl] @ ''<style>'' @ CSS @ ''</style></head><body>'' @ [nl]
     @ join_str [nl] (pout (html_lines blank_page (split_on nl md))) @ [nl] @ ''</body></html>'' @ [nl]"

section \<open>Well-nested pages\<close>

text \<open>How a line of the page changes the open list: a list opens where none is open and closes the one that
  is open, an item stands in a list, a heading and a table stand outside.  A paragraph may stand in a list.\<close>

definition nest_step :: "string option \<Rightarrow> string \<Rightarrow> string option option" where
  "nest_step cur x =
     (if x = ''<ul>'' \<or> x = ''<ol>'' then (if cur = None then Some (Some (butlast (tl x))) else None)
      else if x = ''</ul>'' \<or> x = ''</ol>'' then (if cur = Some (butlast (tl (tl x))) then Some None else None)
      else if starts_with ''<li>'' x then (if cur \<noteq> None then Some cur else None)
      else if starts_with ''<p>'' x then Some cur
      else (if cur = None then Some None else None))"

fun nest :: "string option \<Rightarrow> string list \<Rightarrow> string option option" where
  "nest cur [] = Some cur"
| "nest cur (x # xs) = (case nest_step cur x of None \<Rightarrow> None | Some cur' \<Rightarrow> nest cur' xs)"

lemma nest_append: "nest cur (xs @ ys) = (case nest cur xs of None \<Rightarrow> None | Some cur' \<Rightarrow> nest cur' ys)"
  by (induction xs arbitrary: cur) (auto split: option.splits)

definition nested_page :: "page \<Rightarrow> bool" where
  "nested_page st = (nest None (pout st) = Some (in_list st) \<and> in_list st \<in> {None, Some ''ul'', Some ''ol''})"

lemma flush_para_nested: "nested_page st \<Longrightarrow> nested_page (flush_para st) \<and> in_list (flush_para st) = in_list st"
  by (auto simp: nested_page_def flush_para_def emit_def nest_append nest_step_def)

lemma end_list_nested: "nested_page st \<Longrightarrow> nested_page (end_list st) \<and> in_list (end_list st) = None"
  by (auto simp: nested_page_def end_list_def emit_def nest_append nest_step_def)

lemma ends_block_nested: "nested_page st \<Longrightarrow> nested_page (ends_block st) \<and> in_list (ends_block st) = None"
  by (simp add: ends_block_def end_list_nested flush_para_nested)

text \<open>A line that is no list tag, item or paragraph, where no list is open.\<close>

definition outside :: "string \<Rightarrow> bool" where
  "outside x = (x \<notin> {''<ul>'', ''<ol>'', ''</ul>'', ''</ol>''} \<and> \<not> starts_with ''<li>'' x \<and> \<not> starts_with ''<p>'' x)"

lemma emit_outside:
  "nested_page st \<Longrightarrow> in_list st = None \<Longrightarrow> outside x \<Longrightarrow> nested_page (emit x st) \<and> in_list (emit x st) = None"
  by (auto simp: nested_page_def emit_def nest_append nest_step_def outside_def)

lemma emit_rows_outside:
  "nested_page st \<Longrightarrow> in_list st = None \<Longrightarrow> list_all (\<lambda>r. outside (f r)) rs \<Longrightarrow>
   nested_page (fold (\<lambda>r. emit (f r)) rs st) \<and> in_list (fold (\<lambda>r. emit (f r)) rs st) = None"
  by (induction rs arbitrary: st) (auto dest: emit_outside)

lemma html_table_nested: "nested_page st \<Longrightarrow> nested_page (html_table ln sep rs st)"
  unfolding html_table_def Let_def
  by (intro conjunct1 [OF emit_outside] conjunct1 [OF emit_rows_outside] conjunct2 [OF emit_outside] conjunct2 [OF emit_rows_outside])
     (auto simp: outside_def list_all_iff ends_block_nested)

lemma html_heading_nested: "nested_page st \<Longrightarrow> nested_page (html_heading g st)"
  unfolding html_heading_def Let_def
  by (rule conjunct1 [OF emit_outside]) (auto simp: outside_def ends_block_nested)

lemma html_item_nested:
  assumes "nested_page st"
  shows "nested_page (html_item g st)"
proof -
  let ?t = "if is_digit (hd (grp g 2)) then ''ol'' else ''ul''"
  have "nested_page (open_list ?t (flush_para st)) \<and> in_list (open_list ?t (flush_para st)) = Some ?t"
    using flush_para_nested [OF assms] end_list_nested [of "flush_para st"]
    by (auto simp: open_list_def nested_page_def emit_def nest_append nest_step_def)
  then show ?thesis
    by (auto simp: html_item_def Let_def nested_page_def emit_def nest_append nest_step_def)
qed

lemma html_lines_nested: "nested_page st \<Longrightarrow> nested_page (html_lines st ls) \<and> in_list (html_lines st ls) = None"
proof (induction st ls rule: html_lines.induct)
  case (2 st ln rest)
  have "nested_page (st\<lparr>para := para st @ [ln]\<rparr>)" using "2.prems" by (simp add: nested_page_def)
  then show ?case
    using 2 by (auto simp: html_table_nested html_heading_nested html_item_nested ends_block_nested split: option.splits)
qed (simp add: ends_block_nested)

text \<open>C35. Whatever Markdown the page is made of, its lists are well nested: a list opens only where none is
  open, every one that opens is closed by its own tag, items stand only in a list and headings and tables only
  outside one, and no list is open at the end.\<close>

theorem pages_nest: "nest None (pout (html_lines blank_page (split_on nl md))) = Some None"
  using html_lines_nested [of blank_page "split_on nl md"] by (simp add: nested_page_def blank_page_def)

section \<open>A printed table on the page\<close>

lemma many_step:
  assumes "(q, g) \<in> set (rm r p)" "length (snd q) < length (snd p)" "(q', g') \<in> set (rm (Many r) q)"
  shows "(q', g' @ g) \<in> set (rm (Many r) p)"
  unfolding rm.simps(6) [of r p] using assms by (force simp: then_all_def simp del: rm.simps)

lemma many_class:
  "list_all P m \<Longrightarrow> \<exists>q g. (q, g) \<in> set (rm (Many (Cls P)) (c, m @ rest)) \<and> snd q = rest"
proof (induction m arbitrary: c)
  case Nil
  have "((c, rest), []) \<in> set (rm (Many (Cls P)) (c, rest))"
    unfolding rm.simps(6) [of "Cls P" "(c, rest)"] by simp
  then show ?case by auto
next
  case (Cons x m)
  obtain q g where q: "(q, g) \<in> set (rm (Many (Cls P)) (Some x, m @ rest))" "snd q = rest"
    using Cons.IH [of "Some x"] Cons.prems unfolding list.pred_inject by blast
  have "rm (Cls P) (c, (x # m) @ rest) = [((Some x, m @ rest), [])]"
    using Cons.prems by (simp add: advance_def)
  then have "((Some x, m @ rest), []) \<in> set (rm (Cls P) (c, (x # m) @ rest))" by simp
  then have "(q, g @ []) \<in> set (rm (Many (Cls P)) (c, (x # m) @ rest))"
    by (rule many_step [OF _ _ q(1)]) simp
  with q(2) show ?case by blast
qed

lemma cat_member:
  "(q, g) \<in> set (rm r p) \<Longrightarrow> (q', g') \<in> set (rm s q) \<Longrightarrow> (q', g' @ g) \<in> set (rm (Cat r s) p)"
  by (force simp: then_all_def)

lemma separator_matches:
  assumes "list_all (among '':-| '') m" "m \<noteq> []"
  shows "matches (Seq [Bol, Lit ''|'', Some_of (Cls (among '':-| '')), Lit ''|'', Eol]) (''|'' @ m @ ''|'')"
proof -
  obtain x xs where m: "m = x # xs" using assms(2) by (cases m) auto
  obtain q g where q: "(q, g) \<in> set (rm (Many (Cls (among '':-| ''))) (Some x, xs @ ''|''))" "snd q = ''|''"
    using many_class [of "among '':-| ''" xs "Some x" "''|''"] assms(1) unfolding m list.pred_inject by blast
  have some: "(q, g @ []) \<in> set (rm (Some_of (Cls (among '':-| ''))) (Some CHR ''|'', m @ ''|''))"
    unfolding Some_of_def by (rule cat_member [OF _ q(1)]) (use assms(1) m in \<open>simp add: advance_def\<close>)
  obtain c where c: "q = (c, ''|'')" using q(2) by (cases q) auto
  have "((Some CHR ''|'', []), []) \<in> set (rm (Cat (Lit ''|'') (Cat Eol Emp)) q)"
    by (simp add: c advance_def then_all_def)
  then have "rm (Seq [Bol, Lit ''|'', Some_of (Cls (among '':-| '')), Lit ''|'', Eol]) (None, ''|'' @ m @ ''|'') \<noteq> []"
    unfolding Seq_def using cat_member [OF some] cat_member [of "(Some CHR ''|'', m @ ''|'')" "[]" "Lit ''|''" "(None, ''|'' @ m @ ''|'')"]
      cat_member [of "(None, ''|'' @ m @ ''|'')" "[]" Bol "(None, ''|'' @ m @ ''|'')"]
    by (fastforce simp: advance_def simp del: rm.simps(4))
  then show ?thesis by (auto simp: matches_def re_match_def split: list.splits)
qed

lemma strip_bars_id:
  assumes "s \<noteq> []" "hd s \<noteq> CHR ''|''" "last s \<noteq> CHR ''|''"
  shows "strip_bars (''|'' @ s @ ''|'') = s"
proof -
  have "dropWhile (\<lambda>c. c = CHR ''|'') (''|'' @ s @ ''|'') = s @ ''|''"
    using assms(1,2) by (cases s) auto
  moreover have "dropWhile (\<lambda>c. c = CHR ''|'') (rev (s @ ''|'')) = rev s"
    using assms(1,3) by (cases s rule: rev_cases) auto
  ultimately show ?thesis by (simp add: strip_bars_def)
qed

lemma html_cells_row: "row_ok r \<Longrightarrow> html_cells (table_row r) = r"
proof -
  assume r: "row_ok r"
  let ?s = "'' '' @ join_str '' | '' r @ '' ''"
  have row: "table_row r = ''|'' @ ?s @ ''|''" by (simp add: table_row_def)
  then have "butlast (tl (table_row r)) = ?s" by (simp add: butlast_append)
  with cells_table_row [OF r] have "map strip (split_sub '' | '' ?s) = r"
    by (simp add: cells_def Let_def strip_table_row ebind_Inr)
  moreover have "strip_bars (table_row r) = ?s" unfolding row by (rule strip_bars_id) simp_all
  ultimately show ?thesis by (simp add: html_cells_def strip_table_row)
qed

fun align_letter :: "align \<Rightarrow> string" where
  "align_letter AL = ''l''"
| "align_letter AR = ''r''"
| "align_letter AC = ''c''"

definition sep_text :: "align list \<Rightarrow> string" where
  "sep_text as = join_str ''|'' (map align_sep as)"

lemma sep_text_ends:
  "as \<noteq> [] \<Longrightarrow> sep_text as \<noteq> [] \<and> hd (sep_text as) \<noteq> CHR ''|'' \<and> last (sep_text as) \<noteq> CHR ''|''"
proof (induction as rule: induct_list012)
  case (2 a)
  then show ?case by (cases a) (simp_all add: sep_text_def)
next
  case (3 a b as)
  then show ?case by (cases a) (simp_all add: sep_text_def)
qed simp

lemma sep_text_chars: "set (sep_text as) \<subseteq> set ''-:|''"
proof -
  have "set (align_sep a) \<subseteq> set ''-:|''" for a by (cases a) auto
  then show ?thesis using set_join_str [of "''|''" "map align_sep as"] by (fastforce simp: sep_text_def)
qed

lemma strip_sep: "strip (''|'' @ sep_text as @ ''|'') = ''|'' @ sep_text as @ ''|''"
  by (intro strip_id_ends) (simp_all add: is_space_def)

lemma html_aligns_sep:
  assumes "as \<noteq> []"
  shows "html_aligns (''|'' @ sep_text as @ ''|'') = map align_letter as"
proof -
  have letter: "align_class (align_sep a) = align_letter a \<and> CHR ''|'' \<notin> set (align_sep a)" for a
    by (cases a) (simp_all add: align_class_def strip_def lstrip_def rstrip_def is_space_def ends_with_def)
  have "split_on CHR ''|'' (sep_text as) = map align_sep as"
    unfolding sep_text_def by (rule split_on_join) (use assms letter in auto)
  moreover have "strip_bars (''|'' @ sep_text as @ ''|'') = sep_text as"
    using sep_text_ends [OF assms] by (intro strip_bars_id) auto
  ultimately show ?thesis unfolding html_aligns_def strip_sep by (simp add: letter)
qed

lemma table_line_table: "as \<noteq> [] \<Longrightarrow> table_line (table_row hs) ((''|'' @ sep_text as @ ''|'') # rest)"
proof -
  assume "as \<noteq> []"
  moreover have "list_all (among '':-| '') (sep_text as)"
    using sep_text_chars by (fastforce simp: list_all_iff among_def)
  ultimately show ?thesis
    using separator_matches [of "sep_text as"] sep_text_ends [of as]
    unfolding table_line_def list.sel strip_sep by (simp add: table_row_def)
qed

text \<open>A row of the page: each cell in its own tag, with the class of its column.\<close>

definition page_row :: "string \<Rightarrow> align list \<Rightarrow> string list \<Rightarrow> string" where
  "page_row tag aligns cs =
     concat (map (\<lambda>(a, c). ''<'' @ tag @ '' class=\"'' @ align_letter a @ ''\">'' @ inline_md c @ ''</'' @ tag @ ''>'') (zip aligns cs))"

lemma html_row_page:
  assumes "length row = length as"
  shows "html_row tag (map align_letter as) row = page_row tag as row"
proof -
  have "zip as row = map (\<lambda>k. (as ! k, row ! k)) [0..<length row]"
    using assms by (intro nth_equalityI) auto
  then show ?thesis
    using assms unfolding html_row_def page_row_def by (auto simp: comp_def intro!: arg_cong [where f = concat])
qed

lemma fold_emit: "fold (\<lambda>r. emit (f r)) rs st = st\<lparr>pout := pout st @ map f rs\<rparr>"
  by (induction rs arbitrary: st) (simp_all add: emit_def)

definition page_table :: "string list \<Rightarrow> align list \<Rightarrow> string list list \<Rightarrow> string list" where
  "page_table hs as rs =
     [''<table><thead><tr>'' @ page_row ''th'' as hs @ ''</tr></thead><tbody>'']
     @ map (\<lambda>r. ''<tr>'' @ page_row ''td'' as r @ ''</tr>'') rs @ [''</tbody></table>'']"

text \<open>C32. A table \<open>build.py\<close> prints in Markdown becomes one HTML table on the page, whatever stands above
  and below it: the open paragraph and list are closed first, every heading and every row has its cells in
  order, each in a tag of its own with the class of its column, and no row is lost or taken from what follows.\<close>

theorem tables_become_pages:
  assumes "row_ok hs" "list_all row_ok rs" "as \<noteq> []" "length hs = length as" "list_all (\<lambda>r. length r = length as) rs"
    and "rest = [] \<or> \<not> is_row (hd rest)"
  shows "html_lines st (table hs as rs @ rest)
       = html_lines ((ends_block st)\<lparr>pout := pout (ends_block st) @ page_table hs as rs\<rparr>) rest"
proof -
  have rows: "takeWhile is_row (map table_row rs @ rest) = map table_row rs"
    "dropWhile is_row (map table_row rs @ rest) = rest"
    using assms(6) by (cases rest; auto simp: takeWhile_append dropWhile_append)+
  have "html_row ''td'' (map align_letter as) (html_cells (table_row r)) = page_row ''td'' as r" if "r \<in> set rs" for r
    using assms(2,5) that by (simp add: list_all_iff html_cells_row html_row_page)
  then have cells: "map (\<lambda>r. ''<tr>'' @ html_row ''td'' (map align_letter as) (html_cells r) @ ''</tr>'') (map table_row rs)
      = map (\<lambda>r. ''<tr>'' @ page_row ''td'' as r @ ''</tr>'') rs"
    by simp
  have "html_table (table_row hs) (''|'' @ sep_text as @ ''|'') (map table_row rs) st
      = (ends_block st)\<lparr>pout := pout (ends_block st) @ page_table hs as rs\<rparr>"
    using assms(1,4) cells
    by (simp only: html_table_def Let_def html_aligns_sep [OF assms(3)] fold_emit html_cells_row html_row_page)
       (simp add: emit_def page_table_def)
  note built = this
  let ?below = "(''|'' @ sep_text as @ ''|'') # map table_row rs @ rest"
  have doc: "table hs as rs @ rest = table_row hs # ?below" by (simp add: table_def sep_text_def)
  have "html_lines st (table_row hs # ?below) = html_lines (html_table (table_row hs) (hd ?below)
      (takeWhile is_row (tl ?below)) st) (dropWhile is_row (tl ?below))"
    using table_line_table [OF assms(3), of hs "map table_row rs @ rest"] by (subst html_lines.simps) (rule if_P)
  then show ?thesis unfolding doc list.sel rows built .
qed

theorem tables_become_pages_witness:
  "html_lines blank_page (table [''Account'', ''Rs''] [AL, AR] [[''Cash'', ''1,200'']] @ [[], ''end''])
   = html_lines (blank_page\<lparr>pout := page_table [''Account'', ''Rs''] [AL, AR] [[''Cash'', ''1,200'']]\<rparr>) [[], ''end'']"
proof -
  have "ends_block blank_page = blank_page"
    by (simp add: ends_block_def flush_para_def end_list_def blank_page_def)
  moreover have "row_ok [''Account'', ''Rs''] \<and> row_ok [''Cash'', ''1,200'']" by code_simp
  ultimately show ?thesis
    using tables_become_pages [of "[''Account'', ''Rs'']" "[[''Cash'', ''1,200'']]" "[AL, AR]" "[[], ''end'']" blank_page]
    by (simp add: is_row_def blank_page_def del: html_lines.simps)
qed

end
