(* ===== verification/Checks.thy ===== *)
theory Checks
  imports Calendar Regex Markdown "HOL-Library.AList" "HOL-Library.List_Lexorder" "HOL-Library.Char_ord" "HOL-Library.Product_Lexorder"
begin

text \<open>
  What the independent checker \<open>check_md.py\<close> runs on: \<open>ok(cond, msg)\<close> counts a check and keeps the
  message of one that fails, without stopping; anything else that goes wrong raises.  A checked
  computation is the error raised, or its value with the number of checks made and the problems found, in
  order.  Also the dictionaries, comparisons of table cells and \<open>repr\<close> the checker uses.
\<close>

section \<open>Checked computations\<close>

type_synonym 'a checked = "error + 'a \<times> nat \<times> string list"

definition ret :: "'a \<Rightarrow> 'a checked" where
  "ret x = Inr (x, 0, [])"

definition ok :: "bool \<Rightarrow> string \<Rightarrow> bool checked" where
  "ok c msg = Inr (c, 1, if c then [] else [msg])"

definition chk :: "'a checked \<Rightarrow> ('a \<Rightarrow> 'b checked) \<Rightarrow> 'b checked" where
  "chk m f =
     (case m of Inl e \<Rightarrow> Inl e
      | Inr (x, n, ps) \<Rightarrow> (case f x of Inl e \<Rightarrow> Inl e | Inr (y, k, qs) \<Rightarrow> Inr (y, n + k, ps @ qs)))"

text \<open>A computation that checks nothing, and a condition whose evaluation may raise.\<close>

definition lift :: "error + 'a \<Rightarrow> 'a checked" where
  "lift r = (case r of Inl e \<Rightarrow> Inl e | Inr x \<Rightarrow> ret x)"

definition ok_e :: "error + bool \<Rightarrow> string \<Rightarrow> bool checked" where
  "ok_e r msg = chk (lift r) (\<lambda>c. ok c msg)"

text \<open>The loops: for effect, and with a state the body updates.\<close>

fun each :: "('a \<Rightarrow> unit checked) \<Rightarrow> 'a list \<Rightarrow> unit checked" where
  "each f [] = ret ()"
| "each f (x # xs) = chk (f x) (\<lambda>_. each f xs)"

fun each_with :: "('s \<Rightarrow> 'a \<Rightarrow> 's checked) \<Rightarrow> 's \<Rightarrow> 'a list \<Rightarrow> 's checked" where
  "each_with f s [] = ret s"
| "each_with f s (x # xs) = chk (f s x) (\<lambda>s'. each_with f s' xs)"

fun gather :: "('a \<Rightarrow> 'b checked) \<Rightarrow> 'a list \<Rightarrow> 'b list checked" where
  "gather f [] = ret []"
| "gather f (x # xs) = chk (f x) (\<lambda>y. chk (gather f xs) (\<lambda>ys. ret (y # ys)))"

definition done_with :: "'a checked \<Rightarrow> unit checked" where
  "done_with m = chk m (\<lambda>_. ret ())"

definition problems_of :: "'a checked \<Rightarrow> string list" where
  "problems_of m = (case m of Inl _ \<Rightarrow> [] | Inr (_, _, ps) \<Rightarrow> ps)"

definition checks_of :: "'a checked \<Rightarrow> nat" where
  "checks_of m = (case m of Inl _ \<Rightarrow> 0 | Inr (_, n, _) \<Rightarrow> n)"

text \<open>A run that raises nothing and finds no problem, with its value.\<close>

definition passes :: "'a checked \<Rightarrow> 'a \<Rightarrow> bool" where
  "passes m x = (case m of Inl _ \<Rightarrow> False | Inr (y, _, ps) \<Rightarrow> y = x \<and> ps = [])"

section \<open>Laws\<close>

named_theorems passing \<open>what a run without problems shows\<close>

lemma chk_ret [simp]: "chk (ret x) f = f x"
  by (cases "f x") (auto simp: chk_def ret_def)

lemma chk_Inl [simp]: "chk (Inl e) f = Inl e"
  by (simp add: chk_def)

lemma chk_ret_right [simp]: "chk m ret = m"
  by (cases m) (auto simp: chk_def ret_def)

lemma chk_assoc: "chk (chk m f) g = chk m (\<lambda>x. chk (f x) g)"
  by (auto simp: chk_def split: sum.splits prod.splits)

lemma lift_simps [simp]: "lift (Inl e) = Inl e" "lift (Inr x) = ret x"
  by (simp_all add: lift_def)

lemma passes_ret [simp, passing]: "passes (ret x) y \<longleftrightarrow> x = y"
  by (simp add: passes_def ret_def)

lemma passes_Inl [simp, passing]: "\<not> passes (Inl e) y"
  by (simp add: passes_def)

lemma passes_ok [simp, passing]: "passes (ok c msg) b \<longleftrightarrow> c \<and> b"
  by (auto simp: passes_def ok_def)

lemma passes_lift [simp, passing]: "passes (lift r) x \<longleftrightarrow> r = Inr x"
  by (cases r) auto

lemma passes_chk [passing]: "passes (chk m f) y \<longleftrightarrow> (\<exists>x. passes m x \<and> passes (f x) y)"
  by (auto simp: passes_def chk_def split: sum.splits prod.splits)

lemma passes_ok_e [simp, passing]: "passes (ok_e r msg) b \<longleftrightarrow> r = Inr True \<and> b"
  by (auto simp: ok_e_def passes_chk)

lemma passes_done_with [simp, passing]: "passes (done_with m) u \<longleftrightarrow> (\<exists>x. passes m x)"
  by (auto simp: done_with_def passes_chk)

lemma passes_each [passing]: "passes (each f xs) u \<longleftrightarrow> (\<forall>x \<in> set xs. passes (f x) ())"
  by (induction xs) (auto simp: passes_chk)

lemma passes_gather [passing]: "passes (gather f xs) ys \<longleftrightarrow> list_all2 (\<lambda>x y. passes (f x) y) xs ys"
  by (induction xs arbitrary: ys) (auto simp: passes_chk list_all2_Cons1)

lemma passes_each_with_append [passing]:
  "passes (each_with f s (xs @ ys)) t \<longleftrightarrow> (\<exists>s'. passes (each_with f s xs) s' \<and> passes (each_with f s' ys) t)"
  by (induction xs arbitrary: s) (auto simp: passes_chk)

lemma passes_unique: "passes m x \<Longrightarrow> passes m y \<Longrightarrow> x = y"
  by (auto simp: passes_def split: sum.splits prod.splits)

lemma passes_iff: "passes m x \<longleftrightarrow> (\<exists>n. m = Inr (x, n, []))"
  by (auto simp: passes_def split: sum.splits prod.splits)

lemma passes_each_with_step:
  assumes "passes (each_with f s xs) t" "P s"
    and "\<And>s x s'. P s \<Longrightarrow> x \<in> set xs \<Longrightarrow> passes (f s x) s' \<Longrightarrow> P s'"
  shows "P t"
  using assms
proof (induction xs arbitrary: s)
  case (Cons x xs)
  from Cons.prems(1) obtain s' where step: "passes (f s x) s'" and rest: "passes (each_with f s' xs) t"
    by (auto simp: passes_chk)
  show ?case
  proof (rule Cons.IH [OF rest])
    show "P s'" by (rule Cons.prems(3) [OF Cons.prems(2) _ step]) simp
  qed (use Cons.prems(3) in auto)
qed simp

text \<open>A later step never takes a problem back, nor uncounts a check.\<close>

lemma problems_grow:
  "chk m f = Inr (y, k, qs) \<Longrightarrow> \<exists>qs'. qs = problems_of m @ qs' \<and> checks_of m \<le> k"
  by (auto simp: chk_def problems_of_def checks_of_def split: sum.splits prod.splits)

section \<open>Conditions that may raise\<close>

text \<open>\<open>and\<close>, from the left, stopping at the first that is false; \<open>all(...)\<close> and \<open>any(...)\<close> over a list.\<close>

fun eands :: "(error + bool) list \<Rightarrow> error + bool" where
  "eands [] = Inr True"
| "eands (b # bs) = ebind b (\<lambda>c. if c then eands bs else Inr False)"

fun eors :: "(error + bool) list \<Rightarrow> error + bool" where
  "eors [] = Inr False"
| "eors (b # bs) = ebind b (\<lambda>c. if c then Inr True else eors bs)"

definition eall :: "('a \<Rightarrow> error + bool) \<Rightarrow> 'a list \<Rightarrow> error + bool" where
  "eall P xs = eands (map P xs)"

definition eany :: "('a \<Rightarrow> error + bool) \<Rightarrow> 'a list \<Rightarrow> error + bool" where
  "eany P xs = eors (map P xs)"

lemma eands_True [simp, passing]: "eands bs = Inr True \<longleftrightarrow> (\<forall>b \<in> set bs. b = Inr True)"
  by (induction bs) (auto simp: ebind_Inr)

lemma eall_True [simp, passing]: "eall P xs = Inr True \<longleftrightarrow> (\<forall>x \<in> set xs. P x = Inr True)"
  by (simp add: eall_def)

lemma eors_Cons_True [passing]:
  "eors (b # bs) = Inr True \<longleftrightarrow> b = Inr True \<or> b = Inr False \<and> eors bs = Inr True"
  by (auto simp: ebind_Inr split: if_splits)

text \<open>The elements of a list with a property whose evaluation may raise.\<close>

fun pick :: "('a \<Rightarrow> error + bool) \<Rightarrow> 'a list \<Rightarrow> error + 'a list" where
  "pick P [] = Inr []"
| "pick P (x # xs) = ebind (P x) (\<lambda>c. ebind (pick P xs) (\<lambda>ys. Inr (if c then x # ys else ys)))"

section \<open>Dictionaries, sequences and cells\<close>

text \<open>A dictionary is its bindings in the order of insertion.\<close>

type_synonym 'a dict = "(string \<times> 'a) list"

definition dict_get :: "'a dict \<Rightarrow> string \<Rightarrow> error + 'a" where
  "dict_get d k = (case map_of d k of None \<Rightarrow> Inl (KeyError k) | Some v \<Rightarrow> Inr v)"

definition dict_or :: "'a dict \<Rightarrow> string \<Rightarrow> 'a \<Rightarrow> 'a" where
  "dict_or d k v = (case map_of d k of None \<Rightarrow> v | Some w \<Rightarrow> w)"

definition dict_has :: "'a dict \<Rightarrow> string \<Rightarrow> bool" where
  "dict_has d k = (map_of d k \<noteq> None)"

definition dict_add :: "string \<Rightarrow> int \<Rightarrow> int dict \<Rightarrow> int dict" where
  "dict_add k a d = AList.update k (dict_or d k 0 + a) d"

definition dict_push :: "string \<Rightarrow> 'a \<Rightarrow> 'a list dict \<Rightarrow> 'a list dict" where
  "dict_push k v d = AList.update k (dict_or d k [] @ [v]) d"

text \<open>Two dictionaries are equal as maps.\<close>

definition dict_eq :: "'a dict \<Rightarrow> 'a dict \<Rightarrow> bool" where
  "dict_eq d e = (list_all (\<lambda>(k, _). map_of d k = map_of e k) d \<and> list_all (\<lambda>(k, _). map_of d k = map_of e k) e)"

definition at :: "'a list \<Rightarrow> nat \<Rightarrow> error + 'a" where
  "at xs k = (if k < length xs then Inr (xs ! k) else Inl (IndexError ''list index out of range''))"

text \<open>What \<open>find\<close> gave, where the code uses it as a place without looking.\<close>

definition need :: "nat option \<Rightarrow> nat checked" where
  "need i = (case i of None \<Rightarrow> Inl (TypeError ''NoneType'') | Some k \<Rightarrow> ret k)"

lemma passes_need [simp, passing]: "passes (need i) k \<longleftrightarrow> i = Some k"
  by (simp add: need_def split: option.splits)

text \<open>\<open>paise(r[k]) == v\<close>, \<open>signed(r[k]) == v\<close> and \<open>clean(r[k]) == s\<close>.\<close>

definition paise_at :: "string list \<Rightarrow> nat \<Rightarrow> error + int" where
  "paise_at r k = ebind (at r k) paise"

definition amt_is :: "string list \<Rightarrow> nat \<Rightarrow> int \<Rightarrow> error + bool" where
  "amt_is r k v = ebind (paise_at r k) (\<lambda>x. Inr (x = v))"

definition signed_is :: "string list \<Rightarrow> nat \<Rightarrow> int \<Rightarrow> error + bool" where
  "signed_is r k v = ebind (ebind (at r k) signed) (\<lambda>x. Inr (x = v))"

definition clean_at :: "string list \<Rightarrow> nat \<Rightarrow> error + string" where
  "clean_at r k = ebind (at r k) (\<lambda>c. Inr (clean c))"

definition txt_is :: "string list \<Rightarrow> nat \<Rightarrow> string \<Rightarrow> error + bool" where
  "txt_is r k s = ebind (clean_at r k) (\<lambda>x. Inr (x = s))"

definition date_is :: "string list \<Rightarrow> nat \<Rightarrow> date \<Rightarrow> error + bool" where
  "date_is r k d = ebind (ebind (at r k) pdate) (\<lambda>x. Inr (x = d))"

text \<open>The first table of \<open>lines[s:e]\<close>, its header included: \<open>read_tables(...)[0][1]\<close>.\<close>

definition first_table :: "string list \<Rightarrow> nat \<Rightarrow> nat \<Rightarrow> error + string list list" where
  "first_table ls s e = ebind (read_tables ls s e) (\<lambda>ts. ebind (at ts 0) (\<lambda>t. Inr (snd t)))"

lemma amt_is_True [passing]: "amt_is r k v = Inr True \<longleftrightarrow> k < length r \<and> paise (r ! k) = Inr v"
  by (auto simp: amt_is_def paise_at_def at_def ebind_Inr)

lemma signed_is_True [passing]: "signed_is r k v = Inr True \<longleftrightarrow> k < length r \<and> signed (r ! k) = Inr v"
  by (auto simp: signed_is_def at_def ebind_Inr)

lemma clean_at_Inr [passing]: "clean_at r k = Inr s \<longleftrightarrow> k < length r \<and> clean (r ! k) = s"
  by (auto simp: clean_at_def at_def ebind_Inr)

lemma txt_is_True [passing]: "txt_is r k s = Inr True \<longleftrightarrow> k < length r \<and> clean (r ! k) = s"
  by (auto simp: txt_is_def clean_at_Inr ebind_Inr)

lemma date_is_True [passing]: "date_is r k d = Inr True \<longleftrightarrow> k < length r \<and> pdate (r ! k) = Inr d"
  by (auto simp: date_is_def at_def ebind_Inr)

lemma dict_get_Inr [passing]: "dict_get d k = Inr v \<longleftrightarrow> map_of d k = Some v"
  by (auto simp: dict_get_def split: option.splits)

section \<open>Text\<close>

text \<open>Characters of a UTF-8 text: every byte but the continuation bytes starts one.\<close>

definition starts_char :: "char \<Rightarrow> bool" where
  "starts_char c = (let n = (of_char c :: nat) in n < 128 \<or> 192 \<le> n)"

definition char_count :: "string \<Rightarrow> nat" where
  "char_count s = length (filter starts_char s)"

fun drop_chars :: "nat \<Rightarrow> string \<Rightarrow> string" where
  "drop_chars n [] = []"
| "drop_chars n (c # cs) =
     (if starts_char c then (case n of 0 \<Rightarrow> c # cs | Suc m \<Rightarrow> drop_chars m cs) else drop_chars n cs)"

definition take_chars :: "nat \<Rightarrow> string \<Rightarrow> string" where
  "take_chars n s = take (length s - length (drop_chars n s)) s"

text \<open>\<open>'%r' % s\<close> of a text, and of lists.\<close>

definition repr_str :: "string \<Rightarrow> string" where
  "repr_str s =
     (let q = (if CHR 0x27 \<in> set s \<and> CHR 0x22 \<notin> set s then CHR 0x22 else CHR 0x27)
      in q # concat (map (\<lambda>c. if c = q \<or> c = CHR 0x5C then [CHR 0x5C, c]
                              else if c = nl then [CHR 0x5C, CHR ''n''] else [c]) s) @ [q])"

definition repr_list :: "('a \<Rightarrow> string) \<Rightarrow> 'a list \<Rightarrow> string" where
  "repr_list f xs = ''['' @ join_str '', '' (map f xs) @ '']''"

definition repr_dict :: "('a \<Rightarrow> string) \<Rightarrow> 'a dict \<Rightarrow> string" where
  "repr_dict f d = ''{'' @ join_str '', '' (map (\<lambda>(k, v). repr_str k @ '': '' @ f v) d) @ ''}''"

text \<open>\<open>int(s)\<close>, and \<open>s.rsplit(c, 1)[0]\<close>.\<close>

definition py_int :: "string \<Rightarrow> error + int" where
  "py_int s =
     (let t = strip s; neg = starts_with ''-'' t; u = (if neg \<or> starts_with ''+'' t then tl t else t)
      in if u \<noteq> [] \<and> list_all is_digit u then Inr (if neg then - int_of_digits u else int_of_digits u)
         else Inl (ValueError ''invalid literal for int()''))"

definition before_last :: "char \<Rightarrow> string \<Rightarrow> string" where
  "before_last c s = (if c \<in> set s then butlast (rev (dropWhile (\<lambda>x. x \<noteq> c) (rev s))) else s)"

text \<open>\<open>strptime(s, "%B %Y")\<close>: the first day of the month.\<close>

definition pmonth :: "string \<Rightarrow> error + date" where
  "pmonth s =
     (case words s of
        [m, y] \<Rightarrow>
          (case (find (\<lambda>k. str_lower (month_full k) = str_lower m) [1..12], parse_year y) of
             (Some k, Some n) \<Rightarrow> Inr (Date n k 1)
           | _ \<Rightarrow> Inl (ValueError ''time data does not match format''))
      | _ \<Rightarrow> Inl (ValueError ''time data does not match format''))"

text \<open>\<open>re.match(...).group(...)\<close> and \<open>re.search(...).group(...)\<close>, where no match raises.\<close>

definition matched :: "rx \<Rightarrow> string \<Rightarrow> error + groups" where
  "matched r s = (case re_match r s of None \<Rightarrow> Inl (AttributeError ''group'') | Some g \<Rightarrow> Inr g)"

definition searched :: "rx \<Rightarrow> string \<Rightarrow> error + groups" where
  "searched r s = (case re_search r s of None \<Rightarrow> Inl (AttributeError ''group'') | Some g \<Rightarrow> Inr g)"

text \<open>\<open>str(date)\<close>.\<close>

definition iso_date :: "date \<Rightarrow> string" where
  "iso_date d = pad0 4 (year d) @ ''-'' @ pad0 2 (month d) @ ''-'' @ pad0 2 (day d)"

end
