(* ===== verification/Check_Parse.thy ===== *)
theory Check_Parse
  imports Checks
begin

text \<open>
  The first half of \<open>check_md.py\<close>: what it reads of one printed book - the chart of accounts, the Day Book of the
  export, the year-close entries - and the postings, closing balances and balances after the close it
  derives from them.  Account types are the words the chart prints.
\<close>

section \<open>Constants\<close>

definition EXPECTED :: "string list" where
  "EXPECTED = [''individual-jasvinder-singh'', ''joint-family-randhawa'', ''partnership-bal-fabricators'',
     ''shop-sukhwinder-sales-co'', ''trust-radha-soami-satsang-sabha'']"

definition CHECK_VTYPES :: "string list" where
  "CHECK_VTYPES = [''Money in'', ''Money out'', ''Transfer'', ''Gave on credit'', ''Took on credit'', ''Advance settled'',
     ''Paid by a partner'', ''Correction'', ''Paid by the joint family'', ''Settled at year end'', ''Fix / Adjust'',
     ''Paid from a fund'', ''Interest added to a deposit'', ''Written off'', ''Deposit set off'', ''Deposit forfeited'',
     ''Retention released'', ''Moved from a fund'']"

definition YEAR_CLOSE :: rx where
  "YEAR_CLOSE = (Seq [Bol, Lit ''#### 4.'', Cls is_digit, Lit ('' Year close '' @ u_emdash @ '' the entries the book makes itself on 31 Mar 2026''), Eol])"

definition EQUITY :: "string list" where
  "EQUITY = [''Own money'', ''Drawings'', ''Share-out'', ''Partner'', ''Owner'', ''Partner's capital'', ''Partner's current'',
     ''Sub-family'', ''Joint family'']"

definition MONEY :: "string list" where
  "MONEY = [''Cash'', ''Gollak'', ''Bank'', ''Wallet'', ''Credit card'', ''KCC loan'']"

definition MIXED_OK :: "string list" where
  "MIXED_OK = [''Advance'', ''Loan'']"

text \<open>The types that the close leaves at nil.\<close>

definition CLOSED_TYPES :: "string list" where
  "CLOSED_TYPES = [''Income'', ''Expense'', ''Drawings'', ''Share-out'']"

section \<open>The book as read\<close>

record read_entry =
  edate :: date
  evid :: string
  etype :: string
  elines :: "(string \<times> int) list"   \<comment> \<open>debits positive, then credits negative\<close>
  enarr :: string

type_synonym posting = "date \<times> string \<times> int"
type_synonym close_posting = "string \<times> string \<times> int \<times> string list"   \<comment> \<open>number, note, amount, the other accounts\<close>

record read_book =
  kpath :: string
  kname :: string
  klines :: "string list"
  kexport :: "string list"
  kaccounts :: "string list"
  ktype :: "string dict"
  kopening :: "int dict"
  kvouchers :: "read_entry list"
  kpost :: "posting list dict"
  kclosing :: "int dict"
  kclose :: "(string \<times> string \<times> (string \<times> int) list) list"
  kclose_posts :: "close_posting list dict"
  kpcb :: "int dict"

text \<open>
  \<open>bk.type[n]\<close>, \<open>bk.opening[n]\<close>, \<open>bk.post[n]\<close>, \<open>bk.closing[n]\<close> and \<open>bk.pcb[n]\<close> for an account of the chart: the
  dictionaries are filled for every account of \<open>bk.accounts\<close>.  Where the name comes from elsewhere in the
  page, \<open>charted\<close> raises the \<open>KeyError\<close> first.
\<close>

definition ty :: "read_book \<Rightarrow> string \<Rightarrow> string" where "ty bk n = dict_or (ktype bk) n []"
definition opn :: "read_book \<Rightarrow> string \<Rightarrow> int" where "opn bk n = dict_or (kopening bk) n 0"
definition pst :: "read_book \<Rightarrow> string \<Rightarrow> posting list" where "pst bk n = dict_or (kpost bk) n []"
definition cls :: "read_book \<Rightarrow> string \<Rightarrow> int" where "cls bk n = dict_or (kclosing bk) n 0"
definition pcb :: "read_book \<Rightarrow> string \<Rightarrow> int" where "pcb bk n = dict_or (kpcb bk) n 0"

definition charted :: "read_book \<Rightarrow> string \<Rightarrow> error + unit" where
  "charted bk n = (if dict_has (ktype bk) n then Inr () else Inl (KeyError n))"

definition type_is :: "read_book \<Rightarrow> string list \<Rightarrow> string \<Rightarrow> error + bool" where
  "type_is bk ts n = ebind (dict_get (ktype bk) n) (\<lambda>t. Inr (t \<in> set ts))"

definition of_type :: "read_book \<Rightarrow> string list \<Rightarrow> string list" where
  "of_type bk ts = filter (\<lambda>n. ty bk n \<in> set ts) (kaccounts bk)"

definition balance_type :: "read_book \<Rightarrow> string \<Rightarrow> bool" where   \<comment> \<open>\<open>bk.is_bs[n]\<close>\<close>
  "balance_type bk n = (ty bk n \<noteq> ''Income'' \<and> ty bk n \<noteq> ''Expense'')"

definition money_names :: "read_book \<Rightarrow> string list" where   \<comment> \<open>\<open>bk.money\<close>\<close>
  "money_names bk = of_type bk MONEY"

definition narr_of :: "read_book \<Rightarrow> string \<Rightarrow> error + string" where   \<comment> \<open>\<open>bk.narr[vid]\<close>: the last entry of a number\<close>
  "narr_of bk vid =
     (case find (\<lambda>v. evid v = vid) (rev (kvouchers bk)) of None \<Rightarrow> Inl (KeyError vid) | Some v \<Rightarrow> Inr (enarr v))"

section \<open>Cells of the Day Book\<close>

text \<open>\<open>^(.*) Rs ([\d,]+(?:\.\d\d)?)$\<close>: an amount holds no space, so the split is at the last \<open>Rs \<close> after a space.\<close>

fun last_rupee :: "string \<Rightarrow> (string \<times> string) option" where
  "last_rupee [] = None"
| "last_rupee (c # cs) =
     (case last_rupee cs of
        Some (a, b) \<Rightarrow> Some (c # a, b)
      | None \<Rightarrow> if starts_with ('' '' @ u_rupee) (c # cs) then Some ([], drop (length ('' '' @ u_rupee)) (c # cs)) else None)"

definition digits_commas :: "string \<Rightarrow> bool" where
  "digits_commas s = (s \<noteq> [] \<and> list_all (\<lambda>c. is_digit c \<or> c = CHR '','') s)"

definition rupee_amount :: "string \<Rightarrow> bool" where
  "rupee_amount s =
     (case split_on (CHR ''.'') s of
        [i] \<Rightarrow> digits_commas i
      | [i, f] \<Rightarrow> digits_commas i \<and> length f = 2 \<and> list_all is_digit f
      | _ \<Rightarrow> False)"

definition name_and_amount :: "string \<Rightarrow> (string \<times> string) option" where
  "name_and_amount s = (case last_rupee s of Some (a, b) \<Rightarrow> if rupee_amount b then Some (a, b) else None | None \<Rightarrow> None)"

definition split_cell :: "string \<Rightarrow> int \<Rightarrow> string \<Rightarrow> string \<Rightarrow> (string \<times> int) list checked" where
  "split_cell cell amt label vid =
     (if contains_sub br cell \<or> name_and_amount cell \<noteq> None
      then gather (\<lambda>p. chk (ok (name_and_amount (strip p) \<noteq> None) (label @ '' '' @ vid @ '': cannot read '' @ (repr_str p))) (\<lambda>_.
             case name_and_amount (strip p) of
               None \<Rightarrow> Inl (AttributeError ''group'')
             | Some (n, a) \<Rightarrow> lift (ebind (paise a) (\<lambda>x. Inr (strip n, x))))) (split_sub br cell)
      else ret [(strip cell, amt)])"

section \<open>Heads and feet of the reports\<close>

definition head_tail :: string where
  "head_tail = ('' '' @ u_middot @ '' '' @ BASIS_LINE @ '' '' @ u_middot @ '' Year closed '' @ u_middot @ '' Made on '' @ MADE_ON @ ''*'')"

text \<open>The line after a heading, past the empty ones.\<close>

definition line_below :: "string list \<Rightarrow> nat \<Rightarrow> string" where
  "line_below ls i = (case dropWhile (\<lambda>l. strip l = []) (drop (Suc i) ls) of [] \<Rightarrow> [] | h # _ \<Rightarrow> h)"

definition head_ok :: "string \<Rightarrow> string list \<Rightarrow> nat \<Rightarrow> string \<Rightarrow> bool checked" where
  "head_ok label ls i name_prefix =
     (let h = line_below ls i
      in chk (lift (at ls i)) (\<lambda>l.
         ok (starts_with (''*'' @ name_prefix) h \<and> ends_with head_tail h
             \<and> char_count h > char_count head_tail + char_count name_prefix + 6)
            (label @ '': the head under '' @ (repr_str (take_chars 70 l)) @ '' is missing or wrong: '' @ (repr_str (take_chars 90 h)))))"

text \<open>The place of the last table row of \<open>lines[s:e]\<close>, or -1.\<close>

definition last_row_place :: "string list \<Rightarrow> nat \<Rightarrow> nat \<Rightarrow> int" where
  "last_row_place ls s e =
     (case filter (\<lambda>j. is_row (ls ! j)) [s..<e] of [] \<Rightarrow> -1 | js \<Rightarrow> int (List.last js))"

definition foot_ok :: "read_book \<Rightarrow> string list \<Rightarrow> nat \<Rightarrow> nat \<Rightarrow> string \<Rightarrow> bool \<Rightarrow> string \<Rightarrow> unit checked" where
  "foot_ok bk ls s e note_line expected what =
     (let seg = drop s (take e ls)
      in chk (ok ((note_line \<in> set seg) = expected)
                ((kpath bk) @ '' '' @ what @ '': the note '' @ (repr_str (take_chars 30 note_line)) @ '' must be printed exactly when it applies'')) (\<lambda>_.
         case find_line (\<lambda>l. l = note_line) seg of
           None \<Rightarrow> ret ()
         | Some k \<Rightarrow> done_with (ok (int (s + k) > last_row_place ls s e)
                      ((kpath bk) @ '' '' @ what @ '': the note '' @ (repr_str (take_chars 30 note_line)) @ '' must stand at the foot of the report''))))"

definition BUILD_RE :: rx where
  "BUILD_RE = (Seq [Bol, Lit ''The cost of '', Grp 1 (Few_of (Cls any_char)), Lit ('', '' @ u_rupee), Grp 2 (Some_of (Cls (\<lambda>x. is_digit x \<or> x \<in> set '',''))), Lit '' to date, is charged to expenditure and is not shown as a thing owned.'', Eol])"

definition construction_cost :: "read_book \<Rightarrow> date \<Rightarrow> int" where
  "construction_cost bk date = (\<Sum>(d, _, a)\<leftarrow>pst bk ''Construction A/c''. if d \<le> date \<and> a > 0 then a else 0)"

definition build_ok :: "read_book \<Rightarrow> string list \<Rightarrow> nat \<Rightarrow> nat \<Rightarrow> date \<Rightarrow> string \<Rightarrow> unit checked" where
  "build_ok bk ls s e date what =
     (let cost = construction_cost bk date;
          found = filter (\<lambda>j. matches BUILD_RE (ls ! j)) [s..<e]
      in chk (ok (length found = (if cost \<noteq> 0 then 1 else 0))
                ((kpath bk) @ '' '' @ what @ '': the construction note must be printed exactly when the cost to date is not nil'')) (\<lambda>_.
         each (\<lambda>j. let amt = (case re_match BUILD_RE (ls ! j) of Some g \<Rightarrow> grp g 2 | None \<Rightarrow> [])
           in chk (ok_e (ebind (paise amt) (\<lambda>x. Inr (x = cost)))
                    ((kpath bk) @ '' '' @ what @ '': the construction note says '' @ amt @ '', the cost to '' @ (iso_date date) @ '' is '' @
       (str_int cost) @ '' paise'')) (\<lambda>_.
              done_with (ok (int j > last_row_place ls s e)
                    ((kpath bk) @ '' '' @ what @ '': the construction note must stand at the foot of the report'')))) found))"

section \<open>The chart of accounts\<close>

record chart_state =
  h_accounts :: "string list"
  h_type :: "string dict"
  h_opening :: "int dict"
  h_dr :: int
  h_cr :: int

definition chart_step :: "string \<Rightarrow> chart_state \<Rightarrow> string list \<Rightarrow> chart_state checked" where
  "chart_step label st r =
     chk (lift (at r 0)) (\<lambda>r0.
     if strip r0 = []
     then chk (ok_e (eands [amt_is r 4 (h_dr st), amt_is r 5 (h_cr st)]) (label @ '' chart: printed totals'')) (\<lambda>_. ret st)
     else (chk (lift (py_int r0)) (\<lambda>k.
          chk (ok (k = int (length (h_accounts st)) + 1) (label @ '' chart: numbering'')) (\<lambda>_.
          chk (lift (at r 1)) (\<lambda>n.
          chk (lift (at r 2)) (\<lambda>t.
          chk (lift (paise_at r 4)) (\<lambda>dr.
          chk (lift (paise_at r 5)) (\<lambda>cr.
          chk (ok ((t \<noteq> ''Income'' \<and> t \<noteq> ''Expense'') \<or> dr - cr = 0) (label @ '' chart: '' @ n @ '' opens at zero'')) (\<lambda>_.
          ret (st\<lparr>h_accounts := h_accounts st @ [n], h_type := AList.update n t (h_type st),
               h_opening := AList.update n (dr - cr) (h_opening st), h_dr := h_dr st + dr, h_cr := h_cr st + cr\<rparr>))))))))))"

definition read_chart :: "string \<Rightarrow> string list \<Rightarrow> (nat \<times> chart_state) checked" where
  "read_chart label ls = (let i = find_line (matches (Seq [Bol, Lit ''### 1. Accounts''])) ls in
                         chk (ok (i \<noteq> None) (label @ '': chart missing'')) (\<lambda>_.
                         chk (need i) (\<lambda>i.
                         chk (need (find_line (matches (Seq [Bol, Lit ''### 2. ''])) ls)) (\<lambda>e.
                         chk (lift (first_table ls i e)) (\<lambda>tbl.
                         chk (each_with (chart_step label) \<lparr>h_accounts = [], h_type = [], h_opening = [], h_dr = 0, h_cr = 0\<rparr> (tl tbl)) (\<lambda>st.
                         chk (ok (h_dr st = h_cr st) (label @ '' chart: opening Dr '' @ (str_int (h_dr st)) @ '' != Cr '' @ (str_int (h_cr st)))) (\<lambda>_.
                         ret (i, st))))))))"

definition blank_book :: "string \<Rightarrow> string \<Rightarrow> string list \<Rightarrow> string list \<Rightarrow> chart_state \<Rightarrow> read_book" where
  "blank_book label name ls export st =
     \<lparr>kpath = label, kname = name, klines = ls, kexport = export, kaccounts = h_accounts st, ktype = h_type st,
      kopening = h_opening st, kvouchers = [], kpost = [], kclosing = [], kclose = [], kclose_posts = [], kpcb = []\<rparr>"

section \<open>The Day Book, entry by entry\<close>

definition sum_of :: "(string \<times> int) list \<Rightarrow> int" where
  "sum_of ls = (\<Sum>l\<leftarrow>ls. snd l)"

definition in_names :: "string list \<Rightarrow> (string \<times> int) list \<Rightarrow> bool" where
  "in_names ns ls = list_all (\<lambda>l. fst l \<in> set ns) ls"

definition some_in :: "string list \<Rightarrow> (string \<times> int) list \<Rightarrow> bool" where
  "some_in ns ls = list_ex (\<lambda>l. fst l \<in> set ns) ls"

text \<open>\<open>Paid from a fund\<close>: one fund among the debits, one income head among the credits, four lines in all.\<close>

definition fund_rule :: "read_book \<Rightarrow> (string \<times> int) list \<Rightarrow> (string \<times> int) list \<Rightarrow> error + bool" where
  "fund_rule bk drs crs =
     ebind (pick (\<lambda>l. type_is bk [''Fund''] (fst l)) drs) (\<lambda>fd.
     ebind (pick (\<lambda>l. type_is bk [''Income''] (fst l)) crs) (\<lambda>ic.
       if length fd = 1 \<and> length ic = 1 \<and> length drs + length crs = 4
       then eands [
         eall (\<lambda>l. ebind (type_is bk [''Income''] (fst l)) (\<lambda>inc. Inr (inc \<or> fst l \<in> set (money_names bk)))) crs,
         Inr (snd (hd fd) = snd (hd ic)
              \<and> snd (hd ic) = sum_of (filter (\<lambda>l. fst l \<in> set (money_names bk)) crs)),
         eall (\<lambda>l. type_is bk [''Fund'', ''Expense'', ''Thing owned''] (fst l)) drs]
       else Inr False))"

text \<open>What the entry's type says of its two sides.\<close>

definition type_rule :: "read_book \<Rightarrow> string \<Rightarrow> string \<Rightarrow> string \<Rightarrow> (string \<times> int) list \<Rightarrow> (string \<times> int) list \<Rightarrow> bool checked" where
  "type_rule bk label vid vtype drs crs =
     (let money = money_names bk; touched = some_in money (drs @ crs)
      in if vtype = ''Transfer'' then
           ok (length drs = length crs \<and> length crs = 1 \<and> touched) (label @ '' Day Book '' @ vid @ '': a transfer joins two own accounts'')
         else if vtype = ''Money in'' then
           ok (in_names money drs) (label @ '' Day Book '' @ vid @ '': money in must land in cash/bank'')
         else if vtype = ''Money out'' then
           ok_e (eands [eall (\<lambda>l. if fst l \<in> set money then Inr True else type_is bk MIXED_OK (fst l)) crs,
                        Inr (some_in money crs), Inr (\<not> some_in money drs)])
             (label @ '' Day Book '' @ vid @ '': money out must leave cash/bank (it may also credit an advance or a loan)'')
         else if vtype = ''Paid from a fund'' then
           ok_e (fund_rule bk drs crs)
             (label @ '' Day Book '' @ vid @ '': spending from a fund charges the year and moves the same amount out of the fund'')
         else ok (\<not> touched) (label @ '' Day Book '' @ vid @ '': '' @ vtype @ '' must not touch cash/bank''))"

text \<open>The rules of the special types, which come after it.\<close>

definition one_of_type :: "read_book \<Rightarrow> string \<Rightarrow> (string \<times> int) list \<Rightarrow> error + bool" where
  "one_of_type bk t ls = (case ls of [l] \<Rightarrow> type_is bk [t] (fst l) | _ \<Rightarrow> Inr False)"

definition CORRECTS :: rx where
  "CORRECTS = (Seq [Lit ''Entry '', Grp 1 (Seq [Some_of (Cls (\<lambda>x. \<not> is_space x)), Lit ''-'', Times 3 (Cls is_digit)]), Lit '' of '', Grp 2 (Seq [Times 2 (Cls is_digit), Lit '' '', Times 3 (Cls word_char), Lit '' '', Times 4 (Cls is_digit)])])"

definition correction_rule :: "read_entry list \<Rightarrow> string \<Rightarrow> string \<Rightarrow> error + bool" where
  "correction_rule vs vid narr =
     (case re_search CORRECTS narr of
        None \<Rightarrow> Inr False
      | Some g \<Rightarrow>
          eands [eany (\<lambda>w. if evid w = grp g 1 then ebind (pdate (grp g 2)) (\<lambda>d. Inr (edate w = d)) else Inr False) vs,
                 Inr (grp g 1 \<noteq> vid)])"

definition special_rules :: "read_book \<Rightarrow> string \<Rightarrow> string \<Rightarrow> string \<Rightarrow> (string \<times> int) list \<Rightarrow> (string \<times> int) list \<Rightarrow> string \<Rightarrow> unit checked" where
  "special_rules bk label vid vtype drs crs narr =
     (if vtype = ''Correction'' then
        done_with (ok_e (correction_rule (kvouchers bk) vid narr)
          (label @ '' Day Book '' @ vid @ '': a correction's note must name the entry it fixes, with its number and date''))
      else if vtype = ''Written off'' then
        done_with (ok_e (eands [one_of_type bk ''Expense'' drs, Inr (contains_sub ''written off'' (str_lower (fst (hd drs))))])
          (label @ '' Day Book '' @ vid @ '': a write-off goes to a Written off head''))
      else if vtype = ''Deposit set off'' then
        done_with (ok_e (one_of_type bk ''Deposit held'' drs) (label @ '' Day Book '' @ vid @ '': a set-off uses the deposit held''))
      else if vtype = ''Deposit forfeited'' then
        done_with (ok_e (eands [one_of_type bk ''Deposit held'' drs, one_of_type bk ''Income'' crs,
                                Inr (contains_sub ''forfeited'' (str_lower (fst (hd crs))))])
          (label @ '' Day Book '' @ vid @ '': a forfeited deposit goes to Deposit forfeited''))
      else if vtype = ''Retention released'' then
        done_with (ok_e (one_of_type bk ''Retention held'' crs) (label @ '' Day Book '' @ vid @ '': retention is released from its own account''))
      else ret ())"

definition UNMOVED :: string where
  "UNMOVED = ('' '' @ u_emdash @ '' no money moved'')"

definition minus_lines :: "(string \<times> int) list \<Rightarrow> (string \<times> int) list" where
  "minus_lines = map (\<lambda>l. (fst l, - snd l))"

definition sides_differ :: "(string \<times> int) list \<Rightarrow> (string \<times> int) list \<Rightarrow> bool" where
  "sides_differ drs crs = (set (map fst drs) \<inter> set (map fst crs) = {})"

definition entry_row :: "string \<Rightarrow> read_book \<times> nat \<times> date option \<Rightarrow> string list \<Rightarrow> (read_book \<times> nat \<times> date option) checked" where
  "entry_row label st r = (case st of (bk, k, prev) \<Rightarrow>
     case r of date # vid # vt # drc # crc # amt # narr # _ \<Rightarrow> (chk (lift (paise amt)) (\<lambda>amount.
         let marked = ends_with UNMOVED vt in
         let vtype = (if marked then take (length vt - length UNMOVED) vt else vt) in
         chk (split_cell drc amount label vid) (\<lambda>drs.
         chk (split_cell crc amount label vid) (\<lambda>crs.
         chk (ok (sum_of drs = amount \<and> amount = sum_of crs) (label @ '' Day Book '' @ vid @ '': sides differ from the amount'')) (\<lambda>_.
         chk (each (\<lambda>l. done_with (ok (dict_has (ktype bk) (fst l)) (label @ '' Day Book '' @ vid @ '': unknown account '' @ (repr_str (fst l))))) (drs @ crs)) (\<lambda>_.
         chk (ok (sides_differ drs crs) (label @ '' Day Book '' @ vid @ '': an account on both sides'')) (\<lambda>_.
         chk (lift (pdate date)) (\<lambda>d.
         chk (ok (FY_START \<le> d \<and> d \<le> FY_END \<and> (case prev of None \<Rightarrow> True | Some p \<Rightarrow> d \<ge> p)) (label @ '' Day Book '' @ vid @ '': date'')) (\<lambda>_.
         chk (ok (ends_with (''-'' @ pad0 3 (int k)) vid) (label @ '' Day Book: '' @ vid @ '' out of sequence'')) (\<lambda>_.
         chk (ok (vtype \<in> set CHECK_VTYPES) (label @ '' Day Book '' @ vid @ '': unknown type '' @ (repr_str vtype))) (\<lambda>_.
         chk (ok (marked = (\<not> some_in (money_names bk) (drs @ crs)))
          (label @ '' Day Book '' @ vid @ '': the no-money-moved mark must be there exactly when no cash, bank, card or wallet is touched'')) (\<lambda>_.
         chk (type_rule bk label vid vtype drs crs) (\<lambda>_.
         chk (special_rules bk label vid vtype drs crs narr) (\<lambda>_.
         ret (bk\<lparr>kvouchers := kvouchers bk @
                 [\<lparr>edate = d, evid = vid, etype = vtype, elines = drs @ minus_lines crs, enarr = strip narr\<rparr>]\<rparr>, Suc k, Some d)))))))))))))))
     | _ \<Rightarrow> Inl (ValueError ''not enough values to unpack''))"

section \<open>The postings and the balances\<close>

definition post_read :: "read_entry \<Rightarrow> posting list dict \<Rightarrow> string \<times> int \<Rightarrow> error + posting list dict" where
  "post_read v d l =
     ebind (dict_get d (fst l)) (\<lambda>ps. Inr (AList.update (fst l) (ps @ [(edate v, evid v, snd l)]) d))"

definition post_all :: "read_book \<Rightarrow> error + posting list dict" where
  "post_all bk = efold (\<lambda>d v. efold (post_read v) d (elines v)) (map (\<lambda>n. (n, [])) (kaccounts bk)) (kvouchers bk)"

definition posting_amount :: "posting \<Rightarrow> int" where
  "posting_amount p = snd (snd p)"

definition with_balances :: "read_book \<Rightarrow> error + read_book" where
  "with_balances bk =
     ebind (post_all bk) (\<lambda>ps.
       let bk = bk\<lparr>kpost := ps\<rparr>
       in Inr (bk\<lparr>kclosing := map (\<lambda>n. (n, opn bk n + (\<Sum>p\<leftarrow>pst bk n. posting_amount p))) (kaccounts bk)\<rparr>))"

text \<open>No money account below nil, after any entry; a gollak is emptied only into cash or the bank.\<close>

definition never_negative :: "read_book \<Rightarrow> string \<Rightarrow> unit checked" where
  "never_negative bk n =
     done_with (each_with (\<lambda>bl (d, vid, a).
        chk (ok (bl + a \<ge> 0) ((kpath bk) @ '' '' @ n @ '' goes negative at '' @ vid)) (\<lambda>_. ret (bl + a))) (opn bk n) (pst bk n))"

definition gollak_emptied :: "read_book \<Rightarrow> string \<Rightarrow> unit checked" where
  "gollak_emptied bk n =
     each (\<lambda>v. each (\<lambda>l. if fst l = n \<and> snd l < 0
                         then done_with (ok_e (eands [Inr (etype v = ''Transfer''),
                                eall (\<lambda>m. type_is bk [''Cash'', ''Bank''] (fst m)) (filter (\<lambda>m. snd m > 0) (elines v))])
                                ((kpath bk) @ '' gollak emptied other than into cash/bank at '' @ (evid v)))
                         else ret ()) (elines v)) (kvouchers bk)"

definition money_checks :: "read_book \<Rightarrow> unit checked" where
  "money_checks bk =
     each (\<lambda>n. chk (if ty bk n \<in> set [''Cash'', ''Bank'', ''Wallet'', ''Gollak''] then never_negative bk n else ret ()) (\<lambda>_.
               if ty bk n = ''Gollak'' then gollak_emptied bk n else ret ())) (kaccounts bk)"

section \<open>Balances at a date\<close>

definition bal_at :: "read_book \<Rightarrow> string \<Rightarrow> date \<Rightarrow> int" where
  "bal_at bk n date = opn bk n + (\<Sum>(d, _, a)\<leftarrow>pst bk n. if d \<le> date then a else 0)"

definition mov :: "read_book \<Rightarrow> string \<Rightarrow> date \<Rightarrow> date \<Rightarrow> int \<times> int" where
  "mov bk n s e =
     ((\<Sum>(d, _, a)\<leftarrow>pst bk n. if s \<le> d \<and> d \<le> e \<and> a > 0 then a else 0),
      - (\<Sum>(d, _, a)\<leftarrow>pst bk n. if s \<le> d \<and> d \<le> e \<and> a < 0 then a else 0))"

text \<open>\<open>equity_parts\<close>: own money at the start, put in and taken out so far.\<close>

definition equity_parts_read :: "read_book \<Rightarrow> date \<Rightarrow> int \<times> int \<times> int" where
  "equity_parts_read bk date =
     (let eq = of_type bk EQUITY
      in (- (\<Sum>n\<leftarrow>eq. opn bk n),
          (\<Sum>n\<leftarrow>eq. \<Sum>(d, _, a)\<leftarrow>pst bk n. if d \<le> date \<and> a < 0 then - a else 0),
          (\<Sum>n\<leftarrow>eq. \<Sum>(d, _, a)\<leftarrow>pst bk n. if d \<le> date \<and> a > 0 then a else 0)))"

definition result_to_read :: "read_book \<Rightarrow> date \<Rightarrow> int \<times> int" where
  "result_to_read bk date =
     ((\<Sum>n\<leftarrow>of_type bk [''Income'']. - bal_at bk n date), (\<Sum>n\<leftarrow>of_type bk [''Expense'']. bal_at bk n date))"

section \<open>The year-close entries\<close>

text \<open>The accounts on the other side of a line.\<close>

definition opposite :: "(string \<times> int) list \<Rightarrow> int \<Rightarrow> string list" where
  "opposite ls a = map fst (filter (\<lambda>l. (snd l > 0) \<noteq> (a > 0)) ls)"

definition close_line_step :: "string \<Rightarrow> string \<Rightarrow> (string \<times> int) list \<Rightarrow> read_book \<times> int dict \<Rightarrow> string \<times> int \<Rightarrow> (read_book \<times> int dict) checked" where
  "close_line_step vid nt lns st l = (case (st, l) of ((bk, pseudo), (n, a)) \<Rightarrow>
     if dict_has (ktype bk) n
     then chk (ok (ty bk n \<in> set CLOSED_TYPES \<or> ty bk n \<in> set EQUITY) ((kpath bk) @ '' close entry '' @ vid @ '': touches '' @ n @ '' ('' @ (ty bk n) @ '')'')) (\<lambda>_.
       ret (bk\<lparr>kpcb := AList.update n (pcb bk n + a) (kpcb bk),
               kclose_posts := dict_push n (vid, nt, a, opposite lns a) (kclose_posts bk)\<rparr>, pseudo))
     else ret (bk, dict_add n a pseudo))"

definition close_row_step :: "string \<Rightarrow> read_book \<times> int dict \<times> nat \<Rightarrow> string list \<Rightarrow> (read_book \<times> int dict \<times> nat) checked" where
  "close_row_step stem st r = (case st of (bk, pseudo, k) \<Rightarrow>
     case r of vid # date # nt # dcell # ccell # amt # _ \<Rightarrow> (chk (lift (paise amt)) (\<lambda>amount.
         chk (ok_e (eands [Inr (vid = (stem @ ''-Y'' @ (str_nat (int k)))), ebind (pdate date) (\<lambda>d. Inr (d = FY_END))])
          ((kpath bk) @ '' close entry '' @ vid @ '': number or date'')) (\<lambda>_.
         chk (split_cell dcell amount (kpath bk) vid) (\<lambda>drs.
         chk (split_cell ccell amount (kpath bk) vid) (\<lambda>crs.
         chk (ok (sum_of drs = amount \<and> amount = sum_of crs) ((kpath bk) @ '' close entry '' @ vid @ '': sides differ from the amount'')) (\<lambda>_.
         chk (ok (sides_differ drs crs) ((kpath bk) @ '' close entry '' @ vid @ '': an account on both sides'')) (\<lambda>_.
         let lns = drs @ minus_lines crs in
         let bk = bk\<lparr>kclose := kclose bk @ [(vid, strip nt, lns)]\<rparr> in
         chk (each_with (close_line_step vid (strip nt) lns) (bk, pseudo) lns) (\<lambda>(bk, pseudo).
         ret (bk, pseudo, Suc k)))))))))
     | _ \<Rightarrow> Inl (ValueError ''not enough values to unpack''))"

text \<open>What is charged to the heads that are no accounts (the result account): the debits.\<close>

definition result_debits :: "read_book \<Rightarrow> int" where
  "result_debits bk =
     (\<Sum>(_, _, lns)\<leftarrow>kclose bk. \<Sum>(n, a)\<leftarrow>lns. if \<not> dict_has (ktype bk) n \<and> a > 0 then a else 0)"

definition close_checks :: "read_book \<Rightarrow> int dict \<Rightarrow> unit checked" where
  "close_checks bk pseudo = (case equity_parts_read bk FY_END of (start, put, taken) \<Rightarrow> (let inc = (\<Sum>n\<leftarrow>of_type bk [''Income'']. - cls bk n) in
         let expn = (\<Sum>n\<leftarrow>of_type bk [''Expense'']. cls bk n) in
         chk (ok (list_all (\<lambda>(_, v). v = 0) pseudo \<and> length pseudo \<ge> 1)
        ((kpath bk) @ '' close: the result account is not closed ('' @ (repr_dict str_int pseudo) @ '')'')) (\<lambda>_.
         chk (ok (list_all (\<lambda>n. pcb bk n = 0) (of_type bk CLOSED_TYPES))
        ((kpath bk) @ '' close: an income, expense or drawings account is left open'')) (\<lambda>_.
         chk (ok (- (\<Sum>n\<leftarrow>of_type bk EQUITY. pcb bk n) = start + put - taken + inc - expn)
        ((kpath bk) @ '' close: own money after the close is not start + put in - taken out + result'')) (\<lambda>_.
         done_with (ok (result_debits bk \<ge> max inc expn) ((kpath bk) @ '' close: the heads are not all closed to the result'')))))))"

definition parse_close :: "read_book \<Rightarrow> read_book checked" where
  "parse_close bk0 =
     (let bk = bk0\<lparr>kclose := [], kclose_posts := [], kpcb := kclosing bk0\<rparr>; ls = klines bk0
      in chk (ok (find_line (matches YEAR_CLOSE) ls \<noteq> None) ((kpath bk) @ '': the year-close entries are missing'')) (\<lambda>_.
         case find_line (matches YEAR_CLOSE) ls of
           None \<Rightarrow> ret bk
         | Some i \<Rightarrow> (chk (head_ok (kpath bk) ls i (kname bk)) (\<lambda>_.
                    chk (lift (first_table ls i (block ls i))) (\<lambda>tbl.
                    chk (lift (at (kvouchers bk) 0)) (\<lambda>v.
                    chk (each_with (close_row_step (before_last (CHR ''-'') (evid v))) (bk, [], 1) (tl tbl)) (\<lambda>(bk, pseudo, k).
                    chk (close_checks bk pseudo) (\<lambda>_.
                    ret bk))))))))"

section \<open>parse_book\<close>

definition day_books :: rx where
  "day_books = (Seq [Bol, Times 2 (Lit ''#''), Upto 2 (Lit ''#''), Lit '' '', Many (Cls any_char), Grp 1 (Alt (Lit ''Day Book'') (Lit ''Cash Book'')), Opt (Grp 2 (Lit '' (rojnamcha)'')), Lit ('' '' @ u_emdash @ '' '')])"

definition parse_book :: "string \<Rightarrow> string \<Rightarrow> string list \<Rightarrow> string list \<Rightarrow> read_book checked" where
  "parse_book label name ls export = (chk (read_chart label ls) (\<lambda>(i, st).
         let bk = blank_book label name ls export st in
         chk (foot_ok bk ls i (block ls i) COST_LINE (list_ex (\<lambda>n. opn bk n \<noteq> 0) (of_type bk [''Thing owned''])) ''accounts list'') (\<lambda>_.
         chk (ok (find_line (matches day_books) ls = None) (label @ '': the printed book carries a Day Book or Cash Book'')) (\<lambda>_.
         let e = find_line (matches (Seq [Bol, Lit ''### 1. Day Book''])) export in
         chk (ok (e \<noteq> None) (label @ '': export has no Day Book'')) (\<lambda>_.
         let e = (case e of None \<Rightarrow> 0 | Some e \<Rightarrow> e) in
         chk (lift (first_table export e (block export e))) (\<lambda>tbl.
         chk (each_with (entry_row label) (bk, 1, None) (tl tbl)) (\<lambda>(bk, k, prev).
         chk (lift (with_balances bk)) (\<lambda>bk.
         chk (money_checks bk) (\<lambda>_.
         parse_close bk)))))))))"

end
