(* ===== verification/Check_Ledgers.thy ===== *)
theory Check_Ledgers
  imports Check_Parse
begin

text \<open>
  The part of \<open>check_md.py\<close> that checks the accounts and the books of original entry: every ledger (or
  fund statement) row by row against the Day Book's postings and the year-close entries, the
  Cash Book, and the bank statement extract.
\<close>

section \<open>A ledger, row by row\<close>

type_synonym particulars = "((string \<times> string) \<times> string) list"   \<comment> \<open>\<open>bk.lpart\<close>: account and number, the last first\<close>

record ledger_state =
  l_bal :: int
  l_posts :: "posting list"            \<comment> \<open>\<open>posts[idx:]\<close>\<close>
  l_closes :: "close_posting list"     \<comment> \<open>\<open>cposts[cidx:]\<close>\<close>
  l_dr :: int
  l_cr :: int
  l_closed :: bool
  l_parts :: particulars
  l_stop :: bool                       \<comment> \<open>after \<open>break\<close>\<close>

text \<open>The note under the particulars: \<open><br><em>(.*)</em>$\<close>.\<close>

definition note_under :: "string \<Rightarrow> string option" where
  "note_under cell =
     (case find_after ''<br><em>'' cell of
        None \<Rightarrow> None
      | Some t \<Rightarrow> if ends_with ''</em>'' t then Some (take (length t - length ''</em>'') t) else None)"

definition year_close_number :: "string \<Rightarrow> bool" where
  "year_close_number = occurs (Seq [Lit ''-Y'', Some_of (Cls is_digit), Eol])"

definition drop_to_by :: "string \<Rightarrow> string" where   \<comment> \<open>\<open>re.sub(r"^(To|By) ", "", part)\<close>\<close>
  "drop_to_by part = (if starts_with ''To '' part \<or> starts_with ''By '' part then drop 3 part else part)"

text \<open>The balance of a row: its amount and its side.\<close>

definition balance_is :: "string list \<Rightarrow> int \<Rightarrow> (error + bool) list" where
  "balance_is r bl = [amt_is r 5 \<bar>bl\<bar>, txt_is r 6 (side bl)]"

definition sides_are :: "string list \<Rightarrow> int \<Rightarrow> int \<Rightarrow> (error + bool) list" where
  "sides_are r dr cr = [amt_is r 3 dr, amt_is r 4 cr]"

definition l_add :: "int \<Rightarrow> ledger_state \<Rightarrow> ledger_state" where
  "l_add a st = st\<lparr>l_bal := l_bal st + a, l_dr := l_dr st + max a 0, l_cr := l_cr st + max (- a) 0\<rparr>"

definition close_entry_row :: "read_book \<Rightarrow> string \<Rightarrow> string \<Rightarrow> ledger_state \<Rightarrow> string list \<Rightarrow> string \<Rightarrow> string \<Rightarrow> ledger_state checked" where
  "close_entry_row bk name place st r vid part =
     chk (ok (l_closes st \<noteq> []) (place @ '' '' @ name @ '': a year-close row the close entries do not have'')) (\<lambda>_.
     case l_closes st of
       [] \<Rightarrow> ret st
     | (cv, cnote, a, others) # rest \<Rightarrow> (let st = st\<lparr>l_closes := rest\<rparr> in
         chk (ok_e (eands ([Inr (vid = cv), date_is r 0 FY_END] @ sides_are r (max a 0) (max (- a) 0)
                      @ [ebind (at r 2) (\<lambda>c. Inr (note_under c = Some cnote))]))
            (place @ '' '' @ name @ '': close row '' @ vid)) (\<lambda>_.
         chk (ok (starts_with (if a > 0 then ''To '' else ''By '') part
              \<and> sort (split_sub '' / '' (drop_to_by part)) = sort others)
            (place @ '' '' @ name @ '': close row '' @ vid @ '' names the other accounts'')) (\<lambda>_.
         if balance_type bk name
         then chk (ok_e (eands (balance_is r (l_bal st + a))) (place @ '' '' @ name @ '': close row '' @ vid @ '' balance'')) (\<lambda>_. ret (l_add a st))
         else chk (ok_e (eands [amt_is r 5 0, txt_is r 6 u_emdash]) (place @ '' '' @ name @ '': close row '' @ vid @ '' must leave nil'')) (\<lambda>_. ret st)))))"

definition posting_row :: "read_book \<Rightarrow> string \<Rightarrow> string \<Rightarrow> ledger_state \<Rightarrow> string list \<Rightarrow> string \<Rightarrow> string \<Rightarrow> ledger_state checked" where
  "posting_row bk name place st r vid part =
     chk (ok (l_posts st \<noteq> []) (place @ '' '' @ name @ '': more rows than Day Book postings'')) (\<lambda>_.
     case l_posts st of
       [] \<Rightarrow> ret (st\<lparr>l_stop := True\<rparr>)
     | (d, pvid, a) # rest \<Rightarrow> (chk (ok_e (eands ([date_is r 0 d, Inr (vid = pvid)] @ sides_are r (max a 0) (max (- a) 0)))
            (place @ '' '' @ name @ '' row '' @ pvid @ '' differs from the Day Book'')) (\<lambda>_.
                             chk (lift (at r 2)) (\<lambda>c.
                             chk (lift (narr_of bk pvid)) (\<lambda>nt.
                             chk (ok (note_under c = Some nt) (place @ '' '' @ name @ '' row '' @ pvid @ '': note differs from the Day Book'')) (\<lambda>_.
                             chk (ok (starts_with (if a > 0 then ''To '' else ''By '') part) (place @ '' '' @ name @ '' row '' @ pvid @ '': To/By'')) (\<lambda>_.
                             let st = l_add a (st\<lparr>l_posts := rest, l_parts := ((name, pvid), part) # l_parts st\<rparr>) in
                             chk (ok_e (eands (balance_is r (l_bal st))) (place @ '' '' @ name @ '' row '' @ pvid @ '': running balance'')) (\<lambda>_.
                             chk (ok (ty bk name \<noteq> ''Credit card'' \<or> l_bal st \<le> 0) (place @ '' '' @ name @ '' row '' @ pvid @ '': a credit card paid past nil'')) (\<lambda>_.
                             ret st)))))))))"

definition ledger_row_step :: "read_book \<Rightarrow> string \<Rightarrow> string \<Rightarrow> ledger_state \<Rightarrow> string list \<Rightarrow> ledger_state checked" where
  "ledger_row_step bk name place st r =
     (if l_stop st then ret st else (chk (lift (clean_at r 2)) (\<lambda>part.
         chk (lift (clean_at r 1)) (\<lambda>vid.
         let bl = l_bal st in
         let op = opn bk name in
         if starts_with ''Opening balance b/f'' part then
         chk (ok_e (eands ([Inr (balance_type bk name)] @ sides_are r (max op 0) (max (- op) 0) @ balance_is r op)) (place @ '' '' @ name @ '': b/f'')) (\<lambda>_.
           ret (st\<lparr>l_bal := op\<rparr>))
       else if starts_with ''Closing balance c/d'' part then
         chk (ok_e (eands (sides_are r (if bl < 0 then - bl else 0) (if bl > 0 then bl else 0))) (place @ '' '' @ name @ '': c/d'')) (\<lambda>_.
           ret (st\<lparr>l_closed := True\<rparr>))
       else if part = ''Total'' then
         (let t1 = l_dr st + (if op > 0 then op else 0) + (if bl < 0 then - bl else 0);
              t2 = l_cr st + (if op < 0 then - op else 0) + (if bl > 0 then bl else 0)
          in chk (ok_e (eands [amt_is r 3 t1, Inr (t1 = t2), amt_is r 4 t2]) (place @ '' '' @ name @ '': total'')) (\<lambda>_. ret st))
       else if starts_with ''Opening balance b/d'' part then
         chk (ok_e (eands (sides_are r (if bl > 0 then bl else 0) (if bl < 0 then - bl else 0) @ balance_is r bl)) (place @ '' '' @ name @ '': b/d'')) (\<lambda>_.
           ret st)
       else if starts_with ''Total for the year'' part then
         chk (ok_e (eands ([Inr (\<not> balance_type bk name)] @ sides_are r (l_dr st) (l_cr st) @ balance_is r bl)) (place @ '' '' @ name @ '': year total'')) (\<lambda>_.
           ret (st\<lparr>l_closed := True\<rparr>))
       else if year_close_number vid then close_entry_row bk name place st r vid part
       else posting_row bk name place st r vid part))))"

definition check_ledger_rows :: "read_book \<Rightarrow> particulars \<Rightarrow> string \<Rightarrow> string list list \<Rightarrow> string \<Rightarrow> particulars checked" where
  "check_ledger_rows bk parts name rs place = (chk (lift (charted bk name)) (\<lambda>_.
         chk (each_with (ledger_row_step bk name place)
             \<lparr>l_bal = 0, l_posts = pst bk name, l_closes = dict_or (kclose_posts bk) name [], l_dr = 0, l_cr = 0,
              l_closed = False, l_parts = parts, l_stop = False\<rparr> rs) (\<lambda>st.
         chk (ok (l_posts st = [] \<and> l_closes st = [] \<and> l_closed st
          \<and> l_bal st = (if balance_type bk name then pcb bk name else cls bk name)) (place @ '' '' @ name @ '': rows/closing'')) (\<lambda>_.
         ret (l_parts st)))))"

section \<open>Every ledger\<close>

text \<open>The headings of level four in \<open>lines[s:e]\<close>, each with where its section ends.\<close>

definition sub_headings :: "string list \<Rightarrow> nat \<Rightarrow> nat \<Rightarrow> (nat \<times> nat) list" where
  "sub_headings ls s e =
     (let heads = filter (\<lambda>i. starts_with ''#### '' (ls ! i)) [s..<e] in zip heads (tl heads @ [e]))"

definition ledger_step :: "read_book \<Rightarrow> particulars \<times> string list \<Rightarrow> nat \<times> nat \<Rightarrow> (particulars \<times> string list) checked" where
  "ledger_step bk st he = (case (st, he) of ((parts, seen), (h, hend)) \<Rightarrow>
     let name = strip (drop 5 (klines bk ! h))
     in chk (ok (dict_has (ktype bk) name) ((kpath bk) @ '' ledger '' @ (repr_str name) @ '' not in the chart'')) (\<lambda>c.
        if \<not> c then ret (parts, seen)
        else chk (lift (read_tables (klines bk) h hend)) (\<lambda>tbls.
          case tbls of
            [] \<Rightarrow> chk (ok (pst bk name = [] \<and> opn bk name = 0) ((kpath bk) @ '' ledger '' @ name @ '': no table but entries/opening'')) (\<lambda>_.
                   ret (parts, name # seen))
          | t # _ \<Rightarrow> chk (check_ledger_rows bk parts name (tl (snd t)) ((kpath bk) @ '' ledger'')) (\<lambda>parts.
                      ret (parts, name # seen)))))"

definition check_ledgers :: "read_book \<Rightarrow> particulars checked" where
  "check_ledgers bk = (let ls = klines bk in
                      chk (need (find_line (matches (Seq [Bol, Lit ''### 2. ''])) ls)) (\<lambda>s.
                      chk (head_ok (kpath bk) ls s (kname bk)) (\<lambda>_.
                      chk (need (find_line (matches (Seq [Bol, Lit ''### 3. ''])) ls)) (\<lambda>e.
                      chk (each_with (ledger_step bk) ([], []) (sub_headings ls s e)) (\<lambda>(parts, seen).
                      chk (ok (set seen = set (kaccounts bk))
        ((kpath bk) @ '': '' @ (str_nat (int (length (remdups seen)))) @ '' ledgers for '' @ (str_nat (int (length (kaccounts bk)))) @
       '' accounts'')) (\<lambda>_.
                      chk (foot_ok bk ls s e COST_LINE (list_ex (\<lambda>n. pst bk n \<noteq> [] \<or> opn bk n \<noteq> 0) (of_type bk [''Thing owned''])) ''ledgers'') (\<lambda>_.
                      ret parts)))))))"

section \<open>The Cash Book\<close>

definition bal_paise :: "string \<Rightarrow> error + int" where
  "bal_paise cell =
     (let c = clean cell
      in if ends_with '' Cr'' c then ebind (paise (take (length c - 3) c)) (\<lambda>v. Inr (- v)) else paise c)"

definition CASH_BOOK :: rx where
  "CASH_BOOK = (Seq [Bol, Lit ''### '', Some_of (Cls is_digit), Lit (''. Cash Book '' @ u_emdash @ '' ''), Grp 1 (Many (Cls any_char)), Eol])"

record cash_state =
  b_bal :: "int dict"
  b_in :: "int dict"
  b_out :: "int dict"
  b_left :: "read_entry list"   \<comment> \<open>\<open>vchs[idx:]\<close>\<close>
  b_stop :: bool

text \<open>The three groups of columns, one column of each per account of the money names.\<close>

definition column :: "nat \<Rightarrow> nat \<Rightarrow> nat \<Rightarrow> string list \<Rightarrow> error + string" where
  "column k g c r = at (take k (drop (3 + g * k) r)) c"

definition column_is :: "(string \<Rightarrow> error + int) \<Rightarrow> nat \<Rightarrow> nat \<Rightarrow> nat \<Rightarrow> string list \<Rightarrow> int \<Rightarrow> error + bool" where
  "column_is f k g c r v = ebind (column k g c r) (\<lambda>x. ebind (f x) (\<lambda>y. Inr (y = v)))"

definition indexed :: "string list \<Rightarrow> (nat \<times> string) list" where
  "indexed ns = zip [0..<length ns] ns"

definition columns_are :: "string list \<Rightarrow> string list \<Rightarrow> int dict \<Rightarrow> int dict \<Rightarrow> int dict \<Rightarrow> error + bool" where
  "columns_are ns r ins outs bals =
     eall (\<lambda>(c, n). eands [column_is paise (length ns) 0 c r (dict_or ins n 0), column_is paise (length ns) 1 c r (dict_or outs n 0),
                           column_is bal_paise (length ns) 2 c r (dict_or bals n 0)]) (indexed ns)"

definition zeros :: "string list \<Rightarrow> int dict" where
  "zeros ns = map (\<lambda>n. (n, 0)) ns"

definition moved_by :: "read_entry \<Rightarrow> string \<Rightarrow> int" where
  "moved_by v n = sum_of (filter (\<lambda>l. fst l = n) (elines v))"

definition same_month :: "date \<Rightarrow> date \<Rightarrow> bool" where
  "same_month d m = (year d = year m \<and> month d = month m)"

text \<open>The amounts of one row, account by account.\<close>

definition cash_amounts :: "read_book \<Rightarrow> string list \<Rightarrow> read_entry \<Rightarrow> string list \<Rightarrow> cash_state \<Rightarrow> nat \<times> string \<Rightarrow> cash_state checked" where
  "cash_amounts bk ns v r st cn = (case cn of (c, n) \<Rightarrow> (let a = moved_by v n; k = length ns in
         chk (ok_e (eands [column_is paise k 0 c r (max a 0), column_is paise k 1 c r (max (- a) 0)])
        ((kpath bk) @ '' Cash Book row '' @ (evid v) @ '': '' @ n @ '' amounts'')) (\<lambda>_.
         let st = st\<lparr>b_bal := dict_add n a (b_bal st), b_in := dict_add n (max a 0) (b_in st), b_out := dict_add n (max (- a) 0) (b_out st)\<rparr> in
         chk (ok_e (column_is bal_paise k 2 c r (dict_or (b_bal st) n 0)) ((kpath bk) @ '' Cash Book row '' @ (evid v) @ '': '' @ n @ '' balance'')) (\<lambda>_.
         chk (ok (ty bk n \<noteq> ''Cash'' \<or> dict_or (b_bal st) n 0 \<ge> 0) ((kpath bk) @ '' Cash Book row '' @ (evid v) @ '': cash below nil'')) (\<lambda>_.
         ret st)))))"

definition part_of_row :: "particulars \<Rightarrow> string list \<Rightarrow> read_entry \<Rightarrow> error + string" where
  "part_of_row parts ns v =
     (let moved = filter (\<lambda>n. moved_by v n \<noteq> 0) ns; came_in = ((\<Sum>n\<leftarrow>ns. moved_by v n) > 0)
      in case moved of
           [n] \<Rightarrow> (case map_of parts (n, evid v) of None \<Rightarrow> Inl (KeyError n) | Some p \<Rightarrow> Inr p)
         | _ \<Rightarrow> Inr (join_str '' / ''
                 (map (\<lambda>l. (if came_in then ''To '' else ''By '') @ fst l)
                    (filter (\<lambda>l. fst l \<notin> set ns \<and> ((snd l < 0) = came_in)) (elines v)))))"

definition cash_part_check :: "read_book \<Rightarrow> particulars \<Rightarrow> string list \<Rightarrow> read_entry \<Rightarrow> string \<Rightarrow> unit checked" where
  "cash_part_check bk parts ns v part =
     (if in_names ns (elines v)
      then done_with (ok (list_ex (\<lambda>n. moved_by v n > 0) ns \<and> list_ex (\<lambda>n. moved_by v n < 0) ns)
             ((kpath bk) @ '' Cash Book row '' @ (evid v) @ '': a transfer stands on both sides''))
      else chk (lift (part_of_row parts ns v)) (\<lambda>want.
             done_with (ok (part = want)
             ((kpath bk) @ '' Cash Book row '' @ (evid v) @ '': particulars '' @ (repr_str part) @ '', expected '' @ (repr_str want) @
       '' (only the accounts on the other side of the money that moved, as in its ledger)''))))"

definition cash_row_step :: "read_book \<Rightarrow> particulars \<Rightarrow> string list \<Rightarrow> cash_state \<Rightarrow> string list \<Rightarrow> cash_state checked" where
  "cash_row_step bk parts ns st r =
     (if b_stop st then ret st else chk (lift (clean_at r 2)) (\<lambda>part.
      if starts_with ''Opening balance b/f'' part then
        chk (ok_e (columns_are ns r (map (\<lambda>(n, x). (n, max x 0)) (b_bal st)) (map (\<lambda>(n, x). (n, max (- x) 0)) (b_bal st)) (b_bal st))
               ((kpath bk) @ '' Cash Book: opening balances on the Money in side'')) (\<lambda>_. ret st)
      else if starts_with ''Month total'' part then (chk (lift (case re_search (Seq [Lit (''Month total '' @ u_emdash @ '' ''), Grp 1 (Seq [Some_of (Cls word_char), Lit '' '', Times 4 (Cls is_digit)])]) part of None \<Rightarrow> Inl (AttributeError ''group'') | Some g \<Rightarrow> pmonth (grp g 1))) (\<lambda>mon.
         chk (ok (list_all (\<lambda>v. \<not> same_month (edate v) mon) (b_left st)) ((kpath bk) @ '' Cash Book: '' @ (iso_date mon) @ '' closed early'')) (\<lambda>_.
         chk (ok_e (columns_are ns r (b_in st) (b_out st) (b_bal st)) ((kpath bk) @ '' Cash Book: month total '' @ (iso_date mon))) (\<lambda>_.
         ret (st\<lparr>b_in := zeros ns, b_out := zeros ns\<rparr>)))))
      else chk (lift (at r 1)) (\<lambda>r1. chk (ok (b_left st \<noteq> []) ((kpath bk) @ '' Cash Book: extra row '' @ r1)) (\<lambda>_.
        case b_left st of
          [] \<Rightarrow> ret (st\<lparr>b_stop := True\<rparr>)
        | v # rest \<Rightarrow> (chk (ok_e (eands [date_is r 0 (edate v), txt_is r 1 (evid v)]) ((kpath bk) @ '' Cash Book row '' @ (evid v) @ '': date/number'')) (\<lambda>_.
                     chk (each_with (cash_amounts bk ns v r) (st\<lparr>b_left := rest\<rparr>) (indexed ns)) (\<lambda>st.
                     chk (cash_part_check bk parts ns v part) (\<lambda>_.
                     ret st))))))))"

definition cash_names_wanted :: "read_book \<Rightarrow> string list" where
  "cash_names_wanted bk = concat (map (\<lambda>t. of_type bk [t]) [''Cash'', ''Gollak'', ''Bank''])"

definition cash_heads_ok :: "nat \<Rightarrow> string list \<Rightarrow> bool" where
  "cash_heads_ok k h =
     (length h = 3 + 3 * k \<and> list_all (contains_sub ''Money in'') (take k (drop 3 h))
      \<and> list_all (contains_sub ''Money out'') (take k (drop (3 + k) h)))"

definition check_cash_books :: "read_book \<Rightarrow> particulars \<Rightarrow> unit checked" where
  "check_cash_books bk parts =
     (let ls = kexport bk; heads = filter (\<lambda>i. matches (Seq [Bol, Lit ''### '', Some_of (Cls is_digit), Lit (''. Cash Book '' @ u_emdash @ '' '')]) (ls ! i)) [0..<length ls] in (chk (ok (length heads = 1) ((kpath bk) @ '': one Cash Book expected, found '' @ (str_nat (int (length heads))))) (\<lambda>_.
         chk (ok (\<not> list_ex (occurs (Seq [Grp 1 (Alt (Lit ''Bank'') (Lit ''Wallet'')), Lit '' Book''])) (ls @ klines bk)) ((kpath bk) @ '': a separate Bank Book is printed or exported'')) (\<lambda>_.
         if length heads \<noteq> 1 then ret () else
       let i = hd heads;
           ns = (case re_match CASH_BOOK (ls ! i) of Some g \<Rightarrow> split_sub '' and '' (strip (grp g 1)) | None \<Rightarrow> []);
           want = cash_names_wanted bk; k = length ns in (chk (ok (ns = want \<and> want \<noteq> [])
          ((kpath bk) @ '' Cash Book: columns '' @ (repr_list repr_str ns) @ '', expected cash, any gollak and each bank '' @
       (repr_list repr_str want))) (\<lambda>_.
         chk (lift (first_table ls i (block ls i))) (\<lambda>tbl.
         chk (ok (cash_heads_ok k (hd tbl)) ((kpath bk) @ '' Cash Book: a Money in and a Money out column for each of cash and the bank'')) (\<lambda>_.
         chk (lift (efor (charted bk) ns)) (\<lambda>_.
         chk (each_with (cash_row_step bk parts ns)
               \<lparr>b_bal = map (\<lambda>n. (n, opn bk n)) ns, b_in = zeros ns, b_out = zeros ns,
                b_left = filter (\<lambda>v. some_in ns (elines v)) (kvouchers bk), b_stop = False\<rparr> (tl tbl)) (\<lambda>st.
         done_with (ok (b_left st = [] \<and> list_all (\<lambda>n. dict_or (b_bal st) n 0 = cls bk n) ns) ((kpath bk) @ '' Cash Book: rows/closing''))))))))))))"

section \<open>The bank statement extract\<close>

definition BANK_EXTRACT :: rx where
  "BANK_EXTRACT = (Seq [Bol, Lit ''#### 3.'', Some_of (Cls is_digit), Lit ('' Bank statement '' @ [CHR 0xE2, CHR 0x86, CHR 0x92] @ '' entries '' @ u_emdash @ '' ''), Grp 1 (Many (Cls any_char)), Lit '', '', Grp 2 (Seq [Some_of (Cls word_char), Lit '' '', Times 4 (Cls is_digit)]), Eol])"

definition entry_numbered :: "read_book \<Rightarrow> string \<Rightarrow> error + read_entry" where
  "entry_numbered bk vid =
     (case find (\<lambda>v. evid v = vid) (kvouchers bk) of None \<Rightarrow> Inl (IndexError ''list index out of range'') | Some v \<Rightarrow> Inr v)"

definition extract_row :: "read_book \<Rightarrow> string \<Rightarrow> int \<Rightarrow> string list \<times> posting \<Rightarrow> int checked" where
  "extract_row bk bank bl rp = (case rp of (r, (d, vid, a)) \<Rightarrow> (chk (ok_e (eands [date_is r 0 d, txt_is r 6 vid, amt_is r 2 (max (- a) 0), amt_is r 3 (max a 0)]) ((kpath bk) @ '' extract '' @ vid)) (\<lambda>_.
         chk (ok_e (signed_is r 4 (bl + a)) ((kpath bk) @ '' extract '' @ vid @ '': balance'')) (\<lambda>_.
         chk (lift (entry_numbered bk vid)) (\<lambda>v.
         chk (lift (at r 5)) (\<lambda>r5.
         chk (ok (list_all (\<lambda>l. fst l = bank \<or> contains_sub (fst l) r5) (elines v)) ((kpath bk) @ '' extract '' @ vid @ '': account not named'')) (\<lambda>_.
         ret (bl + a))))))))"

definition check_bank_extract :: "read_book \<Rightarrow> bool \<Rightarrow> unit checked" where
  "check_bank_extract bk wanted =
     (let ls = klines bk; i = find_line (matches (Seq [Bol, Lit ''#### 3.'', Some_of (Cls is_digit), Lit ('' Bank statement '' @ [CHR 0xE2, CHR 0x86, CHR 0x92] @ '' entries '' @ u_emdash @ '' '')])) ls
      in chk (ok ((i \<noteq> None) = wanted) ((kpath bk) @ '': bank-statement extract '' @ (if wanted then ''missing'' else ''not expected''))) (\<lambda>_.
         case i of None \<Rightarrow> ret ()
         | Some i \<Rightarrow> (case re_match BANK_EXTRACT (ls ! i) of
             None \<Rightarrow> Inl (AttributeError ''group'')
           | Some g \<Rightarrow> (let bank = strip (grp g 1) in
                      chk (lift (pmonth (grp g 2))) (\<lambda>mon.
                      let upper = month_end (year mon) (month mon) in
                      chk (lift (first_table ls i (block ls i))) (\<lambda>tbl.
                      let rs = tl tbl in
                      chk (lift (charted bk bank)) (\<lambda>_.
                      let bl = bal_at bk bank (prev_day mon) in
                      chk (lift (at rs 0)) (\<lambda>r0.
                      chk (ok_e (signed_is r0 4 bl) ((kpath bk) @ '' extract: opening'')) (\<lambda>_.
                      let posts = filter (\<lambda>(d, _). mon \<le> d \<and> d \<le> upper) (pst bk bank) in
                      chk (ok (length rs - 2 = length posts \<and> length rs \<ge> 2)
                  ((kpath bk) @ '' extract: '' @ (str_int (int (length rs) - 2)) @ '' lines vs '' @ (str_nat (int (length posts))) @
       '' bank postings'')) (\<lambda>_.
                      chk (each_with (extract_row bk bank) bl (zip (butlast (tl rs)) posts)) (\<lambda>bl.
                      done_with (ok_e (ebind (ebind (at (last rs) 4) signed) (\<lambda>x. Inr (x = bl \<and> bl = bal_at bk bank upper))) ((kpath bk) @ '' extract: closing'')))))))))))))"

end

