(* ===== verification/Check_Reports.thy ===== *)
theory Check_Reports
  imports Check_Ledgers
begin

text \<open>
  The part of \<open>check_md.py\<close> that checks the reports drawn at a date or for a period: the ageing of what people
  owe, the two positions with their make-up, the month's summary and the statement for a chosen
  period.
\<close>

section \<open>You will get / You will give\<close>

type_synonym open_item = "date \<times> int"

text \<open>
  An amount settles the oldest open items of the other side first.  An item only partly settled
  leaves nothing of the amount, so the loop stops there.
\<close>

fun settle_items :: "int \<Rightarrow> open_item list \<Rightarrow> int \<times> open_item list" where
  "settle_items a [] = (a, [])"
| "settle_items a ((d, x) # items) =
     (if a \<noteq> 0 \<and> ((x > 0) \<noteq> (a > 0))
      then let amt = min \<bar>a\<bar> \<bar>x\<bar>;
               x' = x + (if x < 0 then amt else - amt);
               a' = a + (if a < 0 then amt else - amt)
           in if x' = 0 then settle_items a' items else (a', (d, x') # items)
      else (a, (d, x) # items))"

definition open_step :: "open_item list \<Rightarrow> date \<times> int \<Rightarrow> open_item list" where
  "open_step items p =
     (case settle_items (snd p) items of (a, left) \<Rightarrow> if a \<noteq> 0 then left @ [(fst p, a)] else left)"

definition open_items :: "read_book \<Rightarrow> string \<Rightarrow> date \<Rightarrow> open_item list" where
  "open_items bk name asof =
     foldl open_step (if opn bk name \<noteq> 0 then [(FY_START, opn bk name)] else [])
       (map (\<lambda>(d, _, a). (d, a)) (takeWhile (\<lambda>(d, _). d \<le> asof) (pst bk name)))"

definition age_buckets :: "date \<Rightarrow> open_item list \<Rightarrow> int list" where
  "age_buckets asof items =
     [\<Sum>(d, x)\<leftarrow>items. if days_between asof d \<le> 30 then \<bar>x\<bar> else 0,
      \<Sum>(d, x)\<leftarrow>items. if 30 < days_between asof d \<and> days_between asof d \<le> 90 then \<bar>x\<bar> else 0,
      \<Sum>(d, x)\<leftarrow>items. if 90 < days_between asof d then \<bar>x\<bar> else 0]"

record ageing_state =
  a_printed :: "int dict"
  a_get :: "int list"     \<comment> \<open>\<open>tot[1]\<close>\<close>
  a_give :: "int list"    \<comment> \<open>\<open>tot[-1]\<close>\<close>

definition ageing_step :: "read_book \<Rightarrow> date \<Rightarrow> ageing_state \<Rightarrow> string list \<Rightarrow> ageing_state checked" where
  "ageing_step bk asof st r = chk (lift (clean_at r 0)) (\<lambda>name.
     if starts_with ''Total you will'' name
     then chk (ok_e (ebind (emap (paise_at r) [2, 3, 4, 5]) (\<lambda>xs.
                  Inr (xs = (if contains_sub ''get'' name then a_get st else a_give st))))
                ((kpath bk) @ '' ageing: '' @ name)) (\<lambda>_. ret st)
     else (chk (lift (at r 1)) (\<lambda>r1.
          let dr = contains_sub ''(Dr)'' r1 in
          chk (lift (emap (paise_at r) [2, 3, 4, 5])) (\<lambda>amts.
          chk (lift (charted bk name)) (\<lambda>_.
          let items = open_items bk name asof in
          chk (ok (age_buckets asof items = tl amts \<and> sum_list (tl amts) = hd amts) ((kpath bk) @ '' ageing: '' @ name @ '' buckets'')) (\<lambda>_.
          chk (ok_e (if items = [] then Inr False else date_is r 6 (fst (hd items))) ((kpath bk) @ '' ageing: '' @ name @ '' open-since date'')) (\<lambda>_.
          let st = st\<lparr>a_printed := AList.update name (if dr then hd amts else - hd amts) (a_printed st)\<rparr> in
          ret (if dr then st\<lparr>a_get := map2 (+) (a_get st) amts\<rparr> else st\<lparr>a_give := map2 (+) (a_give st) amts\<rparr>))))))))"

definition people_balances :: "read_book \<Rightarrow> date \<Rightarrow> int dict" where
  "people_balances bk asof =
     map (\<lambda>n. (n, bal_at bk n asof)) (filter (\<lambda>n. bal_at bk n asof \<noteq> 0) (of_type bk [''Person / shop'']))"

definition check_ageing :: "read_book \<Rightarrow> unit checked" where
  "check_ageing bk =
     (let ls = klines bk; i = find_line (matches (Seq [Bol, Lit ''#### 3.'', Some_of (Cls is_digit), Lit ('' You will get / You will give '' @ u_emdash @ '' who owes what, and since when (on '')])) ls
      in chk (ok (i \<noteq> None) ((kpath bk) @ '': You will get / You will give list missing'')) (\<lambda>_.
         case i of None \<Rightarrow> ret ()
         | Some i \<Rightarrow> (chk (lift (searched (Seq [Lit ''(on '', Grp 1 (Seq [Times 2 (Cls is_digit), Lit '' '', Times 3 (Cls word_char), Lit '' '', Times 4 (Cls is_digit)]), Lit '')'']) (ls ! i))) (\<lambda>g.
                    chk (lift (pdate (grp g 1))) (\<lambda>asof.
                    chk (lift (first_table ls i (block ls i))) (\<lambda>tbl.
                    chk (each_with (ageing_step bk asof) \<lparr>a_printed = [], a_get = [0, 0, 0, 0], a_give = [0, 0, 0, 0]\<rparr> (tl tbl)) (\<lambda>st.
                    done_with (ok (dict_eq (a_printed st) (people_balances bk asof))
               ((kpath bk) @ '' ageing: accounts/balances differ from the ledgers'')))))))))"

section \<open>The full position\<close>

record position_state =
  p_have :: int
  p_get :: int
  p_give :: int
  p_fund :: int
  p_seen :: "string list"

definition own_cell :: "string list \<Rightarrow> error + int" where
  "own_cell r = ebind (clean_at r 2) (\<lambda>c.
     if ends_with '' Dr'' c then ebind (paise (take (length c - 3) c)) (\<lambda>v. Inr (- v)) else paise_at r 2)"

definition position_total :: "read_book \<Rightarrow> date \<Rightarrow> position_state \<Rightarrow> string list \<Rightarrow> string \<Rightarrow> bool checked" where
  "position_total bk date st r lab =
     (if starts_with (''Total '' @ u_emdash @ '' what I have'') lab then ok_e (amt_is r 2 (p_have st)) ((kpath bk) @ '' position '' @ (iso_date date) @ '': total have'')
      else if starts_with (''Total '' @ u_emdash @ '' what I will get'') lab then ok_e (amt_is r 2 (p_get st)) ((kpath bk) @ '' position '' @ (iso_date date) @ '': total get'')
      else if starts_with (''Total '' @ u_emdash @ '' what I will give'') lab then ok_e (amt_is r 3 (p_give st)) ((kpath bk) @ '' position '' @ (iso_date date) @ '': total give'')
      else if starts_with (''Total '' @ u_emdash @ '' funds'') lab then ok_e (amt_is r 3 (p_fund st)) ((kpath bk) @ '' position '' @ (iso_date date) @ '': total funds'')
      else ok_e (ebind (own_cell r) (\<lambda>own. Inr (own = p_have st + p_get st - p_give st - p_fund st)))
             ((kpath bk) @ '' position '' @ (iso_date date) @ '': own money''))"

definition position_place :: "read_book \<Rightarrow> date \<Rightarrow> position_state \<Rightarrow> string list \<Rightarrow> string \<Rightarrow> string \<Rightarrow> position_state checked" where
  "position_place bk date st r g lab =
     (let bl = bal_at bk lab date; whr = ((kpath bk) @ '' position '' @ (iso_date date) @ '': '' @ lab)
      in if g = ''What I will give'' then (chk (ok_e (eands [amt_is r 3 (- bl), Inr (- bl > 0 \<and> ty bk lab \<noteq> ''Fund'')])
              (whr @ '' give (a fund is own money, not something to give)'')) (\<lambda>_.
         chk (lift (paise_at r 3)) (\<lambda>x.
         ret (st\<lparr>p_give := p_give st + x\<rparr>))))
         else if g = ''Funds held for a purpose'' then (chk (ok_e (eands [amt_is r 3 (- bl), Inr (- bl > 0 \<and> ty bk lab = ''Fund'')]) (whr @ '' fund'')) (\<lambda>_.
         chk (lift (paise_at r 3)) (\<lambda>x.
         ret (st\<lparr>p_fund := p_fund st + x\<rparr>))))
         else if g = ''What I will get'' then (chk (ok_e (eands [amt_is r 2 bl, Inr (bl > 0)]) (whr @ '' get'')) (\<lambda>_.
         chk (lift (paise_at r 2)) (\<lambda>x.
         ret (st\<lparr>p_get := p_get st + x\<rparr>))))
         else chk (ok_e (eands [amt_is r 2 bl, Inr (bl \<ge> 0)]) (whr @ '' have'')) (\<lambda>_. ret (st\<lparr>p_have := p_have st + \<bar>bl\<bar>\<rparr>)))"

definition position_step :: "read_book \<Rightarrow> date \<Rightarrow> position_state \<Rightarrow> string list \<Rightarrow> position_state checked" where
  "position_step bk date st r = (chk (lift (clean_at r 1)) (\<lambda>lab.
         chk (lift (clean_at r 0)) (\<lambda>g.
         if g = [] then chk (position_total bk date st r lab) (\<lambda>_. ret st)
     else (chk (lift (charted bk lab)) (\<lambda>_.
          chk (ok (ty bk lab \<notin> set EQUITY) ((kpath bk) @ '' position '' @ (iso_date date) @ '': own-money account '' @ lab @ '' placed'')) (\<lambda>_.
          position_place bk date (st\<lparr>p_seen := lab # p_seen st\<rparr>) r g lab))))))"

text \<open>The eight lines of the make-up: \<open>vals\<close>.\<close>

definition make_up_ok :: "read_book \<Rightarrow> date \<Rightarrow> (string \<times> int) list \<Rightarrow> error + bool" where
  "make_up_ok bk date vals = (case (equity_parts_read bk date, result_to_read bk date) of ((start, put, taken), (inc, expn)) \<Rightarrow>
     let res = inc - expn;
         hh = of_type bk [''Joint family''] \<noteq> [];
         put_w = (if hh then ''+ Received from the joint family so far'' else ''+ Put in so far'');
         taken_w = (if hh then (u_minus @ '' Put into the joint family or settled so far'') else (u_minus @ '' Taken out so far''));
         is = (\<lambda>k f. ebind (at vals k) (\<lambda>v. Inr (f v)))
     in eands [is 0 (\<lambda>v. v = (''Income so far'', inc)), is 1 (\<lambda>v. v = ((u_minus @ '' Spent so far''), expn)),
          is 2 (\<lambda>v. starts_with ''= Result so far'' (fst v) \<and> snd v = \<bar>res\<bar>), is 3 (\<lambda>v. snd v = start),
          is 4 (\<lambda>v. starts_with put_w (fst v) \<and> snd v = put), is 5 (\<lambda>v. starts_with taken_w (fst v) \<and> snd v = taken),
          is 6 (\<lambda>v. starts_with ((if res \<ge> 0 then ''+ '' else (u_minus @ '' '')) @ ''Result so far'') (fst v) \<and> snd v = \<bar>res\<bar>)])"

definition stakes_at :: "read_book \<Rightarrow> (string \<Rightarrow> int) \<Rightarrow> nat" where
  "stakes_at bk bl = length (filter (\<lambda>n. bl n \<noteq> 0) (of_type bk [''Money in a business'']))"

definition sells_goods :: "read_book \<Rightarrow> bool" where
  "sells_goods bk = dict_has (ktype bk) ''Goods Bought for Sale A/c''"

definition check_position :: "read_book \<Rightarrow> nat \<Rightarrow> string \<Rightarrow> unit checked" where
  "check_position bk i on = (let ls = klines bk; e = block ls i in
                            chk (lift (pdate on)) (\<lambda>date.
                            let what = (''position '' @ (iso_date date)); bl = (\<lambda>n. bal_at bk n date) in
                            chk (head_ok (kpath bk) ls i (kname bk)) (\<lambda>_.
                            chk (foot_ok bk ls i e COST_LINE (list_ex (\<lambda>n. bl n \<noteq> 0) (of_type bk [''Thing owned''])) what) (\<lambda>_.
                            chk (foot_ok bk ls i e STOCK_LINE (sells_goods bk) what) (\<lambda>_.
                            chk (build_ok bk ls i e date what) (\<lambda>_.
                            chk (foot_ok bk ls i e STAKE_LINE (stakes_at bk bl = 1) what) (\<lambda>_.
                            chk (foot_ok bk ls i e STAKES_LINE (stakes_at bk bl > 1) what) (\<lambda>_.
                            chk (lift (read_tables ls i e)) (\<lambda>tbls.
                            chk (lift (at tbls 0)) (\<lambda>t0.
                            chk (each_with (position_step bk date) \<lparr>p_have = 0, p_get = 0, p_give = 0, p_fund = 0, p_seen = []\<rparr> (tl (snd t0))) (\<lambda>st.
                            chk (each (\<lambda>n. if balance_type bk n \<and> ty bk n \<notin> set EQUITY \<and> bl n \<noteq> 0
               then done_with (ok (n \<in> set (p_seen st)) ((kpath bk) @ '' position '' @ (iso_date date) @ '': '' @ n @ '' missing'')) else ret ()) (kaccounts bk)) (\<lambda>_.
                            chk (lift (at tbls 1)) (\<lambda>t1.
                            chk (lift (emap (\<lambda>r. ebind (clean_at r 0) (\<lambda>c. ebind (paise_at r 1) (\<lambda>x. Inr (c, x)))) (tl (snd t1)))) (\<lambda>vals.
                            chk (ok_e (make_up_ok bk date vals) ((kpath bk) @ '' position '' @ (iso_date date) @ '': make-up lines'')) (\<lambda>_.
                            done_with (ok_e (ebind (at vals 7) (\<lambda>v. case (equity_parts_read bk date, result_to_read bk date) of ((start, put, taken), (inc, expn)) \<Rightarrow>
         Inr (snd v = start + put - taken + (inc - expn)
              \<and> start + put - taken + (inc - expn) = p_have st + p_get st - p_give st - p_fund st)))
       ((kpath bk) @ '' position '' @ (iso_date date) @ '': make-up != position'')))))))))))))))))"

definition FULL_POSITION :: rx where
  "FULL_POSITION = (Seq [Bol, Lit ''#### 3.'', Cls is_digit, Lit '' Full position on '', Grp 1 (Seq [Times 2 (Cls is_digit), Lit '' '', Times 3 (Cls word_char), Lit '' '', Times 4 (Cls is_digit)])])"

definition check_positions :: "read_book \<Rightarrow> unit checked" where
  "check_positions bk = (let found = filter (\<lambda>il. matches FULL_POSITION (snd il)) (indexed (klines bk)) in
                        chk (each (\<lambda>(i, l). chk (lift (matched FULL_POSITION l)) (\<lambda>g. check_position bk i (grp g 1))) found) (\<lambda>_.
                        done_with (ok (length found = 2) ((kpath bk) @ '': two positions expected''))))"

section \<open>One month, account by account\<close>

definition ONE_MONTH :: rx where
  "ONE_MONTH = (Seq [Bol, Lit (''#### 3.3 One month '' @ u_emdash @ '' '')])"

definition month_step :: "read_book \<Rightarrow> date \<Rightarrow> date \<Rightarrow> (int \<times> int) \<times> string list \<Rightarrow> string list \<Rightarrow> ((int \<times> int) \<times> string list) checked" where
  "month_step bk s e st r = (case st of ((tdr, tcr), seen) \<Rightarrow> (chk (lift (clean_at r 0)) (\<lambda>n.
         chk (lift (charted bk n)) (\<lambda>_.
         let ob = bal_at bk n (prev_day s) in
         let (d, c) = mov bk n s e in
         chk (ok_e (eands [amt_is r 1 \<bar>ob\<bar>, txt_is r 2 (side ob), amt_is r 3 d, amt_is r 4 c, amt_is r 5 \<bar>ob + d - c\<bar>, txt_is r 6 (side (ob + d - c))])
        ((kpath bk) @ '' one-month: '' @ n)) (\<lambda>_.
         ret ((tdr + d, tcr + c), n # seen))))))"

definition check_month :: "read_book \<Rightarrow> unit checked" where
  "check_month bk =
     (let ls = klines bk; i = find_line (matches ONE_MONTH) ls
      in chk (ok (i \<noteq> None) ((kpath bk) @ '': one-month summary missing'')) (\<lambda>_.
         case i of None \<Rightarrow> ret ()
         | Some i \<Rightarrow> (let e = block ls i in
                    chk (lift (searched (Seq [Lit (u_emdash @ '' ''), Grp 1 (Seq [Some_of (Cls word_char), Lit '' '', Times 4 (Cls is_digit)]), Lit '', account by account'', Eol]) (ls ! i))) (\<lambda>g.
                    chk (lift (pmonth (grp g 1))) (\<lambda>mon.
                    let last_day = month_end (year mon) (month mon); before = (\<lambda>n. bal_at bk n (prev_day mon)) in
                    chk (lift (read_tables ls i e)) (\<lambda>tbls.
                    chk (ok (length tbls = 1) ((kpath bk) @ '' one-month: the month's entries must not be repeated'')) (\<lambda>_.
                    chk (lift (at tbls 0)) (\<lambda>t0.
                    let rs = tl (snd t0) in
                    chk (each_with (month_step bk mon last_day) ((0, 0), []) (butlast rs)) (\<lambda>((tdr, tcr), seen).
                    chk (lift (at (rev rs) 0)) (\<lambda>total.
                    chk (ok_e (eands [amt_is total 3 tdr, Inr (tdr = tcr), amt_is total 4 tcr]) ((kpath bk) @ '' one-month: totals'')) (\<lambda>_.
                    chk (foot_ok bk ls i e COST_LINE
               (list_ex (\<lambda>n. before n \<noteq> 0 \<or> mov bk n mon last_day \<noteq> (0, 0)) (of_type bk [''Thing owned''])) ''one-month'') (\<lambda>_.
                    chk (foot_ok bk ls i e STOCK_LINE (sells_goods bk) ''one-month'') (\<lambda>_.
                    chk (build_ok bk ls i e last_day ''one-month'') (\<lambda>_.
                    each (\<lambda>n. if n \<notin> set seen
                       then done_with (ok (before n = 0 \<and> mov bk n mon last_day = (0, 0)) ((kpath bk) @ '' one-month: '' @ n @ '' omitted''))
                       else ret ()) (kaccounts bk)))))))))))))))"

section \<open>One account for a chosen period\<close>

definition CHOSEN_PERIOD :: rx where
  "CHOSEN_PERIOD = (Seq [Bol, Lit (''#### 3.4 One account for a chosen period '' @ u_emdash @ '' ''), Grp 1 (Many (Cls any_char)), Lit '', '', Grp 2 (Seq [Times 2 (Cls is_digit), Lit '' '', Times 3 (Cls word_char), Lit '' '', Times 4 (Cls is_digit)]), Lit '' to '', Grp 3 (Seq [Times 2 (Cls is_digit), Lit '' '', Times 3 (Cls word_char), Lit '' '', Times 4 (Cls is_digit)]), Eol])"

text \<open>The postings of the period; to the year's last day, the year-close entries with them.\<close>

definition period_posts :: "read_book \<Rightarrow> string \<Rightarrow> date \<Rightarrow> date \<Rightarrow> posting list" where
  "period_posts bk name s e =
     filter (\<lambda>(d, _). s \<le> d \<and> d \<le> e) (pst bk name)
     @ (if e = FY_END \<and> balance_type bk name
        then map (\<lambda>(vid, _, a, _). (FY_END, vid, a)) (dict_or (kclose_posts bk) name []) else [])"

record period_state =
  c_bal :: int
  c_dr :: int
  c_cr :: int
  c_left :: "posting list"
  c_stop :: bool

definition period_step :: "read_book \<Rightarrow> string \<Rightarrow> period_state \<Rightarrow> string list \<Rightarrow> period_state checked" where
  "period_step bk name st r =
     (if c_stop st then ret st else
      chk (ok (c_left st \<noteq> []) ((kpath bk) @ '' custom '' @ name @ '': extra row'')) (\<lambda>_.
      case c_left st of
        [] \<Rightarrow> ret (st\<lparr>c_stop := True\<rparr>)
      | (d, vid, a) # rest \<Rightarrow> (let st = st\<lparr>c_bal := c_bal st + a, c_dr := c_dr st + max a 0, c_cr := c_cr st + max (- a) 0, c_left := rest\<rparr> in
                             chk (ok_e (eands ([date_is r 0 d, txt_is r 1 vid] @ sides_are r (max a 0) (max (- a) 0) @ balance_is r (c_bal st)
                       @ [ebind (at r 2) (\<lambda>c. Inr (contains_sub ''<em>'' c))])) ((kpath bk) @ '' custom '' @ name @ '' row '' @ vid)) (\<lambda>_.
                             ret st))))"

text \<open>What the closing line must end with.\<close>

definition closing_word :: "read_book \<Rightarrow> string \<Rightarrow> bool \<Rightarrow> int \<Rightarrow> string option" where
  "closing_word bk name sent bl =
     (if ty bk name = ''Sub-family'' \<and> bl \<noteq> 0 then Some (if bl > 0 then ''against the household'' else ''in the household's favour'')
      else if ty bk name = ''Joint family'' \<and> bl \<noteq> 0 then Some (if bl > 0 then ''against the family'' else ''in the family's favour'')
      else if sent \<and> bl \<noteq> 0 then Some (if bl > 0 then ''Balance due from you'' else ''Balance due to you'')
      else if ty bk name = ''Person / shop'' \<and> bl \<noteq> 0 then Some (if bl > 0 then ''You will get'' else ''You will give'')
      else None)"

definition closing_line_ok :: "string list \<Rightarrow> string option \<Rightarrow> int \<Rightarrow> error + bool" where
  "closing_line_ok r word bl =
     eands ([ebind (clean_at r 2) (\<lambda>c. Inr (starts_with ''Closing balance on'' c
                \<and> (case word of None \<Rightarrow> True | Some w \<Rightarrow> ends_with w c)))] @ sides_are r 0 0 @ balance_is r bl)"

definition check_period :: "read_book \<Rightarrow> nat \<Rightarrow> string \<Rightarrow> date \<Rightarrow> date \<Rightarrow> unit checked" where
  "check_period bk i name s e = (let ls = klines bk in
         chk (lift (first_table ls i (block ls i))) (\<lambda>tbl.
         let rs = tl tbl in
         chk (lift (charted bk name)) (\<lambda>_.
         let posts = period_posts bk name s e; start = (if balance_type bk name then bal_at bk name (prev_day s) else 0) in
         chk (lift (at rs 0)) (\<lambda>r0.
         chk (ok_e (eands ([ebind (clean_at r0 2) (\<lambda>c. Inr (starts_with ''Opening balance on'' c))] @ sides_are r0 0 0 @ balance_is r0 start))
        ((kpath bk) @ '' custom '' @ name @ '': opening (balance only, not in the totals)'')) (\<lambda>_.
         chk (each_with (period_step bk name) \<lparr>c_bal = start, c_dr = 0, c_cr = 0, c_left = posts, c_stop = False\<rparr>
             (butlast (butlast (tl rs)))) (\<lambda>st.
         chk (lift (at (rev rs) 1)) (\<lambda>tot.
         chk (lift (at (rev rs) 0)) (\<lambda>clo.
         chk (ok_e (eands [txt_is tot 2 ''Total for the period'', amt_is tot 3 (c_dr st), amt_is tot 4 (c_cr st)])
        ((kpath bk) @ '' custom '' @ name @ '': totals of the period's entries only'')) (\<lambda>_.
         chk (lift (clean_at (hd tbl) 3)) (\<lambda>h3.
         let sent = (h3 = (''Naam (Dr) '' @ u_rupee)); bl = c_bal st in
         chk (ok (\<not> sent \<or> ty bk name = ''Person / shop'') ((kpath bk) @ '' custom '' @ name @ '': a sent copy is only for a person'')) (\<lambda>_.
         chk (ok (sent = list_ex (contains_sub ''This is the copy sent to'') (take 6 (drop i ls)))
        ((kpath bk) @ '' custom '' @ name @ '': sent-copy columns and its note disagree'')) (\<lambda>_.
         chk (ok_e (closing_line_ok clo (closing_word bk name sent bl) bl) ((kpath bk) @ '' custom '' @ name @ '': closing line'')) (\<lambda>_.
         done_with (ok (c_left st = [] \<and> posts \<noteq> [] \<and> bl = start + (\<Sum>p\<leftarrow>posts. posting_amount p)) ((kpath bk) @ '' custom '' @ name @ '': rows'')))))))))))))))"

definition check_custom :: "read_book \<Rightarrow> unit checked" where
  "check_custom bk =
     (let ls = klines bk; i = find_line (matches (Seq [Bol, Lit (''#### 3.4 One account for a chosen period '' @ u_emdash @ '' '')])) ls
      in chk (ok (i \<noteq> None) ((kpath bk) @ '': chosen-period statement missing'')) (\<lambda>_.
         case i of None \<Rightarrow> ret ()
         | Some i \<Rightarrow> (chk (lift (matched CHOSEN_PERIOD (ls ! i))) (\<lambda>g.
                    chk (lift (pdate (grp g 2))) (\<lambda>s.
                    chk (lift (pdate (grp g 3))) (\<lambda>e.
                    check_period bk i (strip (grp g 1)) s e))))))"

end
