(* ===== verification/Check_Closing.thy ===== *)
theory Check_Closing
  imports Check_Reports
begin

text \<open>
  \<open>check_md.py\<close>'s \<open>check_closing\<close> and \<open>appropriation\<close>: the year-end statements of one book - the trial
  balance, the receipts and payments, the year's statement, the appropriation of a partnership's
  profit, the balance sheet, what is carried forward, and each fund's statement.
\<close>

section \<open>The trial balance\<close>

definition trial_step :: "read_book \<Rightarrow> (int \<times> int) \<times> string list \<Rightarrow> string list \<Rightarrow> ((int \<times> int) \<times> string list) checked" where
  "trial_step bk st r = (case st of ((tdr, tcr), seen) \<Rightarrow> (chk (lift (clean_at r 0)) (\<lambda>n.
         chk (lift (charted bk n)) (\<lambda>_.
         let c = cls bk n in
         chk (ok_e (eands [Inr (length r = 3), amt_is r 1 (max c 0), amt_is r 2 (max (- c) 0), Inr (c \<noteq> 0)]) ((kpath bk) @ '' TB: '' @ n)) (\<lambda>_.
         chk (lift (paise_at r 1)) (\<lambda>dr.
         chk (lift (paise_at r 2)) (\<lambda>cr.
         ret ((tdr + dr, tcr + cr), n # seen))))))))"

definition check_trial :: "read_book \<Rightarrow> unit checked" where
  "check_trial bk = (let ls = klines bk in
                    chk (need (find_line (matches (Seq [Bol, Lit ''#### 4.1 Trial Balance''])) ls)) (\<lambda>i.
                    chk (lift (first_table ls i (block ls i))) (\<lambda>tbl.
                    chk (each_with (trial_step bk) ((0, 0), []) (butlast (tl tbl))) (\<lambda>((tdr, tcr), seen).
                    chk (lift (at (rev (tl tbl)) 0)) (\<lambda>total.
                    chk (ok_e (eands [amt_is total 1 tdr, Inr (tdr = tcr), amt_is total 2 tcr]) ((kpath bk) @ '' TB: totals'')) (\<lambda>_.
                    chk (ok (list_all (\<lambda>n. n \<in> set seen \<or> cls bk n = 0) (kaccounts bk)) ((kpath bk) @ '' TB: a balance is missing'')) (\<lambda>_.
                    foot_ok bk ls i (block ls i) COST_LINE (list_ex (\<lambda>n. cls bk n \<noteq> 0) (of_type bk [''Thing owned''])) ''TB'')))))))"

section \<open>Receipts and payments\<close>

definition rp_entry_line :: "read_book \<Rightarrow> read_entry \<Rightarrow> int dict \<times> int dict \<Rightarrow> string \<times> int \<Rightarrow> (int dict \<times> int dict) checked" where
  "rp_entry_line bk v st l = (case (st, l) of ((rec, paid), (n, a)) \<Rightarrow>
     if etype v = ''Paid from a fund''
     then ret (rec, if a > 0 \<and> ty bk n \<in> set [''Expense'', ''Thing owned''] then dict_add n a paid else paid)
     else if n \<in> set (money_names bk) then ret st
     else chk (ok (a > 0 \<or> ty bk n \<notin> set MIXED_OK)
            ((kpath bk) @ '' R&P: '' @ (evid v) @ '' recovers an advance or a loan, which a Receipts & Payments account cannot show'')) (\<lambda>_.
          ret (if a < 0 then (dict_add n (- a) rec, paid) else (rec, dict_add n a paid))))"

definition rp_of_entries :: "read_book \<Rightarrow> (int dict \<times> int dict) checked" where
  "rp_of_entries bk =
     each_with (\<lambda>st v. each_with (rp_entry_line bk v) st (elines v)) ([], [])
       (filter (\<lambda>v. etype v \<in> set [''Paid from a fund'', ''Money in'', ''Money out'']) (kvouchers bk))"

record rp_printed =
  q_received :: int
  q_paid :: int
  q_heads_in :: "string list"
  q_heads_out :: "string list"
  q_totals :: nat

definition q_in :: "int \<Rightarrow> rp_printed \<Rightarrow> rp_printed" where
  "q_in x st = st\<lparr>q_received := q_received st + x\<rparr>"

definition q_out :: "int \<Rightarrow> rp_printed \<Rightarrow> rp_printed" where
  "q_out x st = st\<lparr>q_paid := q_paid st + x\<rparr>"

definition rp_side :: "read_book \<Rightarrow> int dict \<times> int dict \<Rightarrow> rp_printed \<Rightarrow> string \<times> string \<times> bool \<Rightarrow> rp_printed checked" where
  "rp_side bk heads st x = (case (heads, x) of ((rec, paid), (p, amt, receipt)) \<Rightarrow>
     if p = [] then chk (ok (clean amt = []) ((kpath bk) @ '' R&P: an amount with no particulars'')) (\<lambda>_. ret st)
     else if p = ''Total'' then
       chk (ok_e (ebind (paise amt) (\<lambda>v. Inr (v = (if receipt then q_received st else q_paid st))))
              ((kpath bk) @ '' R&P: total '' @ (if receipt then ''receipts'' else ''payments''))) (\<lambda>_. ret (st\<lparr>q_totals := Suc (q_totals st)\<rparr>))
     else (chk (ok (starts_with (if receipt then ''To '' else ''By '') p) ((kpath bk) @ '' R&P: '' @ (repr_str p) @ '' on the wrong side'')) (\<lambda>_.
          if starts_with (''To Opening balance '' @ u_emdash @ '' '') p then (chk (lift (paise amt)) (\<lambda>v.
         chk (lift (dict_get (kopening bk) (drop_chars 21 p))) (\<lambda>opening.
         chk (ok (v = opening) ((kpath bk) @ '' R&P: opening'')) (\<lambda>_.
         ret (q_in v st)))))
       else if starts_with (''By Closing balance '' @ u_emdash @ '' '') p then (chk (lift (paise amt)) (\<lambda>v.
         chk (lift (dict_get (kclosing bk) (drop_chars 21 p))) (\<lambda>c.
         chk (ok (v = c) ((kpath bk) @ '' R&P: closing'')) (\<lambda>_.
         ret (q_out v st)))))
       else if starts_with ''To '' p then (chk (lift (paise amt)) (\<lambda>v.
         chk (ok (map_of rec (drop 3 p) = Some v) ((kpath bk) @ '' R&P: '' @ p)) (\<lambda>_.
         ret (q_in v (st\<lparr>q_heads_in := drop 3 p # q_heads_in st\<rparr>)))))
       else if starts_with ''By '' p then (chk (lift (paise amt)) (\<lambda>v.
         chk (ok (map_of paid (drop 3 p) = Some v) ((kpath bk) @ '' R&P: '' @ p)) (\<lambda>_.
         ret (q_out v (st\<lparr>q_heads_out := drop 3 p # q_heads_out st\<rparr>)))))
       else ret st)))"

definition rp_row :: "read_book \<Rightarrow> int dict \<times> int dict \<Rightarrow> rp_printed \<Rightarrow> string list \<Rightarrow> rp_printed checked" where
  "rp_row bk heads st r = (chk (lift (clean_at r 0)) (\<lambda>p0.
                          chk (lift (at r 1)) (\<lambda>a1.
                          chk (lift (clean_at r 2)) (\<lambda>p2.
                          chk (lift (at r 3)) (\<lambda>a3.
                          each_with (rp_side bk heads) st [(p0, a1, True), (p2, a3, False)])))))"

definition check_receipts :: "read_book \<Rightarrow> unit checked" where
  "check_receipts bk =
     (let ls = klines bk
      in case find_line (matches (Seq [Bol, Lit ''#### 4.2 Receipts & Payments Account''])) ls of
           None \<Rightarrow> ret ()
         | Some i \<Rightarrow> (chk (lift (first_table ls i (block ls i))) (\<lambda>tbl.
                    chk (head_ok (kpath bk) ls i (kname bk)) (\<lambda>_.
                    chk (rp_of_entries bk) (\<lambda>heads.
                    chk (ok (map clean (hd tbl) = [''Receipts'', u_rupee, ''Payments'', u_rupee])
                        ((kpath bk) @ '' R&P: receipts on the left, payments on the right (04 '' @ ([CHR 0xC2, CHR 0xA7]) @
       ''6.7)'')) (\<lambda>sides.
                    let rs = (if sides then tl tbl else []) in
                    chk (each_with (rp_row bk heads) \<lparr>q_received = 0, q_paid = 0, q_heads_in = [], q_heads_out = [], q_totals = 0\<rparr> rs) (\<lambda>st.
                    chk (ok_e (if q_totals st \<noteq> 2 then Inr False
                   else ebind (at (rev rs) 0) (\<lambda>r. eands [txt_is r 0 ''Total'', txt_is r 2 ''Total'']))
                ((kpath bk) @ '' R&P: both totals level on the last row'')) (\<lambda>_.
                    done_with (ok (q_received st = q_paid st \<and> set (q_heads_in st) = set (map fst (fst heads))
                            \<and> set (q_heads_out st) = set (map fst (snd heads))) ((kpath bk) @ '' R&P: heads / totals''))))))))))"

section \<open>The year's statement\<close>

definition incomes :: "read_book \<Rightarrow> int dict" where
  "incomes bk = map (\<lambda>n. (n, - cls bk n)) (of_type bk [''Income''])"

definition expenses :: "read_book \<Rightarrow> int dict" where
  "expenses bk = map (\<lambda>n. (n, cls bk n)) (of_type bk [''Expense''])"

definition total_of :: "int dict \<Rightarrow> int" where
  "total_of d = (\<Sum>x\<leftarrow>d. snd x)"

definition year_result_read :: "read_book \<Rightarrow> int" where
  "year_result_read bk = total_of (incomes bk) - total_of (expenses bk)"

definition entries_is :: "string list \<Rightarrow> nat \<Rightarrow> error + bool" where   \<comment> \<open>\<open>int(clean(r[1])) == len(...)\<close>\<close>
  "entries_is r n = ebind (ebind (clean_at r 1) py_int) (\<lambda>x. Inr (x = int n))"

definition statement_step :: "read_book \<Rightarrow> string list \<Rightarrow> string list \<Rightarrow> string list checked" where
  "statement_step bk heads r = (chk (lift (clean_at r 0)) (\<lambda>p.
         let h = drop 3 p; inc = incomes bk; expn = expenses bk; res = year_result_read bk in
         if starts_with ''To '' p \<and> dict_has expn h then
       chk (ok_e (eands [amt_is r 2 (dict_or expn h 0), entries_is r (length (pst bk h))]) ((kpath bk) @ '' statement: '' @ p)) (\<lambda>_. ret (h # heads))
     else if starts_with ''By '' p \<and> dict_has inc h then
       chk (ok_e (eands [amt_is r 3 (dict_or inc h 0), entries_is r (length (pst bk h))]) ((kpath bk) @ '' statement: '' @ p)) (\<lambda>_. ret (h # heads))
     else if starts_with ''Total of the heads'' p then
       chk (ok_e (eands [amt_is r 2 (total_of expn), amt_is r 3 (total_of inc)]) ((kpath bk) @ '' statement: heads total'')) (\<lambda>_. ret heads)
     else if p = ''Total'' then
       chk (ok_e (ebind (paise_at r 2) (\<lambda>x. eands [amt_is r 3 x, Inr (x = max (total_of expn) (total_of inc))])) ((kpath bk) @ '' statement: grand total'')) (\<lambda>_. ret heads)
     else chk (ok_e (amt_is r (if res \<ge> 0 then 2 else 3) \<bar>res\<bar>) ((kpath bk) @ '' statement: result line'')) (\<lambda>_. ret heads)))"

definition year_statement_line :: "string \<Rightarrow> bool" where
  "year_statement_line l =
     (matches (Seq [Bol, Lit ''#### 4.'', Cls is_digit, Lit '' '', Grp 1 (Many (Cls any_char)), Lit '' for FY 2025-26'', Eol]) l \<and> \<not> contains_sub ''Receipts & Payments'' l \<and> \<not> contains_sub ''Appropriation'' l)"

definition check_year_statement :: "read_book \<Rightarrow> unit checked" where
  "check_year_statement bk = (let ls = klines bk in
                             chk (need (find_line year_statement_line ls)) (\<lambda>i.
                             chk (head_ok (kpath bk) ls i (kname bk)) (\<lambda>_.
                             chk (foot_ok bk ls i (block ls i) STOCK_LINE (sells_goods bk) ''year's statement'') (\<lambda>_.
                             chk (build_ok bk ls i (block ls i) FY_END ''year's statement'') (\<lambda>_.
                             chk (lift (first_table ls i (block ls i))) (\<lambda>tbl.
                             chk (each_with (statement_step bk) [] (tl tbl)) (\<lambda>heads.
                             done_with (ok (set heads = set (map fst (incomes bk)) \<union> set (map fst (expenses bk)))
       ((kpath bk) @ '' statement: every income and expense head'')))))))))"

section \<open>The appropriation\<close>

type_synonym share_of_profit = "int \<times> int \<times> int"   \<comment> \<open>\<open>w\<close> of \<open>t\<close> shares, and the paise\<close>

text \<open>\<open>int(round(float(s) * 100))\<close> of a percentage printed with at most two decimals.\<close>

definition percent_bp :: "string \<Rightarrow> error + int" where
  "percent_bp s =
     (case split_on (CHR ''.'') s of
        [i] \<Rightarrow> (if i \<noteq> [] \<and> list_all is_digit i then Inr (int_of_digits i * 100) else Inl (ValueError ''could not convert string to float''))
      | [i, f] \<Rightarrow> (if i @ f \<noteq> [] \<and> list_all is_digit (i @ f)
                  then Inr ((2 * int_of_digits (i @ f) * 100 + 10 ^ length f) div (2 * 10 ^ length f))
                  else Inl (ValueError ''could not convert string to float''))
      | _ \<Rightarrow> Inl (ValueError ''could not convert string to float''))"

definition INTEREST_OF :: rx where "INTEREST_OF = (Seq [Bol, Lit (''To Interest on capital '' @ u_emdash @ '' ''), Grp 1 (Many (Cls any_char)), Eol])"
definition SHARE_OF :: rx where "SHARE_OF = (Seq [Bol, Lit (''To Share of profit '' @ u_emdash @ '' ''), Grp 1 (Many (Cls any_char)), Eol])"
definition RATE_ON :: rx where "RATE_ON = (Seq [Bol, Grp 1 (Some_of (Cls (\<lambda>x. is_digit x \<or> x \<in> set ''.''))), Lit (''% on '' @ u_rupee), Grp 2 (Some_of (Cls (\<lambda>x. is_digit x \<or> x \<in> set '',''))), Eol])"
definition W_OF_T :: rx where "W_OF_T = (Seq [Bol, Grp 1 (Some_of (Cls is_digit)), Lit '' of '', Grp 2 (Some_of (Cls is_digit)), Eol])"

definition capital_name :: "string \<Rightarrow> string" where "capital_name who = (''Capital A/c '' @ u_endash @ '' '' @ who)"
definition current_name :: "string \<Rightarrow> string" where "current_name who = (''Current A/c '' @ u_endash @ '' '' @ who)"
definition partner_name :: "string \<Rightarrow> string" where "partner_name who = (who @ '' A/c'')"

definition interest_line :: "read_book \<Rightarrow> string \<Rightarrow> string list \<Rightarrow> int checked" where
  "interest_line bk who r = (chk (lift (clean_at r 1)) (\<lambda>c1.
                            chk (lift (matched RATE_ON c1)) (\<lambda>g.
                            chk (lift (dict_get (kclosing bk) (capital_name who))) (\<lambda>c.
                            let cap = - c in
                            chk (ok_e (ebind (paise (grp g 2)) (\<lambda>x. Inr (x = cap))) ((kpath bk) @ '' appropriation: capital of '' @ who)) (\<lambda>_.
                            chk (lift (percent_bp (grp g 1))) (\<lambda>bp.
                            let due = (2 * cap * bp + 10000) div 20000 in
                            chk (ok_e (amt_is r 2 due) ((kpath bk) @ '' appropriation: interest of '' @ who)) (\<lambda>_.
                            ret due)))))))"

definition appropriation_step :: "read_book \<Rightarrow> int dict \<times> share_of_profit dict \<Rightarrow> string list \<Rightarrow> (int dict \<times> share_of_profit dict) checked" where
  "appropriation_step bk st r = (case st of (interest, shares) \<Rightarrow> (chk (lift (clean_at r 0)) (\<lambda>p.
         chk ((case re_match INTEREST_OF p of
                    None \<Rightarrow> ret interest
                  | Some g \<Rightarrow> chk (interest_line bk (grp g 1) r) (\<lambda>due. ret (AList.update (grp g 1) due interest)))) (\<lambda>interest.
         case re_match SHARE_OF p of
       None \<Rightarrow> ret (interest, shares)
     | Some g \<Rightarrow> (chk (lift (clean_at r 1)) (\<lambda>c1.
                chk (lift (matched W_OF_T c1)) (\<lambda>wt.
                chk (lift (paise_at r 2)) (\<lambda>x.
                ret (interest, AList.update (grp g 1) (int_of_digits (grp wt 1), int_of_digits (grp wt 2), x) shares)))))))))"

definition share_fair :: "int \<Rightarrow> share_of_profit \<Rightarrow> bool" where
  "share_fair rest x = (case x of (w, t, s) \<Rightarrow> \<bar>s * t - rest * w\<bar> < t)"

definition appropriation_read :: "read_book \<Rightarrow> int \<Rightarrow> string list list \<Rightarrow> (int dict \<times> share_of_profit dict) checked" where
  "appropriation_read bk res rs = (chk (each_with (appropriation_step bk) ([], []) rs) (\<lambda>(interest, shares).
         let rest = res - total_of interest in
         chk (ok (rest > 0 \<and> (\<Sum>(_, _, _, s)\<leftarrow>shares. s) = rest) ((kpath bk) @ '' appropriation: shares do not add up to the rest'')) (\<lambda>_.
         chk (each (\<lambda>(who, x). done_with (ok (share_fair rest x) ((kpath bk) @ '' appropriation: share of '' @ who))) shares) (\<lambda>_.
         ret (interest, shares)))))"

text \<open>What a partner's account is credited with by the close; what the appropriation account is charged.\<close>

definition credited_at_close :: "read_book \<Rightarrow> string \<Rightarrow> int" where
  "credited_at_close bk n = (\<Sum>(_, _, a, _)\<leftarrow>dict_or (kclose_posts bk) n []. if a < 0 then - a else 0)"

definition appropriation_charged :: "read_book \<Rightarrow> int" where
  "appropriation_charged bk =
     (\<Sum>(_, _, lns)\<leftarrow>kclose bk. \<Sum>(n, a)\<leftarrow>lns. if starts_with ''P&L Appropriation'' n \<and> a > 0 then a else 0)"

definition partner_account :: "read_book \<Rightarrow> string \<Rightarrow> string" where
  "partner_account bk who = (if dict_has (ktype bk) (current_name who) then current_name who else partner_name who)"

text \<open>The interest, the shares, and what each partner is credited with, where there is an appropriation.\<close>

type_synonym appropriated = "int dict \<times> share_of_profit dict"

definition credit_of :: "appropriated \<Rightarrow> string \<Rightarrow> int" where
  "credit_of ap who = dict_or (fst ap) who 0 + (case dict_or (snd ap) who (0, 0, 0) of (_, _, s) \<Rightarrow> s)"

definition check_appropriation :: "read_book \<Rightarrow> appropriated option checked" where
  "check_appropriation bk =
     (let ls = klines bk; res = year_result_read bk
      in case find_line (matches (Seq [Bol, Lit ''#### 4.'', Cls is_digit, Lit '' Profit & Loss Appropriation Account''])) ls of
           None \<Rightarrow> ret None
         | Some i \<Rightarrow> (chk (lift (first_table ls i (block ls i))) (\<lambda>tbl.
                    let rs = tl tbl in
                    chk (head_ok (kpath bk) ls i (kname bk)) (\<lambda>_.
                    chk (appropriation_read bk res rs) (\<lambda>ap.
                    chk (lift (pick (\<lambda>r. ebind (clean_at r 0) (\<lambda>c. Inr (starts_with ''By Net profit'' c))) rs)) (\<lambda>profit.
                    chk (ok_e (if length profit = 1 then amt_is (hd profit) 3 res else Inr False) ((kpath bk) @ '' appropriation: net profit'')) (\<lambda>_.
                    chk (each (\<lambda>(who, _). let due = credit_of ap who; got = credited_at_close bk (partner_account bk who)
                in done_with (ok (got = due)
                  ((kpath bk) @ '' appropriation: '' @ who @ [CHR 0x27] @ ''s account is credited '' @ (str_int got) @ '' by the close, expected '' @
       (str_int due)))) (snd ap)) (\<lambda>_.
                    chk (ok (appropriation_charged bk = res \<and> total_of (fst ap) + (\<Sum>(_, _, _, s)\<leftarrow>snd ap. s) = res)
                ((kpath bk) @ '' appropriation: the account posted at the close is not the net profit'')) (\<lambda>_.
                    ret (Some ap))))))))))"

section \<open>The balance sheet\<close>

definition sym_diff :: "string list \<Rightarrow> string list \<Rightarrow> string" where   \<comment> \<open>\<open>sorted(set(xs) ^ set(ys))\<close>\<close>
  "sym_diff xs ys =
     repr_list repr_str (sort (remdups (filter (\<lambda>x. x \<notin> set ys) xs @ filter (\<lambda>y. y \<notin> set xs) ys)))"

text \<open>
  The partners' table.  The state is \<open>put\<close> (the name the source also uses for what the owners put in, so
  that a later line sees the last partner's figure), the closing totals and the accounts seen.
\<close>

type_synonym partners_state = "int \<times> int dict \<times> string list"

definition which_account :: "string \<Rightarrow> string \<Rightarrow> string" where
  "which_account who which =
     (if which = ''Capital'' then capital_name who else if which = ''Current'' then current_name who else partner_name who)"

definition partners_step :: "read_book \<Rightarrow> appropriated \<Rightarrow> partners_state \<Rightarrow> string list \<Rightarrow> partners_state checked" where
  "partners_step bk ap st r = (case st of (put, totals, seen) \<Rightarrow> (chk (lift (clean_at r 0)) (\<lambda>who.
         chk (lift (clean_at r 1)) (\<lambda>which.
         let n = which_account who which in
         chk (ok (dict_has (kclosing bk) n) ((kpath bk) @ '' partners: no account '' @ n)) (\<lambda>known.
         if \<not> known then ret st else (let put = (\<Sum>p\<leftarrow>pst bk n. if posting_amount p < 0 then - posting_amount p else 0) in
         let drawn = (\<Sum>p\<leftarrow>pst bk n. if posting_amount p > 0 then posting_amount p else 0) in
         chk ((if which = ''Capital'' then ret (0, 0)
                else chk (lift (dict_get (snd ap) who)) (\<lambda>(_, _, s). ret (dict_or (fst ap) who 0, s)))) (\<lambda>(i, s).
         chk (ok_e (eands [signed_is r 2 (opn bk n), amt_is r 3 put, amt_is r 4 i, amt_is r 5 s, amt_is r 6 drawn])
        ((kpath bk) @ '' partners: '' @ who @ '' '' @ which @ '' '' @ u_emdash @ '' opening, put in, interest, share, drawings'')) (\<lambda>_.
         let after = - cls bk n + i + s in
         chk (ok_e (eands [signed_is r 7 (- after), Inr (pcb bk n = - after)]) ((kpath bk) @ '' partners: '' @ who @ '' '' @ which @ '' closing after the close'')) (\<lambda>_.
         ret (put, dict_add who after totals, n # seen))))))))))"

definition partner_prefixed :: "string \<Rightarrow> bool" where
  "partner_prefixed n = (starts_with (capital_name []) n \<or> starts_with (current_name []) n)"

definition check_partners :: "read_book \<Rightarrow> appropriated \<Rightarrow> string list list \<Rightarrow> int \<Rightarrow> int \<Rightarrow> (int \<times> int dict) checked" where
  "check_partners bk ap tbl put own_close = (chk (ok (length (hd tbl) = 8 \<and> contains_sub ''Drawings'' (hd tbl ! 6))
        ((kpath bk) @ '' partners: 04 '' @ ([CHR 0xC2, CHR 0xA7]) @ ''6.5 columns (opening, put in, interest, share, drawings, closing)'')) (\<lambda>_.
         chk (each_with (partners_step bk ap) (put, [], []) (tl tbl)) (\<lambda>(put, totals, seen).
         let want = filter (\<lambda>n. partner_prefixed n \<or> n \<in> set (map (\<lambda>x. partner_name (fst x)) (snd ap))) (kaccounts bk) in
         chk (ok (sort seen = sort want) ((kpath bk) @ '' partners: every partner's account once '' @ (sym_diff want seen))) (\<lambda>_.
         chk (ok (total_of totals = own_close) ((kpath bk) @ '' partners: totals != own money'')) (\<lambda>_.
         ret (put, totals))))))"

text \<open>What the lines of the sheet are held against.\<close>

record sheet_numbers =
  z_start :: int
  z_put :: int
  z_taken :: int
  z_result :: int
  z_own :: int                       \<comment> \<open>own money at the close\<close>
  z_partners :: "int dict option"    \<comment> \<open>\<open>partners_total\<close>, where there is an appropriation\<close>

definition liability_amount :: "read_book \<Rightarrow> sheet_numbers \<Rightarrow> string \<Rightarrow> string list \<Rightarrow> (bool \<times> string option) checked" where
  "liability_amount bk z p r =
     (let whr = ((kpath bk) @ '' BS: '')
      in if ends_with ''at the start, 01 Apr 2025'' p then
           chk (ok_e (amt_is r 1 (z_start z)) (whr @ ''own money at the start'')) (\<lambda>_. ret (False, None))
         else if starts_with ''Add: put in'' p \<or> starts_with ''Add: received from the joint family'' p then
           chk (ok_e (amt_is r 1 (z_put z)) (whr @ ''put in'')) (\<lambda>_. ret (False, None))
         else if starts_with ''Less: taken out'' p \<or> starts_with ''Less: put into the joint family'' p then
           chk (ok_e (amt_is r 1 (z_taken z)) (whr @ ''taken out'')) (\<lambda>_. ret (False, None))
         else if starts_with ''Add: '' p \<or> starts_with ''Less: '' p then
           chk (ok_e (amt_is r 1 \<bar>z_result z\<bar>) (whr @ ''result'')) (\<lambda>_. ret (False, None))
         else if ends_with ''at the end, 31 Mar 2026'' p then
           chk (ok_e (amt_is r 1 (z_own z)) (whr @ ''own money at the end'')) (\<lambda>_. ret (True, None))
         else if contains_sub '' at the end'' p \<and> z_partners z \<noteq> None then (let parts = split_sub ('' '' @ u_emdash @ '' '') p; totals = (case z_partners z of None \<Rightarrow> [] | Some t \<Rightarrow> t) in
         chk (lift (at parts 0)) (\<lambda>who.
         chk (lift (at parts 1)) (\<lambda>what.
         if what = ''partner's account at the end''
           then chk (ok_e (ebind (paise_at r 1) (\<lambda>x. Inr (map_of totals who = Some x))) (whr @ ''partner '' @ who)) (\<lambda>_. ret (True, None))
           else (chk ((if what = ''capital account at the end'' then ret (capital_name who)
                   else if what = ''current account at the end'' then ret (current_name who)
                   else Inl (KeyError what))) (\<lambda>n.
                chk (ok_e (eands [Inr (dict_or (kpcb bk) n 1 \<le> 0), amt_is r 1 (- pcb bk n)]) (whr @ ''partner '' @ who @ '' '' @ what)) (\<lambda>_.
                ret (True, Some n)))))))
         else chk (ok_e (eands [Inr (cls bk p < 0), amt_is r 1 (- cls bk p)]) (whr @ p)) (\<lambda>_. ret (True, None)))"

definition liability_step :: "read_book \<Rightarrow> sheet_numbers \<Rightarrow> int \<times> string list \<Rightarrow> string list \<Rightarrow> (int \<times> string list) checked" where
  "liability_step bk z st r = (case st of (tot, partners) \<Rightarrow> (chk (lift (clean_at r 0)) (\<lambda>p.
         if p = ''Total'' then chk (ok_e (amt_is r 1 tot) ((kpath bk) @ '' BS: total of what I will give'')) (\<lambda>_. ret st)
     else (chk (liability_amount bk z p r) (\<lambda>(counts, partner).
          chk ((if counts then lift (paise_at r 1) else ret 0)) (\<lambda>x.
          ret (tot + x, (case partner of None \<Rightarrow> partners | Some n \<Rightarrow> partners @ [n]))))))))"

definition OWES_THE_FIRM :: rx where
  "OWES_THE_FIRM = (Seq [Bol, Grp 1 (Seq [Lit (''Current A/c '' @ u_endash @ '' ''), Grp 2 (Some_of (Cls any_char))]), Lit ('' (Dr '' @ u_emdash @ '' ''), Grp 3 (Some_of (Cls any_char)), Lit '' owes the firm)'', Eol])"

definition asset_step :: "read_book \<Rightarrow> int \<times> string list \<Rightarrow> string list \<Rightarrow> (int \<times> string list) checked" where
  "asset_step bk st r = (case st of (tot, partners) \<Rightarrow> (chk (lift (clean_at r 0)) (\<lambda>p.
         if p = ''Total'' then chk (ok_e (amt_is r 1 tot) ((kpath bk) @ '' BS: total of what I have'')) (\<lambda>_. ret st)
     else case re_match OWES_THE_FIRM p of
       Some g \<Rightarrow> (let n = grp g 1 in
                chk (ok_e (eands [Inr (grp g 2 = grp g 3 \<and> pcb bk n > 0), amt_is r 1 (pcb bk n)]) ((kpath bk) @ '' BS: '' @ p)) (\<lambda>_.
                chk (lift (paise_at r 1)) (\<lambda>x.
                ret (tot + x, partners @ [n]))))
     | None \<Rightarrow> (chk (lift (paise_at r 1)) (\<lambda>x.
              chk (lift (dict_get (kclosing bk) p)) (\<lambda>c.
              chk (ok (x = \<bar>c\<bar>) ((kpath bk) @ '' BS: '' @ p)) (\<lambda>_.
              ret (tot + x, partners))))))))"

text \<open>The funds stand before what is owed: the types of the accounts listed, funds first.\<close>

definition funds_first :: "read_book \<Rightarrow> string list \<Rightarrow> bool" where
  "funds_first bk names =
     (let kinds_seq = map (ty bk) (filter (dict_has (ktype bk)) names)
      in kinds_seq = filter (\<lambda>t. t = ''Fund'') kinds_seq @ filter (\<lambda>t. t \<noteq> ''Fund'') kinds_seq)"

definition sheet_sides :: "read_book \<Rightarrow> sheet_numbers \<Rightarrow> string list list \<Rightarrow> string list list \<Rightarrow> unit checked" where
  "sheet_sides bk z liab assets = (chk (lift (emap (\<lambda>r. clean_at r 0) liab)) (\<lambda>names.
         chk (ok (funds_first bk names) ((kpath bk) @ '' balance sheet: a fund must be listed with the own money, before what I will give'')) (\<lambda>_.
         chk (each_with (liability_step bk z) (0, []) liab) (\<lambda>(tliab, partners).
         chk (each_with (asset_step bk) (0, partners) assets) (\<lambda>(tassets, partners).
         chk (lift (emap (\<lambda>r. clean_at r 0) assets)) (\<lambda>anames.
         chk (each (\<lambda>n. if balance_type bk n \<and> ty bk n \<notin> set EQUITY \<and> cls bk n \<noteq> 0
               then done_with (ok (n \<in> set (names @ anames)) ((kpath bk) @ '' BS: '' @ n @ '' missing'')) else ret ()) (kaccounts bk)) (\<lambda>_.
         let want = filter (\<lambda>n. partner_prefixed n \<and> pcb bk n \<noteq> 0) (kaccounts bk) in
         chk ((if z_partners z \<noteq> None \<and> list_ex (starts_with (capital_name [])) (kaccounts bk)
      then done_with (ok (sort partners = sort want)
             ((kpath bk) @ '' BS: every partner's capital and current account once, on its own side '' @ (sym_diff want partners)))
      else ret ())) (\<lambda>_.
         done_with (ok (tliab = tassets) ((kpath bk) @ '' BS: sides '' @ (str_int tliab) @ '' / '' @ (str_int tassets)))))))))))"

definition check_sheet :: "read_book \<Rightarrow> appropriated option \<Rightarrow> unit checked" where
  "check_sheet bk ap = (let ls = klines bk in
                       chk (need (find_line (matches (Seq [Bol, Lit ''#### 4.'', Cls is_digit, Lit '' Full position on 31 Mar 2026''])) ls)) (\<lambda>i.
                       let e = block ls i; what = ''balance sheet''; nst = stakes_at bk (cls bk) in
                       chk (head_ok (kpath bk) ls i (kname bk)) (\<lambda>_.
                       chk (foot_ok bk ls i e COST_LINE (list_ex (\<lambda>n. cls bk n \<noteq> 0) (of_type bk [''Thing owned''])) what) (\<lambda>_.
                       chk (foot_ok bk ls i e STOCK_LINE (sells_goods bk) what) (\<lambda>_.
                       chk (build_ok bk ls i e FY_END what) (\<lambda>_.
                       chk (foot_ok bk ls i e STAKE_LINE (nst = 1) what) (\<lambda>_.
                       chk (foot_ok bk ls i e STAKES_LINE (nst > 1) what) (\<lambda>_.
                       chk (lift (read_tables ls i e)) (\<lambda>tbls.
                       let (start, put, taken) = equity_parts_read bk FY_END; own = start + put - taken + year_result_read bk in
                       chk ((case ap of
         None \<Rightarrow> ret (0, put, None)
       | Some x \<Rightarrow> chk (lift (at tbls 0)) (\<lambda>t. chk (check_partners bk x (snd t) put own) (\<lambda>(put, totals). ret (1, put, Some totals))))) (\<lambda>(k, put, totals).
                       chk (lift (at tbls k)) (\<lambda>liab.
                       chk (lift (at tbls (Suc k))) (\<lambda>assets.
                       sheet_sides bk \<lparr>z_start = start, z_put = put, z_taken = taken, z_result = year_result_read bk, z_own = own, z_partners = totals\<rparr>
       (tl (snd liab)) (tl (snd assets))))))))))))))"

section \<open>Carried into the next year\<close>

definition carried_balances :: "read_book \<Rightarrow> int dict" where
  "carried_balances bk = map (\<lambda>n. (n, pcb bk n)) (filter (\<lambda>n. balance_type bk n \<and> pcb bk n \<noteq> 0) (kaccounts bk))"

definition carry_step :: "read_book \<Rightarrow> int \<times> int \<times> int dict \<Rightarrow> string list \<Rightarrow> (int \<times> int \<times> int dict) checked" where
  "carry_step bk st r = (case st of (tdr, tcr, seen) \<Rightarrow> (chk (lift (clean_at r 0)) (\<lambda>p.
         chk (lift (paise_at r 2)) (\<lambda>x.
         chk (lift (clean_at r 3)) (\<lambda>sd.
         let amt = (if sd = ''Dr'' then x else - x) in
         chk (ok_e (eands [Inr (length r = 6), amt_is r 4 x, txt_is r 5 sd])
        ((kpath bk) @ '' carry-forward '' @ p @ '': opening b/d against the closing after the close'')) (\<lambda>_.
         ret (if amt > 0 then tdr + amt else tdr, if amt > 0 then tcr else tcr - amt, AList.update p amt seen)))))))"

definition repr_pair :: "string \<times> int \<Rightarrow> string" where
  "repr_pair p = (''('' @ (repr_str (fst p)) @ '', '' @ (str_int (snd p)) @ '')'')"

definition check_carried :: "read_book \<Rightarrow> unit checked" where
  "check_carried bk = (let ls = klines bk in
                      chk (need (find_line (matches (Seq [Bol, Lit ''#### 4.'', Cls is_digit, Lit '' Carried into FY 2026-27''])) ls)) (\<lambda>i.
                      chk (head_ok (kpath bk) ls i (kname bk)) (\<lambda>_.
                      chk (lift (first_table ls i (block ls i))) (\<lambda>tbl.
                      chk (foot_ok bk ls i (block ls i) COST_LINE (list_ex (\<lambda>n. pcb bk n \<noteq> 0) (of_type bk [''Thing owned''])) ''carry-forward'') (\<lambda>_.
                      chk (each_with (carry_step bk) (0, 0, []) (butlast (tl tbl))) (\<lambda>(tdr, tcr, seen).
                      let expect = carried_balances bk; apart = sort (remdups (filter (\<lambda>x. x \<notin> set expect) seen @ filter (\<lambda>x. x \<notin> set seen) expect)) in
                      chk (ok (dict_eq seen expect) ((kpath bk) @ '' carry-forward: rows differ from the balances after the close ('' @ (repr_list repr_pair (take 4 apart)) @
       '')'')) (\<lambda>_.
                      chk (ok (list_all (\<lambda>n. pcb bk n = 0) (of_type bk CLOSED_TYPES)) ((kpath bk) @ '' carry-forward: a head or the drawings is carried'')) (\<lambda>_.
                      done_with (ok_e (if tdr \<noteq> tcr then Inr False
         else ebind (at (rev (tl tbl)) 0) (\<lambda>r. eands [amt_is r 2 tdr, amt_is r 3 tdr, amt_is r 4 tdr, amt_is r 5 tdr]))
       ((kpath bk) @ '' carry-forward: '' @ u_sigma))))))))))"

section \<open>Each fund\<close>

definition FUND_NAME :: rx where "FUND_NAME = (Seq [Bol, Lit ''**'', Grp 1 (Many (Cls any_char)), Lit ''**'', Eol])"

definition fund_title :: "string \<Rightarrow> string" where
  "fund_title l = (case re_match FUND_NAME l of None \<Rightarrow> [] | Some g \<Rightarrow> grp g 1)"

definition check_fund :: "read_book \<Rightarrow> string \<Rightarrow> nat \<Rightarrow> nat \<Rightarrow> unit checked" where
  "check_fund bk name k e =
     chk (lift (read_tables (klines bk) k e)) (\<lambda>tb.
     chk (ok (tb \<noteq> [] \<and> dict_has (ktype bk) name) ((kpath bk) @ '' fund '' @ name @ '': no table, or not an account'')) (\<lambda>c.
       if c then done_with (check_ledger_rows bk [] name (tl (snd (hd tb))) ((kpath bk) @ '' fund statement'')) else ret ()))"

definition check_funds :: "read_book \<Rightarrow> unit checked" where
  "check_funds bk =
     (let ls = klines bk; fi = find_line (matches (Seq [Bol, Lit ''#### 4.'', Cls is_digit, Lit ('' Each fund '' @ u_emdash @ '' its year'')])) ls; funds = of_type bk [''Fund'']
      in chk (ok ((fi \<noteq> None) = (funds \<noteq> []))
                ((kpath bk) @ '': a statement of each fund is '' @ (if funds \<noteq> [] then ''missing'' else ''unexpected''))) (\<lambda>_.
         case fi of None \<Rightarrow> ret ()
         | Some fi \<Rightarrow> (chk (head_ok (kpath bk) ls fi (kname bk)) (\<lambda>_.
                     let b = block ls fi; e = b + length (takeWhile (\<lambda>l. \<not> starts_with ''#### '' l) (drop b ls)) in
                     let subs = filter (\<lambda>k. matches FUND_NAME (ls ! k)) [fi..<e] in
                     chk (ok (map (\<lambda>k. fund_title (ls ! k)) subs = funds) ((kpath bk) @ '': the fund statements are not one per fund'')) (\<lambda>_.
                     each (\<lambda>(k, upper). check_fund bk (fund_title (ls ! k)) k upper) (zip subs (tl subs @ [e])))))))"

section \<open>check_closing\<close>

definition check_closing :: "read_book \<Rightarrow> (int \<times> appropriated option) checked" where
  "check_closing bk = (chk (check_trial bk) (\<lambda>_.
                      chk (check_receipts bk) (\<lambda>_.
                      chk (check_year_statement bk) (\<lambda>_.
                      chk (check_appropriation bk) (\<lambda>ap.
                      chk (check_sheet bk ap) (\<lambda>_.
                      chk (check_carried bk) (\<lambda>_.
                      chk (check_funds bk) (\<lambda>_.
                      ret (year_result_read bk, ap)))))))))"

end

