(* ===== verification/Check_Family.thy ===== *)
theory Check_Family
  imports Check_Closing
begin

text \<open>
  The part of \<open>check_md.py\<close> that looks at several books together: the account between two books
  (\<open>check_pair_section\<close>), the family summary (\<open>check_family\<close>), the heads of the reports, the entry
  numbers the hand-written \<open>COVERAGE.md\<close> and \<open>GAPS.md\<close> cite, and \<open>main\<close>, which runs every check on
  the files of a folder.  A folder is the listing of its names and the text of each file.
\<close>

section \<open>fmt_in\<close>

function group_pairs :: "string \<Rightarrow> string list \<Rightarrow> string list" where
  "group_pairs head parts =
     (if length head > 2 then group_pairs (take (length head - 2) head) (drop (length head - 2) head # parts)
      else if head \<noteq> [] then head # parts else parts)"
  by pat_completeness auto
termination
  by (relation "measure (\<lambda>(head, parts). length head)") auto

declare group_pairs.simps [simp del]

definition fmt_in :: "int \<Rightarrow> string" where
  "fmt_in p =
     (let r = p div 100; ps = p mod 100; s = str_int r;
          s = (if length s > 3
               then join_str '','' (group_pairs (take (length s - 3) s) []) @ '','' @ drop (length s - 3) s else s)
      in s @ (if ps \<noteq> 0 then ''.'' @ pad0 2 ps else ''''))"

section \<open>The accounts two books keep of each other\<close>

definition accts :: "read_book \<Rightarrow> read_book \<Rightarrow> string list" where
  "accts b ob =
     filter (\<lambda>n. n \<in> set [((kname ob) @ '' A/c''), (''Udhaar '' @ u_endash @ '' '' @ (kname ob) @ '' A/c''), (''Income from '' @ (kname ob) @ '' A/c''),
                          capital_name (kname ob), (''Drawings A/c '' @ u_endash @ '' '' @ (kname ob))]) (kaccounts b)"

definition openings_of :: "read_book \<Rightarrow> string list \<Rightarrow> int" where
  "openings_of b ns = (\<Sum>x\<leftarrow>filter (balance_type b) ns. opn b x)"

definition posts_of :: "read_book \<Rightarrow> string list \<Rightarrow> posting list" where
  "posts_of b ns = concat (map (pst b) ns)"

definition close_sums :: "read_book \<Rightarrow> string list \<Rightarrow> int dict" where
  "close_sums b ns =
     foldl (\<lambda>d (vid, _, a, _). dict_add vid a d) [] (concat (map (\<lambda>x. dict_or (kclose_posts b) x []) ns))"

definition nonzero :: "int dict \<Rightarrow> int dict" where
  "nonzero d = filter (\<lambda>(_, v). v \<noteq> 0) d"

section \<open>The account between two books\<close>

record pair_state =
  v_got1 :: "posting list"
  v_got2 :: "posting list"
  v_bal1 :: int
  v_bal2 :: int
  v_seen1 :: "int dict"
  v_seen2 :: "int dict"

text \<open>\<open>paise(r[k]) - paise(r[k + 1])\<close>.\<close>

definition net_at :: "string list \<Rightarrow> nat \<Rightarrow> error + int" where
  "net_at r k = ebind (paise_at r k) (\<lambda>x. ebind (paise_at r (Suc k)) (\<lambda>y. Inr (x - y)))"

definition net_is :: "string list \<Rightarrow> nat \<Rightarrow> int \<Rightarrow> error + bool" where
  "net_is r k v = ebind (net_at r k) (\<lambda>x. Inr (x = v))"

definition pair_step :: "string \<Rightarrow> pair_state \<Rightarrow> string list \<Rightarrow> pair_state checked" where
  "pair_step what st r = (chk (lift (at r 0)) (\<lambda>r0.
                         chk (lift (pdate r0)) (\<lambda>d.
                         chk (lift (clean_at r 2)) (\<lambda>v1.
                         chk (lift (clean_at r 5)) (\<lambda>v2.
                         chk (lift (net_at r 3)) (\<lambda>a1.
                         chk (lift (net_at r 6)) (\<lambda>a2.
                         let st = st\<lparr>v_bal1 := v_bal1 st + a1, v_bal2 := v_bal2 st + a2\<rparr> in
                         if contains_sub ''-Y'' v1 \<or> contains_sub ''-Y'' v2
     then chk (ok (d = FY_END \<and> (v1 = [] \<or> v2 = [])) (what @ '': a year-close row belongs to one book'')) (\<lambda>_.
       ret (if v1 \<noteq> [] then st\<lparr>v_seen1 := AList.update v1 a1 (v_seen1 st)\<rparr> else st\<lparr>v_seen2 := AList.update v2 a2 (v_seen2 st)\<rparr>))
     else chk (ok (a1 = - a2 \<and> a2 \<noteq> 0) (what @ '' '' @ v1 @ ''/'' @ v2 @ '': not the same amount on opposite sides'')) (\<lambda>_.
       ret (st\<lparr>v_got1 := v_got1 st @ [(d, v1, a1)], v_got2 := v_got2 st @ [(d, v2, a2)]\<rparr>)))))))))"

text \<open>In whose favour a running account between a household and the family stands.\<close>

definition favour :: "string \<Rightarrow> int \<Rightarrow> string" where
  "favour t c =
     (if t = ''Sub-family'' \<and> c > 0 then ''against the household''
      else if t = ''Sub-family'' then ''in the household's favour''
      else if t = ''Joint family'' \<and> c > 0 then ''against the family''
      else if t = ''Joint family'' then ''in the family's favour''
      else side c)"

definition agrees_line :: "read_book \<Rightarrow> read_book \<Rightarrow> string \<Rightarrow> string \<Rightarrow> int \<Rightarrow> int \<Rightarrow> string" where
  "agrees_line b ob x y c1 c2 =
     (if c1 = 0 then (''**Agrees** '' @ u_emdash @ '' nil in both books.'')
      else (''**Agrees** '' @ u_emdash @ '' '' @ u_rupee @ (fmt_in \<bar>c1\<bar>) @ '' '' @ (favour (ty b x) c1) @ '' in '' @ (kname b) @
       [CHR 0x27] @ ''s book, and '' @ u_rupee @ (fmt_in \<bar>c2\<bar>) @ '' '' @ (favour (ty ob y) c2) @ '' in '' @ (kname ob) @
       [CHR 0x27] @ ''s book.''))"

definition has_stake_in :: "read_book \<Rightarrow> string list \<Rightarrow> bool" where
  "has_stake_in b ns = list_ex (\<lambda>x. ty b x = ''Money in a business'') ns"

definition pair_last_line :: "string \<Rightarrow> string list \<Rightarrow> read_book \<Rightarrow> read_book \<Rightarrow> string list \<Rightarrow> string list \<Rightarrow> int \<Rightarrow> int \<Rightarrow> unit checked" where
  "pair_last_line label tail b ob mine theirs c1 c2 =
     (let what = (label @ '': '' @ (kname b) @ '' / '' @ (kname ob))
      in if has_stake_in b mine \<or> has_stake_in ob theirs
         then done_with (ok (''**Entries agree one for one.**'' \<in> set tail) (what @ '' pair section: last line''))
         else (chk (ok (c1 = - c2) (what @ '' running-account pair does not agree'')) (\<lambda>_.
              chk (lift (at mine 0)) (\<lambda>x.
              chk (lift (at theirs 0)) (\<lambda>y.
              let expect = agrees_line b ob x y c1 c2 in
              done_with (ok (expect \<in> set tail) (what @ '' pair section: expected '' @ (repr_str expect))))))))"

definition pair_rows_checked :: "string \<Rightarrow> read_book \<Rightarrow> read_book \<Rightarrow> string list \<Rightarrow> string list \<Rightarrow> string list list \<Rightarrow> (int \<times> int) checked" where
  "pair_rows_checked label b ob mine theirs rs = (let what = (label @ '': '' @ (kname b) @ '' / '' @ (kname ob) @ '' pair section''); op1 = openings_of b mine; op2 = openings_of ob theirs in
         chk (lift (at rs 0)) (\<lambda>r0.
         chk (ok_e (eands [txt_is r0 1 ''Brought forward'', net_is r0 3 op1, net_is r0 6 op2]) (what @ '': brought forward'')) (\<lambda>_.
         chk (each_with (pair_step what) \<lparr>v_got1 = [], v_got2 = [], v_bal1 = op1, v_bal2 = op2, v_seen1 = [], v_seen2 = []\<rparr>
             (butlast (tl rs))) (\<lambda>st.
         chk (ok (sort (v_got1 st) = sort (posts_of b mine) \<and> sort (v_got2 st) = sort (posts_of ob theirs))
        (what @ '': the entries are not every entry of the pair's accounts'')) (\<lambda>_.
         chk (ok (dict_eq (v_seen1 st) (nonzero (close_sums b mine)) \<and> dict_eq (v_seen2 st) (nonzero (close_sums ob theirs)))
        (what @ '': year-close rows'')) (\<lambda>_.
         let c1 = (\<Sum>x\<leftarrow>mine. pcb b x); c2 = (\<Sum>x\<leftarrow>theirs. pcb ob x); clo = last rs in
         chk (ok_e (eands [ebind (clean_at clo 1) (\<lambda>c. Inr (starts_with ''Closing balance'' c)),
                  net_is clo 3 c1, Inr (c1 = v_bal1 st), net_is clo 6 c2, Inr (c2 = v_bal2 st)]) (what @ '': closing after the close'')) (\<lambda>_.
         ret (c1, c2))))))))"

definition check_pair_section :: "string \<Rightarrow> string list \<Rightarrow> read_book \<Rightarrow> read_book \<Rightarrow> string list \<Rightarrow> string list \<Rightarrow> unit checked" where
  "check_pair_section label ls b ob mine theirs =
     (let i = find_line (starts_with (''### Account between '' @ (kname b) @ '' and '' @ (kname ob) @ '' '' @ u_emdash @ '' '')) ls
      in chk (ok (i \<noteq> None) (label @ '': the account between '' @ (kname b) @ '' and '' @ (kname ob) @ '' is missing'')) (\<lambda>_.
         case i of None \<Rightarrow> ret ()
         | Some i \<Rightarrow> (chk (head_ok label ls i ((kname b) @ '' '' @ u_middot @ '' '' @ (kname ob))) (\<lambda>_.
                    let e = block ls i in
                    chk (lift (read_tables ls i e)) (\<lambda>tbls.
                    chk (ok (length tbls = 1) (label @ '': account between '' @ (kname b) @ '' and '' @ (kname ob) @ '': one table expected'')) (\<lambda>one.
                    if \<not> one then ret () else (chk (lift (efor (charted b) mine)) (\<lambda>_.
         chk (lift (efor (charted ob) theirs)) (\<lambda>_.
         chk (pair_rows_checked label b ob mine theirs (tl (snd (hd tbls)))) (\<lambda>(c1, c2).
         pair_last_line label (filter (starts_with ''**'') (drop i (take e ls))) b ob mine theirs c1 c2))))))))))"

end
