(* ===== verification/Check_Main.thy ===== *)
theory Check_Main
  imports Check_Family
begin

text \<open>
  The last part of \<open>check_md.py\<close>: the family summary (\<open>check_family\<close>), the heads of the reports
  (\<open>check_heads\<close>), the entry numbers that the hand-written \<open>COVERAGE.md\<close> and \<open>GAPS.md\<close> cite
  (\<open>check_coverage_md\<close>), and \<open>main\<close>, which runs every check on the files of a folder.  A folder is
  the listing of its names and the text of each file.
\<close>

section \<open>The family summary\<close>

text \<open>A book that has been checked, with the result of its year and the appropriation, if any.\<close>

record checked_book = read_book +
  kresult :: int
  kappr :: "appropriated option"

definition checked_of :: "read_book \<Rightarrow> int \<times> appropriated option \<Rightarrow> checked_book" where
  "checked_of bk rap = read_book.extend bk \<lparr>kresult = fst rap, kappr = snd rap\<rparr>"

text \<open>\<open>names[name]\<close>: the last book of a name.\<close>

definition book_of :: "checked_book list \<Rightarrow> string \<Rightarrow> checked_book option" where
  "book_of books name = find (\<lambda>b. kname b = name) (rev books)"

definition plain_book :: "checked_book \<Rightarrow> read_book" where
  "plain_book b = read_book.truncate b"

definition replace_first :: "string \<Rightarrow> string \<Rightarrow> string \<Rightarrow> string" where
  "replace_first pat rep s =
     (case search_from (Lit pat) None s of
        None \<Rightarrow> s
      | Some (p, q, _) \<Rightarrow> take (length s - length (snd p)) s @ rep @ snd q)"

text \<open>The other book an account is named after.\<close>

definition other_name :: "string \<Rightarrow> string option" where
  "other_name n = (if ends_with '' A/c'' n then Some (replace_first (''Udhaar '' @ u_endash @ '' '') [] (take (length n - 4) n)) else None)"

text \<open>What the pair's accounts post, by date; the other book's with the sign turned.\<close>

definition dated :: "posting list \<Rightarrow> (date \<times> int) list" where
  "dated ps = sort (map (\<lambda>(d, _, a). (d, a)) ps)"

definition dated_back :: "posting list \<Rightarrow> (date \<times> int) list" where
  "dated_back ps = sort (map (\<lambda>(d, _, a). (d, - a)) ps)"

definition pair_key :: "string \<Rightarrow> string \<Rightarrow> string \<times> string" where
  "pair_key x y = (if x \<le> y then (x, y) else (y, x))"

text \<open>A pair's figures; \<open>check_family\<close> uses the number of entries of each.\<close>

type_synonym pair_figures = "((string \<times> string) \<times> nat) list"

definition mirror_step :: "string \<Rightarrow> checked_book list \<Rightarrow> checked_book \<Rightarrow> pair_figures \<Rightarrow> string \<Rightarrow> pair_figures checked" where
  "mirror_step label books cb pairs n =
     (let b = plain_book cb
      in case other_name n of
        None \<Rightarrow> ret pairs
      | Some other \<Rightarrow>
          (case book_of books other of
             None \<Rightarrow> ret pairs
           | Some cob \<Rightarrow>
               let ob = plain_book cob
               in if other = kname b then ret pairs
                  else chk (ok (accts ob b \<noteq> []) (label @ '': '' @ (kname b) @ '' has '' @ n @ '' but '' @ (kname ob) @ '' has no account named after it'')) (\<lambda>found.
                    if \<not> found then ret pairs
                    else chk (ok (openings_of b (accts b ob) = - openings_of ob (accts ob b)
                                  \<and> dated (posts_of b (accts b ob)) = dated_back (posts_of ob (accts ob b)))
                                (label @ '': '' @ (kname b) @ '' / '' @ (kname ob) @ '' do not mirror'')) (\<lambda>_.
                         ret (AList.update (pair_key (kname b) (kname ob)) (length (posts_of b (accts b ob))) pairs)))))"

definition SUMMARY :: rx where
  "SUMMARY = (Seq [Bol, Lit ''## '', Grp 1 (Alt (Lit ''Family summary'') (Lit ''The two books side by side''))])"

definition split_names :: "string \<Rightarrow> string list" where
  "split_names cell = map strip (split_sub br cell)"

text \<open>The numbers of the line that says what was kept in the business.\<close>

definition RUPEES :: rx where
  "RUPEES = (Seq [Grp 1 (Opt (Lit u_minus)), Lit u_rupee, Grp 2 (Seq [Cls is_digit, Opt (Seq [Many (Cls (\<lambda>x. is_digit x \<or> x \<in> set '','')), Cls is_digit]), Opt (Seq [Lit ''.'', Cls is_digit, Cls is_digit])])])"

definition rupee_numbers :: "string \<Rightarrow> error + int list" where
  "rupee_numbers s =
     emap (\<lambda>g. ebind (paise (grp g 2)) (\<lambda>v. Inr (if grp g 1 = [] then v else - v))) (re_findall RUPEES s)"

text \<open>\<open>bus.appr_credit.get(own.name) if bus.appr_credit else bus.result\<close>.\<close>

definition owner_result :: "checked_book \<Rightarrow> string \<Rightarrow> int option" where
  "owner_result bus owner =
     (case kappr bus of
        None \<Rightarrow> Some (kresult bus)
      | Some ap \<Rightarrow> if snd ap = [] then Some (kresult bus)
                  else if dict_has (snd ap) owner then Some (credit_of ap owner) else None)"

definition kept_header :: "int \<Rightarrow> string \<Rightarrow> string \<Rightarrow> string" where
  "kept_header diff owner business =
     (if diff \<ge> 0 then (''**Profit kept in the business '' @ u_emdash @ '' '' @ owner @ '' and '' @ business @ '':**'')
      else (''**Taken out beyond the profit '' @ u_emdash @ '' '' @ owner @ '' and '' @ business @ '':**''))"

definition kept_check :: "string \<Rightarrow> string list \<Rightarrow> checked_book \<Rightarrow> checked_book \<Rightarrow> string list \<Rightarrow> string list \<Rightarrow> unit checked" where
  "kept_check label ls own bus oa ba =
     (let ow = plain_book own; bu = plain_book bus;
          a = - (\<Sum>x\<leftarrow>filter (\<lambda>x. ty bu x \<in> set EQUITY) ba. pcb bu x);
          stake = (\<Sum>x\<leftarrow>filter (\<lambda>x. ty ow x = ''Money in a business'') oa. cls ow x);
          hdr = kept_header (a - stake) (kname ow) (kname bu);
          kl = filter (starts_with hdr) ls
      in chk (ok (length kl = 1) (label @ '': the profit-kept line for '' @ (kname ow) @ '' / '' @ (kname bu) @ '' is missing'')) (\<lambda>one.
         if \<not> one then ret ()
         else chk (lift (rupee_numbers (str_replace hdr [] (hd kl)))) (\<lambda>nums.
           let takes = - (\<Sum>x\<leftarrow>filter (\<lambda>x. ty ow x = ''Income'') oa. cls ow x);
               res = owner_result bus (kname ow);
               res_text = (case res of None \<Rightarrow> ''None'' | Some x \<Rightarrow> str_int x);
               expected = repr_list (\<lambda>x. x) [str_int a, str_int stake, str_int (a - stake), res_text, str_int takes]
           in done_with (ok (case res of None \<Rightarrow> False
                  | Some res \<Rightarrow> nums = [a, stake, a - stake, res, takes, res, takes, res - takes] \<and> a - stake = res - takes)
                (label @ '': profit kept in the business, '' @ (kname ow) @ '' / '' @ (kname bu) @ '': printed '' @ (repr_list str_int nums) @
       '', expected '' @ expected)))))"

definition summary_amounts :: "read_book \<Rightarrow> string list \<Rightarrow> int \<times> int" where
  "summary_amounts b ns =
     ((\<Sum>p\<leftarrow>posts_of b ns. if posting_amount p > 0 then posting_amount p else 0),
      (\<Sum>p\<leftarrow>posts_of b ns. if posting_amount p < 0 then - posting_amount p else 0))"

definition summary_row_ok :: "pair_figures \<Rightarrow> read_book \<Rightarrow> read_book \<Rightarrow> string list \<Rightarrow> string list \<Rightarrow> error + bool" where
  "summary_row_ok pairs b ob mine r =
     (let op1 = openings_of b mine; (given, received) = summary_amounts b mine
      in eands [signed_is r 2 op1, signed_is r 7 (- op1), amt_is r 3 given, amt_is r 4 received, amt_is r 8 received, amt_is r 9 given,
           ebind (ebind (clean_at r 10) py_int) (\<lambda>n. case map_of pairs (pair_key (kname b) (kname ob)) of
              None \<Rightarrow> Inl (KeyError (kname b)) | Some k \<Rightarrow> Inr (n = int k))])"

text \<open>The owner of a business keeps its stake there: the last of the two books that does.\<close>

definition owner_first :: "read_book \<Rightarrow> read_book \<Rightarrow> string list \<Rightarrow> string list \<Rightarrow> bool option" where
  "owner_first b ob mine theirs =
     (if has_stake_in ob theirs then Some False else if has_stake_in b mine then Some True else None)"

definition summary_row :: "string \<Rightarrow> checked_book list \<Rightarrow> string list \<Rightarrow> pair_figures \<Rightarrow> string list \<Rightarrow> unit checked" where
  "summary_row label books ls pairs r = (chk (lift (clean_at r 0)) (\<lambda>n1.
         chk (lift (clean_at r 5)) (\<lambda>n2.
         chk (lift (case book_of books n1 of None \<Rightarrow> Inl (KeyError n1) | Some b \<Rightarrow> Inr b)) (\<lambda>cb.
         chk (lift (case book_of books n2 of None \<Rightarrow> Inl (KeyError n2) | Some b \<Rightarrow> Inr b)) (\<lambda>cob.
         let b = plain_book cb; ob = plain_book cob in
         chk (lift (at r 1)) (\<lambda>r1.
         chk (lift (at r 6)) (\<lambda>r6.
         let mine = split_names r1; theirs = split_names r6 in
         chk (ok (set mine = set (accts b ob) \<and> set theirs = set (accts ob b)) (label @ '': summary accounts '' @ r1)) (\<lambda>_.
         chk (check_pair_section label ls b ob mine theirs) (\<lambda>_.
         chk (lift (efor (charted b) mine)) (\<lambda>_.
         chk (lift (efor (charted ob) theirs)) (\<lambda>_.
         chk (ok_e (summary_row_ok pairs b ob mine r) (label @ '': summary row '' @ (kname b) @ '' / '' @ (kname ob))) (\<lambda>_.
         case owner_first b ob mine theirs of
       None \<Rightarrow> done_with (ok ((\<Sum>x\<leftarrow>mine. cls b x) = - (\<Sum>x\<leftarrow>theirs. cls ob x))
         (label @ '': '' @ (kname b) @ '' / '' @ (kname ob) @ '' are a running-account pair but do not agree balance for balance''))
     | Some True \<Rightarrow> kept_check label ls cb cob mine theirs
     | Some False \<Rightarrow> kept_check label ls cob cb theirs mine))))))))))))"

definition check_family :: "string \<Rightarrow> checked_book list \<Rightarrow> string list \<Rightarrow> unit checked" where
  "check_family label books ls = (chk (each_with (\<lambda>pairs b. each_with (mirror_step label books b) pairs (kaccounts b)) [] books) (\<lambda>pairs.
         let i = find_line (matches SUMMARY) ls in
         chk (ok ((i \<noteq> None) = (pairs \<noteq> [])) (label @ '': family summary '' @ (if pairs \<noteq> [] then ''missing'' else ''unexpected''))) (\<lambda>_.
         case i of None \<Rightarrow> ret ()
     | Some i \<Rightarrow> (chk (head_ok label ls i (join_str ('' '' @ u_middot @ '' '') (map kname books))) (\<lambda>_.
                chk (lift (first_table ls i (length ls))) (\<lambda>tbl.
                let rs = tl tbl in
                chk (ok (length rs = length pairs)
            (label @ '': summary rows '' @ (str_nat (int (length rs))) @ '', pairs '' @ (str_nat (int (length pairs))))) (\<lambda>_.
                each (summary_row label books ls pairs) rs)))))))"

section \<open>The heads of the reports\<close>

definition check_heads :: "read_book \<Rightarrow> unit checked" where
  "check_heads bk = (chk (each (\<lambda>(i, l). if matches (Seq [Bol, Grp 1 (Seq [Lit ''###'', Alt (Seq [Lit '' '', Cls (among ''12''), Lit ''. '']) (Seq [Lit ''# '', Cls (among ''34''), Lit ''.'', Cls is_digit])])]) l
                    then done_with (head_ok (kpath bk) (klines bk) i (kname bk)) else ret ()) (indexed (klines bk))) (\<lambda>_.
                    each (\<lambda>(i, l). if matches (Seq [Bol, Lit ''### '', Some_of (Cls is_digit), Lit ''. '', Grp 1 (Alt (Lit ''Day Book'') (Lit ''Cash Book''))]) l
                    then done_with (head_ok (kpath bk) (kexport bk) i (kname bk)) else ret ()) (indexed (kexport bk))))"

section \<open>A folder\<close>

type_synonym folder = "string list \<times> string dict"   \<comment> \<open>\<open>os.listdir\<close>, and the text of each file\<close>

definition read_file :: "folder \<Rightarrow> string \<Rightarrow> error + string" where
  "read_file fd f = (case map_of (snd fd) f of None \<Rightarrow> Inl (FileNotFoundError f) | Some t \<Rightarrow> Inr t)"

definition exists :: "folder \<Rightarrow> string \<Rightarrow> bool" where
  "exists fd f = dict_has (snd fd) f"

text \<open>The books whose entry numbers have a prefix: a later book of the same prefix replaces the earlier.\<close>

type_synonym by_prefix = "read_book dict"

definition CITED :: rx where
  "CITED = (Seq [Lit ''`'', Grp 1 (Seq [Alt (Lit ''JP'') (Alt (Lit ''JT'') (Alt (Lit ''RJ'') (Alt (Lit ''RA'') (Alt (Lit ''RB'') (Alt (Lit ''RC'') (Alt (Lit ''RG'') (Alt (Lit ''RE'') (Alt (Lit ''RK'') (Alt (Lit ''S'') (Alt (Lit ''BF'') (Lit ''RS''))))))))))), Lit ''-'', Opt (Lit ''Y''), Some_of (Cls is_digit)]), Opt (Seq [Lit (u_hellip @ ''Y''), Some_of (Cls is_digit)]), Lit ''`''])"

definition ROW_ID :: rx where
  "ROW_ID = (Seq [Lit ''O-'', Cls is_digit, Cls is_digit, Lit ''-'', Some_of (Cls is_digit)])"

definition after_last :: "char \<Rightarrow> string \<Rightarrow> string" where
  "after_last c s = rev (takeWhile (\<lambda>x. x \<noteq> c) (rev s))"

definition citation_ok :: "string \<Rightarrow> by_prefix \<Rightarrow> string \<Rightarrow> unit checked" where
  "citation_ok fname books ref =
     (let pre = before_last (CHR ''-'') ref; num = after_last (CHR ''-'') ref
      in chk (ok (dict_has books pre) (fname @ '' cites '' @ ref @ '' but no book has the prefix '' @ pre)) (\<lambda>_.
         case map_of books pre of
           None \<Rightarrow> ret ()
         | Some bk \<Rightarrow>
             if starts_with ''Y'' num
             then done_with (ok (list_ex (\<lambda>(vid, _). vid = ref) (kclose bk))
                    (fname @ '' cites '' @ ref @ '', which is not a year-close entry of '' @ (kname bk)))
             else done_with (ok (ref \<in> set (map evid (kvouchers bk)))
                    (fname @ '' cites '' @ ref @ '', which is not an entry of '' @ (kname bk)))))"

definition row_id_ok :: "string \<Rightarrow> string \<Rightarrow> unit checked" where
  "row_id_ok fname rid =
     chk (lift (py_int (take 2 (drop 2 rid)))) (\<lambda>k. done_with (ok (1 \<le> k \<and> k \<le> 20) (fname @ '': bad row id '' @ rid)))"

text \<open>The texts a pattern with no group of its own found: \<open>findall\<close>.\<close>

definition cited_in :: "string \<Rightarrow> string list" where
  "cited_in text = sort (remdups (map (\<lambda>g. grp g 1) (re_findall CITED text)))"

definition row_ids_in :: "string \<Rightarrow> string list" where
  "row_ids_in text = map (\<lambda>g. grp g 0) (re_findall (Grp 0 ROW_ID) text)"

definition check_citations :: "folder \<Rightarrow> by_prefix \<Rightarrow> string \<times> nat \<Rightarrow> unit checked" where
  "check_citations fd books fm = (case fm of (fname, minimum) \<Rightarrow>
     chk (ok (exists fd fname) (fname @ '' is missing'')) (\<lambda>there.
     if \<not> there then ret ()
     else chk (lift (read_file fd fname)) (\<lambda>text.
       let cited = cited_in text in (chk (ok (length cited > minimum) (fname @ '': only '' @ (str_nat (int (length cited))) @ '' entry numbers cited'')) (\<lambda>_.
         chk (each (citation_ok fname books) cited) (\<lambda>_.
         each (row_id_ok fname) (row_ids_in text)))))))"

definition check_coverage_md :: "folder \<Rightarrow> by_prefix \<Rightarrow> unit checked" where
  "check_coverage_md fd books = (chk (each (check_citations fd books) [(''COVERAGE.md'', 100), (''GAPS.md'', 60)]) (\<lambda>_.
         let coverage = (case map_of (snd fd) ''COVERAGE.md'' of None \<Rightarrow> [] | Some t \<Rightarrow> t) in
         each (\<lambda>slug. done_with (ok (contains_sub slug coverage) (''COVERAGE.md does not mention '' @ slug)))
       [''individual'', ''family'', ''shop'', ''partnership'', ''trust'']))"

section \<open>main\<close>

definition NOT_ON_PAGE :: "string list" where
  "NOT_ON_PAGE = [''`'', [CHR 0xC2, CHR 0xA7], ''ADR'', [CHR 0xE2, CHR 0x9A, CHR 0xA0], ''build.py'', ''check_md'', ''GAPS'', ''README'',
     ''equity'', ''Journal'', ''Contra'', ''voucher'', ''Voucher'', ''Due to'', ''Due from'', ''narration'', ''accrual'', ''category_'',
     ''money_in'', ''Nominal'', ''app'', ''auditor'']"

definition MAX_ENTRIES :: "bool \<Rightarrow> nat \<times> nat" where   \<comment> \<open>of a family file, of another\<close>
  "MAX_ENTRIES family = (if family then (25, 40) else (40, 60))"

definition token_rx :: "string \<Rightarrow> rx" where
  "token_rx tok = (if is_alpha (hd tok) \<and> is_alpha (last tok) then Seq [Wbd, Lit tok, Wbd] else Lit tok)"

definition BOOK_HEADING :: string where
  "BOOK_HEADING = ''## Book: ''"

definition heading_name :: "string \<Rightarrow> string" where
  "heading_name l = strip (hd (split_sub ('' '' @ u_emdash @ '' '') (drop 9 l)))"

definition headings :: "string list \<Rightarrow> (nat \<times> string) list" where
  "headings ls = filter (\<lambda>(i, l). starts_with BOOK_HEADING l) (indexed ls)"

text \<open>Where each book of the export starts: \<open>estarts\<close>, in which a later heading of a name replaces the earlier.\<close>

definition export_starts :: "string list \<Rightarrow> nat dict" where
  "export_starts els = foldl (\<lambda>d (i, l). AList.update (heading_name l) i d) [] (headings els)"

definition export_part :: "string list \<Rightarrow> string \<Rightarrow> string list" where
  "export_part els name =
     (case map_of (export_starts els) name of
        None \<Rightarrow> []
      | Some es \<Rightarrow>
          let ee = foldl min (length els) (filter (\<lambda>k. k > es) (map snd (export_starts els)))
          in drop es (take ee els))"

definition BANK_FILES :: "string list" where
  "BANK_FILES = [''individual'', ''shop'']"

definition check_book :: "string \<Rightarrow> string list \<Rightarrow> string list \<Rightarrow> nat \<times> nat \<Rightarrow> checked_book checked" where
  "check_book f ls els se = (case se of (s, e) \<Rightarrow> (chk (lift (at ls s)) (\<lambda>l.
         let name = heading_name l in
         chk (ok (dict_has (export_starts els) name) (f @ '': no export for book '' @ name)) (\<lambda>_.
         chk (parse_book (f @ '' ['' @ name @ '']'') name (drop s (take e ls)) (export_part els name)) (\<lambda>bk.
         let (lo, hi) = MAX_ENTRIES (starts_with ''joint-family'' f); n = length (kvouchers bk) in
         chk (ok (lo \<le> n \<and> n \<le> hi) ((kpath bk) @ '': '' @ (str_nat (int n)) @ '' entries, expected '' @ (str_nat (int lo)) @ u_endash @ (str_nat (int hi)))) (\<lambda>_.
         chk (check_ledgers bk) (\<lambda>parts.
         chk (check_cash_books bk parts) (\<lambda>_.
         chk (check_bank_extract bk (hd (split_on (CHR ''-'') f) \<in> set BANK_FILES)) (\<lambda>_.
         chk (check_heads bk) (\<lambda>_.
         chk (check_ageing bk) (\<lambda>_.
         chk (check_positions bk) (\<lambda>_.
         chk (check_month bk) (\<lambda>_.
         chk (check_custom bk) (\<lambda>_.
         chk (check_closing bk) (\<lambda>rap.
         ret (checked_of bk rap))))))))))))))))"

definition check_file :: "folder \<Rightarrow> by_prefix \<Rightarrow> string \<Rightarrow> by_prefix checked" where
  "check_file fd bp f = (chk (lift (read_file fd (f @ ''.md''))) (\<lambda>text.
                        chk (ok (exists fd (f @ ''.export.md'')) (f @ '': the Day Book and Cash Book export is missing'')) (\<lambda>_.
                        chk (lift (read_file fd (f @ ''.export.md''))) (\<lambda>etext.
                        chk (each (\<lambda>tok. done_with (ok (\<not> occurs (token_rx tok) text \<and> \<not> occurs (token_rx tok) etext)
            (f @ '': the printed page or the export carries '' @ (repr_str tok)))) NOT_ON_PAGE) (\<lambda>_.
                        let ls = split_on nl text; els = split_on nl etext; starts = map fst (headings ls) in
                        let stop = (case find_line (matches SUMMARY) ls of None \<Rightarrow> length ls | Some t \<Rightarrow> t) in
                        chk (gather (check_book f ls els) (zip starts (tl starts @ [stop]))) (\<lambda>books.
                        chk (ok (books \<noteq> []) (f @ '': no book'')) (\<lambda>_.
                        chk (check_family f books ls) (\<lambda>_.
                        chk (lift (emap (\<lambda>b. ebind (at (kvouchers b) 0) (\<lambda>v. Inr (before_last (CHR ''-'') (evid v), plain_book b))) books)) (\<lambda>bks.
                        ret (foldl (\<lambda>d (p, b). AList.update p b d) bp bks))))))))))"

definition file_names :: "folder \<Rightarrow> string list" where
  "file_names fd =
     sort (map (\<lambda>f. take (length f - 3) f)
       (filter (\<lambda>f. ends_with ''.md'' f \<and> \<not> ends_with ''.tech.md'' f \<and> \<not> ends_with ''.export.md'' f
                  \<and> f \<notin> set [''README.md'', ''GAPS.md'', ''COVERAGE.md'']) (fst fd)))"

definition check_folder :: "folder \<Rightarrow> unit checked" where
  "check_folder fd =
     (let files = file_names fd in (chk (ok (files = sort EXPECTED) (''expected the five book files, found '' @ (repr_list repr_str files))) (\<lambda>_.
         chk (each_with (check_file fd) [] files) (\<lambda>bp.
         check_coverage_md fd bp))))"

text \<open>The last lines \<open>main\<close> prints (after its progress line for each book) and its exit code.\<close>

definition check_main :: "folder \<Rightarrow> error + string list \<times> int" where
  "check_main fd =
     (case check_folder fd of
        Inl e \<Rightarrow> Inl e
      | Inr (_, n, ps) \<Rightarrow>
          Inr (map (\<lambda>p. ''PROBLEM: '' @ p) ps @ [(''checks: '' @ (str_nat (int n)) @ ''   problems: '' @ (str_nat (int (length ps))))],
               if ps \<noteq> [] then 1 else 0))"

end

