(* ===== verification/Json.thy ===== *)
theory Json
  imports Regex "HOL-Library.AList"
begin

text \<open>
  Python's \<open>json\<close> and UTF-8, as the design scripts use them: \<open>json.loads\<close> as a lexer and a stack machine over its
  tokens, \<open>json.dump(..., ensure_ascii=False, indent=1)\<close>, and the strict decoder of a file opened as UTF-8.
  A \<open>str\<close> is the list of its UTF-8 bytes.  A number with a fraction or an exponent keeps its text.
\<close>

section \<open>Values\<close>

datatype json =
    JNull
  | JBool bool
  | JInt int
  | JFloat string
  | JStr string
  | JArr "json list"
  | JObj "(string \<times> json) list"

text \<open>\<open>d.get(k)\<close>, and the truth of a value.\<close>

definition get_key :: "string \<Rightarrow> (string \<times> json) list \<Rightarrow> json" where
  "get_key k ps = (case map_of ps k of None \<Rightarrow> JNull | Some v \<Rightarrow> v)"

fun truthy :: "json \<Rightarrow> bool" where
  "truthy JNull = False"
| "truthy (JBool b) = b"
| "truthy (JInt n) = (n \<noteq> 0)"
| "truthy (JFloat t) = (\<exists>c \<in> set (takeWhile (\<lambda>c. c \<notin> set ''eE'') t). c \<notin> set ''-.0'')"
| "truthy (JStr s) = (s \<noteq> [])"
| "truthy (JArr xs) = (xs \<noteq> [])"
| "truthy (JObj ps) = (ps \<noteq> [])"

section \<open>UTF-8\<close>

definition byte_char :: "nat \<Rightarrow> char" where
  "byte_char n = char_of n"

definition utf8 :: "nat \<Rightarrow> string" where
  "utf8 n =
     (if n < 0x80 then [byte_char n]
      else if n < 0x800 then [byte_char (0xC0 + n div 64), byte_char (0x80 + n mod 64)]
      else if n < 0x10000 then [byte_char (0xE0 + n div 4096), byte_char (0x80 + n div 64 mod 64), byte_char (0x80 + n mod 64)]
      else [byte_char (0xF0 + n div 262144), byte_char (0x80 + n div 4096 mod 64), byte_char (0x80 + n div 64 mod 64), byte_char (0x80 + n mod 64)])"

text \<open>The second byte decides what is overlong, a surrogate or too large.\<close>

definition second_ok :: "nat \<Rightarrow> nat \<Rightarrow> bool" where
  "second_ok a b = (if a = 0xE0 then 0xA0 \<le> b \<and> b \<le> 0xBF else if a = 0xED then 0x80 \<le> b \<and> b \<le> 0x9F
     else if a = 0xF0 then 0x90 \<le> b \<and> b \<le> 0xBF else if a = 0xF4 then 0x80 \<le> b \<and> b \<le> 0x8F else 0x80 \<le> b \<and> b \<le> 0xBF)"

definition tail_ok :: "nat \<Rightarrow> bool" where
  "tail_ok b = (0x80 \<le> b \<and> b \<le> 0xBF)"

fun valid_bytes :: "nat list \<Rightarrow> bool" where
  "valid_bytes [] = True"
| "valid_bytes (a # s) =
     (if a < 0x80 then valid_bytes s
      else if 0xC2 \<le> a \<and> a \<le> 0xDF then (case s of b # s' \<Rightarrow> tail_ok b \<and> valid_bytes s' | _ \<Rightarrow> False)
      else if 0xE0 \<le> a \<and> a \<le> 0xEF then (case s of b # c # s' \<Rightarrow> second_ok a b \<and> tail_ok c \<and> valid_bytes s' | _ \<Rightarrow> False)
      else if 0xF0 \<le> a \<and> a \<le> 0xF4
      then (case s of b # c # d # s' \<Rightarrow> second_ok a b \<and> tail_ok c \<and> tail_ok d \<and> valid_bytes s' | _ \<Rightarrow> False)
      else False)"

definition valid_utf8 :: "string \<Rightarrow> bool" where
  "valid_utf8 s = valid_bytes (map of_char s)"

section \<open>Tokens\<close>

datatype token = TOpen_obj | TClose_obj | TOpen_arr | TClose_arr | TComma | TColon | TVal json

definition quote :: char where "quote = CHR 0x22"
definition backslash :: char where "backslash = CHR 0x5C"

definition hex_value :: "char \<Rightarrow> nat option" where
  "hex_value c = (let n = of_char c in
     if 48 \<le> n \<and> n \<le> 57 then Some (n - 48) else if 65 \<le> n \<and> n \<le> 70 then Some (n - 55)
     else if 97 \<le> n \<and> n \<le> 102 then Some (n - 87) else None)"

fun hex4 :: "string \<Rightarrow> (nat \<times> string) option" where
  "hex4 (a # b # c # d # s) =
     (case (hex_value a, hex_value b, hex_value c, hex_value d) of
        (Some w, Some x, Some y, Some z) \<Rightarrow> Some (4096 * w + 256 * x + 16 * y + z, s)
      | _ \<Rightarrow> None)"
| "hex4 _ = None"

text \<open>After \<open>\u\<close>: the character, a pair of surrogates taken together, and the rest.\<close>

definition unicode_escape :: "string \<Rightarrow> (string \<times> string) option" where
  "unicode_escape s =
     (case hex4 s of
        None \<Rightarrow> None
      | Some (n, r) \<Rightarrow>
          if 0xD800 \<le> n \<and> n \<le> 0xDBFF \<and> starts_with [backslash, CHR ''u''] r
          then (case hex4 (drop 2 r) of
                  None \<Rightarrow> None
                | Some (m, r') \<Rightarrow> if 0xDC00 \<le> m \<and> m \<le> 0xDFFF
                                  then Some (utf8 (0x10000 + (n - 0xD800) * 1024 + (m - 0xDC00)), r') else Some (utf8 n, r))
          else Some (utf8 n, r))"

definition plain_escape :: "char \<Rightarrow> string option" where
  "plain_escape c = map_of [(quote, [quote]), (backslash, [backslash]), (CHR ''/'', ''/''), (CHR ''b'', [CHR 0x08]), (CHR ''f'', [CHR 0x0C]),
     (CHR ''n'', [CHR 0x0A]), (CHR ''r'', [CHR 0x0D]), (CHR ''t'', [CHR 0x09])] c"

lemma hex4_shorter: "hex4 s = Some (n, r) \<Longrightarrow> length r < length s"
  by (induction s rule: hex4.induct) (auto split: option.splits prod.splits)

lemma unicode_escape_shorter: "unicode_escape s = Some (t, r) \<Longrightarrow> length r < length s"
  by (auto simp: unicode_escape_def split: option.splits prod.splits if_splits dest!: hex4_shorter)

function scan_string :: "string \<Rightarrow> (string \<times> string) option" where
  "scan_string [] = None"
| "scan_string (c # s) =
     (if c = quote then Some ([], s)
      else if c = backslash
      then (case s of
              [] \<Rightarrow> None
            | e # s' \<Rightarrow>
                if e = CHR ''u''
                then (case unicode_escape s' of
                        None \<Rightarrow> None
                      | Some (t, r) \<Rightarrow> map_option (apfst ((@) t)) (scan_string r))
                else (case plain_escape e of
                        None \<Rightarrow> None
                      | Some t \<Rightarrow> map_option (apfst ((@) t)) (scan_string s')))
      else if (of_char c :: nat) < 32 then None
      else map_option (apfst ((#) c)) (scan_string s))"
  by pat_completeness auto
termination
  by (relation "measure length") (auto dest: unicode_escape_shorter)

lemma scan_string_shorter: "scan_string s = Some (t, r) \<Longrightarrow> length r < length s"
proof (induction s arbitrary: t r rule: scan_string.induct)
  case (2 c s)
  then show ?case
    by (fastforce split: if_splits list.splits option.splits prod.splits dest: unicode_escape_shorter)
qed simp

text \<open>A number: the sign, \<open>0\<close> or digits, then a fraction and an exponent if they are there.\<close>

definition digits_then :: "string \<Rightarrow> string \<times> string" where
  "digits_then s = (takeWhile is_digit s, dropWhile is_digit s)"

definition scan_fraction :: "string \<Rightarrow> string \<times> string" where
  "scan_fraction s =
     (case s of
        c # r \<Rightarrow> if c = CHR ''.'' \<and> fst (digits_then r) \<noteq> [] then apfst ((#) c) (digits_then r) else ([], s)
      | [] \<Rightarrow> ([], s))"

definition scan_exponent :: "string \<Rightarrow> string \<times> string" where
  "scan_exponent s =
     (case s of
        c # r \<Rightarrow>
          if c \<in> set ''eE''
          then (let sg = takeWhile (\<lambda>x. x \<in> set ''+-'') (take 1 r); (ds, q) = digits_then (drop (length sg) r)
                in if ds \<noteq> [] then (c # sg @ ds, q) else ([], s))
          else ([], s)
      | [] \<Rightarrow> ([], s))"

definition scan_number :: "string \<Rightarrow> (json \<times> string) option" where
  "scan_number s =
     (let (sg, r) = (case s of c # r \<Rightarrow> if c = CHR ''-'' then ([c], r) else ([], s) | [] \<Rightarrow> ([], s));
          (ds, r) = (case r of c # r' \<Rightarrow> if c = CHR ''0'' then ([c], r') else digits_then r | [] \<Rightarrow> ([], r));
          (fr, r) = scan_fraction r;
          (ex, r) = scan_exponent r
      in if ds = [] then None
         else Some (if fr = [] \<and> ex = [] then JInt (if sg = [] then int_of_digits ds else - int_of_digits ds) else JFloat (sg @ ds @ fr @ ex), r))"

definition WORDS :: "(string \<times> json) list" where
  "WORDS = [(''null'', JNull), (''true'', JBool True), (''false'', JBool False), (''NaN'', JFloat ''NaN''), (''Infinity'', JFloat ''Infinity''),
            (''-Infinity'', JFloat ''-Infinity'')]"

definition scan_word :: "string \<Rightarrow> (json \<times> string) option" where
  "scan_word s = map_option (\<lambda>(w, v). (v, drop (length w) s)) (find (\<lambda>(w, v). starts_with w s) WORDS)"

definition scan_scalar :: "string \<Rightarrow> (json \<times> string) option" where
  "scan_scalar s = (case scan_word s of Some x \<Rightarrow> Some x | None \<Rightarrow> scan_number s)"

definition mark :: "char \<Rightarrow> token option" where
  "mark c = map_of [(CHR 0x7B, TOpen_obj), (CHR 0x7D, TClose_obj), (CHR ''['', TOpen_arr), (CHR '']'', TClose_arr), (CHR '','', TComma), (CHR '':'', TColon)] c"

lemma digits_then_le: "digits_then s = (d, r) \<Longrightarrow> length d + length r = length s"
  unfolding digits_then_def by (metis length_append prod.inject takeWhile_dropWhile_id)

lemma scan_fraction_le: "scan_fraction s = (d, r) \<Longrightarrow> length r \<le> length s"
  by (auto simp: scan_fraction_def apfst_def map_prod_def split: list.splits if_splits prod.splits dest!: digits_then_le)

lemma scan_exponent_le: "scan_exponent s = (d, r) \<Longrightarrow> length r \<le> length s"
  by (auto simp: scan_exponent_def Let_def split: list.splits if_splits prod.splits dest!: digits_then_le)

lemma scan_number_shorter: "scan_number s = Some (v, r) \<Longrightarrow> length r < length s"
  by (auto simp: scan_number_def Let_def split: list.splits if_splits prod.splits
        dest!: digits_then_le scan_fraction_le scan_exponent_le) (simp_all add: neq_Nil_conv, auto)

lemma scan_word_shorter: "scan_word s = Some (v, r) \<Longrightarrow> length r < length s"
proof -
  assume "scan_word s = Some (v, r)"
  then obtain w where w: "find (\<lambda>(w, v). starts_with w s) WORDS = Some (w, v)" "r = drop (length w) s"
    by (auto simp: scan_word_def)
  then have "starts_with w s" "(w, v) \<in> set WORDS" using nth_mem by (fastforce simp: find_Some_iff)+
  then have "starts_with w s" "w \<noteq> []" by (auto simp: WORDS_def)
  with w(2) show ?thesis by (auto simp: starts_with_prefix)
qed

lemma scan_scalar_shorter: "scan_scalar s = Some (v, r) \<Longrightarrow> length r < length s"
  by (auto simp: scan_scalar_def split: option.splits dest: scan_word_shorter scan_number_shorter)

function lex :: "string \<Rightarrow> token list option" where
  "lex [] = Some []"
| "lex (c # s) =
     (if c \<in> set [CHR '' '', CHR 0x09, CHR 0x0A, CHR 0x0D] then lex s
      else case mark c of
        Some t \<Rightarrow> map_option ((#) t) (lex s)
      | None \<Rightarrow>
          if c = quote
          then (case scan_string s of None \<Rightarrow> None | Some (t, r) \<Rightarrow> map_option ((#) (TVal (JStr t))) (lex r))
          else (case scan_scalar (c # s) of None \<Rightarrow> None | Some (v, r) \<Rightarrow> map_option ((#) (TVal v)) (lex r)))"
  by pat_completeness auto
termination
  by (relation "measure length") (auto dest: scan_string_shorter scan_scalar_shorter)

section \<open>Parsing\<close>

text \<open>The open arrays and objects, and what may come next.\<close>

datatype frame = FArr "json list" | FObj "(string \<times> json) list" string

datatype want =
    W_value
  | W_first_value
  | W_first_key
  | W_key "(string \<times> json) list"
  | W_colon "(string \<times> json) list" string
  | W_next
  | W_done json

fun deliver :: "json \<Rightarrow> frame list \<Rightarrow> frame list \<times> want" where
  "deliver v [] = ([], W_done v)"
| "deliver v (FArr xs # st) = (FArr (xs @ [v]) # st, W_next)"
| "deliver v (FObj ps k # st) = (FObj (AList.update k v ps) k # st, W_next)"

fun value_step :: "frame list \<Rightarrow> token \<Rightarrow> (frame list \<times> want) option" where
  "value_step st (TVal v) = Some (deliver v st)"
| "value_step st TOpen_arr = Some (FArr [] # st, W_first_value)"
| "value_step st TOpen_obj = Some (st, W_first_key)"
| "value_step st _ = None"

fun parse_step :: "frame list \<times> want \<Rightarrow> token \<Rightarrow> (frame list \<times> want) option" where
  "parse_step (st, W_value) t = value_step st t"
| "parse_step (FArr xs # st, W_first_value) TClose_arr = Some (deliver (JArr xs) st)"
| "parse_step (st, W_first_value) t = value_step st t"
| "parse_step (st, W_first_key) TClose_obj = Some (deliver (JObj []) st)"
| "parse_step (st, W_first_key) (TVal (JStr k)) = Some (st, W_colon [] k)"
| "parse_step (st, W_key ps) (TVal (JStr k)) = Some (st, W_colon ps k)"
| "parse_step (st, W_colon ps k) TColon = Some (FObj ps k # st, W_value)"
| "parse_step (FArr xs # st, W_next) TComma = Some (FArr xs # st, W_value)"
| "parse_step (FArr xs # st, W_next) TClose_arr = Some (deliver (JArr xs) st)"
| "parse_step (FObj ps k # st, W_next) TComma = Some (st, W_key ps)"
| "parse_step (FObj ps k # st, W_next) TClose_obj = Some (deliver (JObj ps) st)"
| "parse_step _ _ = None"

fun parse_tokens :: "frame list \<times> want \<Rightarrow> token list \<Rightarrow> (frame list \<times> want) option" where
  "parse_tokens s [] = Some s"
| "parse_tokens s (t # ts) = (case parse_step s t of None \<Rightarrow> None | Some s' \<Rightarrow> parse_tokens s' ts)"

text \<open>\<open>json.loads\<close>: None is a \<open>JSONDecodeError\<close>; a text that starts with the byte order mark is one.\<close>

definition loads :: "string \<Rightarrow> json option" where
  "loads s =
     (if starts_with [CHR 0xEF, CHR 0xBB, CHR 0xBF] s then None
      else case lex s of
        None \<Rightarrow> None
      | Some ts \<Rightarrow> (case parse_tokens ([], W_value) ts of Some ([], W_done v) \<Rightarrow> Some v | _ \<Rightarrow> None))"

section \<open>Printing\<close>

definition escape_char :: "char \<Rightarrow> string" where
  "escape_char c =
     (if c = quote \<or> c = backslash then [backslash, c]
      else case map_of [(CHR 0x08, CHR ''b''), (CHR 0x0C, CHR ''f''), (CHR 0x0A, CHR ''n''), (CHR 0x0D, CHR ''r''), (CHR 0x09, CHR ''t'')] c of
        Some e \<Rightarrow> [backslash, e]
      | None \<Rightarrow> (let n = of_char c in
          if n < 32 then [backslash] @ ''u00'' @ [(''0123456789abcdef'' ! (n div 16)), (''0123456789abcdef'' ! (n mod 16))] else [c]))"

definition json_str :: "string \<Rightarrow> string" where
  "json_str s = [quote] @ concat (map escape_char s) @ [quote]"

definition line_at :: "nat \<Rightarrow> string" where   \<comment> \<open>the new line of an item, \<open>indent=1\<close>\<close>
  "line_at l = nl # replicate l (CHR '' '')"

fun dump_at :: "nat \<Rightarrow> json \<Rightarrow> string" where
  "dump_at l JNull = ''null''"
| "dump_at l (JBool b) = (if b then ''true'' else ''false'')"
| "dump_at l (JInt n) = str_int n"
| "dump_at l (JFloat t) = t"
| "dump_at l (JStr s) = json_str s"
| "dump_at l (JArr xs) =
     (if xs = [] then ''[]''
      else ''['' @ line_at (l + 1) @ join_str ('','' @ line_at (l + 1)) (map (dump_at (l + 1)) xs) @ line_at l @ '']'')"
| "dump_at l (JObj ps) =
     (if ps = [] then [CHR 0x7B, CHR 0x7D]
      else [CHR 0x7B] @ line_at (l + 1)
             @ join_str ('','' @ line_at (l + 1)) (map (\<lambda>(k, v). json_str k @ '': '' @ dump_at (l + 1) v) ps) @ line_at l @ [CHR 0x7D])"

definition dumps :: "json \<Rightarrow> string" where
  "dumps j = dump_at 0 j"

end
