(* ===== verification/Disk.thy ===== *)
theory Disk
  imports Checks Json
begin

text \<open>
  What the scripts do to the world: the files they read and write and what goes to the two streams.  An
  action returns the new state and an error or a value, so what was written before an exception
  stays written.
\<close>

section \<open>The folder and actions on it\<close>

record disk =
  files :: "string dict"          \<comment> \<open>name, content; \<open>HERE\<close> is left out of the names\<close>
  others_there :: "string list"   \<comment> \<open>the names of the folder's other files\<close>
  stdout :: "string list"
  stderr :: "string list"

type_synonym 'a act = "disk \<Rightarrow> disk \<times> (error + 'a)"

definition ret_act :: "'a \<Rightarrow> 'a act" where
  "ret_act x = (\<lambda>d. (d, Inr x))"

definition and_then :: "'a act \<Rightarrow> ('a \<Rightarrow> 'b act) \<Rightarrow> 'b act" where
  "and_then m f = (\<lambda>d. case m d of (d', Inl e) \<Rightarrow> (d', Inl e) | (d', Inr x) \<Rightarrow> f x d')"

definition raising :: "error + 'a \<Rightarrow> 'a act" where
  "raising r = (\<lambda>d. (d, r))"

definition write_text :: "string \<Rightarrow> string \<Rightarrow> unit act" where
  "write_text path txt = (\<lambda>d. (d\<lparr>files := AList.update path txt (files d)\<rparr>, Inr ()))"

definition print_out :: "string \<Rightarrow> unit act" where
  "print_out s = (\<lambda>d. (d\<lparr>stdout := stdout d @ [s]\<rparr>, Inr ()))"

definition print_err :: "string \<Rightarrow> unit act" where
  "print_err s = (\<lambda>d. (d\<lparr>stderr := stderr d @ [s]\<rparr>, Inr ()))"

definition read_text :: "string \<Rightarrow> string act" where
  "read_text path = (\<lambda>d. (d, case map_of (files d) path of None \<Rightarrow> Inl (FileNotFoundError path) | Some t \<Rightarrow> Inr t))"

fun seq_acts :: "('a \<Rightarrow> 'b act) \<Rightarrow> 'a list \<Rightarrow> 'b list act" where
  "seq_acts f [] = ret_act []"
| "seq_acts f (x # xs) = and_then (f x) (\<lambda>y. and_then (seq_acts f xs) (\<lambda>ys. ret_act (y # ys)))"

section \<open>Texts and paths\<close>

text \<open>A file opened as UTF-8, its line ends as the new line, and its lines.\<close>

fun newlines :: "string \<Rightarrow> string" where
  "newlines [] = []"
| "newlines (c # s) =
     (if c \<noteq> CHR 0x0D then c # newlines s
      else nl # (case s of [] \<Rightarrow> [] | d # s' \<Rightarrow> if d = nl then newlines s' else newlines s))"

definition decoded :: "string \<Rightarrow> error + string" where
  "decoded t = (if valid_utf8 t then Inr (newlines t) else Inl (ValueError ''utf-8''))"

definition file_lines :: "string \<Rightarrow> string list" where
  "file_lines t = (let ps = split_on nl t in if last ps = [] then butlast ps else ps)"

definition path_join :: "string \<Rightarrow> string \<Rightarrow> string" where   \<comment> \<open>\<open>os.path.join\<close>\<close>
  "path_join a b = (if starts_with ''/'' b then b else if a = [] \<or> ends_with ''/'' a then a @ b else a @ ''/'' @ b)"

fun fold_acts :: "('s \<Rightarrow> 'a \<Rightarrow> 's act) \<Rightarrow> 's \<Rightarrow> 'a list \<Rightarrow> 's act" where
  "fold_acts f s [] = ret_act s"
| "fold_acts f s (x # xs) = and_then (f s x) (\<lambda>s'. fold_acts f s' xs)"

definition print_lines :: "string list \<Rightarrow> unit act" where
  "print_lines ls = fold_acts (\<lambda>_. print_out) () ls"

section \<open>What an action leaves alone\<close>

lemma and_then_Inr: "and_then m f d = (d', Inr y) \<longleftrightarrow> (\<exists>d1 x. m d = (d1, Inr x) \<and> f x d1 = (d', Inr y))"
  by (auto simp: and_then_def split: prod.splits sum.splits)

definition keeps :: "(string \<Rightarrow> bool) \<Rightarrow> 'a act \<Rightarrow> bool" where
  "keeps P m = (\<forall>d. \<forall>f. P f \<longrightarrow> map_of (files (fst (m d))) f = map_of (files d) f)"

named_theorems keeping \<open>actions that leave the files of a kind alone\<close>

lemma keeps_ret [keeping]: "keeps P (ret_act x)"
  by (simp add: keeps_def ret_act_def)

lemma keeps_and_then [keeping]: "keeps P m \<Longrightarrow> (\<And>x. keeps P (f x)) \<Longrightarrow> keeps P (and_then m f)"
  by (auto simp: keeps_def and_then_def split: prod.splits sum.splits) (metis fst_conv)+

lemma keeps_raising [keeping]: "keeps P (raising r)"
  by (simp add: keeps_def raising_def)

lemma keeps_write: "\<not> P path \<Longrightarrow> keeps P (write_text path txt)"
  by (auto simp: keeps_def write_text_def update_conv')

lemma keeps_print [keeping]: "keeps P (print_out s)" "keeps P (print_err s)"
  by (simp_all add: keeps_def print_out_def print_err_def)

lemma keeps_read [keeping]: "keeps P (read_text f)"
  by (simp add: keeps_def read_text_def)

lemma keeps_seq: "(\<And>x. x \<in> set xs \<Longrightarrow> keeps P (f x)) \<Longrightarrow> keeps P (seq_acts f xs)"
  by (induction xs) (auto intro: keeping)

lemma keeps_fold: "(\<And>s x. x \<in> set xs \<Longrightarrow> keeps P (f s x)) \<Longrightarrow> keeps P (fold_acts f s xs)"
  by (induction xs arbitrary: s) (auto intro: keeping)

end
