(* ===== verification/Build_Main.thy ===== *)
theory Build_Main
  imports Readme Html Check_Main Disk
begin

text \<open>
  \<open>main\<close> of \<open>build.py\<close>: the five files are built and written, the checker is run on the folder, and
  only then are the pages printed and counted, as actions on the folder (\<open>Disk\<close>).  Chrome is a function from the page to the PDF's bytes, or nothing when it
  fails.
\<close>

section \<open>The temporary folder\<close>

text \<open>\<open>try: ... finally: shutil.rmtree(tmp)\<close>\<close>

definition drop_under :: "string \<Rightarrow> disk \<Rightarrow> disk" where
  "drop_under tmp d = d\<lparr>files := filter (\<lambda>f. \<not> starts_with tmp (fst f)) (files d)\<rparr>"

definition finally_drop :: "string \<Rightarrow> 'a act \<Rightarrow> 'a act" where
  "finally_drop tmp m = (\<lambda>d. case m d of (d', r) \<Rightarrow> (drop_under tmp d', r))"

section \<open>The files\<close>

definition entry_counts :: "case_doc \<Rightarrow> string" where
  "entry_counts c = join_str '', '' (map (\<lambda>b. ((prefix b) @ '' '' @ (str_nat (int (length (vouchers b)))) @ '' entries'')) (books c))"

definition write_case :: "case_doc \<Rightarrow> (case_doc \<times> string) act" where
  "write_case c =
     and_then (raising (render_case (printed_case c))) (\<lambda>md.
     and_then (write_text (slug c @ ''.md'') md) (\<lambda>_.
     and_then (write_text (slug c @ ''.html'') (md_to_html md (title c))) (\<lambda>_.
     and_then (raising (render_tech blake2b c md)) (\<lambda>tech.
     and_then (write_text (slug c @ ''.tech.md'') tech) (\<lambda>_.
     and_then (raising (render_export (printed_case c))) (\<lambda>ex.
     and_then (write_text (slug c @ ''.export.md'') ex) (\<lambda>_.
     and_then (write_text (slug c @ ''.export.html'') (md_to_html ex ((''Day Book and Cash Book '' @ u_emdash @ '' '' @ (title c))))) (\<lambda>_.
     and_then (print_out (''wrote '' @ (slug c) @ ''.md (+ .html, .tech.md) '' @ u_emdash @ '' '' @ (entry_counts c))) (\<lambda>_.
     ret_act (c, md))))))))))"

definition write_files :: "case_doc list \<Rightarrow> (case_doc \<times> string) list act" where
  "write_files cs =
     and_then (seq_acts write_case cs) (\<lambda>cms.
     and_then (write_text ''README.md'' (render_readme cms)) (\<lambda>_.
     and_then (write_text ''README.html'' (md_to_html (render_readme cms) ((''Reference books '' @ u_emdash @ '' README'')))) (\<lambda>_.
     ret_act cms)))"

section \<open>The checker\<close>

text \<open>The exit code of \<open>check_md.py\<close> on the folder: its own, or 1 where it raises.\<close>

definition folder_of :: "disk \<Rightarrow> folder" where
  "folder_of d = (map fst (files d) @ filter (\<lambda>f. \<not> dict_has (files d) f) (others_there d), files d)"

definition check_code :: "disk \<Rightarrow> int" where
  "check_code d = (case check_main (folder_of d) of Inl _ \<Rightarrow> 1 | Inr (_, rc) \<Rightarrow> rc)"

section \<open>The pages\<close>

definition MAX_PAGES :: nat where
  "MAX_PAGES = 14"

definition pin_dates :: "string \<Rightarrow> string" where
  "pin_dates data =
     re_sub (Seq [Lit ''/'', Grp 1 (Alt (Lit ''CreationDate'') (Lit ''ModDate'')), Lit '' (D:'', Times 14 (Cls is_digit), Opt (Grp 2 (Seq [Cls (among ''+-''), Times 2 (Cls is_digit), Lit [CHR 0x27], Times 2 (Cls is_digit), Lit [CHR 0x27]])), Lit '')''])
       (\<lambda>g. ''/'' @ grp g 1 @ '' (D:20260401000000+00'00')'') data"

definition pin_ids :: "string \<Rightarrow> string" where
  "pin_ids data =
     re_sub (Seq [Lit ''/ID [<'', Grp 1 (Some_of (Cls (\<lambda>x. between CHR ''0'' CHR ''9'' x \<or> between CHR ''A'' CHR ''F'' x \<or> between CHR ''a'' CHR ''f'' x))), Lit ''>'', Opt (Lit '' ''), Lit ''<'', Grp 2 (Some_of (Cls (\<lambda>x. between CHR ''0'' CHR ''9'' x \<or> between CHR ''A'' CHR ''F'' x \<or> between CHR ''a'' CHR ''f'' x))), Lit ''>]''])
       (\<lambda>g. ''/ID [<'' @ replicate (length (grp g 1)) (CHR ''0'') @ ''> <'' @ replicate (length (grp g 2)) (CHR ''0'') @ ''>]'') data"

definition page_count :: "string \<Rightarrow> nat" where
  "page_count pdf = length (re_findall (Seq [Lit ''/Type'', Many (Cls is_space), Lit ''/Page'', Cls (\<lambda>x. x \<notin> set ''s'')]) pdf)"

definition to_pdf :: "(string \<Rightarrow> string option) \<Rightarrow> string \<Rightarrow> string \<Rightarrow> nat act" where
  "to_pdf chrome html pdf =
     and_then (read_text html) (\<lambda>page.
     case chrome page of
       None \<Rightarrow> raising (Inl (ValueError ''CalledProcessError''))
     | Some data \<Rightarrow>
         let fixed = pin_ids (pin_dates data)
         in and_then (write_text pdf data) (\<lambda>_. and_then (write_text pdf fixed) (\<lambda>_. ret_act (page_count fixed))))"

definition page_of_book :: "(string \<Rightarrow> string option) \<Rightarrow> string \<Rightarrow> case_doc \<Rightarrow> posted_book \<Rightarrow> (string \<times> nat) act" where
  "page_of_book chrome tmp c b =
     and_then (raising (render_book_sections b)) (\<lambda>ls.
     let head = join_str [nl] ([(''# '' @ (title c)), []] @ intro c) @ [nl];
         part = head @ join_str [nl] ls @ [nl];
         hp = tmp @ prefix b @ ''.html''
     in and_then (write_text hp (md_to_html part (bname b))) (\<lambda>_.
        and_then (to_pdf chrome hp (tmp @ prefix b @ ''.pdf'')) (\<lambda>n. ret_act (bname b, n))))"

definition pages_of_case :: "(string \<Rightarrow> string option) \<Rightarrow> string \<Rightarrow> case_doc \<Rightarrow> (string \<times> string \<times> nat) list act" where
  "pages_of_case chrome tmp c =
     and_then (to_pdf chrome (slug c @ ''.html'') (slug c @ ''.pdf'')) (\<lambda>n.
     and_then (case books c of [b] \<Rightarrow> ret_act [(bname b, n)] | bs \<Rightarrow> seq_acts (page_of_book chrome tmp c) bs) (\<lambda>per.
     and_then (print_out (''wrote '' @ (slug c) @ ''.pdf '' @ u_emdash @ '' '' @ (str_nat (int n)) @ '' pages ('' @ (join_str ''; '' (map (\<lambda>(nm, p). nm @ '' '' @ str_nat (int p)) per)) @
       '')'')) (\<lambda>_.
     ret_act (map (\<lambda>(nm, p). (slug c, nm, p)) per))))"

definition print_pages :: "(string \<Rightarrow> string option) \<Rightarrow> string \<Rightarrow> case_doc list \<Rightarrow> (string \<times> string \<times> nat) list act" where
  "print_pages chrome tmp cs =
     finally_drop tmp
       (and_then (seq_acts (pages_of_case chrome tmp) cs) (\<lambda>per.
        and_then (to_pdf chrome ''README.html'' ''README.pdf'') (\<lambda>n.
        and_then (print_out (''wrote README.pdf '' @ u_emdash @ '' '' @ (str_nat (int n)) @ '' pages'')) (\<lambda>_. ret_act (concat per)))))"

definition too_long :: "string \<times> string \<times> nat \<Rightarrow> bool" where
  "too_long p = (snd (snd p) > MAX_PAGES)"

definition over_line :: "string \<times> string \<times> nat \<Rightarrow> string" where
  "over_line p = (case p of (s, nm, n) \<Rightarrow>
     (''TOO LONG: '' @ s @ '': '' @ nm @ '' prints on '' @ (str_nat (int n)) @ '' pages (limit '' @ (str_nat (int MAX_PAGES)) @
       '')''))"

section \<open>main\<close>

record options =
  no_pdf :: bool
  skip_check :: bool

definition after_pages :: "(case_doc \<times> string) list \<Rightarrow> (string \<times> string \<times> nat) list \<Rightarrow> int act" where
  "after_pages cms per =
     (let over = filter too_long per
      in if over \<noteq> [] then and_then (seq_acts (\<lambda>p. print_err (over_line p)) over) (\<lambda>_. ret_act 3)
         else and_then (print_out (''content hash (BLAKE2b-256 over the five book .md files): '' @ (content_hash cms))) (\<lambda>_. ret_act 0))"

definition build_main :: "(string \<Rightarrow> string option) \<Rightarrow> string \<Rightarrow> options \<Rightarrow> (error + case_doc) list \<Rightarrow> int act" where
  "build_main chrome tmp opt builders =
     and_then (raising (emap id builders)) (\<lambda>cs.
     and_then (write_files cs) (\<lambda>cms.
     and_then (\<lambda>d. (d, Inr (if skip_check opt then 0 else check_code d))) (\<lambda>rc.
     if rc \<noteq> 0
     then and_then (print_err (''check_md.py reported problems '' @ u_emdash @ '' stopping before PDF generation'')) (\<lambda>_. ret_act rc)
     else and_then (if no_pdf opt then ret_act [] else print_pages chrome tmp cs) (after_pages cms))))"

text \<open>The command line; the word after \<open>--chrome\<close> is the browser.\<close>

definition DEFAULT_CHROME :: string where
  "DEFAULT_CHROME = ''/Applications/Google Chrome.app/Contents/MacOS/Google Chrome''"

definition index_of :: "string \<Rightarrow> string list \<Rightarrow> nat" where
  "index_of x xs = length (takeWhile (\<lambda>y. y \<noteq> x) xs)"

definition parse_args :: "string list \<Rightarrow> error + options \<times> string" where
  "parse_args argv =
     (let opt = \<lparr>no_pdf = ''--no-pdf'' \<in> set argv, skip_check = ''--skip-check'' \<in> set argv\<rparr>
      in if ''--chrome'' \<in> set argv
         then ebind (at argv (index_of ''--chrome'' argv + 1)) (\<lambda>p. Inr (opt, p))
         else Inr (opt, DEFAULT_CHROME))"

definition main_argv :: "(string \<Rightarrow> string \<Rightarrow> string option) \<Rightarrow> string \<Rightarrow> string list \<Rightarrow> int act" where
  "main_argv chrome tmp argv =
     and_then (raising (parse_args argv)) (\<lambda>(opt, path). build_main (chrome path) tmp opt CASE_BUILDERS)"

section \<open>What an action leaves alone\<close>

lemma map_of_drop_under: "\<not> starts_with tmp f \<Longrightarrow> map_of (files (drop_under tmp d)) f = map_of (files d) f"
proof -
  assume "\<not> starts_with tmp f"
  then have "map_of (filter (\<lambda>f. \<not> starts_with tmp (fst f)) xs) f = map_of xs f" for xs :: "string dict"
    by (induction xs) auto
  then show ?thesis by (simp add: drop_under_def)
qed

lemma keeps_finally: "(\<And>f. P f \<Longrightarrow> \<not> starts_with tmp f) \<Longrightarrow> keeps P m \<Longrightarrow> keeps P (finally_drop tmp m)"
  by (auto simp: keeps_def finally_drop_def map_of_drop_under split: prod.splits) (metis fst_conv)

text \<open>The texts: every file that is neither a PDF nor in the temporary folder.\<close>

definition is_text :: "string \<Rightarrow> string \<Rightarrow> bool" where
  "is_text tmp f = (\<not> ends_with ''.pdf'' f \<and> \<not> starts_with tmp f)"

lemma keeps_to_pdf: "\<not> is_text tmp pdf \<Longrightarrow> keeps (is_text tmp) (to_pdf chrome html pdf)"
  unfolding to_pdf_def by (intro keeping) (auto simp: Let_def intro!: keeping keeps_write split: option.splits)

lemma keeps_page_of_book: "keeps (is_text tmp) (page_of_book chrome tmp c b)"
  unfolding page_of_book_def Let_def by (intro keeping keeps_write keeps_to_pdf) (auto simp: is_text_def)

lemma keeps_pages_of_case: "keeps (is_text tmp) (pages_of_case chrome tmp c)"
  unfolding pages_of_case_def
  by (intro keeping keeps_to_pdf)
     (auto simp: is_text_def ends_with_def simp del: seq_acts.simps intro!: keeping keeps_seq keeps_page_of_book split: list.splits)

lemma keeps_print_pages: "keeps (is_text tmp) (print_pages chrome tmp cs)"
  unfolding print_pages_def
  by (intro keeps_finally keeping keeps_seq keeps_pages_of_case keeps_to_pdf) (auto simp: is_text_def ends_with_def)

lemma seq_print_err:
  "seq_acts (\<lambda>p. print_err (f p)) ps d = (d\<lparr>stderr := stderr d @ map f ps\<rparr>, Inr (map (\<lambda>_. ()) ps))"
  by (induction ps arbitrary: d) (simp_all add: ret_act_def and_then_def print_err_def)

section \<open>What the exit code says\<close>

lemma after_pages_zero: "after_pages cms per d = (d', Inr 0) \<Longrightarrow> filter too_long per = [] \<and> files d' = files d"
  unfolding after_pages_def Let_def
  by (cases "filter too_long per = []") (simp_all only: if_True if_False and_then_Inr simp_thms; auto simp: ret_act_def print_out_def seq_print_err)+

text \<open>C15. When \<open>build.py\<close> exits with 0, the five files were built and written, the checker was run on exactly
  those texts and found no problem (unless skipped), no book printed on more than 14 pages (unless the PDFs were
  skipped), and printing has changed no text: each still stands as the checker read it.\<close>

theorem build_exit_zero:
  assumes "build_main chrome tmp opt builders d = (d', Inr 0)"
  shows "\<exists>cs cms d1. emap id builders = Inr cs \<and> write_files cs d = (d1, Inr cms)
     \<and> (skip_check opt \<or> (\<exists>ls. check_main (folder_of d1) = Inr (ls, 0)))
     \<and> (no_pdf opt \<or> (\<exists>per d2. print_pages chrome tmp cs d1 = (d2, Inr per) \<and> list_all (\<lambda>(s, nm, n). n \<le> MAX_PAGES) per))
     \<and> (\<forall>f. is_text tmp f \<longrightarrow> map_of (files d') f = map_of (files d1) f)"
proof -
  obtain cs d1 cms rc where built: "emap id builders = Inr cs" "write_files cs d = (d1, Inr cms)"
    and rc: "rc = (if skip_check opt then 0 else check_code d1)"
    and rest: "(if rc \<noteq> 0
      then and_then (print_err (''check_md.py reported problems '' @ u_emdash @ '' stopping before PDF generation'')) (\<lambda>_. ret_act rc)
      else and_then (if no_pdf opt then ret_act [] else print_pages chrome tmp cs) (after_pages cms)) d1 = (d', Inr 0)"
    using assms unfolding build_main_def and_then_Inr raising_def by auto
  have zero: "rc = 0"
    using rest by (auto simp: and_then_Inr ret_act_def split: if_splits)
  then obtain d2 per where pages: "(if no_pdf opt then ret_act [] else print_pages chrome tmp cs) d1 = (d2, Inr per)"
    and exit: "after_pages cms per d2 = (d', Inr 0)"
    using rest by (auto simp: and_then_Inr)
  have stages: "(if skip_check opt then 0 else check_code d1) = 0" "filter too_long per = []" "files d' = files d2"
    using zero rc after_pages_zero [OF exit] by simp_all
  have "list_all (\<lambda>(s, nm, n). n \<le> MAX_PAGES) per"
    using stages(2) by (auto simp: filter_empty_conv too_long_def list_all_iff)
  moreover have "\<forall>f. is_text tmp f \<longrightarrow> map_of (files d') f = map_of (files d1) f"
    using pages stages(3) keeps_print_pages [of tmp chrome cs]
    by (auto simp: keeps_def ret_act_def split: if_splits) (metis fst_conv)
  moreover have "skip_check opt \<or> (\<exists>ls. check_main (folder_of d1) = Inr (ls, 0))"
    using stages(1) by (auto simp: check_code_def split: if_splits sum.splits prod.splits)
  ultimately show ?thesis using built pages by (auto split: if_splits)
qed

text \<open>C16. When the checker finds a problem in what was written, or raises, \<open>build.py\<close> returns the checker's
  code and prints nothing further: no PDF is made and every file stands as it was written.\<close>

theorem build_stops_at_problems:
  assumes "emap id builders = Inr cs" "write_files cs d = (d1, Inr cms)"
    and "\<not> skip_check opt" "check_code d1 \<noteq> 0"
  shows "build_main chrome tmp opt builders d
     = (d1\<lparr>stderr := stderr d1 @ [(''check_md.py reported problems '' @ u_emdash @ '' stopping before PDF generation'')]\<rparr>, Inr (check_code d1))"
  using assms by (simp add: build_main_def and_then_def raising_def ret_act_def print_err_def)

section \<open>A set without files\<close>

text \<open>The README alone, printed on two pages by a Chrome that gives the same PDF for every page.\<close>

definition stub_pdf :: string where
  "stub_pdf = ''%PDF /Type /Pages /Type /Page /Type/Page endobj''"

definition empty_disk :: disk where
  "empty_disk = \<lparr>files = [], others_there = [], stdout = [], stderr = []\<rparr>"

definition readme_only :: "string dict" where
  "readme_only = [(''README.md'', render_readme []), (''README.html'', md_to_html (render_readme []) ((''Reference books '' @ u_emdash @ '' README'')))]"

lemma stub_pages: "pin_ids (pin_dates stub_pdf) = stub_pdf" "page_count stub_pdf = 2"
  by code_simp+

lemma write_nothing: "write_files [] empty_disk = (empty_disk\<lparr>files := readme_only\<rparr>, Inr [])"
  by (simp add: write_files_def and_then_def ret_act_def write_text_def empty_disk_def readme_only_def)

lemma no_file_problem: "check_code (empty_disk\<lparr>files := readme_only\<rparr>) = 1"
proof -
  have "case check_main ([''README.md'', ''README.html''], [(''README.md'', t), (''README.html'', u)]) of Inl _ \<Rightarrow> True | Inr (_, k) \<Rightarrow> k = 1" for t u
    by code_simp
  from this [of "render_readme []" "md_to_html (render_readme []) ((''Reference books '' @ u_emdash @ '' README''))"] show ?thesis
    by (auto simp: check_code_def folder_of_def readme_only_def empty_disk_def split: sum.splits)
qed

lemma readme_pages:
  "\<exists>d'. build_main (\<lambda>_. Some stub_pdf) ''tmp/'' \<lparr>no_pdf = False, skip_check = True\<rparr> [] empty_disk = (d', Inr 0)"
proof -
  have page: "map_of readme_only ''README.html'' = Some (md_to_html (render_readme []) ((''Reference books '' @ u_emdash @ '' README'')))"
    by (simp add: readme_only_def)
  have "\<exists>d2. print_pages (\<lambda>_. Some stub_pdf) ''tmp/'' [] (empty_disk\<lparr>files := readme_only\<rparr>) = (d2, Inr [])"
    by (simp add: print_pages_def finally_drop_def to_pdf_def and_then_def ret_act_def read_text_def page write_text_def
        print_out_def stub_pages Let_def)
  then show ?thesis
    by (auto simp: build_main_def and_then_def raising_def write_nothing ret_act_def after_pages_def print_out_def)
qed

theorem build_exit_zero_witness:
  "\<exists>d1 per d2. write_files [] empty_disk = (d1, Inr [])
     \<and> print_pages (\<lambda>_. Some stub_pdf) ''tmp/'' [] d1 = (d2, Inr per) \<and> list_all (\<lambda>(s, nm, n). n \<le> MAX_PAGES) per"
proof -
  obtain d' where "build_main (\<lambda>_. Some stub_pdf) ''tmp/'' \<lparr>no_pdf = False, skip_check = True\<rparr> [] empty_disk = (d', Inr 0)"
    using readme_pages by blast
  from build_exit_zero [OF this] show ?thesis by (auto simp: write_nothing)
qed

theorem build_stops_at_problems_witness:
  "snd (build_main (\<lambda>_. None) ''tmp/'' \<lparr>no_pdf = False, skip_check = False\<rparr> [] empty_disk) = Inr 1"
  using build_stops_at_problems [of "[]" "[]" empty_disk "empty_disk\<lparr>files := readme_only\<rparr>" "[]"]
  by (simp add: write_nothing no_file_problem)

end
