(* ===== verification/Shamir_Facts.thy ===== *)
theory Shamir_Facts
  imports Shamir "HOL-Library.Sublist"
begin

text \<open>
  What the secret sharing of \<open>shamir_ref.py\<close> promises.  The bytes with its multiplication are made an
  instance of \<open>field\<close>; the polynomials over a field and Lagrange's formula are proved once for every
  field; and \<open>combine\<close> is shown to compute the formula at 0.
\<close>

unbundle bit_operations_syntax

section \<open>Polynomials over a field\<close>

inductive polyfun :: "nat \<Rightarrow> ('a :: field \<Rightarrow> 'a) \<Rightarrow> bool" where
  polyfun_0: "polyfun 0 (\<lambda>_. 0)"
| polyfun_Suc: "polyfun n f \<Longrightarrow> polyfun (Suc n) (\<lambda>x. c + x * f x)"

inductive_cases polyfun_0E: "polyfun 0 f"
inductive_cases polyfun_SucE: "polyfun (Suc n) f"

lemma polyfun_cong: "polyfun n f \<Longrightarrow> (\<And>x. f x = g x) \<Longrightarrow> polyfun n g"
  by (subgoal_tac "f = g") auto

lemma polyfun_more: "polyfun n f \<Longrightarrow> polyfun (Suc n) f"
proof (induction rule: polyfun.induct)
  case polyfun_0
  from polyfun_Suc [OF polyfun.polyfun_0, of 0] show ?case by simp
next
  case (polyfun_Suc n f c)
  from polyfun.polyfun_Suc [OF polyfun_Suc.IH] show ?case .
qed

lemma polyfun_le: "polyfun m f \<Longrightarrow> m \<le> n \<Longrightarrow> polyfun n f"
  by (induction n) (auto simp: le_Suc_eq polyfun_more)

lemma polyfun_zero: "polyfun n (\<lambda>_. 0)"
  by (rule polyfun_le [OF polyfun_0]) simp

lemma polyfun_scale: "polyfun n f \<Longrightarrow> polyfun n (\<lambda>x. k * f x)"
proof (induction rule: polyfun.induct)
  case (polyfun_Suc n f c)
  from polyfun.polyfun_Suc [OF polyfun_Suc.IH, of "k * c"] show ?case
    by (rule polyfun_cong) (simp add: algebra_simps)
qed (simp add: polyfun_0)

lemma polyfun_add: "polyfun n f \<Longrightarrow> polyfun n g \<Longrightarrow> polyfun n (\<lambda>x. f x + g x)"
proof (induction arbitrary: g rule: polyfun.induct)
  case polyfun_0
  then show ?case by simp
next
  case (polyfun_Suc n f c)
  from polyfun_Suc.prems obtain g' d where g: "g = (\<lambda>x. d + x * g' x)" "polyfun n g'" by (rule polyfun_SucE)
  from polyfun.polyfun_Suc [OF polyfun_Suc.IH [OF g(2)], of "c + d"] show ?case
    by (rule polyfun_cong) (simp add: g algebra_simps)
qed

lemma polyfun_diff: "polyfun n f \<Longrightarrow> polyfun n g \<Longrightarrow> polyfun n (\<lambda>x. f x - g x)"
  using polyfun_add [of n f "\<lambda>x. - 1 * g x"] polyfun_scale [of n g "- 1"] by simp

lemma polyfun_sum: "(\<And>i. i \<in> I \<Longrightarrow> polyfun n (f i)) \<Longrightarrow> polyfun n (\<lambda>x. \<Sum>i\<in>I. f i x)"
  by (induction I rule: infinite_finite_induct) (simp_all add: polyfun_zero polyfun_add)

lemma polyfun_linear: "polyfun n f \<Longrightarrow> polyfun (Suc n) (\<lambda>x. (x - a) * f x)"
proof -
  assume f: "polyfun n f"
  from polyfun_add [OF polyfun_Suc [OF f, of 0] polyfun_more [OF polyfun_scale [OF f, of "- a"]]]
  show ?thesis by (rule polyfun_cong) (simp add: algebra_simps)
qed

lemma polyfun_const: "polyfun (Suc n) (\<lambda>_. c)"
  using polyfun_Suc [OF polyfun_zero] by simp

lemma polyfun_prod: "finite I \<Longrightarrow> polyfun (Suc (card I)) (\<lambda>x. \<Prod>i\<in>I. (x - a i))"
proof (induction I rule: finite_induct)
  case empty
  show ?case using polyfun_const [of 0 1] by simp
next
  case (insert i I)
  from polyfun_linear [OF insert.IH, of "a i"] show ?case using insert.hyps by simp
qed

text \<open>A polynomial with as many roots as coefficients is 0.\<close>

lemma polyfun_divide: "polyfun (Suc n) f \<Longrightarrow> \<exists>g. polyfun n g \<and> (\<forall>x. f x - f a = (x - a) * g x)"
proof (induction n arbitrary: f)
  case 0
  then obtain f' c where f: "f = (\<lambda>x. c + x * f' x)" "polyfun 0 f'" by (rule polyfun_SucE)
  from f(2) have "f' = (\<lambda>_. 0)" by (rule polyfun_0E)
  then have "\<forall>x. f x - f a = (x - a) * 0" by (simp add: f(1))
  with polyfun_0 show ?case by fast
next
  case (Suc n)
  from Suc.prems obtain f' c where f: "f = (\<lambda>x. c + x * f' x)" "polyfun (Suc n) f'" by (rule polyfun_SucE)
  from Suc.IH [OF f(2)] obtain g where g: "polyfun n g" "\<forall>x. f' x - f' a = (x - a) * g x" by blast
  have "f x - f a = (x - a) * (f' a + x * g x)" for x
  proof -
    have "f x - f a = (x - a) * f' a + x * (f' x - f' a)" unfolding f(1) by (simp add: algebra_simps)
    also have "... = (x - a) * (f' a + x * g x)" by (simp only: g(2)) (simp add: algebra_simps)
    finally show ?thesis .
  qed
  with polyfun_Suc [OF g(1), of "f' a"] show ?case by blast
qed

lemma polyfun_vanishes:
  assumes "polyfun n f" "finite A" "n \<le> card A" "\<And>a. a \<in> A \<Longrightarrow> f a = 0"
  shows "f x = 0"
  using assms
proof (induction n arbitrary: f A x)
  case 0
  then show ?case by (auto elim: polyfun_0E)
next
  case (Suc n)
  then obtain a where a: "a \<in> A" by fastforce
  from polyfun_divide [OF Suc.prems(1), of a] Suc.prems(4) [OF a]
  obtain g where g: "polyfun n g" "\<And>x. f x = (x - a) * g x" by auto
  have "g b = 0" if "b \<in> A - {a}" for b
    using Suc.prems(4) [of b] g(2) [of b] that by simp
  then have "g x = 0" for x
    using Suc.IH [OF g(1), of "A - {a}"] Suc.prems(2,3) a by simp
  then show ?case by (simp add: g(2))
qed

text \<open>Lagrange's formula.\<close>

theorem lagrange:
  assumes "polyfun (card I) f" "finite I" "inj_on a I"
  shows "f z = (\<Sum>i\<in>I. f (a i) * ((\<Prod>j\<in>I - {i}. (z - a j)) / (\<Prod>j\<in>I - {i}. (a i - a j))))"
proof -
  define base where "base = (\<lambda>i z. f (a i) * ((\<Prod>j\<in>I - {i}. (z - a j)) / (\<Prod>j\<in>I - {i}. (a i - a j))))"
  have "polyfun (card I) (base i)" if "i \<in> I" for i
  proof -
    have "card I = Suc (card (I - {i}))" using that assms(2) by (metis card_Suc_Diff1)
    then have "polyfun (card I) (\<lambda>z. \<Prod>j\<in>I - {i}. (z - a j))" using polyfun_prod [of "I - {i}" a] assms(2) by simp
    from polyfun_scale [OF this, of "f (a i) / (\<Prod>j\<in>I - {i}. (a i - a j))"] show ?thesis
      by (rule polyfun_cong) (simp add: base_def)
  qed
  then have "polyfun (card I) (\<lambda>z. f z - (\<Sum>i\<in>I. base i z))" by (intro polyfun_diff assms(1) polyfun_sum)
  moreover have "f z - (\<Sum>i\<in>I. base i z) = 0" if "z \<in> a ` I" for z
  proof -
    from that obtain k where k: "k \<in> I" "z = a k" by blast
    have "base i z = (if i = k then f z else 0)" if "i \<in> I" for i
    proof (cases "i = k")
      case True
      have "(\<Prod>j\<in>I - {k}. (a k - a j)) \<noteq> 0" using assms(2,3) k(1) by (auto simp: inj_on_def)
      with True k show ?thesis by (simp add: base_def)
    next
      case False
      then have "(\<Prod>j\<in>I - {i}. (z - a j)) = 0" using assms(2) k by auto
      with False show ?thesis by (simp add: base_def)
    qed
    then have "(\<Sum>i\<in>I. base i z) = (\<Sum>i\<in>I. if i = k then f z else 0)" by (intro sum.cong) simp_all
    then show ?thesis using assms(2) k(1) by simp
  qed
  ultimately have "f z - (\<Sum>i\<in>I. base i z) = 0"
    using polyfun_vanishes [of "card I" "\<lambda>z. f z - (\<Sum>i\<in>I. base i z)" "a ` I" z] assms(2,3) by (simp add: card_image)
  then show ?thesis by (simp add: base_def)
qed

section \<open>The bytes are a field\<close>

typedef gf = "UNIV :: byte set" morphisms byte_of gf_of ..

setup_lifting type_definition_gf

definition byte_inverse :: "byte \<Rightarrow> byte" where
  "byte_inverse a = (case ginv a of Inl _ \<Rightarrow> 0 | Inr v \<Rightarrow> v)"

lemma byte_inverse: "a \<noteq> 0 \<Longrightarrow> gmul a (byte_inverse a) = 1"
  by (rule ginv_inverse) (auto simp: byte_inverse_def)

lemma byte_inverse_zero: "byte_inverse 0 = 0"
  by (simp add: byte_inverse_def ginv_zero)

instantiation gf :: comm_ring_1
begin

lift_definition zero_gf :: gf is 0 .
lift_definition one_gf :: gf is 1 .
lift_definition plus_gf :: "gf \<Rightarrow> gf \<Rightarrow> gf" is "(XOR)" .
lift_definition minus_gf :: "gf \<Rightarrow> gf \<Rightarrow> gf" is "(XOR)" .
lift_definition uminus_gf :: "gf \<Rightarrow> gf" is id .
lift_definition times_gf :: "gf \<Rightarrow> gf \<Rightarrow> gf" is gmul .

instance
proof
  fix a b c :: gf
  show "a * b * c = a * (b * c)" by transfer (rule gmul_assoc)
  show "a * b = b * a" by transfer (rule gmul_commute)
  show "1 * a = a" by transfer simp
  show "a + b + c = a + (b + c)" by transfer (simp add: ac_simps)
  show "a + b = b + a" by transfer (simp add: ac_simps)
  show "0 + a = a" by transfer simp
  show "- a + a = 0" by transfer simp
  show "a - b = a + - b" by transfer simp
  show "(a + b) * c = a * c + b * c" by transfer (rule gmul_xor_left)
  show "(0 :: gf) \<noteq> 1" by transfer simp
qed

end

instantiation gf :: field
begin

lift_definition inverse_gf :: "gf \<Rightarrow> gf" is byte_inverse .
lift_definition divide_gf :: "gf \<Rightarrow> gf \<Rightarrow> gf" is "\<lambda>a b. gmul a (byte_inverse b)" .

instance
proof
  fix a b :: gf
  show "inverse a * a = 1" if "a \<noteq> 0" using that by transfer (simp add: byte_inverse gmul_commute)
  show "a div b = a * inverse b" by transfer simp
  show "inverse (0 :: gf) = 0" by transfer (rule byte_inverse_zero)
qed

end

section \<open>The code over the field\<close>

lemma gf_simps:
  "gf_of 0 = 0" "gf_of 1 = 1" "gf_of (a XOR b) = gf_of a + gf_of b" "gf_of (gmul a b) = gf_of a * gf_of b"
  by (transfer; simp)+

lemma gf_of_eq [simp]: "gf_of a = gf_of b \<longleftrightarrow> a = b"
  by (simp add: gf_of_inject)

lemma gf_of_zero [simp]: "gf_of a = 0 \<longleftrightarrow> a = 0"
  using gf_of_eq [of a 0] by (simp only: gf_simps)

lemma byte_of_gf_of [simp]: "byte_of (gf_of a) = a"
  by (simp add: gf_of_inverse)

lemma byte_of_zero: "byte_of 0 = 0"
  by transfer simp

lemma gf_minus: "a - b = a + b" "- a = a" for a b :: gf
  by (transfer; simp)+

lemma ginv_gf: "a \<noteq> 0 \<Longrightarrow> \<exists>v. ginv a = Inr v \<and> gf_of v = inverse (gf_of a)"
proof -
  assume "a \<noteq> 0"
  then obtain v where v: "ginv a = Inr v" "gmul a v = 1" by (rule ginv_inverse)
  then have "gf_of a * gf_of v = 1" by (metis gf_simps(2,4))
  with v(1) show ?thesis by (metis inverse_unique)
qed

lemma eval_poly_simps [simp]: "eval_poly [] x = 0" "eval_poly (c # cs) x = gmul (eval_poly cs x) x XOR c"
  by (simp_all add: eval_poly_def)

lemma eval_poly_at_0: "cs \<noteq> [] \<Longrightarrow> eval_poly cs 0 = hd cs"
  by (cases cs) simp_all

lemma polyfun_eval: "polyfun (length cs) (\<lambda>x. gf_of (eval_poly cs (byte_of x)))"
proof (induction cs)
  case Nil
  then show ?case by (simp add: gf_simps polyfun_0)
next
  case (Cons c cs)
  have "gf_of (byte_of x) = x" for x by (rule byte_of_inverse)
  with polyfun_Suc [OF Cons, of "gf_of c"] show ?case by (simp add: gf_simps ac_simps)
qed

lemma eval_polyfun: "polyfun n f \<Longrightarrow> \<exists>cs. length cs = n \<and> (\<forall>x. eval_poly cs x = byte_of (f (gf_of x)))"
proof (induction rule: polyfun.induct)
  case polyfun_0
  show ?case by (simp add: byte_of_zero)
next
  case (polyfun_Suc n f c)
  then obtain cs where cs: "length cs = n" "\<forall>x. eval_poly cs x = byte_of (f (gf_of x))" by blast
  have "byte_of (a + b) = byte_of a XOR byte_of b" "byte_of (a * b) = gmul (byte_of a) (byte_of b)" for a b
    by (transfer; simp)+
  with cs have "length (byte_of c # cs) = Suc n" "\<forall>x. eval_poly (byte_of c # cs) x = byte_of (c + gf_of x * f (gf_of x))"
    by (simp_all add: gmul_commute ac_simps)
  then show ?case by blast
qed

text \<open>The products of one point.\<close>

abbreviation gx :: "(byte \<times> byte list) list \<Rightarrow> nat \<Rightarrow> gf" where
  "gx points j \<equiv> gf_of (fst (points ! j))"

lemma num_den_fold:
  fixes i :: nat
  assumes "distinct js"
  shows "(case foldl (\<lambda>(num, den) j. if i = j then (num, den) else (gmul num (p j), gmul den (q j))) (a, b) js of
      (num, den) \<Rightarrow> gf_of num = gf_of a * (\<Prod>j\<in>set js - {i}. gf_of (p j)) \<and> gf_of den = gf_of b * (\<Prod>j\<in>set js - {i}. gf_of (q j)))"
  using assms
proof (induction js arbitrary: a b)
  case (Cons j js)
  show ?case
  proof (cases "i = j")
    case True
    with Cons show ?thesis by simp
  next
    case False
    with Cons.prems have "set (j # js) - {i} = insert j (set js - {i})" "j \<notin> set js - {i}" by auto
    with Cons.IH [of "gmul a (p j)" "gmul b (q j)"] Cons.prems False show ?thesis
      by (simp add: gf_simps mult.assoc split: prod.splits)
  qed
qed simp

lemma num_den_gf:
  assumes "num_den points i = (num, den)"
  shows "gf_of num = (\<Prod>j\<in>{..<length points} - {i}. gx points j)"
    and "gf_of den = (\<Prod>j\<in>{..<length points} - {i}. (gx points i - gx points j))"
  using num_den_fold [where js = "[0..<length points]" and i = i and p = "\<lambda>j. fst (points ! j)" and q = "\<lambda>j. fst (points ! i) XOR fst (points ! j)" and a = 1 and b = 1] assms
  by (simp_all add: num_den_def gf_simps gf_minus atLeast0LessThan)

section \<open>Putting the shares together gives the secret back\<close>

abbreviation weight :: "(byte \<times> byte list) list \<Rightarrow> nat \<Rightarrow> gf" where
  "weight points i \<equiv> (\<Prod>j\<in>{..<length points} - {i}. (0 - gx points j)) / (\<Prod>j\<in>{..<length points} - {i}. (gx points i - gx points j))"

lemma point_ne:
  assumes "distinct (map fst points)" "i < length points" "j < length points" "i \<noteq> j"
  shows "fst (points ! i) \<noteq> fst (points ! j)"
  using assms by (metis length_map nth_eq_iff_index_eq nth_map)

lemma combine_steps:
  assumes "\<And>i. i \<in> set is \<Longrightarrow> i < length points \<and> b < length (snd (points ! i))"
    and "distinct (map fst points)"
  shows "\<exists>v. efold (combine_step points b) acc is = Inr v \<and>
    gf_of v = gf_of acc + (\<Sum>i\<leftarrow>is. gf_of (snd (points ! i) ! b) * weight points i)"
  using assms(1)
proof (induction "is" arbitrary: acc)
  case (Cons i "is")
  obtain num den where nd: "num_den points i = (num, den)" by fastforce
  note prods = num_den_gf [OF nd]
  have i: "i < length points" "b < length (snd (points ! i))" using Cons.prems [of i] by simp_all
  then have "gf_of den \<noteq> 0" unfolding prods using point_ne [OF assms(2) i(1)] by fastforce
  then obtain v where v: "ginv den = Inr v" "gf_of v = inverse (gf_of den)" using ginv_gf [of den] by auto
  define acc' where "acc' = acc XOR gmul (snd (points ! i) ! b) (gmul num v)"
  have step: "combine_step points b acc i = Inr acc'"
    using i(2) by (simp add: combine_step_def nd byte_at_def v acc'_def)
  have "gf_of acc' = gf_of acc + gf_of (snd (points ! i) ! b) * weight points i"
    by (simp add: acc'_def gf_simps v(2) prods divide_inverse gf_minus)
  with Cons.IH [of acc'] Cons.prems step show ?case by (simp add: add.assoc)
qed simp


text \<open>A byte of the polynomials' value at 0 comes back from enough of the points.\<close>

lemma combine_byte_reconstructs:
  assumes points: "distinct (map fst points)" "\<And>i. i < length points \<Longrightarrow> b < length (snd (points ! i))"
    and poly: "\<And>i. i < length points \<Longrightarrow> snd (points ! i) ! b = eval_poly cs (fst (points ! i))"
    and short: "length cs \<le> length points"
  shows "combine_byte points b = Inr (eval_poly cs 0)"
proof -
  let ?f = "\<lambda>x. gf_of (eval_poly cs (byte_of x))"
  let ?n = "length points"
  have "inj_on (gx points) {..<?n}"
    by (rule inj_onI) (metis gf_of_eq lessThan_iff point_ne [OF points(1)])
  with polyfun_le [OF polyfun_eval short]
  have "?f 0 = (\<Sum>i<?n. ?f (gx points i) * weight points i)"
    using lagrange [of "{..<?n}" ?f "gx points" 0] by simp
  also have "... = (\<Sum>i<?n. gf_of (snd (points ! i) ! b) * weight points i)"
    by (rule sum.cong) (simp_all add: poly)
  also have "... = (\<Sum>i\<leftarrow>[0..<?n]. gf_of (snd (points ! i) ! b) * weight points i)"
    by (simp add: interv_sum_list_conv_sum_set_nat atLeast0LessThan)
  finally have "?f 0 = (\<Sum>i\<leftarrow>[0..<?n]. gf_of (snd (points ! i) ! b) * weight points i)" .
  moreover obtain v where "combine_byte points b = Inr v"
    "gf_of v = gf_of 0 + (\<Sum>i\<leftarrow>[0..<?n]. gf_of (snd (points ! i) ! b) * weight points i)"
    using combine_steps [of "[0..<?n]" points b 0] points by (auto simp: combine_byte_def)
  ultimately show ?thesis by (simp add: gf_simps(1) byte_of_zero) (metis gf_of_eq)
qed

lemma combine_shares:
  assumes "distinct xs" "xs \<noteq> []" "\<forall>cs \<in> set polys. cs \<noteq> [] \<and> length cs \<le> length xs"
  shows "combine (map (share_of_bytes polys) xs) = Inr (map hd polys)"
proof -
  let ?points = "map (share_of_bytes polys) xs"
  obtain x xs' where xs: "xs = x # xs'" using assms(2) by (cases xs) auto
  have "map fst ?points = xs" by (simp add: share_of_bytes_def o_def)
  moreover have "combine_byte ?points b = Inr (hd (polys ! b))" if "b < length polys" for b
  proof -
    from that have "polys ! b \<in> set polys" by simp
    with assms(3) have cs: "polys ! b \<noteq> []" "length (polys ! b) \<le> length ?points" by auto
    show ?thesis
      using combine_byte_reconstructs [of ?points b "polys ! b"] cs that assms(1)
      by (simp add: share_of_bytes_def o_def eval_poly_at_0)
  qed
  moreover have "emap f [0..<length ys] = Inr (map g ys)" if "\<And>b. b < length ys \<Longrightarrow> f b = Inr (g (ys ! b))" for f g and ys :: "byte list list"
    using that by (simp add: emap_Inr_iff list_all2_conv_all_nth)
  ultimately have "emap (combine_byte ?points) [0..<length polys] = Inr (map hd polys)" by blast
  then show ?thesis by (simp add: combine_def xs share_of_bytes_def)
qed

text \<open>C33. The shares of any distinct points, as many of them as the polynomials have
  coefficients, are put together into the secret bytes, whatever the coefficients and in whatever order.\<close>

theorem shamir_reconstructs:
  assumes "distinct xs" "xs \<noteq> []" "\<forall>cs \<in> set polys. cs \<noteq> [] \<and> length cs \<le> length xs"
  shows "combine (map (share_of_bytes polys) xs) = Inr (map hd polys)"
  using assms by (rule combine_shares)

lemma shamir_reconstructs_witness:
  "combine (map (share_of_bytes [[42, 7, 91], [255, 36]]) [5, 1, 3]) = Inr [42, 255]"
  by (subst shamir_reconstructs) simp_all

text \<open>C34. Fewer shares than coefficients say nothing of the secret: for every byte there are
  as many coefficients with that byte as their secret that give the same shares at these points.\<close>

theorem shamir_secrecy:
  assumes "distinct xs" "0 \<notin> set xs" "length xs < length cs"
  shows "\<exists>cs'. length cs' = length cs \<and> eval_poly cs' 0 = s \<and> (\<forall>x \<in> set xs. eval_poly cs' x = eval_poly cs x)"
proof -
  let ?f = "\<lambda>x. gf_of (eval_poly cs (byte_of x))"
  let ?P = "\<lambda>z. \<Prod>x\<in>set xs. (z - gf_of x)"
  define k where "k = (gf_of s - ?f 0) / ?P 0"
  have "?P 0 \<noteq> 0" using assms(2) by (auto simp: gf_minus)
  then have k: "k * ?P 0 = gf_of s - ?f 0" by (simp add: k_def)
  have "Suc (card (set xs)) \<le> length cs" using assms(1,3) by (simp add: distinct_card)
  with polyfun_prod [of "set xs" gf_of] have "polyfun (length cs) ?P" by (auto intro: polyfun_le)
  from polyfun_add [OF polyfun_eval polyfun_scale [OF this, of k]]
  obtain cs' where cs': "length cs' = length cs" "\<forall>x. eval_poly cs' x = byte_of (?f (gf_of x) + k * ?P (gf_of x))"
    using eval_polyfun by blast
  have "eval_poly cs' 0 = byte_of (?f 0 + k * ?P 0)" using cs'(2) by (simp add: gf_simps(1) byte_of_zero)
  then have "eval_poly cs' 0 = s" by (simp only: k) simp
  moreover have "eval_poly cs' x = eval_poly cs x" if "x \<in> set xs" for x
  proof -
    from that have "?P (gf_of x) = 0" by auto
    then have "eval_poly cs' x = byte_of (?f (gf_of x) + k * 0)" using cs'(2) by (simp only:)
    then show ?thesis by simp
  qed
  ultimately show ?thesis using cs'(1) by blast
qed


lemma shamir_secrecy_witness:
  "\<exists>cs'. length cs' = 3 \<and> eval_poly cs' 0 = 200 \<and> (\<forall>x \<in> {1, 2}. eval_poly cs' x = eval_poly [42, 7, 91] x)"
  using shamir_secrecy [of "[1, 2]" "[42, 7, 91]" 200] by (simp add: numeral_3_eq_3)

section \<open>The script passes its own checks\<close>

lemma combinations_map: "combinations (map f xs) r = map (map f) (combinations xs r)"
  by (induction xs r rule: combinations.induct) simp_all

lemma combinations_subseq: "ys \<in> set (combinations xs r) \<Longrightarrow> subseq ys xs \<and> length ys = r"
  by (induction xs r arbitrary: ys rule: combinations.induct) auto

lemma shares_of: "SHAMIR_SHARES = map (share_of_bytes SHAMIR_COEFFS) [1, 2, 3, 4, 5]"
  by (simp add: SHAMIR_SHARES_def SHAMIR_N_def upt_rec)

lemma coeffs_of: "cs \<in> set SHAMIR_COEFFS \<Longrightarrow> cs \<noteq> [] \<and> length cs = 3"
  by (auto simp: SHAMIR_COEFFS_def)

lemma secret_of: "map hd SHAMIR_COEFFS = SHAMIR_SECRET"
  by (simp add: SHAMIR_COEFFS_def o_def map_nth)

lemma ginv_eq:
  assumes "gmul a v = 1"
  shows "ginv a = Inr v"
proof -
  from assms have "a \<noteq> 0" by auto
  then obtain w where w: "ginv a = Inr w" "gmul a w = 1" by (rule ginv_inverse)
  then have "w = v" by (metis assms gmul_assoc gmul_commute gmul_one)
  with w(1) show ?thesis by simp
qed

text \<open>Two shares of three: the first byte comes out wrong.\<close>

lemma two_shares: "take 2 SHAMIR_SHARES = [share_of_bytes SHAMIR_COEFFS 1, share_of_bytes SHAMIR_COEFFS 2]"
  by (simp add: shares_of)

lemma first_bytes:
  "snd (share_of_bytes SHAMIR_COEFFS 1) ! 0 = 92" "snd (share_of_bytes SHAMIR_COEFFS 2) ! 0 = 121"
proof -
  have first: "SHAMIR_COEFFS ! 0 = [0, 7, 91]" by (simp add: SHAMIR_COEFFS_def SHAMIR_SECRET_def)
  have len: "0 < length SHAMIR_COEFFS" by (simp add: SHAMIR_COEFFS_def SHAMIR_SECRET_def)
  have "gmul (gmul 91 2 XOR 7) 2 = 121" by code_simp
  with first len show "snd (share_of_bytes SHAMIR_COEFFS 1) ! 0 = 92" "snd (share_of_bytes SHAMIR_COEFFS 2) ! 0 = 121"
    by (simp_all add: share_of_bytes_def)
qed

lemma two_shares_fail: "combine_byte (take 2 SHAMIR_SHARES) 0 = Inr 182"
proof -
  let ?p = "[share_of_bytes SHAMIR_COEFFS 1, share_of_bytes SHAMIR_COEFFS 2]"
  have fsts: "fst (share_of_bytes SHAMIR_COEFFS x) = x" for x by (simp add: share_of_bytes_def)
  have "length (snd (share_of_bytes SHAMIR_COEFFS x)) = 16" for x
    by (simp add: share_of_bytes_def SHAMIR_COEFFS_def SHAMIR_SECRET_def)
  then have bytes: "byte_at (snd (share_of_bytes SHAMIR_COEFFS 1)) 0 = Inr 92" "byte_at (snd (share_of_bytes SHAMIR_COEFFS 2)) 0 = Inr 121"
    by (simp_all only: byte_at_def first_bytes) simp_all
  have nd: "num_den ?p 0 = (2, 3)" "num_den ?p 1 = (1, 3)"
    by (simp_all add: num_den_def fsts)
  have "gmul 3 246 = 1" by code_simp
  then have "ginv 3 = Inr 246" by (rule ginv_eq)
  moreover have "gmul 92 (gmul 2 246) = 104" "gmul 121 246 = 222" by code_simp+
  moreover have "[0..<length ?p] = [0, 1]" by (simp add: upt_rec)
  ultimately show ?thesis
    unfolding two_shares combine_byte_def
    by (simp only: efold.simps combine_step_def nd prod.case) (simp add: bytes [unfolded One_nat_def])
qed

lemma shares_combine:
  assumes "set points \<subseteq> set SHAMIR_SHARES" "distinct (map fst points)" "points \<noteq> []"
  shows "\<exists>s. combine points = Inr s \<and> list_all2 (\<lambda>b v. combine_byte points b = Inr v) [0..<16] s"
proof -
  have len: "length (snd p) = 16" if "p \<in> set points" for p
    using that assms(1) by (auto simp: shares_of share_of_bytes_def SHAMIR_COEFFS_def SHAMIR_SECRET_def)
  have "is_ok (combine_byte points b)" if "b < 16" for b
  proof -
    have "i < length points \<and> b < length (snd (points ! i))" if "i \<in> set [0..<length points]" for i
      using that \<open>b < 16\<close> len [of "points ! i"] by simp
    from combine_steps [of "[0..<length points]", OF this assms(2), where acc = 0]
    show ?thesis unfolding combine_byte_def is_ok_iff by blast
  qed
  then have "is_ok (emap (combine_byte points) [0..<16])" by (simp add: emap_ok)
  moreover from assms(3) len have "combine points = emap (combine_byte points) [0..<16]"
    by (cases points) (simp_all add: combine_def)
  ultimately show ?thesis by (auto simp: is_ok_iff emap_Inr_iff)
qed

lemma subsets_pass: "efor check_subset (combinations SHAMIR_SHARES SHAMIR_K) = Inr ()"
proof -
  have "check_subset sub = Inr ()" if "sub \<in> set (combinations SHAMIR_SHARES SHAMIR_K)" for sub
  proof -
    from that obtain xs where xs: "sub = map (share_of_bytes SHAMIR_COEFFS) xs" "xs \<in> set (combinations [1, 2, 3, 4, 5] 3)"
      unfolding shares_of SHAMIR_K_def combinations_map by auto
    from combinations_subseq [OF xs(2)] have "subseq xs [1, 2, 3, 4, 5]" "length xs = 3" by simp_all
    moreover from this(1) obtain N where "xs = nths [1, 2, 3, 4, 5] N" by (auto simp: subseq_conv_nths)
    then have "distinct xs" by (simp only: distinct_nthsI) simp
    ultimately have "combine sub = Inr SHAMIR_SECRET"
      using combine_shares [of xs SHAMIR_COEFFS] coeffs_of by (fastforce simp: xs(1) secret_of)
    then show ?thesis by (simp add: check_subset_def assert_that_def)
  qed
  then show ?thesis by (simp add: efor_Inr)
qed

lemma two_not_enough: "\<exists>s. combine (take 2 SHAMIR_SHARES) = Inr s \<and> s \<noteq> SHAMIR_SECRET"
proof -
  have "distinct (map fst (take 2 SHAMIR_SHARES))" by (simp add: two_shares share_of_bytes_def)
  moreover have "take 2 SHAMIR_SHARES \<noteq> []" by (simp add: two_shares)
  ultimately obtain s where s: "combine (take 2 SHAMIR_SHARES) = Inr s"
      "list_all2 (\<lambda>b v. combine_byte (take 2 SHAMIR_SHARES) b = Inr v) [0..<16] s"
    using shares_combine [OF set_take_subset] by blast
  then have "combine_byte (take 2 SHAMIR_SHARES) 0 = Inr (s ! 0)" by (auto simp: list_all2_conv_all_nth)
  then have "s ! 0 = 182" by (simp add: two_shares_fail)
  moreover have "SHAMIR_SECRET ! 0 = 0" by (simp add: SHAMIR_SECRET_def)
  ultimately have "s \<noteq> SHAMIR_SECRET" by auto
  with s(1) show ?thesis by blast
qed

lemma field_checks: "gmul 0x57 0x83 = 0xC1 \<and> gmul 0x57 0x13 = 0xFE \<and> gmul 0x53 0xCA = 0x01"
  by (intro conjI; code_simp)

lemma shamir_main_passes:
  "shamir_main = Inr (map share_line SHAMIR_SHARES @ [''secret : '' @ join_str '', '' (map hex_byte SHAMIR_SECRET), ''OK''])"
proof -
  have fields: "assert_that (gmul 0x57 0x83 = 0xC1 \<and> gmul 0x57 0x13 = 0xFE \<and> gmul 0x53 0xCA = 0x01) [] = Inr ()"
    by (simp only: assert_that_Inr field_checks)
  from two_not_enough obtain s where s: "combine (take 2 SHAMIR_SHARES) = Inr s" "s \<noteq> SHAMIR_SECRET" by blast
  then have "ebind (combine (take 2 SHAMIR_SHARES)) (\<lambda>secret. assert_that (secret \<noteq> SHAMIR_SECRET) []) = Inr ()" by simp
  with fields subsets_pass show ?thesis unfolding shamir_main_def by (simp only: ebind_simps)
qed

section \<open>Two points at the same place\<close>

lemma combine_byte_repeated:
  assumes "\<not> distinct (map fst points)" "\<And>p. p \<in> set points \<Longrightarrow> b < length (snd p)"
  shows "combine_byte points b = Inl (ValueError [])"
proof -
  obtain i j where ij: "i < length points" "j < length points" "i \<noteq> j" "fst (points ! i) = fst (points ! j)"
    using assms(1) by (auto simp: distinct_conv_nth)
  have only: "(\<exists>v. combine_step points b acc k = Inr v) \<or> combine_step points b acc k = Inl (ValueError [])"
    if "k < length points" for k acc
  proof -
    obtain num den where nd: "num_den points k = (num, den)" by fastforce
    have "b < length (snd (points ! k))" using assms(2) that by simp
    with nd show ?thesis
      by (cases "den = 0") (auto simp: combine_step_def byte_at_def ginv_zero dest: ginv_gf)
  qed
  have fails: "combine_step points b acc i = Inl (ValueError [])" for acc
  proof -
    obtain num den where nd: "num_den points i = (num, den)" by fastforce
    have "gf_of den = 0" unfolding num_den_gf(2) [OF nd] using ij by auto
    then have "den = 0" by simp
    moreover have "b < length (snd (points ! i))" using assms(2) ij(1) by simp
    ultimately show ?thesis using nd by (simp add: combine_step_def byte_at_def ginv_zero)
  qed
  have "efold (combine_step points b) acc is = Inl (ValueError [])" if "i \<in> set is" "set is \<subseteq> {..<length points}" for "is" acc
    using that
  proof (induction "is" arbitrary: acc)
    case (Cons k "is")
    then show ?case using only [of k acc] fails [of acc] by (cases "i = k") auto
  qed simp
  from this [of "[0..<length points]" 0] ij(1) show ?thesis by (simp add: combine_byte_def atLeast0LessThan)
qed

text \<open>Two points at the same x never give a secret: the inverse of their distance
  0 is not found, and \<open>combine\<close> stops with the \<open>ValueError\<close> of \<open>ginv\<close>.\<close>

theorem shamir_repeated_point:
  assumes "\<not> distinct (map fst points)" "\<forall>p \<in> set points. length (snd p) = Suc n"
  shows "combine points = Inl (ValueError [])"
proof -
  from assms(1) obtain p points' where points: "points = p # points'" by (cases points) auto
  have "combine_byte points 0 = Inl (ValueError [])"
    by (rule combine_byte_repeated [OF assms(1)]) (simp add: assms(2))
  moreover have "[0..<Suc n] = 0 # [1..<Suc n]" by (simp add: upt_conv_Cons)
  ultimately show ?thesis using assms(2) by (simp add: combine_def points)
qed

lemma shamir_repeated_point_witness: "combine [(3, [1, 2]), (4, [0, 9]), (3, [7, 7])] = Inl (ValueError [])"
  by (rule shamir_repeated_point [where n = 1]) simp_all

end
