(* ===== verification/Sha256.thy ===== *)
theory Sha256
  imports Blake2b
begin

text \<open>
  \<open>hashlib.sha256(...).hexdigest()\<close> as \<open>design_match.py\<close> uses it: SHA-256 (FIPS 180-4) on bytes, with words
  of 32 bits that wrap around.
\<close>

unbundle bit_operations_syntax

type_synonym w32 = "32 word"

definition SHA_INIT :: "w32 list" where
  "SHA_INIT =
     [0x6A09E667, 0xBB67AE85, 0x3C6EF372, 0xA54FF53A, 0x510E527F, 0x9B05688C, 0x1F83D9AB, 0x5BE0CD19]"

definition SHA_ROUND :: "w32 list" where
  "SHA_ROUND =
     [0x428A2F98, 0x71374491, 0xB5C0FBCF, 0xE9B5DBA5, 0x3956C25B, 0x59F111F1, 0x923F82A4, 0xAB1C5ED5,
      0xD807AA98, 0x12835B01, 0x243185BE, 0x550C7DC3, 0x72BE5D74, 0x80DEB1FE, 0x9BDC06A7, 0xC19BF174,
      0xE49B69C1, 0xEFBE4786, 0x0FC19DC6, 0x240CA1CC, 0x2DE92C6F, 0x4A7484AA, 0x5CB0A9DC, 0x76F988DA,
      0x983E5152, 0xA831C66D, 0xB00327C8, 0xBF597FC7, 0xC6E00BF3, 0xD5A79147, 0x06CA6351, 0x14292967,
      0x27B70A85, 0x2E1B2138, 0x4D2C6DFC, 0x53380D13, 0x650A7354, 0x766A0ABB, 0x81C2C92E, 0x92722C85,
      0xA2BFE8A1, 0xA81A664B, 0xC24B8B70, 0xC76C51A3, 0xD192E819, 0xD6990624, 0xF40E3585, 0x106AA070,
      0x19A4C116, 0x1E376C08, 0x2748774C, 0x34B0BCB5, 0x391C0CB3, 0x4ED8AA4A, 0x5B9CCA4F, 0x682E6FF3,
      0x748F82EE, 0x78A5636F, 0x84C87814, 0x8CC70208, 0x90BEFFFA, 0xA4506CEB, 0xBEF9A3F7, 0xC67178F2]"

definition rotr32 :: "nat \<Rightarrow> w32 \<Rightarrow> w32" where
  "rotr32 n w = (drop_bit n w OR push_bit (32 - n) w)"

definition word_of_bytes :: "nat list \<Rightarrow> w32" where
  "word_of_bytes bs = word_of_nat (foldl (\<lambda>n b. 256 * n + b) 0 bs)"

text \<open>The schedule of a block: each word from four of those before it.\<close>

fun schedule :: "nat \<Rightarrow> w32 list \<Rightarrow> w32 list" where
  "schedule 0 ws = ws"
| "schedule (Suc n) ws =
     (let k = length ws; x = ws ! (k - 15); y = ws ! (k - 2);
          s0 = rotr32 7 x XOR rotr32 18 x XOR drop_bit 3 x;
          s1 = rotr32 17 y XOR rotr32 19 y XOR drop_bit 10 y
      in schedule n (ws @ [ws ! (k - 16) + s0 + ws ! (k - 7) + s1]))"

definition sha_round :: "w32 list \<Rightarrow> w32 \<times> w32 \<Rightarrow> w32 list" where
  "sha_round v kw =
     (case (v, kw) of
        ([a, b, c, d, e, f, g, h], (k, w)) \<Rightarrow>
          let s1 = rotr32 6 e XOR rotr32 11 e XOR rotr32 25 e;
              ch = (e AND f) XOR (NOT e AND g);
              t1 = h + s1 + ch + k + w;
              s0 = rotr32 2 a XOR rotr32 13 a XOR rotr32 22 a;
              maj = (a AND b) XOR (a AND c) XOR (b AND c)
          in [t1 + (s0 + maj), a, b, c, d + t1, e, f, g]
      | _ \<Rightarrow> v)"

definition sha_block :: "w32 list \<Rightarrow> nat list \<Rightarrow> w32 list" where
  "sha_block h bs =
     (let ws = schedule 48 (map (\<lambda>i. word_of_bytes (take 4 (drop (4 * i) bs))) [0..<16])
      in map2 (+) h (foldl sha_round h (zip SHA_ROUND ws)))"

text \<open>A bit 1, zeros up to 56 bytes of a block, and the length in bits.\<close>

definition sha_padded :: "nat list \<Rightarrow> nat list" where
  "sha_padded bs =
     (let n = length bs; z = (119 - n mod 64) mod 64
      in bs @ [0x80] @ replicate z 0 @ map (\<lambda>i. (8 * n) div 256 ^ (7 - i) mod 256) [0..<8])"

function sha_blocks :: "w32 list \<Rightarrow> nat list \<Rightarrow> w32 list" where
  "sha_blocks h bs = (if bs = [] then h else sha_blocks (sha_block h (take 64 bs)) (drop 64 bs))"
  by pat_completeness auto
termination
  by (relation "measure (\<lambda>(h, bs). length bs)") auto

declare sha_blocks.simps [simp del]

definition hex32 :: "w32 \<Rightarrow> string" where
  "hex32 w = concat (map (\<lambda>i. let b = unat (drop_bit (24 - 8 * i) w AND 0xFF) in [hex_digit (b div 16), hex_digit (b mod 16)]) [0..<4])"

definition sha256 :: "string \<Rightarrow> string" where
  "sha256 s = concat (map hex32 (sha_blocks SHA_INIT (sha_padded (map of_char s))))"

end
