(* ===== verification/Design_Match.thy ===== *)
theory Design_Match
  imports Sha256 Json Disk Html
begin

text \<open>
  \<open>scripts/design_match.py\<close>: the frames of the design canvases, their index by screen, and the stamp of a
  screen's record.  The repository's folder is a parameter; files are those of \<open>disk\<close>, and a folder is there when it
  holds a file.  From outside come Chrome, which turns a page into a picture or fails, and \<open>html.unescape\<close> with
  its table of names.
\<close>

abbreviation ob :: string where "ob \<equiv> [CHR 0x7B]"
abbreviation cb :: string where "cb \<equiv> [CHR 0x7D]"

record tools =
  unescape :: "string \<Rightarrow> string"
  chrome_there :: bool
  shot :: "string \<Rightarrow> nat \<times> nat \<times> nat \<Rightarrow> string option"   \<comment> \<open>a page, its width, height and scale; the picture\<close>

definition die :: "string \<Rightarrow> error + 'a" where
  "die msg = Inl (SystemExit (''design_match: '' @ msg))"

section \<open>Paths\<close>

definition MATCH_MIRROR :: "string \<Rightarrow> string" where "MATCH_MIRROR rt = path_join (path_join rt ''design'') ''canvas-mirror''"
definition PARTIALS :: "string \<Rightarrow> string" where "PARTIALS rt = path_join (MATCH_MIRROR rt) ''partials''"
definition MATCH :: "string \<Rightarrow> string" where "MATCH rt = path_join (path_join rt ''design'') ''match''"
definition INDEX :: "string \<Rightarrow> string" where "INDEX rt = path_join (MATCH rt) ''canvas-index.json''"
definition OUT :: "string \<Rightarrow> string" where "OUT rt = path_join (path_join rt ''build'') ''design_match''"
definition APP_CAPTURES :: "string \<Rightarrow> string" where "APP_CAPTURES rt = path_join rt ''app/build/design_match/app''"
definition FONTS :: "string \<Rightarrow> string" where "FONTS rt = path_join rt ''app/assets/fonts''"
definition CHROME :: string where "CHROME = ''/Applications/Google Chrome.app/Contents/MacOS/Google Chrome''"

definition is_file :: "disk \<Rightarrow> string \<Rightarrow> bool" where
  "is_file d f = (map_of (files d) f \<noteq> None)"

definition is_dir :: "disk \<Rightarrow> string \<Rightarrow> bool" where
  "is_dir d p = list_ex (\<lambda>e. starts_with (p @ ''/'') (fst e)) (files d)"

text \<open>\<open>sorted(glob.glob(dir/pre*suf))\<close>, \<open>os.path.basename\<close> and \<open>os.path.relpath\<close> under the repository.\<close>

definition glob_star :: "string \<Rightarrow> string \<Rightarrow> string \<Rightarrow> disk \<Rightarrow> string list" where
  "glob_star dir pre suf d =
     sort (filter (\<lambda>f. starts_with (dir @ ''/'' @ pre) f
         \<and> (let r = drop (length dir + 1 + length pre) f in ends_with suf r \<and> CHR ''/'' \<notin> set r \<and> (pre = [] \<longrightarrow> take 1 r \<noteq> ''.'')))
       (map fst (files d)))"

definition basename :: "string \<Rightarrow> string" where
  "basename f = rev (takeWhile (\<lambda>c. c \<noteq> CHR ''/'') (rev f))"

definition relpath :: "string \<Rightarrow> string \<Rightarrow> string" where
  "relpath rt f = drop (length rt + 1) f"

definition read_utf8 :: "disk \<Rightarrow> string \<Rightarrow> error + string" where
  "read_utf8 d f = (case map_of (files d) f of None \<Rightarrow> Inl (FileNotFoundError f) | Some t \<Rightarrow> decoded t)"

definition read_json :: "disk \<Rightarrow> string \<Rightarrow> error + json" where
  "read_json d f = ebind (read_utf8 d f) (\<lambda>t. case loads t of None \<Rightarrow> Inl (ValueError ''json'') | Some j \<Rightarrow> Inr j)"

definition need_mirror :: "string \<Rightarrow> disk \<Rightarrow> error + unit" where
  "need_mirror rt d =
     (if is_dir d (PARTIALS rt) then Inr ()
      else die (''design/canvas-mirror/partials is missing '' @ u_emdash @ '' run /design-pull first (the mirror is git-ignored)''))"

section \<open>From design ids to doc ids\<close>

text \<open>One part of a token: \<open>b\<close> after \<open>O7a\<close> is \<open>O7b\<close>, \<open>R2.2(+b)\<close> is two ids, \<open>O6a-c\<close> three.\<close>

definition expand_part :: "string list \<Rightarrow> string \<Rightarrow> string list" where
  "expand_part out part =
     (let part = strip part;
          part = (if matches (Seq [Cls (between CHR ''a'' CHR ''z''), Eol]) part \<and> out \<noteq> [] then re_sub (Seq [Cls (between CHR ''a'' CHR ''z''), Eol]) (\<lambda>_. part) (last out) else part)
      in case re_match (Seq [Bol, Grp 1 (Few (Cls any_char)), Lit ''(+'', Grp 2 (Cls word_char), Lit '')'', Eol]) part of
           Some g \<Rightarrow> out @ [grp g 1, grp g 1 @ grp g 2]
         | None \<Rightarrow>
             (case re_match (Seq [Bol, Grp 1 (Few (Cls any_char)), Grp 2 (Cls (between CHR ''a'' CHR ''z'')), Lit u_endash, Grp 3 (Cls (between CHR ''a'' CHR ''z'')), Eol]) part of
                Some g \<Rightarrow> out @ map (\<lambda>n. grp g 1 @ [char_of n]) [of_char (hd (grp g 2))..<of_char (hd (grp g 3)) + 1]
              | None \<Rightarrow> out @ [part]))"

definition expand :: "string \<Rightarrow> string list" where
  "expand token = filter (\<lambda>s. s \<noteq> []) (foldl expand_part [] (split_on CHR ''/'' token))"

definition any_text :: rx where   \<comment> \<open>\<open>.*?\<close> of a pattern with \<open>re.S\<close>\<close>
  "any_text = Few (Cls (\<lambda>_. True))"

definition MAP_SECTION :: rx where
  "MAP_SECTION = Seq [Lit (''### 3.3 Design '' @ [CHR 0xE2, CHR 0x86, CHR 0x94] @ '' doc id map''), any_text, Lit [nl], Grp 1 (Cat (Lit ''|'') any_text), Alt (Lit [nl, nl]) (Lit [nl, CHR ''#''])]"

definition strip_of :: "char \<Rightarrow> string \<Rightarrow> string" where
  "strip_of c s = rev (dropWhile (\<lambda>x. x = c) (rev (dropWhile (\<lambda>x. x = c) s)))"

definition add_aliases :: "string \<Rightarrow> string dict \<Rightarrow> string \<Rightarrow> string dict" where
  "add_aliases doc alias token = foldl (\<lambda>a e. AList.update e doc a) alias (expand token)"

definition alias_row :: "string dict \<Rightarrow> string \<Rightarrow> string dict" where
  "alias_row alias row =
     (let cells = map strip (split_on CHR ''|'' (strip_of CHR ''|'' (strip row)))
      in if length cells < 2 \<or> cells ! 1 \<in> set [u_emdash, []] then alias
         else let designs = map strip (split_sub u_middot (cells ! 0)); docs = map strip (split_sub u_middot (cells ! 1))
              in if length docs = 1 then foldl (add_aliases (docs ! 0)) alias designs
                 else if length designs = length docs then foldl (\<lambda>a (t, s). add_aliases s a t) alias (zip designs docs)
                 else alias)"

definition aliases_in :: "string \<Rightarrow> error + string dict" where
  "aliases_in txt =
     (case re_search MAP_SECTION txt of
        None \<Rightarrow> die (''13 '' @ [CHR 0xC2, CHR 0xA7] @ ''3.3 (Design '' @ [CHR 0xE2, CHR 0x86, CHR 0x94] @ '' doc id map) not found '' @
       u_emdash @ '' the alias table moved'')
      | Some g \<Rightarrow> Inr (foldl alias_row [] (drop 2 (file_lines (grp g 1)))))"

definition design_aliases :: "string \<Rightarrow> disk \<Rightarrow> error + string dict" where
  "design_aliases rt d = ebind (read_utf8 d (path_join (path_join rt ''docs'') ''13-ux-architecture.md'')) aliases_in"

definition first_word :: "string \<Rightarrow> string" where   \<comment> \<open>\<open>s.split(" ")[0]\<close>\<close>
  "first_word s = hd (split_on CHR '' '' s)"

definition doc_id :: "string \<Rightarrow> string dict \<Rightarrow> string option" where
  "doc_id did alias =
     (let w = first_word (strip did)
      in case map_of alias w of
           Some s \<Rightarrow> Some s
         | None \<Rightarrow>
             (case (if matches (Seq [Many (Cls any_char), Cls is_digit, Cls (between CHR ''b'' CHR ''z''), Eol]) w then map_of alias (butlast w) else None) of
                Some s \<Rightarrow> Some s
              | None \<Rightarrow> map_option (\<lambda>g. grp g 1) (re_match (Seq [Bol, Grp 1 (Seq [Lit ''S'', Some_of (Cls is_digit), Opt (Seq [Lit ''.'', Some_of (Cls is_digit), Many (Cls (\<lambda>x. between CHR ''a'' CHR ''z'' x \<or> between CHR ''0'' CHR ''9'' x))])])]) w)))"

section \<open>Frames of the partials\<close>

text \<open>A frame: its canvas, design id, caption and content.\<close>

type_synonym frame_row = "string \<times> string \<times> string \<times> string"

definition is_div :: "string \<Rightarrow> bool" where
  "is_div h = starts_with ''<div'' (lstrip h)"

definition english :: "json \<Rightarrow> json" where
  "english x = (case x of JObj ps \<Rightarrow> get_key ''en'' ps | _ \<Rightarrow> x)"

definition frame_head :: "string \<Rightarrow> json list \<Rightarrow> frame_row option" where
  "frame_head canvas xs =
     (case xs of
        JStr did # JStr cap # x # _ \<Rightarrow> (case english x of JStr h \<Rightarrow> if is_div h then Some (canvas, did, cap, h) else None | _ \<Rightarrow> None)
      | _ \<Rightarrow> None)"

fun frames_in :: "string \<Rightarrow> json \<Rightarrow> frame_row list" where
  "frames_in canvas (JArr xs) = (case frame_head canvas xs of Some fr \<Rightarrow> [fr] | None \<Rightarrow> concat (map (frames_in canvas) xs))"
| "frames_in canvas (JObj ps) = concat (map (\<lambda>(k, v). frames_in canvas v) ps)"
| "frames_in canvas _ = []"

definition need_group :: "groups option \<Rightarrow> error + string" where   \<comment> \<open>\<open>m.group(1)\<close> of a match that may be \<open>None\<close>\<close>
  "need_group m = (case m of None \<Rightarrow> Inl (AttributeError ''group'') | Some g \<Rightarrow> Inr (grp g 1))"

definition canvas_file :: "disk \<Rightarrow> string \<Rightarrow> error + frame_row list" where
  "canvas_file d f =
     ebind (read_json d f) (\<lambda>j.
     ebind (need_group (re_search (Seq [Lit ''canvas'', Grp 1 (Some_of (Cls is_digit))]) f)) (\<lambda>n.
     Inr (frames_in (''c'' @ n) j)))"

definition screens_file :: "disk \<Rightarrow> string \<Rightarrow> error + frame_row list" where
  "screens_file d f =
     ebind (need_group (re_search (Seq [Lit ''new-screens-'', Grp 1 (Cls word_char)]) f)) (\<lambda>n.
     ebind (read_json d f) (\<lambda>j.
     case j of
       JObj ps \<Rightarrow> Inr (concat (map (\<lambda>(k, v). case v of JStr h \<Rightarrow> if is_div h then [(''n'' @ n, k, k, h)] else [] | _ \<Rightarrow> []) ps))
     | _ \<Rightarrow> Inl (AttributeError ''items'')))"

section \<open>Frames of the .dc.html sources\<close>

definition DC_HEADER :: rx where
  "DC_HEADER = Cat (Seq [Lit ''<div style=\"font-size:11.5px;font-weight:700;letter-spacing:0.06em;color:#201e1d\">'', Grp 1 (Some_of (Cls (\<lambda>x. x \<notin> set ''<''))), Lit ''</div>'', Many (Cls is_space), Lit ''<div style=\"font-size:12.5px;color:#6b6864\">'', Grp 2 (Many (Cls (\<lambda>x. x \<notin> set ''<''))), Lit ''</div>'', Many (Cls is_space), Lit ''</div>'', Many (Cls is_space)])
     (Ahead (Lit ''<div style=\"width:390px;height:844px''))"

definition DC_PHONE :: rx where
  "DC_PHONE = (Seq [Lit ''<div'', Wbd, Many (Cls (\<lambda>x. x \<notin> set ''>'')), Wbd, Lit ''style=\"width:390px;height:844px'', Many (Cls (\<lambda>x. x \<notin> set ''>'')), Lit ''>''])"

definition DIV_TAG :: rx where
  "DIV_TAG = (Seq [Lit ''<'', Grp 1 (Opt (Lit ''/'')), Lit ''div'', Wbd, Many (Cls (\<lambda>x. x \<notin> set ''>'')), Lit ''>''])"

text \<open>The end of the element whose tags these are: where the depth is 0 again.\<close>

fun depth_zero :: "int \<Rightarrow> (nat \<times> nat \<times> groups) list \<Rightarrow> nat option" where
  "depth_zero n [] = None"
| "depth_zero n ((i, j, g) # ms) =
     (let n = (if grp g 1 \<noteq> [] then n - 1 else n + 1) in if n = 0 then Some j else depth_zero n ms)"

definition slice :: "nat \<Rightarrow> nat \<Rightarrow> string \<Rightarrow> string" where
  "slice i j s = take (j - i) (drop i s)"

definition balanced_div :: "string \<Rightarrow> nat \<Rightarrow> error + string" where
  "balanced_div txt start =
     (case depth_zero 0 (re_finditer DIV_TAG (drop start txt)) of
        None \<Rightarrow> die (''unbalanced <div> at offset '' @ (str_int (int (char_count (take start txt)))))
      | Some j \<Rightarrow> Inr (slice start (start + j) txt))"

definition templated :: "string \<Rightarrow> bool" where
  "templated tag = (contains_sub (ob @ ob) tag \<or> occurs (Seq [Cls is_space, Lit ''sc-'', Some_of (Cls (\<lambda>x. word_char x \<or> x \<in> set ''-'')), Lit ''='']) tag)"

text \<open>The headers of a source, and the offsets of its static phones.\<close>

definition dc_heads :: "string \<Rightarrow> (nat \<times> nat \<times> groups) list" where
  "dc_heads txt = re_finditer DC_HEADER txt"

definition dc_phones :: "string \<Rightarrow> nat list" where
  "dc_phones txt = map fst (filter (\<lambda>(i, j, g). \<not> templated (slice i j txt)) (re_finditer DC_PHONE txt))"

definition dc_vars :: "string \<Rightarrow> string" where
  "dc_vars txt = (case re_search (Seq [Lit ''<div style=\"'', Grp 1 (Seq [Lit ''--bg:'', Many (Cls (\<lambda>x. x \<notin> set ''\"''))]), Lit ''\"'']) txt of
     None \<Rightarrow> [] | Some g \<Rightarrow> rev (dropWhile (\<lambda>c. c = CHR '';'') (rev (rstrip (grp g 1)))))"

definition dc_frame :: "tools \<Rightarrow> string \<Rightarrow> string \<Rightarrow> string \<Rightarrow> nat \<times> nat \<times> groups \<Rightarrow> error + frame_row" where
  "dc_frame tls txt vars canvas head =
     (case head of (i, j, g) \<Rightarrow>
        ebind (balanced_div txt j) (\<lambda>box.
        Inr (canvas, strip (unescape tls (grp g 1)), strip (unescape tls (grp g 2)),
             if vars \<noteq> [] then (''<div style=\"'' @ vars @ ''\">'' @ box @ ''</div>'') else box)))"

definition dc_text_frames :: "tools \<Rightarrow> string \<Rightarrow> string option \<Rightarrow> string \<Rightarrow> error + frame_row list" where
  "dc_text_frames tls txt canvas whr =
     (let heads = dc_heads txt; phones = dc_phones txt; headed = map (\<lambda>(i, j, g). j) heads
      in if sort headed \<noteq> sort phones
         then (let lost = sort (remdups (filter (\<lambda>p. p \<notin> set headed) phones)) in
               die ((whr @ '': '' @ (str_int (int (length phones))) @ '' static 390'' @ u_times @ ''844 phone(s) but '' @ (str_int (int (length heads))) @
       '' `id '' @ u_middot @ '' caption` header(s); '')
                 @ (''phone(s) with no header at offset(s) '' @ (repr_list (\<lambda>p. str_int (int (char_count (take p txt)))) lost) @
       '' '' @ u_emdash @ '' the header markup drifted, fix _DC_HEADER'')))
         else if heads \<noteq> [] \<and> canvas = None
         then die (whr @ '': has '' @ (str_int (int (length heads))) @ '' phone frame(s) but its name is not `Canvas <n> - <title>.dc.html`'')
         else emap (dc_frame tls txt (dc_vars txt) (case canvas of None \<Rightarrow> [] | Some c \<Rightarrow> c)) heads)"

definition dc_file :: "tools \<Rightarrow> disk \<Rightarrow> string \<Rightarrow> error + frame_row list" where
  "dc_file tls d f =
     (let name = take (length (basename f) - 8) (basename f); m = re_match (Seq [Lit ''Canvas '', Grp 1 (Some_of (Cls word_char)), Lit '' - '']) name
      in ebind (read_utf8 d f) (\<lambda>txt.
         dc_text_frames tls txt (map_option (\<lambda>g. ''c'' @ grp g 1) m) (basename f)))"

definition dc_frames :: "tools \<Rightarrow> string \<Rightarrow> disk \<Rightarrow> error + frame_row list" where
  "dc_frames tls mir d = ebind (emap (dc_file tls d) (glob_star mir [] ''.dc.html'' d)) (\<lambda>fs. Inr (concat fs))"

section \<open>All frames, and their keys\<close>

text \<open>The second frame of a canvas with the same id and caption gets \<open>#2\<close>.\<close>

type_synonym keyed = "string \<times> frame_row"

definition frame_base :: "frame_row \<Rightarrow> string" where
  "frame_base fr = (case fr of (canvas, did, cap, h) \<Rightarrow> (canvas @ ''/'' @ did @ ''/'' @ cap))"

fun number_frames :: "nat dict \<Rightarrow> frame_row list \<Rightarrow> keyed list" where
  "number_frames seen [] = []"
| "number_frames seen (fr # frs) =
     (let b = frame_base fr; n = dict_or seen b 0 + 1
      in (if n = 1 then b else (b @ ''#'' @ (str_int (int n))), fr) # number_frames (AList.update b n seen) frs)"

definition all_frames :: "tools \<Rightarrow> string \<Rightarrow> disk \<Rightarrow> error + keyed list" where
  "all_frames tls rt d =
     ebind (need_mirror rt d) (\<lambda>_.
     ebind (emap (canvas_file d) (glob_star (PARTIALS rt) ''canvas'' ''-screens.json'' d)) (\<lambda>cs.
     ebind (emap (screens_file d) (glob_star (PARTIALS rt) ''new-screens-'' ''.json'' d)) (\<lambda>ns.
     ebind (dc_frames tls (MATCH_MIRROR rt) d) (\<lambda>ds.
     Inr (number_frames [] (concat cs @ concat ns @ ds))))))"

definition file_slug :: "string \<Rightarrow> string" where
  "file_slug key = strip_of CHR ''_'' (re_sub (Some_of (Cls (\<lambda>x. \<not> (between CHR ''A'' CHR ''Z'' x \<or> between CHR ''a'' CHR ''z'' x \<or> between CHR ''0'' CHR ''9'' x \<or> x \<in> set ''.-'')))) (\<lambda>_. ''_'') (str_replace ''#'' ''-dup'' key))"

definition sha_text :: "string \<Rightarrow> error + string" where   \<comment> \<open>a text with a lone surrogate does not encode\<close>
  "sha_text s = (if valid_utf8 s then Inr (sha256 s) else Inl (ValueError ''utf-8''))"

section \<open>index\<close>

definition index_entry :: "keyed \<Rightarrow> error + json" where
  "index_entry kf =
     (case kf of (key, canvas, did, cap, h) \<Rightarrow>
        ebind (sha_text h) (\<lambda>s. Inr (JObj [(''frame'', JStr key), (''design_id'', JStr did), (''caption'', JStr cap), (''sha256'', JStr s)])))"

definition sid_of :: "string dict \<Rightarrow> string \<Rightarrow> string option" where   \<comment> \<open>an empty id counts as none\<close>
  "sid_of alias did = (case doc_id did alias of Some s \<Rightarrow> if s = [] then None else Some s | None \<Rightarrow> None)"

type_synonym sorted_frames = "json list dict \<times> json list dict"

definition index_step :: "string dict \<Rightarrow> sorted_frames \<Rightarrow> keyed \<Rightarrow> error + sorted_frames" where
  "index_step alias st kf =
     (case (st, kf) of ((by_sid, variants), (key, canvas, did, cap, h)) \<Rightarrow>
        ebind (index_entry kf) (\<lambda>e.
        Inr (case sid_of alias did of
               Some s \<Rightarrow> (dict_push s e by_sid, variants)
             | None \<Rightarrow> (by_sid, dict_push (first_word did) e variants))))"

text \<open>The parts of an id in order: numbers and letters do not compare.\<close>

datatype id_part = Id_number int | Id_letters string

definition sid_key :: "string \<Rightarrow> id_part list" where
  "sid_key sid =
     map (\<lambda>(i, j, g). let p = slice i j sid in if list_all is_digit p then Id_number (int_of_digits p) else Id_letters p)
       (re_finditer (Alt (Some_of (Cls is_digit)) (Some_of (Cls (between CHR ''a'' CHR ''z'')))) sid)"

fun key_less :: "id_part list \<Rightarrow> id_part list \<Rightarrow> bool option" where
  "key_less xs [] = Some False"
| "key_less [] (y # ys) = Some True"
| "key_less (x # xs) (y # ys) =
     (if x = y then key_less xs ys
      else case (x, y) of
        (Id_number m, Id_number n) \<Rightarrow> Some (m < n)
      | (Id_letters s, Id_letters t) \<Rightarrow> Some (s < t)
      | _ \<Rightarrow> None)"

fun insert_sid :: "string \<times> 'a \<Rightarrow> (string \<times> 'a) list \<Rightarrow> (string \<times> 'a) list" where
  "insert_sid e [] = [e]"
| "insert_sid e (x # xs) = (if key_less (sid_key (fst x)) (sid_key (fst e)) = Some True then x # insert_sid e xs else e # x # xs)"

text \<open>\<open>sorted(..., key=_sid_key)\<close>.  Two ids that differ first where one has a number and the other letters
  stop it: every sort must compare some such pair.\<close>

definition sort_sids :: "'a dict \<Rightarrow> error + 'a dict" where
  "sort_sids d =
     (if list_ex (\<lambda>x. list_ex (\<lambda>y. key_less (sid_key (fst x)) (sid_key (fst y)) = None) d) d
      then Inl (TypeError ''<'') else Inr (foldr insert_sid d []))"

definition index_json :: "sorted_frames \<Rightarrow> error + json" where
  "index_json st =
     (case st of (by_sid, variants) \<Rightarrow>
        ebind (sort_sids by_sid) (\<lambda>screens.
        Inr (JObj [(''_'', JStr ((''Written by scripts/design_match.py index (ADR 2026-10-05 '' @ [CHR 0xC2, CHR 0xA7] @ ''4). Ids, captions and hashes '') @ (''only '' @ u_emdash @ '' frame content stays in the git-ignored mirror. Regenerate after every /design-pull.''))),
                   (''screens'', JObj (map (\<lambda>(k, v). (k, JArr v)) screens)),
                   (''variants'', JObj (map (\<lambda>(k, v). (k, JArr v)) (sort_key fst variants)))])))"

definition frames_held :: "json list dict \<Rightarrow> nat" where
  "frames_held d = sum_list (map (\<lambda>(k, v). length v) d)"

definition sort_frames :: "tools \<Rightarrow> string \<Rightarrow> disk \<Rightarrow> error + sorted_frames" where
  "sort_frames tls rt d =
     ebind (design_aliases rt d) (\<lambda>alias.
     ebind (all_frames tls rt d) (\<lambda>fs.
     efold (index_step alias) ([], []) fs))"

definition cmd_index :: "tools \<Rightarrow> string \<Rightarrow> string list \<Rightarrow> unit act" where
  "cmd_index tls rt args =
     and_then (\<lambda>d. (d, sort_frames tls rt d)) (\<lambda>st.
     and_then (raising (index_json st)) (\<lambda>j.
     and_then (write_text (INDEX rt) (dumps j @ [nl])) (\<lambda>_.
     print_out ((''canvas-index.json: '' @ (str_int (int (length (fst st)))) @ '' S-ids ('' @ (str_int (int (frames_held (fst st)))) @
       '' frames) '' @ u_middot @ '' '' @ (str_int (int (length (snd st)))) @ '' variant ids '') @ (''('' @ (str_int (int (frames_held (snd st)))) @ '' frames)'')))))"

definition load_index :: "string \<Rightarrow> disk \<Rightarrow> error + json" where
  "load_index rt d =
     (if is_file d (INDEX rt) then read_json d (INDEX rt)
      else die (''design/match/canvas-index.json missing '' @ u_emdash @ '' run `design_match.py index`''))"

definition frames_for :: "tools \<Rightarrow> string \<Rightarrow> string list \<Rightarrow> disk \<Rightarrow> error + (string \<times> string) list" where
  "frames_for tls rt ids d =
     ebind (design_aliases rt d) (\<lambda>alias.
     ebind (all_frames tls rt d) (\<lambda>fs.
     Inr (map (\<lambda>(key, canvas, did, cap, h). (key, h))
       (filter (\<lambda>(key, canvas, did, cap, h). first_word did \<in> set ids
                  \<or> (case doc_id did alias of Some s \<Rightarrow> s \<in> set ids | None \<Rightarrow> False)) fs))))"

section \<open>render\<close>

definition LIGHT_TOKENS :: rx where "LIGHT_TOKENS = (Seq [Lit ''const LIGHT_TOKENS = `'', Grp 1 (Many (Cls (\<lambda>x. x \<notin> set ''`''))), Lit ''`''])"
definition EN_LIGHT_FF :: rx where "EN_LIGHT_FF = (Seq [Lit ''key:'', Many (Cls is_space), Lit ([CHR 0x27] @ ''en-light'' @ [CHR 0x27]), Few (Cls (\<lambda>x. x \<notin> set ''}'')), Lit ''ff:'', Many (Cls is_space), Lit ''\"'', Grp 1 (Some_of (Cls (\<lambda>x. x \<notin> set ''\"''))), Lit ''\"''])"

definition canvas_tokens :: "string \<Rightarrow> disk \<Rightarrow> error + string" where
  "canvas_tokens rt d =
     ebind (read_utf8 d (path_join (PARTIALS rt) ''build-canvas.js'')) (\<lambda>js.
     case re_search LIGHT_TOKENS js of
       None \<Rightarrow> die ''LIGHT_TOKENS not found in partials/build-canvas.js''
     | Some g \<Rightarrow>
         (case re_search EN_LIGHT_FF js of
            None \<Rightarrow> die ''the en-light band's ff (font family) not found in partials/build-canvas.js BANDS''
          | Some h \<Rightarrow> Inr (rev (dropWhile (\<lambda>c. c = CHR '';'') (rev (rstrip (grp g 1)))) @ '';--ff:'' @ grp h 1)))"

definition font_face :: "string \<Rightarrow> string \<times> string \<Rightarrow> int \<times> string \<Rightarrow> string" where
  "font_face rt fp wn =
     (case (fp, wn) of ((fam, pre), (weight, name)) \<Rightarrow>
        let path = path_join (FONTS rt) (pre @ ''-'' @ name @ ''.ttf''); w = (if weight = 600 then ''600 700'' else str_int weight)
        in (''@font-face'' @ ob @ ''font-family:'' @ [CHR 0x27] @ fam @ [CHR 0x27] @ '';src:url('file://'' @ path @ [CHR 0x27] @
       '');font-weight:'' @ w @ cb))"

definition font_faces :: "string \<Rightarrow> string" where
  "font_faces rt =
     concat (map (\<lambda>fp. concat (map (font_face rt fp) [(400, ''Regular''), (500, ''Medium''), (600, ''SemiBold'')]))
       [(''Mukta'', ''Mukta''), (''Mukta Mahee'', ''MuktaMahee'')])"

text \<open>Chrome's exit code is not looked at: only whether the picture is there afterwards.\<close>

definition chrome_shot :: "tools \<Rightarrow> string \<Rightarrow> string \<Rightarrow> nat \<times> nat \<times> nat \<Rightarrow> unit act" where
  "chrome_shot tls html png dims =
     (\<lambda>d. if \<not> chrome_there tls then (d, die (''Google Chrome not found at '' @ CHROME))
          else case shot tls (dict_or (files d) html []) dims of
            Some pic \<Rightarrow> write_text png pic d
          | None \<Rightarrow> (d, if is_file d png then Inr () else die (''Chrome wrote no screenshot for '' @ html)))"

definition canvas_page :: "string \<Rightarrow> string \<Rightarrow> string \<Rightarrow> string" where
  "canvas_page faces tok h =
     (''<!doctype html><meta charset=utf-8><style>'' @ faces @ '':root'' @ ob @ tok @ cb) @ (''body'' @ ob @ ''margin:0;background:#fff'' @ cb @ ''</style>'' @ h)"

definition CANVAS_W :: nat where "CANVAS_W = 390"
definition CANVAS_H :: nat where "CANVAS_H = 844"

definition render_frame :: "tools \<Rightarrow> string \<Rightarrow> string \<Rightarrow> string \<Rightarrow> string \<times> string \<Rightarrow> (string \<times> string) act" where
  "render_frame tls rt faces tok kh =
     (case kh of (key, h) \<Rightarrow>
        let base = path_join (path_join (OUT rt) ''canvas'') (file_slug key); hp = base @ ''.html''; pp = base @ ''.png'' in
        and_then (write_text hp (canvas_page faces tok h)) (\<lambda>_.
        and_then (chrome_shot tls hp pp (CANVAS_W + 2, CANVAS_H + 2, 2)) (\<lambda>_.
        ret_act (key, pp))))"

definition render :: "tools \<Rightarrow> string \<Rightarrow> (string \<times> string) list \<Rightarrow> (string \<times> string) list act" where
  "render tls rt picked =
     and_then (\<lambda>d. (d, canvas_tokens rt d)) (\<lambda>tok. seq_acts (render_frame tls rt (font_faces rt) tok) picked)"

definition cmd_render :: "tools \<Rightarrow> string \<Rightarrow> string list \<Rightarrow> unit act" where
  "cmd_render tls rt args =
     and_then
       (\<lambda>d. (d, if args = [''--all''] then ebind (all_frames tls rt d) (\<lambda>fs. Inr (map (\<lambda>(key, canvas, did, cap, h). (key, h)) fs))
                else if args = [] then die ''render needs S-ids or design ids (or --all)''
                else ebind (frames_for tls rt args d) (\<lambda>picked.
                  if picked = [] then die (''no canvas frame for '' @ (join_str '' '' args) @ '' '' @ u_emdash @ '' check 13 '' @ [CHR 0xC2, CHR 0xA7] @
       ''3.3 or design/match/canvas-index.json'')
                  else Inr picked)))
       (\<lambda>picked. and_then (render tls rt picked) (\<lambda>ps.
         print_lines (map (\<lambda>(key, p). (key @ ''  '' @ [CHR 0xE2, CHR 0x86, CHR 0x92] @ ''  '' @ (relpath rt p))) ps)))"

section \<open>pair\<close>

definition pair_column :: "string \<Rightarrow> (string \<times> string) list \<Rightarrow> string" where
  "pair_column title items =
     (let cells = concat (map (\<lambda>(label, p). (''<figure><figcaption>'' @ (html_escape True label) @ ''</figcaption><img src='file://'' @ p @ [CHR 0x27] @
       ''></figure>'')) items)
      in (''<section><h2>'' @ (html_escape True title) @ ''</h2>'' @ (if cells = [] then ''<p class=none>none</p>'' else cells) @
       ''</section>''))"

definition PAIR_STYLE :: string where
  "PAIR_STYLE =
     ''<!doctype html><meta charset=utf-8><style>''
     @ (''body'' @ ob @ ''margin:0;padding:16px;background:#fff;font:14px -apple-system,sans-serif;display:flex;gap:32px'' @
       cb)
     @ (''section'' @ ob @ ''width:392px'' @ cb @ ''h2'' @ ob @ ''font-size:16px;margin:0 0 8px'' @ cb @ ''figure'' @ ob @ ''margin:0 0 16px'' @
       cb)
     @ (''figcaption'' @ ob @ ''height:22px;overflow:hidden;white-space:nowrap;text-overflow:ellipsis;color:#555'' @
       cb)
     @ (''img'' @ ob @ ''width:392px;height:846px;object-fit:contain;object-position:top;border:1px solid #ccc;display:block'' @
       cb)
     @ (''.none'' @ ob @ ''color:#a33'' @ cb @ ''</style>'')"

definition captures_of :: "string \<Rightarrow> string \<Rightarrow> disk \<Rightarrow> string list" where
  "captures_of rt sid d = glob_star (APP_CAPTURES rt) (sid @ ''__'') ''.png'' d"

definition cmd_pair :: "tools \<Rightarrow> string \<Rightarrow> string list \<Rightarrow> unit act" where
  "cmd_pair tls rt args =
     (if args = [] then raising (die ''pair needs one S-id (and optionally extra design ids for its variants)'')
      else let sid = hd args in
        and_then (\<lambda>d. (d, frames_for tls rt args d)) (\<lambda>picked.
        and_then (render tls rt picked) (\<lambda>canvas.
        and_then (\<lambda>d. (d, Inr (captures_of rt sid d))) (\<lambda>caps.
        and_then (if canvas = [] \<and> caps = [] then raising (die (''nothing to pair for '' @ sid @ '': no canvas frame and no app capture'')) else ret_act ()) (\<lambda>_.
        and_then (if caps = [] then print_out ([CHR 0xE2, CHR 0x9A, CHR 0xA0] @ '' no app capture for '' @ sid @ '' in '' @ (relpath rt (APP_CAPTURES rt)) @
       '' '' @ u_emdash @ '' run its design test first'') else ret_act ()) (\<lambda>_.
        let right = map (\<lambda>p. (take (length (basename p) - 4) (basename p), p)) caps;
            n = max (max (length canvas) (length right)) 1;
            page = PAIR_STYLE @ pair_column ''Canvas'' canvas @ pair_column ''App'' right;
            base = path_join (path_join (OUT rt) ''pairs'') (file_slug sid); hp = base @ ''.html''; pp = base @ ''.png'' in
        and_then (write_text hp page) (\<lambda>_.
        and_then (chrome_shot tls hp pp (16 * 2 + 392 * 2 + 32 + 4, 16 * 2 + n * (846 + 42), 1)) (\<lambda>_.
        print_out (relpath rt pp)))))))))"

section \<open>stamp\<close>

text \<open>Values of a record as Python takes them: \<open>d[k]\<close>, a list of texts, a dictionary.\<close>

definition field :: "string \<Rightarrow> json \<Rightarrow> error + json" where
  "field k j = (case j of JObj ps \<Rightarrow> (case map_of ps k of None \<Rightarrow> Inl (KeyError k) | Some v \<Rightarrow> Inr v) | _ \<Rightarrow> Inl (TypeError k))"

definition as_text :: "json \<Rightarrow> error + string" where
  "as_text j = (case j of JStr s \<Rightarrow> Inr s | _ \<Rightarrow> Inl (TypeError ''str''))"

definition as_texts :: "json \<Rightarrow> error + string list" where
  "as_texts j = (case j of JArr xs \<Rightarrow> emap as_text xs | _ \<Rightarrow> Inl (TypeError ''list''))"

definition as_dict :: "json \<Rightarrow> error + json dict" where
  "as_dict j = (case j of JObj ps \<Rightarrow> Inr ps | _ \<Rightarrow> Inl (AttributeError ''values''))"

definition as_list :: "json \<Rightarrow> error + json list" where
  "as_list j = (case j of JArr xs \<Rightarrow> Inr xs | JObj [] \<Rightarrow> Inr [] | JStr [] \<Rightarrow> Inr [] | _ \<Rightarrow> Inl (TypeError ''list''))"

text \<open>The frames of a part of the index, each with its key.\<close>

type_synonym pool = "(string \<times> json) list"

definition pool_frame :: "json \<Rightarrow> error + string \<times> json" where
  "pool_frame f = ebind (ebind (field ''frame'' f) as_text) (\<lambda>k. Inr (k, f))"

definition pool_part :: "string \<Rightarrow> json \<Rightarrow> error + (string \<times> pool) list" where
  "pool_part part index =
     ebind (ebind (field part index) as_dict) (\<lambda>ps.
     emap (\<lambda>(sid, fs). ebind (ebind (as_list fs) (emap pool_frame)) (\<lambda>xs. Inr (sid, xs))) ps)"

definition screens_line :: "string \<Rightarrow> disk \<Rightarrow> string \<Rightarrow> error + string" where
  "screens_line rt d p =
     (case map_of (files d) (path_join rt p) of
        None \<Rightarrow> die (''screen file '' @ p @ '' does not exist'')
      | Some t \<Rightarrow> Inr (p @ [nl] @ sha256 t @ [nl]))"

definition screens_hash :: "string \<Rightarrow> disk \<Rightarrow> string list \<Rightarrow> error + string" where
  "screens_hash rt d paths = ebind (emap (screens_line rt d) (sort paths)) (\<lambda>ls. sha_text (concat ls))"

definition frames_hash :: "string list \<Rightarrow> error + string" where
  "frames_hash shas = sha_text (join_str [nl] (sort shas))"

definition nearest_given :: "json dict \<Rightarrow> bool" where   \<comment> \<open>\<open>str(rec.get("nearest", "")).strip()\<close>\<close>
  "nearest_given rec = (case map_of rec ''nearest'' of None \<Rightarrow> False | Some (JStr s) \<Rightarrow> strip s \<noteq> [] | Some _ \<Rightarrow> True)"

definition own_frames :: "string \<Rightarrow> (string \<times> pool) list \<Rightarrow> string list" where
  "own_frames sid screens = map fst (dict_or screens sid [])"

definition owner_of :: "(string \<times> pool) list \<Rightarrow> string \<Rightarrow> string option" where   \<comment> \<open>the last screen that lists it\<close>
  "owner_of screens k = map_of (rev (concat (map (\<lambda>(s, fs). map (\<lambda>f. (fst f, s)) fs) screens))) k"

definition stamp_gate :: "string \<Rightarrow> json dict \<Rightarrow> string list \<Rightarrow> (string \<times> pool) list \<Rightarrow> error + string list" where
  "stamp_gate sid rec keys screens =
     (let own = own_frames sid screens in
      if map_of rec ''verdict'' = Some (JStr ''no-canvas'')
      then if own \<noteq> [] then die ([CHR 0x27] @ ''no-canvas' but the canvas has '' @ (str_int (int (length own))) @ '' frame(s) for '' @
       sid @ '': '' @ (repr_list repr_str own))
           else if \<not> nearest_given rec then die ([CHR 0x27] @ ''no-canvas' needs \"nearest\": the drawn pattern this screen followed'')
           else Inr []
      else let foreign = sort (filter (\<lambda>k. owner_of screens k \<noteq> None \<and> owner_of screens k \<noteq> Some sid) keys);
               unnamed = filter (\<lambda>k. k \<notin> set keys) own in
           if foreign \<noteq> [] then die (''record names another screen's frame(s): '' @ (repr_list repr_str foreign))
           else Inr (if unnamed = [] then [] else [([CHR 0xE2, CHR 0x9A, CHR 0xA0] @ '' frame(s) of '' @ sid @ '' not in the record '' @ u_emdash @ '' the gate reports them stale: '' @
       (repr_list repr_str unnamed))]))"

definition record_path :: "string \<Rightarrow> string \<Rightarrow> string" where
  "record_path rt sid = path_join (MATCH rt) (sid @ ''.json'')"

text \<open>What the stamp reads and checks; a frame or a screen file that is not a text is a \<open>TypeError\<close> here.\<close>

definition stamp_checks :: "string \<Rightarrow> string \<Rightarrow> disk \<Rightarrow> error + json dict \<times> json list \<times> string list" where
  "stamp_checks rt sid d =
     ebind (if is_file d (record_path rt sid) then Inr ()
            else die ((relpath rt (record_path rt sid)) @ '' does not exist '' @ u_emdash @ '' write the record first (ADR 2026-10-05 '' @
       [CHR 0xC2, CHR 0xA7] @ ''2 step 4)'')) (\<lambda>_.
     ebind (read_json d (record_path rt sid)) (\<lambda>rec.
     ebind (load_index rt d) (\<lambda>index.
     ebind (case rec of JObj ps \<Rightarrow> Inr ps | _ \<Rightarrow> Inl (AttributeError ''get'')) (\<lambda>rec.
     ebind (case map_of rec ''frames'' of None \<Rightarrow> Inr [] | Some fs \<Rightarrow> as_texts fs) (\<lambda>ks.
     let keys = remdups ks in
     ebind (pool_part ''screens'' index) (\<lambda>screens.
     ebind (pool_part ''variants'' index) (\<lambda>variants.
     let pool = concat (map snd screens) @ concat (map snd variants);
         missing = sort (filter (\<lambda>k. k \<notin> fst ` set pool) keys) in
     ebind (emap (\<lambda>f. field ''sha256'' (snd f)) (filter (\<lambda>f. fst f \<in> set keys) pool)) (\<lambda>shas.
     if missing \<noteq> [] then die (''record names frames the index does not hold: '' @ (repr_list repr_str missing) @ '' '' @ u_emdash @
       '' re-run `index`?'')
     else if \<not> truthy (get_key ''screen_files'' rec) then die ''record has no screen_files''
     else ebind (stamp_gate sid rec keys screens) (\<lambda>warn. Inr (rec, shas, warn))))))))))"

definition stamp_hashes :: "string \<Rightarrow> disk \<Rightarrow> json dict \<Rightarrow> json list \<Rightarrow> error + json dict" where
  "stamp_hashes rt d rec shas =
     ebind (as_texts (get_key ''screen_files'' rec)) (\<lambda>paths.
     ebind (screens_hash rt d paths) (\<lambda>s.
     ebind (ebind (emap as_text shas) frames_hash) (\<lambda>f.
     Inr (AList.update ''hashes'' (JObj [(''screens'', JStr s), (''frames'', JStr f)]) rec))))"

definition cmd_stamp :: "string \<Rightarrow> string list \<Rightarrow> unit act" where
  "cmd_stamp rt args =
     (if length args \<noteq> 1 then raising (die ''stamp takes exactly one S-id'')
      else let sid = hd args in
        and_then (\<lambda>d. (d, stamp_checks rt sid d)) (\<lambda>(rec, shas, warn).
        and_then (print_lines warn) (\<lambda>_.
        and_then (\<lambda>d. (d, stamp_hashes rt d rec shas)) (\<lambda>rec.
        and_then (write_text (record_path rt sid) (dumps (JObj rec) @ [nl])) (\<lambda>_.
        print_out (''stamped '' @ (relpath rt (record_path rt sid))))))))"

section \<open>selftest\<close>

definition st_head :: "string \<Rightarrow> string \<Rightarrow> string" where
  "st_head did cap =
     (''<div><div style=\"font-size:11.5px;font-weight:700;letter-spacing:0.06em;color:#201e1d\">'' @
       did @ ''</div>'') @ [nl]
     @ (''  <div style=\"font-size:12.5px;color:#6b6864\">'' @ cap @ ''</div>'') @ [nl] @ ''</div>'' @ [nl]"

definition st_phone :: "string \<Rightarrow> string" where
  "st_phone body = (''<div style=\"width:390px;height:844px;border-radius:44px\"><div><p>'' @ body @ ''</p></div><div></div></div>'')"

definition st_wrap :: "string \<Rightarrow> string" where
  "st_wrap x = (''<div style=\"--bg:#fff;--ink:#000;\"><div>'' @ x @ ''</div></div>'')"

definition st_good :: string where
  "st_good = st_wrap (st_head ''S0.2a'' ''Has books &amp; more'' @ st_phone ''one'' @ st_head ''S0.2b'' ''Found you'' @ st_phone ''two'')"

definition st_templ :: string where
  "st_templ = st_wrap (st_head (ob @ ob @ '' ph.id '' @ cb @ cb) (ob @ ob @ '' ph.cap '' @ cb @ cb)
     @ (''<div lang=\"'' @ ob @ ob @ '' ph.lang '' @ cb @ cb @ ''\" style=\"width:390px;height:844px\"><div></div></div>'')
     @ ''<div sc-for=\"ph in phones\" style=\"width:390px;height:844px\"><div></div></div>'')"

definition st_drift :: string where
  "st_drift = st_wrap (st_head ''S0.2a'' ''One'' @ st_phone ''one''
     @ ''<div><div style=\"font-size:11.5px;font-weight:700;color:#201e1d\">S0.2b</div>''
     @ ''<div style=\"font-size:12.5px;color:#6b6864\">Two</div></div>'' @ st_phone ''two'')"

text \<open>One file in a folder of its own.\<close>

definition st_run :: "tools \<Rightarrow> string \<Rightarrow> string \<Rightarrow> error + frame_row list" where
  "st_run tls name txt = dc_frames tls ''t'' \<lparr>files = [(''t/'' @ name, txt)], others_there = [], stdout = [], stderr = []\<rparr>"

definition stops_with :: "string \<Rightarrow> error + 'a \<Rightarrow> bool" where
  "stops_with w r = (case r of Inl (SystemExit m) \<Rightarrow> contains_sub w m | _ \<Rightarrow> False)"

definition st_good_checks :: "error + frame_row list \<Rightarrow> (string \<times> bool) list" where
  "st_good_checks r =
     (case r of
        Inr [(c1, d1, p1, h1), (c2, d2, p2, h2)] \<Rightarrow>
          [((''two headed phones '' @ [CHR 0xE2, CHR 0x86, CHR 0x92] @ '' two frames''), True),
           (''canvas key from the file name'', c1 = ''c9z''),
           (''design id and unescaped caption'', (d1, p1) = (''S0.2a'', ''Has books & more'')),
           (''frame is the whole balanced phone box'', ends_with (st_phone ''one'' @ ''</div>'') h1 \<and> \<not> contains_sub ''two'' h1),
           (''frame wrapped in the canvas colour variables'', starts_with ''<div style=\"--bg:#fff;--ink:#000\">'' h2)]
      | _ \<Rightarrow> [((''two headed phones '' @ [CHR 0xE2, CHR 0x86, CHR 0x92] @ '' two frames''), False)])"

definition selftest_checks :: "tools \<Rightarrow> (string \<times> bool) list" where
  "selftest_checks tls =
     st_good_checks (st_run tls ''Canvas 9z - Synthetic.dc.html'' st_good)
     @ [(''templated phones yield no frame and no error'', st_run tls ''Canvas 98 - Templated.dc.html'' st_templ = Inr []),
        (''a phone whose header drifted stops the index'', stops_with ''no header'' (st_run tls ''Canvas 97 - Drift.dc.html'' st_drift)),
        (''headed phones in a file not named `Canvas <n> - ` stop the index'', stops_with ''not `Canvas'' (st_run tls ''Report Page.dc.html'' st_good)),
        (''a file with no phones yields nothing'', st_run tls ''Report Page.dc.html'' ''<div><div></div></div>'' = Inr [])]"

definition cmd_selftest :: "tools \<Rightarrow> string list \<Rightarrow> unit act" where
  "cmd_selftest tls args =
     (let cs = selftest_checks tls; failures = filter (\<lambda>(n, c). \<not> c) cs in
      and_then (print_lines (map (\<lambda>(n, c). (if c then ''ok   '' else ''FAIL '') @ n) cs)) (\<lambda>_.
      if failures \<noteq> [] then raising (die (''selftest: '' @ (str_int (int (length failures))) @ '' failure(s)''))
      else print_out ''selftest: all passed''))"

section \<open>The command line\<close>

definition MATCH_DOC :: string where
  "MATCH_DOC = join_str [nl] [
     (''design_match.py '' @ u_emdash @ '' the canvas side of the design-match step (ADR 2026-10-05 '' @
       [CHR 0xC2, CHR 0xA7] @ ''2, '' @ [CHR 0xC2, CHR 0xA7] @ ''4).''),
     [],
     ''  python3 scripts/design_match.py index              # write design/match/canvas-index.json'',
     (''  python3 scripts/design_match.py render S1 S2.1 A1  # canvas frames '' @ [CHR 0xE2, CHR 0x86, CHR 0x92] @
       '' build/design_match/canvas/''),
     (''  python3 scripts/design_match.py render --all       # every frame (~2'' @ u_endash @ ''3 min)''),
     (''  python3 scripts/design_match.py pair S1            # canvas frames beside app captures '' @
       [CHR 0xE2, CHR 0x86, CHR 0x92] @ '' build/design_match/pairs/S1.png''),
     ''  python3 scripts/design_match.py stamp S1           # fill design/match/S1.json's hashes'',
     ''  python3 scripts/design_match.py selftest           # the `.dc.html` parser against synthetic sources'',
     [],
     ''`render` and `pair` take doc S-ids (S1, S11.6) or design ids (A1, R2.1b, E3). Doc ids pick up every'',
     (''frame whose design id 13 '' @ [CHR 0xC2, CHR 0xA7] @ ''3.3 translates to them. Entity, role and state variants (A1'' @
       u_endash @ ''D8, R1, E1'' @ u_endash @ ''E7)''),
     ''keep their design id, so name them when the screen has a variant drawn.'',
     [],
     ''Needs the git-ignored mirror (design/canvas-mirror/, pulled by /design-pull) and a local Google Chrome'',
     ''for render/pair. `index` and `stamp` need only the mirror. CI never runs this: it reads the committed'',
     ''index and records (scripts/check_design_match.dart).'',
     [],
     ''Frames come from partials/canvas*-screens.json and partials/new-screens-*.json, in the English light'',
     ''variant, and from the `.dc.html` canvases kept in the mirror because they have no partials (Canvas 1b,'',
     (''PLAN desk 157): there each 390'' @ u_times @ ''844 phone box under an `id '' @ u_middot @ '' caption` header is one frame, wrapped in the''),
     (''canvas's own colour variables. A phone box bound by the canvas's template engine (a `'' @ ob @
       ob @ '' '' @ u_hellip @ '' '' @ cb @ cb @ ''` binding or an''),
     (''`sc-` directive on the box itself '' @ u_emdash @ '' Canvas 17's phones, `sc-for` over reports-data.js) has no static content''),
     ''and is skipped; every other phone box must have its header, or `index` stops rather than drop the frame.'',
     ''Canvas 0 (master map) is not indexed.'',
     ([CHR 0xE2, CHR 0x9A, CHR 0xA0] @ [CHR 0xEF, CHR 0xB8, CHR 0x8F] @ '' The pa/hi and dark renders are not wired yet: the canvases translate through the i18n dictionaries''),
     ''in build-canvas.js, which this script does not replay.'',
     []]"

definition match_main :: "tools \<Rightarrow> string \<Rightarrow> string list \<Rightarrow> unit act" where
  "match_main tls rt argv =
     (let c = argv ! 1; args = drop 2 argv in
      if length argv < 2 \<or> c \<notin> set [''index'', ''render'', ''pair'', ''stamp'', ''selftest''] then raising (Inl (SystemExit MATCH_DOC))
      else if c = ''index'' then cmd_index tls rt args
      else if c = ''render'' then cmd_render tls rt args
      else if c = ''pair'' then cmd_pair tls rt args
      else if c = ''stamp'' then cmd_stamp rt args
      else cmd_selftest tls args)"

end
