(* ===== verification/Json_Facts.thy ===== *)
theory Json_Facts
  imports Json
begin

text \<open>
  What \<open>json.dump\<close> writes, \<open>json.loads\<close> reads back: the printed text lexes into the tokens of the value, and
  the stack machine builds the value from them.
\<close>

section \<open>Strings\<close>

lemma control_digits:
  assumes "n < 32"
  shows "hex_value (''0123456789abcdef'' ! (n div 16)) = Some (n div 16)"
    and "hex_value (''0123456789abcdef'' ! (n mod 16)) = Some (n mod 16)"
proof -
  have "list_all (\<lambda>n. hex_value (''0123456789abcdef'' ! n) = Some n) [0..<16]" by code_simp
  with assms show "hex_value (''0123456789abcdef'' ! (n div 16)) = Some (n div 16)"
    "hex_value (''0123456789abcdef'' ! (n mod 16)) = Some (n mod 16)"
    by (simp_all add: list_all_iff)
qed

lemma control_escape:
  assumes "(of_char c :: nat) < 32"
  shows "unicode_escape (''00'' @ [''0123456789abcdef'' ! (of_char c div 16), ''0123456789abcdef'' ! (of_char c mod 16)] @ r) = Some ([c], r)"
proof -
  have zero: "hex_value CHR ''0'' = Some 0" by code_simp
  have "hex4 (''00'' @ [''0123456789abcdef'' ! (of_char c div 16), ''0123456789abcdef'' ! (of_char c mod 16)] @ r) = Some (of_char c, r)"
    using control_digits [OF assms] by (simp add: zero)
  with assms show ?thesis by (simp add: unicode_escape_def utf8_def byte_char_def)
qed

lemma scan_escaped:
  "scan_string (escape_char c @ s) = map_option (apfst ((#) c)) (scan_string s)"
proof -
  have marks: "quote \<noteq> backslash" "CHR ''u'' \<noteq> quote" "CHR ''u'' \<noteq> backslash" by (simp_all add: quote_def backslash_def)
  have single: "(@) [x] = (#) x" for x :: char by (rule ext) simp
  show ?thesis
  proof (cases "c = quote \<or> c = backslash")
    case True
    then have "plain_escape c = Some [c]" "c \<noteq> CHR ''u''" by (auto simp: plain_escape_def quote_def backslash_def)
    with True marks single show ?thesis by (auto simp: escape_char_def apfst_def)
  next
    case False
    note plain = this
    show ?thesis
    proof (cases "map_of [(CHR 0x08, CHR ''b''), (CHR 0x0C, CHR ''f''), (CHR 0x0A, CHR ''n''), (CHR 0x0D, CHR ''r''), (CHR 0x09, CHR ''t'')] c")
      case (Some e)
      then have "plain_escape e = Some [c]" "e \<noteq> CHR ''u''" by (auto simp: plain_escape_def quote_def backslash_def split: if_splits)
      with Some plain marks single show ?thesis by (auto simp: escape_char_def apfst_def)
    next
      case None
      show ?thesis
      proof (cases "(of_char c :: nat) < 32")
        case True
        with None plain marks control_escape [OF True, of s] show ?thesis
          by (simp add: escape_char_def Let_def apfst_def single)
      next
        case False
        with None plain show ?thesis by (simp add: escape_char_def Let_def)
      qed
    qed
  qed
qed

lemma scan_json_str: "scan_string (concat (map escape_char s) @ [quote] @ r) = Some (s, r)"
  by (induction s) (simp_all add: scan_escaped)

lemma lex_string: "lex (json_str s @ r) = map_option ((#) (TVal (JStr s))) (lex r)"
proof -
  have "quote \<notin> set [CHR '' '', CHR 0x09, CHR 0x0A, CHR 0x0D]" "mark quote = None" by (simp_all add: quote_def mark_def)
  with scan_json_str [of s r] show ?thesis by (simp add: json_str_def)
qed

section \<open>Marks, words and numbers\<close>

lemma lex_marks:
  "lex (CHR 0x7B # s) = map_option ((#) TOpen_obj) (lex s)" "lex (CHR 0x7D # s) = map_option ((#) TClose_obj) (lex s)"
  "lex (CHR ''['' # s) = map_option ((#) TOpen_arr) (lex s)" "lex (CHR '']'' # s) = map_option ((#) TClose_arr) (lex s)"
  "lex (CHR '','' # s) = map_option ((#) TComma) (lex s)" "lex (CHR '':'' # s) = map_option ((#) TColon) (lex s)"
  by (simp_all add: mark_def)

lemma lex_space: "lex (CHR '' '' # s) = lex s"
  by simp

lemma lex_line: "lex (line_at l @ s) = lex s"
  by (induction l) (simp_all add: line_at_def)

lemma lex_words:
  "lex (''null'' @ s) = map_option ((#) (TVal JNull)) (lex s)"
  "lex (''true'' @ s) = map_option ((#) (TVal (JBool True))) (lex s)"
  "lex (''false'' @ s) = map_option ((#) (TVal (JBool False))) (lex s)"
  by (simp_all add: mark_def quote_def scan_scalar_def scan_word_def WORDS_def)

definition ends_number :: "string \<Rightarrow> bool" where
  "ends_number r = (case r of [] \<Rightarrow> True | c # _ \<Rightarrow> \<not> is_digit c \<and> c \<notin> set ''.eE'')"

lemma scan_ends: "ends_number r \<Longrightarrow> scan_fraction r = ([], r)" "ends_number r \<Longrightarrow> scan_exponent r = ([], r)"
  by (auto simp: ends_number_def scan_fraction_def scan_exponent_def split: list.splits)

lemma digits_take: "list_all is_digit ds \<Longrightarrow> ends_number r \<Longrightarrow> digits_then (ds @ r) = (ds, r)"
  by (induction ds) (auto simp: digits_then_def ends_number_def split: list.splits)

lemma str_nat_zero: "0 \<le> n \<Longrightarrow> str_nat n = CHR ''0'' # s \<Longrightarrow> n = 0 \<and> s = []"
proof (induction n arbitrary: s rule: str_nat.induct)
  case (1 n)
  show ?case
  proof (cases "n < 10")
    case True
    have "list_all (\<lambda>n. digit_char n = CHR ''0'' \<longrightarrow> n = 0) [0..9]" by code_simp
    with True "1.prems" show ?thesis by (simp add: str_nat_small list_all_iff)
  next
    case False
    with "1.prems" obtain t where "str_nat (n div 10) = CHR ''0'' # t" by (auto simp: str_nat_big append_eq_Cons_conv)
    with False "1.prems"(1) "1.IH" show ?thesis by fastforce
  qed
qed

lemma str_nat_Nil [simp]: "str_nat n \<noteq> []"
  by (subst str_nat.simps) simp

lemma scan_nat: "0 \<le> n \<Longrightarrow> ends_number r \<Longrightarrow> scan_number (str_nat n @ r) = Some (JInt n, r)"
  and scan_neg: "0 < n \<Longrightarrow> ends_number r \<Longrightarrow> scan_number (CHR ''-'' # str_nat n @ r) = Some (JInt (- n), r)"
proof -
  have part: "(case str_nat n @ r of c # r' \<Rightarrow> if c = CHR ''0'' then ([c], r') else digits_then (str_nat n @ r) | [] \<Rightarrow> ([], str_nat n @ r)) = (str_nat n, r)"
    if n: "0 \<le> n" "ends_number r" for n r
  proof -
    obtain c s where cs: "str_nat n = c # s" by (cases "str_nat n") simp_all
    show ?thesis
    proof (cases "c = CHR ''0''")
      case True
      with cs str_nat_zero [OF n(1)] show ?thesis by simp
    next
      case False
      with cs digits_take [OF str_nat_digits [OF n(1)] n(2)] show ?thesis by simp
    qed
  qed
  have start: "(case str_nat n @ r of c # r' \<Rightarrow> if c = CHR ''-'' then ([c], r') else ([], str_nat n @ r) | [] \<Rightarrow> ([], str_nat n @ r)) = ([], str_nat n @ r)"
    if "0 \<le> n" for n r
    using str_nat_digits [OF that] by (cases "str_nat n") auto
  show "0 \<le> n \<Longrightarrow> ends_number r \<Longrightarrow> scan_number (str_nat n @ r) = Some (JInt n, r)"
    by (simp add: scan_number_def start part scan_ends int_of_digits_str_nat)
  show "0 < n \<Longrightarrow> ends_number r \<Longrightarrow> scan_number (CHR ''-'' # str_nat n @ r) = Some (JInt (- n), r)"
    by (simp add: scan_number_def part scan_ends int_of_digits_str_nat)
qed

lemma lex_int: "ends_number r \<Longrightarrow> lex (str_int n @ r) = map_option ((#) (TVal (JInt n))) (lex r)"
proof -
  assume r: "ends_number r"
  obtain c s where cs: "str_int n = c # s" "c = CHR ''-'' \<or> is_digit c" "c = CHR ''-'' \<Longrightarrow> \<exists>d t. s = d # t \<and> is_digit d"
  proof (cases "n < 0")
    case True
    then show ?thesis using str_nat_digits [of "- n"] that by (cases "str_nat (- n)") (auto simp: str_int_def)
  next
    case False
    then show ?thesis using str_nat_digits [of n] that
      by (cases "str_nat n") (auto simp: str_int_def, metis not_is_digit(3))
  qed
  have "scan_word (str_int n @ r) = None"
    using cs by (auto simp: scan_word_def WORDS_def is_digit_def digit_val_def split: if_splits)
  moreover have "scan_number (str_int n @ r) = Some (JInt n, r)"
    using scan_nat [of n r] scan_neg [of "- n" r] r by (cases "n < 0") (simp_all add: str_int_def)
  moreover have "c \<notin> set [CHR '' '', CHR 0x09, CHR 0x0A, CHR 0x0D]" "mark c = None" "c \<noteq> quote"
    using cs(2) by (auto simp: mark_def quote_def is_digit_def digit_val_def split: if_splits)
  ultimately show ?thesis using cs(1) by (simp add: scan_scalar_def)
qed

section \<open>A value and its tokens\<close>

text \<open>The values without fractions; the keys of an object differ.\<close>

fun plain_json :: "json \<Rightarrow> bool" where
  "plain_json (JFloat t) = False"
| "plain_json (JArr xs) = list_all plain_json xs"
| "plain_json (JObj ps) = (distinct (map fst ps) \<and> list_all (\<lambda>(k, v). plain_json v) ps)"
| "plain_json _ = True"

fun commas :: "token list list \<Rightarrow> token list" where
  "commas [] = []"
| "commas [x] = x"
| "commas (x # y # ys) = x @ [TComma] @ commas (y # ys)"

fun tokens :: "json \<Rightarrow> token list" where
  "tokens (JArr xs) = [TOpen_arr] @ commas (map tokens xs) @ [TClose_arr]"
| "tokens (JObj ps) = [TOpen_obj] @ commas (map (\<lambda>(k, v). [TVal (JStr k), TColon] @ tokens v) ps) @ [TClose_obj]"
| "tokens v = [TVal v]"

lemma lex_commas:
  assumes "\<And>x r. x \<in> set xs \<Longrightarrow> ends_number r \<Longrightarrow> lex (f x @ r) = map_option ((@) (g x)) (lex r)" "ends_number r"
  shows "lex (join_str ('','' @ line_at l) (map f xs) @ r) = map_option ((@) (commas (map g xs))) (lex r)"
  using assms
proof (induction xs rule: induct_list012)
  case 1
  then show ?case by (simp add: option.map_id0 [unfolded id_def])
next
  case (2 x)
  then show ?case by simp
next
  case (3 x y zs)
  have "ends_number ('','' @ s)" for s by (simp add: ends_number_def is_digit_def digit_val_def)
  with 3 show ?case by (simp add: lex_line lex_marks option.map_comp o_def del: lex.simps)
qed

lemma append_fun: "(@) (x # xs) = (\<lambda>ys. x # xs @ ys)"
  by (rule ext) simp

lemma lex_dump:
  "plain_json j \<Longrightarrow> ends_number r \<Longrightarrow> lex (dump_at l j @ r) = map_option ((@) (tokens j)) (lex r)"
proof (induction l j arbitrary: r rule: dump_at.induct)
  case (6 l xs)
  have close: "ends_number (line_at l @ s)" for s l by (simp add: ends_number_def line_at_def is_digit_def digit_val_def)
  show ?case
  proof (cases "xs = []")
    case False
    have "lex (join_str ('','' @ line_at (l + 1)) (map (dump_at (l + 1)) xs) @ line_at l @ CHR '']'' # r)
        = map_option ((@) (commas (map tokens xs))) (lex (line_at l @ CHR '']'' # r))"
      using 6 False by (intro lex_commas close) (auto simp: list_all_iff)
    with False show ?thesis by (simp add: lex_line lex_marks option.map_comp o_def del: lex.simps)
  qed (simp add: lex_marks option.map_comp o_def del: lex.simps)
next
  case (7 l ps)
  have close: "ends_number (line_at l @ s)" for s l by (simp add: ends_number_def line_at_def is_digit_def digit_val_def)
  show ?case
  proof (cases "ps = []")
    case False
    let ?f = "\<lambda>(k, v). json_str k @ '': '' @ dump_at (l + 1) v"
    have "lex (join_str ('','' @ line_at (l + 1)) (map ?f ps) @ line_at l @ CHR 0x7D # r)
        = map_option ((@) (commas (map (\<lambda>(k, v). [TVal (JStr k), TColon] @ tokens v) ps))) (lex (line_at l @ CHR 0x7D # r))"
    proof (intro lex_commas close)
      fix p s assume p: "p \<in> set ps" and s: "ends_number s"
      obtain k v where kv: "p = (k, v)" by fastforce
      with p s 7 False have "lex (dump_at (l + 1) v @ s) = map_option ((@) (tokens v)) (lex s)" by (auto simp: list_all_iff)
      then show "lex (?f p @ s) = map_option ((@) ((\<lambda>(k, v). [TVal (JStr k), TColon] @ tokens v) p)) (lex s)"
        by (simp add: kv lex_string lex_marks lex_space option.map_comp o_def append_fun del: lex.simps)
    qed
    with False show ?thesis by (simp add: lex_line lex_marks option.map_comp o_def del: lex.simps)
  qed (simp add: lex_marks option.map_comp o_def del: lex.simps)
next
  case (2 l b)
  then show ?case using lex_words [of r] by (cases b) (simp_all del: lex.simps)
next
  case (1 l)
  then show ?case using lex_words [of r] by (simp del: lex.simps)
qed (simp_all add: lex_string lex_int append_fun del: lex.simps)

section \<open>The stack machine\<close>

lemma first_is_value:
  "parse_step (st, W_first_value) (TVal v) = value_step st (TVal v)"
  "parse_step (st, W_first_value) TOpen_arr = value_step st TOpen_arr"
  "parse_step (st, W_first_value) TOpen_obj = value_step st TOpen_obj"
  by (cases st; simp; case_tac a; simp)+

definition reads :: "json \<Rightarrow> bool" where
  "reads v = (\<forall>st w ts. w = W_value \<or> w = W_first_value \<longrightarrow> parse_tokens (st, w) (tokens v @ ts) = parse_tokens (deliver v st) ts)"

lemma readsD: "reads v \<Longrightarrow> w = W_value \<or> w = W_first_value \<Longrightarrow> parse_tokens (st, w) (tokens v @ ts) = parse_tokens (deliver v st) ts"
  unfolding reads_def by blast

lemma parse_items:
  assumes "list_all reads xs" "xs \<noteq> []" "w = W_value \<or> w = W_first_value"
  shows "parse_tokens (FArr ys # st, w) (commas (map tokens xs) @ TClose_arr # ts) = parse_tokens (deliver (JArr (ys @ xs)) st) ts"
  using assms
proof (induction xs arbitrary: ys w rule: induct_list012)
  case (2 x)
  then show ?case by (simp add: readsD)
next
  case (3 x y zs)
  from "3.IH"(2) [of W_value "ys @ [x]"] "3.prems" show ?case by (simp add: readsD)
qed simp

lemma update_new: "k \<notin> fst ` set ps \<Longrightarrow> AList.update k v ps = ps @ [(k, v)]"
  by (induction ps) auto

lemma parse_fields:
  assumes "list_all (reads \<circ> snd) qs" "qs \<noteq> []" "distinct (map fst (ps @ qs))" "w = W_key ps \<or> w = W_first_key \<and> ps = []"
  shows "parse_tokens (st, w) (commas (map (\<lambda>(k, v). [TVal (JStr k), TColon] @ tokens v) qs) @ TClose_obj # ts)
    = parse_tokens (deliver (JObj (ps @ qs)) st) ts"
  using assms
proof (induction qs arbitrary: ps w rule: induct_list012)
  case (2 q)
  obtain k v where q: "q = (k, v)" by fastforce
  from 2 have "parse_step (st, w) (TVal (JStr k)) = Some (st, W_colon ps k)" by auto
  with 2 show ?case by (simp add: q update_new readsD)
next
  case (3 q q' qs)
  obtain k v where q: "q = (k, v)" by fastforce
  from 3 have "parse_step (st, w) (TVal (JStr k)) = Some (st, W_colon ps k)" by auto
  moreover from "3.prems"(1) have
    "parse_tokens (FObj ps k # st, W_value) (tokens v @ us) = parse_tokens (deliver v (FObj ps k # st)) us" for us
    by (simp add: q readsD)
  moreover have "AList.update k v ps = ps @ [(k, v)]" using "3.prems"(3) by (simp add: q update_new)
  moreover have "parse_tokens (st, W_key (ps @ [(k, v)])) (commas (map (\<lambda>(k, v). [TVal (JStr k), TColon] @ tokens v) (q' # qs)) @ TClose_obj # ts)
      = parse_tokens (deliver (JObj ((ps @ [(k, v)]) @ q' # qs)) st) ts"
    using "3.prems" by (intro "3.IH"(2)) (auto simp: q)
  ultimately show ?case by (simp add: q)
qed simp

lemma parse_value: "plain_json j \<Longrightarrow> reads j"
proof (induction j)
  case (JArr xs)
  then have xs: "list_all reads xs" by (auto simp: list_all_iff)
  have "parse_tokens (st, w) (tokens (JArr xs) @ ts) = parse_tokens (deliver (JArr xs) st) ts"
    if "w = W_value \<or> w = W_first_value" for st w ts
  proof -
    have "parse_step (st, w) TOpen_arr = Some (FArr [] # st, W_first_value)" using that by (auto simp: first_is_value)
    then show ?thesis using parse_items [OF xs, of W_first_value "[]" st ts] by (cases "xs = []") simp_all
  qed
  then show ?case by (simp add: reads_def)
next
  case (JObj ps)
  then have ps: "list_all (reads \<circ> snd) ps" "distinct (map fst ps)" by (auto simp: list_all_iff)
  have "parse_tokens (st, w) (tokens (JObj ps) @ ts) = parse_tokens (deliver (JObj ps) st) ts"
    if "w = W_value \<or> w = W_first_value" for st w ts
  proof -
    have "parse_step (st, w) TOpen_obj = Some (st, W_first_key)" using that by (auto simp: first_is_value)
    then show ?thesis using parse_fields [OF ps(1), of "[]" W_first_key st ts] ps(2) by (cases "ps = []") simp_all
  qed
  then show ?case by (simp add: reads_def)
qed (auto simp: reads_def first_is_value)

section \<open>What is dumped is read back\<close>

lemma dump_no_mark:
  assumes "plain_json j"
  shows "\<not> starts_with [CHR 0xEF, CHR 0xBB, CHR 0xBF] (dump_at l j @ r)"
proof (cases j)
  case (JInt n)
  have "str_int n = c # s \<Longrightarrow> c = CHR ''-'' \<or> is_digit c" for c s
    using str_nat_digits [of n] str_nat_digits [of "- n"] by (cases "n < 0") (auto simp: str_int_def)
  with JInt show ?thesis by (cases "str_int n") (auto simp: str_int_def is_digit_def digit_val_def split: if_splits)
qed (use assms in \<open>auto simp: json_str_def quote_def\<close>)

theorem loads_dumps: "plain_json j \<Longrightarrow> loads (dumps j @ [nl]) = Some j"
proof -
  assume j: "plain_json j"
  have "lex (dump_at 0 j @ [nl]) = Some (tokens j)"
    using lex_dump [OF j, of "[nl]" 0] by (simp add: ends_number_def is_digit_def digit_val_def)
  moreover have "parse_tokens ([], W_value) (tokens j) = Some ([], W_done j)"
    using readsD [OF parse_value [OF j], of W_value "[]" "[]"] by simp
  ultimately show ?thesis using dump_no_mark [OF j] by (simp add: loads_def dumps_def)
qed

end
