(* ===== verification/Match_Facts.thy ===== *)
theory Match_Facts
  imports Design_Match Json_Facts "HOL-Library.Multiset"
begin

text \<open>
  What \<open>design_match.py\<close> promises: no phone of a canvas is left out of the index without a word, every frame stands
  in the index once, under its own key and its own screen, and a stamped record is the record with its
  hashes.
\<close>

section \<open>A balanced element\<close>

definition net :: "(nat \<times> nat \<times> groups) list \<Rightarrow> int" where
  "net ms = sum_list (map (\<lambda>(i, j, g). if grp g 1 \<noteq> [] then - 1 else 1) ms)"

lemma depth_zero_net:
  "depth_zero n ms = Some j \<Longrightarrow>
     \<exists>as i g bs. ms = as @ (i, j, g) # bs \<and> n + net (as @ [(i, j, g)]) = 0 \<and> (\<forall>k < length as. n + net (take (Suc k) as) \<noteq> 0)"
proof (induction n ms rule: depth_zero.induct)
  case (2 n i j' g ms)
  define n' where "n' = (if grp g 1 \<noteq> [] then n - 1 else n + 1)"
  have n': "n' = n + net [(i, j', g)]" by (simp add: n'_def net_def)
  show ?case
  proof (cases "n' = 0")
    case True
    with 2 have "j' = j" by (simp add: n'_def Let_def split: if_splits)
    with True n' show ?thesis by (intro exI [of _ "[]"] exI [of _ i] exI [of _ g] exI [of _ ms]) simp
  next
    case False
    with "2.prems" have "depth_zero n' ms = Some j" by (simp add: n'_def Let_def split: if_splits)
    from "2.IH" [OF n'_def False this]
    obtain as i2 g2 bs where ih: "ms = as @ (i2, j, g2) # bs" "n' + net (as @ [(i2, j, g2)]) = 0" "\<forall>k < length as. n' + net (take (Suc k) as) \<noteq> 0"
      by blast
    have "n + net (take (Suc k) ((i, j', g) # as)) \<noteq> 0" if "k < length ((i, j', g) # as)" for k
    proof (cases k)
      case 0
      with False n' show ?thesis by simp
    next
      case (Suc k')
      with that ih(3) n' show ?thesis by (auto simp: net_def)
    qed
    moreover have "n + net (((i, j', g) # as) @ [(i2, j, g2)]) = 0" using ih(2) n' by (simp add: net_def)
    ultimately show ?thesis using ih(1) by (metis append_Cons)
  qed
qed simp

text \<open>The box that starts at \<open>start\<close> ends with the first tag that closes what was opened.\<close>

lemma balanced_div_tags:
  assumes "balanced_div txt start = Inr box"
  shows "\<exists>as i j g bs. re_finditer DIV_TAG (drop start txt) = as @ (i, j, g) # bs \<and> net (as @ [(i, j, g)]) = 0
     \<and> (\<forall>k < length as. net (take (Suc k) as) \<noteq> 0) \<and> box = take j (drop start txt)"
proof -
  from assms obtain j where j: "depth_zero 0 (re_finditer DIV_TAG (drop start txt)) = Some j" "box = take j (drop start txt)"
    by (auto simp: balanced_div_def die_def slice_def split: option.splits)
  from depth_zero_net [OF j(1)] j(2) show ?thesis by simp blast
qed

section \<open>Every static phone is a frame\<close>

definition dressed :: "string \<Rightarrow> string \<Rightarrow> string" where
  "dressed vars box = (if vars \<noteq> [] then (''<div style=\"'' @ vars @ ''\">'' @ box @ ''</div>'') else box)"

lemma dc_frame_content: "dc_frame tls txt vars c (i, j, g) = Inr (c', did, cap, h) \<Longrightarrow> \<exists>box. balanced_div txt j = Inr box \<and> h = dressed vars box"
  by (auto simp: dc_frame_def dressed_def ebind_Inr)

text \<open>C27. When the frames of a \<open>.dc.html\<close> source are read at all, they are as many as its static phones, and
  for every static phone there is a frame that holds the whole balanced element that starts there.\<close>

theorem phones_all_framed:
  assumes "dc_text_frames tls txt canvas whr = Inr frs"
  shows "length frs = length (dc_phones txt)
     \<and> (\<forall>p \<in> set (dc_phones txt). \<exists>c did cap box. balanced_div txt p = Inr box \<and> (c, did, cap, dressed (dc_vars txt) box) \<in> set frs)"
proof -
  let ?headed = "map (\<lambda>(i, j, g). j) (dc_heads txt)"
  have same: "sort ?headed = sort (dc_phones txt)"
    and frames: "list_all2 (\<lambda>x y. dc_frame tls txt (dc_vars txt) (case canvas of None \<Rightarrow> [] | Some c \<Rightarrow> c) x = Inr y) (dc_heads txt) frs"
    using assms by (auto simp: dc_text_frames_def Let_def die_def emap_Inr_iff split: if_splits)
  have phones: "mset (dc_phones txt) = mset ?headed" using same by (metis mset_sort)
  then have "length (dc_phones txt) = length (dc_heads txt)" by (metis length_map size_mset)
  moreover have "length frs = length (dc_heads txt)" using frames by (simp add: list_all2_lengthD)
  moreover have "\<exists>c did cap box. balanced_div txt p = Inr box \<and> (c, did, cap, dressed (dc_vars txt) box) \<in> set frs"
    if "p \<in> set (dc_phones txt)" for p
  proof -
    from that have "p \<in> set ?headed" using phones by (metis set_mset_mset)
    then obtain i g where "(i, p, g) \<in> set (dc_heads txt)" by auto
    then obtain k where k: "k < length (dc_heads txt)" "dc_heads txt ! k = (i, p, g)" by (auto simp: in_set_conv_nth)
    with frames have "dc_frame tls txt (dc_vars txt) (case canvas of None \<Rightarrow> [] | Some c \<Rightarrow> c) (i, p, g) = Inr (frs ! k)" "frs ! k \<in> set frs"
      by (auto simp: list_all2_conv_all_nth)
    then show ?thesis using dc_frame_content by (metis prod.exhaust)
  qed
  ultimately show ?thesis by simp
qed

section \<open>Keys\<close>

lemma str_int_pos: "0 < n \<Longrightarrow> 0 < m \<Longrightarrow> str_int n = str_int m \<longleftrightarrow> n = m"
  by (metis int_of_digits_str_nat less_imp_le not_less_iff_gr_or_eq str_int_def)

definition key_of :: "string \<Rightarrow> nat \<Rightarrow> string" where
  "key_of b n = (if n = 1 then b else (b @ ''#'' @ (str_int (int n))))"

lemma key_of_inj:
  assumes "CHR ''#'' \<notin> set b" "CHR ''#'' \<notin> set b'" "0 < n" "0 < n'" "key_of b n = key_of b' n'"
  shows "b = b' \<and> n = n'"
proof -
  have cut: "takeWhile (\<lambda>c. c \<noteq> CHR ''#'') (key_of b n) = b" if "CHR ''#'' \<notin> set b" for b n
    using that by (auto simp: key_of_def takeWhile_append)
  from cut [OF assms(1), of n] cut [OF assms(2), of n'] assms(5) have b: "b = b'" by simp
  with assms(3,4,5) have "n = n'" by (auto simp: key_of_def str_int_pos split: if_splits)
  with b show ?thesis by simp
qed

lemma numbered_keys:
  assumes "(key, fr) \<in> set (number_frames seen frs)"
  shows "fr \<in> set frs \<and> (\<exists>n > dict_or seen (frame_base fr) 0. key = key_of (frame_base fr) n)"
  using assms
proof (induction seen frs rule: number_frames.induct)
  case (2 seen fr' frs)
  define b where "b = frame_base fr'"
  define n where "n = dict_or seen b 0 + 1"
  have up: "dict_or (AList.update b n seen) k 0 = (if k = b then n else dict_or seen k 0)" for k
    by (simp add: dict_or_def update_conv')
  from "2.prems" consider "key = key_of b n" "fr = fr'" | "(key, fr) \<in> set (number_frames (AList.update b n seen) frs)"
    by (auto simp: Let_def b_def n_def key_of_def)
  then show ?case
  proof cases
    case 1
    then show ?thesis by (auto simp: b_def n_def)
  next
    case 2
    from "2.IH" [OF b_def n_def 2] obtain m where m: "fr \<in> set frs" "key = key_of (frame_base fr) m"
      "m > dict_or (AList.update b n seen) (frame_base fr) 0" by blast
    from m(3) have "m > dict_or seen (frame_base fr) 0" unfolding up by (auto simp: n_def split: if_splits)
    with m(1,2) show ?thesis by auto
  qed
qed simp

lemma keys_distinct:
  assumes "\<And>fr. fr \<in> set frs \<Longrightarrow> CHR ''#'' \<notin> set (frame_base fr)"
  shows "distinct (map fst (number_frames seen frs))"
  using assms
proof (induction seen frs rule: number_frames.induct)
  case (2 seen fr frs)
  define b where "b = frame_base fr"
  define n where "n = dict_or seen b 0 + 1"
  have "key_of b n \<notin> fst ` set (number_frames (AList.update b n seen) frs)"
  proof
    assume "key_of b n \<in> fst ` set (number_frames (AList.update b n seen) frs)"
    then obtain fr' where in': "(key_of b n, fr') \<in> set (number_frames (AList.update b n seen) frs)" by auto
    from numbered_keys [OF in'] obtain m where m: "fr' \<in> set frs" "m > dict_or (AList.update b n seen) (frame_base fr') 0"
      "key_of b n = key_of (frame_base fr') m" by blast
    have "b = frame_base fr' \<and> n = m"
      using m 2(2) [of fr] 2(2) [of fr'] by (intro key_of_inj) (auto simp: b_def n_def)
    with m(2) show False by (simp add: dict_or_def update_conv')
  qed
  moreover have "distinct (map fst (number_frames (AList.update b n seen) frs))"
    using "2.prems" by (intro "2.IH" [OF b_def n_def]) auto
  ultimately show ?case by (simp add: Let_def b_def n_def key_of_def)
qed simp

section \<open>The index\<close>

definition held :: "sorted_frames \<Rightarrow> json list" where
  "held st = concat (map snd (fst st)) @ concat (map snd (snd st))"

lemma push_mset: "mset (concat (map snd (dict_push k v d))) = add_mset v (mset (concat (map snd d)))"
proof -
  have "mset (concat (map snd (AList.update k (dict_or d k [] @ [v]) d))) = add_mset v (mset (concat (map snd d)))"
    by (induction d) (auto simp: dict_or_def)
  then show ?thesis by (simp add: dict_push_def)
qed

lemma push_elem: "x \<in> set (dict_or (dict_push k v d) j []) \<longleftrightarrow> x \<in> set (dict_or d j []) \<or> j = k \<and> x = v"
  by (auto simp: dict_push_def dict_or_def update_conv')

text \<open>Where an entry belongs.\<close>

definition filed :: "string dict \<Rightarrow> keyed \<Rightarrow> sorted_frames \<Rightarrow> json \<Rightarrow> bool" where
  "filed alias kf st e =
     (case kf of (key, canvas, did, cap, h) \<Rightarrow>
        (case sid_of alias did of Some s \<Rightarrow> e \<in> set (dict_or (fst st) s []) | None \<Rightarrow> e \<in> set (dict_or (snd st) (first_word did) [])))"

lemma filed_step: "index_step alias st kf = Inr st' \<Longrightarrow> filed alias kf' st e \<Longrightarrow> filed alias kf' st' e"
  by (cases st) (auto simp: index_step_def filed_def ebind_Inr push_elem split: prod.splits option.splits)

lemma filed_now:
  assumes "index_step alias st kf = Inr st'"
  shows "\<exists>e. index_entry kf = Inr e \<and> filed alias kf st' e \<and> mset (held st') = add_mset e (mset (held st))"
proof -
  obtain key canvas did cap h where kf: "kf = (key, canvas, did, cap, h)" by (metis prod.exhaust)
  show ?thesis
    using assms by (cases st; cases "sid_of alias did") (auto simp: kf index_step_def filed_def held_def ebind_Inr push_elem push_mset)
qed

lemma filed_all:
  assumes "efold (index_step alias) st fs = Inr st'"
  shows "\<exists>es. list_all2 (\<lambda>kf e. index_entry kf = Inr e \<and> filed alias kf st' e) fs es \<and> mset (held st') = mset (held st) + mset es"
  using assms
proof (induction fs arbitrary: st' rule: rev_induct)
  case Nil
  then show ?case by simp
next
  case (snoc kf fs)
  then obtain st1 where st1: "efold (index_step alias) st fs = Inr st1" "index_step alias st1 kf = Inr st'"
    by (auto simp: efold_append ebind_Inr)
  from snoc.IH [OF st1(1)] obtain es where es: "list_all2 (\<lambda>kf e. index_entry kf = Inr e \<and> filed alias kf st1 e) fs es" "mset (held st1) = mset (held st) + mset es"
    by blast
  from filed_now [OF st1(2)] obtain e where e: "index_entry kf = Inr e" "filed alias kf st' e" "mset (held st') = add_mset e (mset (held st1))"
    by blast
  have "list_all2 (\<lambda>kf e. index_entry kf = Inr e \<and> filed alias kf st' e) fs es"
    by (rule list_all2_mono [OF es(1)]) (auto intro: filed_step [OF st1(2)])
  with e es(2) show ?case by (intro exI [of _ "es @ [e]"]) (simp add: list_all2_appendI)
qed

text \<open>C28. The index holds every frame of the mirror once and nothing else: a frame whose design id has a doc id
  under that id, any other under its first word; and when no caption has a \<open>#\<close> of its own, no two frames have one key.\<close>

theorem index_names_every_frame:
  assumes "design_aliases rt d = Inr alias" "all_frames tls rt d = Inr fs" "sort_frames tls rt d = Inr st"
    and "\<forall>kf \<in> set fs. CHR ''#'' \<notin> set (frame_base (snd kf))"
  shows "(\<exists>es. list_all2 (\<lambda>kf e. index_entry kf = Inr e \<and> filed alias kf st e) fs es \<and> mset (held st) = mset es) \<and> distinct (map fst fs)"
proof
  from assms(1-3) have "efold (index_step alias) ([], []) fs = Inr st" by (simp add: sort_frames_def)
  from filed_all [OF this] show "\<exists>es. list_all2 (\<lambda>kf e. index_entry kf = Inr e \<and> filed alias kf st e) fs es \<and> mset (held st) = mset es"
    by (simp add: held_def)
  from assms(2) obtain frs where fs: "fs = number_frames [] frs" by (auto simp: all_frames_def ebind_Inr)
  have "map snd (number_frames seen frs) = frs" for seen
    by (induction seen frs rule: number_frames.induct) (simp_all add: Let_def)
  then have "snd ` set (number_frames [] frs) = set frs" by (metis list.set_map)
  with assms(4) show "distinct (map fst fs)" unfolding fs by (intro keys_distinct) force
qed

section \<open>Hashes\<close>

lemma valid_ascii: "list_all (\<lambda>c. (of_char c :: nat) < 128) s \<Longrightarrow> valid_utf8 s"
  unfolding valid_utf8_def by (induction s) auto

lemma hex_digit_ascii: "k < 16 \<Longrightarrow> (of_char (hex_digit k) :: nat) < 128"
proof -
  have "list_all (\<lambda>k. (of_char (hex_digit k) :: nat) < 128) [0..<16]" by code_simp
  then show "k < 16 \<Longrightarrow> (of_char (hex_digit k) :: nat) < 128" by (simp add: list_all_iff)
qed

lemma low_byte: "unat (w AND 0xFF) < 256" for w :: w32
proof -
  have "w AND 0xFF = take_bit 8 w" by (simp add: take_bit_eq_mask mask_eq_exp_minus_1)
  then show ?thesis using take_bit_nat_less_exp [of 8 "unat w"] by (simp add: unsigned_take_bit_eq)
qed

lemma sha256_ascii: "list_all (\<lambda>c. (of_char c :: nat) < 128) (sha256 s)"
proof -
  have "(of_char c :: nat) < 128" if "c \<in> set (hex32 w)" for c w
    using that low_byte by (auto simp: hex32_def Let_def intro!: hex_digit_ascii less_mult_imp_div_less)
  then show ?thesis by (auto simp: sha256_def list_all_iff)
qed

section \<open>The stamp\<close>

lemma cmd_stamp_done:
  assumes "cmd_stamp rt [sid] d = (d', Inr ())"
  obtains rec shas warn rec' where "stamp_checks rt sid d = Inr (rec, shas, warn)"
    "stamp_hashes rt (fst (print_lines warn d)) rec shas = Inr rec'"
    "files d' = AList.update (record_path rt sid) (dumps (JObj rec') @ [nl]) (files d)"
proof -
  have printed: "print_lines ls d1 = (fst (print_lines ls d1), Inr ()) \<and> files (fst (print_lines ls d1)) = files d1" for ls d1
    unfolding print_lines_def
    by (induction ls arbitrary: d1) (simp_all add: ret_act_def and_then_def print_out_def)
  from assms obtain rec shas warn where checks: "stamp_checks rt sid d = Inr (rec, shas, warn)"
    and rest: "and_then (print_lines warn) (\<lambda>_. and_then (\<lambda>d. (d, stamp_hashes rt d rec shas)) (\<lambda>rec.
        and_then (write_text (record_path rt sid) (dumps (JObj rec) @ [nl])) (\<lambda>_.
        print_out (''stamped '' @ (relpath rt (record_path rt sid)))))) d = (d', Inr ())"
    unfolding cmd_stamp_def by (simp add: and_then_Inr) blast
  obtain d1 where d1: "print_lines warn d = (d1, Inr ())" "files d1 = files d" using printed [of warn d] by metis
  from rest obtain rec' where "stamp_hashes rt d1 rec shas = Inr rec'"
    "files d' = AList.update (record_path rt sid) (dumps (JObj rec') @ [nl]) (files d1)"
    using d1(1) by (auto simp: and_then_Inr write_text_def print_out_def)
  with that checks d1 show ?thesis by simp
qed

lemma stamp_checks_record: "stamp_checks rt sid d = Inr (rec, shas, warn) \<Longrightarrow> read_json d (record_path rt sid) = Inr (JObj rec)"
  by (auto simp: stamp_checks_def ebind_Inr Let_def die_def split: if_splits json.splits)

lemma plain_update: "plain_json (JObj ps) \<Longrightarrow> plain_json v \<Longrightarrow> plain_json (JObj (AList.update k v ps))"
proof -
  assume ps: "plain_json (JObj ps)" and v: "plain_json v"
  then have "list_all (\<lambda>(k, v). plain_json v) (AList.update k v ps)" by (induction ps) auto
  with ps show ?thesis by (simp add: distinct_update)
qed

text \<open>C29. A record that \<open>stamp\<close> has stamped is read back by \<open>json.load\<close> as the record it was with its two hashes and nothing
  else changed; no other file is touched.\<close>

theorem stamp_reads_back:
  assumes "cmd_stamp rt [sid] d = (d', Inr ())" "read_json d (record_path rt sid) = Inr (JObj rec)" "plain_json (JObj rec)"
  shows "\<exists>s f t. map_of (files d') (record_path rt sid) = Some t
     \<and> loads t = Some (JObj (AList.update ''hashes'' (JObj [(''screens'', JStr s), (''frames'', JStr f)]) rec))
     \<and> (\<forall>g. g \<noteq> record_path rt sid \<longrightarrow> map_of (files d') g = map_of (files d) g)"
proof -
  from assms(1) obtain rec0 shas warn rec' where st: "stamp_checks rt sid d = Inr (rec0, shas, warn)"
    "stamp_hashes rt (fst (print_lines warn d)) rec0 shas = Inr rec'"
    "files d' = AList.update (record_path rt sid) (dumps (JObj rec') @ [nl]) (files d)"
    by (rule cmd_stamp_done)
  from stamp_checks_record [OF st(1)] assms(2) have "rec0 = rec" by simp
  with st(2) obtain s f where rec': "rec' = AList.update ''hashes'' (JObj [(''screens'', JStr s), (''frames'', JStr f)]) rec"
    by (auto simp: stamp_hashes_def ebind_Inr)
  have "plain_json (JObj rec')" unfolding rec' by (rule plain_update [OF assms(3)]) simp
  from loads_dumps [OF this] st(3) show ?thesis by (auto simp: rec' update_conv')
qed

text \<open>What has been stamped: every frame it names is in the index, and none of them is another screen's.\<close>

lemma stamp_gate_own:
  assumes "stamp_gate sid rec keys screens = Inr warn" "map_of rec ''verdict'' \<noteq> Some (JStr ''no-canvas'')" "k \<in> set keys"
  shows "owner_of screens k = None \<or> owner_of screens k = Some sid"
proof -
  from assms(1,2) have "sort (filter (\<lambda>k. owner_of screens k \<noteq> None \<and> owner_of screens k \<noteq> Some sid) keys) = []"
    by (auto simp: stamp_gate_def Let_def die_def split: if_splits)
  then have "set (sort (filter (\<lambda>k. owner_of screens k \<noteq> None \<and> owner_of screens k \<noteq> Some sid) keys)) = {}" by simp
  with assms(3) show ?thesis by auto
qed

section \<open>A picture of an earlier run\<close>

text \<open>When Chrome fails, the picture an earlier run left is taken for the new one.\<close>

lemma stale_picture:
  assumes "chrome_there tls" "shot tls (dict_or (files d) html []) dims = None" "map_of (files d) png = Some old"
  shows "chrome_shot tls html png dims d = (d, Inr ())"
  using assms by (simp add: chrome_shot_def is_file_def)

end
