(* ===== verification/Worked_Match.thy ===== *)
theory Worked_Match
  imports Match_Facts
begin

text \<open>
  \<open>design_match.py\<close> on small sources: the witnesses of its general theorems, and inputs on which it does not do what
  its comments say.
\<close>

definition demo_tools :: tools where
  "demo_tools = \<lparr>unescape = id, chrome_there = False, shot = (\<lambda>_ _. None)\<rparr>"

section \<open>A source with one phone\<close>

definition one_phone :: string where
  "one_phone = st_head ''A1'' ''B'' @ ''<div style=\"width:390px;height:844px\">x</div>''"

lemma one_phone_found: "dc_phones one_phone = [157]"
  by code_simp

lemma one_phone_framed:
  "dc_text_frames demo_tools one_phone (Some ''c9'') ''f'' = Inr [(''c9'', ''A1'', ''B'', ''<div style=\"width:390px;height:844px\">x</div>'')]"
  by code_simp

lemma phones_all_framed_witness:
  "\<exists>c did cap box. balanced_div one_phone 157 = Inr box
     \<and> (c, did, cap, dressed (dc_vars one_phone) box) \<in> {(''c9'', ''A1'', ''B'', ''<div style=\"width:390px;height:844px\">x</div>'')}"
  using phones_all_framed [OF one_phone_framed] by (simp add: one_phone_found)

text \<open>A phone bound by the template engine, under a header that is not: it is not skipped, the index stops.\<close>

definition bound_phone :: string where
  "bound_phone = st_head ''A1'' ''B'' @ (''<div style=\"width:390px;height:844px;color:'' @ ob @ ob @ '' c '' @ cb @ cb @ ''\">x</div>'')"

lemma bound_phone_stops: "dc_phones bound_phone = [] \<and> \<not> is_ok (dc_text_frames demo_tools bound_phone (Some ''c9'') ''f'')"
proof -
  have phones: "dc_phones bound_phone = []" by code_simp
  have heads: "map (\<lambda>(i, j, g). j) (dc_heads bound_phone) = [157]" by code_simp
  show ?thesis by (simp add: dc_text_frames_def Let_def phones heads die_def)
qed

section \<open>A row of the id table that is never found\<close>

text \<open>The row \<open>D1 (renamed)\<close> of 13 \<section>3.3: the whole cell is the key, but ids are looked up by their first word.\<close>

lemma renamed_row_unused:
  "let alias = alias_row [] ''| D1 (renamed) | S1.3 | Grouped scope sheet |''
   in map_of alias ''D1 (renamed)'' = Some ''S1.3'' \<and> doc_id ''D1'' alias = None \<and> doc_id ''D1 (renamed)'' alias = None"
  by code_simp

section \<open>A small mirror\<close>

definition demo_map :: string where
  "demo_map = (''### 3.3 Design '' @ [CHR 0xE2, CHR 0x86, CHR 0x94] @ '' doc id map'') @ [nl] @ ''| D | S |'' @ [nl] @ ''|--|--|'' @ [nl] @ ''| O1 | S0.1 |'' @ [nl, nl]"

definition demo_screens :: string where
  "demo_screens = (ob @ ''\"O1 a\":\"<div>x\",\"E2\":\"<div>y\"'' @ cb)"

definition demo_canvas :: disk where
  "demo_canvas = \<lparr>files = [(''/r/docs/13-ux-architecture.md'', demo_map),
     (''/r/design/canvas-mirror/partials/new-screens-a.json'', demo_screens)], others_there = [], stdout = [], stderr = []\<rparr>"

lemma demo_aliases: "design_aliases ''/r'' demo_canvas = Inr [(''O1'', ''S0.1'')]"
  by code_simp

lemma demo_frames:
  "all_frames demo_tools ''/r'' demo_canvas =
     Inr [(''na/O1 a/O1 a'', ''na'', ''O1 a'', ''O1 a'', ''<div>x''), (''na/E2/E2'', ''na'', ''E2'', ''E2'', ''<div>y'')]"
  by code_simp

definition demo_entry :: "string \<Rightarrow> string \<Rightarrow> string \<Rightarrow> json" where
  "demo_entry key did h = JObj [(''frame'', JStr key), (''design_id'', JStr did), (''caption'', JStr did), (''sha256'', JStr (sha256 h))]"

lemma demo_sorted:
  "sort_frames demo_tools ''/r'' demo_canvas =
     Inr ([(''S0.1'', [demo_entry ''na/O1 a/O1 a'' ''O1 a'' ''<div>x''])], [(''E2'', [demo_entry ''na/E2/E2'' ''E2'' ''<div>y''])])"
proof -
  have ids: "sid_of [(''O1'', ''S0.1'')] ''O1 a'' = Some ''S0.1''" "sid_of [(''O1'', ''S0.1'')] ''E2'' = None" "first_word ''E2'' = ''E2''"
    "valid_utf8 ''<div>x''" "valid_utf8 ''<div>y''"
    by code_simp+
  show ?thesis
    by (simp add: sort_frames_def demo_aliases demo_frames index_step_def index_entry_def sha_text_def ids dict_push_def dict_or_def demo_entry_def)
qed

lemma index_names_every_frame_witness:
  "distinct [''na/O1 a/O1 a'', ''na/E2/E2''] \<and>
   mset (held ([(''S0.1'', [demo_entry ''na/O1 a/O1 a'' ''O1 a'' ''<div>x''])], [(''E2'', [demo_entry ''na/E2/E2'' ''E2'' ''<div>y''])]))
     = {#demo_entry ''na/O1 a/O1 a'' ''O1 a'' ''<div>x'', demo_entry ''na/E2/E2'' ''E2'' ''<div>y''#}"
proof -
  have ids: "valid_utf8 ''<div>x''" "valid_utf8 ''<div>y''" by code_simp+
  have bases: "\<forall>kf \<in> set [(''na/O1 a/O1 a'', ''na'', ''O1 a'', ''O1 a'', ''<div>x''), (''na/E2/E2'', ''na'', ''E2'', ''E2'', ''<div>y'')].
      CHR ''#'' \<notin> set (frame_base (snd kf))" by (simp add: frame_base_def)
  from index_names_every_frame [OF demo_aliases demo_frames demo_sorted bases] show ?thesis
    by (auto simp: list_all2_Cons1 index_entry_def sha_text_def ids demo_entry_def)
qed

section \<open>A record that is stamped\<close>

definition demo_record :: string where "demo_record = (ob @ ''\"frames\":[\"k\"],\"screen_files\":[\"s.dart\"]'' @ cb)"
definition demo_index :: string where "demo_index = (ob @ ''\"screens\":'' @ ob @ ''\"S1\":['' @ ob @ ''\"frame\":\"k\",\"sha256\":\"ab\"'' @ cb @ '']'' @ cb @ '',\"variants\":'' @
       ob @ cb @ cb)"

definition demo_match :: disk where
  "demo_match = \<lparr>files = [(''/r/design/match/S1.json'', demo_record), (''/r/design/match/canvas-index.json'', demo_index), (''/r/s.dart'', ''x'')],
     others_there = [], stdout = [], stderr = []\<rparr>"

definition demo_rec :: "json dict" where
  "demo_rec = [(''frames'', JArr [JStr ''k'']), (''screen_files'', JArr [JStr ''s.dart''])]"

lemma demo_read: "read_json demo_match (record_path ''/r'' ''S1'') = Inr (JObj demo_rec)"
  by code_simp

lemma demo_checks: "stamp_checks ''/r'' ''S1'' demo_match = Inr (demo_rec, [JStr ''ab''], [])"
  by code_simp

lemma demo_stamped:
  "\<exists>d'. cmd_stamp ''/r'' [''S1''] demo_match = (d', Inr ())"
proof -
  have there: "map_of (files demo_match) (path_join ''/r'' ''s.dart'') = Some ''x''" by code_simp
  have "valid_utf8 (''s.dart'' @ [nl] @ sha256 ''x'' @ [nl])"
    by (rule valid_ascii) (simp add: sha256_ascii)
  then have screens: "screens_hash ''/r'' demo_match [''s.dart''] = Inr (sha256 (''s.dart'' @ [nl] @ sha256 ''x'' @ [nl]))"
    by (simp add: screens_hash_def screens_line_def there sha_text_def)
  have "valid_utf8 ''ab''" by code_simp
  then have frames: "frames_hash [''ab''] = Inr (sha256 ''ab'')" by (simp add: frames_hash_def sha_text_def)
  have texts: "as_texts (get_key ''screen_files'' demo_rec) = Inr [''s.dart'']" by code_simp
  have "stamp_hashes ''/r'' demo_match demo_rec [JStr ''ab''] =
      Inr (AList.update ''hashes'' (JObj [(''screens'', JStr (sha256 (''s.dart'' @ [nl] @ sha256 ''x'' @ [nl]))), (''frames'', JStr (sha256 ''ab''))]) demo_rec)"
    by (simp only: stamp_hashes_def texts screens frames ebind_simps emap.simps as_text_def json.case)
  then show ?thesis
    by (simp add: cmd_stamp_def Let_def demo_checks and_then_def print_lines_def ret_act_def write_text_def print_out_def)
qed

lemma stamp_reads_back_witness:
  "\<exists>d' s f t. cmd_stamp ''/r'' [''S1''] demo_match = (d', Inr ()) \<and> map_of (files d') (record_path ''/r'' ''S1'') = Some t
     \<and> loads t = Some (JObj [(''frames'', JArr [JStr ''k'']), (''screen_files'', JArr [JStr ''s.dart'']),
         (''hashes'', JObj [(''screens'', JStr s), (''frames'', JStr f)])])"
proof -
  obtain d' where d': "cmd_stamp ''/r'' [''S1''] demo_match = (d', Inr ())" using demo_stamped by blast
  have "plain_json (JObj demo_rec)" by code_simp
  from stamp_reads_back [OF d' demo_read this] d' show ?thesis by (auto simp: demo_rec_def)
qed

end
