(* ===== verification/Mirror_Extract.thy ===== *)
theory Mirror_Extract
  imports Json Disk Complex_Main
begin

text \<open>
  \<open>scripts/design_mirror_extract.py\<close>: the files a session fetched from the design project, recovered from its
  transcript and its saved tool results and written to the mirror.  Times are exact rationals.  From outside come the
  host's: the times of its files, its local zone and the text of a \<open>JSONDecodeError\<close>.  A file of the disk is named by
  its absolute path with every \<open>.\<close> and \<open>..\<close> taken out; the host has no links among its folders, a folder is known by
  the files below it, and the session's name has no wildcard.
\<close>

record host =
  home :: string                  \<comment> \<open>what \<open>~\<close> stands for\<close>
  repo :: string                  \<comment> \<open>the repository's folder\<close>
  mtime :: "string \<Rightarrow> rat"
  local_time :: "rat \<Rightarrow> rat"       \<comment> \<open>the timestamp of a time of day without a zone\<close>
  decode_text :: "string \<Rightarrow> string" \<comment> \<open>the text of the error \<open>json.load\<close> raises on a file\<close>

section \<open>The file a path names\<close>

definition path_parts :: "string \<Rightarrow> string list" where
  "path_parts p = filter (\<lambda>c. c \<noteq> [] \<and> c \<noteq> ''.'') (split_on (CHR ''/'') p)"

text \<open>The folders from the root down, the innermost first.\<close>

fun climb :: "string list \<Rightarrow> string list \<Rightarrow> string list" where
  "climb st [] = st"
| "climb st (c # cs) = climb (if c = ''..'' then drop 1 st else c # st) cs"

definition named :: "string list \<Rightarrow> string" where
  "named st = ''/'' @ join_str ''/'' (rev st)"

definition real_path :: "string \<Rightarrow> string" where
  "real_path p = named (climb [] (path_parts p))"

text \<open>\<open>os.makedirs(os.path.dirname(path), exist_ok=True)\<close>: no folder on the way may be a file.\<close>

definition make_folders :: "string \<Rightarrow> unit act" where
  "make_folders path = (\<lambda>d.
     let ps = filter (\<lambda>c. c \<noteq> [] \<and> c \<noteq> ''.'') (butlast (split_on (CHR ''/'') path))
     in (d, if CHR 0x00 \<in> set path then Inl (ValueError ''embedded null byte'')
            else if list_ex (\<lambda>k. map_of (files d) (named (climb [] (take k ps))) \<noteq> None) [0..<length ps + 1]
            then Inl (OSError path) else Inr ()))"

text \<open>\<open>open(path, "w")\<close>: the file is emptied; a folder cannot be opened.\<close>

definition open_to_write :: "string \<Rightarrow> unit act" where
  "open_to_write path = (\<lambda>d.
     if last (split_on (CHR ''/'') path) \<in> {[], ''.'', ''..''} \<or> list_ex (\<lambda>(g, t). starts_with (real_path path @ ''/'') g) (files d)
     then (d, Inl (OSError path))
     else write_text (real_path path) [] d)"

section \<open>The mirror's files\<close>

definition MIRROR_REPORTS :: "string list" where
  "MIRROR_REPORTS = [''DUPLICATES.md'', ''TRANSLATION-PENDING.md'', ''FLOW-RESTRUCTURE-REPORT.md'']"

definition MIRROR_SOURCES :: "string list" where
  "MIRROR_SOURCES = [''Canvas 17 - Reports and statements.dc.html'', ''reports-data.js'', ''Report Page.dc.html'']"

definition in_mirror_set :: "string \<Rightarrow> bool" where
  "in_mirror_set p =
     (p \<in> set MIRROR_REPORTS \<or> p \<in> set MIRROR_SOURCES \<or> p = ''Canvas 1b - Sign in.dc.html''
      \<or> starts_with ''partials/'' p \<or> (starts_with ''i18n-'' p \<and> ends_with ''.json'' p))"

text \<open>The newest envelope of each path, and the paths whose newest one was cut short.\<close>

record mirror =
  envelopes :: "(string \<times> json) list dict"
  truncated :: "string list"

text \<open>A path that is not a text has no \<open>startswith\<close>.\<close>

definition consider_env :: "json \<Rightarrow> mirror \<Rightarrow> error + mirror" where
  "consider_env env m =
     (case env of
        JObj ps \<Rightarrow>
          if map_of ps ''method'' \<noteq> Some (JStr ''get_file'') \<or> map_of ps ''content'' = None then Inr m
          else (case map_of ps ''path'' of
                  Some (JStr p) \<Rightarrow>
                    if \<not> in_mirror_set p then Inr m
                    else if truthy (get_key ''truncated'' ps) then Inr (m\<lparr>truncated := List.insert p (truncated m)\<rparr>)
                    else Inr (m\<lparr>envelopes := AList.update p ps (envelopes m), truncated := filter (\<lambda>q. q \<noteq> p) (truncated m)\<rparr>)
                | None \<Rightarrow> Inr m
                | Some _ \<Rightarrow> Inl (AttributeError ''startswith''))
      | _ \<Rightarrow> Inr m)"

text \<open>\<open>walk\<close>: every text inside a value, in order, that is an envelope.\<close>

fun texts :: "json \<Rightarrow> string list" where
  "texts (JStr s) = [s]"
| "texts (JArr xs) = concat (map texts xs)"
| "texts (JObj ps) = concat (map (\<lambda>(k, v). texts v) ps)"
| "texts _ = []"

definition walk_text :: "mirror \<Rightarrow> string \<Rightarrow> error + mirror" where
  "walk_text m s =
     (let s = strip s in
      if starts_with (([CHR 0x7B]) @ ''\"method\":\"get_file\"'') s
      then (case loads s of None \<Rightarrow> Inr m | Some env \<Rightarrow> consider_env env m) else Inr m)"

definition walk :: "json \<Rightarrow> mirror \<Rightarrow> error + mirror" where
  "walk x m = efold walk_text m (texts x)"

section \<open>Times\<close>

text \<open>\<open>datetime.fromisoformat\<close>: a date, and after any character a time with a zone.\<close>

definition clock_part :: "string \<Rightarrow> rat option" where   \<comment> \<open>HH[:MM[:SS[.fff[fff]]]], in seconds\<close>
  "clock_part s =
     (case re_match (Seq [Grp 1 (Seq [Cls is_digit, Cls is_digit]), Opt (Grp 2 (Seq [Lit '':'', Grp 3 (Seq [Cls is_digit, Cls is_digit]), Opt (Grp 4 (Seq [Lit '':'', Grp 5 (Seq [Cls is_digit, Cls is_digit]), Opt (Grp 6 (Seq [Lit ''.'', Grp 7 (Seq [Cls is_digit, Cls is_digit, Cls is_digit, Alt (Seq []) (Seq [Cls is_digit, Cls is_digit, Cls is_digit])])]))]))])), Eol]) s of
        None \<Rightarrow> None
      | Some g \<Rightarrow>
          let f = grp g 7; us = int_of_digits f * (if length f = 3 then 1000 else 1)
          in Some (of_int (3600 * int_of_digits (grp g 1) + 60 * int_of_digits (grp g 3) + int_of_digits (grp g 5)) + of_int us / 1000000))"

definition in_range :: "string \<Rightarrow> bool" where   \<comment> \<open>the hours, minutes and seconds of a time of day\<close>
  "in_range s = (int_of_digits (take 2 s) < 24 \<and> int_of_digits (take 2 (drop 3 s)) < 60 \<and> int_of_digits (take 2 (drop 6 s)) < 60)"

definition zone_at :: "string \<Rightarrow> nat option" where
  "zone_at s = (let p = length (takeWhile (\<lambda>c. c \<noteq> CHR ''-'') s); q = length (takeWhile (\<lambda>c. c \<noteq> CHR ''+'') s)
     in if p < length s then Some p else if q < length s then Some q else None)"

definition clock_and_zone :: "string \<Rightarrow> (rat \<times> rat option) option" where
  "clock_and_zone s =
     (case zone_at s of
        None \<Rightarrow> (case clock_part s of Some t \<Rightarrow> if in_range s then Some (t, None) else None | None \<Rightarrow> None)
      | Some k \<Rightarrow>
          let z = drop (k + 1) s in
          if length z \<notin> set [5, 8, 15] then None
          else (case (clock_part (take k s), clock_part z) of
                  (Some t, Some off) \<Rightarrow>
                    if in_range (take k s) \<and> off < 86400 then Some (t, Some (if s ! k = CHR ''-'' then - off else off)) else None
                | _ \<Rightarrow> None))"

definition iso_stamp :: "host \<Rightarrow> string \<Rightarrow> rat option" where
  "iso_stamp h s =
     (case re_match (Seq [Grp 1 (Seq [Cls is_digit, Cls is_digit, Cls is_digit, Cls is_digit]), Lit ''-'', Grp 2 (Seq [Cls is_digit, Cls is_digit]), Lit ''-'', Grp 3 (Seq [Cls is_digit, Cls is_digit])]) s of
        None \<Rightarrow> None
      | Some g \<Rightarrow>
          let d = Date (int_of_digits (grp g 1)) (int_of_digits (grp g 2)) (int_of_digits (grp g 3));
              days = of_int (86400 * (toordinal d - toordinal (Date 1970 1 1)))
          in if \<not> (valid_date d \<and> 1 \<le> year d) then None
             else if length s = 10 then Some (local_time h days)
             else (case clock_and_zone (drop 11 s) of
                     None \<Rightarrow> None
                   | Some (t, None) \<Rightarrow> Some (local_time h (days + t))
                   | Some (t, Some z) \<Rightarrow> Some (days + t - z)))"

definition line_time :: "host \<Rightarrow> json \<Rightarrow> error + rat option" where
  "line_time h obj =
     (case obj of
        JObj ps \<Rightarrow> Inr (case map_of ps ''timestamp'' of Some (JStr ts) \<Rightarrow> iso_stamp h (str_replace ''Z'' ''+00:00'' ts) | _ \<Rightarrow> None)
      | _ \<Rightarrow> Inl (AttributeError ''get''))"

text \<open>\<open>float(s)\<close> of a decimal number.\<close>

definition py_float :: "string \<Rightarrow> rat option" where
  "py_float s =
     (case re_match (Seq [Grp 1 (Opt (Cls (among ''+-''))), Grp 2 (Many (Cls is_digit)), Opt (Grp 3 (Seq [Lit ''.'', Grp 4 (Many (Cls is_digit))])), Opt (Grp 5 (Seq [Cls (among ''eE''), Grp 6 (Opt (Cls (among ''+-''))), Grp 7 (Some_of (Cls is_digit))])), Eol]) (strip s) of
        None \<Rightarrow> None
      | Some g \<Rightarrow>
          if grp g 2 = [] \<and> grp g 4 = [] then None
          else let n = int_of_digits (grp g 2 @ grp g 4); e = int_of_digits (grp g 7);
                   e = (if grp g 6 = ''-'' then - e else e) - int (length (grp g 4));
                   v = of_int n * (if 0 \<le> e then 10 ^ nat e else 1 / 10 ^ nat (- e))
               in Some (if grp g 1 = ''-'' then - v else v))"

section \<open>What the session left\<close>

datatype payload = Walk json | File string

definition NEEDLE :: string where
  "NEEDLE = ''\"method\":\"get_file\"''"

definition transcript_line :: "host \<Rightarrow> nat \<times> (rat \<times> payload) list \<Rightarrow> string \<Rightarrow> error + nat \<times> (rat \<times> payload) list" where
  "transcript_line h st row =
     (case st of (k, timed) \<Rightarrow>
        if \<not> contains_sub NEEDLE row then Inr (k + 1, timed)
        else (case loads row of
                None \<Rightarrow> Inr (k + 1, timed)
              | Some obj \<Rightarrow>
                  ebind (line_time h obj) (\<lambda>t.
                  Inr (k + 1, timed @ [(case t of None \<Rightarrow> of_nat k | Some t \<Rightarrow> if t = 0 then of_nat k else t, Walk obj)]))))"

definition transcript_entries :: "host \<Rightarrow> string \<Rightarrow> error + (rat \<times> payload) list" where
  "transcript_entries h t = ebind (efold (transcript_line h) (0, []) (file_lines t)) (\<lambda>st. Inr (snd st))"

definition glob_txt :: "string \<Rightarrow> disk \<Rightarrow> string list" where   \<comment> \<open>\<open>glob.glob(dir/*.txt)\<close>\<close>
  "glob_txt dir d =
     filter (\<lambda>f. starts_with (dir @ ''/'') f \<and> ends_with ''.txt'' f
                 \<and> (let n = drop (length dir + 1) f in CHR ''/'' \<notin> set n \<and> take 1 n \<noteq> ''.'')) (map fst (files d))"

definition consider_file :: "disk \<Rightarrow> mirror \<Rightarrow> string \<Rightarrow> error + mirror" where
  "consider_file d m f =
     (case decoded (dict_or (files d) f []) of
        Inl _ \<Rightarrow> Inr m
      | Inr t \<Rightarrow> (case loads t of None \<Rightarrow> Inr m | Some env \<Rightarrow> consider_env env m))"

definition consider_entry :: "disk \<Rightarrow> rat \<Rightarrow> mirror \<Rightarrow> rat \<times> payload \<Rightarrow> error + mirror" where
  "consider_entry d since m e =
     (if fst e < since then Inr m
      else case snd e of Walk obj \<Rightarrow> walk obj m | File f \<Rightarrow> consider_file d m f)"

definition no_mirror :: mirror where
  "no_mirror = \<lparr>envelopes = [], truncated = []\<rparr>"

definition consider_all :: "disk \<Rightarrow> rat \<Rightarrow> (rat \<times> payload) list \<Rightarrow> error + mirror" where
  "consider_all d since es = efold (consider_entry d since) no_mirror (sort_key fst es)"

section \<open>Writing\<close>

text \<open>\<open>base64.b64decode\<close> of a text: what is not of the alphabet is passed over.\<close>

definition b64_value :: "char \<Rightarrow> nat option" where
  "b64_value c = (let n = of_char c in
     if 65 \<le> n \<and> n \<le> 90 then Some (n - 65) else if 97 \<le> n \<and> n \<le> 122 then Some (n - 71)
     else if 48 \<le> n \<and> n \<le> 57 then Some (n + 4) else if c = CHR ''+'' then Some 62 else if c = CHR ''/'' then Some 63 else None)"

fun b64_loop :: "nat \<Rightarrow> nat \<Rightarrow> nat \<Rightarrow> string \<Rightarrow> string option" where
  "b64_loop quad left pads [] = (if quad = 0 then Some [] else None)"
| "b64_loop quad left pads (c # s) =
     (if c = CHR ''=''
      then (if 2 \<le> quad \<and> 4 \<le> quad + (pads + 1) then Some [] else b64_loop quad left (if 2 \<le> quad then pads + 1 else pads) s)
      else case b64_value c of
        None \<Rightarrow> b64_loop quad left pads s
      | Some v \<Rightarrow>
          if quad = 0 then b64_loop 1 v 0 s
          else if quad = 1 then map_option ((#) (char_of (left * 4 + v div 16))) (b64_loop 2 (v mod 16) 0 s)
          else if quad = 2 then map_option ((#) (char_of (left * 16 + v div 4))) (b64_loop 3 (v mod 4) 0 s)
          else map_option ((#) (char_of (left * 64 + v))) (b64_loop 0 0 0 s))"

definition b64decode :: "json \<Rightarrow> error + string" where
  "b64decode j =
     (case j of
        JStr s \<Rightarrow> if list_all (\<lambda>c. (of_char c :: nat) < 128) s
                  then (case b64_loop 0 0 0 s of None \<Rightarrow> Inl (ValueError ''Incorrect padding'') | Some t \<Rightarrow> Inr t)
                  else Inl (ValueError ''string argument should contain only ASCII characters'')
      | _ \<Rightarrow> Inl (TypeError ''argument should be a bytes-like object or ASCII string''))"

definition text_content :: "json \<Rightarrow> error + string" where   \<comment> \<open>what \<open>f.write\<close> takes, encoded as UTF-8\<close>
  "text_content j =
     (case j of
        JStr s \<Rightarrow> if valid_utf8 s then Inr s else Inl (ValueError ''utf-8'')
      | _ \<Rightarrow> Inl (TypeError ''write() argument must be str''))"

definition env_content :: "(string \<times> json) list \<Rightarrow> error + string" where
  "env_content ps = (if truthy (get_key ''isBase64'' ps) then b64decode (get_key ''content'' ps) else text_content (get_key ''content'' ps))"

text \<open>One file: it is emptied when it is opened; a \<open>.json\<close> that does not parse goes to the bad ones.  What is
  opened is what the joined path names, which a \<open>..\<close> of the fetched path can move out of the mirror.\<close>

definition write_mirror :: "host \<Rightarrow> string \<Rightarrow> string list \<times> string list \<Rightarrow> string \<times> (string \<times> json) list \<Rightarrow> (string list \<times> string list) act" where
  "write_mirror h mir st e =
     (case st of (wrote, bad) \<Rightarrow>
        let p = fst e; target = path_join mir p in
        and_then (make_folders target) (\<lambda>_.
        and_then (open_to_write target) (\<lambda>_.
        and_then (raising (env_content (snd e))) (\<lambda>txt.
        and_then (write_text (real_path target) txt) (\<lambda>_.
        and_then (if ends_with ''.json'' target then raising (ebind (decoded txt) (\<lambda>t. Inr (loads t = None))) else ret_act False) (\<lambda>broken.
        ret_act (if broken then (wrote, bad @ [(p @ '': '' @ (decode_text h txt))])
                 else (wrote @ [(p @ '' ('' @ (str_int (int (length txt))) @ '' bytes)'')], bad))))))))"

section \<open>The script\<close>

definition MIRROR_DOC :: string where
  "MIRROR_DOC = join_str [nl] [
     (''design_mirror_extract.py '' @ u_emdash @ '' write DesignSync get_file results into design/canvas-mirror/.''),
     [],
     ''Used by /design-pull (.claude/commands/design-pull.md). After the main session has'',
     ''fetched the mirror-set files with DesignSync get_file, this script recovers every'',
     (''result byte-exact '' @ u_emdash @ '' inline results from the session transcript, large results from''),
     (''the persisted tool-results directory '' @ u_emdash @ '' and writes each to the mirror by its''),
     ''project-relative path. Later occurrences of a path win. Truncated results'',
     ''(content > 256 KiB) are reported, never written.'',
     [],
     ''Usage: python3 scripts/design_mirror_extract.py <session-id> [--since <unix-ts>]'',
     [],
     ([CHR 0xE2, CHR 0x9A, CHR 0xA0] @ [CHR 0xEF, CHR 0xB8, CHR 0x8F] @ '' Overwrites mirror files with the newest fetched copy per path '' @
       u_emdash @ '' run it only right''),
     ''after fetching; earlier fetches in the same session are superseded by time order.'',
     ''       (session id = the Claude Code session UUID; its transcript lives at'',
     ''        ~/.claude/projects/-Users-office-Github-rukka-folio/<session-id>.jsonl)'',
     []]"

definition since_arg :: "string list \<Rightarrow> error + rat" where
  "since_arg argv =
     (if ''--since'' \<notin> set argv then Inr 0
      else (let k = length (takeWhile (\<lambda>a. a \<noteq> ''--since'') argv) + 1
            in if length argv \<le> k then Inl (IndexError ''list index out of range'')
               else case py_float (argv ! k) of None \<Rightarrow> Inl (ValueError ''could not convert string to float'') | Some t \<Rightarrow> Inr t))"

definition SESSION_DIR :: "host \<Rightarrow> string" where
  "SESSION_DIR h = path_join (home h) ''.claude/projects/-Users-office-Github-rukka-folio''"

definition TRANSCRIPT :: "host \<Rightarrow> string \<Rightarrow> string" where
  "TRANSCRIPT h sid = path_join (SESSION_DIR h) (sid @ ''.jsonl'')"

definition RESULTS_DIR :: "host \<Rightarrow> string \<Rightarrow> string" where
  "RESULTS_DIR h sid = path_join (path_join (SESSION_DIR h) sid) ''tool-results''"

definition MIRROR :: "host \<Rightarrow> string" where
  "MIRROR h = path_join (path_join (repo h) ''design'') ''canvas-mirror''"

definition recovered :: "host \<Rightarrow> string \<Rightarrow> rat \<Rightarrow> disk \<Rightarrow> error + mirror" where
  "recovered h sid since d =
     ebind (dict_or (map (\<lambda>(k, t). (k, Inr t)) (files d)) (real_path (TRANSCRIPT h sid)) (Inl (FileNotFoundError (TRANSCRIPT h sid)))) (\<lambda>raw.
     ebind (decoded raw) (\<lambda>t.
     ebind (transcript_entries h t) (\<lambda>es.
     consider_all d since (es @ map (\<lambda>f. (mtime h f, File f)) (glob_txt (real_path (RESULTS_DIR h sid)) d)))))"

definition report_mirror :: "mirror \<Rightarrow> string list \<times> string list \<Rightarrow> int act" where
  "report_mirror m wb =
     (case wb of (wrote, bad) \<Rightarrow>
        and_then (print_lines ([(''WROTE '' @ (str_int (int (length wrote))) @ '' files:'')] @ map ((@) ''  '') wrote
           @ (if truncated m = [] then [] else [''TRUNCATED (over the 256 KiB API cap, not written):''] @ map ((@) ''  '') (sort (truncated m)))
           @ (if bad = [] then [] else [''INVALID JSON:''] @ map ((@) ''  '') bad))) (\<lambda>_.
        ret_act (if bad = [] then 0 else 1)))"

definition mirror_run :: "host \<Rightarrow> string \<Rightarrow> rat \<Rightarrow> int act" where
  "mirror_run h sid since =
     and_then (\<lambda>d. (d, recovered h sid since d)) (\<lambda>m.
     and_then (fold_acts (write_mirror h (MIRROR h)) ([], []) (sort_key fst (envelopes m))) (\<lambda>wb.
     report_mirror m wb))"

definition mirror_main :: "host \<Rightarrow> string list \<Rightarrow> int act" where
  "mirror_main h argv =
     (if length argv < 2 then raising (Inl (SystemExit MIRROR_DOC))
      else and_then (raising (since_arg argv)) (mirror_run h (argv ! 1)))"

end
