(* ===== verification/Mirror_Facts.thy ===== *)
theory Mirror_Facts
  imports Mirror_Extract
begin

text \<open>
  What \<open>design_mirror_extract.py\<close> promises: only files that paths of the mirror set name are touched, and of each path
  the newest copy fetched in full is the one written.  Also where it does less than it says, or more.
\<close>

section \<open>The envelopes, in the order they are considered\<close>

lemma efold_concat: "efold (\<lambda>m e. efold f m (g e)) m es = efold f m (concat (map g es))"
  by (induction es arbitrary: m) (simp_all add: efold_append)

text \<open>The envelopes an entry of the session holds.\<close>

definition parsed :: "string \<Rightarrow> json list" where
  "parsed s = (case loads s of None \<Rightarrow> [] | Some env \<Rightarrow> [env])"

definition text_envelopes :: "string \<Rightarrow> json list" where
  "text_envelopes s = (let s = strip s in if starts_with (([CHR 0x7B]) @ ''\"method\":\"get_file\"'') s then parsed s else [])"

definition entry_envelopes :: "disk \<Rightarrow> rat \<Rightarrow> rat \<times> payload \<Rightarrow> json list" where
  "entry_envelopes d since e =
     (if fst e < since then []
      else case snd e of
        Walk obj \<Rightarrow> concat (map text_envelopes (texts obj))
      | File f \<Rightarrow> (case decoded (dict_or (files d) f []) of Inl _ \<Rightarrow> [] | Inr t \<Rightarrow> parsed t))"

abbreviation considered :: "mirror \<Rightarrow> json list \<Rightarrow> error + mirror" where
  "considered \<equiv> efold (\<lambda>m env. consider_env env m)"

lemma efold_parsed: "considered m (parsed s) = (case loads s of None \<Rightarrow> Inr m | Some env \<Rightarrow> consider_env env m)"
  by (auto simp: parsed_def ebind_def split: option.splits sum.splits)

lemma walk_envelopes: "walk x m = considered m (concat (map text_envelopes (texts x)))"
proof -
  have "walk_text m s = considered m (text_envelopes s)" for m s
    by (simp add: walk_text_def text_envelopes_def Let_def efold_parsed)
  then have walk_text: "walk_text = (\<lambda>m s. considered m (text_envelopes s))" by (intro ext)
  show ?thesis unfolding walk_def walk_text by (rule efold_concat)
qed

lemma consider_entry_envelopes: "consider_entry d since m e = considered m (entry_envelopes d since e)"
  by (simp add: consider_entry_def entry_envelopes_def walk_envelopes consider_file_def efold_parsed split: payload.splits sum.splits)

lemma consider_all_envelopes:
  "consider_all d since es = considered no_mirror (concat (map (entry_envelopes d since) (sort_key fst es)))"
proof -
  have "consider_entry d since = (\<lambda>m e. considered m (entry_envelopes d since e))"
    by (intro ext) (rule consider_entry_envelopes)
  then show ?thesis by (simp add: consider_all_def efold_concat)
qed

section \<open>The newest copy\<close>

text \<open>An envelope of the file at \<open>p\<close>, if it is one; whether it was cut short.\<close>

definition fetch_of :: "string \<Rightarrow> json \<Rightarrow> (string \<times> json) list option" where
  "fetch_of p env =
     (case env of
        JObj ps \<Rightarrow> if map_of ps ''method'' = Some (JStr ''get_file'') \<and> map_of ps ''content'' \<noteq> None
                     \<and> map_of ps ''path'' = Some (JStr p) \<and> in_mirror_set p then Some ps else None
      | _ \<Rightarrow> None)"

definition cut_short :: "(string \<times> json) list \<Rightarrow> bool" where
  "cut_short ps = truthy (get_key ''truncated'' ps)"

lemma consider_step:
  assumes "consider_env env m = Inr m'"
  shows "map_of (envelopes m') p = (case fetch_of p env of Some ps \<Rightarrow> if cut_short ps then map_of (envelopes m) p else Some ps | None \<Rightarrow> map_of (envelopes m) p)"
    and "p \<in> set (truncated m') \<longleftrightarrow> (case fetch_of p env of Some ps \<Rightarrow> cut_short ps | None \<Rightarrow> p \<in> set (truncated m))"
  using assms
  by (auto simp: consider_env_def fetch_of_def cut_short_def update_conv' split: json.splits if_splits option.splits)

definition fetches :: "string \<Rightarrow> json list \<Rightarrow> (string \<times> json) list list" where
  "fetches p envs = List.map_filter (fetch_of p) envs"

lemma fetches_snoc: "fetches p (envs @ [env]) = fetches p envs @ (case fetch_of p env of None \<Rightarrow> [] | Some ps \<Rightarrow> [ps])"
  by (simp add: fetches_def map_filter_def split: option.splits)

lemma considered_newest:
  assumes "considered no_mirror envs = Inr m"
  shows "map_of (envelopes m) p = (case filter (\<lambda>ps. \<not> cut_short ps) (fetches p envs) of [] \<Rightarrow> None | xs \<Rightarrow> Some (last xs))"
    and "p \<in> set (truncated m) \<longleftrightarrow> fetches p envs \<noteq> [] \<and> cut_short (last (fetches p envs))"
proof -
  have "map_of (envelopes m) p = (case filter (\<lambda>ps. \<not> cut_short ps) (fetches p envs) of [] \<Rightarrow> None | xs \<Rightarrow> Some (last xs))
      \<and> (p \<in> set (truncated m) \<longleftrightarrow> fetches p envs \<noteq> [] \<and> cut_short (last (fetches p envs)))"
    using assms
  proof (induction envs arbitrary: m rule: rev_induct)
    case Nil
    then show ?case by (auto simp: no_mirror_def fetches_def map_filter_def)
  next
    case (snoc env envs)
    then obtain m0 where m0: "considered no_mirror envs = Inr m0" "consider_env env m0 = Inr m"
      by (auto simp: efold_append ebind_Inr)
    from snoc.IH [OF m0(1)] consider_step [OF m0(2)] show ?case
      by (simp add: fetches_snoc split: option.splits list.splits)
  qed
  then show "map_of (envelopes m) p = (case filter (\<lambda>ps. \<not> cut_short ps) (fetches p envs) of [] \<Rightarrow> None | xs \<Rightarrow> Some (last xs))"
    "p \<in> set (truncated m) \<longleftrightarrow> fetches p envs \<noteq> [] \<and> cut_short (last (fetches p envs))" by blast+
qed

text \<open>C25. Of every path, the copy kept is the newest that was not cut short, in the order of the times
  at which the session fetched them, whatever the order the transcript and the result files are found in; a path
  is reported as cut short exactly when its newest copy is.\<close>

theorem newest_copy_wins:
  assumes "consider_all d since es = Inr m"
  defines "envs \<equiv> concat (map (entry_envelopes d since) (sort_key fst es))"
  shows "map_of (envelopes m) p = (case filter (\<lambda>ps. \<not> cut_short ps) (fetches p envs) of [] \<Rightarrow> None | xs \<Rightarrow> Some (last xs))
     \<and> (p \<in> set (truncated m) \<longleftrightarrow> fetches p envs \<noteq> [] \<and> cut_short (last (fetches p envs)))"
  using considered_newest [of envs m p] assms(1) unfolding consider_all_envelopes envs_def by blast

section \<open>Only the mirror's files\<close>

definition set_only :: "mirror \<Rightarrow> bool" where
  "set_only m = list_all (\<lambda>e. in_mirror_set (fst e)) (envelopes m)"

lemma update_keys: "list_all (\<lambda>e. P (fst e)) al \<Longrightarrow> P k \<Longrightarrow> list_all (\<lambda>e. P (fst e)) (AList.update k v al)"
  by (induction al) auto

lemma consider_set_only: "set_only m \<Longrightarrow> consider_env env m = Inr m' \<Longrightarrow> set_only m'"
  by (auto simp: consider_env_def set_only_def update_keys split: json.splits if_splits option.splits)

lemma consider_all_set_only: "consider_all d since es = Inr m \<Longrightarrow> set_only m"
  unfolding consider_all_envelopes
  by (erule efold_invariant) (auto intro: consider_set_only [unfolded set_only_def] simp: set_only_def no_mirror_def)

lemma keeps_folders: "keeps P (make_folders path)"
  by (simp add: keeps_def make_folders_def Let_def)

lemma keeps_open: "\<not> P (real_path path) \<Longrightarrow> keeps P (open_to_write path)"
  using keeps_write [of P "real_path path"] by (simp add: keeps_def open_to_write_def)

lemma keeps_write_mirror:
  "\<not> P (real_path (path_join mir (fst e))) \<Longrightarrow> keeps P (write_mirror h mir st e)"
  unfolding write_mirror_def Let_def
  by (cases st) (auto intro!: keeping keeps_write keeps_folders keeps_open)

lemma keeps_report: "keeps P (report_mirror m wb)"
  unfolding report_mirror_def print_lines_def
  by (cases wb) (auto intro!: keeping keeps_fold)

text \<open>A file the run changes is one of the recovered paths' files.\<close>

lemma mirror_run_changes:
  assumes "map_of (files (fst (mirror_run h sid since d))) f \<noteq> map_of (files d) f"
  shows "\<exists>m p. recovered h sid since d = Inr m \<and> p \<in> set (map fst (envelopes m)) \<and> f = real_path (path_join (MIRROR h) p)"
proof (cases "recovered h sid since d")
  case (Inr m)
  let ?P = "\<lambda>f. \<forall>p \<in> set (map fst (envelopes m)). f \<noteq> real_path (path_join (MIRROR h) p)"
  have "keeps ?P (and_then (fold_acts (write_mirror h (MIRROR h)) ([], []) (sort_key fst (envelopes m))) (report_mirror m))"
    by (intro keeping keeps_report keeps_fold keeps_write_mirror) auto
  with assms Inr show ?thesis by (auto simp: keeps_def and_then_def mirror_run_def)
qed (use assms in \<open>simp add: and_then_def mirror_run_def\<close>)

text \<open>A path of the mirror set without a \<open>..\<close> stays below the mirror.\<close>

lemma climb_append: "climb st (xs @ ys) = climb (climb st xs) ys"
  by (induction xs arbitrary: st) simp_all

lemma climb_down: "''..'' \<notin> set cs \<Longrightarrow> climb st cs = rev cs @ st"
  by (induction cs arbitrary: st) auto

lemma split_on_slash: "split_on c (s @ c # t) = split_on c s @ split_on c t"
  by (induction s) (auto split: list.splits)

lemma join_str_append: "xs \<noteq> [] \<Longrightarrow> ys \<noteq> [] \<Longrightarrow> join_str sep (xs @ ys) = join_str sep xs @ sep @ join_str sep ys"
proof (induction sep xs rule: join_str.induct)
  case (2 sep x)
  then show ?case by (cases ys) simp_all
qed simp_all

lemma set_path_parts:
  assumes "in_mirror_set p" shows "path_parts p \<noteq> [] \<and> \<not> starts_with ''/'' p"
proof -
  from assms obtain c q where p: "p = c # q" "c \<noteq> CHR ''/''" "c \<noteq> CHR ''.''"
    by (auto simp: in_mirror_set_def MIRROR_REPORTS_def MIRROR_SOURCES_def starts_with_prefix)
  then obtain x where "hd (split_on (CHR ''/'') p) = c # x" by (cases "split_on (CHR ''/'') q") auto
  then have "c # x \<in> set (path_parts p)"
    using p(3) hd_in_set [of "split_on (CHR ''/'') p"] by (auto simp: path_parts_def)
  with p show ?thesis by auto
qed

lemma mirror_inside:
  assumes "in_mirror_set p" "''..'' \<notin> set (split_on (CHR ''/'') p)"
  shows "starts_with (real_path (MIRROR h) @ ''/'') (real_path (path_join (MIRROR h) p))"
proof -
  have M: "\<not> ends_with ''/'' (MIRROR h)" "MIRROR h \<noteq> []" by (auto simp: MIRROR_def path_join_def ends_with_def)
  have parts: "path_parts (path_join (MIRROR h) p) = path_parts (MIRROR h) @ path_parts p"
    using M set_path_parts [OF assms(1)] by (simp add: path_join_def path_parts_def split_on_slash)
  have "path_parts (MIRROR h) = path_parts (path_join (repo h) ''design'') @ [''canvas-mirror'']"
  proof -
    have "\<not> ends_with ''/'' (path_join (repo h) ''design'')" "path_join (repo h) ''design'' \<noteq> []"
      by (auto simp: path_join_def ends_with_def)
    then have "MIRROR h = path_join (repo h) ''design'' @ CHR ''/'' # ''canvas-mirror''" by (simp add: MIRROR_def path_join_def)
    then show ?thesis by (simp add: path_parts_def split_on_slash)
  qed
  then have st: "climb [] (path_parts (MIRROR h)) \<noteq> []" by (simp add: climb_append)
  have "''..'' \<notin> set (path_parts p)" using assms(2) by (simp add: path_parts_def)
  then have "real_path (path_join (MIRROR h) p)
      = ''/'' @ join_str ''/'' (rev (climb [] (path_parts (MIRROR h))) @ path_parts p)"
    by (simp add: real_path_def named_def parts climb_append climb_down)
  also have "... = real_path (MIRROR h) @ ''/'' @ join_str ''/'' (path_parts p)"
    using st set_path_parts [OF assms(1)] by (simp add: real_path_def named_def join_str_append)
  finally show ?thesis by (simp add: starts_with_prefix)
qed

text \<open>C26. Whatever the session holds and however the run ends, every file the run creates or
  changes is the one a recovered path of the mirror set names below \<open>design/canvas-mirror\<close>; when that path has no \<open>..\<close>
  the file stays in the folder.  (With a \<open>..\<close> it need not: see \<open>mirror_escapes\<close>.)\<close>

theorem mirror_keeps_the_rest:
  assumes "map_of (files (fst (mirror_main h argv d))) f \<noteq> map_of (files d) f"
  shows "\<exists>since m p. since_arg argv = Inr since \<and> recovered h (argv ! 1) since d = Inr m
     \<and> p \<in> set (map fst (envelopes m)) \<and> in_mirror_set p \<and> f = real_path (path_join (MIRROR h) p)
     \<and> (''..'' \<notin> set (split_on (CHR ''/'') p) \<longrightarrow> starts_with (real_path (MIRROR h) @ ''/'') f)"
proof -
  from assms obtain since where since: "since_arg argv = Inr since"
    "map_of (files (fst (mirror_run h (argv ! 1) since d))) f \<noteq> map_of (files d) f"
    by (auto simp: mirror_main_def and_then_def raising_def split: if_splits sum.splits)
  from mirror_run_changes [OF since(2)] obtain m p where m: "recovered h (argv ! 1) since d = Inr m"
    and p: "p \<in> set (map fst (envelopes m))" "f = real_path (path_join (MIRROR h) p)" by blast
  from m have "set_only m" by (auto simp: recovered_def ebind_Inr intro: consider_all_set_only)
  with p(1) have "in_mirror_set p" by (auto simp: set_only_def list_all_iff)
  with since(1) m p mirror_inside show ?thesis by blast
qed

section \<open>A result inside a text of the transcript\<close>

text \<open>A line of a transcript in which the result of a tool is a text.\<close>

definition result_line :: "string \<Rightarrow> string" where
  "result_line t = (([CHR 0x7B]) @ ''\"type\":\"user\",\"message\":'' @ ([CHR 0x7B]) @ ''\"content\":['' @ ([CHR 0x7B]) @ ''\"type\":\"tool_result\",\"content\":'') @ json_str t @ (([CHR 0x7D]) @ '']'' @ ([CHR 0x7D, CHR 0x7D]))"

text \<open>Nowhere a \<open>d\<close>, a quote and a colon.\<close>

fun no_key :: "char \<Rightarrow> string \<Rightarrow> bool" where
  "no_key p [] = True"
| "no_key p (c # s) = (\<not> (p = CHR ''d'' \<and> c = quote \<and> take 1 s = '':'') \<and> no_key c s)"

lemma no_key_suffix: "no_key p (u @ v) \<Longrightarrow> \<exists>q. no_key q v"
  by (induction u arbitrary: p) auto

lemma no_key_needle: "no_key p s \<Longrightarrow> \<not> contains_sub NEEDLE s"
proof
  assume s: "no_key p s" "contains_sub NEEDLE s"
  then obtain u v where "s = u @ NEEDLE @ v" by (auto simp: contains_sub_iff)
  with s(1) obtain q where "no_key q (NEEDLE @ v)" using no_key_suffix by blast
  then show False by (simp add: NEEDLE_def quote_def)
qed

lemma no_key_escape:
  assumes "\<And>q. no_key q r"
  shows "no_key q (escape_char c @ r)"
proof -
  have hex: "''0123456789abcdef'' ! k \<noteq> quote" if "k < 16" for k
  proof -
    have "list_all (\<lambda>k. ''0123456789abcdef'' ! k \<noteq> quote) [0..<16]" by code_simp
    with that show ?thesis by (simp add: list_all_iff)
  qed
  have "no_key q ([c] @ r)" if "c \<noteq> quote" using that assms by simp
  moreover have "no_key q ([backslash, x] @ r)" for x using assms by (simp add: backslash_def quote_def)
  moreover have "no_key q ([backslash] @ ''u00'' @ [''0123456789abcdef'' ! (of_char c div 16), ''0123456789abcdef'' ! (of_char c mod 16)] @ r)"
    if "(of_char c :: nat) < 32"
    using that assms hex [of "of_char c div 16"] hex [of "of_char c mod 16"] by (simp add: backslash_def)
  ultimately show ?thesis
    by (simp add: escape_char_def Let_def split: option.splits)
qed

lemma no_key_string: "(\<And>q. no_key q r) \<Longrightarrow> take 1 r \<noteq> '':'' \<Longrightarrow> no_key q (concat (map escape_char t) @ quote # r)"
  by (induction t arbitrary: q) (simp_all add: no_key_escape)

text \<open>The filter of the lines looks for the key as it stands outside a text; inside one its quotes are escaped, so
  a result the transcript keeps only as a text is passed over.\<close>

theorem inline_result_skipped: "transcript_line h (k, timed) (result_line t) = Inr (k + 1, timed)"
proof -
  have "no_key q (([CHR 0x7D]) @ '']'' @ ([CHR 0x7D, CHR 0x7D]))" for q by (simp add: quote_def)
  from no_key_string [OF this, of _ t] have "no_key q (json_str t @ (([CHR 0x7D]) @ '']'' @ ([CHR 0x7D, CHR 0x7D])))" if "q \<noteq> CHR ''d''" for q
    using that by (simp add: json_str_def)
  then have "no_key (CHR '' '') (result_line t)" by (simp add: result_line_def quote_def)
  from no_key_needle [OF this] show ?thesis by (simp add: transcript_line_def)
qed

section \<open>An older copy of a file cut short\<close>

definition whole_copy :: json where
  "whole_copy = JObj [(''method'', JStr ''get_file''), (''path'', JStr ''partials/a.md''), (''content'', JStr ''old'')]"

definition cut_copy :: json where
  "cut_copy = JObj [(''method'', JStr ''get_file''), (''path'', JStr ''partials/a.md''), (''content'', JStr ''ne''), (''truncated'', JBool True)]"

text \<open>When a file was fetched whole and later cut short, the older copy is written and the path is reported as not
  written.\<close>

lemma truncated_still_written:
  "\<exists>m. considered no_mirror [whole_copy, cut_copy] = Inr m \<and> ''partials/a.md'' \<in> set (truncated m)
     \<and> map_option (get_key ''content'') (map_of (envelopes m) ''partials/a.md'') = Some (JStr ''old'')"
  by (simp add: whole_copy_def cut_copy_def consider_env_def no_mirror_def get_key_def in_mirror_set_def)

section \<open>A session\<close>

definition demo_host :: host where
  "demo_host = \<lparr>home = ''/h'', repo = ''/r'', mtime = (\<lambda>f. if f = ''/h/b'' then 1 else 2), local_time = id, decode_text = id\<rparr>"

definition demo_entries :: "(rat \<times> payload) list" where
  "demo_entries = [(2, File ''b''), (1, File ''a'')]"

definition demo_disk :: disk where
  "demo_disk = \<lparr>files =
     [(''a'', (([CHR 0x7B]) @ ''\"method\":\"get_file\",\"path\":\"partials/x\",\"content\":\"old\"'' @ ([CHR 0x7D]))),
      (''b'', (([CHR 0x7B]) @ ''\"method\":\"get_file\",\"path\":\"partials/x\",\"content\":\"new\"'' @ ([CHR 0x7D])))], others_there = [], stdout = [], stderr = []\<rparr>"

definition demo_mirror :: mirror where
  "demo_mirror = \<lparr>envelopes = [(''partials/x'', [(''method'', JStr ''get_file''), (''path'', JStr ''partials/x''), (''content'', JStr ''new'')])], truncated = []\<rparr>"

lemma demo_considered: "consider_all demo_disk 0 demo_entries = Inr demo_mirror"
proof -
  have order: "sort_key fst demo_entries = [(1, File ''a''), (2, File ''b'')]" by (simp add: demo_entries_def)
  have "decoded (dict_or (files demo_disk) ''a'' []) = Inr (dict_or (files demo_disk) ''a'' [])"
    "decoded (dict_or (files demo_disk) ''b'' []) = Inr (dict_or (files demo_disk) ''b'' [])"
    "loads (dict_or (files demo_disk) ''a'' []) = Some (JObj [(''method'', JStr ''get_file''), (''path'', JStr ''partials/x''), (''content'', JStr ''old'')])"
    "loads (dict_or (files demo_disk) ''b'' []) = Some (JObj [(''method'', JStr ''get_file''), (''path'', JStr ''partials/x''), (''content'', JStr ''new'')])"
    by code_simp+
  then show ?thesis
    by (simp add: consider_all_def order consider_entry_def consider_file_def consider_env_def in_mirror_set_def get_key_def no_mirror_def demo_mirror_def)
qed

lemma newest_copy_wins_witness:
  "map_of (envelopes demo_mirror) ''partials/x'' =
     (case filter (\<lambda>ps. \<not> cut_short ps) (fetches ''partials/x'' (concat (map (entry_envelopes demo_disk 0) (sort_key fst demo_entries)))) of
        [] \<Rightarrow> None | xs \<Rightarrow> Some (last xs))"
  using newest_copy_wins [OF demo_considered] by blast

text \<open>A session with one result, of a file \<open>partials/../../../README.md\<close>.\<close>

definition escape_disk :: disk where
  "escape_disk = \<lparr>files =
     [(''/h/.claude/projects/-Users-office-Github-rukka-folio/s.jsonl'', []),
      (''/h/.claude/projects/-Users-office-Github-rukka-folio/s/tool-results/a.txt'',
       (([CHR 0x7B]) @ ''\"method\":\"get_file\",\"path\":\"partials/../../../README.md\",\"content\":\"new\"'' @
       ([CHR 0x7D]))),
      (''/r/README.md'', ''old'')], others_there = [], stdout = [], stderr = []\<rparr>"

text \<open>The run overwrites the \<open>README.md\<close> of the repository, three folders above the mirror's \<open>partials\<close>.\<close>

lemma mirror_escapes:
  "map_of (files (fst (mirror_main demo_host [''x'', ''s''] escape_disk))) ''/r/README.md'' = Some ''new''
   \<and> \<not> starts_with (real_path (MIRROR demo_host) @ ''/'') ''/r/README.md''"
  by code_simp

lemma mirror_keeps_the_rest_witness:
  "\<exists>since m p. since_arg [''x'', ''s''] = Inr since \<and> recovered demo_host ''s'' since escape_disk = Inr m
     \<and> p \<in> set (map fst (envelopes m)) \<and> in_mirror_set p \<and> ''/r/README.md'' = real_path (path_join (MIRROR demo_host) p)"
proof -
  have "map_of (files (fst (mirror_main demo_host [''x'', ''s''] escape_disk))) ''/r/README.md'' \<noteq> map_of (files escape_disk) ''/r/README.md''"
    using mirror_escapes by (simp add: escape_disk_def)
  from mirror_keeps_the_rest [OF this] show ?thesis by simp blast
qed

end
