(* ===== verification/Print_Watch.thy ===== *)
theory Print_Watch
  imports Regex Markdown
begin

text \<open>
  \<open>scripts/journey_print_watch.py\<close>: while the journeys run, the watcher polls the device over adb and,
  when the print spooler or the document saver is in front, taps its primary button.  One pass of the
  loop is a function of the two texts the device gives (the window that has the focus, and the dump of
  its screen); the loop is a step relation, since the texts and the clock are the device's.  The clock
  is in milliseconds.
\<close>

section \<open>Nodes of a dump\<close>

definition NODE :: rx where
  "NODE = (Seq [Lit ''<node '', Many (Cls (\<lambda>x. x \<notin> set ''>'')), Lit ''>''])"

definition BOUNDS :: rx where
  "BOUNDS = (Seq [Lit ''bounds=\"['', Grp 1 (Some_of (Cls is_digit)), Lit '','', Grp 2 (Some_of (Cls is_digit)), Lit '']['', Grp 3 (Some_of (Cls is_digit)), Lit '','', Grp 4 (Some_of (Cls is_digit)), Lit '']\"''])"

definition centre :: "string \<Rightarrow> error + int \<times> int" where
  "centre node =
     (case re_search BOUNDS node of
        None \<Rightarrow> Inl (AttributeError ''groups'')
      | Some g \<Rightarrow> Inr ((int_of_digits (grp g 1) + int_of_digits (grp g 3)) div 2, (int_of_digits (grp g 2) + int_of_digits (grp g 4)) div 2))"

definition screen_nodes :: "string \<Rightarrow> string list" where   \<comment> \<open>\<open>re.findall\<close>, each match whole\<close>
  "screen_nodes xml = map (\<lambda>g. grp g 0) (re_findall (Grp 0 NODE) xml)"

definition find_node :: "string \<Rightarrow> (string \<Rightarrow> bool) \<Rightarrow> string option" where   \<comment> \<open>\<open>find\<close>\<close>
  "find_node xml pred = find pred (screen_nodes xml)"

definition FOCUS :: rx where
  "FOCUS = (Seq [Lit ''mCurrentFocus='', Many (Cls any_char)])"

text \<open>The whole match is its group 0.\<close>

definition focus :: "string \<Rightarrow> string" where
  "focus out = (case re_search (Grp 0 FOCUS) out of None \<Rightarrow> [] | Some g \<Rightarrow> grp g 0)"

section \<open>What to tap\<close>

text \<open>\<open>a or b\<close> of two searches.\<close>

definition or_else :: "'a option \<Rightarrow> 'a option \<Rightarrow> 'a option" where
  "or_else a b = (case a of None \<Rightarrow> b | Some x \<Rightarrow> Some x)"

definition hit_of :: "string \<Rightarrow> string option" where
  "hit_of xml =
     (if contains_sub ''com.android.printspooler'' xml
      then let hit = or_else (find_node xml (contains_sub ''resource-id=\"com.android.printspooler:id/print_button\"''))
                       (find_node xml (\<lambda>n. contains_sub ''text=\"Save as PDF\"'' n
                          \<and> \<not> contains_sub ''resource-id=\"com.android.printspooler:id/title\"'' n))
           in if hit = None \<and> contains_sub ''text=\"Select a printer\"'' xml
              then find_node xml (contains_sub ''resource-id=\"com.android.printspooler:id/destination_spinner\"'')
              else hit
      else if contains_sub ''com.android.documentsui'' xml \<or> contains_sub ''com.google.android.documentsui'' xml
      then or_else (find_node xml (\<lambda>n. occurs (Seq [Lit ''text=\"'', Grp 1 (Seq [Lit ''S'', Alt (Lit ''AVE'') (Lit ''ave'')]), Lit ''\"'']) n \<and> contains_sub ''clickable=\"true\"'' n))
             (find_node xml (contains_sub ''resource-id=\"android:id/button1\"''))
      else None)"

definition label_of :: "string \<Rightarrow> string" where
  "label_of hit =
     (let rid = re_search (Seq [Lit ''resource-id=\"'', Grp 1 (Many (Cls (\<lambda>x. x \<notin> set ''\"''))), Lit ''\"'']) hit; txt = re_search (Seq [Lit ''text=\"'', Grp 1 (Many (Cls (\<lambda>x. x \<notin> set ''\"''))), Lit ''\"'']) hit;
          r = (case rid of None \<Rightarrow> [] | Some g \<Rightarrow> grp g 1)
      in if r \<noteq> [] then r else (case txt of None \<Rightarrow> [] | Some g \<Rightarrow> grp g 1))"

section \<open>One pass of the loop\<close>

text \<open>What a pass does: it looks which window has the focus, dumps the screen, taps, and sleeps.\<close>

datatype act =
    Look string               \<comment> \<open>the focus line read\<close>
  | Dump string               \<comment> \<open>the dump read\<close>
  | Tap int int string        \<comment> \<open>printed and sent to the device\<close>
  | Sleep int                 \<comment> \<open>milliseconds\<close>

definition another_app :: "string \<Rightarrow> bool" where
  "another_app f = (contains_sub ''printspooler'' f \<or> contains_sub ''documentsui'' f)"

definition pass :: "string \<Rightarrow> string \<Rightarrow> error + act list" where
  "pass out xml =
     (let f = focus out
      in if \<not> another_app f then Inr [Look f, Sleep 1000]
         else case hit_of xml of
                None \<Rightarrow> Inr [Look f, Dump xml, Sleep 2000]
              | Some hit \<Rightarrow> ebind (centre hit) (\<lambda>(x, y). Inr [Look f, Dump xml, Tap x y (label_of hit), Sleep 3000]))"

section \<open>The loop\<close>

record watcher =
  clock :: int
  trace :: "act list"

fun slept :: "act list \<Rightarrow> int" where
  "slept [] = 0"
| "slept (Sleep n # xs) = n + slept xs"
| "slept (_ # xs) = slept xs"

text \<open>A pass takes at least the time it sleeps; what else it takes is the device's.\<close>

inductive watch_step :: "int \<Rightarrow> watcher \<Rightarrow> watcher \<Rightarrow> bool" for deadline :: int where
  poll: "\<lbrakk>clock w < deadline; pass out xml = Inr acts; slept acts \<le> t\<rbrakk>
    \<Longrightarrow> watch_step deadline w \<lparr>clock = clock w + t, trace = trace w @ acts\<rparr>"

inductive watch_run :: "int \<Rightarrow> watcher \<Rightarrow> nat \<Rightarrow> watcher \<Rightarrow> bool" for deadline :: int where
  stay: "watch_run deadline w 0 w"
| more: "watch_run deadline w n w' \<Longrightarrow> watch_step deadline w' v \<Longrightarrow> watch_run deadline w (Suc n) v"

inductive_cases watch_stepE: "watch_step deadline w w'"

lemma pass_sleeps: "pass out xml = Inr acts \<Longrightarrow> 1000 \<le> slept acts"
  by (auto simp: pass_def Let_def ebind_Inr split: if_splits option.splits)

lemma run_clock: "watch_run deadline w n w' \<Longrightarrow> clock w + 1000 * int n \<le> clock w'"
  by (induction rule: watch_run.induct) (auto elim!: watch_stepE dest!: pass_sleeps)

section \<open>The watcher taps another app only\<close>

text \<open>The point lies in the box of the node.\<close>

definition in_box :: "string \<Rightarrow> int \<Rightarrow> int \<Rightarrow> bool" where
  "in_box node x y =
     (case re_search BOUNDS node of
        None \<Rightarrow> False
      | Some g \<Rightarrow> (let x1 = int_of_digits (grp g 1); y1 = int_of_digits (grp g 2);
                      x2 = int_of_digits (grp g 3); y2 = int_of_digits (grp g 4)
                  in min x1 x2 \<le> x \<and> x \<le> max x1 x2 \<and> min y1 y2 \<le> y \<and> y \<le> max y1 y2))"

lemma centre_in_box: "centre node = Inr (x, y) \<Longrightarrow> in_box node x y"
  by (auto simp: centre_def in_box_def Let_def split: option.splits)

lemma find_node_mem: "find_node xml P = Some n \<Longrightarrow> n \<in> set (screen_nodes xml)"
  by (auto simp: find_node_def find_Some_iff)

lemma hit_of_mem: "hit_of xml = Some n \<Longrightarrow> n \<in> set (screen_nodes xml)"
  by (auto simp: hit_of_def or_else_def Let_def dest: find_node_mem split: if_splits option.splits)

text \<open>A trace in which every dump follows a look at another app, and every tap such a dump, in the box of
  a node it shows.\<close>

fun guarded :: "act list \<Rightarrow> bool" where
  "guarded [] = True"
| "guarded (Look f # Dump xml # Tap x y l # as) =
     (another_app f \<and> (\<exists>n \<in> set (screen_nodes xml). in_box n x y) \<and> guarded as)"
| "guarded (Look f # Dump xml # as) = (another_app f \<and> guarded as)"
| "guarded (Look f # as) = guarded as"
| "guarded (Sleep n # as) = guarded as"
| "guarded (_ # as) = False"

lemma guarded_look_on: "guarded ys \<Longrightarrow> guarded (Look f # ys)"
  by (cases ys rule: guarded.cases) auto

lemma guarded_dump_on: "another_app f \<Longrightarrow> guarded ys \<Longrightarrow> guarded (Look f # Dump xml # ys)"
  by (cases ys rule: guarded.cases) auto

lemma guarded_append: "guarded xs \<Longrightarrow> guarded ys \<Longrightarrow> guarded (xs @ ys)"
  by (induction xs rule: guarded.induct) (auto intro: guarded_look_on guarded_dump_on)

lemma pass_guarded: "pass out xml = Inr acts \<Longrightarrow> guarded acts"
  by (auto simp: pass_def Let_def ebind_Inr split: if_splits option.splits dest!: hit_of_mem centre_in_box intro!: bexI)

lemma step_guarded: "watch_step deadline w w' \<Longrightarrow> guarded (trace w) \<Longrightarrow> guarded (trace w')"
  by (induction rule: watch_step.induct) (auto intro: guarded_append pass_guarded)

lemma run_guarded: "watch_run deadline w n w' \<Longrightarrow> guarded (trace w) \<Longrightarrow> guarded (trace w')"
  by (induction rule: watch_run.induct) (auto intro: step_guarded)

lemma guarded_tap: "guarded (xs @ Tap x y l # ys) \<Longrightarrow>
  \<exists>zs f xml. xs = zs @ [Look f, Dump xml] \<and> another_app f \<and> (\<exists>n \<in> set (screen_nodes xml). in_box n x y)"
  by (induction xs rule: guarded.induct) (auto simp: Cons_eq_append_conv)

lemma guarded_look: "guarded (Look f # Dump xml # ys) \<Longrightarrow> another_app f"
  by (cases "Look f # Dump xml # ys" rule: guarded.cases) auto

lemma guarded_dump: "guarded (xs @ Dump xml # ys) \<Longrightarrow> \<exists>zs f. xs = zs @ [Look f] \<and> another_app f"
  by (induction xs rule: guarded.induct) (auto simp: Cons_eq_append_conv intro: guarded_look)

text \<open>C23. However long the watcher runs and whatever the device answers, it dumps the screen only
  right after it saw the print spooler or the document saver in front - never over the app under test - and
  it taps only right after such a dump, at a point in the box of a node that dump shows.\<close>

theorem watch_touches_others_only:
  assumes "watch_run deadline \<lparr>clock = start, trace = []\<rparr> n w"
  shows "(\<forall>xs xml ys. trace w = xs @ Dump xml # ys \<longrightarrow> (\<exists>zs f. xs = zs @ [Look f] \<and> another_app f))
       \<and> (\<forall>xs x y l ys. trace w = xs @ Tap x y l # ys \<longrightarrow>
           (\<exists>zs f xml. xs = zs @ [Look f, Dump xml] \<and> another_app f \<and> (\<exists>n \<in> set (screen_nodes xml). in_box n x y)))"
proof -
  have "guarded (trace w)" using run_guarded [OF assms] by simp
  then show ?thesis using guarded_dump guarded_tap by metis
qed

text \<open>C24. The watcher ends: every pass sleeps a second at least, so a run begun \<open>d\<close> milliseconds before
  the deadline has made no more than \<open>d\<close> / 1000 + 1 passes, and none at all once the deadline is past.\<close>

theorem watch_ends:
  "watch_run deadline w n w' \<Longrightarrow> int n \<le> (if clock w < deadline then (deadline - clock w - 1) div 1000 + 1 else 0)"
proof (induction rule: watch_run.induct)
  case (more w n w' v)
  have "clock w + 1000 * int n \<le> clock w' \<and> clock w' < deadline"
    using more.hyps by (auto elim: watch_stepE dest: run_clock)
  then have "clock w < deadline" "1000 * int n \<le> deadline - clock w - 1" by linarith+
  then show ?case by simp
qed simp

section \<open>A tap\<close>

definition spooler_focus :: string where
  "spooler_focus = ''  mCurrentFocus=Window{d2a u0 com.android.printspooler/com.android.printspooler.ui.PrintActivity}''"

definition spooler_dump :: string where
  "spooler_dump = ''<hierarchy><node text=\"\" resource-id=\"com.android.printspooler:id/print_button\" bounds=\"[912,1701][1080,1869]\" /></hierarchy>''"

definition tapped :: "act list" where
  "tapped = projr (pass spooler_focus spooler_dump)"

lemma tapped_eq: "pass spooler_focus spooler_dump = Inr tapped"
  "tapped = [Look (focus spooler_focus), Dump spooler_dump, Tap 996 1785 ''com.android.printspooler:id/print_button'', Sleep 3000]"
  by code_simp+

lemma one_tap: "watch_run 5000 \<lparr>clock = 0, trace = []\<rparr> 1 \<lparr>clock = 3100, trace = tapped\<rparr>"
proof -
  have "watch_step 5000 \<lparr>clock = 0, trace = []\<rparr> \<lparr>clock = 0 + 3100, trace = [] @ tapped\<rparr>"
    using watch_step.poll [OF _ tapped_eq(1), of "\<lparr>clock = 0, trace = []\<rparr>" 5000 3100] by (simp add: tapped_eq(2))
  then show ?thesis using watch_run.more [OF watch_run.stay] by simp
qed

theorem watch_touches_others_only_witness:
  "another_app (focus spooler_focus) \<and> (\<exists>n \<in> set (screen_nodes spooler_dump). in_box n 996 1785)"
proof -
  have split: "trace \<lparr>clock = 3100, trace = tapped\<rparr> = [Look (focus spooler_focus), Dump spooler_dump]
      @ Tap 996 1785 ''com.android.printspooler:id/print_button'' # [Sleep 3000]"
    by (simp add: tapped_eq(2))
  from conjunct2 [OF watch_touches_others_only [OF one_tap], rule_format, OF split]
  obtain zs f xml where "[Look (focus spooler_focus), Dump spooler_dump] = zs @ [Look f, Dump xml]" "another_app f"
    "\<exists>n \<in> set (screen_nodes xml). in_box n 996 1785" by blast
  then show ?thesis by (simp add: Cons_eq_append_conv)
qed

theorem watch_ends_witness: "int 1 \<le> (5000 - 0 - 1) div 1000 + 1"
  using watch_ends [OF one_tap] by simp

end
