(* ===== verification/Check_Facts.thy ===== *)
theory Check_Facts
  imports Check_Main Report_Family
begin

text \<open>
  The independent checker and the builder, which share no code, agree: they print amounts alike, the
  cells the builder prints read back as the lines they came from, and both find the same open items
  of an account.  Then what a run of the checker without problems shows of the book it read.
\<close>

section \<open>Amounts and cells\<close>

lemma group_pairs_eq: "head \<noteq> [] \<Longrightarrow> group_pairs head parts = group_head head parts"
proof (induction head parts rule: group_pairs.induct)
  case (1 head parts)
  then show ?case
    by (subst group_pairs.simps, subst group_head.simps) auto
qed

text \<open>The checker's own printer of an amount (\<open>fmt_in\<close>) and the builder's (\<open>fmt\<close> with
  the nil shown) give the same text for every amount that is not negative, whatever its size.\<close>

theorem checker_prints_alike:
  assumes "0 \<le> p"
  shows "fmt_in p = fmt0 p"
proof -
  have r: "str_int (p div 100) = str_nat (p div 100)"
    using assms by (simp add: str_int_def)
  have "length (str_nat (p div 100)) > 3 \<Longrightarrow> take (length (str_nat (p div 100)) - 3) (str_nat (p div 100)) \<noteq> []"
    by auto
  with assms show ?thesis
    by (auto simp: fmt_in_def fmt_opt_def indian_group_def Let_def r group_pairs_eq str_nat_small digit_char_def str_int_def)
qed

theorem checker_prints_alike_witness:
  "fmt_in 123456705 = ''12,34,567.05''"
proof -
  have "fmt_in 123456705 = fmt0 123456705" by (rule checker_prints_alike) simp
  also have "... = ''12,34,567.05''" by code_simp
  finally show ?thesis .
qed

section \<open>Open items\<close>

lemma settle_items_eq: "settle_items a items = prod.swap (settle items a)"
proof (induction a items rule: settle_items.induct)
  case (2 a d x items)
  show ?case
  proof (cases "a \<noteq> 0 \<and> (x > 0) \<noteq> (a > 0)")
    case False
    then show ?thesis by (auto simp: settle_same)
  next
    case True
    let ?t = "min \<bar>a\<bar> \<bar>x\<bar>"
    let ?x = "x + (if x < 0 then ?t else - ?t)" and ?a = "a + (if a < 0 then ?t else - ?t)"
    have step: "settle ((d, x) # items) a = (if ?x = 0 then settle items ?a else settle ((d, ?x) # items) ?a)"
      using True by (subst settle.simps(2)) (simp only: Let_def, auto)
    show ?thesis
    proof (cases "?x = 0")
      case z: True
      with True step 2 show ?thesis by (simp add: Let_def)
    next
      case z: False
      then have "?a = 0" by (auto simp: min_def split: if_splits)
      with z True step show ?thesis by (simp add: Let_def settle_same)
    qed
  qed
qed simp

text \<open>What the checker reads of an account, against the account itself.\<close>

definition reads_account :: "read_book \<Rightarrow> string \<Rightarrow> ledger_account \<Rightarrow> bool" where
  "reads_account bk name a =
     (opn bk name = opening_bal a
      \<and> map (\<lambda>(d, _, x). (d, x)) (pst bk name) = map (\<lambda>r. (rdate r, dr r - cr r)) (rows a))"

lemma open_step_eq: "open_step items (rdate r, dr r - cr r) = fifo_step items r"
  by (simp add: open_step_def fifo_step_def settle_items_eq prod.case_eq_if)

lemma foldl_open_step:
  "foldl open_step items (map (\<lambda>r. (rdate r, dr r - cr r)) rs) = foldl fifo_step items rs"
  by (induction rs arbitrary: items) (simp_all add: open_step_eq)

lemma takeWhile_dates:
  "map (\<lambda>(d, _, x). (d, x)) ps = map (\<lambda>r. (rdate r, dr r - cr r)) rs \<Longrightarrow>
   map (\<lambda>(d, _, x). (d, x)) (takeWhile (\<lambda>(d, _). d \<le> asof) ps)
     = map (\<lambda>r. (rdate r, dr r - cr r)) (takeWhile (\<lambda>r. rdate r \<le> asof) rs)"
proof (induction ps arbitrary: rs)
  case (Cons p ps)
  then obtain r rs' where "rs = r # rs'" by (cases rs) auto
  with Cons show ?case by (cases p) auto
qed simp

text \<open>C19. Where the checker has read an account's opening balance and its dated amounts as the
  builder posted them, its re-derivation of what is open since when gives the builder's list, item for item, on
  every date; and at the year's end its three columns are the ones the builder prints.\<close>

theorem checker_finds_the_open_items:
  assumes "reads_account bk name a"
  shows "open_items bk name asof = fifo_open_items a asof
    \<and> age_buckets FY_END (open_items bk name FY_END) = buckets (fifo_open_items a FY_END)"
proof -
  have eq: "open_items bk name asof = fifo_open_items a asof" for asof
    using assms takeWhile_dates [of "pst bk name" "rows a" asof]
    by (simp add: open_items_def fifo_open_items_def reads_account_def foldl_open_step)
  have "(\<Sum>(d, x)\<leftarrow>its. if bucket d = 0 then \<bar>x\<bar> else 0) = (\<Sum>(d, x)\<leftarrow>its. if days_between FY_END d \<le> 30 then \<bar>x\<bar> else 0)"
    "(\<Sum>(d, x)\<leftarrow>its. if bucket d = 1 then \<bar>x\<bar> else 0)
      = (\<Sum>(d, x)\<leftarrow>its. if 30 < days_between FY_END d \<and> days_between FY_END d \<le> 90 then \<bar>x\<bar> else 0)"
    "(\<Sum>(d, x)\<leftarrow>its. if bucket d = 2 then \<bar>x\<bar> else 0) = (\<Sum>(d, x)\<leftarrow>its. if 90 < days_between FY_END d then \<bar>x\<bar> else 0)" for its :: "item list"
    by (induction its) (auto simp: bucket_def Let_def)
  then show ?thesis by (simp add: eq age_buckets_def buckets_def)
qed

end
