(* ===== verification/Check_Accepts.thy ===== *)
theory Check_Accepts
  imports Check_Facts
begin

text \<open>
  The builder and the checker together: the ledger that \<open>build.py\<close> prints for an account of a book that can be
  closed passes every check that \<open>check_md.py\<close> makes of a ledger, row for row, provided that the checker read the
  same openings, entries and year-close entries, and that the texts hold no character of Markdown.
\<close>

section \<open>Cells read back\<close>

lemma stripped_hd:
  assumes "strip p = p" "p \<noteq> []"
  shows "\<not> is_space (hd p)"
proof -
  have "length (strip p) \<le> length (lstrip p)"
    using length_dropWhile_le [of is_space "rev (lstrip p)"] by (simp add: strip_def rstrip_def)
  then have "length p \<le> length (dropWhile is_space p)" using assms(1) by (simp add: lstrip_def)
  then have "length (takeWhile is_space p) = 0"
    using arg_cong [OF takeWhile_dropWhile_id [of is_space p], of length] unfolding length_append by linarith
  then show ?thesis using assms(2) by (cases p) (auto split: if_splits)
qed

lemma remove_span_Nil [simp]: "remove_span opener close [] = []"
  by (subst remove_span.simps) simp

lemma note_read_back:
  assumes "CHR ''<'' \<notin> set p" "CHR ''*'' \<notin> set p" "strip p = p" "CHR ''<'' \<notin> set n" "\<forall>c\<in>set n. c \<noteq> nl" "\<forall>c\<in>set p. c \<noteq> nl"
  shows "clean (with_note p n) = p \<and> note_under (with_note p n) = Some n"
proof -
  have skip: "find_after ''</em>'' (n @ ''</em>'') = Some []"
    using assms(4,5)
  proof (induction n)
    case Nil
    show ?case by (subst find_after.simps) simp
  next
    case (Cons c n)
    then show ?case by (subst find_after.simps) auto
  qed
  have rm: "remove_span ''<br><em>'' ''</em>'' (p @ ''<br><em>'' @ n @ ''</em>'') = p"
    using assms(1)
  proof (induction p)
    case Nil
    show ?case using skip by (subst remove_span.simps) simp
  next
    case (Cons c p)
    then show ?case by (subst remove_span.simps) auto
  qed
  have p: "remove_span ''<em>'' ''</em>'' p = p" using assms(1) by (auto intro: remove_span_absent [of "CHR ''<''"])
  have s: "str_replace ''**'' '''' p = p" using assms(2) by (auto intro: str_replace_absent)
  have c: "clean (with_note p n) = p"
    using rm p s assms(3) by (simp add: clean_def with_note_def)
  have e: "ends_with ''</em>'' (n @ ''</em>'')" by (simp add: ends_with_def)
  have fa: "find_after ''<br><em>'' (p @ ''<br><em>'' @ n @ ''</em>'') = Some (n @ ''</em>'')"
    using assms(1,6)
  proof (induction p)
    case Nil
    show ?case by (subst find_after.simps) simp
  next
    case (Cons c p)
    then show ?case by (subst find_after.simps) auto
  qed
  with c e show ?thesis by (simp add: note_under_def with_note_def)
qed

text \<open>A text that a cell holds as it is.\<close>

definition plain_text :: "string \<Rightarrow> bool" where
  "plain_text s = (strip s = s \<and> CHR ''<'' \<notin> set s \<and> CHR ''*'' \<notin> set s \<and> CHR ''|'' \<notin> set s \<and> (\<forall>c\<in>set s. c \<noteq> nl))"

lemma plain_text_note:
  "plain_text p \<Longrightarrow> plain_text n \<Longrightarrow> clean (with_note p n) = p \<and> note_under (with_note p n) = Some n"
  by (intro note_read_back) (auto simp: plain_text_def)

lemma plain_text_clean: "plain_text s \<Longrightarrow> clean s = s"
  by (simp add: plain_text_def clean_plain)

lemma side_of_reads: "clean (side_of x) = side x"
  by (simp add: side_of_def side_def clean_plain strip_id_ends is_space_def)

lemma paise_fmt [simp]: "paise (fmt x) = Inr x" "paise (fmt0 x) = Inr x"
  by (rule paise_fmt_opt)+

lemma clean_bold:
  assumes "CHR ''<'' \<notin> set s" "CHR ''*'' \<notin> set s"
  shows "clean (bold s) = strip s"
proof -
  have "CHR ''<'' \<notin> set (bold s)" using assms by (simp add: bold_def)
  then have "remove_span ''<br><em>'' ''</em>'' (bold s) = bold s" "remove_span ''<em>'' ''</em>'' (bold s) = bold s"
    by (auto intro: remove_span_absent [of "CHR ''<''"])
  moreover have "str_replace ''**'' '''' (s @ ''**'') = s"
    using assms(2)
  proof (induction s)
    case Nil
    show ?case by (subst str_replace.simps) simp
  next
    case (Cons c s)
    then have "\<not> starts_with ''**'' ((c # s) @ ''**'')" by auto
    with Cons show ?case by (subst str_replace.simps) auto
  qed
  then have "str_replace ''**'' '''' (bold s) = s" by (subst str_replace.simps) (simp add: bold_def)
  ultimately show ?thesis by (simp add: clean_def)
qed

lemma paise_bold_amount:
  assumes "set s \<subseteq> amount_chars"
  shows "paise (bold s) = paise s"
proof -
  from assms have no: "CHR ''<'' \<notin> set s" "CHR ''*'' \<notin> set s" by (auto simp: amount_chars_def)
  from clean_bold [OF no] clean_plain [OF no] show ?thesis by (simp add: paise_def)
qed

lemma paise_bold [simp]: "paise (bold (fmt x)) = Inr x" "paise (bold (fmt0 x)) = Inr x"
  by (simp_all add: paise_bold_amount fmt_opt_chars)

text \<open>Splitting a joined list gives the list, where the separator cannot begin inside an element.\<close>

lemma split_sub_aux_step:
  assumes "sep \<noteq> []" "\<And>u v. s = u @ v \<Longrightarrow> v \<noteq> [] \<Longrightarrow> \<not> starts_with sep (v @ sep @ t)"
  shows "split_sub_aux sep acc (s @ sep @ t) = (rev acc @ s) # split_sub_aux sep [] t"
  using assms(2)
proof (induction s arbitrary: acc)
  case Nil
  from assms(1) obtain c cs where "sep = c # cs" by (cases sep) auto
  then show ?case by (subst split_sub_aux.simps) simp
next
  case (Cons c s)
  have now: "\<not> starts_with sep ((c # s) @ sep @ t)" by (rule Cons.prems) simp_all
  have "split_sub_aux sep (c # acc) (s @ sep @ t) = (rev (c # acc) @ s) # split_sub_aux sep [] t"
  proof (rule Cons.IH)
    fix u v assume "s = u @ v" "v \<noteq> []"
    then show "\<not> starts_with sep (v @ sep @ t)" using Cons.prems [of "c # u" v] by simp
  qed
  with now show ?case by (subst split_sub_aux.simps) simp
qed

lemma split_sub_aux_last:
  assumes "\<And>u v. s = u @ v \<Longrightarrow> v \<noteq> [] \<Longrightarrow> \<not> starts_with sep v"
  shows "split_sub_aux sep acc s = [rev acc @ s]"
  using assms
proof (induction s arbitrary: acc)
  case Nil
  show ?case by (subst split_sub_aux.simps) simp
next
  case (Cons c s)
  have now: "\<not> starts_with sep (c # s)" by (rule Cons.prems [of "[]"]) simp_all
  have "split_sub_aux sep (c # acc) s = [rev (c # acc) @ s]"
  proof (rule Cons.IH)
    fix u v assume "s = u @ v" "v \<noteq> []"
    then show "\<not> starts_with sep v" using Cons.prems [of "c # u" v] by simp
  qed
  with now show ?case by (subst split_sub_aux.simps) simp
qed

text \<open>The separator begins nowhere inside the text, whatever follows.\<close>

definition apart :: "string \<Rightarrow> string \<Rightarrow> bool" where
  "apart sep p = (\<forall>u v. p = u @ v \<and> v \<noteq> [] \<longrightarrow> \<not> starts_with sep v \<and> (\<forall>t. \<not> starts_with sep (v @ sep @ t)))"

lemma split_sub_join:
  assumes "ps \<noteq> []" "list_all (apart sep) ps" "sep \<noteq> []"
  shows "split_sub sep (join_str sep ps) = ps"
  using assms
proof (induction sep ps rule: join_str.induct)
  case (2 sep x)
  have "split_sub_aux sep [] x = [rev [] @ x]"
    by (rule split_sub_aux_last) (use 2 in \<open>simp add: apart_def\<close>)
  then show ?case by (simp add: split_sub_def)
next
  case (3 sep x y ys)
  have "split_sub_aux sep [] (x @ sep @ join_str sep (y # ys)) = (rev [] @ x) # split_sub_aux sep [] (join_str sep (y # ys))"
    by (rule split_sub_aux_step) (use 3 in \<open>simp_all add: apart_def\<close>)
  with 3 show ?case by (simp add: split_sub_def)
qed simp

lemma contains_sub_suffix: "contains_sub p v \<Longrightarrow> contains_sub p (u @ v)"
  by (induction u) auto

lemma split_slash_join:
  assumes "os \<noteq> []" "list_all (\<lambda>s. \<not> contains_sub '' /'' s) os"
  shows "split_sub '' / '' (join_str '' / '' os) = os"
proof -
  have "apart '' / '' p" if "\<not> contains_sub '' /'' p" for p
    unfolding apart_def
  proof (intro allI impI conjI)
    fix u v t assume p: "p = u @ v \<and> v \<noteq> []"
    then have v: "\<not> contains_sub '' /'' v" using that contains_sub_suffix by blast
    then obtain c w where w: "v = c # w" "\<not> starts_with '' /'' (c # w)" using p by (cases v) auto
    show "\<not> starts_with '' / '' (v @ '' / '' @ t)" using w by (cases w) auto
    show "\<not> starts_with '' / '' v" using w by (cases w) auto
  qed
  then have "list_all (apart '' / '') os" using assms(2) by (simp add: list_all_iff)
  with assms(1) show ?thesis by (intro split_sub_join) auto
qed

section \<open>The two sides of an entry read back\<close>

lemma last_rupee_append:
  assumes "CHR '' '' \<notin> set b"
  shows "last_rupee (a @ ('' '' @ u_rupee) @ b) = Some (a, b)"
proof -
  have no_sp: "last_rupee s = None" if "CHR '' '' \<notin> set s" for s
    using that by (induction s) auto
  have "last_rupee (('' '' @ u_rupee) @ b) = Some ([], b)"
    using no_sp [of "u_rupee @ b"] assms by simp
  then show ?thesis by (induction a) auto
qed

lemma amount_int_digits: "amount_int_part i \<Longrightarrow> digits_commas i"
proof -
  assume i: "amount_int_part i"
  have all: "list_all (\<lambda>c. is_digit c \<or> c = CHR '','') i" if "list_all (list_all is_digit) (split_on (CHR '','') i)" for i
    using that
  proof (induction i)
    case (Cons c i)
    then show ?case by (cases "split_on (CHR '','') i") (auto split: if_splits)
  qed simp
  have "list_all (list_all is_digit) (split_on (CHR '','') i)"
    using i by (auto simp: amount_int_part_def list_all_iff split: list.splits)
  moreover have "i \<noteq> []" using i by (auto simp: amount_int_part_def)
  ultimately show ?thesis using all by (simp add: digits_commas_def)
qed

lemma fmt_reads:
  assumes "0 < a"
  shows "rupee_amount (fmt a)" "CHR '' '' \<notin> set (fmt a)" "CHR ''<'' \<notin> set (fmt a)" "\<not> is_space (last (fmt a))"
proof -
  have "fmt a = plain_amount a" using assms by (simp add: fmt_opt_nonzero)
  then obtain i f where "amount_match (fmt a) = Some (i, f)" using plain_amount_match [OF assms] by auto
  then show "rupee_amount (fmt a)"
    by (auto simp: amount_match_def rupee_amount_def split: list.splits if_splits dest: amount_int_digits)
  have s: "set (fmt a) \<subseteq> amount_chars" by (rule fmt_opt_chars)
  then show "CHR '' '' \<notin> set (fmt a)" using amount_chars_no_space [of "CHR '' ''"] by (auto simp: is_space_def)
  show "CHR ''<'' \<notin> set (fmt a)" using s by (auto simp: amount_chars_def)
  show "\<not> is_space (last (fmt a))" using s amount_chars_no_space last_in_set [OF fmt_opt_not_Nil] by (meson subsetD)
qed

text \<open>A name that stands in a cell: no tag, no space at either end, and not empty.\<close>

definition side_name :: "string \<Rightarrow> bool" where
  "side_name n = (n \<noteq> [] \<and> strip n = n \<and> CHR ''<'' \<notin> set n)"

lemma name_amount_reads:
  assumes "side_name n" "0 < a"
  shows "name_and_amount (strip (name_amount (n, a))) = Some (n, fmt a)" "CHR ''<'' \<notin> set (name_amount (n, a))"
proof -
  have "\<not> is_space (hd n)" using assms(1) by (intro stripped_hd) (simp_all add: side_name_def)
  then have "strip (n @ ('' '' @ u_rupee) @ fmt a) = n @ ('' '' @ u_rupee) @ fmt a"
    using assms fmt_reads(4) [OF assms(2)] by (intro strip_id_ends) (auto simp: side_name_def)
  then show "name_and_amount (strip (name_amount (n, a))) = Some (n, fmt a)"
    using last_rupee_append [OF fmt_reads(2) [OF assms(2)], of n] fmt_reads(1) [OF assms(2)]
    by (simp add: name_amount_def name_and_amount_def)
  show "CHR ''<'' \<notin> set (name_amount (n, a))"
    using assms(1) fmt_reads(3) [OF assms(2)] by (simp add: name_amount_def side_name_def)
qed

lemma split_br_join:
  assumes "ps \<noteq> []" "list_all (\<lambda>s. CHR ''<'' \<notin> set s) ps"
  shows "split_sub br (join_str br ps) = ps"
proof -
  have "apart br p" if "CHR ''<'' \<notin> set p" for p
    unfolding apart_def br_def
  proof (intro allI impI conjI)
    fix u v t assume "p = u @ v \<and> v \<noteq> []"
    then obtain c w where "v = c # w" "p = u @ c # w" by (cases v) auto
    moreover from this have "c \<noteq> CHR ''<''" using that by auto
    ultimately show "\<not> starts_with ''<br>'' (v @ ''<br>'' @ t)" "\<not> starts_with ''<br>'' v" by auto
  qed
  then have "list_all (apart br) ps" using assms(2) by (simp add: list_all_iff)
  with assms(1) show ?thesis by (intro split_sub_join) (auto simp: br_def)
qed

lemma contains_sub_prefix: "starts_with p s \<Longrightarrow> contains_sub p s"
  by (cases s) (auto simp: starts_with_def)

lemma contains_br_join: "contains_sub br (join_str br (x # y # ys))"
  by (simp add: contains_sub_suffix contains_sub_prefix)

text \<open>C31. The cell the builder prints for one side of an entry - the account alone, or each account
  with its amount - is read back by the checker as exactly those accounts and amounts, in order, with no
  problem reported: the accounts' names plain, the amounts positive, and an account that stands alone not
  itself ending in an amount.\<close>

theorem sides_read_back:
  assumes "ls \<noteq> []" "list_all (\<lambda>(n, a). side_name n \<and> 0 < a) ls"
    and "\<And>n a. ls = [(n, a)] \<Longrightarrow> name_and_amount n = None \<and> amt = a"
  shows "passes (split_cell (side_cell ls) amt lab no) ls"
proof (cases "\<exists>n a. ls = [(n, a)]")
  case True
  then obtain n a where ls: "ls = [(n, a)]" by blast
  with assms have n: "side_name n" "name_and_amount n = None" "amt = a" by auto
  have "\<not> contains_sub br n"
  proof -
    have "\<not> contains_sub br s" if "CHR ''<'' \<notin> set s" for s
      using that by (induction s) (auto simp: br_def)
    with n(1) show ?thesis by (simp add: side_name_def)
  qed
  with n ls show ?thesis by (simp add: split_cell_def side_cell_def side_name_def)
next
  case False
  with assms(1) obtain x y zs where ls: "ls = x # y # zs" by (cases ls rule: remdups_adj.cases) auto
  have cell: "side_cell ls = join_str br (map name_amount ls)" by (simp add: side_cell_def ls)
  have no_tag: "list_all (\<lambda>s. CHR ''<'' \<notin> set s) (map name_amount ls)"
    using assms(2) name_amount_reads(2) by (auto simp: list_all_iff)
  have parts: "split_sub br (side_cell ls) = map name_amount ls"
    unfolding cell using no_tag by (intro split_br_join) (auto simp: ls)
  have "contains_sub br (join_str br (map name_amount ls))" unfolding ls list.map by (rule contains_br_join)
  then have "contains_sub br (side_cell ls)" by (simp only: cell)
  moreover have "strip n = n" if "(n, a) \<in> set ls" for n a
    using assms(2) that by (auto simp: list_all_iff side_name_def)
  ultimately show ?thesis
    using assms(2) by (auto simp: split_cell_def parts passing list_all2_map1 list_all_iff name_amount_reads(1)
        intro!: list.rel_refl_strong)
qed

section \<open>One row passes\<close>

text \<open>What an entry's row must be for the checker: its texts plain, one amount, the words \<open>To\<close> or \<open>By\<close>.\<close>

definition row_readable :: "ledger_row \<Rightarrow> bool" where
  "row_readable r =
     (plain_text (rvid r) \<and> \<not> year_close_number (rvid r) \<and> plain_text (part r) \<and> plain_text (narration (rvch r))
      \<and> valid_date (rdate r) \<and> 1000 \<le> year (rdate r) \<and> year (rdate r) \<le> 9999
      \<and> dr r = max (dr r - cr r) 0 \<and> cr r = max (cr r - dr r) 0
      \<and> starts_with (if dr r - cr r > 0 then ''To '' else ''By '') (part r))"

definition close_readable :: "close_post \<Rightarrow> bool" where
  "close_readable cp = (case cp of (no, nt, a, os) \<Rightarrow>
     plain_text no \<and> year_close_number no \<and> plain_text nt \<and> plain_text (close_part a os)
     \<and> os \<noteq> [] \<and> list_all (\<lambda>s. \<not> contains_sub '' /'' s) os)"

lemma line_cells_nth [simp]:
  "line_cells d no text a c nb ! 0 = d" "line_cells d no text a c nb ! Suc 0 = no" "line_cells d no text a c nb ! 2 = text"
  "line_cells d no text a c nb ! 3 = a" "line_cells d no text a c nb ! 4 = c" "line_cells d no text a c nb ! 5 = fmt0 \<bar>nb\<bar>"
  "line_cells d no text a c nb ! 6 = side_of nb" "length (line_cells d no text a c nb) = 7"
  by (simp_all add: line_cells_def)

lemma to_by_not:
  assumes "starts_with (if c then ''To '' else ''By '') p"
  shows "\<not> starts_with ''Opening balance b/f'' p" "\<not> starts_with ''Closing balance c/d'' p" "p \<noteq> ''Total''"
    "\<not> starts_with ''Opening balance b/d'' p" "\<not> starts_with ''Total for the year'' p"
  using assms by (cases p; cases "tl p"; cases "tl (tl p)"; auto split: if_splits)+

lemma balance_reads: "\<forall>c \<in> set (balance_is (line_cells d no text a c' nb) nb). c = Inr True"
  by (simp add: balance_is_def passing side_of_reads)

lemma posting_step_passes:
  assumes st: "\<not> l_stop st" "l_posts st = (rdate r, rvid r, dr r - cr r) # ps"
    and r: "row_readable r" "narr_of bk (rvid r) = Inr (narration (rvch r))"
    and card: "ty bk name = ''Credit card'' \<Longrightarrow> l_bal st + dr r - cr r \<le> 0"
  shows "passes (ledger_row_step bk name place st
           (line_cells (fdate (rdate r)) (rvid r) (with_note (part r) (narration (rvch r))) (fmt (dr r)) (fmt (cr r)) (l_bal st + dr r - cr r)))
         (l_add (dr r - cr r) (st\<lparr>l_posts := ps, l_parts := ((name, rvid r), part r) # l_parts st\<rparr>))"
    (is "passes (ledger_row_step bk name place st ?row) ?st")
proof -
  have texts: "clean (with_note (part r) (narration (rvch r))) = part r"
    "note_under (with_note (part r) (narration (rvch r))) = Some (narration (rvch r))" "clean (rvid r) = rvid r"
    and number: "\<not> year_close_number (rvid r)" and date: "pdate (fdate (rdate r)) = Inr (rdate r)"
    and amts: "dr r = max (dr r - cr r) 0" "cr r = max (cr r - dr r) 0"
    and tb: "starts_with (if dr r - cr r > 0 then ''To '' else ''By '') (part r)"
    using r(1) plain_text_note [of "part r" "narration (rvch r)"]
    by (auto simp: row_readable_def plain_text_clean pdate_fdate)
  have cells: "clean_at ?row 2 = Inr (part r)" "clean_at ?row (Suc 0) = Inr (rvid r)"
    by (simp_all add: clean_at_def at_def texts)
  have "passes (posting_row bk name place st ?row (rvid r) (part r)) ?st"
    unfolding posting_row_def st(2) using amts date tb balance_reads card
    by (auto simp: passing sides_are_def texts r(2) at_def l_add_def algebra_simps simp del: eands.simps)
  then show ?thesis
    using st(1) number to_by_not [OF tb] by (simp add: ledger_row_step_def cells)
qed

lemma entries_pass:
  assumes "\<not> l_stop st" "l_posts st = map (\<lambda>r. (rdate r, rvid r, dr r - cr r)) rs"
    and "\<forall>r \<in> set rs. row_readable r \<and> narr_of bk (rvid r) = Inr (narration (rvch r))"
    and "ty bk name = ''Credit card'' \<Longrightarrow> list_all (\<lambda>x. x \<le> 0) (running (l_bal st) (map (\<lambda>r. dr r - cr r) rs))"
  shows "\<exists>st'. passes (each_with (ledger_row_step bk name place) st (entry_cells (l_bal st) rs)) st'
     \<and> l_posts st' = [] \<and> l_closes st' = l_closes st \<and> l_closed st' = l_closed st \<and> \<not> l_stop st'
     \<and> l_bal st' = l_bal st + (\<Sum>r\<leftarrow>rs. dr r - cr r) \<and> l_dr st' = l_dr st + (\<Sum>r\<leftarrow>rs. dr r) \<and> l_cr st' = l_cr st + (\<Sum>r\<leftarrow>rs. cr r)"
  using assms
proof (induction rs arbitrary: st)
  case Nil
  then show ?case by (auto simp: passing)
next
  case (Cons r rs)
  let ?a = "dr r - cr r"
  let ?st = "l_add ?a (st\<lparr>l_posts := map (\<lambda>r. (rdate r, rvid r, dr r - cr r)) rs, l_parts := ((name, rvid r), part r) # l_parts st\<rparr>)"
  have step: "passes (ledger_row_step bk name place st
      (line_cells (fdate (rdate r)) (rvid r) (with_note (part r) (narration (rvch r))) (fmt (dr r)) (fmt (cr r)) (l_bal st + dr r - cr r))) ?st"
    by (rule posting_step_passes) (use Cons.prems in auto)
  have sums: "l_bal ?st = l_bal st + dr r - cr r" "l_dr ?st = l_dr st + dr r" "l_cr ?st = l_cr st + cr r"
    using Cons.prems(3) by (auto simp: l_add_def row_readable_def)
  have "\<exists>st'. passes (each_with (ledger_row_step bk name place) ?st (entry_cells (l_bal ?st) rs)) st'
     \<and> l_posts st' = [] \<and> l_closes st' = l_closes ?st \<and> l_closed st' = l_closed ?st \<and> \<not> l_stop st'
     \<and> l_bal st' = l_bal ?st + (\<Sum>r\<leftarrow>rs. dr r - cr r) \<and> l_dr st' = l_dr ?st + (\<Sum>r\<leftarrow>rs. dr r) \<and> l_cr st' = l_cr ?st + (\<Sum>r\<leftarrow>rs. cr r)"
    by (rule Cons.IH) (use Cons.prems in \<open>auto simp: l_add_def algebra_simps\<close>)
  then obtain st' where st': "passes (each_with (ledger_row_step bk name place) ?st (entry_cells (l_bal ?st) rs)) st'"
     "l_posts st' = []" "l_closes st' = l_closes ?st" "l_closed st' = l_closed ?st" "\<not> l_stop st'"
     "l_bal st' = l_bal ?st + (\<Sum>r\<leftarrow>rs. dr r - cr r)" "l_dr st' = l_dr ?st + (\<Sum>r\<leftarrow>rs. dr r)" "l_cr st' = l_cr ?st + (\<Sum>r\<leftarrow>rs. cr r)"
    by blast
  show ?case
  proof (intro exI conjI)
    show "passes (each_with (ledger_row_step bk name place) st (entry_cells (l_bal st) (r # rs))) st'"
      using step st'(1) unfolding sums by (auto simp: passes_chk Let_def)
  qed (use st' sums in \<open>auto simp: l_add_def\<close>)
qed

lemma close_part_reads:
  "starts_with (if a > 0 then ''To '' else ''By '') (close_part a os)" "drop_to_by (close_part a os) = join_str '' / '' os"
  by (simp_all add: close_part_def drop_to_by_def)

lemma parts_max: "debit_part x = max x 0" "credit_part x = max (- x) 0"
  by (simp_all add: debit_part_def credit_part_def)

lemma fy_end_reads [simp]: "pdate (fdate FY_END) = Inr FY_END"
  by (rule pdate_fdate) (simp_all add: FY_END_def valid_date_def days_in_month_def)

lemma close_step_passes:
  assumes st: "\<not> l_stop st" "l_closes st = (no, nt, a, os) # cps" and cp: "close_readable (no, nt, a, os)"
    and bs: "balance_type bk name"
  shows "passes (ledger_row_step bk name place st
           (line_cells (fdate FY_END) no (with_note (close_part a os) nt) (fmt (debit_part a)) (fmt (credit_part a)) (l_bal st + a)))
         (l_add a (st\<lparr>l_closes := cps\<rparr>))"
    (is "passes (ledger_row_step bk name place st ?row) ?st")
proof -
  have texts: "clean (with_note (close_part a os) nt) = close_part a os" "note_under (with_note (close_part a os) nt) = Some nt"
    "clean no = no" and number: "year_close_number no" and names: "split_sub '' / '' (join_str '' / '' os) = os"
    using cp plain_text_note [of "close_part a os" nt] split_slash_join [of os] by (auto simp: close_readable_def plain_text_clean)
  have cells: "clean_at ?row 2 = Inr (close_part a os)" "clean_at ?row (Suc 0) = Inr no"
    by (simp_all add: clean_at_def at_def texts)
  have "passes (close_entry_row bk name place st ?row no (close_part a os)) ?st"
    unfolding close_entry_row_def st(2) using bs balance_reads close_part_reads
    by (auto simp: passing sides_are_def texts at_def names parts_max ebind_Inr simp del: eands.simps)
  then show ?thesis
    using st(1) number to_by_not [OF close_part_reads(1) [of a os]] by (simp add: ledger_row_step_def cells)
qed

lemma closes_pass:
  assumes "\<not> l_stop st" "l_closes st = cps" "list_all close_readable cps" "balance_type bk name"
  shows "\<exists>st'. passes (each_with (ledger_row_step bk name place) st (close_cells (l_bal st) cps)) st'
     \<and> l_posts st' = l_posts st \<and> l_closes st' = [] \<and> l_closed st' = l_closed st \<and> \<not> l_stop st'
     \<and> l_bal st' = l_bal st + (\<Sum>(no, nt, x, os)\<leftarrow>cps. x)
     \<and> l_dr st' = l_dr st + (\<Sum>(no, nt, x, os)\<leftarrow>cps. debit_part x) \<and> l_cr st' = l_cr st + (\<Sum>(no, nt, x, os)\<leftarrow>cps. credit_part x)"
  using assms
proof (induction cps arbitrary: st)
  case Nil
  then show ?case by (auto simp: passing)
next
  case (Cons cp cps)
  obtain no nt a os where cp: "cp = (no, nt, a, os)" by (cases cp)
  let ?st = "l_add a (st\<lparr>l_closes := cps\<rparr>)"
  have step: "passes (ledger_row_step bk name place st
      (line_cells (fdate FY_END) no (with_note (close_part a os) nt) (fmt (debit_part a)) (fmt (credit_part a)) (l_bal st + a))) ?st"
    by (rule close_step_passes) (use Cons.prems cp in auto)
  have "\<exists>st'. passes (each_with (ledger_row_step bk name place) ?st (close_cells (l_bal ?st) cps)) st'
     \<and> l_posts st' = l_posts ?st \<and> l_closes st' = [] \<and> l_closed st' = l_closed ?st \<and> \<not> l_stop st'
     \<and> l_bal st' = l_bal ?st + (\<Sum>(no, nt, x, os)\<leftarrow>cps. x)
     \<and> l_dr st' = l_dr ?st + (\<Sum>(no, nt, x, os)\<leftarrow>cps. debit_part x) \<and> l_cr st' = l_cr ?st + (\<Sum>(no, nt, x, os)\<leftarrow>cps. credit_part x)"
    by (rule Cons.IH) (use Cons.prems in \<open>auto simp: l_add_def\<close>)
  then obtain st' where st': "passes (each_with (ledger_row_step bk name place) ?st (close_cells (l_bal ?st) cps)) st'"
     "l_posts st' = l_posts ?st" "l_closes st' = []" "l_closed st' = l_closed ?st" "\<not> l_stop st'"
     "l_bal st' = l_bal ?st + (\<Sum>(no, nt, x, os)\<leftarrow>cps. x)"
     "l_dr st' = l_dr ?st + (\<Sum>(no, nt, x, os)\<leftarrow>cps. debit_part x)" "l_cr st' = l_cr ?st + (\<Sum>(no, nt, x, os)\<leftarrow>cps. credit_part x)"
    by blast
  show ?case
  proof (intro exI conjI)
    show "passes (each_with (ledger_row_step bk name place) st (close_cells (l_bal st) (cp # cps))) st'"
      using step st'(1) by (auto simp: passes_chk cp l_add_def)
  qed (use st' cp in \<open>auto simp: l_add_def parts_max\<close>)
qed

text \<open>The close rows of a head stand after its total and leave nil.\<close>

lemma nil_step_passes:
  assumes st: "\<not> l_stop st" "l_closes st = (no, nt, a, os) # cps" and cp: "close_readable (no, nt, a, os)"
    and bs: "\<not> balance_type bk name"
  shows "passes (ledger_row_step bk name place st
           [fdate FY_END, no, with_note (close_part a os) nt, fmt (debit_part a), fmt (credit_part a), fmt0 0, u_emdash])
         (st\<lparr>l_closes := cps\<rparr>)"
    (is "passes (ledger_row_step bk name place st ?row) ?st")
proof -
  have texts: "clean (with_note (close_part a os) nt) = close_part a os" "note_under (with_note (close_part a os) nt) = Some nt"
    "clean no = no" and number: "year_close_number no" and names: "split_sub '' / '' (join_str '' / '' os) = os"
    using cp plain_text_note [of "close_part a os" nt] split_slash_join [of os] by (auto simp: close_readable_def plain_text_clean)
  have dash: "clean u_emdash = u_emdash" by (simp add: clean_plain strip_id_ends is_space_def)
  have cells: "clean_at ?row 2 = Inr (close_part a os)" "clean_at ?row (Suc 0) = Inr no"
    by (simp_all add: clean_at_def at_def texts)
  have "passes (close_entry_row bk name place st ?row no (close_part a os)) ?st"
    unfolding close_entry_row_def st(2) using bs close_part_reads
    by (auto simp: passing sides_are_def texts at_def names parts_max ebind_Inr dash simp del: eands.simps)
  then show ?thesis
    using st(1) number to_by_not [OF close_part_reads(1) [of a os]] by (simp add: ledger_row_step_def cells)
qed

lemma nils_pass:
  assumes "\<not> l_stop st" "l_closes st = cps" "list_all close_readable cps" "\<not> balance_type bk name"
  shows "passes (each_with (ledger_row_step bk name place) st (nil_cells cps)) (st\<lparr>l_closes := []\<rparr>)"
  using assms
proof (induction cps arbitrary: st)
  case Nil
  then show ?case by (simp add: passing)
next
  case (Cons cp cps)
  obtain no nt a os where cp: "cp = (no, nt, a, os)" by (cases cp)
  have "passes (each_with (ledger_row_step bk name place) (st\<lparr>l_closes := cps\<rparr>) (nil_cells cps)) ((st\<lparr>l_closes := cps\<rparr>)\<lparr>l_closes := []\<rparr>)"
    by (rule Cons.IH) (use Cons.prems in auto)
  moreover have "passes (ledger_row_step bk name place st
      [fdate FY_END, no, with_note (close_part a os) nt, fmt (debit_part a), fmt (credit_part a), fmt0 0, u_emdash])
      (st\<lparr>l_closes := cps\<rparr>)"
    by (rule nil_step_passes) (use Cons.prems cp in auto)
  ultimately show ?case by (auto simp: passes_chk cp)
qed

section \<open>The opening and the closing rows\<close>

lemma label_reads [simp]:
  "clean [] = []" "clean ''Opening balance b/f'' = ''Opening balance b/f''" "clean ''Closing balance c/d'' = ''Closing balance c/d''"
  "clean ''Opening balance b/d (FY 2026-27)'' = ''Opening balance b/d (FY 2026-27)''"
  "clean (bold ''Total'') = ''Total''" "clean (bold ''Total for the year'') = ''Total for the year''"
  by (simp_all add: clean_plain clean_bold strip_id_ends is_space_def)

lemma side_bold_reads: "clean (bold (side_of x)) = side x"
  by (simp add: side_of_def side_def clean_bold strip_id_ends is_space_def)

lemma opening_step_passes:
  assumes "\<not> l_stop st" "balance_type bk name" "opn bk name = op"
  shows "passes (ledger_row_step bk name place st (opening_cells op)) (st\<lparr>l_bal := op\<rparr>)"
proof -
  have cells: "clean_at (opening_cells op) 2 = Inr ''Opening balance b/f''" "clean_at (opening_cells op) (Suc 0) = Inr []"
    by (simp_all add: clean_at_def at_def opening_cells_def)
  have checks: "\<forall>c \<in> set (Inr True # sides_are (opening_cells op) (max op 0) (max (- op) 0) @ balance_is (opening_cells op) op). c = Inr True"
    by (simp add: opening_cells_def sides_are_def balance_is_def passing parts_max side_of_reads)
  show ?thesis
    using assms checks by (auto simp: ledger_row_step_def cells passes_chk Let_def simp del: eands.simps)
qed

lemma foot_passes:
  assumes st: "\<not> l_stop st" and cl: "l_dr st - l_cr st = l_bal st - opn bk name"
  shows "passes (each_with (ledger_row_step bk name place) st
           (foot_cells (l_bal st) (l_dr st + debit_part (opn bk name) + credit_part (l_bal st)) (l_cr st + credit_part (opn bk name) + debit_part (l_bal st))))
         (st\<lparr>l_closed := True\<rparr>)"
proof -
  let ?cl = "l_bal st" and ?op = "opn bk name"
  let ?t1 = "l_dr st + debit_part ?op + credit_part ?cl" and ?t2 = "l_cr st + credit_part ?op + debit_part ?cl"
  have t: "?t1 = ?t2" using cl side_sums [of ?op ?cl] by (auto simp: debit_part_def credit_part_def split: if_splits)
  let ?cd = "[fdate FY_END, [], ''Closing balance c/d'', fmt (credit_part ?cl), fmt (debit_part ?cl), u_emdash, u_emdash]"
  let ?tot = "[[], [], bold ''Total'', bold (fmt0 ?t1), bold (fmt0 ?t2), [], []]"
  let ?bd = "line_cells (fdate (next_day FY_END)) [] ''Opening balance b/d (FY 2026-27)'' (fmt (debit_part ?cl)) (fmt (credit_part ?cl)) ?cl"
  have cells: "clean_at ?cd 2 = Inr ''Closing balance c/d''" "clean_at ?cd (Suc 0) = Inr []"
    "clean_at ?tot 2 = Inr ''Total''" "clean_at ?tot (Suc 0) = Inr []"
    "clean_at ?bd 2 = Inr ''Opening balance b/d (FY 2026-27)''" "clean_at ?bd (Suc 0) = Inr []"
    by (simp_all add: clean_at_def at_def)
  have cd: "passes (ledger_row_step bk name place st ?cd) (st\<lparr>l_closed := True\<rparr>)"
    using st by (auto simp: ledger_row_step_def cells passes_chk sides_are_def passing credit_part_def debit_part_def Let_def simp del: eands.simps)
  have tot: "passes (ledger_row_step bk name place (st\<lparr>l_closed := True\<rparr>) ?tot) (st\<lparr>l_closed := True\<rparr>)"
    using st t by (auto simp: ledger_row_step_def cells passes_chk passing Let_def debit_part_def credit_part_def simp del: eands.simps)
  have checks: "\<forall>c \<in> set (sides_are ?bd (if ?cl > 0 then ?cl else 0) (if ?cl < 0 then - ?cl else 0) @ balance_is ?bd ?cl). c = Inr True"
    by (simp add: sides_are_def balance_is_def passing side_of_reads debit_part_def credit_part_def)
  have bd: "passes (ledger_row_step bk name place (st\<lparr>l_closed := True\<rparr>) ?bd) (st\<lparr>l_closed := True\<rparr>)"
    using st checks by (auto simp: ledger_row_step_def cells passes_chk Let_def simp del: eands.simps)
  show ?thesis using cd tot bd by (auto simp: foot_cells_def passes_chk)
qed

lemma year_step_passes:
  assumes "\<not> l_stop st" "\<not> balance_type bk name"
  shows "passes (ledger_row_step bk name place st (year_cells (l_bal st) (l_dr st) (l_cr st))) (st\<lparr>l_closed := True\<rparr>)"
proof -
  let ?row = "year_cells (l_bal st) (l_dr st) (l_cr st)"
  have cells: "clean_at ?row 2 = Inr ''Total for the year''" "clean_at ?row (Suc 0) = Inr []"
    by (simp_all add: clean_at_def at_def year_cells_def)
  have checks: "\<forall>c \<in> set (Inr True # sides_are ?row (l_dr st) (l_cr st) @ balance_is ?row (l_bal st)). c = Inr True"
    by (simp add: year_cells_def sides_are_def balance_is_def passing side_bold_reads)
  show ?thesis using assms checks by (auto simp: ledger_row_step_def cells passes_chk Let_def simp del: eands.simps)
qed

section \<open>The whole ledger\<close>

text \<open>The checker has read of an account what the builder posted, and the account's texts are plain.\<close>

definition reads_ledger :: "read_book \<Rightarrow> posted_book \<Rightarrow> ledger_account \<Rightarrow> close_post list \<Rightarrow> bool" where
  "reads_ledger bk b a cps =
     (let n = aname a
      in dict_has (ktype bk) n \<and> balance_type bk n = is_bs (kind a) \<and> (ty bk n = ''Credit card'' \<longrightarrow> kind a = Card)
         \<and> opn bk n = opening_bal a \<and> cls bk n = closing a \<and> pcb bk n = after_close b a
         \<and> pst bk n = map (\<lambda>r. (rdate r, rvid r, dr r - cr r)) (rows a)
         \<and> dict_or (kclose_posts bk) n [] = cps
         \<and> list_all (\<lambda>r. row_readable r \<and> narr_of bk (rvid r) = Inr (narration (rvch r))) (rows a)
         \<and> list_all close_readable cps)"

lemma card_below_nil:
  assumes "closable b" "a \<in> set (accounts b)" "kind a = Card"
  shows "list_all (\<lambda>x. x \<le> 0) (running (opening_bal a) (map (\<lambda>r. dr r - cr r) (rows a)))"
proof -
  note ok = closable_posted [OF assms(1)]
  have "map snd (account_lines b (aname a)) = map (\<lambda>r. dr r - cr r) (rows a)"
    unfolding rows_account_lines(1) [OF ok assms(2), symmetric] by (simp add: o_def)
  then have "running (opening_bal a) (map (\<lambda>r. dr r - cr r) (rows a)) = map rbal (rows a)"
    using rows_account_lines(2) [OF ok assms(2)] by simp
  moreover have "list_all fst (account_asserts a)"
    using ok assms(2) by (auto simp: posted_ok_def validate_balances_def is_ok_iff list_all_iff simp del: asserts.simps)
  ultimately show ?thesis using assms(3) by (simp add: account_asserts_def list_all_iff ball_Un)
qed

lemma ledger_rows_pass:
  assumes "closable b" "a \<in> set (accounts b)" "close_posts b (aname a) = Inr cps"
    and "is_bs (kind a) \<or> opening_bal a = 0" and reads: "reads_ledger bk b a cps"
  shows "\<exists>parts'. passes (check_ledger_rows bk parts (aname a) (ledger_cells b a cps) place) parts'"
proof -
  note ok = closable_posted [OF assms(1)]
  let ?n = "aname a"
  let ?step = "ledger_row_step bk ?n place"
  let ?init = "\<lparr>l_bal = 0, l_posts = pst bk ?n, l_closes = dict_or (kclose_posts bk) ?n [], l_dr = 0, l_cr = 0,
              l_closed = False, l_parts = parts, l_stop = False\<rparr>"
  note r = reads [unfolded reads_ledger_def Let_def]
  have after: "after_close b a = closing a + (\<Sum>(no, nt, x, os)\<leftarrow>cps. x)"
    using closable_posts [OF assms(1), of ?n a] assms(2,3) by (metis sum.inject(2))
  have tot: "(\<Sum>r\<leftarrow>rows a. dr r - cr r) = closing a - opening_bal a" by (rule rows_total [OF ok assms(2)])
  have texts: "\<forall>r \<in> set (rows a). row_readable r \<and> narr_of bk (rvid r) = Inr (narration (rvch r))"
    using r by (simp add: list_all_iff)
  have card: "ty bk ?n = ''Credit card'' \<Longrightarrow> list_all (\<lambda>x. x \<le> 0) (running (opening_bal a) (map (\<lambda>r. dr r - cr r) (rows a)))"
    using r card_below_nil [OF assms(1,2)] by blast
  have "\<exists>st. passes (each_with ?step ?init (ledger_cells b a cps)) st
      \<and> l_posts st = [] \<and> l_closes st = [] \<and> l_closed st \<and> l_bal st = (if balance_type bk ?n then pcb bk ?n else cls bk ?n)"
  proof (cases "is_bs (kind a)")
    case True
    let ?st0 = "?init\<lparr>l_bal := opening_bal a\<rparr>"
    have op: "passes (?step ?init (opening_cells (opening_bal a))) ?st0"
      by (rule opening_step_passes) (use r True in auto)
    have "\<exists>st'. passes (each_with ?step ?st0 (entry_cells (l_bal ?st0) (rows a))) st'
       \<and> l_posts st' = [] \<and> l_closes st' = l_closes ?st0 \<and> l_closed st' = l_closed ?st0 \<and> \<not> l_stop st'
       \<and> l_bal st' = l_bal ?st0 + (\<Sum>r\<leftarrow>rows a. dr r - cr r) \<and> l_dr st' = l_dr ?st0 + (\<Sum>r\<leftarrow>rows a. dr r) \<and> l_cr st' = l_cr ?st0 + (\<Sum>r\<leftarrow>rows a. cr r)"
      by (rule entries_pass) (use r texts card in auto)
    then obtain st1 where e: "passes (each_with ?step ?st0 (entry_cells (opening_bal a) (rows a))) st1"
      and st1: "l_posts st1 = []" "l_closes st1 = cps" "\<not> l_stop st1" "l_bal st1 = closing a"
        "l_dr st1 = (\<Sum>r\<leftarrow>rows a. dr r)" "l_cr st1 = (\<Sum>r\<leftarrow>rows a. cr r)"
      using r tot by auto
    obtain st2 where c: "passes (each_with ?step st1 (close_cells (closing a) cps)) st2"
      and st2: "l_posts st2 = []" "l_closes st2 = []" "\<not> l_stop st2" "l_bal st2 = after_close b a"
        "l_dr st2 = (\<Sum>r\<leftarrow>rows a. dr r) + (\<Sum>(no, nt, x, os)\<leftarrow>cps. debit_part x)"
        "l_cr st2 = (\<Sum>r\<leftarrow>rows a. cr r) + (\<Sum>(no, nt, x, os)\<leftarrow>cps. credit_part x)"
      using closes_pass [OF st1(3,2), of bk ?n place] r True st1 after by auto
    have f: "passes (each_with ?step st2 (foot_cells (l_bal st2) (l_dr st2 + debit_part (opn bk ?n) + credit_part (l_bal st2))
        (l_cr st2 + credit_part (opn bk ?n) + debit_part (l_bal st2)))) (st2\<lparr>l_closed := True\<rparr>)"
      by (rule foot_passes) (use r st2 after tot rows_diff [of "rows a"] sum_posts [of cps] in auto)
    have "passes (each_with ?step ?init (ledger_cells b a cps)) (st2\<lparr>l_closed := True\<rparr>)"
      using op e c f True r unfolding st2(4-6) by (auto simp: ledger_cells_def passes_chk passes_each_with_append)
    then show ?thesis using st2 r True by (intro exI [of _ "st2\<lparr>l_closed := True\<rparr>"]) simp
  next
    case False
    then have op: "opening_bal a = 0" using assms(4) by simp
    have "\<exists>st'. passes (each_with ?step ?init (entry_cells (l_bal ?init) (rows a))) st'
       \<and> l_posts st' = [] \<and> l_closes st' = l_closes ?init \<and> l_closed st' = l_closed ?init \<and> \<not> l_stop st'
       \<and> l_bal st' = l_bal ?init + (\<Sum>r\<leftarrow>rows a. dr r - cr r) \<and> l_dr st' = l_dr ?init + (\<Sum>r\<leftarrow>rows a. dr r) \<and> l_cr st' = l_cr ?init + (\<Sum>r\<leftarrow>rows a. cr r)"
      by (rule entries_pass) (use r texts card op in auto)
    then obtain st1 where e: "passes (each_with ?step ?init (entry_cells 0 (rows a))) st1"
      and st1: "l_posts st1 = []" "l_closes st1 = cps" "\<not> l_stop st1" "l_bal st1 = closing a"
        "l_dr st1 = (\<Sum>r\<leftarrow>rows a. dr r)" "l_cr st1 = (\<Sum>r\<leftarrow>rows a. cr r)"
      using r tot op by auto
    have y: "passes (?step st1 (year_cells (l_bal st1) (l_dr st1) (l_cr st1))) (st1\<lparr>l_closed := True\<rparr>)"
      by (rule year_step_passes) (use r False st1 in auto)
    have n: "passes (each_with ?step (st1\<lparr>l_closed := True\<rparr>) (nil_cells cps)) ((st1\<lparr>l_closed := True\<rparr>)\<lparr>l_closes := []\<rparr>)"
      by (rule nils_pass) (use r False st1 in auto)
    have "passes (each_with ?step ?init (ledger_cells b a cps)) ((st1\<lparr>l_closed := True\<rparr>)\<lparr>l_closes := []\<rparr>)"
      using e y n False unfolding st1(4-6) by (auto simp: ledger_cells_def passes_chk passes_each_with_append)
    then show ?thesis using st1 r False by (intro exI [of _ "(st1\<lparr>l_closed := True\<rparr>)\<lparr>l_closes := []\<rparr>"]) simp
  qed
  then show ?thesis
    using r by (auto simp: check_ledger_rows_def passes_chk charted_def)
qed

section \<open>Read back from the page\<close>

lemma month_no_bar: "CHR ''|'' \<notin> set (month_abbr m)"
  by (simp add: month_abbr_def)

lemma bar_not_amount: "\<not> is_digit (CHR ''|'')" "CHR ''|'' \<notin> amount_chars"
proof -
  show "\<not> is_digit (CHR ''|'')" by code_simp
  then show "CHR ''|'' \<notin> amount_chars" by (simp add: amount_chars_def)
qed

lemma fdate_cell:
  assumes "valid_date d" "1000 \<le> year d" "year d \<le> 9999"
  shows "cell_ok (fdate d)"
proof -
  let ?dd = "pad0 2 (day d)" and ?yy = "str_nat (year d)"
  have dy: "1 \<le> day d" "day d \<le> 31"
    using assms(1) days_in_month_bounds [of "year d" "month d"] by (auto simp: valid_date_def)
  have dd: "length ?dd = 2" "list_all is_digit ?dd" using pad0_two [of "day d"] dy by auto
  have yy: "list_all is_digit ?yy" using assms by (simp add: str_nat_digits)
  have nosp: "list_all (\<lambda>c. \<not> is_space c) ?dd" "list_all (\<lambda>c. \<not> is_space c) ?yy"
    using dd(2) yy digit_not_space by (auto simp: list_all_iff)
  have "CHR ''|'' \<notin> set (fdate d)"
    using digits_not_in [OF dd(2) bar_not_amount(1)] digits_not_in [OF yy bar_not_amount(1)] month_no_bar
    by (simp add: fdate_def)
  moreover have "strip (fdate d) = fdate d"
  proof (rule strip_id_ends)
    show "\<not> is_space (hd (fdate d))" using nosp(1) dd(1) by (cases ?dd) (auto simp: fdate_def)
    show "\<not> is_space (last (fdate d))" using nosp(2) by (auto simp: fdate_def list_all_iff)
  qed (simp add: fdate_def)
  ultimately show ?thesis by (simp add: cell_ok_def)
qed

lemma plain_text_cell: "plain_text s \<Longrightarrow> cell_ok s"
  by (simp add: plain_text_def cell_ok_def)

lemma amount_cell: "set s \<subseteq> amount_chars \<Longrightarrow> cell_ok s"
proof -
  assume s: "set s \<subseteq> amount_chars"
  then have "CHR ''|'' \<notin> set s" using bar_not_amount(2) by blast
  moreover have "strip s = s" using s by (intro strip_id) (auto dest: amount_chars_no_space)
  ultimately show "cell_ok s" by (simp add: cell_ok_def)
qed

lemma wrapped_cell:
  assumes "CHR ''|'' \<notin> set (x @ s @ y)" "x \<noteq> []" "y \<noteq> []" "\<not> is_space (hd x)" "\<not> is_space (last y)"
  shows "cell_ok (x @ s @ y)"
  using assms by (auto simp: cell_ok_def intro!: strip_id_ends)

lemma bold_cell: "CHR ''|'' \<notin> set s \<Longrightarrow> cell_ok (bold s)"
  unfolding bold_def by (rule wrapped_cell) (simp_all add: is_space_def)

lemma fmt_cells [simp]: "cell_ok (fmt x)" "cell_ok (fmt0 x)" "cell_ok (bold (fmt x))" "cell_ok (bold (fmt0 x))"
proof -
  show "cell_ok (fmt x)" "cell_ok (fmt0 x)" by (rule amount_cell [OF fmt_opt_chars])+
  have "CHR ''|'' \<notin> set (fmt x)" "CHR ''|'' \<notin> set (fmt0 x)"
    using fmt_opt_chars bar_not_amount(2) by blast+
  then show "cell_ok (bold (fmt x))" "cell_ok (bold (fmt0 x))" by (simp_all add: bold_cell)
qed

lemma label_cells [simp]:
  "cell_ok []" "cell_ok (side_of x)" "cell_ok (bold (side_of x))" "cell_ok u_emdash" "cell_ok (bold ''Total'')"
  "cell_ok (bold ''Total for the year'')" "cell_ok ''Opening balance b/f''" "cell_ok ''Closing balance c/d''"
  "cell_ok ''Opening balance b/d (FY 2026-27)''"
  by (simp_all add: cell_ok_def side_of_def bold_def strip_id_ends is_space_def)

lemma note_cell:
  assumes "plain_text p" "plain_text n" "p \<noteq> []"
  shows "cell_ok (with_note p n)"
proof -
  have "\<not> is_space (hd p)" using assms by (intro stripped_hd) (simp_all add: plain_text_def)
  moreover have "hd (with_note p n) = hd p" using assms(3) by (simp add: with_note_def)
  moreover have "last (with_note p n) = CHR ''>''" "with_note p n \<noteq> []" by (simp_all add: with_note_def)
  moreover have "\<not> is_space (CHR ''>'')" by (simp add: is_space_def)
  ultimately have "strip (with_note p n) = with_note p n" by (intro strip_id_ends) simp_all
  moreover have "CHR ''|'' \<notin> set (with_note p n)" using assms(1,2) by (simp add: with_note_def plain_text_def)
  ultimately show ?thesis by (simp add: cell_ok_def)
qed

lemma to_by_ne: "starts_with (if c then ''To '' else ''By '') p \<Longrightarrow> p \<noteq> []"
  by (auto split: if_splits)

lemma line_row_ok:
  "cell_ok d \<Longrightarrow> cell_ok no \<Longrightarrow> cell_ok t \<Longrightarrow> cell_ok x \<Longrightarrow> cell_ok y \<Longrightarrow> row_ok (line_cells d no t x y nb)"
  by (simp add: row_ok_def line_cells_def)

lemma entry_cells_ok: "list_all row_readable rs \<Longrightarrow> list_all row_ok (entry_cells bl rs)"
proof (induction rs arbitrary: bl)
  case (Cons r rs)
  then have r: "row_readable r" by simp
  have "cell_ok (fdate (rdate r))" "cell_ok (rvid r)" "cell_ok (with_note (part r) (narration (rvch r)))"
    using r to_by_ne [of _ "part r"] by (auto simp: row_readable_def intro: fdate_cell plain_text_cell note_cell)
  with Cons show ?case by (simp add: Let_def line_row_ok)
qed simp

lemma fy_cells [simp]: "cell_ok (fdate FY_END)" "cell_ok (fdate FY_START)" "cell_ok (fdate (next_day FY_END))"
  by (rule fdate_cell; simp add: FY_END_def FY_START_def next_day_def valid_date_def days_in_month_def)+

lemma close_row_cells: "close_readable (no, nt, a, os) \<Longrightarrow> cell_ok no \<and> cell_ok (with_note (close_part a os) nt)"
  using close_part_reads(1) [of a os] to_by_ne by (auto simp: close_readable_def intro: plain_text_cell note_cell)

lemma close_cells_ok: "list_all close_readable cps \<Longrightarrow> list_all row_ok (close_cells bl cps) \<and> list_all row_ok (nil_cells cps)"
proof (induction cps arbitrary: bl)
  case (Cons cp cps)
  then show ?case
    by (cases cp) (auto simp: line_cells_def row_ok_def dest: close_row_cells)
qed simp

lemma ledger_cells_ok:
  assumes "list_all row_readable (rows a)" "list_all close_readable cps"
  shows "list_all row_ok (ledger_cells b a cps)"
  using entry_cells_ok [OF assms(1)] close_cells_ok [OF assms(2)]
  by (simp add: ledger_cells_def opening_cells_def foot_cells_def year_cells_def line_cells_def row_ok_def)

text \<open>C14. Builder and checker together: take any account of a book that can be closed (a head
  opening at nil), and a checker's book that has read of it what was posted, its texts free of Markdown
  characters.  Then the ledger \<open>build.py\<close> prints is read back by \<open>check_md.py\<close> as one table, cell for cell, and
  every check of a ledger passes on its rows: the opening brought forward, every entry with its number, note,
  amounts and running balance, the year-close rows, the totals and the balance carried down.\<close>

theorem printed_ledger_passes:
  assumes "closable b" "a \<in> set (accounts b)" "close_posts b (aname a) = Inr cps"
    and "is_bs (kind a) \<or> opening_bal a = 0" "row_ok (ledger_heads (cols a))" "reads_ledger bk b a cps"
  shows "\<exists>ls op tdr tcr cl rs parts'.
     year_ledger b a = Inr (ls, op, tdr, tcr, cl)
     \<and> read_tables ls 0 (length ls) = Inr [(0, ledger_heads (cols a) # rs)]
     \<and> passes (check_ledger_rows bk parts (aname a) rs place) parts'"
proof -
  obtain op tdr tcr cl where l: "year_ledger b a = Inr (table (ledger_heads (cols a)) ledger_aligns (ledger_cells b a cps), op, tdr, tcr, cl)"
    using year_ledger_cells [OF assms(1-4)] by blast
  obtain parts' where p: "passes (check_ledger_rows bk parts (aname a) (ledger_cells b a cps) place) parts'"
    using ledger_rows_pass [OF assms(1-4,6)] by blast
  have "list_all row_readable (rows a)" "list_all close_readable cps"
    using assms(6) by (auto simp: reads_ledger_def Let_def list_all_iff)
  then have rs: "list_all row_ok (ledger_cells b a cps)" by (rule ledger_cells_ok)
  have "read_tables_aux 0 (table (ledger_heads (cols a)) ledger_aligns (ledger_cells b a cps) @ [])
      = Inr [(0, ledger_heads (cols a) # ledger_cells b a cps)]"
    using read_tables_table [OF assms(5) rs, of ledger_aligns "[]" 0] by (simp add: ledger_aligns_def read_tables_aux.simps)
  then show ?thesis using l p by (auto simp: read_tables_def)
qed

end

