(* ===== verification/Check_Sound.thy ===== *)
theory Check_Sound
  imports Check_Main
begin

text \<open>
  What a run of \<open>parse_book\<close> without problems shows of the book it read: every entry is well formed and
  double, the postings are the entries' lines, and the balances of the chart come to nil before the
  year, at its end and after the close.
\<close>

section \<open>Dictionaries\<close>

lemma dict_or_update [simp]: "dict_or (AList.update k v d) n x = (if n = k then v else dict_or d n x)"
  by (simp add: dict_or_def update_conv')

lemma dict_has_update [simp]: "dict_has (AList.update k v d) n \<longleftrightarrow> n = k \<or> dict_has d n"
  by (simp add: dict_has_def update_conv')

lemma dict_or_Some: "map_of d n = Some v \<Longrightarrow> dict_or d n x = v"
  by (simp add: dict_or_def)

lemma dict_or_map [simp]: "n \<in> set ns \<Longrightarrow> dict_or (map (\<lambda>n. (n, f n)) ns) n x = f n"
  by (simp add: dict_or_def map_of_map_restrict)

section \<open>The chart\<close>

definition chart_ok :: "chart_state \<Rightarrow> bool" where
  "chart_ok st =
     (set (h_accounts st) = {n. dict_has (h_type st) n} \<and> set (h_accounts st) = {n. dict_has (h_opening st) n}
      \<and> (distinct (h_accounts st) \<longrightarrow> (\<Sum>n\<leftarrow>h_accounts st. dict_or (h_opening st) n 0) = h_dr st - h_cr st))"

lemma sum_if_new:
  "n \<notin> set ns \<Longrightarrow> (\<Sum>m\<leftarrow>ns. if m = n then v else f m) = (\<Sum>m\<leftarrow>ns. f m :: int)"
  by (induction ns) auto

lemma chart_ok_add:
  assumes "chart_ok st"
  shows "chart_ok (st\<lparr>h_accounts := h_accounts st @ [n], h_type := AList.update n t (h_type st),
               h_opening := AList.update n (dr - cr) (h_opening st), h_dr := h_dr st + dr, h_cr := h_cr st + cr\<rparr>)"
  using assms by (auto simp: chart_ok_def sum_if_new)

lemma chart_step_cases:
  assumes "passes (chart_step label st r) st'"
  obtains "st' = st"
  | n t dr cr where "st' = st\<lparr>h_accounts := h_accounts st @ [n], h_type := AList.update n t (h_type st),
               h_opening := AList.update n (dr - cr) (h_opening st), h_dr := h_dr st + dr, h_cr := h_cr st + cr\<rparr>"
  using assms unfolding chart_step_def
  by (auto simp: passes_chk split: if_splits)

lemma chart_step_ok: "passes (chart_step label st r) st' \<Longrightarrow> chart_ok st \<Longrightarrow> chart_ok st'"
  by (erule chart_step_cases) (simp_all add: chart_ok_add)

lemma read_chart_ok:
  assumes "passes (read_chart label ls) (i, st)"
  shows "chart_ok st \<and> h_dr st = h_cr st"
proof -
  obtain rs where run: "passes (each_with (chart_step label) \<lparr>h_accounts = [], h_type = [], h_opening = [], h_dr = 0, h_cr = 0\<rparr> rs) st"
    and eq: "h_dr st = h_cr st" using assms unfolding read_chart_def by (auto simp: passes_chk Let_def)
  have "chart_ok \<lparr>h_accounts = [], h_type = [], h_opening = [], h_dr = 0, h_cr = 0\<rparr>"
    by (simp add: chart_ok_def dict_has_def)
  then have "chart_ok st"
    by (rule passes_each_with_step [OF run]) (rule chart_step_ok)
  with eq show ?thesis by simp
qed

section \<open>The entries\<close>

text \<open>Entry \<open>k\<close> of the Day Book, read: two sides of one total with no account on both, names of the chart,
  a day of the year, a type the checker knows, and the number \<open>k\<close>.\<close>

definition read_entry_ok :: "string dict \<Rightarrow> nat \<Rightarrow> read_entry \<Rightarrow> bool" where
  "read_entry_ok types k v =
     (sum_of (elines v) = 0 \<and> list_all (\<lambda>l. dict_has types (fst l)) (elines v)
      \<and> FY_START \<le> edate v \<and> edate v \<le> FY_END \<and> etype v \<in> set CHECK_VTYPES \<and> ends_with (''-'' @ pad0 3 (int k)) (evid v))"

definition entries_ok :: "string dict \<Rightarrow> read_entry list \<Rightarrow> bool" where
  "entries_ok types vs =
     ((\<forall>i < length vs. read_entry_ok types (Suc i) (vs ! i)) \<and> sorted (map edate vs))"

definition same_chart :: "read_book \<Rightarrow> read_book \<Rightarrow> bool" where
  "same_chart bk bk' =
     (kaccounts bk' = kaccounts bk \<and> ktype bk' = ktype bk \<and> kopening bk' = kopening bk \<and> kpath bk' = kpath bk
      \<and> klines bk' = klines bk \<and> kname bk' = kname bk)"

lemma sum_of_simps [simp]: "sum_of [] = 0" "sum_of (l # ls) = snd l + sum_of ls" "sum_of (xs @ ys) = sum_of xs + sum_of ys"
  by (simp_all add: sum_of_def)

lemma sum_of_minus [simp]: "sum_of (minus_lines ls) = - sum_of ls"
  by (induction ls) (simp_all add: minus_lines_def)

lemma minus_lines_names: "fst ` set (minus_lines ls) = fst ` set ls"
  by (force simp: minus_lines_def)

definition reading_ok :: "read_book \<Rightarrow> read_book \<times> nat \<times> date option \<Rightarrow> bool" where
  "reading_ok bk0 st = (case st of (bk, k, prev) \<Rightarrow>
     same_chart bk0 bk \<and> entries_ok (ktype bk) (kvouchers bk) \<and> k = Suc (length (kvouchers bk))
     \<and> prev = (if kvouchers bk = [] then None else Some (edate (last (kvouchers bk)))))"

lemma sorted_last: "sorted (xs :: date list) \<Longrightarrow> x \<in> set xs \<Longrightarrow> x \<le> last xs"
  by (induction xs) auto

lemma passes_done_ok: "passes (done_with (ok c msg)) u \<longleftrightarrow> c"
  by auto

lemma passes_chkE: "passes (chk m f) y \<Longrightarrow> (\<And>x. passes m x \<Longrightarrow> passes (f x) y \<Longrightarrow> thesis) \<Longrightarrow> thesis"
  by (auto simp: passes_chk)

lemma entry_row_passes:
  assumes "passes (entry_row label (bk, k, prev) (date # vid # vt # drc # crc # amt # narr # rest)) st'"
  obtains drs crs vtype d amount where
    "st' = (bk\<lparr>kvouchers := kvouchers bk @
                 [\<lparr>edate = d, evid = vid, etype = vtype, elines = drs @ minus_lines crs, enarr = strip narr\<rparr>]\<rparr>, Suc k, Some d)"
    "sum_of drs = amount" "amount = sum_of crs" "\<forall>l \<in> set (drs @ crs). dict_has (ktype bk) (fst l)"
    "FY_START \<le> d" "d \<le> FY_END" "case prev of None \<Rightarrow> True | Some p \<Rightarrow> d \<ge> p" "ends_with (''-'' @ pad0 3 (int k)) vid"
    "vtype \<in> set CHECK_VTYPES"
  using assms unfolding entry_row_def prod.case list.case Let_def
  apply (elim passes_chkE)
  apply (rule that, rule sym, erule passes_ret [THEN iffD1])
  apply (simp_all only: passes_ok passes_each passes_done_ok simp_thms)
  done

lemma entry_row_ok:
  assumes "passes (entry_row label (bk, k, prev) r) st'" "reading_ok bk0 (bk, k, prev)"
  shows "reading_ok bk0 st'"
proof -
  obtain date vid vt drc crc amt narr rest where r: "r = date # vid # vt # drc # crc # amt # narr # rest"
    using assms(1) by (auto simp: entry_row_def split: list.splits)
  obtain drs crs vtype d amount where st': "st' = (bk\<lparr>kvouchers := kvouchers bk @
                 [\<lparr>edate = d, evid = vid, etype = vtype, elines = drs @ minus_lines crs, enarr = strip narr\<rparr>]\<rparr>, Suc k, Some d)"
    and v: "sum_of drs = amount" "amount = sum_of crs" "\<forall>l \<in> set (drs @ crs). dict_has (ktype bk) (fst l)"
    "FY_START \<le> d" "d \<le> FY_END" "case prev of None \<Rightarrow> True | Some p \<Rightarrow> d \<ge> p" "ends_with (''-'' @ pad0 3 (int k)) vid"
    "vtype \<in> set CHECK_VTYPES"
    using assms(1) unfolding r by (rule entry_row_passes)
  let ?v = "\<lparr>edate = d, evid = vid, etype = vtype, elines = drs @ minus_lines crs, enarr = strip narr\<rparr>"
  have k: "k = Suc (length (kvouchers bk))" and old: "entries_ok (ktype bk) (kvouchers bk)"
    using assms(2) by (auto simp: reading_ok_def)
  have new: "read_entry_ok (ktype bk) k ?v"
    using v(1-5,7-) minus_lines_names [of crs] unfolding read_entry_ok_def list_all_iff
    by simp (metis (no_types, lifting) Un_iff image_iff)
  have "\<forall>x \<in> set (kvouchers bk). edate x \<le> d"
  proof
    fix x assume x: "x \<in> set (kvouchers bk)"
    then have "prev = Some (edate (last (kvouchers bk)))" using assms(2) by (auto simp: reading_ok_def)
    then have "edate (last (kvouchers bk)) \<le> d" using v(6) by simp
    moreover have "edate x \<le> last (map edate (kvouchers bk))"
      using old x by (intro sorted_last) (auto simp: entries_ok_def)
    ultimately show "edate x \<le> d" using x by (cases "kvouchers bk" rule: rev_cases) auto
  qed
  with old new k have "entries_ok (ktype bk) (kvouchers bk @ [?v])"
    by (auto simp: entries_ok_def nth_append sorted_append less_Suc_eq)
  with assms(2) k show ?thesis by (simp add: st' reading_ok_def same_chart_def)
qed

lemma entries_read:
  assumes run: "passes (each_with (entry_row label) (bk0, 1, None) rs) (bk, k, prev)" and new: "kvouchers bk0 = []"
  shows "same_chart bk0 bk \<and> entries_ok (ktype bk) (kvouchers bk)"
proof -
  have "reading_ok bk0 (bk0, 1, None)" using new by (simp add: reading_ok_def same_chart_def entries_ok_def)
  then have "reading_ok bk0 (bk, k, prev)"
    by (rule passes_each_with_step [OF run]) (metis entry_row_ok prod_cases3)
  then show ?thesis by (simp add: reading_ok_def)
qed

section \<open>The balances\<close>

definition posted_sum :: "string list \<Rightarrow> posting list dict \<Rightarrow> int" where
  "posted_sum ns d = (\<Sum>n\<leftarrow>ns. \<Sum>p\<leftarrow>dict_or d n []. posting_amount p)"

lemma sum_if_in:
  "distinct ns \<Longrightarrow> n \<in> set ns \<Longrightarrow> (\<Sum>m\<leftarrow>ns. if m = n then v else f m) = (\<Sum>m\<leftarrow>ns. f m :: int) - f n + v"
  by (induction ns) (auto simp: sum_if_new)

lemma post_read_ok:
  assumes "post_read v d l = Inr d'" "distinct ns" "\<forall>n. dict_has d n \<longleftrightarrow> n \<in> set ns"
  shows "posted_sum ns d' = posted_sum ns d + snd l \<and> (\<forall>n. dict_has d' n \<longleftrightarrow> n \<in> set ns)"
proof -
  obtain ps where ps: "map_of d (fst l) = Some ps" and d': "d' = AList.update (fst l) (ps @ [(edate v, evid v, snd l)]) d"
    using assms(1) by (auto simp: post_read_def ebind_Inr dict_get_Inr)
  have mem: "fst l \<in> set ns" using assms(3) ps by (metis dict_has_def option.distinct(1))
  have "dict_or d (fst l) [] = ps" using ps by (rule dict_or_Some)
  moreover have "(\<Sum>p\<leftarrow>dict_or d' n []. posting_amount p)
      = (if n = fst l then (\<Sum>p\<leftarrow>ps. posting_amount p) + snd l else (\<Sum>p\<leftarrow>dict_or d n []. posting_amount p))" for n
    by (simp add: d' posting_amount_def)
  ultimately have "posted_sum ns d' = posted_sum ns d + snd l"
    using mem assms(2) by (simp add: posted_sum_def sum_if_in)
  with mem assms(3) show ?thesis by (auto simp: d')
qed

lemma efold_inv:
  assumes "efold f d xs = Inr d'" "P d (s :: int)"
    and "\<And>d x d' s. x \<in> set xs \<Longrightarrow> f d x = Inr d' \<Longrightarrow> P d s \<Longrightarrow> P d' (s + g x)"
  shows "P d' (s + (\<Sum>x\<leftarrow>xs. g x))"
  using assms
proof (induction xs arbitrary: d s)
  case (Cons x xs)
  obtain e where e: "f d x = Inr e" and rest: "efold f e xs = Inr d'"
    using Cons.prems(1) by (auto simp: ebind_Inr)
  have "P d' ((s + g x) + (\<Sum>x\<leftarrow>xs. g x))"
    by (rule Cons.IH [OF rest]) (use Cons.prems e in auto)
  then show ?case by (simp add: algebra_simps)
qed simp

lemma sum_nil: "list_all (\<lambda>x. f x = 0) xs \<Longrightarrow> (\<Sum>x\<leftarrow>xs. f x :: int) = 0"
  by (induction xs) auto

lemma dict_or_nothing [simp]: "dict_or (map (\<lambda>n. (n, [])) ns) n [] = []"
  by (induction ns) (auto simp: dict_or_def)

lemma posted_balanced:
  assumes posted: "post_all bk = Inr ps" and ns: "distinct (kaccounts bk)"
    and "list_all (\<lambda>v. sum_of (elines v) = 0) (kvouchers bk)"
  shows "posted_sum (kaccounts bk) ps = 0"
proof -
  let ?ok = "\<lambda>d s. posted_sum (kaccounts bk) d = s \<and> (\<forall>n. dict_has d n \<longleftrightarrow> n \<in> set (kaccounts bk))"
  let ?d = "map (\<lambda>n. (n, [])) (kaccounts bk)"
  have start: "?ok ?d 0"
    by (auto simp: posted_sum_def dict_has_def map_of_eq_None_iff image_image)
  have "?ok ps (0 + (\<Sum>v\<leftarrow>kvouchers bk. sum_of (elines v)))"
  proof (rule efold_inv [where P = ?ok, OF posted [unfolded post_all_def] start])
    fix d v d' s assume run: "efold (post_read v) d (elines v) = Inr d'" and "?ok d s"
    then show "?ok d' (s + sum_of (elines v))"
      unfolding sum_of_def
      by (rule efold_inv [where P = ?ok and g = snd]) (use post_read_ok ns in metis)
  qed
  moreover have "(\<Sum>v\<leftarrow>kvouchers bk. sum_of (elines v)) = 0"
    using assms(3) by (rule sum_nil)
  ultimately show ?thesis by simp
qed

lemma with_balances_ok:
  assumes "with_balances bk = Inr bk'" "entries_ok (ktype bk) (kvouchers bk)"
  shows "same_chart bk bk' \<and> kvouchers bk' = kvouchers bk
         \<and> (distinct (kaccounts bk) \<longrightarrow> (\<Sum>n\<leftarrow>kaccounts bk. cls bk' n) = (\<Sum>n\<leftarrow>kaccounts bk. opn bk n))
         \<and> (\<forall>n. dict_has (kclosing bk') n \<longleftrightarrow> n \<in> set (kaccounts bk))"
proof -
  obtain ps where ps: "post_all bk = Inr ps" and bk': "bk' = bk\<lparr>kpost := ps,
      kclosing := map (\<lambda>n. (n, opn bk n + (\<Sum>p\<leftarrow>dict_or ps n []. posting_amount p))) (kaccounts bk)\<rparr>"
    using assms(1) by (auto simp: with_balances_def ebind_Inr Let_def opn_def pst_def)
  have "list_all (\<lambda>v. sum_of (elines v) = 0) (kvouchers bk)"
    using assms(2) by (auto simp: entries_ok_def read_entry_ok_def list_all_length)
  then have "distinct (kaccounts bk) \<Longrightarrow> posted_sum (kaccounts bk) ps = 0" by (rule posted_balanced [OF ps, rotated])
  moreover have "(\<Sum>n\<leftarrow>kaccounts bk. cls bk' n) = (\<Sum>n\<leftarrow>kaccounts bk. opn bk n) + posted_sum (kaccounts bk) ps"
    by (simp add: bk' cls_def posted_sum_def sum_list_addf cong: map_cong)
  ultimately show ?thesis
    by (auto simp: bk' same_chart_def dict_has_def map_of_eq_None_iff image_image)
qed

section \<open>The close\<close>

lemma sum_dict_add: "(\<Sum>p\<leftarrow>dict_add n a d. snd p) = (\<Sum>p\<leftarrow>d. snd p) + a"
  by (induction d) (auto simp: dict_add_def dict_or_def)

definition close_sum :: "string list \<Rightarrow> read_book \<Rightarrow> int dict \<Rightarrow> int" where
  "close_sum ns bk pseudo = (\<Sum>n\<leftarrow>ns. pcb bk n) + (\<Sum>p\<leftarrow>pseudo. snd p)"

lemma close_line_ok:
  assumes "passes (close_line_step vid nt lns (bk, pseudo) l) (bk', pseudo')"
    "\<forall>n. dict_has (ktype bk) n \<longleftrightarrow> n \<in> set ns"
  shows "(distinct ns \<longrightarrow> close_sum ns bk' pseudo' = close_sum ns bk pseudo + snd l) \<and> same_chart bk bk'
         \<and> kvouchers bk' = kvouchers bk \<and> kclosing bk' = kclosing bk"
proof (cases "dict_has (ktype bk) (fst l)")
  case True
  then have bk': "bk' = bk\<lparr>kpcb := AList.update (fst l) (pcb bk (fst l) + snd l) (kpcb bk),
      kclose_posts := dict_push (fst l) (vid, nt, snd l, opposite lns (snd l)) (kclose_posts bk)\<rparr>" "pseudo' = pseudo"
    using assms(1) by (cases l; simp only: close_line_step_def prod.case if_True passes_chk passes_ok passes_ret; auto)+
  have "pcb bk' m = (if m = fst l then pcb bk (fst l) + snd l else pcb bk m)" for m
    by (simp add: bk' pcb_def)
  then show ?thesis
    using True assms(2) by (simp add: close_sum_def sum_if_in) (simp add: bk' same_chart_def)
next
  case False
  then have "bk' = bk" "pseudo' = dict_add (fst l) (snd l) pseudo"
    using assms(1) by (cases l; auto simp: close_line_step_def)+
  then show ?thesis by (simp add: close_sum_def sum_dict_add same_chart_def)
qed

text \<open>What the lines of the close keep: the chart, the entries, and the sum of balances and heads.\<close>

definition close_kept :: "string list \<Rightarrow> read_book \<Rightarrow> int \<Rightarrow> read_book \<Rightarrow> int dict \<Rightarrow> bool" where
  "close_kept ns bk0 s bk pseudo =
     ((distinct ns \<longrightarrow> close_sum ns bk pseudo = s) \<and> same_chart bk0 bk \<and> kvouchers bk = kvouchers bk0 \<and> kclosing bk = kclosing bk0)"

lemma close_lines_kept:
  assumes "passes (each_with (close_line_step vid nt lns) (bk, pseudo) ls) (bk', pseudo')"
    "\<forall>n. dict_has (ktype bk0) n \<longleftrightarrow> n \<in> set ns" "close_kept ns bk0 s bk pseudo"
  shows "close_kept ns bk0 (s + sum_of ls) bk' pseudo'"
  using assms
proof (induction ls arbitrary: bk pseudo s)
  case (Cons l ls)
  obtain bk1 ps1 where step: "passes (close_line_step vid nt lns (bk, pseudo) l) (bk1, ps1)"
    and rest: "passes (each_with (close_line_step vid nt lns) (bk1, ps1) ls) (bk', pseudo')"
    using Cons.prems(1) by (auto simp: passes_chk)
  have "\<forall>n. dict_has (ktype bk) n \<longleftrightarrow> n \<in> set ns"
    using Cons.prems(2,3) by (simp add: close_kept_def same_chart_def)
  then have "close_kept ns bk0 (s + snd l) bk1 ps1"
    using close_line_ok [OF step, of ns] Cons.prems(3) by (simp add: close_kept_def same_chart_def)
  from Cons.IH [OF rest Cons.prems(2) this] show ?case by (simp add: algebra_simps)
qed simp

lemma close_row_passes:
  assumes "passes (close_row_step stem (bk, pseudo, k) r) (bk', pseudo', k')"
  obtains vid nt lns where
    "passes (each_with (close_line_step vid (strip nt) lns) (bk\<lparr>kclose := kclose bk @ [(vid, strip nt, lns)]\<rparr>, pseudo) lns) (bk', pseudo')"
    "sum_of lns = 0"
proof -
  obtain vid date nt dcell ccell amt rest where r: "r = vid # date # nt # dcell # ccell # amt # rest"
    using assms by (auto simp: close_row_step_def split: list.splits)
  show thesis
    using assms unfolding r close_row_step_def prod.case list.case Let_def
    apply (elim passes_chkE)
    apply (simp only: passes_ret passes_ok prod.inject split: prod.splits)
    apply (elim conjE, hypsubst)
    apply (rule that, assumption, simp)
    done
qed

lemma close_rows_kept:
  assumes "passes (each_with (close_row_step stem) (bk, pseudo, k) rs) (bk', pseudo', k')"
    "\<forall>n. dict_has (ktype bk0) n \<longleftrightarrow> n \<in> set ns" "close_kept ns bk0 s bk pseudo"
  shows "close_kept ns bk0 s bk' pseudo'"
  using assms
proof (induction rs arbitrary: bk pseudo k)
  case (Cons r rs)
  obtain bk1 ps1 k1 where step: "passes (close_row_step stem (bk, pseudo, k) r) (bk1, ps1, k1)"
    and rest: "passes (each_with (close_row_step stem) (bk1, ps1, k1) rs) (bk', pseudo', k')"
    using Cons.prems(1) by (auto simp: passes_chk)
  from step obtain vid nt lns where lines: "passes (each_with (close_line_step vid (strip nt) lns)
      (bk\<lparr>kclose := kclose bk @ [(vid, strip nt, lns)]\<rparr>, pseudo) lns) (bk1, ps1)" and double: "sum_of lns = 0"
    by (rule close_row_passes)
  have "close_kept ns bk0 s (bk\<lparr>kclose := kclose bk @ [(vid, strip nt, lns)]\<rparr>) pseudo"
    using Cons.prems(3) by (simp add: close_kept_def close_sum_def pcb_def same_chart_def)
  from close_lines_kept [OF lines Cons.prems(2) this] double
  have "close_kept ns bk0 s bk1 ps1" by simp
  then show ?case by (rule Cons.IH [OF rest Cons.prems(2)])
qed simp

lemma close_checks_pass:
  assumes "passes (close_checks bk pseudo) u"
  shows "(\<Sum>p\<leftarrow>pseudo. snd p) = 0"
proof -
  have "list_all (\<lambda>(_, v). v = 0) pseudo"
    using assms unfolding close_checks_def Let_def
    by (cases "equity_parts_read bk FY_END") (simp only: prod.case passes_chk passes_ok, blast)
  then show ?thesis by (intro sum_nil) (auto simp: list_all_iff)
qed

lemma parse_close_ok:
  assumes "passes (parse_close bk0) bk" "\<forall>n. dict_has (ktype bk0) n \<longleftrightarrow> n \<in> set ns"
  shows "same_chart bk0 bk \<and> kvouchers bk = kvouchers bk0 \<and> kclosing bk = kclosing bk0
         \<and> (distinct ns \<longrightarrow> (\<Sum>n\<leftarrow>ns. pcb bk n) = (\<Sum>n\<leftarrow>ns. cls bk0 n))"
proof -
  let ?bk = "bk0\<lparr>kclose := [], kclose_posts := [], kpcb := kclosing bk0\<rparr>"
  obtain stem rs pseudo k u where run: "passes (each_with (close_row_step stem) (?bk, [], 1) rs) (bk, pseudo, k)"
    and checks: "passes (close_checks bk pseudo) u"
    using assms(1) unfolding parse_close_def Let_def
    by (auto simp: passes_chk split: option.splits)
  have "close_kept ns bk0 (\<Sum>n\<leftarrow>ns. cls bk0 n) ?bk []"
    by (simp add: close_kept_def close_sum_def pcb_def cls_def same_chart_def)
  from close_rows_kept [OF run assms(2) this] close_checks_pass [OF checks] show ?thesis
    by (simp add: close_kept_def close_sum_def)
qed

section \<open>parse_book\<close>

lemma parse_book_stages:
  assumes "passes (parse_book label name ls export) bk"
  obtains i st rs bk1 k prev bk2 where "passes (read_chart label ls) (i, st)"
    "passes (each_with (entry_row label) (blank_book label name ls export st, 1, None) rs) (bk1, k, prev)"
    "with_balances bk1 = Inr bk2" "passes (parse_close bk2) bk"
  using assms unfolding parse_book_def Let_def
  by (auto simp: passes_chk)

lemma parsed_book:
  assumes "passes (parse_book label name ls export) bk"
  shows "entries_ok (ktype bk) (kvouchers bk)
     \<and> (distinct (kaccounts bk) \<longrightarrow> (\<Sum>n\<leftarrow>kaccounts bk. opn bk n) = 0 \<and> (\<Sum>n\<leftarrow>kaccounts bk. cls bk n) = 0
          \<and> (\<Sum>n\<leftarrow>kaccounts bk. pcb bk n) = 0)"
proof -
  obtain i st rs bk1 k prev bk2 where chart: "passes (read_chart label ls) (i, st)"
    and rows: "passes (each_with (entry_row label) (blank_book label name ls export st, 1, None) rs) (bk1, k, prev)"
    and balances: "with_balances bk1 = Inr bk2" and closed: "passes (parse_close bk2) bk"
    using assms by (rule parse_book_stages)
  have st: "chart_ok st" "h_dr st = h_cr st" using read_chart_ok [OF chart] by auto
  have bk1: "same_chart (blank_book label name ls export st) bk1" "entries_ok (ktype bk1) (kvouchers bk1)"
    using entries_read [OF rows] by (simp_all add: blank_book_def)
  have names: "kaccounts bk1 = h_accounts st" "\<forall>n. dict_has (ktype bk1) n \<longleftrightarrow> n \<in> set (h_accounts st)"
    using bk1(1) st by (auto simp: same_chart_def blank_book_def chart_ok_def)
  have bk2: "same_chart bk1 bk2" "kvouchers bk2 = kvouchers bk1"
    "distinct (kaccounts bk1) \<longrightarrow> (\<Sum>n\<leftarrow>kaccounts bk1. cls bk2 n) = (\<Sum>n\<leftarrow>kaccounts bk1. opn bk1 n)"
    using with_balances_ok [OF balances bk1(2)] by auto
  have bk: "same_chart bk2 bk" "kvouchers bk = kvouchers bk2" "kclosing bk = kclosing bk2"
    "distinct (h_accounts st) \<longrightarrow> (\<Sum>n\<leftarrow>h_accounts st. pcb bk n) = (\<Sum>n\<leftarrow>h_accounts st. cls bk2 n)"
    using parse_close_ok [OF closed, of "h_accounts st"] names bk2(1) by (auto simp: same_chart_def)
  have "distinct (h_accounts st) \<longrightarrow> (\<Sum>n\<leftarrow>h_accounts st. opn bk n) = 0"
    using st bk1(1) bk2(1) bk(1) by (simp add: chart_ok_def opn_def same_chart_def blank_book_def)
  then show ?thesis
    using bk1 bk2 bk names by (auto simp: same_chart_def opn_def cls_def)
qed

section \<open>The book as read\<close>

text \<open>C18. Whatever two files \<open>parse_book\<close> reads without a problem, the Day Book it returns
  is well formed: entry \<open>k\<close> carries the number \<open>k\<close>, is double (its signed lines sum to nil), names only
  accounts of the chart, has a type the checker knows and a day of the year, and the days never go back.\<close>

theorem parsed_book_wf:
  "passes (parse_book label name ls export) bk \<Longrightarrow> entries_ok (ktype bk) (kvouchers bk)"
  using parsed_book by blast

text \<open>C17. A book read without a problem, its chart naming no account twice, balances
  three times over: the openings, the balances at the year end, and the balances after the printed close
  each sum to nil, the heads that are no accounts (the result) having come to nil.\<close>

theorem parsed_book_balances:
  "passes (parse_book label name ls export) bk \<Longrightarrow> distinct (kaccounts bk) \<Longrightarrow>
     (\<Sum>n\<leftarrow>kaccounts bk. opn bk n) = 0 \<and> (\<Sum>n\<leftarrow>kaccounts bk. cls bk n) = 0 \<and> (\<Sum>n\<leftarrow>kaccounts bk. pcb bk n) = 0"
  using parsed_book by blast

end
