(* ===== verification/Worked_Check.thy ===== *)
theory Worked_Check
  imports Check_Accepts Check_Sound
begin

text \<open>
  The checker on a concrete book: a small business with four accounts and two entries, posted and
  closed by the builder's definitions and read by the checker's.
\<close>

section \<open>A small book\<close>

definition demo_accounts :: "account list" where
  "demo_accounts =
     [Account ''Cash A/c'' Cash ''Money'' 500000, Account ''Own Money A/c'' Capital ''Own money'' (- 500000),
      Account ''Rent A/c'' Expense ''Head'' 0, Account ''Sales A/c'' Income ''Head'' 0]"

definition demo_book :: book where
  "demo_book =
     (Book ''Demo'' ''business'' ''D'' Business)
       \<lparr>min_count := 1, accounts := demo_accounts,
        vouchers := [\<lparr>vdate = Date 2025 5 1, vtype = Payment, narration = ''May rent'',
                      vlines = [(''Rent A/c'', 120000), (''Cash A/c'', - 120000)], stmt = None, vseq = 0, vref = None\<rparr>,
                     \<lparr>vdate = Date 2025 6 3, vtype = Receipt, narration = ''Day sales'',
                      vlines = [(''Cash A/c'', 80050), (''Sales A/c'', - 80050)], stmt = None, vseq = 1, vref = None\<rparr>]\<rparr>"

definition demo_posted :: posted_book where
  "demo_posted = projr (finalize demo_book)"

lemma demo_ok: "is_ok (finalize demo_book)"
  by code_simp

lemma demo_finalized: "finalize demo_book = Inr demo_posted"
  using demo_ok by (auto simp: demo_posted_def is_ok_iff)

lemma demo_wf: "book_wf demo_book"
  by code_simp

lemma demo_closable: "closable demo_posted"
proof -
  have "partners demo_posted = [] \<and> list_ex (\<lambda>a. kind a = Capital) (accounts demo_posted)" by code_simp
  then show ?thesis using finalize_posted_ok [OF demo_wf demo_finalized] by (simp add: closable_def)
qed

text \<open>What the checker reads of a posted book.\<close>

definition reader_of :: "posted_book \<Rightarrow> read_book" where
  "reader_of b =
     \<lparr>kpath = bname b, kname = bname b, klines = [], kexport = [], kaccounts = map aname (accounts b),
      ktype = map (\<lambda>a. (aname a, group a)) (accounts b), kopening = map (\<lambda>a. (aname a, opening_bal a)) (accounts b),
      kvouchers = map (\<lambda>v. \<lparr>read_entry.edate = vdate v, evid = vid v, etype = PLAIN_VTYPE (vtype v),
                            elines = vlines v, enarr = narration v\<rparr>) (vouchers b),
      kpost = map (\<lambda>a. (aname a, map (\<lambda>r. (rdate r, rvid r, dr r - cr r)) (rows a))) (accounts b),
      kclosing = map (\<lambda>a. (aname a, closing a)) (accounts b), kclose = [],
      kclose_posts = map (\<lambda>a. (aname a, case close_posts b (aname a) of Inl _ \<Rightarrow> [] | Inr ps \<Rightarrow> ps)) (accounts b),
      kpcb = map (\<lambda>a. (aname a, after_close b a)) (accounts b)\<rparr>"

definition demo_cash :: ledger_account where
  "demo_cash = accounts demo_posted ! 0"

definition demo_sales :: ledger_account where
  "demo_sales = accounts demo_posted ! 3"

definition demo_closes :: "ledger_account \<Rightarrow> close_post list" where
  "demo_closes a = (case close_posts demo_posted (aname a) of Inl _ \<Rightarrow> [] | Inr ps \<Rightarrow> ps)"

lemma demo_reads: "reads_ledger (reader_of demo_posted) demo_posted demo_cash (demo_closes demo_cash)"
 
  by code_simp

lemma demo_reads_sales: "reads_ledger (reader_of demo_posted) demo_posted demo_sales (demo_closes demo_sales)"
 
  by code_simp

section \<open>A small pair of pages\<close>

text \<open>The same business as its two files would print it: the chart and the close, and the Day Book.\<close>

definition demo_page :: "string list" where
  "demo_page =
     [''### 1. Accounts'', [],
      (''| # | Account | Type | What it is | Opening balance (Dr) '' @ u_rupee @ '' | Opening balance (Cr) '' @
       u_rupee @ '' |''),
      ''|---:|:---|:---|:---|---:|---:|'',
      (''| 1 | Cash A/c | Cash | Money | 5,000 | '' @ u_emdash @ '' |''),
      (''| 2 | Own Money A/c | Own money | Own | '' @ u_emdash @ '' | 5,000 |''),
      (''| 3 | Rent A/c | Expense | Head | '' @ u_emdash @ '' | '' @ u_emdash @ '' |''),
      (''| 4 | Sales A/c | Income | Head | '' @ u_emdash @ '' | '' @ u_emdash @ '' |''),
      ''|  | **Total** |  |  | **5,000** | **5,000** |'', [],
      ''### 2. Close'', [],
      (''#### 4.1 Year close '' @ u_emdash @ '' the entries the book makes itself on 31 Mar 2026''), [],
      (''*Demo '' @ u_middot @ '' 01 Apr 2025 to 31 Mar 2026'') @ head_tail, [],
      (''| No. | Date | What it does | Debit (Dr) | Credit (Cr) | Amount '' @ u_rupee @ '' |''),
      ''|:---|:---|:---|:---|:---|---:|'',
      ''| D-Y1 | 31 Mar 2026 | Income | Sales A/c | Result | 800.50 |'',
      ''| D-Y2 | 31 Mar 2026 | Expense | Result | Rent A/c | 1,200 |'',
      ''| D-Y3 | 31 Mar 2026 | Result | Own Money A/c | Result | 399.50 |'']"

definition demo_export :: "string list" where
  "demo_export =
     [''### 1. Day Book'', [],
      (''| Date | No. | Type | Debit (Dr) | Credit (Cr) | Amount '' @ u_rupee @ '' | What happened |''),
      ''|:---|:---|:---|:---|:---|---:|:---|'',
      ''| 01 May 2025 | D-001 | Money out | Rent A/c | Cash A/c | 1,200 | May rent |'',
      ''| 03 Jun 2025 | D-002 | Money in | Cash A/c | Sales A/c | 800.50 | Day sales |'']"

definition demo_read :: read_book where
  "demo_read = (case parse_book ''Demo'' ''Demo'' demo_page demo_export of Inr (bk, _, _) \<Rightarrow> bk
      | Inl _ \<Rightarrow> blank_book [] [] [] [] \<lparr>h_accounts = [], h_type = [], h_opening = [], h_dr = 0, h_cr = 0\<rparr>)"

lemma demo_parses:
  "case parse_book ''Demo'' ''Demo'' demo_page demo_export of Inl _ \<Rightarrow> False
   | Inr (bk, _, ps) \<Rightarrow> ps = [] \<and> distinct (kaccounts bk) \<and> map snd (kpcb bk) = [460050, -460050, 0, 0] \<and> length (kvouchers bk) = 2"
  by code_simp

lemma demo_read_passes: "passes (parse_book ''Demo'' ''Demo'' demo_page demo_export) demo_read"
  using demo_parses by (auto simp: passes_def demo_read_def split: sum.splits)

lemma demo_read_facts: "distinct (kaccounts demo_read)" "length (kvouchers demo_read) = 2"
  using demo_parses by (auto simp: demo_read_def split: sum.splits)

section \<open>Witnesses\<close>

lemma demo_reads_account: "reads_account (reader_of demo_posted) ''Cash A/c'' demo_cash"
  by code_simp

lemma demo_ledger_hyps:
  "demo_cash \<in> set (accounts demo_posted) \<and> close_posts demo_posted (aname demo_cash) = Inr (demo_closes demo_cash)
   \<and> is_bs (kind demo_cash) \<and> row_ok (ledger_heads (cols demo_cash))"
  by code_simp

theorem checker_finds_the_open_items_witness:
  "open_items (reader_of demo_posted) ''Cash A/c'' FY_END = [(Date 2025 4 1, 380000), (Date 2025 6 3, 80050)]
   \<and> age_buckets FY_END (open_items (reader_of demo_posted) ''Cash A/c'' FY_END) = [0, 0, 460050]"
proof -
  have "fifo_open_items demo_cash FY_END = [(Date 2025 4 1, 380000), (Date 2025 6 3, 80050)]
      \<and> buckets (fifo_open_items demo_cash FY_END) = [0, 0, 460050]" by code_simp
  with checker_finds_the_open_items [OF demo_reads_account, of FY_END] show ?thesis by metis
qed

theorem sides_read_back_witness:
  "passes (split_cell (side_cell [(''Rent A/c'', 120000), (''Power A/c'', 5050)]) 125050 ''D'' ''D-001'')
     [(''Rent A/c'', 120000), (''Power A/c'', 5050)]
   \<and> passes (split_cell (side_cell [(''Rent A/c'', 120000)]) 120000 ''D'' ''D-001'') [(''Rent A/c'', 120000)]"
proof -
  have names: "side_name ''Rent A/c'' \<and> side_name ''Power A/c'' \<and> name_and_amount ''Rent A/c'' = None" by code_simp
  show ?thesis by (intro conjI sides_read_back) (use names in auto)
qed

theorem printed_ledger_passes_witness:
  "\<exists>ls op tdr tcr cl rs parts'.
     year_ledger demo_posted demo_cash = Inr (ls, op, tdr, tcr, cl)
     \<and> read_tables ls 0 (length ls) = Inr [(0, ledger_heads (cols demo_cash) # rs)]
     \<and> passes (check_ledger_rows (reader_of demo_posted) [] (aname demo_cash) rs ''Ledger'') parts'"
  using demo_ledger_hyps demo_reads
  by (intro printed_ledger_passes [OF demo_closable, where cps = "demo_closes demo_cash"]) auto

theorem parsed_book_wf_witness:
  "entries_ok (ktype demo_read) (kvouchers demo_read) \<and> length (kvouchers demo_read) = 2"
  using parsed_book_wf [OF demo_read_passes] demo_read_facts by simp

theorem parsed_book_balances_witness:
  "(\<Sum>n\<leftarrow>kaccounts demo_read. opn demo_read n) = 0 \<and> (\<Sum>n\<leftarrow>kaccounts demo_read. cls demo_read n) = 0
   \<and> (\<Sum>n\<leftarrow>kaccounts demo_read. pcb demo_read n) = 0"
  by (rule parsed_book_balances [OF demo_read_passes demo_read_facts(1)])

end
