(* ===== verification/Worked_Books.thy ===== *)
theory Worked_Books
  imports Year_Close Shop_Book Partnership_Book
begin

text \<open>
  The general theorems on concrete books: the shop's and the partnership's.  A posted book of
  which the names, kinds and closing balances are known gives the close by computation.
\<close>

section \<open>Computing on the lists of names, kinds and closings\<close>

lemma map_by_lists:
  "map (\<lambda>a. f (aname a) (kind a) (closing a)) as
     = map (\<lambda>(n, k, c). f n k c) (zip (map aname as) (zip (map kind as) (map closing as)))"
  by (induction as) simp_all

lemma find_by_lists:
  "map_option aname (find (\<lambda>a. kind a = K) as)
     = map_option fst (find (\<lambda>(n, k). k = K) (zip (map aname as) (map kind as)))"
  by (induction as) simp_all

lemma head_total_lists:
  "head_total b K = sum_list (map (\<lambda>(k, c). if k = K then c else 0) (zip (map kind (accounts b)) (map closing (accounts b))))"
proof -
  have "(\<Sum>a\<leftarrow>as. if kind a = K then closing a else 0)
      = sum_list (map (\<lambda>(k, c). if k = K then c else 0) (zip (map kind as) (map closing as)))" for as :: "ledger_account list"
    by (induction as) simp_all
  then show ?thesis by (simp add: head_total_def)
qed

lemma closing_by_name:
  assumes "posted_ok b" "n \<in> set (order b)"
  shows "\<exists>a. find_account b n = Some a \<and> closing a = map closing (accounts b) ! pos_of (map aname (accounts b)) n"
proof -
  have "pos_of (order b) n < length (accounts b)" using pos_of_nth(1) [OF assms(2)] by (simp add: order_def)
  then show ?thesis using find_pos [OF assms(2)] by (simp add: order_def)
qed

lemma finalize_parts:
  assumes "finalize b = Inr pb"
  shows "\<exists>vs. efor (validate_voucher b) vs = Inr () \<and> pb = posted b (post b vs) vs \<and> validate_balances pb = Inr ()"
  using assms by (auto simp: finalize_def ebind_Inr Let_def)

section \<open>The shop\<close>

lemma shop_posted:
  obtains b pb where "book_wf b" "finalize b = Inr pb" "build_sh = Inr pb" "partners pb = []" "style pb = Business"
    "map aname (accounts pb) = sh_names" "map kind (accounts pb) = map kind sh_accounts"
    "map closing (accounts pb) = sh_closing"
  using sh_built by (auto simp: sh_header_def Book_def)

lemma shop_find_capital:
  assumes "map aname (accounts pb) = sh_names" "map kind (accounts pb) = map kind sh_accounts"
  shows "\<exists>c. find (\<lambda>a. kind a = Capital) (accounts pb) = Some c \<and> aname c = sh_cap"
  using find_by_lists [of Capital "accounts pb"] unfolding assms sh_kinds sh_names_def by simp

theorem finalize_trial_balance_witness:
  "\<exists>pb. build_sh = Inr pb \<and>
     sum_list [bal_upto a (D 2025 9 30). a \<leftarrow> accounts pb, bal_upto a (D 2025 9 30) > 0]
       = sum_list [- bal_upto a (D 2025 9 30). a \<leftarrow> accounts pb, bal_upto a (D 2025 9 30) < 0]"
proof -
  obtain b pb where "book_wf b" "finalize b = Inr pb" "build_sh = Inr pb" by (rule shop_posted) blast
  then show ?thesis using finalize_trial_balance [of b pb "D 2025 9 30"] by blast
qed

theorem finalize_ledger_witness:
  "\<exists>pb a. build_sh = Inr pb \<and> a \<in> set (accounts pb) \<and> closing a = 4525000 \<and> sorted (map rdate (rows a))
     \<and> balance_at pb (aname a) FY_END = Inr 4525000"
proof -
  obtain b pb where pb: "book_wf b" "finalize b = Inr pb" "build_sh = Inr pb"
    and cl: "map closing (accounts pb) = sh_closing"
    by (rule shop_posted) blast
  from cl obtain a as where a: "accounts pb = a # as" "closing a = 4525000"
    by (cases "accounts pb") (auto simp: sh_closing_def)
  then have "a \<in> set (accounts pb)" by simp
  from finalize_ledger [OF pb(1,2) this] pb(3) a(2) \<open>a \<in> set (accounts pb)\<close> show ?thesis by metis
qed

theorem cash_never_negative_witness:
  "\<exists>pb a. build_sh = Inr pb \<and> a \<in> set (accounts pb) \<and> kind a = Cash \<and> 0 \<le> bal_upto a (D 2025 8 30)"
proof -
  obtain b pb where pb: "book_wf b" "finalize b = Inr pb" "build_sh = Inr pb"
    and ks: "map kind (accounts pb) = map kind sh_accounts" by (rule shop_posted) blast
  from ks obtain a as where a: "accounts pb = a # as" "kind a = Cash"
    by (cases "accounts pb") (auto simp: sh_kinds)
  then have "a \<in> set (accounts pb)" "kind a \<in> set NONNEG_MONEY" by (simp_all add: NONNEG_MONEY_def)
  from cash_never_negative [OF pb(1,2) this, of "D 2025 8 30"] pb(3) a \<open>a \<in> set (accounts pb)\<close> show ?thesis by blast
qed

theorem trial_balance_assertion_holds_witness:
  "\<exists>b vs. b \<in> {b. \<exists>pb. book_wf b \<and> finalize b = Inr pb \<and> build_sh = Inr pb} \<and> efor (validate_voucher b) vs = Inr () \<and>
     sum_list [closing a. a \<leftarrow> post b vs, closing a > 0] = sum_list [- closing a. a \<leftarrow> post b vs, closing a < 0]"
proof -
  obtain b pb where pb: "book_wf b" "finalize b = Inr pb" "build_sh = Inr pb" by (rule shop_posted) blast
  then obtain vs where v: "efor (validate_voucher b) vs = Inr ()" "pb = posted b (post b vs) vs"
    and bal: "validate_balances pb = Inr ()"
    using finalize_parts [of b pb] by blast
  have "distinct (order b)" using pb(1) by (simp add: book_wf_def)
  moreover have "(\<Sum>a\<leftarrow>accounts b. opening_bal a) = 0"
    using finalize_posted_ok [OF pb(1,2)] v(2) by (simp add: posted_ok_def post_eq o_def)
  ultimately show ?thesis using trial_balance_assertion_holds [of b vs] v(1) pb by blast
qed

text \<open>The shop's year: a net profit of Rs 6,08,070, and own money of Rs 9,79,570 after the close.\<close>

theorem close_single_owner_witness:
  "\<exists>pb bs. build_sh = Inr pb \<and> year_result pb = R 608070 \<and> post_close_balances pb = Inr bs \<and>
     bs = zip sh_names [4525000, 88672000, 24700000, 1700000, - 33800000, - 12640000, 0, 9000000, 15800000,
       - R 979570, 0, 0, 0, 0, 0, 0, 0, 0, 0, 0]"
proof -
  obtain b pb where pb: "book_wf b" "finalize b = Inr pb" "build_sh = Inr pb" "partners pb = []"
    and nm: "map aname (accounts pb) = sh_names" and ks: "map kind (accounts pb) = map kind sh_accounts"
    and cl: "map closing (accounts pb) = sh_closing"
    by (rule shop_posted) blast
  obtain c where c: "find (\<lambda>a. kind a = Capital) (accounts pb) = Some c" "aname c = sh_cap"
    using shop_find_capital [OF nm ks] by blast
  have res: "year_result pb = 60807000" and dr: "head_total pb Drawings = 24000000" and sh: "head_total pb Shareout = 0"
    unfolding year_result_eq head_total_lists ks cl sh_kinds sh_closing_def by simp_all
  from close_single_owner [OF pb(1,2,4) c(1)] obtain bs where bs: "post_close_balances pb = Inr bs"
    "bs = map (\<lambda>a. (aname a,
            if kind a \<in> set NIL_KINDS then 0
            else if aname a = aname c
                 then closing a - year_result pb + head_total pb Drawings + head_total pb Shareout
                 else closing a)) (accounts pb)" by blast
  have "bs = zip sh_names [4525000, 88672000, 24700000, 1700000, - 33800000, - 12640000, 0, 9000000, 15800000,
       - R 979570, 0, 0, 0, 0, 0, 0, 0, 0, 0, 0]"
    unfolding bs(2) c(2) res dr sh
      map_by_lists [of "\<lambda>n k x. (n, if k \<in> set NIL_KINDS then 0 else if n = sh_cap then x - 60807000 + 24000000 + 0 else x)"]
      nm ks cl sh_kinds sh_closing_def
    using sh_names_distinct by (simp add: sh_names_def NIL_KINDS_def R_def)
  with bs(1) res pb(3) show ?thesis by (auto simp: R_def)
qed

section \<open>The partnership\<close>

lemma pf_partners: "partners pf_header =
   [\<lparr>pname = ''Sukhwinder Bal'', pcapital = Some (pf_capital ''Sukhwinder Bal''), pcurrent = pf_current ''Sukhwinder Bal'', share = 2, ioc_bp = 600\<rparr>,
    \<lparr>pname = ''Pradeep Bal'', pcapital = Some (pf_capital ''Pradeep Bal''), pcurrent = pf_current ''Pradeep Bal'', share = 2, ioc_bp = 600\<rparr>,
    \<lparr>pname = ''Harjeet Singh'', pcapital = Some (pf_capital ''Harjeet Singh''), pcurrent = pf_current ''Harjeet Singh'', share = 1, ioc_bp = 600\<rparr>]"
  by (simp add: pf_header_def pf_partner_list_def)

lemma partnership_posted:
  obtains b pb where "book_wf b" "finalize b = Inr pb" "build_pf = Inr pb" "partners pb = partners pf_header"
    "map aname (accounts pb) = pf_names" "map kind (accounts pb) = map kind pf_accounts"
    "map closing (accounts pb) = pf_closing"
  using pf_built by blast

text \<open>The year's profit of Rs 7,30,300: interest of 18,000, 18,000 and 9,000, then 2 : 2 : 1.\<close>

definition pf_parts :: "(int \<times> int) list" where
  "pf_parts = [(R 18000, R 274120), (R 18000, R 274120), (R 9000, R 137060)]"

lemma partnership_appropriation:
  assumes "posted_ok pb" "partners pb = partners pf_header"
    and nm: "map aname (accounts pb) = pf_names"
    and cl: "map closing (accounts pb) = pf_closing"
  shows "appropriation pb (R 730300) = Inr (zip (partners pf_header) pf_parts)"
proof -
  have "\<exists>a. find_account pb (pf_capital ''Sukhwinder Bal'') = Some a \<and> closing a = - 30000000"
    "\<exists>a. find_account pb (pf_capital ''Pradeep Bal'') = Some a \<and> closing a = - 30000000"
    "\<exists>a. find_account pb (pf_capital ''Harjeet Singh'') = Some a \<and> closing a = - 15000000"
    using closing_by_name [OF assms(1), of "pf_capital ''Sukhwinder Bal''"] closing_by_name [OF assms(1), of "pf_capital ''Pradeep Bal''"]
      closing_by_name [OF assms(1), of "pf_capital ''Harjeet Singh''"]
    unfolding order_def nm cl pf_pos pf_closing_def by (simp_all add: pf_names_def)
  then show ?thesis
    unfolding appropriation_def assms(2) pf_partners
    by (auto simp: partner_interest_def half_up_def assert_that_def share_out_def Let_def R_def pf_parts_def)
qed

theorem appropriation_shares_witness:
  "\<exists>pb ap. build_pf = Inr pb \<and> appropriation pb (R 730300) = Inr ap \<and> map snd ap = pf_parts
     \<and> map fst ap = partners pb \<and> (\<Sum>(p, i, x)\<leftarrow>ap. i + x) = R 730300"
proof -
  obtain b pb where pb: "book_wf b" "finalize b = Inr pb" "build_pf = Inr pb" "partners pb = partners pf_header"
    and nm: "map aname (accounts pb) = pf_names"
    and cl: "map closing (accounts pb) = pf_closing"
    by (rule partnership_posted) blast
  have ap: "appropriation pb (R 730300) = Inr (zip (partners pf_header) pf_parts)"
    by (rule partnership_appropriation [OF finalize_posted_ok [OF pb(1,2)] pb(4) nm cl])
  have "partners pb \<noteq> []" "list_all (\<lambda>p. 0 < share p) (partners pb)" unfolding pb(4) pf_partners by simp_all
  from appropriation_shares [OF ap this]
  have "map fst (zip (partners pf_header) pf_parts) = partners pb"
    "(\<Sum>(p, i, x)\<leftarrow>zip (partners pf_header) pf_parts. i + x) = R 730300" by blast+
  moreover have "map snd (zip (partners pf_header) pf_parts) = pf_parts"
    by (simp add: pf_partners pf_parts_def)
  ultimately show ?thesis using ap pb(3) by blast
qed

theorem close_partnership_witness:
  "\<exists>pb bs. build_pf = Inr pb \<and> post_close_balances pb = Inr bs \<and>
     map snd bs = [580000, 89560000, 0, 0, 0, 2450000, - 16800000, 0, 170000, 33300000, - 30000000, - 30000000, - 15000000,
      - R 162620, - R 183920, R 3940, 0, 0, 0, 0, 0, 0, 0, 0]"
proof -
  obtain b pb where pb: "book_wf b" "finalize b = Inr pb" "build_pf = Inr pb" "partners pb = partners pf_header"
    and nm: "map aname (accounts pb) = pf_names" and ks: "map kind (accounts pb) = map kind pf_accounts"
    and cl: "map closing (accounts pb) = pf_closing"
    by (rule partnership_posted) blast
  note ok = finalize_posted_ok [OF pb(1,2)]
  have res: "year_result pb = R 730300"
    unfolding year_result_eq head_total_lists ks cl pf_kinds pf_closing_def by (simp add: R_def)
  have ap: "appropriation pb (year_result pb) = Inr (zip (partners pf_header) pf_parts)"
    unfolding res by (rule partnership_appropriation [OF ok pb(4) nm cl])
  have ne: "partners pb \<noteq> []" and pos: "0 < year_result pb" unfolding pb(4) pf_partners res by (simp_all add: R_def)
  have cur: "list_all (\<lambda>p. name_is pb [Pcurrent, Partner] (pcurrent p)) (partners pb)"
    unfolding pb(4) pf_partners
    using name_is_pos [of "pf_current ''Sukhwinder Bal''" pb "[Pcurrent, Partner]"] name_is_pos [of "pf_current ''Pradeep Bal''" pb "[Pcurrent, Partner]"]
      name_is_pos [of "pf_current ''Harjeet Singh''" pb "[Pcurrent, Partner]"]
    unfolding order_def nm ks pf_kinds pf_pos by (simp add: pf_names_def)
  have dr: "list_all (\<lambda>a. kind a \<in> set [Drawings, Shareout] \<longrightarrow> closing a = 0) (accounts pb)"
  proof -
    have "kind a \<in> set (map kind pf_accounts)" if "a \<in> set (accounts pb)" for a using that ks by (metis imageI set_map)
    then show ?thesis unfolding pf_kinds by (fastforce simp: list_all_iff)
  qed
  have parts: "partner_part (zip (partners pf_header) pf_parts) n =
      (if n = pf_current ''Sukhwinder Bal'' then R 292120 else if n = pf_current ''Pradeep Bal'' then R 292120
       else if n = pf_current ''Harjeet Singh'' then R 146060 else 0)" for n
    unfolding pf_partners pf_parts_def by (simp add: partner_part_def pf_current_def R_def)
  let ?f = "\<lambda>n k x. (n, if k \<in> set NIL_KINDS then 0 else x - partner_part (zip (partners pf_header) pf_parts) n)"
  have *: "map snd (map (\<lambda>a. (aname a, if kind a \<in> set NIL_KINDS then 0
            else closing a - partner_part (zip (partners pf_header) pf_parts) (aname a))) (accounts pb))
      = [580000, 89560000, 0, 0, 0, 2450000, - 16800000, 0, 170000, 33300000, - 30000000, - 30000000, - 15000000,
      - R 162620, - R 183920, R 3940, 0, 0, 0, 0, 0, 0, 0, 0]"
    unfolding map_by_lists [of ?f]
    unfolding nm ks cl pf_kinds pf_closing_def parts
    using pf_names_distinct
    by (simp add: pf_names_def NIL_KINDS_def R_def) (simp add: pf_current_def)
  show ?thesis
    by (intro exI) (rule conjI [OF pb(3) conjI [OF close_partnership [OF pb(1,2) ne ap pos cur dr] *]])
qed

end
