(* ===== verification/Worked_Reports.thy ===== *)
theory Worked_Reports
  imports Worked_Books Trust_Book Report_Year_End
begin

text \<open>
  The reports on a concrete book: the witnesses of the general theorems, on the shop's book.
\<close>

section \<open>The dates of a built book\<close>

lemma add_accounts_vouchers: "add_accounts h as = Inr b \<Longrightarrow> vouchers b = vouchers h"
  by (induction as arbitrary: h) (auto simp: add_accounts_def add_def ebind_Inr split: if_splits)

lemma add_entries_dates:
  "add_entries h es = Inr b \<Longrightarrow> vdate ` set (vouchers b) = vdate ` set (vouchers h) \<union> edate ` set es"
proof (induction es arbitrary: h)
  case (Cons e es)
  then obtain h' where h': "book_v h e = Inr h'" "add_entries h' es = Inr b"
    by (auto simp: add_entries_def ebind_Inr)
  then have "vdate ` set (vouchers h') = insert (edate e) (vdate ` set (vouchers h))"
    by (auto simp: book_v_def split: if_splits)
  with Cons.IH [OF h'(2)] show ?case by auto
qed (simp add: add_entries_def)

lemma finalize_dates: "finalize b = Inr pb \<Longrightarrow> vdate ` set (vouchers pb) = vdate ` set (vouchers b)"
proof -
  assume "finalize b = Inr pb"
  then obtain vs where vs: "emap (fill_ref (number_vouchers (prefix b) 1 (sort_vouchers (vouchers b))))
      (number_vouchers (prefix b) 1 (sort_vouchers (vouchers b))) = Inr vs" and pb: "vouchers pb = vs"
    by (auto simp: finalize_def ebind_Inr Let_def)
  have "map vdate vs = map vdate (sort_vouchers (vouchers b))" using emap_fill_ref_keeps [OF vs] by simp
  then show ?thesis unfolding pb by (metis set_map set_sort_vouchers)
qed

lemma build_book_dates:
  assumes "build_book h as own es = Inr pb" "vouchers h = []" "list_all (\<lambda>e. valid_date (edate e)) es"
  shows "dates_valid pb"
proof -
  from assms(1) obtain b1 b2 b3 where b: "add_accounts h as = Inr b1" "balance_opening_into b1 own = Inr b2"
    "add_entries b2 es = Inr b3" "finalize b3 = Inr pb" by (auto simp: build_book_def ebind_Inr)
  have "vouchers b2 = []" using add_accounts_vouchers [OF b(1)] assms(2) b(2)
    by (auto simp: balance_opening_into_def Let_def split: if_splits)
  then have "vdate ` set (vouchers pb) = edate ` set es"
    using finalize_dates [OF b(4)] add_entries_dates [OF b(3)] by simp
  then show ?thesis using assms(3) by (auto simp: dates_valid_def list_all_iff) (metis imageE imageI)
qed

section \<open>The shop\<close>

lemma sh_dates: "list_all (\<lambda>e. valid_date (edate e)) sh_entries"
proof -
  have "list_all (\<lambda>s. valid_date (fst s)) (map (entry_skeleton sh_names) sh_entries)"
    by (simp add: sh_entries_defs entry_skeletons Let_def Q4E_def D_def sh_cs_def sh_gs_def sh_sp_def
        valid_date_def days_in_month_def leap_def)
  then show ?thesis by (simp add: list_all_iff entry_skeleton_def)
qed

lemma shop_report_book:
  obtains b pb where "book_wf b" "finalize b = Inr pb" "build_sh = Inr pb" "dates_valid pb" "closable pb"
    "map aname (accounts pb) = sh_names" "map kind (accounts pb) = map kind sh_accounts"
    "map closing (accounts pb) = sh_closing" "partners pb = []" "style pb = Business"
proof -
  obtain b pb where pb: "book_wf b" "finalize b = Inr pb" "build_sh = Inr pb" "partners pb = []" "style pb = Business"
    and nm: "map aname (accounts pb) = sh_names" and ks: "map kind (accounts pb) = map kind sh_accounts"
    and cl: "map closing (accounts pb) = sh_closing"
    by (rule shop_posted) blast
  have "dates_valid pb"
    using build_book_dates [OF pb(3) [unfolded build_sh_def] sh_empty(2) sh_dates] .
  moreover obtain c where "find (\<lambda>a. kind a = Capital) (accounts pb) = Some c"
    using shop_find_capital [OF nm ks] by blast
  then have "list_ex (\<lambda>a. kind a = Capital) (accounts pb)" by (auto simp: find_Some_iff list_ex_iff)
  then have "closable pb" using finalize_posted_ok [OF pb(1,2)] pb(4) by (simp add: closable_def)
  ultimately show thesis using pb nm ks cl that by blast
qed

lemma add_accounts_extras:
  "add_accounts h as = Inr b \<Longrightarrow> custom b = custom h \<and> bank_extract b = bank_extract h"
  by (induction as arbitrary: h) (auto simp: add_accounts_def add_def ebind_Inr split: if_splits)

lemma add_entries_extras:
  "add_entries h es = Inr b \<Longrightarrow> custom b = custom h \<and> bank_extract b = bank_extract h"
  by (induction es arbitrary: h) (auto simp: add_entries_def book_v_def ebind_Inr split: if_splits)

lemma build_book_extras:
  assumes "build_book h as own es = Inr pb"
  shows "custom pb = custom h \<and> bank_extract pb = bank_extract h"
proof -
  from assms obtain b1 b2 b3 where b: "add_accounts h as = Inr b1" "balance_opening_into b1 own = Inr b2"
    "add_entries b2 es = Inr b3" "finalize b3 = Inr pb" by (auto simp: build_book_def ebind_Inr)
  have "custom b2 = custom b1 \<and> bank_extract b2 = bank_extract b1"
    using b(2) by (auto simp: balance_opening_into_def Let_def split: if_splits)
  moreover have "custom pb = custom b3 \<and> bank_extract pb = bank_extract b3"
    using b(4) by (auto simp: finalize_def ebind_Inr Let_def posted_def)
  ultimately show ?thesis using add_accounts_extras [OF b(1)] add_entries_extras [OF b(3)] by simp
qed

lemma shop_bank_account:
  assumes "map aname (accounts pb) = sh_names" "map kind (accounts pb) = map kind sh_accounts"
  shows "\<exists>a. a \<in> set (accounts pb) \<and> aname a = sh_bank \<and> kind a = Bank"
proof -
  have "1 < length (map kind (accounts pb))" unfolding assms(2) sh_kinds by simp
  then have "1 < length (accounts pb)" by simp
  moreover have "aname (accounts pb ! 1) = sh_bank"
    using arg_cong [OF assms(1), of "\<lambda>xs. xs ! 1"] calculation by (simp add: sh_names_def)
  moreover have "kind (accounts pb ! 1) = Bank"
    using arg_cong [OF assms(2) [unfolded sh_kinds], of "\<lambda>xs. xs ! 1"] calculation by simp
  ultimately show ?thesis by (metis nth_mem)
qed

lemma shop_bank_active:
  assumes "closable pb" "map aname (accounts pb) = sh_names" "map kind (accounts pb) = map kind sh_accounts"
    "map closing (accounts pb) = sh_closing"
  shows "\<exists>a. a \<in> set (accounts pb) \<and> aname a = sh_bank \<and> kind a = Bank \<and> (rows a \<noteq> [] \<or> opening_bal a \<noteq> 0)"
proof -
  have len: "1 < length (accounts pb)" using arg_cong [OF assms(4), of length] by (simp add: sh_closing_def)
  let ?a = "accounts pb ! 1"
  have a: "?a \<in> set (accounts pb)" using len by simp
  have "aname ?a = sh_bank" "kind ?a = Bank" "closing ?a \<noteq> 0"
    using arg_cong [OF assms(2), of "\<lambda>xs. xs ! 1"] arg_cong [OF assms(3) [unfolded sh_kinds], of "\<lambda>xs. xs ! 1"]
      arg_cong [OF assms(4), of "\<lambda>xs. xs ! 1"] len by (simp_all add: sh_names_def sh_closing_def)
  moreover have "rows ?a \<noteq> [] \<or> opening_bal ?a \<noteq> 0"
    using rows_total [OF closable_posted [OF assms(1)] a] calculation(3) by auto
  ultimately show ?thesis using a by blast
qed

theorem ledger_carries_the_close_witness:
  "\<exists>pb. \<exists>a::ledger_account. \<exists>above below cps bs x t. build_sh = Inr pb \<and> aname a = sh_bank \<and> post_close_balances pb = Inr bs \<and> map_of bs sh_bank = Some x
     \<and> sec_ledgers pb = Inr (above @ [''#### '' @ sh_bank, []] @ table (ledger_heads (cols a)) ledger_aligns
         ([line_cells (fdate FY_START) [] ''Opening balance b/f'' (fmt (max (opening_bal a) 0)) (fmt (max (- opening_bal a) 0)) (opening_bal a)]
          @ map entry_line (rows a) @ map2 year_close_line cps (running (closing a) (map (\<lambda>(no, nt, y, os). y) cps))
          @ [[fdate FY_END, [], ''Closing balance c/d'', fmt (max (- x) 0), fmt (max x 0), u_emdash, u_emdash],
             [[], [], bold ''Total'', bold (fmt0 t), bold (fmt0 t), [], []],
             line_cells (fdate (next_day FY_END)) [] ''Opening balance b/d (FY 2026-27)'' (fmt (max x 0)) (fmt (max (- x) 0)) x])
         @ [[]] @ below)"
proof -
  obtain b pb where pb: "book_wf b" "finalize b = Inr pb" "build_sh = Inr pb" "closable pb"
    "map aname (accounts pb) = sh_names" "map kind (accounts pb) = map kind sh_accounts" "map closing (accounts pb) = sh_closing"
    by (rule shop_report_book) blast
  obtain a where a: "a \<in> set (accounts pb)" "aname a = sh_bank" "kind a = Bank" "rows a \<noteq> [] \<or> opening_bal a \<noteq> 0"
    using shop_bank_active [OF pb(4-7)] by blast
  have bs: "is_bs (kind a)" by (simp add: a(3) is_bs_def)
  show ?thesis
    by (rule exI [of _ pb], rule exI [of _ a],
        insert ledger_carries_the_close [OF pb(1,2,4) a(1,4) disjI1 [OF bs], unfolded if_P [OF bs] a(2)],
        elim exE conjE, intro exI conjI, rule pb(3), rule a(2), assumption+)
qed

theorem export_agrees_with_ledgers_witness:
  "\<exists>pb. build_sh = Inr pb \<and> is_ok (sec_books pb)"
proof -
  obtain b pb where pb: "book_wf b" "finalize b = Inr pb" "build_sh = Inr pb" "dates_valid pb" by (rule shop_report_book) blast
  from export_agrees_with_ledgers [OF pb(1,2,4)] pb(3) show ?thesis by blast
qed

theorem bank_extract_ends_at_balance_witness:
  "\<exists>pb a. build_sh = Inr pb \<and> aname a = sh_bank
     \<and> hd (fst (bank_rows a sh_bank 2025 8)) ! 4 = bal_cell (bal_upto a (D 2025 7 31))
     \<and> last (fst (bank_rows a sh_bank 2025 8)) ! 4 = bold (bal_cell (bal_upto a (D 2025 8 31)))"
proof -
  obtain b pb where pb: "book_wf b" "finalize b = Inr pb" "build_sh = Inr pb" "dates_valid pb"
    "map aname (accounts pb) = sh_names" "map kind (accounts pb) = map kind sh_accounts" by (rule shop_report_book) blast
  obtain a where a: "a \<in> set (accounts pb)" "aname a = sh_bank"
    using shop_bank_account [OF pb(5,6)] by blast
  have days: "month_end 2025 8 = D 2025 8 31" "prev_day (D 2025 8 1) = D 2025 7 31"
    by (simp_all add: month_end_eq D_def days_in_month_def prev_day_def)
  from bank_extract_ends_at_balance [OF pb(1,2,4) a(1), of 8 2025] days a(2) pb(3) show ?thesis
    by (intro exI [of _ pb] exI [of _ a]) simp
qed

lemma known_names: "n \<in> set (map aname (accounts b)) \<Longrightarrow> known b n"
  by (simp add: known_iff order_def)

lemma shop_statements_ready:
  assumes "build_sh = Inr pb" "map aname (accounts pb) = sh_names"
  shows "custom_ready pb" "bank_ready pb"
proof -
  note extras = build_book_extras [OF assms(1) [unfolded build_sh_def]]
  have "known pb sh_dpw" "known pb sh_bank" by (rule known_names, unfold assms(2), simp add: sh_names_def)+
  with extras show "custom_ready pb" "bank_ready pb"
    by (simp_all add: custom_ready_def bank_ready_def sh_header_def)
qed

lemma shop_no_fund:
  assumes "map kind (accounts pb) = map kind sh_accounts"
  shows "\<not> overspent pb d"
proof -
  have "Fund \<notin> kind ` set (accounts pb)"
    using arg_cong [OF assms, of set] unfolding sh_kinds by (simp only: list.set_map) simp
  then show ?thesis by (auto simp: overspent_def list_ex_iff rev_image_eqI)
qed

theorem fifo_is_newest_witness:
  "\<exists>pb a. build_sh = Inr pb \<and> aname a = sh_bank \<and> (\<Sum>(e, x)\<leftarrow>fifo_open_items a FY_END. x) = closing a"
proof -
  obtain b pb where pb: "book_wf b" "finalize b = Inr pb" "build_sh = Inr pb"
    "map aname (accounts pb) = sh_names" "map kind (accounts pb) = map kind sh_accounts" by (rule shop_report_book) blast
  obtain a where a: "a \<in> set (accounts pb)" "aname a = sh_bank" using shop_bank_account [OF pb(4,5)] by blast
  have "(\<Sum>(e, x)\<leftarrow>fifo_open_items a FY_END. x) = closing a"
    using fifo_is_newest [OF pb(1,2) a(1), of FY_END] closing_year_end [OF finalize_posted_ok [OF pb(1,2)] a(1)] by metis
  then show ?thesis using pb(3) a(2) by blast
qed

theorem statements_unless_overspent_witness: "\<exists>pb. build_sh = Inr pb \<and> is_ok (sec_statements pb)"
proof -
  obtain b pb where pb: "book_wf b" "finalize b = Inr pb" "build_sh = Inr pb" "closable pb"
    "map aname (accounts pb) = sh_names" "map kind (accounts pb) = map kind sh_accounts" by (rule shop_report_book) blast
  have "\<not> overspent pb d" for d by (rule shop_no_fund [OF pb(6)])
  with statements_unless_overspent [OF pb(1,2,4) shop_statements_ready [OF pb(3,5)]] pb(3)
  show ?thesis by blast
qed

lemma shop_printable: "closable pb \<Longrightarrow> partners pb = [] \<Longrightarrow> printable pb"
  by (simp add: printable_def)

theorem book_prints_witness: "\<exists>pb. build_sh = Inr pb \<and> is_ok (render_book_sections pb)"
proof -
  obtain b pb where pb: "book_wf b" "finalize b = Inr pb" "build_sh = Inr pb" "closable pb" "partners pb = []" "style pb = Business"
    "map aname (accounts pb) = sh_names" "map kind (accounts pb) = map kind sh_accounts" by (rule shop_report_book) blast
  have "\<not> overspent pb d" for d by (rule shop_no_fund [OF pb(8)])
  moreover have "rp_ready pb" using pb(6) by (simp add: rp_ready_def)
  ultimately show ?thesis
    using book_prints [OF pb(1,2) shop_printable [OF pb(4,5)] shop_statements_ready [OF pb(3,7)]] pb(3) by blast
qed

theorem sheet_balances_after_close_witness:
  "\<exists>pb. build_sh = Inr pb \<and> sheet_owed pb + own_at_close pb (year_result pb) = sheet_assets pb"
proof -
  obtain b pb where pb: "book_wf b" "finalize b = Inr pb" "build_sh = Inr pb" "closable pb" by (rule shop_report_book) blast
  from sheet_balances_after_close [OF pb(1,2,4)] pb(3) show ?thesis by blast
qed

theorem receipts_and_payments_witness:
  "\<exists>pb. build_tr = Inr pb \<and> (is_ok (sec_npo_rp pb 2) \<longleftrightarrow> list_all (rp_shape pb) (vouchers pb)
     \<and> (\<Sum>v\<leftarrow>filter (\<lambda>v. vtype v = Contra) (vouchers pb). money_moved pb v) = 0)"
proof -
  obtain b pb where pb: "book_wf b" "finalize b = Inr pb" "build_tr = Inr pb" using tr_built by blast
  from receipts_and_payments [OF pb(1,2), of 2] pb(3) show ?thesis by blast
qed

text \<open>\<open>Decimal.normalize\<close> drops trailing zeros into the exponent: a rate of 10 % is printed \<open>1E+1%\<close>, one of 12 % as
  it should be.\<close>

lemma percent_of_ten: "percent_of 1000 = ''1E+1''" "percent_of 1200 = ''12''" "percent_of 1250 = ''12.5''"
  by code_simp+

end
