(* ===== verification/Worked_Family.thy ===== *)
theory Worked_Family
  imports Worked_Reports Report_Family Individual_Books
begin

text \<open>
  The account between two books on a concrete pair: Jasvinder Singh's personal book and his business's.
\<close>

lemma finalize_static:
  assumes "finalize b = Inr pb"
  shows "bname pb = bname b" "map opening_bal (accounts pb) = map opening_bal (accounts b)"
  using assms by (auto simp: finalize_def ebind_Inr Let_def posted_def post_eq)

lemma add_accounts_all: "add_accounts h as = Inr b \<Longrightarrow> accounts b = accounts h @ as"
  by (induction as arbitrary: h) (auto simp: add_accounts_def add_def ebind_Inr split: if_splits)

lemma build_book_static:
  assumes "build_book h as own es = Inr pb" "accounts h = []"
  shows "bname pb = bname h" "map opening_bal (accounts pb) = balanced_openings own as"
proof -
  from assms obtain b1 b2 b3 where b: "add_accounts h as = Inr b1" "balance_opening_into b1 own = Inr b2"
    "add_entries b2 es = Inr b3" "finalize b3 = Inr pb" by (auto simp: build_book_def ebind_Inr)
  have "bname b1 = bname h" using b(1)
    by (induction as arbitrary: h) (auto simp: add_accounts_def add_def ebind_Inr split: if_splits)
  moreover have "bname b3 = bname b2 \<and> accounts b3 = accounts b2" using b(3)
    by (induction es arbitrary: b2) (auto simp: add_entries_def book_v_def ebind_Inr split: if_splits)
  moreover have "bname b2 = bname b1" using b(2) by (auto simp: balance_opening_into_def Let_def split: if_splits)
  ultimately show "bname pb = bname h" using finalize_static(1) [OF b(4)] by simp
  have as: "accounts b1 = as" using b(1) assms(2) add_accounts_all by fastforce
  have t: "sum_list [opening_bal a. a \<leftarrow> as, aname a \<noteq> own] = total_but own as"
    unfolding total_but_def by (auto intro!: arg_cong [where f = sum_list] map_cong)
  have "accounts b2 = set_opening own (- total_but own as) as"
    using b(2) t by (auto simp: balance_opening_into_def as Let_def split: if_splits)
  then show "map opening_bal (accounts pb) = balanced_openings own as"
    using finalize_static(2) [OF b(4)] \<open>bname b3 = bname b2 \<and> accounts b3 = accounts b2\<close> by (simp add: balanced_openings_def)
qed

text \<open>What the accounts of a pair open at, from the names, kinds and openings of the book.\<close>

lemma opening_sum_lists:
  "opening_sum (accounts_for b ob)
     = (\<Sum>(n, k, x)\<leftarrow>zip (map aname (accounts b)) (zip (map kind (accounts b)) (map opening_bal (accounts b))).
          if n \<in> set (link_names (bname ob)) \<and> is_bs k then x else 0)"
proof -
  have "(\<Sum>a\<leftarrow>filter (\<lambda>a. is_bs (kind a)) (filter (\<lambda>a. aname a \<in> N) as). opening_bal a)
      = (\<Sum>(n, k, x)\<leftarrow>zip (map aname as) (zip (map kind as) (map opening_bal as)). if n \<in> N \<and> is_bs k then x else 0)"
    for N and as :: "ledger_account list" by (induction as) auto
  then show ?thesis by (simp only: opening_sum_def accounts_for_def)
qed

lemma heads_open_lists:
  "list_all (\<lambda>(k, x). \<not> is_bs k \<longrightarrow> x = 0) (zip (map kind (accounts b)) (map opening_bal (accounts b))) \<Longrightarrow>
   heads_open_nil (accounts_for b ob)"
proof -
  have "list_all (\<lambda>(k, x). \<not> is_bs k \<longrightarrow> x = 0) (zip (map kind as) (map opening_bal as)) \<Longrightarrow>
      list_all (\<lambda>a. \<not> is_bs (kind a) \<longrightarrow> opening_bal a = 0) (filter P as)" for as :: "ledger_account list" and P
    by (induction as) auto
  then show "list_all (\<lambda>(k, x). \<not> is_bs k \<longrightarrow> x = 0) (zip (map kind (accounts b)) (map opening_bal (accounts b))) \<Longrightarrow>
      heads_open_nil (accounts_for b ob)" by (simp only: heads_open_nil_def accounts_for_def)
qed

lemma find_capital: "Capital \<in> set (map kind as) \<Longrightarrow> list_ex (\<lambda>a. kind a = Capital) as"
  by (induction as) auto

lemma personal_posted:
  obtains b pb where "book_wf b" "finalize b = Inr pb" "build_jp = Inr pb" "closable pb" "bname pb = ''Jasvinder Singh''"
    "map aname (accounts pb) = jp_names" "map kind (accounts pb) = map kind jp_accounts"
    "map opening_bal (accounts pb) = balanced_openings jp_cap jp_accounts"
proof -
  obtain b pb where pb: "book_wf b" "finalize b = Inr pb" "build_jp = Inr pb" "map aname (accounts pb) = jp_names"
    "map kind (accounts pb) = map kind jp_accounts" "partners pb = partners jp_header" using jp_built by blast
  note static = build_book_static [OF pb(3) [unfolded build_jp_def] jp_empty(1)]
  have "partners pb = []" using pb(6) by (simp add: jp_header_def Book_def)
  moreover have "list_ex (\<lambda>a. kind a = Capital) (accounts pb)" by (rule find_capital, unfold pb(5) jp_kinds, simp)
  ultimately have "closable pb" using finalize_posted_ok [OF pb(1,2)] by (simp add: closable_def)
  moreover have "bname pb = ''Jasvinder Singh''" using static(1) by (simp add: jp_header_def Book_def)
  ultimately show thesis using pb static(2) that by blast
qed

lemma business_posted:
  obtains b pb where "book_wf b" "finalize b = Inr pb" "build_jt = Inr pb" "closable pb" "bname pb = ''Jasvinder Technologies''"
    "map aname (accounts pb) = jt_names" "map kind (accounts pb) = map kind jt_accounts"
    "map opening_bal (accounts pb) = balanced_openings jt_cap jt_accounts"
proof -
  obtain b pb where pb: "book_wf b" "finalize b = Inr pb" "build_jt = Inr pb" "map aname (accounts pb) = jt_names"
    "map kind (accounts pb) = map kind jt_accounts" "partners pb = partners jt_header" using jt_built by blast
  note static = build_book_static [OF pb(3) [unfolded build_jt_def] jt_empty(1)]
  have "partners pb = []" using pb(6) by (simp add: jt_header_def Book_def)
  moreover have "list_ex (\<lambda>a. kind a = Capital) (accounts pb)" by (rule find_capital, unfold pb(5) jt_kinds, simp)
  ultimately have "closable pb" using finalize_posted_ok [OF pb(1,2)] by (simp add: closable_def)
  moreover have "bname pb = ''Jasvinder Technologies''" using static(1) by (simp add: jt_header_def Book_def)
  ultimately show thesis using pb static(2) that by blast
qed

theorem pair_account_closes_witness:
  "\<exists>p t. build_jp = Inr p \<and> build_jt = Inr t
     \<and> (is_ok (pair_section p t (accounts_for p t) (accounts_for t p) 57974000 (- 57974000) (\<lambda>x y. Inr []))
        \<longleftrightarrow> pair_amounts False (accounts_for p t) = pair_amounts True (accounts_for t p))"
proof -
  obtain b p where p: "book_wf b" "finalize b = Inr p" "build_jp = Inr p" "closable p" "bname p = ''Jasvinder Singh''"
    "map aname (accounts p) = jp_names" "map kind (accounts p) = map kind jp_accounts"
    "map opening_bal (accounts p) = balanced_openings jp_cap jp_accounts" by (rule personal_posted) blast
  obtain c t where t: "book_wf c" "finalize c = Inr t" "build_jt = Inr t" "closable t" "bname t = ''Jasvinder Technologies''"
    "map aname (accounts t) = jt_names" "map kind (accounts t) = map kind jt_accounts"
    "map opening_bal (accounts t) = balanced_openings jt_cap jt_accounts" by (rule business_posted) blast
  have hp: "heads_open_nil (accounts_for p t)"
    by (rule heads_open_lists, unfold p(7,8) jp_kinds jp_openings, simp add: is_bs_def)
  have ht: "heads_open_nil (accounts_for t p)"
    by (rule heads_open_lists, unfold t(7,8) jt_kinds jt_openings, simp add: is_bs_def)
  have op: "opening_sum (accounts_for p t) = 57974000"
    unfolding opening_sum_lists p(6,7,8) t(5) jp_kinds jp_openings jp_names_def link_names_def
    by (simp add: jp_name_defs is_bs_def)
  have ot: "opening_sum (accounts_for t p) = - 57974000"
    unfolding opening_sum_lists t(6,7,8) p(5) jt_kinds jt_openings jt_names_def link_names_def
    by (simp add: jt_name_defs is_bs_def)
  have "opening_sum (accounts_for p t) = - opening_sum (accounts_for t p)" unfolding op ot by simp
  from pair_account_closes [OF p(1,2,4) t(1,2,4) refl hp refl ht this, of "\<lambda>x y. Inr []"]
  show ?thesis using p(3) t(3) unfolding op ot by auto
qed

end
