(* ===== verification/Decimal_Facts.thy ===== *)
theory Decimal_Facts
  imports Decimal Complex_Main
begin

text \<open>
  How far the operations of theory \<open>Decimal\<close> are from the exact ones: each is within one part in \<open>10^27\<close>, and
  the errors of a chain of operations on positive numbers add up.
\<close>

section \<open>The value of a decimal and the error of one rounding\<close>

definition dval :: "dec \<Rightarrow> real" where
  "dval x = of_int (fst x) * 10 powi snd x"

lemma ndigits_bounds:
  assumes "0 \<le> n"
  shows "1 \<le> ndigits n \<and> n < 10 ^ nat (ndigits n) \<and> (0 < n \<longrightarrow> 10 ^ nat (ndigits n - 1) \<le> n)"
  using assms
proof (induction n rule: ndigits.induct)
  case (1 n)
  show ?case
  proof (cases "n < 10")
    case True
    with 1 show ?thesis by (simp add: ndigits.simps [of n])
  next
    case False
    let ?k = "ndigits (n div 10)"
    from False have nd: "ndigits n = 1 + ?k" by (simp add: ndigits.simps [of n])
    from 1 False have IH: "1 \<le> ?k" "n div 10 < 10 ^ nat ?k" "10 ^ nat (?k - 1) \<le> n div 10" by auto
    have "n < 10 * 10 ^ nat ?k" using IH(2) by linarith
    moreover have "10 * 10 ^ nat (?k - 1) \<le> n" using IH(3) by linarith
    moreover have "nat (1 + ?k) = Suc (nat ?k)" "nat (1 + ?k - 1) = Suc (nat (?k - 1))" using IH(1) by auto
    ultimately show ?thesis using IH(1) by (simp add: nd)
  qed
qed

lemma half_even_near:
  assumes "0 < m" shows "\<bar>2 * (m * half_even n m - n)\<bar> \<le> m"
proof -
  have "m * (n div m) + n mod m = n" by simp
  moreover have "0 \<le> n mod m" "n mod m < m" using assms by auto
  moreover have "m * half_even n m = m * (n div m) \<and> 2 * (n mod m) \<le> m \<or> m * half_even n m = m * (n div m) + m \<and> m \<le> 2 * (n mod m)"
    unfolding half_even_def nearest_even_def by (auto simp: distrib_left)
  moreover have "\<bar>2 * (h - n)\<bar> \<le> m"
    if "q + x = n" "0 \<le> x" "x < m" "h = q \<and> 2 * x \<le> m \<or> h = q + m \<and> m \<le> 2 * x" for h q x :: int
    using that by auto
  ultimately show ?thesis by blast
qed

text \<open>\<open>y\<close> is \<open>x\<close> within one part in \<open>10^27\<close>.\<close>

definition near :: "real \<Rightarrow> real \<Rightarrow> bool" where
  "near x y = (\<bar>y - x\<bar> \<le> \<bar>x\<bar> / 10 ^ 27)"

lemma dval_split: "dval (c, e + int k) = of_int (c * 10 ^ k) * 10 powi e"
  by (simp add: dval_def power_int_add)

lemma powi_mono: "i \<le> j \<Longrightarrow> (10::real) powi i \<le> 10 powi j"
  by (rule power_int_increasing) auto

lemma powi_less: "(10::real) powi i < 10 powi j \<Longrightarrow> i < j"
  by (meson linorder_not_less powi_mono)

text \<open>The digits dropped from a number that is not subnormal.\<close>

lemma dropped_digits:
  assumes "c \<noteq> 0" "1 / 10 ^ 99 \<le> \<bar>dval (c, e)\<bar>" "1 \<le> p" "p \<le> 900000"
  shows "- EMAX - (p - 1) - e \<le> ndigits \<bar>c\<bar> - p"
proof -
  let ?d = "ndigits \<bar>c\<bar>"
  from ndigits_bounds [of "\<bar>c\<bar>"] have d: "1 \<le> ?d" "\<bar>c\<bar> < 10 ^ nat ?d" by auto
  have "real_of_int \<bar>c\<bar> < 10 ^ nat ?d" using d(2) by (metis of_int_less_numeral_power_cancel_iff)
  also have "... = 10 powi ?d" using d(1) by (simp add: power_int_def)
  finally have "\<bar>dval (c, e)\<bar> < 10 powi ?d * 10 powi e"
    by (simp add: dval_def abs_mult power_int_abs)
  also have "... = 10 powi (?d + e)" by (simp add: power_int_add)
  finally have up: "\<bar>dval (c, e)\<bar> < 10 powi (?d + e)" .
  have "(10::real) powi (- 99) = 1 / 10 ^ 99" by (simp only: power_int_minus power_int_numeral inverse_eq_divide)
  with up assms(2) have "(10::real) powi (- 99) < 10 powi (?d + e)" by (simp only: order_le_less_trans)
  from powi_less [OF this] show ?thesis using assms(3,4) by (simp add: EMAX_def)
qed

lemma near_refl: "near x x"
  by (simp add: near_def)

text \<open>What is lost by dropping \<open>k\<close> digits.\<close>

lemma half_even_dval:
  assumes "c \<noteq> 0" "28 \<le> p" "ndigits \<bar>c\<bar> - p = k" "0 < k"
  shows "\<bar>dval (sgn c * half_even \<bar>c\<bar> (10 ^ nat k), e + k) - dval (c, e)\<bar> \<le> \<bar>dval (c, e)\<bar> / (2 * 10 ^ 27)"
proof -
  define m h :: int where "m = 10 ^ nat k" and "h = half_even \<bar>c\<bar> m"
  have m: "0 < m" by (simp add: m_def)
  have "10 ^ nat (ndigits \<bar>c\<bar> - 1) \<le> \<bar>c\<bar>" using ndigits_bounds [of "\<bar>c\<bar>"] assms(1) by auto
  moreover have "nat (ndigits \<bar>c\<bar> - 1) = nat k + nat (p - 28) + 27" using assms by simp
  ultimately have "m * 10 ^ nat (p - 28) * 10 ^ 27 \<le> \<bar>c\<bar>" by (simp only: power_add m_def)
  moreover have "m * 1 \<le> m * 10 ^ nat (p - 28)" using m by (intro mult_left_mono) auto
  ultimately have "m * 10 ^ 27 \<le> \<bar>c\<bar>" by simp
  moreover have "2 * 10 ^ 27 * \<bar>x - a\<bar> \<le> a" if "\<bar>2 * (x - a)\<bar> \<le> m" "m * 10 ^ 27 \<le> a" for x a :: int
  proof -
    have "2 * \<bar>x - a\<bar> \<le> m" using that(1) by linarith
    moreover have "2 * 10 ^ 27 * y \<le> a" if "2 * y \<le> m" for y using that \<open>m * 10 ^ 27 \<le> a\<close> by simp
    ultimately show ?thesis by blast
  qed
  ultimately have "2 * 10 ^ 27 * \<bar>m * h - \<bar>c\<bar>\<bar> \<le> \<bar>c\<bar>"
    using half_even_near [OF m, of "\<bar>c\<bar>"] unfolding h_def by blast
  then have le: "2 * 10 ^ 27 * \<bar>real_of_int (m * h - \<bar>c\<bar>)\<bar> \<le> \<bar>real_of_int c\<bar>"
    by (metis (mono_tags) of_int_abs of_int_le_iff of_int_mult of_int_numeral of_int_power)
  have c: "c = sgn c * \<bar>c\<bar>" by (simp add: sgn_mult_abs)
  have "dval (sgn c * h, e + k) - dval (c, e) = of_int (sgn c * h * m - c) * 10 powi e"
    using dval_split [of "sgn c * h" e "nat k"] assms(4) by (simp add: dval_def m_def left_diff_distrib)
  also have "sgn c * h * m - c = sgn c * (m * h - \<bar>c\<bar>)" by (subst (2) c) (simp add: algebra_simps)
  finally have "\<bar>dval (sgn c * h, e + k) - dval (c, e)\<bar> = \<bar>real_of_int (m * h - \<bar>c\<bar>)\<bar> * 10 powi e"
  proof -
    assume *: "dval (sgn c * h, e + k) - dval (c, e) = of_int (sgn c * (m * h - \<bar>c\<bar>)) * 10 powi e"
    have "\<bar>real_of_int (sgn c * (m * h - \<bar>c\<bar>))\<bar> = \<bar>real_of_int (m * h - \<bar>c\<bar>)\<bar>"
      using assms(1) by (cases "0 < c") (simp_all add: of_int_mult [symmetric] del: of_int_mult)
    then show ?thesis unfolding * by (simp only: abs_mult [of _ "10 powi e"] power_int_abs abs_numeral)
  qed
  also have "... \<le> \<bar>real_of_int c\<bar> / (2 * 10 ^ 27) * 10 powi e"
    using le by (intro mult_right_mono) (auto simp: field_simps)
  finally show ?thesis by (simp add: dval_def abs_mult power_int_abs h_def m_def)
qed

abbreviation nonsmall :: "real \<Rightarrow> bool" where "nonsmall v \<equiv> v = 0 \<or> 1 / 10 ^ 99 \<le> \<bar>v\<bar>"

lemma dec_fix_half:
  assumes "dec_fix p x = Inr y" "28 \<le> p" "p \<le> 900000" "nonsmall (dval x)"
  shows "\<bar>dval y - dval x\<bar> \<le> \<bar>dval x\<bar> / (2 * 10 ^ 27)"
proof -
  obtain c e where x: "x = (c, e)" by fastforce
  define k where "k = max (ndigits \<bar>c\<bar> - p) (- EMAX - (p - 1) - e)"
  from assms(1) have y: "y = (if k \<le> 0 then (c, e) else (sgn c * half_even \<bar>c\<bar> (10 ^ nat k), e + k))"
    unfolding dec_fix_def x excess.simps drop_digits.simps k_def [symmetric] by (auto split: if_splits)
  show ?thesis
  proof (cases "c = 0 \<or> k \<le> 0")
    case True
    then show ?thesis by (auto simp: y x dval_def)
  next
    case False
    then have "dval x \<noteq> 0" by (simp add: x dval_def)
    with False assms dropped_digits [of c e p] have "ndigits \<bar>c\<bar> - p = k"
      unfolding k_def x by (simp add: max_absorb1)
    with False half_even_dval [of c p k e] assms(2) show ?thesis by (simp add: y x)
  qed
qed

lemma dec_fix_near: "dec_fix p x = Inr y \<Longrightarrow> 28 \<le> p \<Longrightarrow> p \<le> 900000 \<Longrightarrow> nonsmall (dval x) \<Longrightarrow> near (dval x) (dval y)"
  using dec_fix_half [of p x y] by (simp add: near_def)

lemma dval_mul: "dval (fst x * fst y, snd x + snd y) = dval x * dval y"
  by (simp add: dval_def power_int_add)

lemma dval_add:
  "dval (at_exponent (min (snd x) (snd y)) x + at_exponent (min (snd x) (snd y)) y, min (snd x) (snd y)) = dval x + dval y"
proof -
  have "10 ^ nat (i - j) * 10 powi j = (10::real) powi i" if "j \<le> i" for i j :: int
    using that power_int_add [of "10::real" "i - j" j] by (simp add: power_int_def [of _ "i - j"])
  then show ?thesis
    by (cases x; cases y) (simp add: dval_def distrib_right mult.assoc)
qed

lemma dec_mul_near:
  "dec_mul p x y = Inr z \<Longrightarrow> 28 \<le> p \<Longrightarrow> p \<le> 900000 \<Longrightarrow> nonsmall (dval x * dval y) \<Longrightarrow> near (dval x * dval y) (dval z)"
  using dec_fix_near [of p "(fst x * fst y, snd x + snd y)" z] by (simp only: dec_mul_def dval_mul)

lemma dec_add_near:
  "dec_add p x y = Inr z \<Longrightarrow> 28 \<le> p \<Longrightarrow> p \<le> 900000 \<Longrightarrow> nonsmall (dval x + dval y) \<Longrightarrow> near (dval x + dval y) (dval z)"
  using dec_fix_near [of p _ z] dval_add [of x y] unfolding dec_add_def by metis

lemma dec_sub_near:
  "dec_sub p x y = Inr z \<Longrightarrow> 28 \<le> p \<Longrightarrow> p \<le> 900000 \<Longrightarrow> nonsmall (dval x - dval y) \<Longrightarrow> near (dval x - dval y) (dval z)"
  using dec_add_near [of p x "(- fst y, snd y)" z] by (simp add: dec_sub_def dval_def)

lemma dval_int [simp]: "dval (dec_of_int n) = of_int n"
  by (simp add: dval_def dec_of_int_def)

text \<open>A quotient of more than \<open>10^p\<close>, cut to a whole number.\<close>

lemma sticky_near:
  assumes "0 < m" "10 ^ 28 * m \<le> (n::int)"
  shows "\<bar>real_of_int (scaled_quotient n m) - of_int n / of_int m\<bar> \<le> of_int n / of_int m / 10 ^ 28"
proof -
  let ?v = "of_int n / of_int m :: real"
  have "1 \<le> ?v / 10 ^ 28" using assms(1,2) by (simp add: field_simps flip: of_int_le_iff [where ?'a = real])
  moreover have "of_int (n div m) \<le> ?v \<and> ?v < of_int (n div m) + 1"
    by (metis floor_divide_of_int_eq of_int_floor_le real_of_int_floor_add_one_gt)
  ultimately show ?thesis by (auto simp: scaled_quotient_def sticky_def)
qed

text \<open>The scaling gives the quotient more than 28 digits.\<close>

lemma div_scale:
  assumes "a \<noteq> 0" "b \<noteq> 0" "28 \<le> p" "s = ndigits \<bar>b\<bar> - ndigits \<bar>a\<bar> + p + 1"
  shows "10 ^ 28 * (\<bar>b\<bar> * 10 ^ nat (- s)) \<le> \<bar>a\<bar> * 10 ^ nat s"
proof -
  let ?d = "ndigits \<bar>a\<bar>" and ?k = "ndigits \<bar>b\<bar>"
  have b: "\<bar>b\<bar> \<le> 10 ^ nat ?k" "1 \<le> ?k" and a: "10 ^ nat (?d - 1) \<le> \<bar>a\<bar>" "1 \<le> ?d"
    using ndigits_bounds [of "\<bar>b\<bar>"] ndigits_bounds [of "\<bar>a\<bar>"] assms by auto
  have "10 ^ 28 * (\<bar>b\<bar> * 10 ^ nat (- s)) \<le> 10 ^ 28 * (10 ^ nat ?k * 10 ^ nat (- s))"
    using b by (intro mult_left_mono mult_right_mono) auto
  also have "... = 10 ^ (28 + nat ?k + nat (- s))" by (simp only: power_add mult.assoc)
  also have "... \<le> 10 ^ (nat (?d - 1) + nat s)"     by (intro power_increasing) (use assms(3,4) a(2) b(2) in \<open>linarith, simp\<close>)
  also have "... = 10 ^ nat (?d - 1) * 10 ^ nat s" by (simp only: power_add)
  also have "... \<le> \<bar>a\<bar> * 10 ^ nat s" using a by (intro mult_right_mono) auto
  finally show ?thesis .
qed

lemma near_twice:
  fixes v w z :: real
  assumes "\<bar>w - v\<bar> \<le> \<bar>v\<bar> / 10 ^ 28" "\<bar>z - w\<bar> \<le> \<bar>w\<bar> / (2 * 10 ^ 27)"
  shows "near v z"
proof -
  have "\<bar>w\<bar> \<le> \<bar>v\<bar> + \<bar>v\<bar> / 10 ^ 28" using assms(1) by linarith
  then have "\<bar>z - w\<bar> \<le> (\<bar>v\<bar> + \<bar>v\<bar> / 10 ^ 28) / (2 * 10 ^ 27)"
    using assms(2) by (meson divide_right_mono order_trans zero_le_mult_iff zero_le_numeral zero_le_power)
  moreover have "\<bar>z - v\<bar> \<le> \<bar>z - w\<bar> + \<bar>w - v\<bar>" by linarith
  moreover have "(a + a / 10 ^ 28) / (2 * 10 ^ 27) + a / 10 ^ 28 \<le> a / 10 ^ 27" if "0 \<le> a" for a :: real
    using that by (simp add: field_simps)
  ultimately show ?thesis unfolding near_def using assms(1) abs_ge_zero [of v] by (smt (verit, best))
qed

lemma dec_div_near:
  assumes "dec_div p x y = Inr z" "28 \<le> p" "p \<le> 900000" "1 / 10 ^ 98 \<le> \<bar>dval x / dval y\<bar>"
  shows "near (dval x / dval y) (dval z)"
proof -
  define s n m where "s = ndigits \<bar>fst y\<bar> - ndigits \<bar>fst x\<bar> + p + 1"
    and "n = \<bar>fst x\<bar> * 10 ^ nat s" and "m = \<bar>fst y\<bar> * 10 ^ nat (- s)"
  define q where "q = scaled_quotient n m"
  define w where "w = (sgn (fst x) * sgn (fst y) * q, snd x - snd y - s)"
  define g where "g = real_of_int (sgn (fst x) * sgn (fst y)) * 10 powi (snd x - snd y - s)"
  from assms(1) have y0: "fst y \<noteq> 0" and cut: "dec_fix p w = Inr z"
    unfolding dec_div_def Let_def s_def [symmetric] n_def [symmetric] m_def [symmetric] q_def [symmetric] w_def [symmetric]
    by (auto split: if_splits)
  from assms(4) have x0: "fst x \<noteq> 0" by (auto simp: dval_def)
  have m: "0 < m" using y0 by (simp add: m_def)
  have ten: "10 ^ nat s / 10 ^ nat (- s) = (10::real) powi s"
    by (cases "0 \<le> s") (simp_all add: power_int_def inverse_eq_divide power_one_over)
  have sgns: "of_int (sgn a * sgn b) * (of_int \<bar>a\<bar> / of_int \<bar>b\<bar>) = (of_int a / of_int b :: real)" for a b :: int
    by (cases "0 < a"; cases "0 < b"; cases "a = 0"; cases "b = 0") auto
  have "dval x / dval y = of_int (fst x) / of_int (fst y) * 10 powi (snd x - snd y)"
    by (simp add: dval_def power_int_diff)
  also have "10 powi (snd x - snd y) = 10 powi (snd x - snd y - s) * (10 ^ nat s / 10 ^ nat (- s) :: real)"
    unfolding ten by (subst power_int_add [symmetric]) simp_all
  also have "of_int (fst x) / of_int (fst y) = of_int (sgn (fst x) * sgn (fst y)) * (of_int \<bar>fst x\<bar> / of_int \<bar>fst y\<bar> :: real)"
    by (rule sgns [symmetric])
  finally have v: "dval x / dval y = g * (of_int n / of_int m)"
    by (simp add: g_def n_def m_def)
  have w: "dval w = g * of_int q" by (simp add: w_def g_def dval_def)
  have "\<bar>real_of_int q - of_int n / of_int m\<bar> \<le> of_int n / of_int m / 10 ^ 28"
    unfolding q_def n_def m_def by (rule sticky_near) (use m div_scale [OF x0 y0 assms(2) s_def] in \<open>simp_all add: m_def\<close>)
  then have "\<bar>g\<bar> * \<bar>real_of_int q - of_int n / of_int m\<bar> \<le> \<bar>g\<bar> * (of_int n / of_int m / 10 ^ 28)"
    by (rule mult_left_mono) simp
  moreover have "0 \<le> real_of_int n / of_int m" using m by (simp add: n_def)
  moreover have "\<bar>g * a - g * b\<bar> \<le> \<bar>g * b\<bar> / c" if "\<bar>g\<bar> * \<bar>a - b\<bar> \<le> \<bar>g\<bar> * (b / c)" "0 \<le> b" for a b c :: real
    using that by (simp add: abs_mult flip: right_diff_distrib)
  ultimately have near1: "\<bar>dval w - dval x / dval y\<bar> \<le> \<bar>dval x / dval y\<bar> / 10 ^ 28"
    unfolding v w by blast
  then have "1 / 10 ^ 99 \<le> \<bar>dval w\<bar>" using assms(4) by simp
  with dec_fix_half [OF cut assms(2,3)] near_twice [OF near1] show ?thesis by blast
qed

section \<open>Errors of a chain of operations\<close>

definition keep_part :: real where "keep_part = 1 - 1 / 10 ^ 27"

text \<open>Each of two positive numbers is at least \<open>(1 - 10^-27)^k\<close> of the other.\<close>

definition agree :: "nat \<Rightarrow> real \<Rightarrow> real \<Rightarrow> bool" where
  "agree k x y = (0 < x \<and> 0 < y \<and> x * keep_part ^ k \<le> y \<and> y * keep_part ^ k \<le> x)"

lemma keep_part: "0 < keep_part" "keep_part < 1"
  by (simp_all add: keep_part_def)

lemma agree_near: "0 < x \<Longrightarrow> near x y \<Longrightarrow> agree 1 x y"
proof -
  assume "0 < x" "near x y"
  then have "x - x / 10 ^ 27 \<le> y" "y \<le> x + x / 10 ^ 27" unfolding near_def by linarith+
  then have y: "x * keep_part \<le> y" "y \<le> x * (1 + 1 / 10 ^ 27)"
    by (simp_all add: keep_part_def right_diff_distrib distrib_left)
  from y(2) have "y * keep_part \<le> x * (1 + 1 / 10 ^ 27) * keep_part"
    using keep_part by (intro mult_right_mono) auto
  also have "... \<le> x" using \<open>0 < x\<close> by (simp add: keep_part_def field_simps)
  finally show ?thesis using y \<open>0 < x\<close> keep_part by (auto simp: agree_def intro: less_le_trans [OF mult_pos_pos])
qed

lemma agree_refl: "0 < x \<Longrightarrow> agree 0 x x"
  by (simp add: agree_def)

lemma agree_trans:
  assumes "agree j x y" "agree k y z" shows "agree (j + k) x z"
proof -
  have "x * keep_part ^ j * keep_part ^ k \<le> y * keep_part ^ k" "z * keep_part ^ k * keep_part ^ j \<le> y * keep_part ^ j"
    using assms keep_part by (auto simp: agree_def intro!: mult_right_mono)
  with assms show ?thesis by (simp add: agree_def power_add mult_ac)
qed

lemma agree_chain: "agree j x y \<Longrightarrow> agree k y z \<Longrightarrow> n = j + k \<Longrightarrow> agree n x z"
  using agree_trans by blast

lemma agree_mult:
  assumes "agree j x x'" "agree k y y'" shows "agree (j + k) (x * y) (x' * y')"
proof -
  have "x * keep_part ^ j * (y * keep_part ^ k) \<le> x' * y'" "x' * keep_part ^ j * (y' * keep_part ^ k) \<le> x * y"
    using assms keep_part by (auto simp: agree_def intro!: mult_mono)
  with assms show ?thesis by (simp add: agree_def power_add mult_ac)
qed

lemma agree_inverse: "agree k x y \<Longrightarrow> agree k (1 / x) (1 / y)"
  by (auto simp: agree_def field_simps)

lemma agree_div: "agree j x x' \<Longrightarrow> agree k y y' \<Longrightarrow> agree (j + k) (x / y) (x' / y')"
  using agree_mult [of j x x' k "1 / y" "1 / y'"] agree_inverse [of k y y'] by simp

lemma agree_power: "agree k x y \<Longrightarrow> agree (k * n) (x ^ n) (y ^ n)"
proof -
  assume *: "agree k x y"
  then have "(x * keep_part ^ k) ^ n \<le> y ^ n" "(y * keep_part ^ k) ^ n \<le> x ^ n"
    using keep_part by (auto simp: agree_def intro!: power_mono)
  with * show ?thesis by (simp add: agree_def power_mult_distrib power_mult)
qed

lemma agree_add: "agree k x y \<Longrightarrow> 0 \<le> a \<Longrightarrow> agree k (a + x) (a + y)"
proof -
  assume *: "agree k x y" "0 \<le> a"
  have "keep_part ^ k \<le> 1" using keep_part by (intro power_le_one) auto
  with *(2) have "a * keep_part ^ k \<le> a" by (simp add: mult_left_le)
  with * show ?thesis by (auto simp: agree_def distrib_right)
qed

lemma keep_part_power: "1 - real k / 10 ^ 27 \<le> keep_part ^ k"
  using Bernoulli_inequality [of "- 1 / 10 ^ 27" k] by (simp add: keep_part_def)

lemma agree_half: "agree k x y \<Longrightarrow> k \<le> 10 ^ 20 \<Longrightarrow> x / 2 \<le> y \<and> y / 2 \<le> x"
proof -
  assume *: "agree k x y" "k \<le> 10 ^ 20"
  have "1 / 2 \<le> keep_part ^ k" using keep_part_power [of k] *(2) by (simp add: field_simps)
  then have "x * (1 / 2) \<le> x * keep_part ^ k" "y * (1 / 2) \<le> y * keep_part ^ k"
    using *(1) by (intro mult_left_mono; simp add: agree_def)+
  moreover have "x * keep_part ^ k \<le> y" "y * keep_part ^ k \<le> x" using *(1) by (auto simp: agree_def)
  ultimately show ?thesis by linarith
qed

lemma dec_div_agree:
  assumes "dec_div p x y = Inr z" "28 \<le> p" "p \<le> 900000" "1 / 10 ^ 11 \<le> dval x / dval y"
  shows "agree 1 (dval x / dval y) (dval z)"
proof -
  have "0 < v \<and> 1 / 10 ^ 98 \<le> \<bar>v\<bar>" if "1 / 10 ^ 11 \<le> v" for v :: real
    using that by (simp add: field_simps)
  from this [OF assms(4)] show ?thesis using dec_div_near [OF assms(1-3)] agree_near by blast
qed

section \<open>A power\<close>

lemma pow_loop_agree:
  assumes "28 \<le> p" "p \<le> 900000" "1 \<le> dval b"
  shows "pow_loop p b n = Inr y \<Longrightarrow> 1 \<le> n \<Longrightarrow> n \<le> 10 ^ 20 \<Longrightarrow> agree (n - 1) (dval b ^ n) (dval y)"
proof (induction n arbitrary: y rule: less_induct)
  case (less n)
  show ?case
  proof (cases "n = 1")
    case True
    with less.prems(1) have "y = b" by (simp add: pow_loop.simps [of p b])
    with True assms(3) show ?thesis by (simp add: agree_refl)
  next
    case False
    define k where "k = n div 2"
    have "n = k + k + of_bool (odd n)" unfolding k_def by (cases "odd n") (auto elim!: oddE evenE)
    with False less.prems have k: "1 \<le> k" "k < n" "n = k + k + of_bool (odd n)" by (auto simp: k_def)
    from False less.prems obtain h s where h: "pow_loop p b k = Inr h" and s: "dec_mul p h h = Inr s"
      and y: "if odd n then dec_mul p s b = Inr y else y = s"
      by (auto simp: pow_loop.simps [of p b n] ebind_Inr k_def split: if_splits)
    have half: "1 / 2 \<le> dval z" if "agree j (dval b ^ i) (dval z)" "j \<le> n" for i j z
    proof -
      have "1 / 2 \<le> keep_part ^ j" using keep_part_power [of j] that(2) less.prems(3) by (simp add: field_simps)
      also have "... \<le> dval b ^ i * keep_part ^ j" using assms(3) keep_part by (simp add: one_le_power mult_le_cancel_right1)
      finally show ?thesis using that(1) by (simp add: agree_def)
    qed
    have IH: "agree (k - 1) (dval b ^ k) (dval h)" using less.IH [OF k(2) h k(1)] k(2) less.prems(3) by simp
    have "1 / 2 \<le> dval h" using half [OF IH] k by simp
    then have "1 / 4 \<le> dval h * dval h" using mult_mono [of "1/2" "dval h" "1/2" "dval h"] by simp
    then have "agree 1 (dval h * dval h) (dval s)"
      using dec_mul_near [OF s assms(1,2)] by (intro agree_near) auto
    with agree_mult [OF IH IH] agree_trans have ws: "agree (k - 1 + (k - 1) + 1) (dval b ^ (k + k)) (dval s)"
      by (metis power_add)
    show ?thesis
    proof (cases "odd n")
      case True
      have "1 / 2 \<le> dval s" using half [OF ws] k by simp
      then have "1 / 2 \<le> dval s * dval b" using assms(3) mult_mono [of "1/2" "dval s" 1 "dval b"] by simp
      then have "agree 1 (dval s * dval b) (dval y)"
        using dec_mul_near [of p s b y] assms y True by (intro agree_near) auto
      from agree_trans [OF agree_mult [OF ws agree_refl [of "dval b"]] this]
      moreover have "k - 1 + (k - 1) + 1 + 0 + 1 = n - 1" "dval b ^ (k + k) * dval b = dval b ^ n"
        using True k by (simp_all add: mult.commute flip: power_Suc2)
      ultimately show ?thesis using assms(3) by simp
    next
      case False
      then have "k - 1 + (k - 1) + 1 = n - 1" "k + k = n" "y = s" using k y by simp_all
      with ws show ?thesis by metis
    qed
  qed
qed

lemma ndigits_le: "1 \<le> n \<Longrightarrow> n < 10 ^ k \<Longrightarrow> ndigits n \<le> int k"
proof -
  assume n: "1 \<le> n" "n < 10 ^ k"
  then have "10 ^ nat (ndigits n - 1) \<le> n" using ndigits_bounds [of n] by simp
  with n(2) have "10 ^ nat (ndigits n - 1) < (10::int) ^ k" by linarith
  from power_less_imp_less_exp [OF _ this] show ?thesis by simp
qed

lemma dec_pow_agree:
  assumes "dec_pow b n = Inr y" "1 \<le> dval b" "1 \<le> n" "n \<le> 10 ^ 20"
  shows "agree n (dval b ^ n) (dval y)"
proof -
  define p where "p = PREC + ndigits (int n) + 2"
  have "1 \<le> int n" "int n < 10 ^ 21" using assms(3,4) by simp_all
  with ndigits_le [of "int n" 21] ndigits_bounds [of "int n"] have p: "28 \<le> p" "p \<le> 900000"
    by (simp_all add: p_def PREC_def)
  from assms obtain x where x: "pow_loop p b n = Inr x" and y: "dec_fix PREC x = Inr y"
    by (auto simp: dec_pow_def ebind_Inr p_def split: if_splits)
  from pow_loop_agree [OF p assms(2) x assms(3,4)] have ax: "agree (n - 1) (dval b ^ n) (dval x)" .
  have "1 / 2 \<le> keep_part ^ (n - 1)" using keep_part_power [of "n - 1"] assms(4) by (simp add: field_simps of_nat_diff)
  also have "... \<le> dval b ^ n * keep_part ^ (n - 1)"
    using assms(2) keep_part by (simp add: one_le_power mult_le_cancel_right1)
  finally have "1 / 2 \<le> dval x" using ax by (simp add: agree_def)
  then have "agree 1 (dval x) (dval y)" using dec_fix_near [OF y] by (intro agree_near) (auto simp: PREC_def)
  from agree_trans [OF ax this] show ?thesis using assms(3) by simp
qed

lemma quantize_half:
  assumes "quantize_half_up x = Inr q" shows "\<bar>of_int q - dval x\<bar> \<le> 1 / 2"
proof -
  obtain c e where x: "x = (c, e)" by fastforce
  show ?thesis
  proof (cases "0 \<le> e")
    case True
    then have "q = sgn c * (\<bar>c\<bar> * 10 ^ nat e)" using assms by (simp add: quantize_half_up_def x Let_def split: if_splits)
    also have "... = c * 10 ^ nat e" by (simp add: sgn_mult_abs flip: mult.assoc)
    finally show ?thesis using True by (simp add: x dval_def power_int_def)
  next
    case False
    define m :: int where "m = 10 ^ nat (- e)"
    define z where "z = (2 * \<bar>c\<bar> + m) div (2 * m)"
    have m: "0 < m" by (simp add: m_def)
    from False assms have q: "q = sgn c * z" by (simp add: quantize_half_up_def x Let_def m_def z_def split: if_splits)
    have "2 * m * z + (2 * \<bar>c\<bar> + m) mod (2 * m) = 2 * \<bar>c\<bar> + m" by (simp add: z_def)
    moreover have "0 \<le> (2 * \<bar>c\<bar> + m) mod (2 * m)" "(2 * \<bar>c\<bar> + m) mod (2 * m) < 2 * m" using m by auto
    ultimately have "\<bar>2 * (m * z) - 2 * \<bar>c\<bar>\<bar> \<le> m" by linarith
    then have "\<bar>2 * (real_of_int m * of_int z) - 2 * of_int \<bar>c\<bar>\<bar> \<le> of_int m"
      by (metis (mono_tags) of_int_abs of_int_diff of_int_le_iff of_int_mult of_int_numeral)
    then have "\<bar>of_int z - of_int \<bar>c\<bar> / real_of_int m\<bar> \<le> 1 / 2"
    proof -
      assume *: "\<bar>2 * (real_of_int m * of_int z) - 2 * of_int \<bar>c\<bar>\<bar> \<le> of_int m"
      have "2 * of_int m * (of_int z - of_int \<bar>c\<bar> / real_of_int m) = 2 * (real_of_int m * of_int z) - 2 * of_int \<bar>c\<bar>"
        using m by (simp add: right_diff_distrib)
      with * have "2 * of_int m * \<bar>of_int z - of_int \<bar>c\<bar> / real_of_int m\<bar> \<le> of_int m"
        using m by (metis abs_mult abs_of_pos mult_pos_pos of_int_0_less_iff zero_less_numeral)
      then show ?thesis using m by simp
    qed
    moreover have "dval x = of_int (sgn c) * (of_int \<bar>c\<bar> / of_int m)"
    proof -
      have "real_of_int c = of_int (sgn c) * of_int \<bar>c\<bar>" by (simp only: of_int_mult [symmetric] sgn_mult_abs)
      then show ?thesis using False by (simp add: x dval_def m_def power_int_def inverse_eq_divide power_one_over)
    qed
    moreover have "\<bar>of_int (sgn c) * a - of_int (sgn c) * b\<bar> \<le> \<bar>a - b\<bar>" for a b :: real
      by (cases c "0::int" rule: linorder_cases) auto
    ultimately show ?thesis unfolding q of_int_mult by (metis order_trans)
  qed
qed

end
