(* ===== verification/Emi_Facts.thy ===== *)
theory Emi_Facts
  imports Emi Decimal_Facts
begin

text \<open>
  The lender's statement: its instalment beside the annuity in real numbers, and its rows.
\<close>

section \<open>How far the instalment is from the annuity\<close>

text \<open>The instalment that repays a loan of \<open>loan_amt\<close> paise at \<open>rate_bp\<close> hundredths of a per cent a year in
  \<open>months\<close> months, in rupees and exactly.\<close>

definition annuity :: "int \<Rightarrow> int \<Rightarrow> nat \<Rightarrow> real" where
  "annuity loan_amt rate_bp months =
     (let r = of_int rate_bp / 120000; f = (1 + r) ^ months in of_int loan_amt / 100 * r * f / (f - 1))"

lemma power_gap:
  assumes "1 / 120000 \<le> r" "n \<le> 100000" "agree (4 * n) ((1 + r) ^ n) f"
  shows "\<bar>f - (1 + r) ^ n\<bar> \<le> 2 / 10 ^ 21 * ((1 + r) ^ n - 1)"
proof -
  define F t where "F = (1 + r) ^ n" and "t = real (4 * n) / 10 ^ 27"
  have r: "0 < r" using assms(1) by simp
  have grow: "real n * r \<le> F - 1" using Bernoulli_inequality [of r n] r by (simp add: F_def)
  have F: "1 \<le> F" using r by (simp add: F_def)
  have t: "1 - t \<le> keep_part ^ (4 * n)" "0 \<le> t" "t \<le> 4 / 10 ^ 22"
    using keep_part_power [of "4 * n"] assms(2) by (simp_all add: t_def)
  have "F * (1 - t) \<le> F * keep_part ^ (4 * n)" using t F by (intro mult_left_mono) auto
  then have low: "F - t * F \<le> f" using assms(3) by (simp add: agree_def F_def algebra_simps)
  have f: "0 < f" "f \<le> 2 * F" using assms(3) agree_half [OF assms(3)] assms(2) by (auto simp: agree_def F_def)
  have "f * (1 - t) \<le> f * keep_part ^ (4 * n)" using t f by (intro mult_left_mono) auto
  then have "f - f * t \<le> F" using assms(3) by (simp add: agree_def right_diff_distrib F_def)
  moreover have "f * t \<le> 2 * F * t" using f t by (intro mult_right_mono) auto
  ultimately have up: "f \<le> F + 2 * (t * F)" by (simp add: mult_ac)
  have "t = 4 * 120000 / 10 ^ 27 * (real n * (1 / 120000))" by (simp add: t_def)
  also have "... \<le> 4 * 120000 / 10 ^ 27 * (real n * r)" using assms(1) by (intro mult_left_mono) auto
  also have "... \<le> 4 * 120000 / 10 ^ 27 * (F - 1)" using grow by (intro mult_left_mono) auto
  finally have "t \<le> 4 * 120000 / 10 ^ 27 * (F - 1)" .
  moreover have "t * (F - 1) \<le> 4 / 10 ^ 22 * (F - 1)" using t F by (intro mult_right_mono) auto
  ultimately have tF: "t * F \<le> 1 / 10 ^ 21 * (F - 1)" "0 \<le> t * F" using t F by (simp_all add: right_diff_distrib)
  have "\<bar>f - F\<bar> \<le> 2 * (t * F)" using low up tF(2) by linarith
  then show ?thesis using tF(1) by (simp add: F_def)
qed

lemma gap_bounds:
  fixes a b :: real
  assumes "\<bar>a - b\<bar> \<le> 2 / 10 ^ 21 * (b - 1)"
  shows "(b - 1) * (1 - 2 / 10 ^ 21) \<le> a - 1 \<and> a - 1 \<le> (b - 1) * (1 + 2 / 10 ^ 21)"
proof -
  have "b - 2 / 10 ^ 21 * (b - 1) \<le> a" "a \<le> b + 2 / 10 ^ 21 * (b - 1)" using assms by linarith+
  then show ?thesis by (simp add: right_diff_distrib distrib_left left_diff_distrib distrib_right)
qed

text \<open>The computation, step by step: every rounding costs one part in \<open>10^27\<close>.\<close>

lemma PREC_bounds: "28 \<le> PREC" "PREC \<le> 900000"
  by (simp_all add: PREC_def)

lemma growth_steps:
  assumes "dec_div PREC (dec_of_int rate_bp) (dec_of_int 10000) = Inr y" "dec_div PREC y (dec_of_int 12) = Inr m"
    "dec_add PREC (dec_of_int 1) m = Inr g" "0 < rate_bp"
  defines "r \<equiv> of_int rate_bp / 120000 :: real"
  shows "agree 2 r (dval m)" "1 / 240000 \<le> dval m" "agree 3 (1 + r) (dval g)" "1 \<le> dval g"
proof -
  have r: "1 / 120000 \<le> r" using assms(4) by (simp add: r_def)
  have y: "agree 1 (of_int rate_bp / 10000) (dval y)"
    using dec_div_agree [OF assms(1) PREC_bounds] assms(4) by (simp add: field_simps)
  have "1 / 10 ^ 11 \<le> dval y / dval (dec_of_int 12)" using agree_half [OF y] assms(4) by simp
  from dec_div_agree [OF assms(2) PREC_bounds this] show m: "agree 2 r (dval m)"
    using agree_chain [OF agree_div [OF y agree_refl [of 12]], of 1 "dval m" 2] by (simp add: r_def)
  then show m0: "1 / 240000 \<le> dval m" using agree_half [OF m] r by simp
  then have g1: "agree 1 (1 + dval m) (dval g)"
    using dec_add_near [OF assms(3) PREC_bounds] by (intro agree_near) simp_all
  show "agree 3 (1 + r) (dval g)" by (rule agree_chain [OF agree_add [OF m] g1]) simp_all
  have "keep_part * (1 + dval m) \<le> dval g" using g1 by (simp add: agree_def mult.commute)
  moreover have "1 \<le> keep_part * (1 + dval m)" using m0 by (simp add: keep_part_def left_diff_distrib)
  ultimately show "1 \<le> dval g" by simp
qed

lemma no_months: "dec_pow g 0 = Inr f \<Longrightarrow> dec_sub PREC f (dec_of_int 1) = Inr f1 \<Longrightarrow> dec_div PREC x f1 = Inr z \<Longrightarrow> False"
proof -
  assume *: "dec_pow g 0 = Inr f" "dec_sub PREC f (dec_of_int 1) = Inr f1" "dec_div PREC x f1 = Inr z"
  from *(1) have "f = (1, 0)" by (simp add: dec_pow_def split: if_splits)
  moreover have "dec_sub PREC (1, 0) (dec_of_int 1) = Inr (0, 0)" by code_simp
  ultimately have "f1 = (0, 0)" using *(2) by simp
  with *(3) show False by (simp add: dec_div_def)
qed

lemma grown_steps:
  assumes "dec_mul PREC p m = Inr pr" "dec_mul PREC pr f = Inr grown" "agree 1 P (dval p)" "agree 2 r (dval m)"
    "agree k F (dval f)" "1 / 100 \<le> P" "1 / 240000 \<le> dval m" "1 \<le> dval f"
  shows "agree (k + 5) (P * r * F) (dval grown)" "1 / (2 * 10 ^ 10) * dval f \<le> dval grown"
proof -
  have pm: "1 / 10 ^ 9 \<le> dval p * dval m"
    using mult_mono [of "1/200" "dval p" "1/240000" "dval m"] agree_half [OF assms(3)] assms(6,7) by simp
  then have pr1: "agree 1 (dval p * dval m) (dval pr)"
    using dec_mul_near [OF assms(1) PREC_bounds] by (intro agree_near) simp_all
  have pr: "agree 4 (P * r) (dval pr)" by (rule agree_chain [OF agree_mult [OF assms(3,4)] pr1]) simp
  have "1 / 10 ^ 10 \<le> dval pr" using agree_half [OF pr1] pm by simp
  then have pf: "1 / 10 ^ 10 * dval f \<le> dval pr * dval f" using assms(8) by (intro mult_right_mono) auto
  have "1 / 10 ^ 10 * 1 \<le> 1 / 10 ^ 10 * dval f" using assms(8) by (intro mult_left_mono) auto
  with pf have "1 / 10 ^ 10 \<le> dval pr * dval f" by (metis mult.right_neutral order_trans)
  then have grown1: "agree 1 (dval pr * dval f) (dval grown)"
    using dec_mul_near [OF assms(2) PREC_bounds] by (intro agree_near) simp_all
  show "agree (k + 5) (P * r * F) (dval grown)" by (rule agree_chain [OF agree_mult [OF pr assms(5)] grown1]) simp
  show "1 / (2 * 10 ^ 10) * dval f \<le> dval grown" using agree_half [OF grown1] pf by simp
qed

lemma emi_steps:
  assumes "emi_of loan_amt rate_bp months = Inr emi" "0 < loan_amt" "0 < rate_bp" "months \<le> 100000"
  defines "P \<equiv> of_int loan_amt / 100" and "r \<equiv> of_int rate_bp / 120000 :: real"
  shows "\<exists>f x q. 1 \<le> months \<and> agree (4 * months) ((1 + r) ^ months) f \<and> 1 < f
           \<and> agree (4 * months + 7) (P * r * (1 + r) ^ months / (f - 1)) x
           \<and> emi = q * 100 \<and> \<bar>of_int q - x\<bar> \<le> 1 / 2"
proof -
  from assms(1) obtain p y m g f pr grown f1 x q where steps:
    "dec_div PREC (dec_of_int loan_amt) (dec_of_int 100) = Inr p"
    "dec_div PREC (dec_of_int rate_bp) (dec_of_int 10000) = Inr y"
    "dec_div PREC y (dec_of_int 12) = Inr m" "dec_add PREC (dec_of_int 1) m = Inr g"
    "dec_pow g months = Inr f" "dec_mul PREC p m = Inr pr" "dec_mul PREC pr f = Inr grown"
    "dec_sub PREC f (dec_of_int 1) = Inr f1" "dec_div PREC grown f1 = Inr x" "quantize_half_up x = Inr q" "emi = q * 100"
    by (auto simp: emi_of_def ebind_Inr)
  have P: "1 / 100 \<le> P" and r: "1 / 120000 \<le> r" using assms(2,3) by (simp_all add: P_def r_def)
  have p: "agree 1 P (dval p)" using dec_div_agree [OF steps(1) PREC_bounds] P by (simp add: P_def)
  note g = growth_steps [OF steps(2-4) assms(3), folded r_def]
  have n: "1 \<le> months" using no_months [OF _ steps(8,9), of g] steps(5) by (cases months) auto
  have f: "agree (4 * months) ((1 + r) ^ months) (dval f)"
    by (rule agree_chain [OF agree_power [OF g(3)] dec_pow_agree [OF steps(5) g(4) n]]) (use assms(4) in simp_all)
  have "months * r \<le> (1 + r) ^ months - 1" using Bernoulli_inequality [of r months] r by simp
  moreover have "1 / 120000 \<le> real months * r" using mult_mono [of 1 "real months" "1 / 120000" r] n r by simp
  ultimately have f0: "1 + 1 / 240000 \<le> dval f" using gap_bounds [OF power_gap [OF r assms(4) f]] by simp
  then have "1 \<le> dval f" by simp
  note grown = grown_steps [OF steps(6,7) p g(1) f P g(2) this]
  have f1: "agree 1 (dval f - 1) (dval f1)" using dec_sub_near [OF steps(8) PREC_bounds] f0 by (intro agree_near) simp_all
  have "dval f1 \<le> 2 * dval f" "0 < dval f1" using agree_half [OF f1] f1 f0 by (auto simp: agree_def)
  with grown(2) have "1 / 10 ^ 11 \<le> dval grown / dval f1" by (simp add: field_simps)
  from dec_div_agree [OF steps(9) PREC_bounds this]
  have "agree (4 * months + 7) (P * r * (1 + r) ^ months / (dval f - 1)) (dval x)"
    by (rule agree_chain [OF agree_div [OF grown(1) f1]]) simp
  with n f f0 steps(11) quantize_half [OF steps(10)] show ?thesis by (intro exI [of _ "dval f"] exI [of _ "dval x"] exI [of _ q]) simp
qed

lemma quotient_gap:
  fixes A F f x :: real
  assumes "0 < A" "1 < F" "1 < f" "\<bar>f - F\<bar> \<le> 2 / 10 ^ 21 * (F - 1)" "agree k (A / (f - 1)) x" "k \<le> 10 ^ 6"
  shows "\<bar>x - A / (F - 1)\<bar> \<le> A / (F - 1) / 10 ^ 20"
proof -
  define X Y where "X = A / (F - 1)" and "Y = A / (f - 1)"
  have XY: "X * (F - 1) = Y * (f - 1)" "0 < X" "0 < Y" using assms(1-3) by (simp_all add: X_def Y_def)
  have keep: "1 - 1 / 10 ^ 21 \<le> keep_part ^ k" using keep_part_power [of k] assms(6) by simp
  have "Y * ((F - 1) * (1 - 2 / 10 ^ 21)) \<le> Y * (f - 1)" "Y * (f - 1) \<le> Y * ((F - 1) * (1 + 2 / 10 ^ 21))"
    using gap_bounds [OF assms(4)] XY by (auto intro!: mult_left_mono)
  then have "Y * (1 - 2 / 10 ^ 21) * (F - 1) \<le> X * (F - 1)" "X * (F - 1) \<le> Y * (1 + 2 / 10 ^ 21) * (F - 1)"
    by (simp_all only: XY(1) mult_ac)
  then have Y: "Y * (1 - 2 / 10 ^ 21) \<le> X" "X \<le> Y * (1 + 2 / 10 ^ 21)" using assms(2) by simp_all
  have x: "0 < x" "Y * keep_part ^ k \<le> x" "x * keep_part ^ k \<le> Y" using assms(5) by (auto simp: agree_def Y_def)
  have "Y * (1 - 1 / 10 ^ 21) \<le> x" "x * (1 - 1 / 10 ^ 21) \<le> Y"
    using x XY keep mult_left_mono [OF keep, of Y] mult_left_mono [OF keep, of x] by linarith+
  with Y XY have "X * (1 - 1 / 10 ^ 20) \<le> x" "x \<le> X * (1 + 1 / 10 ^ 20)" by simp_all
  then have "X - X / 10 ^ 20 \<le> x" "x \<le> X + X / 10 ^ 20" by (simp_all add: right_diff_distrib distrib_left)
  then show ?thesis unfolding X_def by linarith
qed

lemma emi_near_annuity:
  assumes "emi_of loan_amt rate_bp months = Inr emi" "0 < loan_amt" "0 < rate_bp" "months \<le> 100000"
  shows "\<bar>of_int (emi div 100) - annuity loan_amt rate_bp months\<bar> \<le> 1 / 2 + annuity loan_amt rate_bp months / 10 ^ 20"
proof -
  let ?P = "of_int loan_amt / 100 :: real" and ?r = "of_int rate_bp / 120000 :: real"
  let ?F = "(1 + ?r) ^ months"
  obtain f x q where steps: "1 \<le> months" "agree (4 * months) ?F f" "1 < f"
      "agree (4 * months + 7) (?P * ?r * ?F / (f - 1)) x" "emi = q * 100" "\<bar>of_int q - x\<bar> \<le> 1 / 2"
    using emi_steps [OF assms] by blast
  have r: "1 / 120000 \<le> ?r" using assms(3) by simp
  have "1 < ?F" using steps(1) assms(3) by (intro one_less_power) simp_all
  moreover have "0 < ?P * ?r * ?F" using assms(2,3) by simp
  ultimately have "\<bar>x - ?P * ?r * ?F / (?F - 1)\<bar> \<le> ?P * ?r * ?F / (?F - 1) / 10 ^ 20"
    using quotient_gap [OF _ _ steps(3) power_gap [OF r assms(4) steps(2)] steps(4)] assms(4) by simp
  then have "\<bar>x - annuity loan_amt rate_bp months\<bar> \<le> annuity loan_amt rate_bp months / 10 ^ 20"
    by (simp only: annuity_def Let_def)
  moreover have "emi div 100 = q" using steps(5) by simp
  ultimately show ?thesis using steps(6) by linarith
qed

text \<open>C39. The lender's statement: one row per instalment, numbered from 1 and due a month after the one
  before; every row has the same instalment, in whole rupees, split into the interest of the month on
  what is still owed, in whole rupees, and the principal; and for a loan at a positive rate the instalment is
  the annuity to half a rupee and one part in \<open>10^20\<close>, the cost of the 28 digits \<open>Decimal\<close> keeps.\<close>

theorem emi_schedule_split:
  assumes "emi_schedule loan_amt rate_bp months first_due n = Inr (emi, sched)"
  shows "length sched = n \<and> 100 dvd emi
    \<and> (\<forall>k<n. case sched ! k of (j, d, e, interest, pr) \<Rightarrow>
         j = 1 + int k \<and> e = emi \<and> interest + pr = emi \<and> (k = 0 \<longrightarrow> d = first_due)
         \<and> (Suc k < n \<longrightarrow> next_due d = Inr (fst (snd (sched ! Suc k))))
         \<and> half_up (balance_before loan_amt sched k * rate_bp) 12000000 = Inr (interest div 100) \<and> 100 dvd interest)
    \<and> (0 < loan_amt \<and> 0 < rate_bp \<and> months \<le> 100000 \<longrightarrow>
         \<bar>of_int (emi div 100) - annuity loan_amt rate_bp months\<bar> \<le> 1 / 2 + annuity loan_amt rate_bp months / 10 ^ 20)"
proof -
  from assms have emi: "emi_of loan_amt rate_bp months = Inr emi"
    and sched: "emi_rows rate_bp emi loan_amt first_due 1 n = Inr sched"
    by (auto simp: emi_schedule_def ebind_Inr)
  have "100 dvd emi" using emi by (auto simp: emi_of_def ebind_Inr)
  with emi_rows_split [OF sched] emi_near_annuity [OF emi] show ?thesis by simp
qed

lemma emi_car_loan: "emi_of (R 800000) 950 60 = Inr (R 16801)"
  by code_simp

theorem emi_schedule_split_witness:
  "\<exists>emi sched. emi_schedule (R 800000) 950 60 (D 2025 12 5) 4 = Inr (emi, sched)
     \<and> emi = R 16801 \<and> length sched = 4 \<and> \<bar>16801 - annuity (R 800000) 950 60\<bar> \<le> 1 / 2 + annuity (R 800000) 950 60 / 10 ^ 20"
proof -
  have sched: "emi_schedule (R 800000) 950 60 (D 2025 12 5) 4
      = Inr (1680100, [(1, D 2025 12 5, 1680100, 633300, 1046800), (2, D 2026 1 5, 1680100, 625000, 1055100),
          (3, D 2026 2 5, 1680100, 616700, 1063400), (4, D 2026 3 5, 1680100, 608300, 1071800)])"
    by code_simp
  from this emi_schedule_split [OF this] show ?thesis by (simp add: R_def)
qed

section \<open>A tie\<close>

text \<open>Rs 60,000 for one month at 0.05 per cent a year: the instalment is Rs 60,002.50 exactly, which the comment of
  \<open>emi_schedule\<close> rounds up to 60,003.  The monthly rate has no finite decimal, the quotient comes out as
  \<open>60002.49999999999999999952001\<close>, and the instalment is 60,002.\<close>

lemma emi_tie_down: "emi_of (R 60000) 5 1 = Inr (R 60002) \<and> annuity (R 60000) 5 1 = 60002.5"
proof
  show "emi_of (R 60000) 5 1 = Inr (R 60002)" by code_simp
qed (simp add: annuity_def R_def)

text \<open>A loan without interest, and one of no instalments, are errors.\<close>

lemma emi_errors:
  "emi_of (R 60000) 0 12 = Inl (ArithmeticError ''InvalidOperation'')"
  "emi_of (R 60000) 5 0 = Inl (ZeroDivisionError ''DivisionByZero'')"
  by code_simp+

end
