(* ===== verification/Spec2Isabelle.thy ===== *)
theory Spec2Isabelle
  imports Build_Main Shamir_Facts Worked_Match Mirror_Facts Print_Watch Worked_Check Worked_Family Trust_Book Individual_Books Family_Books Emi_Facts
begin

text \<open>
  rukka-folio: the reference books and the scripts beside them.

  The program.  \<open>docs/accounting/reference-books/build.py\<close> keeps five worked-example files (twelve ledger
  books for FY 2025-26) as data.  A run builds every book: it adds the accounts, enters the vouchers, balances the
  openings, sorts and numbers the entries, validates and posts them by double entry (\<open>Book.finalize\<close>).  It
  then prints each file in Markdown - chart, ledgers, positions, statements, year end with the entries of
  the close - and its export (Day Book and Cash Book), its technical companion, and the README; turns Markdown into
  HTML; runs \<open>check_md.py\<close> on the folder; and only then lets Chrome print the pages and counts them.
  \<open>check_md.py\<close> shares no code with it: it reads the printed Markdown back with regular expressions
  and re-derives every figure, counting its checks and keeping the text of each problem.
  \<open>packages/core_crypto/test/vectors/shamir_ref.py\<close> is the second implementation of the app's secret sharing.
  \<open>scripts/journey_print_watch.py\<close> taps through Android's print sheet while the app's journeys run.
  \<open>scripts/design_mirror_extract.py\<close> recovers the design files that a session fetched from its transcript and saved results
  and writes them to the mirror under \<open>design/\<close>; \<open>scripts/design_match.py\<close> finds the frames of the mirror's
  canvases, indexes them by screen, renders and pairs them with the app's captures, and stamps a screen's record with
  the hashes that say later whether it is stale.

  Conventions.  Money is integer paise (\<open>int\<close>; Python's integers do not wrap).  A Python \<open>str\<close> is the list of its
  UTF-8 bytes, so a literal of the source is a literal here; lengths that the source takes of
  characters are counted as characters (\<open>char_count\<close>).  A \<open>raise\<close> or a failed \<open>assert\<close> is \<open>Inl\<close> of the type
  \<open>error\<close>, and a function that may raise returns \<open>error + 'a\<close>.  A dictionary filled in order is the list of its
  bindings or of its values.  An object that the source fills in later is a record extension
  (\<open>account\<close> and \<open>ledger_account\<close>, \<open>book\<close> and \<open>posted_book\<close>).  Definitions keep the names of the source, with a
  suffix where a name is taken (\<open>openings_of\<close>, \<open>equity_parts_read\<close>).

  What models what.
  \<open>Prelude\<close>, \<open>Money\<close>, \<open>Calendar\<close>, \<open>Markdown\<close>: errors, Python's string operations, \<open>fmt\<close> / \<open>paise\<close> / \<open>amt_side\<close> /
    \<open>split_side\<close>, \<open>half_up\<close>, dates and branch days, \<open>table\<close> and \<open>read_tables\<close>.  Lemmas: what is printed is read
    back (amounts, sides, dates, tables); rounding is to the nearest.
  \<open>Accounts\<close>, \<open>Posting\<close>, \<open>Ledger_Facts\<close>: \<open>KIND\<close>, \<open>Account\<close>, \<open>Voucher\<close>, \<open>Book\<close> and its operations; \<open>finalize\<close>,
    \<open>validate_vouchers\<close>, \<open>post\<close>, \<open>validate_balances\<close>.  Lemmas: the invariant \<open>posted_ok\<close> of a finalised book, the laws
    of double entry (locale \<open>double_entry\<close>, interpreted on the ledger accounts), trial balance, running balances.
  \<open>Year_Close\<close>, \<open>Close_Facts\<close>: \<open>appropriation\<close>, \<open>close_entries\<close>, \<open>close_posts\<close>, \<open>post_close_balances\<close>.  Lemmas: the
    contract of a close (locale \<open>closed_book\<close>, interpreted on \<open>closable\<close> books): heads, drawings and the result
    account at nil, own money carried by the result, the shares adding up to the paisa.
  \<open>Report_Ledgers\<close>, \<open>Report_Books\<close>, \<open>Report_Position\<close>, \<open>Report_Year_End\<close>, \<open>Report_Family\<close>: every section the printer
    draws, \<open>render_case\<close> and \<open>render_export\<close>.  Lemmas: which sections may raise and exactly when, that the
    ledgers, the export, the bank statement, the balance sheet and the carry-forward agree with the posted
    book (the ledgers and the bank statement cell by cell), that open items are settled oldest first, and that the plain-word lint holds of what is printed.
  \<open>Book_Check\<close>, \<open>Shop_Book\<close>, \<open>Partnership_Book\<close>, \<open>Trust_Book\<close>, \<open>Individual_Books\<close>, \<open>Family_Books\<close>: the twelve books as
    \<open>build_*\<close> write them, entry by entry, and a decision procedure (a skeleton of kinds and amounts)
    by which the kernel evaluates \<open>finalize\<close> on them.
  \<open>Decimal\<close>, \<open>Emi\<close>, \<open>Decimal_Facts\<close>, \<open>Emi_Facts\<close>: the loan schedule, its instalment computed digit for digit
    as Python's \<open>decimal\<close> does at 28 digits.  Lemmas: every operation is within one part in \<open>10^27\<close>, so the
    instalment is the annuity to half a rupee.
  \<open>Companion\<close>, \<open>Cases\<close>, \<open>Blake2b\<close>, \<open>Readme\<close>, \<open>Html\<close>, \<open>Build_Main\<close>: \<open>render_tech\<close>, the prose of the five files,
    the hash, \<open>render_readme\<close>, \<open>md_to_html\<close> and \<open>to_pdf\<close>, and \<open>main\<close> as actions on the folder.  Lemmas: a table of the
    Markdown becomes one HTML table cell for cell, lists nest, and what each exit code of \<open>main\<close> says.
  \<open>Regex\<close>: Python's \<open>re\<close> as a backtracking matcher on terms.  \<open>Checks\<close>: the checker's \<open>ok\<close> as a computation that
    counts checks and collects problems (\<open>'a checked\<close>); \<open>passes\<close> is a run without problems, and the collection
    \<open>passing\<close> says what it shows of each combinator.
  \<open>Check_Parse\<close>, \<open>Check_Ledgers\<close>, \<open>Check_Reports\<close>, \<open>Check_Closing\<close>, \<open>Check_Family\<close>, \<open>Check_Main\<close>: \<open>check_md.py\<close>, function
    by function.  \<open>Check_Facts\<close>, \<open>Check_Accepts\<close>, \<open>Check_Sound\<close>: the checker's re-derivations equal the builder's
    definitions; the ledger the builder prints passes every check; a book read without problems is well
    formed and balances.
  \<open>Print_Watch\<close>: one pass of the watcher as a function, its loop as a step relation over the device's
    answers and the clock; a trace invariant and a bound on the passes.
  \<open>Shamir\<close>: the multiplication of GF(256), shares and their combination on words of 8 bits, and the script's
    checks.  Lemmas: the bytes are a field, so by Lagrange's formula (proved over any field in \<open>Shamir_Facts\<close>)
    enough shares give the secret back, fewer fit every secret, and the script's assertions hold.
  \<open>Json\<close>, \<open>Json_Facts\<close>: \<open>json.loads\<close> as a lexer and a stack machine, \<open>json.dump\<close>, and strict UTF-8.  Lemmas: what is dumped
    is loaded again (\<open>loads_dumps\<close>).  \<open>Disk\<close>: files, the two streams, and actions that may raise (\<open>'a act\<close>), which the
    runs of \<open>build.py\<close> and of the two design scripts share.  \<open>Sha256\<close>: SHA-256 on words of 32 bits.
  \<open>Mirror_Extract\<close>, \<open>Mirror_Facts\<close>: \<open>design_mirror_extract.py\<close> as a whole.  Files are named by
    their absolute paths without \<open>..\<close>.  Lemmas: only files that paths of the mirror set name are touched, outside the
    mirror only by a path with a \<open>..\<close> (and then really: \<open>mirror_escapes\<close>), and of each path the newest copy
    fetched in full is written.
  \<open>Design_Match\<close>, \<open>Match_Facts\<close>: \<open>design_match.py\<close>, its five commands and its selftest.  Lemmas: every phone of a source
    that was read is framed, the index names every frame once and under its own screen, and a record that was
    stamped is read back as itself with its hashes.
  \<open>Worked_Books\<close>, \<open>Worked_Reports\<close>, \<open>Worked_Family\<close>, \<open>Worked_Check\<close>, \<open>Worked_Match\<close>: the general theorems on concrete inputs.

  Evaluation.  All definitions are executable.  Evaluated by generated code (outside this library,
  which uses no oracle), \<open>build_main\<close> on \<open>CASE_BUILDERS\<close> writes the 27 committed \<open>.md\<close> and \<open>.html\<close> files of the folder byte
  for byte and exits with 0, and \<open>check_main\<close> makes 22318 checks on the folder and finds no problem.
  \<open>stamp\<close> on the 77 committed records of \<open>design/match\<close> gives 50 of them byte for byte; the other 27 get the new hashes
  a recomputation gives, their sources having changed since.  \<open>doc_id\<close> with the table of \<open>docs/13\<close> section 3.3 files
  the 343 frames of \<open>canvas-index.json\<close> under the screens it names, and the selftest passes.

  Termination and fuel.  There is no fuel: loops over text or items are recursive functions with a
  measure (\<open>split_sub_aux\<close>, \<open>read_tables_aux\<close>, \<open>html_lines\<close>, \<open>find_all\<close>, \<open>blake_blocks\<close>).  The watcher's loop
  ends by its deadline and is a relation.

  Not modelled, and why.  Chrome and adb are not in the repository: the first is a function from a page to a
  PDF, the second the text it returns.  For the design
  scripts the times of files, the local zone, the text of a \<open>JSONDecodeError\<close> and the table of \<open>html.unescape\<close> come from
  outside too; their times are exact rationals, \<open>fromisoformat\<close> takes the grammar of Python 3.7 to 3.10, \<open>float\<close>
  takes decimals (no infinities), and a folder exists when it holds a file.  Of Unicode, \<open>\w\<close> and \<open>strip\<close> see ASCII only, and \<open>repr\<close> of unprintable
  characters is not escaped; the texts of the repository stay within that.  \<open>check_md.py\<close>'s progress line
  for each book is left out of its output.  The superseded engines under \<open>docs/archive/\<close> are kept by the repository for the
  record only and are not modelled.
\<close>

section \<open>The reference books\<close>

text \<open>C37. The twelve books of the five files, as the builders write them, pass every assertion of their construction, of
  \<open>validate_vouchers\<close> and of \<open>validate_balances\<close> (cash never negative, gollak counts, deposits on open branch days only,
  fund payments), and their accounts close at the balances their printed trial balances show.\<close>

theorem reference_books:
  "(\<exists>pb. build_sh = Inr pb \<and> map aname (accounts pb) = sh_names \<and> map closing (accounts pb) = sh_closing)
   \<and> (\<exists>pb. build_pf = Inr pb \<and> map aname (accounts pb) = pf_names \<and> map closing (accounts pb) = pf_closing)
   \<and> (\<exists>pb. build_tr = Inr pb \<and> map aname (accounts pb) = tr_names \<and> map closing (accounts pb) = tr_closing)
   \<and> (\<exists>pb. build_jt = Inr pb \<and> map aname (accounts pb) = jt_names \<and> map closing (accounts pb) = jt_closing)
   \<and> (\<exists>pb. build_jp = Inr pb \<and> map aname (accounts pb) = jp_names \<and> map closing (accounts pb) = jp_closing)
   \<and> (\<exists>pb. build_fj = Inr pb \<and> map closing (accounts pb) = fj_closing)
   \<and> (\<exists>pb. build_fa = Inr pb \<and> map closing (accounts pb) = fa_closing)
   \<and> (\<exists>pb. build_fb = Inr pb \<and> map closing (accounts pb) = fb_closing)
   \<and> (\<exists>pb. build_fc = Inr pb \<and> map closing (accounts pb) = fc_closing)
   \<and> (\<exists>pb. build_fg = Inr pb \<and> map closing (accounts pb) = fg_closing)
   \<and> (\<exists>pb. build_fe = Inr pb \<and> map closing (accounts pb) = fe_closing)
   \<and> (\<exists>pb. build_fk = Inr pb \<and> map closing (accounts pb) = fk_closing)"
proof (intro conjI)
qed (use sh_built pf_built tr_built jt_built jp_built fj_built fa_built fb_built fc_built fg_built fe_built fk_built in blast)+

end
